(* ===== verification/Prelude.thy ===== *)
theory Prelude
  imports Main "HOL-Library.Word" "HOL-Library.Multiset" "HOL-Library.List_Lexorder"
    "HOL-Library.Char_ord" "HOL-Library.Product_Lexorder"
begin

text \<open>
  Shared ground of the development: the collections of simplification rules the component
  theories fill, the machine integers of Go (\<open>int64\<close> arithmetic wraps, \<open>uint32\<close> is a word),
  and the generic facts on lists that several components use: removing duplicates through a
  \<open>seen\<close> set, stable sorting by a key, and maps kept as association lists.
\<close>

named_theorems go_defs \<open>unfolding rules of the modelled Go operations\<close>
named_theorems frame \<open>what an operation leaves unchanged\<close>

type_synonym byte = "8 word"
type_synonym uint32 = "32 word"

subsection \<open>64-bit signed integers\<close>

text \<open>
  A Go \<open>int64\<close> (and \<open>int\<close> on the 64-bit platforms the program is built for) is an \<open>int\<close> of
  the model; where the code adds or multiplies values that are not bounded by a check, the sum is
  brought back into the range by \<open>i64\<close>, which is the two's complement reading of the low 64 bits.
\<close>

definition i64 :: "int \<Rightarrow> int" where
  "i64 x = signed_take_bit 63 x"

definition i64_ok :: "int \<Rightarrow> bool" where
  "i64_ok x \<longleftrightarrow> - (2 ^ 63) \<le> x \<and> x < 2 ^ 63"

lemma i64_id [simp]: "i64_ok x \<Longrightarrow> i64 x = x"
  by (simp add: i64_def i64_ok_def signed_take_bit_int_eq_self_iff)

lemma i64_ok_i64 [simp]: "i64_ok (i64 x)"
  using signed_take_bit_int_greater_eq_minus_exp [of 63 x] signed_take_bit_int_less_exp [of 63 x]
  by (simp add: i64_def i64_ok_def)

lemma i64_nonneg_small [simp]: "0 \<le> x \<Longrightarrow> x < 9223372036854775808 \<Longrightarrow> i64 x = x"
  by (simp add: i64_ok_def)

lemma i64_wrap: "i64 (i64 x + y) = i64 (x + y)" "i64 (x + i64 y) = i64 (x + y)"
  unfolding i64_def by (metis signed_take_bit_add signed_take_bit_signed_take_bit min.idem)+

lemma i64_code [code]:
  "i64 x = (if - 9223372036854775808 \<le> x \<and> x < 9223372036854775808 then x else signed_take_bit 63 x)"
  using i64_id [of x] by (simp add: i64_ok_def i64_def)

subsection \<open>Removing duplicates\<close>

text \<open>
  The loop \<open>if seen[v] \<dots> continue; seen[v] = true; out = append(out, v)\<close>: the first occurrence of
  every value is kept, in order.
\<close>

fun uniq :: "'a list \<Rightarrow> 'a list \<Rightarrow> 'a list" where
  "uniq seen [] = []"
| "uniq seen (x # xs) = (if List.member seen x then uniq seen xs else x # uniq (x # seen) xs)"

lemma set_uniq: "set (uniq seen xs) = set xs - set seen"
  by (induction xs arbitrary: seen) auto

lemma distinct_uniq: "distinct (uniq seen xs)"
  by (induction xs arbitrary: seen) (auto simp: set_uniq)

lemma uniq_id: "distinct xs \<Longrightarrow> set xs \<inter> set seen = {} \<Longrightarrow> uniq seen xs = xs"
  by (induction xs arbitrary: seen) auto

subsection \<open>Stable sorting\<close>

lemma sort_key_idem [simp]: "sort_key f (sort_key f xs) = sort_key f xs"
  by (simp add: sort_key_id_if_sorted)

lemma sort_idem [simp]: "sort (sort xs) = sort xs"
  by (rule sorted_sort_id) (rule sorted_sort)

lemma sort_uniq_idem [simp]: "sort (uniq [] (sort (uniq [] xs))) = sort (uniq [] xs)"
  by (simp add: uniq_id distinct_uniq)

text \<open>Two orderings of the same elements sort to the same list when the key is injective on them.\<close>

lemma sort_key_perm_eq:
  fixes f :: "'a \<Rightarrow> 'b::linorder"
  assumes "mset xs = mset ys" and "inj_on f (set xs)"
  shows "sort_key f xs = sort_key f ys"
proof -
  have "sort (map f (sort_key f xs)) = sort (map f (sort_key f ys))"
    by (simp flip: sorted_list_of_multiset_mset add: assms(1))
  then have "map f (sort_key f xs) = map f (sort_key f ys)"
    by (simp add: sorted_sort_id)
  moreover have "set xs = set ys" using assms(1) by (rule mset_eq_setD)
  ultimately show ?thesis using assms(2) by (simp add: map_inj_on)
qed

end
