(* ===== verification/Go_Strings.thy ===== *)
theory Go_Strings
  imports Prelude
begin

text \<open>
  The part of Go's \<open>strings\<close>, \<open>strconv\<close> and \<open>hash/fnv\<close> packages that the program uses. A Go string
  is a sequence of bytes, so it is a \<open>string\<close> of the model (a list of 8-bit characters).
  \<^item> \<open>TrimSpace\<close> and \<open>Fields\<close> are exact on every byte string: the runes that \<open>unicode.IsSpace\<close>
    accepts are listed by their UTF-8 encodings, whose lead bytes never occur inside another
    encoding, so matching them bytewise is what decoding rune by rune does.
  \<^item> \<open>ToUpper\<close>, \<open>ToLower\<close> and \<open>EqualFold\<close> are exact on ASCII strings and leave other bytes alone,
    where Go consults its Unicode case tables.
\<close>

subsection \<open>White space\<close>

definition space_words :: "string list" where
  "space_words =
     [[CHR 0x20], [CHR 0x09], [CHR 0x0A], [CHR 0x0B], [CHR 0x0C], [CHR 0x0D],
      [CHR 0xC2, CHR 0x85], [CHR 0xC2, CHR 0xA0], [CHR 0xE1, CHR 0x9A, CHR 0x80],
      [CHR 0xE2, CHR 0x80, CHR 0x80], [CHR 0xE2, CHR 0x80, CHR 0x81],
      [CHR 0xE2, CHR 0x80, CHR 0x82], [CHR 0xE2, CHR 0x80, CHR 0x83],
      [CHR 0xE2, CHR 0x80, CHR 0x84], [CHR 0xE2, CHR 0x80, CHR 0x85],
      [CHR 0xE2, CHR 0x80, CHR 0x86], [CHR 0xE2, CHR 0x80, CHR 0x87],
      [CHR 0xE2, CHR 0x80, CHR 0x88], [CHR 0xE2, CHR 0x80, CHR 0x89],
      [CHR 0xE2, CHR 0x80, CHR 0x8A], [CHR 0xE2, CHR 0x80, CHR 0xA8],
      [CHR 0xE2, CHR 0x80, CHR 0xA9], [CHR 0xE2, CHR 0x80, CHR 0xAF],
      [CHR 0xE2, CHR 0x81, CHR 0x9F], [CHR 0xE3, CHR 0x80, CHR 0x80]]"

text \<open>The length of the word of \<open>ws\<close> that \<open>s\<close> starts with, 0 if there is none.\<close>

definition lead :: "string list \<Rightarrow> string \<Rightarrow> nat" where
  "lead ws s = (case find (\<lambda>w. take (length w) s = w) ws of None \<Rightarrow> 0 | Some w \<Rightarrow> length w)"

function trim_lead :: "string list \<Rightarrow> string \<Rightarrow> string" where
  "trim_lead ws s = (if lead ws s = 0 \<or> s = [] then s else trim_lead ws (drop (lead ws s) s))"
  by pat_completeness auto
termination
  by (relation "measure (\<lambda>(ws, s). length s)") auto

declare trim_lead.simps [simp del]

definition TrimSpace :: "string \<Rightarrow> string" where
  "TrimSpace s = rev (trim_lead (map rev space_words) (rev (trim_lead space_words s)))"

lemma lead_Nil [simp]: "lead ws [] = 0"
  by (auto simp: lead_def find_Some_iff split: option.splits)

lemma trim_lead_Nil [simp]: "trim_lead ws [] = []"
  by (simp add: trim_lead.simps)

lemma trim_lead_fixed: "lead ws s = 0 \<Longrightarrow> trim_lead ws s = s"
  by (simp add: trim_lead.simps)

lemma lead_trim_lead [simp]: "lead ws (trim_lead ws s) = 0"
  by (induction ws s rule: trim_lead.induct) (subst trim_lead.simps, auto)

lemma trim_lead_suffix: "\<exists>p. s = p @ trim_lead ws s"
proof (induction ws s rule: trim_lead.induct)
  case (1 ws s)
  show ?case
  proof (cases "lead ws s = 0 \<or> s = []")
    case True
    then show ?thesis by (simp add: trim_lead.simps [of ws s])
  next
    case False
    then obtain p where "drop (lead ws s) s = p @ trim_lead ws (drop (lead ws s) s)"
      using 1 by blast
    then have "s = (take (lead ws s) s @ p) @ trim_lead ws s"
      using False by (metis append_assoc append_take_drop_id trim_lead.simps)
    then show ?thesis by blast
  qed
qed

lemma find_Some_in: "find P xs = Some x \<Longrightarrow> x \<in> set xs \<and> P x"
  by (induction xs) (auto split: if_splits)

lemma lead_eq_0:
  assumes "[] \<notin> set ws"
  shows "lead ws s = 0 \<longleftrightarrow> (\<forall>w \<in> set ws. take (length w) s \<noteq> w)"
proof (cases "find (\<lambda>w. take (length w) s = w) ws")
  case None
  moreover from this have "\<forall>w \<in> set ws. take (length w) s \<noteq> w"
    by (simp add: find_None_iff Ball_def)
  ultimately show ?thesis by (simp add: lead_def)
next
  case (Some w)
  then have "w \<in> set ws \<and> take (length w) s = w" by (rule find_Some_in)
  moreover from this have "length w \<noteq> 0" using assms by auto
  ultimately show ?thesis using Some by (auto simp: lead_def)
qed

text \<open>A string that starts with no word still starts with none after its end is cut off.\<close>

lemma lead_prefix_0:
  assumes "lead ws (s @ t) = 0" and "[] \<notin> set ws"
  shows "lead ws s = 0"
proof -
  have "take (length w) (s @ t) = w" if "take (length w) s = w" for w
  proof -
    have "length w \<le> length s" using that by (metis length_take min.cobounded1)
    then show ?thesis using that by simp
  qed
  then show ?thesis using assms by (auto simp: lead_eq_0)
qed

lemma space_words_nonempty [simp]: "[] \<notin> set space_words" "[] \<notin> set (map rev space_words)"
  by (auto simp: space_words_def)

lemma TrimSpace_Nil [simp]: "TrimSpace [] = []"
  by (simp add: TrimSpace_def)

text \<open>A trimmed string neither starts nor ends with a space.\<close>

lemma lead_TrimSpace [simp]: "lead space_words (TrimSpace s) = 0"
proof -
  let ?t = "trim_lead space_words s"
  obtain p where "rev ?t = p @ trim_lead (map rev space_words) (rev ?t)"
    using trim_lead_suffix by blast
  then have "?t = TrimSpace s @ rev p"
    by (simp add: TrimSpace_def) (metis rev_append rev_rev_ident)
  then have "lead space_words (TrimSpace s @ rev p) = 0"
    by (metis lead_trim_lead)
  then show ?thesis by (rule lead_prefix_0) simp
qed

lemma lead_rev_TrimSpace [simp]: "lead (map rev space_words) (rev (TrimSpace s)) = 0"
  by (simp add: TrimSpace_def)

definition trimmed :: "string \<Rightarrow> bool" where
  "trimmed s \<longleftrightarrow> lead space_words s = 0 \<and> lead (map rev space_words) (rev s) = 0"

lemma trimmed_TrimSpace [simp]: "trimmed (TrimSpace s)"
  by (simp add: trimmed_def)

lemma TrimSpace_id [simp]: "trimmed s \<Longrightarrow> TrimSpace s = s"
  by (simp add: trimmed_def TrimSpace_def trim_lead_fixed)

lemma TrimSpace_idem: "TrimSpace (TrimSpace s) = TrimSpace s"
  by simp

lemma trimmed_iff: "trimmed s \<longleftrightarrow> TrimSpace s = s"
  by (metis TrimSpace_id trimmed_TrimSpace)

subsection \<open>Letter case\<close>

abbreviation code :: "char \<Rightarrow> nat" where
  "code c \<equiv> of_char c"

definition up_char :: "char \<Rightarrow> char" where
  "up_char c = (if 97 \<le> code c \<and> code c \<le> 122 then char_of (code c - 32) else c)"

definition low_char :: "char \<Rightarrow> char" where
  "low_char c = (if 65 \<le> code c \<and> code c \<le> 90 then char_of (code c + 32) else c)"

definition ToUpper :: "string \<Rightarrow> string" where
  "ToUpper s = map up_char s"

definition ToLower :: "string \<Rightarrow> string" where
  "ToLower s = map low_char s"

definition EqualFold :: "string \<Rightarrow> string \<Rightarrow> bool" where
  "EqualFold s t \<longleftrightarrow> ToLower s = ToLower t"

lemma code_char_of [simp]: "n < 256 \<Longrightarrow> code (char_of n) = n"
  by simp

lemma code_up_char: "code (up_char c) = (if 97 \<le> code c \<and> code c \<le> 122 then code c - 32 else code c)"
  by (auto simp: up_char_def)

lemma code_low_char: "code (low_char c) = (if 65 \<le> code c \<and> code c \<le> 90 then code c + 32 else code c)"
  by (auto simp: low_char_def)

lemma up_char_idem [simp]: "up_char (up_char c) = up_char c"
  by (auto simp: up_char_def)

lemma low_char_idem [simp]: "low_char (low_char c) = low_char c"
  by (auto simp: low_char_def)

lemma ToUpper_idem [simp]: "ToUpper (ToUpper s) = ToUpper s"
  by (simp add: ToUpper_def)

lemma ToLower_idem [simp]: "ToLower (ToLower s) = ToLower s"
  by (simp add: ToLower_def)

lemma length_ToUpper [simp]: "length (ToUpper s) = length s"
  by (simp add: ToUpper_def)

lemma length_ToLower [simp]: "length (ToLower s) = length s"
  by (simp add: ToLower_def)

lemma ToUpper_Nil [simp]: "ToUpper s = [] \<longleftrightarrow> s = []" "ToUpper [] = []"
  by (simp_all add: ToUpper_def)

lemma ToLower_Nil [simp]: "ToLower s = [] \<longleftrightarrow> s = []" "ToLower [] = []"
  by (simp_all add: ToLower_def)

lemma EqualFold_refl [simp]: "EqualFold s s"
  by (simp add: EqualFold_def)

lemma EqualFold_sym: "EqualFold s t \<longleftrightarrow> EqualFold t s"
  by (auto simp: EqualFold_def)

lemma EqualFold_trans: "EqualFold s t \<Longrightarrow> EqualFold t u \<Longrightarrow> EqualFold s u"
  by (simp add: EqualFold_def)

text \<open>Changing the case of letters commutes with trimming, since no space word holds a letter.\<close>

definition no_letter :: "char \<Rightarrow> bool" where
  "no_letter b \<longleftrightarrow> \<not> (65 \<le> code b \<and> code b \<le> 90) \<and> \<not> (97 \<le> code b \<and> code b \<le> 122)"

lemma up_char_no_letter: "no_letter b \<Longrightarrow> up_char c = b \<longleftrightarrow> c = b"
  by (auto simp: no_letter_def up_char_def)

lemma low_char_no_letter: "no_letter b \<Longrightarrow> low_char c = b \<longleftrightarrow> c = b"
  by (auto simp: no_letter_def low_char_def)

lemma map_eq_no_letter:
  assumes "\<And>b c. no_letter b \<Longrightarrow> f c = b \<longleftrightarrow> c = b" and "list_all no_letter w"
  shows "map f s = w \<longleftrightarrow> s = w"
  using assms(2)
proof (induction w arbitrary: s)
  case (Cons b w)
  then show ?case using assms(1) by (cases s) simp_all
qed simp

lemma lead_map:
  assumes "\<And>b c. no_letter b \<Longrightarrow> f c = b \<longleftrightarrow> c = b" and "list_all (list_all no_letter) ws"
  shows "lead ws (map f s) = lead ws s"
proof -
  have "(take (length w) (map f s) = w) = (take (length w) s = w)" if "w \<in> set ws" for w
    using map_eq_no_letter [OF assms(1), of w "take (length w) s"] assms(2) that
    by (simp add: take_map list_all_iff)
  then have "find (\<lambda>w. take (length w) (map f s) = w) ws = find (\<lambda>w. take (length w) s = w) ws"
    by (induction ws) auto
  then show ?thesis by (simp add: lead_def)
qed

lemma trim_lead_map:
  assumes "\<And>b c. no_letter b \<Longrightarrow> f c = b \<longleftrightarrow> c = b" and "list_all (list_all no_letter) ws"
  shows "trim_lead ws (map f s) = map f (trim_lead ws s)"
  using assms(2)
proof (induction ws s rule: trim_lead.induct)
  case (1 ws s)
  have eq: "lead ws (map f s) = lead ws s" by (rule lead_map [OF assms(1) "1.prems"])
  show ?case
    using "1.IH" "1.prems" by (simp add: trim_lead.simps [of ws s] trim_lead.simps [of ws "map f s"] eq drop_map)
qed

lemma space_words_no_letter:
  "list_all (list_all no_letter) space_words" "list_all (list_all no_letter) (map rev space_words)"
  by (simp_all add: space_words_def no_letter_def)

lemma TrimSpace_ToUpper: "TrimSpace (ToUpper s) = ToUpper (TrimSpace s)"
  by (simp add: TrimSpace_def ToUpper_def trim_lead_map up_char_no_letter space_words_no_letter
      rev_map)

lemma TrimSpace_ToLower: "TrimSpace (ToLower s) = ToLower (TrimSpace s)"
  by (simp add: TrimSpace_def ToLower_def trim_lead_map low_char_no_letter space_words_no_letter
      rev_map)

lemma trimmed_ToUpper [simp]: "trimmed s \<Longrightarrow> trimmed (ToUpper s)"
  by (simp add: trimmed_iff TrimSpace_ToUpper)

lemma trimmed_ToLower [simp]: "trimmed s \<Longrightarrow> trimmed (ToLower s)"
  by (simp add: trimmed_iff TrimSpace_ToLower)

subsection \<open>Prefixes, substrings, cutting\<close>

definition HasPrefix :: "'a list \<Rightarrow> 'a list \<Rightarrow> bool" where
  "HasPrefix s p \<longleftrightarrow> take (length p) s = p"

definition HasSuffix :: "'a list \<Rightarrow> 'a list \<Rightarrow> bool" where
  "HasSuffix s p \<longleftrightarrow> HasPrefix (rev s) (rev p)"

definition TrimPrefix :: "'a list \<Rightarrow> 'a list \<Rightarrow> 'a list" where
  "TrimPrefix s p = (if HasPrefix s p then drop (length p) s else s)"

fun Contains :: "'a list \<Rightarrow> 'a list \<Rightarrow> bool" where
  "Contains [] sub = (sub = [])"
| "Contains (c # s) sub = (HasPrefix (c # s) sub \<or> Contains s sub)"

text \<open>\<open>strings.Trim(s, cutset)\<close> for a cutset of ASCII characters.\<close>

definition TrimCut :: "char list \<Rightarrow> string \<Rightarrow> string" where
  "TrimCut cs s = rev (dropWhile (\<lambda>c. List.member cs c) (rev (dropWhile (\<lambda>c. List.member cs c) s)))"

text \<open>\<open>strings.Split\<close> with a separator of one byte.\<close>

fun Split :: "'a \<Rightarrow> 'a list \<Rightarrow> 'a list list" where
  "Split c [] = [[]]"
| "Split c (x # xs) =
     (if x = c then [] # Split c xs
      else case Split c xs of [] \<Rightarrow> [[x]] | w # ws \<Rightarrow> (x # w) # ws)"

lemma HasPrefix_append [simp]: "HasPrefix (p @ s) p"
  by (simp add: HasPrefix_def)

lemma HasPrefix_iff: "HasPrefix s p \<longleftrightarrow> (\<exists>t. s = p @ t)"
  by (metis HasPrefix_append HasPrefix_def append_take_drop_id)

lemma Split_not_Nil [simp]: "Split c xs \<noteq> []"
  by (induction xs) (auto split: list.splits)

lemma Split_append:
  "c \<notin> set xs \<Longrightarrow> Split c (xs @ c # ys) = xs # Split c ys"
  by (induction xs) auto

lemma Split_free: "c \<notin> set xs \<Longrightarrow> Split c xs = [xs]"
  by (induction xs) auto

text \<open>\<open>strings.Fields\<close>: the maximal runs of non-space bytes. The first argument is the field being
  read, reversed.\<close>

function fields_from :: "string \<Rightarrow> string \<Rightarrow> string list" where
  "fields_from cur s =
     (case s of
        [] \<Rightarrow> (if cur = [] then [] else [rev cur])
      | c # t \<Rightarrow>
          (case lead space_words s of
             0 \<Rightarrow> fields_from (c # cur) t
           | Suc n \<Rightarrow> (if cur = [] then [] else [rev cur]) @ fields_from [] (drop n t)))"
  by pat_completeness auto
termination
  by (relation "measure (\<lambda>(cur, s). length s)") auto

declare fields_from.simps [simp del]

definition Fields :: "string \<Rightarrow> string list" where
  "Fields s = fields_from [] s"

definition graphic :: "char \<Rightarrow> bool" where
  "graphic c \<longleftrightarrow> 33 \<le> code c \<and> code c \<le> 126"

lemma lead_graphic: "graphic c \<Longrightarrow> lead space_words (c # s) = 0"
  by (auto simp: lead_eq_0 space_words_def graphic_def)

lemma lead_rev_graphic: "graphic c \<Longrightarrow> lead (map rev space_words) (c # s) = 0"
  by (subst lead_eq_0) (auto simp: space_words_def graphic_def)

lemma trimmed_graphic: "list_all graphic s \<Longrightarrow> trimmed s"
proof -
  assume g: "list_all graphic s"
  have "lead space_words s = 0" using g by (cases s) (auto simp: lead_graphic)
  moreover have "list_all graphic (rev s)" using g by simp
  then have "lead (map rev space_words) (rev s) = 0"
    by (cases "rev s") (auto simp: lead_rev_graphic)
  ultimately show ?thesis by (simp add: trimmed_def)
qed

lemma lead_space: "lead space_words (CHR '' '' # s) = 1"
  by (simp add: lead_def space_words_def)

lemma fields_from_graphic:
  "list_all graphic w \<Longrightarrow> fields_from cur (w @ s) = fields_from (rev w @ cur) s"
  by (induction w arbitrary: cur) (simp_all add: fields_from.simps [of _ "_ # _"] lead_graphic)

lemma fields_from_end: "cur \<noteq> [] \<Longrightarrow> fields_from cur [] = [rev cur]"
  by (simp add: fields_from.simps)

lemma fields_from_space: "cur \<noteq> [] \<Longrightarrow> fields_from cur (CHR '' '' # s) = rev cur # fields_from [] s"
  by (simp add: fields_from.simps [of cur] lead_space)

subsection \<open>Decimal numbers\<close>

fun digits :: "nat \<Rightarrow> string" where
  "digits n = (if n < 10 then [char_of (48 + n)] else digits (n div 10) @ [char_of (48 + n mod 10)])"

declare digits.simps [simp del]

definition Itoa :: "int \<Rightarrow> string" where
  "Itoa i = (if i < 0 then CHR ''-'' # digits (nat (- i)) else digits (nat i))"

definition is_digit :: "char \<Rightarrow> bool" where
  "is_digit c \<longleftrightarrow> 48 \<le> code c \<and> code c \<le> 57"

fun read_digits :: "nat \<Rightarrow> string \<Rightarrow> nat option" where
  "read_digits acc [] = Some acc"
| "read_digits acc (c # cs) =
     (if is_digit c then read_digits (acc * 10 + (code c - 48)) cs else None)"

text \<open>\<open>strconv.Atoi\<close>: an optional sign and at least one digit, in the range of \<open>int64\<close>.\<close>

definition Atoi :: "string \<Rightarrow> int option" where
  "Atoi s =
     (let neg = (case s of [] \<Rightarrow> False | c # _ \<Rightarrow> c = CHR ''-'');
          ds = (case s of [] \<Rightarrow> [] | c # cs \<Rightarrow> if c = CHR ''-'' \<or> c = CHR ''+'' then cs else s)
      in if ds = [] then None
         else case read_digits 0 ds of
                None \<Rightarrow> None
              | Some n \<Rightarrow> (let i = (if neg then - int n else int n)
                           in if i64_ok i then Some i else None))"

lemma digits_all_digit: "list_all is_digit (digits n)"
proof (induction n rule: digits.induct)
  case (1 n)
  have "is_digit (char_of (48 + n mod 10))"
    using mod_less_divisor [of 10 n] by (simp add: is_digit_def)
  moreover have "is_digit (char_of (48 + n))" if "n < 10" using that by (simp add: is_digit_def)
  ultimately show ?case using 1 by (simp add: digits.simps [of n])
qed

lemma digits_not_Nil [simp]: "digits n \<noteq> []"
  by (subst digits.simps) simp

lemma read_digits_append:
  "list_all is_digit xs \<Longrightarrow>
     read_digits acc (xs @ ys) = Option.bind (read_digits acc xs) (\<lambda>a. read_digits a ys)"
  by (induction xs arbitrary: acc) auto

lemma read_digits_digits: "read_digits 0 (digits n) = Some n"
proof (induction n rule: digits.induct)
  case (1 n)
  show ?case
  proof (cases "n < 10")
    case True
    then show ?thesis by (simp add: digits.simps is_digit_def)
  next
    case False
    then have "read_digits 0 (digits (n div 10)) = Some (n div 10)" using 1 by simp
    then show ?thesis using False
      by (simp add: digits.simps [of n] read_digits_append digits_all_digit is_digit_def)
  qed
qed

lemma digits_hd: "\<exists>c cs. digits n = c # cs \<and> is_digit c"
  using digits_all_digit [of n] by (cases "digits n") auto

lemma Atoi_Itoa: "i64_ok i \<Longrightarrow> Atoi (Itoa i) = Some i"
proof -
  assume ok: "i64_ok i"
  obtain c cs where d: "digits (nat i) = c # cs" "is_digit c" using digits_hd by blast
  then have "c \<noteq> CHR ''-''" "c \<noteq> CHR ''+''" by (auto simp: is_digit_def)
  then show ?thesis using d ok read_digits_digits [of "nat i"] read_digits_digits [of "nat (- i)"]
    by (auto simp: Atoi_def Itoa_def Let_def)
qed

lemma Itoa_inj: "Itoa i = Itoa j \<Longrightarrow> i64_ok i \<Longrightarrow> i64_ok j \<Longrightarrow> i = j"
  by (metis Atoi_Itoa option.inject)

lemma graphic_digit: "is_digit c \<Longrightarrow> graphic c"
  by (simp add: is_digit_def graphic_def)

lemma graphic_digits: "list_all graphic (digits n)"
  using digits_all_digit [of n] by (auto simp: list_all_iff graphic_digit)

lemma Itoa_graphic: "list_all graphic (Itoa i)"
  using graphic_digits by (simp add: Itoa_def graphic_def)

subsection \<open>Bytes and the FNV-1a hash\<close>

unbundle bit_operations_syntax

definition bytes_of :: "string \<Rightarrow> byte list" where
  "bytes_of s = map (\<lambda>c. word_of_nat (code c)) s"

definition string_of :: "byte list \<Rightarrow> string" where
  "string_of bs = map (\<lambda>b. char_of (unat b)) bs"

definition fnv_step :: "uint32 \<Rightarrow> byte \<Rightarrow> uint32" where
  "fnv_step h b = (h XOR ucast b) * 16777619"

definition fnv32a :: "byte list \<Rightarrow> uint32" where
  "fnv32a bs = foldl fnv_step 2166136261 bs"

lemma string_of_bytes_of [simp]: "string_of (bytes_of s) = s"
  by (induction s) (simp_all add: string_of_def bytes_of_def unat_of_nat)

lemma bytes_of_string_of [simp]: "bytes_of (string_of bs) = bs"
proof -
  have "unat b < 2 ^ LENGTH(8)" for b :: byte by (rule unsigned_less)
  then have "unat b mod 256 = unat b" for b :: byte by simp
  then show ?thesis by (induction bs) (simp_all add: string_of_def bytes_of_def)
qed

lemma bytes_of_inj: "bytes_of s = bytes_of t \<longleftrightarrow> s = t"
  by (metis string_of_bytes_of)

lemma bytes_of_append [simp]: "bytes_of (s @ t) = bytes_of s @ bytes_of t"
  by (simp add: bytes_of_def)

lemma string_of_append [simp]: "string_of (s @ t) = string_of s @ string_of t"
  by (simp add: string_of_def)

lemma length_bytes_of [simp]: "length (bytes_of s) = length s"
  by (simp add: bytes_of_def)

lemma length_string_of [simp]: "length (string_of s) = length s"
  by (simp add: string_of_def)

end
