(* ===== verification/Go_Net.thy ===== *)
theory Go_Net
  imports Go_Strings
begin

text \<open>
  The part of Go's \<open>net\<close> package that the program uses: \<open>net.ParseIP\<close> (dotted IPv4, IPv6 with an
  ellipsis and with an embedded IPv4 tail, no zone), the predicates of \<open>net.IP\<close>, and
  \<open>JoinHostPort\<close> / \<open>SplitHostPort\<close>. A \<open>net.IP\<close> is its byte slice; the nil slice is the empty list.
\<close>

type_synonym ip = "byte list"

subsection \<open>Parsing\<close>

definition parse_octet :: "string \<Rightarrow> byte option" where
  "parse_octet w =
     (if w = [] \<or> (1 < length w \<and> hd w = CHR ''0'') then None
      else case read_digits 0 w of
             None \<Rightarrow> None
           | Some n \<Rightarrow> if n \<le> 255 then Some (word_of_nat n) else None)"

definition parse_ipv4 :: "string \<Rightarrow> byte list option" where
  "parse_ipv4 s =
     (case Split (CHR ''.'') s of
        [a, b, c, d] \<Rightarrow>
          (case (parse_octet a, parse_octet b, parse_octet c, parse_octet d) of
             (Some a', Some b', Some c', Some d') \<Rightarrow> Some [a', b', c', d']
           | _ \<Rightarrow> None)
      | _ \<Rightarrow> None)"

definition hex_value :: "char \<Rightarrow> nat option" where
  "hex_value c =
     (if 48 \<le> code c \<and> code c \<le> 57 then Some (code c - 48)
      else if 97 \<le> code c \<and> code c \<le> 102 then Some (code c - 87)
      else if 65 \<le> code c \<and> code c \<le> 70 then Some (code c - 55)
      else None)"

definition is_hex :: "char \<Rightarrow> bool" where
  "is_hex c \<longleftrightarrow> hex_value c \<noteq> None"

fun read_hex :: "nat \<Rightarrow> string \<Rightarrow> nat" where
  "read_hex acc [] = acc"
| "read_hex acc (c # cs) =
     read_hex (acc * 16 + (case hex_value c of None \<Rightarrow> 0 | Some v \<Rightarrow> v)) cs"

text \<open>
  The loop of the IPv6 parser: the bytes read so far, the position of the ellipsis if one was seen,
  and the text that is left. It stops after 16 bytes or at the end of the text.
\<close>

function parse_groups :: "byte list \<Rightarrow> nat option \<Rightarrow> string \<Rightarrow> (byte list \<times> nat option \<times> string) option" where
  "parse_groups ip ell s =
     (if 16 \<le> length ip then Some (ip, ell, s)
      else let h = takeWhile is_hex s; r = dropWhile is_hex s in
        if h = [] \<or> 4 < length h then None
        else if r \<noteq> [] \<and> hd r = CHR ''.'' then
          (if ell = None \<and> length ip \<noteq> 12 then None
           else if 16 < length ip + 4 then None
           else case parse_ipv4 s of None \<Rightarrow> None | Some q \<Rightarrow> Some (ip @ q, ell, []))
        else
          let v = read_hex 0 h; ip' = ip @ [word_of_nat (v div 256), word_of_nat (v mod 256)] in
          (case r of
             [] \<Rightarrow> Some (ip', ell, [])
           | c # r' \<Rightarrow>
               if c \<noteq> CHR '':'' then None
               else (case r' of
                       [] \<Rightarrow> None
                     | d # r'' \<Rightarrow>
                         if d = CHR '':'' then
                           (if ell \<noteq> None then None
                            else if r'' = [] then Some (ip', Some (length ip'), [])
                            else parse_groups ip' (Some (length ip')) r'')
                         else parse_groups ip' ell r')))"
  by pat_completeness auto
termination
  by (relation "measure (\<lambda>(ip, ell, s). 16 - length ip)") auto

declare parse_groups.simps [simp del]

definition parse_ipv6 :: "string \<Rightarrow> byte list option" where
  "parse_ipv6 s =
     (let lead = HasPrefix s ''::''; s' = (if lead then drop 2 s else s) in
      if lead \<and> s' = [] then Some (replicate 16 0)
      else case parse_groups [] (if lead then Some 0 else None) s' of
             None \<Rightarrow> None
           | Some (ip, ell, rest) \<Rightarrow>
               if rest \<noteq> [] then None
               else (case ell of
                       None \<Rightarrow> if length ip < 16 then None else Some ip
                     | Some e \<Rightarrow>
                         if length ip < 16
                         then Some (take e ip @ replicate (16 - length ip) 0 @ drop e ip)
                         else None))"

definition v4_prefix :: "byte list" where
  "v4_prefix = replicate 10 0 @ [255, 255]"

definition ParseIP :: "string \<Rightarrow> ip" where
  "ParseIP s =
     (case find (\<lambda>c. c = CHR ''.'' \<or> c = CHR '':'' \<or> c = CHR 0x25) s of
        None \<Rightarrow> []
      | Some c \<Rightarrow>
          if c = CHR ''.'' then (case parse_ipv4 s of None \<Rightarrow> [] | Some q \<Rightarrow> v4_prefix @ q)
          else if c = CHR '':'' then
            (if List.member s (CHR 0x25) then []
             else case parse_ipv6 s of None \<Rightarrow> [] | Some q \<Rightarrow> q)
          else [])"

subsection \<open>Addresses\<close>

definition IPv4 :: "byte \<Rightarrow> byte \<Rightarrow> byte \<Rightarrow> byte \<Rightarrow> ip" where
  "IPv4 a b c d = v4_prefix @ [a, b, c, d]"

definition To4 :: "ip \<Rightarrow> ip" where
  "To4 p = (if length p = 4 then p
            else if length p = 16 \<and> take 12 p = v4_prefix then drop 12 p
            else [])"

definition To16 :: "ip \<Rightarrow> ip" where
  "To16 p = (if length p = 4 then v4_prefix @ p else if length p = 16 then p else [])"

definition ip_equal :: "ip \<Rightarrow> ip \<Rightarrow> bool" where
  "ip_equal p q \<longleftrightarrow>
     (if length p = length q then p = q
      else if length p = 4 \<and> length q = 16 then v4_prefix @ p = q
      else if length p = 16 \<and> length q = 4 then p = v4_prefix @ q
      else False)"

definition IsUnspecified :: "ip \<Rightarrow> bool" where
  "IsUnspecified p \<longleftrightarrow> ip_equal p (IPv4 0 0 0 0) \<or> ip_equal p (replicate 16 0)"

definition IsLoopback :: "ip \<Rightarrow> bool" where
  "IsLoopback p \<longleftrightarrow>
     (if To4 p \<noteq> [] then To4 p ! 0 = 127 else ip_equal p (replicate 15 0 @ [1]))"

definition IsPrivate :: "ip \<Rightarrow> bool" where
  "IsPrivate p \<longleftrightarrow>
     (let q = To4 p in
      if q \<noteq> [] then q ! 0 = 10 \<or> (q ! 0 = 172 \<and> q ! 1 AND 0xf0 = 16) \<or> (q ! 0 = 192 \<and> q ! 1 = 168)
      else length p = 16 \<and> p ! 0 AND 0xfe = 0xfc)"

definition IsMulticast :: "ip \<Rightarrow> bool" where
  "IsMulticast p \<longleftrightarrow>
     (let q = To4 p in if q \<noteq> [] then q ! 0 AND 0xf0 = 0xe0 else length p = 16 \<and> p ! 0 = 0xff)"

definition IsLinkLocalMulticast :: "ip \<Rightarrow> bool" where
  "IsLinkLocalMulticast p \<longleftrightarrow>
     (let q = To4 p in
      if q \<noteq> [] then q ! 0 = 224 \<and> q ! 1 = 0 \<and> q ! 2 = 0
      else length p = 16 \<and> p ! 0 = 0xff \<and> p ! 1 AND 0x0f = 0x02)"

definition IsLinkLocalUnicast :: "ip \<Rightarrow> bool" where
  "IsLinkLocalUnicast p \<longleftrightarrow>
     (let q = To4 p in
      if q \<noteq> [] then q ! 0 = 169 \<and> q ! 1 = 254
      else length p = 16 \<and> p ! 0 = 0xfe \<and> p ! 1 AND 0xc0 = 0x80)"

definition IsGlobalUnicast :: "ip \<Rightarrow> bool" where
  "IsGlobalUnicast p \<longleftrightarrow>
     (length p = 4 \<or> length p = 16) \<and> \<not> ip_equal p (IPv4 255 255 255 255) \<and> \<not> IsUnspecified p \<and>
     \<not> IsLoopback p \<and> \<not> IsMulticast p \<and> \<not> IsLinkLocalUnicast p"

text \<open>The text form of an IPv4 address (\<open>net.IP.String\<close> on a 4-byte slice).\<close>

definition ip4_string :: "ip \<Rightarrow> string" where
  "ip4_string p = digits (unat (p ! 0)) @ CHR ''.'' # digits (unat (p ! 1)) @ CHR ''.'' #
     digits (unat (p ! 2)) @ CHR ''.'' # digits (unat (p ! 3))"

text \<open>The text form of an IPv6 address: the longest run of at least two zero groups (the first of equal
  ones) is written as \<open>::\<close>.\<close>

definition hex_char :: "nat \<Rightarrow> char" where
  "hex_char n = ''0123456789abcdef'' ! n"

fun hex_digits :: "nat \<Rightarrow> string" where
  "hex_digits n = (if n < 16 then [hex_char n] else hex_digits (n div 16) @ [hex_char (n mod 16)])"

declare hex_digits.simps [simp del]

definition v6_groups :: "ip \<Rightarrow> nat list" where
  "v6_groups p = map (\<lambda>i. unat (p ! (2 * i)) * 256 + unat (p ! (2 * i + 1))) [0..<8]"

definition zero_run :: "nat list \<Rightarrow> nat \<times> nat" where
  "zero_run gs = fold (\<lambda>i (s, l).
     (let r = length (takeWhile (\<lambda>g. g = 0) (drop i gs)) in if 2 \<le> r \<and> l < r then (i, r) else (s, l)))
     [0..<8] (8, 0)"

fun join_groups :: "nat list \<Rightarrow> string" where
  "join_groups [] = []"
| "join_groups [g] = hex_digits g"
| "join_groups (g # gs) = hex_digits g @ CHR '':'' # join_groups gs"

definition ip6_string :: "ip \<Rightarrow> string" where
  "ip6_string p =
     (let gs = v6_groups p; (s, l) = zero_run gs in
      if l = 0 then join_groups gs
      else join_groups (take s gs) @ '':'' @ '':'' @ join_groups (drop (s + l) gs))"

text \<open>\<open>net.IP.String\<close>, and \<open>net.TCPAddr.String\<close>, which writes a missing address as the empty text.\<close>

definition ip_string :: "ip \<Rightarrow> string" where
  "ip_string p =
     (if p = [] then ''<nil>''
      else if length p \<noteq> 4 \<and> length p \<noteq> 16 then
        CHR ''?'' # concat (map (\<lambda>b. [hex_char (unat b div 16), hex_char (unat b mod 16)]) p)
      else if To4 p \<noteq> [] then ip4_string (To4 p)
      else ip6_string p)"

subsection \<open>Host and port\<close>

definition JoinHostPort :: "string \<Rightarrow> string \<Rightarrow> string" where
  "JoinHostPort host port =
     (if List.member host (CHR '':'') then CHR ''['' # host @ CHR '']'' # CHR '':'' # port
      else host @ CHR '':'' # port)"

definition TCPAddr_string :: "ip \<times> int \<Rightarrow> string" where
  "TCPAddr_string a = JoinHostPort (if fst a = [] then [] else ip_string (fst a)) (Itoa (snd a))"

text \<open>The index of the first and of the last occurrence of a byte (\<open>IndexByte\<close>, \<open>LastIndexByte\<close>).\<close>

fun index_byte :: "char \<Rightarrow> string \<Rightarrow> nat option" where
  "index_byte c [] = None"
| "index_byte c (x # xs) = (if x = c then Some 0 else map_option Suc (index_byte c xs))"

definition last_index_byte :: "char \<Rightarrow> string \<Rightarrow> nat option" where
  "last_index_byte c s = map_option (\<lambda>i. length s - 1 - i) (index_byte c (rev s))"

definition SplitHostPort :: "string \<Rightarrow> (string \<times> string) option" where
  "SplitHostPort hp =
     (case last_index_byte (CHR '':'') hp of
        None \<Rightarrow> None
      | Some i \<Rightarrow>
          if hd hp = CHR ''['' then
            (case index_byte (CHR '']'') hp of
               None \<Rightarrow> None
             | Some e \<Rightarrow>
                 if e + 1 \<noteq> i then None
                 else if List.member (drop 1 hp) (CHR ''['') then None
                 else if List.member (drop (e + 1) hp) (CHR '']'') then None
                 else Some (take (e - 1) (drop 1 hp), drop (i + 1) hp))
          else if List.member (take i hp) (CHR '':'') then None
          else if List.member hp (CHR ''['') then None
          else if List.member hp (CHR '']'') then None
          else Some (take i hp, drop (i + 1) hp))"

subsection \<open>Facts\<close>

lemma length_v4_prefix [simp]: "length v4_prefix = 12"
  by (simp add: v4_prefix_def)

lemma To4_v4 [simp]: "length q = 4 \<Longrightarrow> To4 (v4_prefix @ q) = q" "length q = 4 \<Longrightarrow> To4 q = q"
  by (simp_all add: To4_def)

lemma To4_length: "To4 p = [] \<or> length (To4 p) = 4"
  by (auto simp: To4_def)

lemma parse_ipv4_length: "parse_ipv4 s = Some q \<Longrightarrow> length q = 4"
  by (auto simp: parse_ipv4_def split: list.splits option.splits prod.splits)

lemma parse_groups_length:
  "parse_groups ip ell s = Some (ip', ell', r) \<Longrightarrow> length ip \<le> 16 \<Longrightarrow> even (length ip) \<Longrightarrow>
   length ip' \<le> 16"
proof (induction ip ell s rule: parse_groups.induct)
  case (1 ip ell s)
  have small: "length ip \<le> 14" if "length ip < 16" using that "1.prems" by presburger
  show ?case
    using "1.prems" "1.IH" small
    by (subst (asm) parse_groups.simps)
       (auto simp: Let_def parse_ipv4_length split: if_splits list.splits option.splits)
qed

lemma parse_ipv6_length: "parse_ipv6 s = Some q \<Longrightarrow> length q = 16"
  using parse_groups_length [of "[]" _ _]
  by (fastforce simp: parse_ipv6_def Let_def split: if_splits option.splits prod.splits)

lemma ParseIP_length: "ParseIP s = [] \<or> length (ParseIP s) = 16"
  by (auto simp: ParseIP_def parse_ipv4_length parse_ipv6_length split: option.splits)

lemma digits_no_leading_zero: "1 < length (digits n) \<Longrightarrow> hd (digits n) \<noteq> CHR ''0''"
proof (induction n rule: digits.induct)
  case (1 n)
  show ?case
  proof (cases "n < 10")
    case True
    then show ?thesis using "1.prems" by (simp add: digits.simps)
  next
    case False
    then have eq: "digits n = digits (n div 10) @ [char_of (48 + n mod 10)]"
      by (simp add: digits.simps [of n])
    show ?thesis
    proof (cases "n div 10 < 10")
      case True
      have "n div 10 \<noteq> 0" using False by simp
      then have "code (hd (digits n)) \<noteq> code (CHR ''0'')"
        using True by (simp add: eq digits.simps [of "n div 10"])
      then show ?thesis by metis
    next
      case False': False
      then have "1 < length (digits (n div 10))" by (simp add: digits.simps [of "n div 10"])
      then have "hd (digits (n div 10)) \<noteq> CHR ''0''" using False "1.IH" by simp
      then show ?thesis by (simp add: eq)
    qed
  qed
qed

lemma parse_octet_digits: "parse_octet (digits (unat (b :: byte))) = Some b"
proof -
  have "unat b < 2 ^ LENGTH(8)" by (rule unsigned_less)
  then have "unat b \<le> 255" by simp
  then show ?thesis
    using digits_no_leading_zero [of "unat b"] by (simp add: parse_octet_def read_digits_digits)
qed

lemma dot_notin_digits [simp]: "CHR ''.'' \<notin> set (digits n)" "CHR '':'' \<notin> set (digits n)"
  "CHR 0x25 \<notin> set (digits n)"
  using digits_all_digit [of n] by (auto simp: list_all_iff is_digit_def)

lemma parse_ipv4_string:
  assumes "length p = 4"
  shows "parse_ipv4 (ip4_string p) = Some p"
proof -
  obtain a b c d where p: "p = [a, b, c, d]"
    using assms by (auto simp: length_Suc_conv numeral_eq_Suc)
  show ?thesis
    by (simp add: p parse_ipv4_def ip4_string_def Split_append Split_free parse_octet_digits)
qed

lemma find_dot_ip4_string:
  "find (\<lambda>c. c = CHR ''.'' \<or> c = CHR '':'' \<or> c = CHR 0x25) (ip4_string p) = Some (CHR ''.'')"
proof -
  have "find (\<lambda>c. c = CHR ''.'' \<or> c = CHR '':'' \<or> c = CHR 0x25) (xs @ CHR ''.'' # ys) = Some (CHR ''.'')"
    if "CHR ''.'' \<notin> set xs" "CHR '':'' \<notin> set xs" "CHR 0x25 \<notin> set xs" for xs ys
    using that by (induction xs) auto
  then show ?thesis by (simp add: ip4_string_def)
qed

text \<open>Printing an IPv4 address and parsing it back gives the address.\<close>

lemma ParseIP_ip4_string: "length p = 4 \<Longrightarrow> ParseIP (ip4_string p) = v4_prefix @ p"
  by (simp add: ParseIP_def find_dot_ip4_string parse_ipv4_string)

end
