(* ===== verification/Domain.thy ===== *)
theory Domain
  imports Go_Net
begin

text \<open>
  The package \<open>pkg/core/domain\<close>: the conflict check for inbound bindings (\<open>rules.go\<close>), traffic
  quotas (\<open>quota.go\<close>) and the selection of a member of a target group (\<open>target_group.go\<close>).
  \<open>Protocol\<close>, \<open>MatchType\<close> and \<open>ForwardingType\<close> are string types in the code, so any string may
  occur in them; the constants are abbreviations.
\<close>

subsection \<open>errors.go, rules.go: constants and records\<close>

datatype ErrorCode = ErrValidationFailed | ErrRulePortConflict | ErrRuleDuplicateSNI
  | ErrUnauthenticated | ErrForbidden | ErrNotFound | ErrConflict

type_synonym Protocol = string
type_synonym ForwardingType = string
type_synonym MatchType = string

abbreviation ProtocolTCP :: Protocol where "ProtocolTCP \<equiv> ''TCP''"
abbreviation ProtocolUDP :: Protocol where "ProtocolUDP \<equiv> ''UDP''"
abbreviation ProtocolTCPUDP :: Protocol where "ProtocolTCPUDP \<equiv> ''TCP_UDP''"
abbreviation ForwardingTypeDirect :: ForwardingType where "ForwardingTypeDirect \<equiv> ''DIRECT''"
abbreviation ForwardingTypeTunnel :: ForwardingType where "ForwardingTypeTunnel \<equiv> ''TUNNEL''"
abbreviation MatchTypeAnyInbound :: MatchType where "MatchTypeAnyInbound \<equiv> ''ANY_INBOUND''"
abbreviation MatchTypeTLSSNI :: MatchType where "MatchTypeTLSSNI \<equiv> ''TLS_SNI''"
abbreviation MatchTypeFeature :: MatchType where "MatchTypeFeature \<equiv> ''FEATURE''"

record InboundBinding =
  ib_NodeID :: string
  ib_ListenIP :: string
  ib_Protocol :: Protocol
  ib_Port :: int
  ib_StartPort :: int
  ib_EndPort :: int
  ib_MatchType :: MatchType
  ib_SNI :: string
  ib_ProxyProtocolIn :: string
  ib_ForwardRule :: string

subsection \<open>rules.go: conflicts between inbound bindings\<close>

definition normalizeProxyProtocol :: "string \<Rightarrow> string" where
  "normalizeProxyProtocol value =
     (let value = TrimSpace (ToUpper value) in
      if value = [] \<or> value = ''NONE'' then [] else value)"

definition normalizedBindingPorts :: "InboundBinding \<Rightarrow> int \<times> int" where
  "normalizedBindingPorts b =
     (let start = (if ib_StartPort b = 0 then ib_Port b else ib_StartPort b);
          end' = (if ib_EndPort b = 0 then start else ib_EndPort b)
      in (start, end'))"

definition portRangesOverlap :: "InboundBinding \<Rightarrow> InboundBinding \<Rightarrow> bool" where
  "portRangesOverlap left right =
     (let (leftStart, leftEnd) = normalizedBindingPorts left;
          (rightStart, rightEnd) = normalizedBindingPorts right
      in leftStart \<le> rightEnd \<and> rightStart \<le> leftEnd)"

definition protocolsOverlap :: "Protocol \<Rightarrow> Protocol \<Rightarrow> bool" where
  "protocolsOverlap left right =
     (if left = right then True
      else left = ProtocolTCPUDP \<and> (right = ProtocolTCP \<or> right = ProtocolUDP) \<or>
           right = ProtocolTCPUDP \<and> (left = ProtocolTCP \<or> left = ProtocolUDP))"

definition normalizeListenIPValue :: "string \<Rightarrow> string" where
  "normalizeListenIPValue value = TrimCut ''[]'' (TrimSpace value)"

definition sameListenIPValue :: "string \<Rightarrow> string \<Rightarrow> bool" where
  "sameListenIPValue left right \<longleftrightarrow> normalizeListenIPValue left = normalizeListenIPValue right"

definition isWildcardListenIP :: "string \<Rightarrow> bool" where
  "isWildcardListenIP value =
     (if value = [] then True
      else (let ip = ParseIP value in ip \<noteq> [] \<and> IsUnspecified ip))"

definition listenIPsOverlap :: "string \<Rightarrow> string \<Rightarrow> bool" where
  "listenIPsOverlap left right =
     (let left = normalizeListenIPValue left; right = normalizeListenIPValue right in
      if left = right then True else isWildcardListenIP left \<or> isWildcardListenIP right)"

definition sameEndpoint :: "InboundBinding \<Rightarrow> InboundBinding \<Rightarrow> bool" where
  "sameEndpoint left right \<longleftrightarrow>
     ib_NodeID left = ib_NodeID right \<and>
     listenIPsOverlap (ib_ListenIP left) (ib_ListenIP right) \<and>
     protocolsOverlap (ib_Protocol left) (ib_Protocol right) \<and>
     portRangesOverlap left right"

fun conflictWith :: "InboundBinding list \<Rightarrow> InboundBinding \<Rightarrow> ErrorCode option" where
  "conflictWith [] candidate = None"
| "conflictWith (binding # existing) candidate =
     (if \<not> sameEndpoint binding candidate then conflictWith existing candidate
      else if ib_MatchType binding = MatchTypeAnyInbound \<or> ib_MatchType candidate = MatchTypeAnyInbound
        then Some ErrRulePortConflict
      else if ib_MatchType binding \<noteq> MatchTypeTLSSNI \<or> ib_MatchType candidate \<noteq> MatchTypeTLSSNI
        then Some ErrRulePortConflict
      else if ib_MatchType binding = MatchTypeTLSSNI \<and> ib_MatchType candidate = MatchTypeTLSSNI \<and>
              \<not> sameListenIPValue (ib_ListenIP binding) (ib_ListenIP candidate)
        then Some ErrRulePortConflict
      else if ib_MatchType binding = MatchTypeTLSSNI \<and> ib_MatchType candidate = MatchTypeTLSSNI \<and>
              normalizeProxyProtocol (ib_ProxyProtocolIn binding) \<noteq>
              normalizeProxyProtocol (ib_ProxyProtocolIn candidate)
        then Some ErrRulePortConflict
      else if ib_MatchType binding = MatchTypeTLSSNI \<and> ib_MatchType candidate = MatchTypeTLSSNI \<and>
              EqualFold (ib_SNI binding) (ib_SNI candidate)
        then Some ErrRuleDuplicateSNI
      else conflictWith existing candidate)"

definition ValidateInboundBindingConflict ::
    "InboundBinding list \<Rightarrow> InboundBinding \<Rightarrow> ErrorCode option" where
  "ValidateInboundBindingConflict existing candidate =
     (if ib_MatchType candidate = MatchTypeTLSSNI \<and> ib_Protocol candidate \<noteq> ProtocolTCP
        then Some ErrValidationFailed
      else if ib_Protocol candidate = ProtocolTCPUDP \<and> ib_MatchType candidate \<noteq> MatchTypeAnyInbound
        then Some ErrValidationFailed
      else if ib_MatchType candidate = MatchTypeTLSSNI \<and> TrimSpace (ib_SNI candidate) = []
        then Some ErrValidationFailed
      else if ib_MatchType candidate = MatchTypeFeature
        then Some ErrValidationFailed
      else conflictWith existing candidate)"

subsection \<open>quota.go\<close>

datatype TrafficLimitMode = TrafficLimitModeTotal | TrafficLimitModeUploadOnly
  | TrafficLimitModeDownloadOnly | TrafficLimitModeMaxOfUpDown | TrafficLimitModeOther string

datatype OverLimitAction = OverLimitActionDisableRule | OverLimitActionWarnOnly
  | OverLimitActionOther string

record TrafficUsage =
  tu_UploadBytes :: int
  tu_DownloadBytes :: int

definition CountedBytes :: "TrafficUsage \<Rightarrow> TrafficLimitMode \<Rightarrow> int" where
  "CountedBytes usage mode =
     (case mode of
        TrafficLimitModeUploadOnly \<Rightarrow> tu_UploadBytes usage
      | TrafficLimitModeDownloadOnly \<Rightarrow> tu_DownloadBytes usage
      | TrafficLimitModeMaxOfUpDown \<Rightarrow>
          if tu_UploadBytes usage > tu_DownloadBytes usage then tu_UploadBytes usage else tu_DownloadBytes usage
      | _ \<Rightarrow> i64 (tu_UploadBytes usage + tu_DownloadBytes usage))"

record Quota =
  q_TrafficLimitBytes :: int
  q_TrafficLimitMode :: TrafficLimitMode
  q_OverLimitAction :: OverLimitAction

record QuotaDecision =
  qd_Exceeded :: bool
  qd_DisableRules :: bool
  qd_CountedBytes :: int

definition Evaluate :: "Quota \<Rightarrow> TrafficUsage \<Rightarrow> QuotaDecision" where
  "Evaluate quota usage =
     (let counted = CountedBytes usage (q_TrafficLimitMode quota);
          exceeded = q_TrafficLimitBytes quota > 0 \<and> counted > q_TrafficLimitBytes quota
      in \<lparr>qd_Exceeded = exceeded,
          qd_DisableRules = exceeded \<and> q_OverLimitAction quota = OverLimitActionDisableRule,
          qd_CountedBytes = counted\<rparr>)"

subsection \<open>target\_group.go\<close>

record TargetGroupMember =
  tg_TargetID :: string
  tg_Priority :: int
  tg_Enabled :: bool
  tg_Healthy :: bool

record TargetGroup =
  tg_ID :: string
  tg_Members :: "TargetGroupMember list"

fun bestPriorityLoop :: "int option \<Rightarrow> TargetGroupMember list \<Rightarrow> int option" where
  "bestPriorityLoop best [] = best"
| "bestPriorityLoop best (m # ms) =
     (if \<not> tg_Enabled m \<or> \<not> tg_Healthy m then bestPriorityLoop best ms
      else (case best of
              None \<Rightarrow> bestPriorityLoop (Some (tg_Priority m)) ms
            | Some b \<Rightarrow> if tg_Priority m < b then bestPriorityLoop (Some (tg_Priority m)) ms
                        else bestPriorityLoop best ms))"

definition availableMembersAtBestPriority :: "TargetGroup \<Rightarrow> TargetGroupMember list" where
  "availableMembersAtBestPriority grp =
     (case bestPriorityLoop None (tg_Members grp) of
        None \<Rightarrow> []
      | Some best \<Rightarrow>
          filter (\<lambda>m. tg_Enabled m \<and> tg_Healthy m \<and> tg_Priority m = best) (tg_Members grp))"

definition stableIndex :: "string \<Rightarrow> nat \<Rightarrow> nat" where
  "stableIndex input n = unat (fnv32a (bytes_of input) mod word_of_nat n)"

definition Select :: "TargetGroup \<Rightarrow> string \<Rightarrow> string \<Rightarrow> Protocol \<Rightarrow> TargetGroupMember option" where
  "Select grp sourceIP ruleID protocol =
     (let members = availableMembersAtBestPriority grp in
      if members = [] then None
      else (let members = sort_key tg_TargetID members;
                index = stableIndex (sourceIP @ ''|'' @ ruleID @ ''|'' @ protocol) (length members)
            in Some (members ! index)))"

subsection \<open>What the conflict check guarantees\<close>

text \<open>
  A connection arrives at a node, at a local address, for TCP or UDP, at a port, and (for TLS) asks
  for a server name. A binding claims it when its node, address, protocol and port range cover it
  and, for \<open>TLS_SNI\<close> bindings, the server name is the binding's.
\<close>

record Connection =
  cn_NodeID :: string
  cn_LocalIP :: string
  cn_Protocol :: Protocol
  cn_Port :: int
  cn_SNI :: string

definition claims :: "InboundBinding \<Rightarrow> Connection \<Rightarrow> bool" where
  "claims b x \<longleftrightarrow>
     ib_NodeID b = cn_NodeID x \<and>
     (normalizeListenIPValue (ib_ListenIP b) = cn_LocalIP x \<or>
      isWildcardListenIP (normalizeListenIPValue (ib_ListenIP b))) \<and>
     (ib_Protocol b = cn_Protocol x \<or>
      ib_Protocol b = ProtocolTCPUDP \<and> (cn_Protocol x = ProtocolTCP \<or> cn_Protocol x = ProtocolUDP)) \<and>
     fst (normalizedBindingPorts b) \<le> cn_Port x \<and> cn_Port x \<le> snd (normalizedBindingPorts b) \<and>
     (ib_MatchType b = MatchTypeTLSSNI \<longrightarrow> EqualFold (ib_SNI b) (cn_SNI x))"

text \<open>Two bindings may coexist when they meet on no endpoint, or share one by server name.\<close>

definition compatible :: "InboundBinding \<Rightarrow> InboundBinding \<Rightarrow> bool" where
  "compatible b c \<longleftrightarrow>
     \<not> sameEndpoint b c \<or>
     (ib_MatchType b = MatchTypeTLSSNI \<and> ib_MatchType c = MatchTypeTLSSNI \<and>
      sameListenIPValue (ib_ListenIP b) (ib_ListenIP c) \<and>
      normalizeProxyProtocol (ib_ProxyProtocolIn b) = normalizeProxyProtocol (ib_ProxyProtocolIn c) \<and>
      \<not> EqualFold (ib_SNI b) (ib_SNI c))"

text \<open>A table of bindings as the control plane builds it: a binding enters when the check passes, and
  any binding may be taken out.\<close>

inductive binding_table :: "InboundBinding list \<Rightarrow> bool" where
  empty: "binding_table []"
| admit: "binding_table t \<Longrightarrow> ValidateInboundBindingConflict t b = None \<Longrightarrow> binding_table (t @ [b])"
| remove: "binding_table (t @ b # u) \<Longrightarrow> binding_table (t @ u)"

lemma sameEndpoint_sym: "sameEndpoint b c = sameEndpoint c b"
  by (auto simp: sameEndpoint_def listenIPsOverlap_def protocolsOverlap_def portRangesOverlap_def
      Let_def split: prod.splits)

lemma compatible_sym: "compatible b c = compatible c b"
  by (auto simp: compatible_def sameEndpoint_sym sameListenIPValue_def EqualFold_sym)

lemma conflictWith_None: "conflictWith t c = None \<longleftrightarrow> (\<forall>b \<in> set t. compatible b c)"
  by (induction t) (auto simp: compatible_def)

lemma Validate_wf:
  "ValidateInboundBindingConflict [] c = None \<Longrightarrow> ValidateInboundBindingConflict t c = conflictWith t c"
  unfolding ValidateInboundBindingConflict_def by (simp only: option.distinct split: if_splits) simp

lemma conflictWith_swap: "conflictWith [b] c = conflictWith [c] b"
proof -
  have "sameListenIPValue (ib_ListenIP b) (ib_ListenIP c) = sameListenIPValue (ib_ListenIP c) (ib_ListenIP b)"
    and "(normalizeProxyProtocol (ib_ProxyProtocolIn b) \<noteq> normalizeProxyProtocol (ib_ProxyProtocolIn c)) =
      (normalizeProxyProtocol (ib_ProxyProtocolIn c) \<noteq> normalizeProxyProtocol (ib_ProxyProtocolIn b))"
    by (auto simp: sameListenIPValue_def)
  note sym = this sameEndpoint_sym [of b c] EqualFold_sym [of "ib_SNI b" "ib_SNI c"]
  show ?thesis unfolding conflictWith.simps sym by argo
qed

lemma Validate_compatible:
  "ValidateInboundBindingConflict t c = None \<Longrightarrow> b \<in> set t \<Longrightarrow> compatible b c"
  by (simp add: ValidateInboundBindingConflict_def conflictWith_None split: if_splits)

lemma binding_table_compatible: "binding_table t \<Longrightarrow> sorted_wrt compatible t"
  by (induction rule: binding_table.induct) (auto simp: sorted_wrt_append Validate_compatible)

lemma claims_sameEndpoint:
  assumes "claims b x" and "claims c x"
  shows "sameEndpoint b c"
proof -
  have "listenIPsOverlap (ib_ListenIP b) (ib_ListenIP c)"
    using assms by (auto simp: claims_def listenIPsOverlap_def Let_def)
  moreover have "protocolsOverlap (ib_Protocol b) (ib_Protocol c)"
    using assms unfolding claims_def protocolsOverlap_def by metis
  moreover have "portRangesOverlap b c"
    using assms by (simp add: claims_def portRangesOverlap_def case_prod_beta)
  ultimately show ?thesis using assms by (simp add: sameEndpoint_def claims_def)
qed

lemma claims_not_compatible:
  assumes "claims b x" and "claims c x"
  shows "\<not> compatible b c"
proof
  assume "compatible b c"
  then have "ib_MatchType b = MatchTypeTLSSNI" "ib_MatchType c = MatchTypeTLSSNI"
    "\<not> EqualFold (ib_SNI b) (ib_SNI c)"
    using claims_sameEndpoint [OF assms] by (simp_all add: compatible_def)
  moreover from this have "EqualFold (ib_SNI b) (cn_SNI x)" "EqualFold (ib_SNI c) (cn_SNI x)"
    using assms by (simp_all add: claims_def)
  ultimately show False by (simp add: EqualFold_def)
qed

lemma sorted_wrt_sym_nth:
  assumes "sorted_wrt P xs" and "\<And>x y. P x y = P y x" and "i < length xs" "j < length xs" "i \<noteq> j"
  shows "P (xs ! i) (xs ! j)"
  using assms by (metis linorder_neqE_nat sorted_wrt_nth_less)

lemma Min_insert_insert:
  fixes b p :: "'a::linorder"
  assumes "finite S"
  shows "Min (insert b (insert p S)) = Min (insert (min p b) S)"
  using assms by (cases "S = {}") (simp_all add: min.commute min.left_commute)

lemma bestPriorityLoop_eq:
  "bestPriorityLoop best ms =
     (let ps = tg_Priority ` {m \<in> set ms. tg_Enabled m \<and> tg_Healthy m} in
      case best of
        None \<Rightarrow> if ps = {} then None else Some (Min ps)
      | Some b \<Rightarrow> Some (Min (insert b ps)))"
proof (induction ms arbitrary: best)
  case (Cons m ms)
  let ?ps = "tg_Priority ` {m \<in> set ms. tg_Enabled m \<and> tg_Healthy m}"
  have fin: "finite ?ps" by simp
  show ?case
  proof (cases "tg_Enabled m \<and> tg_Healthy m")
    case True
    then have ps: "tg_Priority ` {x \<in> set (m # ms). tg_Enabled x \<and> tg_Healthy x} = insert (tg_Priority m) ?ps"
      by auto
    have min: "Min (insert b (insert (tg_Priority m) ?ps)) = Min (insert (min (tg_Priority m) b) ?ps)" for b
      by (rule Min_insert_insert [OF fin])
    show ?thesis using True ps min Cons.IH by (auto simp: Let_def min_def split: option.splits)
  next
    case False
    then have "{x \<in> set (m # ms). tg_Enabled x \<and> tg_Healthy x} = {x \<in> set ms. tg_Enabled x \<and> tg_Healthy x}"
      by auto
    then show ?thesis using False Cons.IH by simp
  qed
qed (simp split: option.splits)

text \<open>
  C4: in every table of bindings that the control plane can build by admitting bindings through
  \<open>ValidateInboundBindingConflict\<close> and removing some, no connection is claimed by two entries:
  routing is unambiguous.
\<close>

theorem binding_table_unambiguous:
  assumes "binding_table t" and "i < length t" and "j < length t"
    and "claims (t ! i) x" and "claims (t ! j) x"
  shows "i = j"
proof (rule ccontr)
  assume "i \<noteq> j"
  then have "compatible (t ! i) (t ! j)"
    using binding_table_compatible [OF assms(1)] assms(2,3)
    by (intro sorted_wrt_sym_nth [OF _ compatible_sym])
  then show False using claims_not_compatible assms(4,5) by blast
qed

definition example_sni_binding :: "string \<Rightarrow> InboundBinding" where
  "example_sni_binding host =
     \<lparr>ib_NodeID = ''n1'', ib_ListenIP = ''0.0.0.0'', ib_Protocol = ProtocolTCP, ib_Port = 443,
      ib_StartPort = 0, ib_EndPort = 0, ib_MatchType = MatchTypeTLSSNI, ib_SNI = host,
      ib_ProxyProtocolIn = ''NONE'', ib_ForwardRule = ''r1''\<rparr>"

definition example_connection :: Connection where
  "example_connection =
     \<lparr>cn_NodeID = ''n1'', cn_LocalIP = ''10.0.0.1'', cn_Protocol = ProtocolTCP, cn_Port = 443,
      cn_SNI = ''A.example''\<rparr>"

lemma example_table: "binding_table [example_sni_binding ''a.example'', example_sni_binding ''b.example'']"
proof -
  have "ValidateInboundBindingConflict [] (example_sni_binding ''a.example'') = None" by code_simp
  then have "binding_table ([] @ [example_sni_binding ''a.example''])"
    by (intro binding_table.admit binding_table.empty)
  moreover have "ValidateInboundBindingConflict [example_sni_binding ''a.example'']
      (example_sni_binding ''b.example'') = None" by code_simp
  ultimately have "binding_table ([example_sni_binding ''a.example''] @ [example_sni_binding ''b.example''])"
    by (intro binding_table.admit) simp_all
  then show ?thesis by simp
qed

theorem binding_table_unambiguous_witness:
  "claims (example_sni_binding ''a.example'') example_connection \<and>
   \<not> claims (example_sni_binding ''b.example'') example_connection"
proof -
  have c: "claims (example_sni_binding ''a.example'') example_connection" by code_simp
  have "\<not> claims (example_sni_binding ''b.example'') example_connection"
    using binding_table_unambiguous [OF example_table, of 0 1 example_connection] c by auto
  with c show ?thesis by blast
qed

text \<open>
  For bindings that are well-formed on their own, the verdict of the conflict check, error code
  included, does not depend on which of the two was there first, and a candidate passes against a
  table exactly when it passes against each of its entries.
\<close>

theorem conflict_check_symmetric:
  assumes "ValidateInboundBindingConflict [] b = None" and "ValidateInboundBindingConflict [] c = None"
  shows "ValidateInboundBindingConflict [b] c = ValidateInboundBindingConflict [c] b \<and>
    (ValidateInboundBindingConflict t c = None \<longleftrightarrow>
       list_all (\<lambda>d. ValidateInboundBindingConflict [d] c = None) t)"
  using conflictWith_swap [of b c] conflictWith_None [of t c] conflictWith_None [of "[_]" c]
  by (simp only: Validate_wf [OF assms(1)] Validate_wf [OF assms(2)]) (simp add: list_all_iff)

theorem conflict_check_symmetric_witness:
  "ValidateInboundBindingConflict [example_sni_binding ''a.example''] (example_sni_binding ''A.EXAMPLE'') =
     Some ErrRuleDuplicateSNI \<and>
   ValidateInboundBindingConflict [example_sni_binding ''A.EXAMPLE''] (example_sni_binding ''a.example'') =
     Some ErrRuleDuplicateSNI"
proof -
  have a: "ValidateInboundBindingConflict [] (example_sni_binding ''a.example'') = None" by code_simp
  have b: "ValidateInboundBindingConflict [] (example_sni_binding ''A.EXAMPLE'') = None" by code_simp
  have "ValidateInboundBindingConflict [example_sni_binding ''a.example''] (example_sni_binding ''A.EXAMPLE'') =
     Some ErrRuleDuplicateSNI" by code_simp
  then show ?thesis using conflict_check_symmetric [OF a b, THEN conjunct1] by argo
qed

subsection \<open>Quotas and target groups\<close>

lemma CountedBytes_mono:
  assumes "0 \<le> tu_UploadBytes u" "0 \<le> tu_DownloadBytes u"
    and "tu_UploadBytes u \<le> tu_UploadBytes v" "tu_DownloadBytes u \<le> tu_DownloadBytes v"
    and "tu_UploadBytes v + tu_DownloadBytes v < 2 ^ 63"
  shows "CountedBytes u mode \<le> CountedBytes v mode"
  using assms by (cases mode) (auto simp: CountedBytes_def)



definition available :: "TargetGroupMember \<Rightarrow> bool" where
  "available m \<longleftrightarrow> tg_Enabled m \<and> tg_Healthy m"

lemma availableMembers_iff:
  "m \<in> set (availableMembersAtBestPriority g) \<longleftrightarrow>
     m \<in> set (tg_Members g) \<and> available m \<and>
     (\<forall>k \<in> set (tg_Members g). available k \<longrightarrow> tg_Priority m \<le> tg_Priority k)"
proof -
  let ?ps = "tg_Priority ` {m \<in> set (tg_Members g). tg_Enabled m \<and> tg_Healthy m}"
  have fin: "finite ?ps" by simp
  show ?thesis
  proof (cases "?ps = {}")
    case True
    then have "\<not> available m" if "m \<in> set (tg_Members g)" using that by (auto simp: available_def)
    with True show ?thesis
      by (auto simp: availableMembersAtBestPriority_def bestPriorityLoop_eq Let_def)
  next
    case False
    then have set: "m \<in> set (availableMembersAtBestPriority g) \<longleftrightarrow>
       m \<in> set (tg_Members g) \<and> available m \<and> tg_Priority m = Min ?ps"
      by (auto simp: availableMembersAtBestPriority_def bestPriorityLoop_eq Let_def available_def)
    have "tg_Priority m = Min ?ps \<longleftrightarrow>
        (\<forall>k \<in> set (tg_Members g). available k \<longrightarrow> tg_Priority m \<le> tg_Priority k)"
      if "m \<in> set (tg_Members g)" "available m"
      using that Min_eq_iff [OF fin False, of "tg_Priority m"]
      by (auto simp: available_def)
    with set show ?thesis by blast
  qed
qed

lemma availableMembers_Nil:
  "availableMembersAtBestPriority g = [] \<longleftrightarrow> \<not> (\<exists>m \<in> set (tg_Members g). available m)"
proof
  let ?S = "{m \<in> set (tg_Members g). available m}"
  assume nil: "availableMembersAtBestPriority g = []"
  show "\<not> (\<exists>m \<in> set (tg_Members g). available m)"
  proof
    assume "\<exists>m \<in> set (tg_Members g). available m"
    then have "Min (tg_Priority ` ?S) \<in> tg_Priority ` ?S" by (intro Min_in) auto
    then obtain m where "Min (tg_Priority ` ?S) = tg_Priority m" "m \<in> ?S" by (rule imageE)
    moreover from this have "\<forall>k \<in> set (tg_Members g). available k \<longrightarrow> tg_Priority m \<le> tg_Priority k"
      by (metis (mono_tags, lifting) Min_le finite_imageI finite_set imageI mem_Collect_eq rev_finite_subset subsetI)
    ultimately have "m \<in> set (availableMembersAtBestPriority g)" by (simp add: availableMembers_iff)
    with nil show False by simp
  qed
next
  assume "\<not> (\<exists>m \<in> set (tg_Members g). available m)"
  then show "availableMembersAtBestPriority g = []"
    using availableMembers_iff [of _ g] by (metis list.set_intros(1) neq_Nil_conv)
qed

lemma word_mod_less:
  assumes "0 < n" and "n < 2 ^ 32"
  shows "unat (h mod word_of_nat n :: uint32) < n"
proof -
  have "unat (word_of_nat n :: uint32) = n" using assms by (simp add: unat_of_nat)
  then show ?thesis using assms by (simp add: unat_mod_distrib)
qed

lemma stableIndex_less: "0 < n \<Longrightarrow> n < 2 ^ 32 \<Longrightarrow> stableIndex s n < n"
  by (simp add: stableIndex_def word_mod_less)

text \<open>
  \<open>TargetGroup.Select\<close> finds a member exactly when some member is enabled and healthy, and the
  member it returns is one of the group's, enabled and healthy, and of the best (lowest) priority
  among the available ones; the answer depends only on the source address, the rule and the
  protocol, not on the order in which the members are listed.
\<close>

theorem Select_correct:
  assumes "length (tg_Members g) < 2 ^ 32"
    and "mset (tg_Members h) = mset (tg_Members g)" and "distinct (map tg_TargetID (tg_Members g))"
  shows "(case Select g src rule proto of
        None \<Rightarrow> \<not> (\<exists>m \<in> set (tg_Members g). available m)
      | Some m \<Rightarrow> m \<in> set (tg_Members g) \<and> available m \<and>
          (\<forall>k \<in> set (tg_Members g). available k \<longrightarrow> tg_Priority m \<le> tg_Priority k)) \<and>
    Select h src rule proto = Select g src rule proto"
proof
  let ?ms = "availableMembersAtBestPriority g" and ?key = "src @ ''|'' @ rule @ ''|'' @ proto"
  have len: "length ?ms \<le> length (tg_Members g)"
    by (auto simp: availableMembersAtBestPriority_def split: option.splits)
  show "case Select g src rule proto of
        None \<Rightarrow> \<not> (\<exists>m \<in> set (tg_Members g). available m)
      | Some m \<Rightarrow> m \<in> set (tg_Members g) \<and> available m \<and>
          (\<forall>k \<in> set (tg_Members g). available k \<longrightarrow> tg_Priority m \<le> tg_Priority k)"
  proof (cases "?ms = []")
    case True
    then show ?thesis using availableMembers_Nil [of g] by (simp add: Select_def)
  next
    case False
    then have "stableIndex ?key (length ?ms) < length ?ms"
      using len assms(1) by (intro stableIndex_less) auto
    then have "sort_key tg_TargetID ?ms ! stableIndex ?key (length ?ms) \<in> set ?ms"
      by (metis length_sort nth_mem set_sort)
    then show ?thesis using False by (simp add: Select_def Let_def availableMembers_iff)
  qed
  have "set (tg_Members h) = set (tg_Members g)" using assms(2) by (rule mset_eq_setD)
  then have "mset (availableMembersAtBestPriority h) = mset ?ms"
    using assms(2) by (simp add: availableMembersAtBestPriority_def bestPriorityLoop_eq Let_def
        split: option.splits)
  moreover have "inj_on tg_TargetID (set (tg_Members g))"
    using assms(3) by (simp add: distinct_map)
  then have "inj_on tg_TargetID (set (availableMembersAtBestPriority h))"
    using availableMembers_iff calculation by (metis inj_onD inj_onI mset_eq_setD)
  ultimately show "Select h src rule proto = Select g src rule proto"
    using sort_key_perm_eq [of "availableMembersAtBestPriority h" ?ms tg_TargetID]
    by (simp add: Select_def Let_def mset_eq_length [of "availableMembersAtBestPriority h" ?ms]
        flip: mset_zero_iff)
qed

definition example_member :: "string \<Rightarrow> int \<Rightarrow> bool \<Rightarrow> TargetGroupMember" where
  "example_member i p up = \<lparr>tg_TargetID = i, tg_Priority = p, tg_Enabled = True, tg_Healthy = up\<rparr>"

theorem Select_correct_witness:
  "Select \<lparr>tg_ID = ''g'', tg_Members = [example_member ''b'' 10 True, example_member ''a'' 10 True,
     example_member ''c'' 5 False]\<rparr> ''10.0.0.9'' ''r1'' ProtocolTCP \<noteq> None \<and>
   Select \<lparr>tg_ID = ''g'', tg_Members = [example_member ''b'' 10 True, example_member ''a'' 10 True,
     example_member ''c'' 5 False]\<rparr> ''10.0.0.9'' ''r1'' ProtocolTCP =
   Select \<lparr>tg_ID = ''g'', tg_Members = [example_member ''a'' 10 True, example_member ''b'' 10 True,
     example_member ''c'' 5 False]\<rparr> ''10.0.0.9'' ''r1'' ProtocolTCP"
proof -
  let ?g = "\<lparr>tg_ID = ''g'', tg_Members = [example_member ''a'' 10 True, example_member ''b'' 10 True,
     example_member ''c'' 5 False]\<rparr>"
  let ?h = "\<lparr>tg_ID = ''g'', tg_Members = [example_member ''b'' 10 True, example_member ''a'' 10 True,
     example_member ''c'' 5 False]\<rparr>"
  have "available (example_member ''a'' 10 True)" by (simp add: available_def example_member_def)
  then show ?thesis
    using Select_correct [of ?g ?h "''10.0.0.9''" "''r1''" ProtocolTCP]
    by (auto simp: example_member_def split: option.splits)
qed

end
