(* ===== verification/Validator.thy ===== *)
theory Validator
  imports Domain
begin

text \<open>
  The package \<open>pkg/core/validator\<close>: one function per request of the control API, which trims and
  normalises the request and either returns it or an error. An error is the sentinel
  \<open>ErrInvalidRequest\<close>, or a \<open>ValidationError\<close> with the message and, for \<open>invalidFieldError\<close>, the
  field it names (the other entries of the \<open>Details\<close> map repeat input values and are left out).
  Decoded JSON objects are association lists, \<open>None\<close> for a nil map; only strings inside them
  matter to the checks.
\<close>

datatype verror = ErrInvalidRequest | FieldError string string | RequestError string

datatype json = JString string | JOther

type_synonym json_object = "(string \<times> json) list option"

subsection \<open>Patterns and shared normalisation (control.go)\<close>

definition is_slug_char :: "char \<Rightarrow> bool" where
  "is_slug_char c \<longleftrightarrow> (97 \<le> code c \<and> code c \<le> 122) \<or> is_digit c"

text \<open>\<open>slugPattern\<close>: \<open>^[a-z0-9][a-z0-9-]{1,61}[a-z0-9]$\<close>.\<close>

definition slugPattern :: "string \<Rightarrow> bool" where
  "slugPattern s \<longleftrightarrow>
     3 \<le> length s \<and> length s \<le> 63 \<and> is_slug_char (hd s) \<and> is_slug_char (last s) \<and>
     list_all (\<lambda>c. is_slug_char c \<or> c = CHR ''-'') s"

text \<open>\<open>hostnamePattern\<close>: labels \<open>[a-z0-9]([a-z0-9-]{0,61}[a-z0-9])?\<close> joined by dots, with an
  optional dot at the end.\<close>

definition hostname_label :: "string \<Rightarrow> bool" where
  "hostname_label s \<longleftrightarrow>
     s \<noteq> [] \<and> length s \<le> 63 \<and> is_slug_char (hd s) \<and> is_slug_char (last s) \<and>
     list_all (\<lambda>c. is_slug_char c \<or> c = CHR ''-'') s"

definition hostnamePattern :: "string \<Rightarrow> bool" where
  "hostnamePattern s =
     (let body = (if s \<noteq> [] \<and> last s = CHR ''.'' then butlast s else s)
      in list_all hostname_label (Split (CHR ''.'') body))"

definition normalizeSlug :: "string \<Rightarrow> string" where
  "normalizeSlug value = ToLower (TrimSpace value)"

fun dedupLoop :: "(string \<Rightarrow> string) \<Rightarrow> (string \<Rightarrow> bool) \<Rightarrow> string list \<Rightarrow> string list \<Rightarrow> string list" where
  "dedupLoop norm skip seen [] = []"
| "dedupLoop norm skip seen (value # values) =
     (let value = norm value in
      if skip value \<or> List.member seen value then dedupLoop norm skip seen values
      else value # dedupLoop norm skip (value # seen) values)"

definition normalizeIDs :: "string list \<Rightarrow> string list" where
  "normalizeIDs values = sort (dedupLoop TrimSpace (\<lambda>v. v = []) [] values)"

definition normalizeTags :: "string list \<Rightarrow> string list" where
  "normalizeTags values =
     sort (dedupLoop (\<lambda>v. ToLower (TrimSpace v)) (\<lambda>v. v = [] \<or> length v > 64) [] values)"

definition uniqueNonEmptyStrings :: "string list \<Rightarrow> string list" where
  "uniqueNonEmptyStrings values = dedupLoop TrimSpace (\<lambda>v. v = []) [] values"

definition validProxyProtocol :: "string \<Rightarrow> bool" where
  "validProxyProtocol value \<longleftrightarrow> value = [] \<or> value = ''NONE'' \<or> value = ''V1'' \<or> value = ''V2''"

definition normalizedProxyProtocol :: "string \<Rightarrow> string" where
  "normalizedProxyProtocol value = (if value = [] \<or> value = ''NONE'' then [] else value)"

definition validSNIHostname :: "string \<Rightarrow> bool" where
  "validSNIHostname value =
     (let value = TrimSpace (ToLower value) in
      if value = [] \<or> length value > 253 then False else hostnamePattern value)"

abbreviation trim_upper :: "string \<Rightarrow> string" where
  "trim_upper s \<equiv> ToUpper (TrimSpace s)"

definition normalizeDataplaneMode :: "string \<Rightarrow> string" where
  "normalizeDataplaneMode value =
     (let value = trim_upper value in if value = [] then ''AUTO'' else value)"

definition normalizeDataplaneConflictPolicy :: "string \<Rightarrow> string" where
  "normalizeDataplaneConflictPolicy value =
     (let value = trim_upper value in if value = [] then ''FAIL_FAST'' else value)"

definition validDataplaneMode :: "string \<Rightarrow> bool" where
  "validDataplaneMode value \<longleftrightarrow>
     value = ''AUTO'' \<or> value = ''NATIVE'' \<or> value = ''HAPROXY'' \<or> value = ''NFTABLES''"

definition validDataplaneConflictPolicy :: "string \<Rightarrow> bool" where
  "validDataplaneConflictPolicy value \<longleftrightarrow> value = ''FAIL_FAST''"

subsection \<open>Node defaults (control\_node\_defaults.go, control\_ports\_send\_ips.go)\<close>

record NodeListenIP =
  li_ListenIP :: string
  li_DisplayName :: string

record NodeSendIP =
  si_SendIP :: string
  si_DisplayName :: string

record NodePortRange =
  pr_Protocol :: string
  pr_StartPort :: int
  pr_EndPort :: int

record NodeDNSPublishAddress =
  da_AddressType :: string
  da_Address :: string
  da_Enabled :: bool

fun listenIPsLoop :: "string list \<Rightarrow> NodeListenIP list \<Rightarrow> verror + NodeListenIP list" where
  "listenIPsLoop seen [] = Inr []"
| "listenIPsLoop seen (v # vs) =
     (let listenIP = TrimSpace (li_ListenIP v); name = TrimSpace (li_DisplayName v) in
      if listenIP = [] then listenIPsLoop seen vs
      else if ParseIP listenIP = [] then
        Inl (FieldError ''listen_ips'' ''Listen IP must be a valid IP address.'')
      else if length name > 120 then
        Inl (FieldError ''listen_ips'' ''Listen IP label must be at most 120 characters.'')
      else if List.member seen listenIP then
        Inl (FieldError ''listen_ips'' ''Listen IP entries must be unique.'')
      else
        (let name = (if name = [] then (if listenIP = ''0.0.0.0'' then ''default'' else listenIP) else name)
         in case listenIPsLoop (listenIP # seen) vs of
              Inl e \<Rightarrow> Inl e
            | Inr out \<Rightarrow> Inr (\<lparr>li_ListenIP = listenIP, li_DisplayName = name\<rparr> # out)))"

definition validateListenIPs :: "NodeListenIP list \<Rightarrow> verror + NodeListenIP list" where
  "validateListenIPs values =
     (case listenIPsLoop [] values of
        Inl e \<Rightarrow> Inl e
      | Inr normalized \<Rightarrow>
          if normalized = [] then Inr [\<lparr>li_ListenIP = ''0.0.0.0'', li_DisplayName = ''default''\<rparr>]
          else Inr normalized)"

fun portRangesLoop :: "string list \<Rightarrow> NodePortRange list \<Rightarrow> verror + NodePortRange list" where
  "portRangesLoop seen [] = Inr []"
| "portRangesLoop seen (v # vs) =
     (let proto = trim_upper (pr_Protocol v);
          proto = (if proto = [] then ''TCP'' else proto);
          start = (if pr_StartPort v = 0 then 10000 else pr_StartPort v);
          end' = (if pr_EndPort v = 0 then 20000 else pr_EndPort v)
      in if proto \<noteq> ''TCP'' \<and> proto \<noteq> ''UDP'' then
           Inl (FieldError ''port_ranges'' ''Port range protocol must be TCP or UDP.'')
         else if start < 1 \<or> start > 65535 \<or> end' < 1 \<or> end' > 65535 \<or> start > end' then
           Inl (FieldError ''port_ranges''
             ''Port ranges must be within 1-65535 and start_port must be <= end_port.'')
         else
           (let key = proto @ '':'' @ Itoa start @ '':'' @ Itoa end' in
            if List.member seen key then
              Inl (FieldError ''port_ranges'' ''Port range entries must be unique.'')
            else case portRangesLoop (key # seen) vs of
                   Inl e \<Rightarrow> Inl e
                 | Inr out \<Rightarrow> Inr (\<lparr>pr_Protocol = proto, pr_StartPort = start, pr_EndPort = end'\<rparr> # out)))"

definition validatePortRanges :: "NodePortRange list \<Rightarrow> verror + NodePortRange list" where
  "validatePortRanges values =
     (case portRangesLoop [] values of
        Inl e \<Rightarrow> Inl e
      | Inr normalized \<Rightarrow>
          if normalized = [] then Inr [\<lparr>pr_Protocol = ''TCP'', pr_StartPort = 10000, pr_EndPort = 20000\<rparr>]
          else Inr normalized)"

fun sendIPsLoop :: "string list \<Rightarrow> NodeSendIP list \<Rightarrow> verror + NodeSendIP list" where
  "sendIPsLoop seen [] = Inr []"
| "sendIPsLoop seen (v # vs) =
     (let sendIP = TrimSpace (si_SendIP v); name = TrimSpace (si_DisplayName v) in
      if sendIP = [] then sendIPsLoop seen vs
      else if ParseIP sendIP = [] then
        Inl (FieldError ''send_ips'' ''Send IP must be a valid IP address.'')
      else if length name > 120 then
        Inl (FieldError ''send_ips'' ''Send IP label must be at most 120 characters.'')
      else if List.member seen sendIP then
        Inl (FieldError ''send_ips'' ''Send IP entries must be unique.'')
      else
        (let name = (if name = [] then sendIP else name)
         in case sendIPsLoop (sendIP # seen) vs of
              Inl e \<Rightarrow> Inl e
            | Inr out \<Rightarrow> Inr (\<lparr>si_SendIP = sendIP, si_DisplayName = name\<rparr> # out)))"

definition validateSendIPs :: "NodeSendIP list \<Rightarrow> verror + NodeSendIP list" where
  "validateSendIPs values = sendIPsLoop [] values"

definition validateMaxRulePorts :: "int \<Rightarrow> verror + int" where
  "validateMaxRulePorts value =
     (if value = 0 then Inr 256
      else if value < 1 \<or> value > 65535 then
        Inl (FieldError ''max_rule_ports'' ''Maximum rule ports must be between 1 and 65535.'')
      else Inr value)"

subsection \<open>Published addresses (control\_dns\_publish\_addresses.go)\<close>

definition isCarrierGradeNATAddress :: "ip \<Rightarrow> bool" where
  "isCarrierGradeNATAddress p \<longleftrightarrow> (let v4 = To4 p in v4 \<noteq> [] \<and> v4 ! 0 = 100 \<and> v4 ! 1 AND 0xc0 = 0x40)"

definition isPublicIP :: "ip \<Rightarrow> bool" where
  "isPublicIP p \<longleftrightarrow>
     p \<noteq> [] \<and> IsGlobalUnicast p \<and> \<not> IsPrivate p \<and> \<not> IsLoopback p \<and> \<not> IsLinkLocalUnicast p \<and>
     \<not> IsLinkLocalMulticast p \<and> \<not> IsMulticast p \<and> \<not> IsUnspecified p \<and> \<not> isCarrierGradeNATAddress p"

fun dnsPublishAddressesLoop ::
    "string list \<Rightarrow> NodeDNSPublishAddress list \<Rightarrow> verror + NodeDNSPublishAddress list" where
  "dnsPublishAddressesLoop seen [] = Inr []"
| "dnsPublishAddressesLoop seen (v # vs) =
     (let atype = trim_upper (da_AddressType v); address = TrimSpace (da_Address v) in
      if address = [] then dnsPublishAddressesLoop seen vs
      else
        (let p = ParseIP address in
         if p = [] \<or> \<not> isPublicIP p then
           Inl (FieldError ''dns_publish_addresses'' ''DNS publish address must be a public IP address.'')
         else
           (let atype = (if atype = [] then (if To4 p = [] then ''AAAA'' else ''A'') else atype) in
            if (atype = ''A'' \<and> To4 p = []) \<or> (atype = ''AAAA'' \<and> To4 p \<noteq> []) then
              Inl (FieldError ''dns_publish_addresses'' ''DNS publish address type must match the IP version.'')
            else if atype \<noteq> ''A'' \<and> atype \<noteq> ''AAAA'' then
              Inl (FieldError ''dns_publish_addresses'' ''DNS publish address type must be A or AAAA.'')
            else
              (let key = atype @ CHR 0x00 # address in
               if List.member seen key then
                 Inl (FieldError ''dns_publish_addresses'' ''DNS publish address entries must be unique.'')
               else case dnsPublishAddressesLoop (key # seen) vs of
                      Inl e \<Rightarrow> Inl e
                    | Inr out \<Rightarrow> Inr (v\<lparr>da_AddressType := atype, da_Address := address\<rparr> # out)))))"

definition validateDNSPublishAddresses ::
    "NodeDNSPublishAddress list \<Rightarrow> verror + NodeDNSPublishAddress list" where
  "validateDNSPublishAddresses values = dnsPublishAddressesLoop [] values"

end
