(* ===== verification/Validator_Requests.thy ===== *)
theory Validator_Requests
  imports Validator
begin

text \<open>
  The request types of \<open>pkg/core/validator/control.go\<close> and their validation functions, in the
  order of the file, with the port segments of a rule (\<open>control_ports_send_ips.go\<close>).
\<close>

subsection \<open>Organisations, members, roles, groups\<close>

record BootstrapRequest =
  br_OrganizationName :: string
  br_OrganizationSlug :: string

record OrganizationRequest =
  or_Name :: string
  or_Slug :: string

record MemberRequest =
  mr_Email :: string
  mr_RoleIDs :: "string list"
  mr_Status :: string

record MemberUpdateRequest =
  mu_RoleIDs :: "string list option"
  mu_Status :: string

record ResourceScopeRequest =
  rs_ResourceType :: string
  rs_ResourceID :: string
  rs_AccessLevel :: string

record RoleRequest =
  ro_Name :: string
  ro_Description :: string
  ro_Permissions :: "string list"
  ro_ResourceScopes :: "ResourceScopeRequest list"

record GroupRequest =
  gr_Name :: string
  gr_Description :: string

definition ValidateBootstrapRequest :: "BootstrapRequest \<Rightarrow> verror + BootstrapRequest" where
  "ValidateBootstrapRequest r =
     (let r = r\<lparr>br_OrganizationName := TrimSpace (br_OrganizationName r),
                br_OrganizationSlug := normalizeSlug (br_OrganizationSlug r)\<rparr> in
      if br_OrganizationName r = [] \<or> length (br_OrganizationName r) > 120 then Inl ErrInvalidRequest
      else if \<not> slugPattern (br_OrganizationSlug r) then Inl ErrInvalidRequest
      else Inr r)"

definition ValidateOrganizationRequest :: "OrganizationRequest \<Rightarrow> verror + OrganizationRequest" where
  "ValidateOrganizationRequest r =
     (let r = r\<lparr>or_Name := TrimSpace (or_Name r), or_Slug := normalizeSlug (or_Slug r)\<rparr> in
      if or_Name r = [] \<or> length (or_Name r) > 120 \<or> \<not> slugPattern (or_Slug r)
      then Inl ErrInvalidRequest else Inr r)"

definition ValidateMemberRequest :: "MemberRequest \<Rightarrow> verror + MemberRequest" where
  "ValidateMemberRequest r =
     (let r = r\<lparr>mr_Email := ToLower (TrimSpace (mr_Email r)), mr_Status := trim_upper (mr_Status r),
                mr_RoleIDs := normalizeIDs (mr_RoleIDs r)\<rparr> in
      if mr_Email r = [] \<or> \<not> Contains (mr_Email r) ''@'' then Inl ErrInvalidRequest
      else if mr_Status r \<noteq> [] \<and> mr_Status r \<noteq> ''ACTIVE'' \<and> mr_Status r \<noteq> ''DISABLED''
        then Inl ErrInvalidRequest
      else if mr_RoleIDs r = [] then Inl ErrInvalidRequest
      else Inr r)"

definition ValidateMemberUpdateRequest :: "MemberUpdateRequest \<Rightarrow> verror + MemberUpdateRequest" where
  "ValidateMemberUpdateRequest r =
     (let r = r\<lparr>mu_Status := trim_upper (mu_Status r),
                mu_RoleIDs := map_option normalizeIDs (mu_RoleIDs r)\<rparr> in
      if mu_Status r \<noteq> [] \<and> mu_Status r \<noteq> ''ACTIVE'' \<and> mu_Status r \<noteq> ''DISABLED''
      then Inl ErrInvalidRequest else Inr r)"

fun resourceScopesLoop :: "ResourceScopeRequest list \<Rightarrow> verror + ResourceScopeRequest list" where
  "resourceScopesLoop [] = Inr []"
| "resourceScopesLoop (s # ss) =
     (let s = \<lparr>rs_ResourceType = trim_upper (rs_ResourceType s),
               rs_ResourceID = TrimSpace (rs_ResourceID s),
               rs_AccessLevel = trim_upper (rs_AccessLevel s)\<rparr> in
      if rs_ResourceType s = [] \<or> rs_ResourceID s = [] \<or> rs_AccessLevel s = []
      then Inl ErrInvalidRequest
      else case resourceScopesLoop ss of Inl e \<Rightarrow> Inl e | Inr out \<Rightarrow> Inr (s # out))"

definition ValidateRoleRequest :: "RoleRequest \<Rightarrow> verror + RoleRequest" where
  "ValidateRoleRequest r =
     (let r = r\<lparr>ro_Name := TrimSpace (ro_Name r), ro_Description := TrimSpace (ro_Description r),
                ro_Permissions := normalizeIDs (ro_Permissions r)\<rparr> in
      if ro_Name r = [] \<or> length (ro_Name r) > 120 \<or> ro_Permissions r = [] then Inl ErrInvalidRequest
      else case resourceScopesLoop (ro_ResourceScopes r) of
             Inl e \<Rightarrow> Inl e
           | Inr scopes \<Rightarrow> Inr (r\<lparr>ro_ResourceScopes := scopes\<rparr>))"

definition ValidateGroupRequest :: "GroupRequest \<Rightarrow> verror + GroupRequest" where
  "ValidateGroupRequest r =
     (let r = r\<lparr>gr_Name := TrimSpace (gr_Name r), gr_Description := TrimSpace (gr_Description r)\<rparr> in
      if gr_Name r = [] \<or> length (gr_Name r) > 120 \<or> length (gr_Description r) > 1000
      then Inl ErrInvalidRequest else Inr r)"

subsection \<open>Nodes and monitors\<close>

record NodeRequest =
  nr_Name :: string
  nr_GroupIDs :: "string list"
  nr_ListenIPs :: "NodeListenIP list"
  nr_SendIPs :: "NodeSendIP list"
  nr_PortRanges :: "NodePortRange list"
  nr_MaxRulePorts :: int
  nr_DNSPublishAddresses :: "NodeDNSPublishAddress list"
  nr_PublicDescription :: string
  nr_DataplaneMode :: string
  nr_DataplaneConflictPolicy :: string

definition ValidateNodeRequest :: "NodeRequest \<Rightarrow> verror + NodeRequest" where
  "ValidateNodeRequest r =
     (let r = r\<lparr>nr_Name := TrimSpace (nr_Name r),
                nr_PublicDescription := TrimSpace (nr_PublicDescription r),
                nr_DataplaneMode := normalizeDataplaneMode (nr_DataplaneMode r),
                nr_DataplaneConflictPolicy := normalizeDataplaneConflictPolicy (nr_DataplaneConflictPolicy r),
                nr_GroupIDs := normalizeIDs (nr_GroupIDs r)\<rparr> in
      if nr_Name r = [] then Inl (FieldError ''name'' ''Node name is required.'')
      else if length (nr_Name r) > 120 then
        Inl (FieldError ''name'' ''Node name must be at most 120 characters.'')
      else if length (nr_PublicDescription r) > 2000 then
        Inl (FieldError ''public_description'' ''Public description must be at most 2000 characters.'')
      else if \<not> validDataplaneMode (nr_DataplaneMode r) then
        Inl (FieldError ''dataplane_mode'' ''Dataplane mode is not supported.'')
      else if \<not> validDataplaneConflictPolicy (nr_DataplaneConflictPolicy r) then
        Inl (FieldError ''dataplane_conflict_policy'' ''Dataplane conflict policy is not supported.'')
      else case validateListenIPs (nr_ListenIPs r) of
        Inl e \<Rightarrow> Inl e
      | Inr listenIPs \<Rightarrow>
      (case validateSendIPs (nr_SendIPs r) of
        Inl e \<Rightarrow> Inl e
      | Inr sendIPs \<Rightarrow>
      (case validatePortRanges (nr_PortRanges r) of
        Inl e \<Rightarrow> Inl e
      | Inr portRanges \<Rightarrow>
      (case validateMaxRulePorts (nr_MaxRulePorts r) of
        Inl e \<Rightarrow> Inl e
      | Inr maxRulePorts \<Rightarrow>
      (case validateDNSPublishAddresses (nr_DNSPublishAddresses r) of
        Inl e \<Rightarrow> Inl e
      | Inr addresses \<Rightarrow>
          Inr (r\<lparr>nr_ListenIPs := listenIPs, nr_SendIPs := sendIPs, nr_PortRanges := portRanges,
                 nr_MaxRulePorts := maxRulePorts, nr_DNSPublishAddresses := addresses\<rparr>))))))"

record NodePatchRequest =
  np_Name :: "string option"
  np_GroupIDs :: "string list option"
  np_ListenIPs :: "NodeListenIP list option"
  np_SendIPs :: "NodeSendIP list option"
  np_PortRanges :: "NodePortRange list option"
  np_MaxRulePorts :: "int option"
  np_DNSPublishAddresses :: "NodeDNSPublishAddress list option"
  np_PublicDescription :: "string option"
  np_DataplaneMode :: "string option"
  np_DataplaneConflictPolicy :: "string option"

text \<open>A pointer field that is present is checked and replaced; an absent one is left alone.\<close>

definition patchField :: "('a \<Rightarrow> verror + 'b) \<Rightarrow> 'a option \<Rightarrow> verror + 'b option" where
  "patchField check field =
     (case field of
        None \<Rightarrow> Inr None
      | Some v \<Rightarrow> (case check v of Inl e \<Rightarrow> Inl e | Inr w \<Rightarrow> Inr (Some w)))"

definition patchName :: "string \<Rightarrow> verror + string" where
  "patchName value =
     (let name = TrimSpace value in
      if name = [] then Inl (FieldError ''name'' ''Node name is required.'')
      else if length name > 120 then Inl (FieldError ''name'' ''Node name must be at most 120 characters.'')
      else Inr name)"

definition patchDescription :: "string \<Rightarrow> verror + string" where
  "patchDescription value =
     (let description = TrimSpace value in
      if length description > 2000 then
        Inl (FieldError ''public_description'' ''Public description must be at most 2000 characters.'')
      else Inr description)"

definition patchDataplaneMode :: "string \<Rightarrow> verror + string" where
  "patchDataplaneMode value =
     (let mode = normalizeDataplaneMode value in
      if \<not> validDataplaneMode mode then Inl (FieldError ''dataplane_mode'' ''Dataplane mode is not supported.'')
      else Inr mode)"

definition patchConflictPolicy :: "string \<Rightarrow> verror + string" where
  "patchConflictPolicy value =
     (let policy = normalizeDataplaneConflictPolicy value in
      if \<not> validDataplaneConflictPolicy policy then
        Inl (FieldError ''dataplane_conflict_policy'' ''Dataplane conflict policy is not supported.'')
      else Inr policy)"

definition ValidateNodePatchRequest :: "NodePatchRequest \<Rightarrow> verror + NodePatchRequest" where
  "ValidateNodePatchRequest r =
     (case patchField patchName (np_Name r) of Inl e \<Rightarrow> Inl e | Inr name \<Rightarrow>
     (case patchField patchDescription (np_PublicDescription r) of Inl e \<Rightarrow> Inl e | Inr description \<Rightarrow>
     (case patchField patchDataplaneMode (np_DataplaneMode r) of Inl e \<Rightarrow> Inl e | Inr mode \<Rightarrow>
     (case patchField patchConflictPolicy (np_DataplaneConflictPolicy r) of Inl e \<Rightarrow> Inl e | Inr policy \<Rightarrow>
     (case patchField validateListenIPs (np_ListenIPs r) of Inl e \<Rightarrow> Inl e | Inr listenIPs \<Rightarrow>
     (case patchField validateSendIPs (np_SendIPs r) of Inl e \<Rightarrow> Inl e | Inr sendIPs \<Rightarrow>
     (case patchField validatePortRanges (np_PortRanges r) of Inl e \<Rightarrow> Inl e | Inr portRanges \<Rightarrow>
     (case patchField validateMaxRulePorts (np_MaxRulePorts r) of Inl e \<Rightarrow> Inl e | Inr maxRulePorts \<Rightarrow>
     (case patchField validateDNSPublishAddresses (np_DNSPublishAddresses r) of Inl e \<Rightarrow> Inl e
      | Inr addresses \<Rightarrow>
        Inr \<lparr>np_Name = name, np_GroupIDs = map_option normalizeIDs (np_GroupIDs r),
             np_ListenIPs = listenIPs, np_SendIPs = sendIPs, np_PortRanges = portRanges,
             np_MaxRulePorts = maxRulePorts, np_DNSPublishAddresses = addresses,
             np_PublicDescription = description, np_DataplaneMode = mode,
             np_DataplaneConflictPolicy = policy\<rparr>)))))))))"

record MonitorRequest =
  mo_Name :: string
  mo_GroupIDs :: "string list"

record MonitorPatchRequest =
  mx_Name :: "string option"
  mx_GroupIDs :: "string list option"

definition ValidateMonitorRequest :: "MonitorRequest \<Rightarrow> verror + MonitorRequest" where
  "ValidateMonitorRequest r =
     (let r = r\<lparr>mo_Name := TrimSpace (mo_Name r), mo_GroupIDs := normalizeIDs (mo_GroupIDs r)\<rparr> in
      if mo_Name r = [] \<or> length (mo_Name r) > 120 \<or> mo_GroupIDs r = []
      then Inl ErrInvalidRequest else Inr r)"

definition ValidateMonitorPatchRequest :: "MonitorPatchRequest \<Rightarrow> verror + MonitorPatchRequest" where
  "ValidateMonitorPatchRequest r =
     (case patchField (\<lambda>v. let name = TrimSpace v in
          if name = [] \<or> length name > 120 then Inl ErrInvalidRequest else Inr name) (mx_Name r) of
        Inl e \<Rightarrow> Inl e
      | Inr name \<Rightarrow> Inr \<lparr>mx_Name = name, mx_GroupIDs = map_option normalizeIDs (mx_GroupIDs r)\<rparr>)"

end
