(* ===== verification/Validator_Rules.thy ===== *)
theory Validator_Rules
  imports Validator_Requests
begin

text \<open>
  The rest of \<open>pkg/core/validator/control.go\<close>: health checks, DNS, notification channels, targets,
  target groups and rules, with the port segments of a rule (\<open>control_ports_send_ips.go\<close>).
\<close>

subsection \<open>Health checks\<close>

record HealthTargetScopeRequest =
  ht_Type :: string
  ht_TargetIDs :: "string list"
  ht_TargetGroupID :: string

record HealthMonitorScopeRequest =
  hm_Type :: string
  hm_MonitorID :: string
  hm_MonitorGroupID :: string

record HealthCheckRequest =
  hc_Name :: string
  hc_ProbeType :: string
  hc_IntervalSeconds :: int
  hc_TimeoutSeconds :: int
  hc_Enabled :: bool
  hc_TargetScope :: HealthTargetScopeRequest
  hc_MonitorScope :: HealthMonitorScopeRequest
  hc_Config :: json_object

definition validateHealthTargetScope ::
    "HealthTargetScopeRequest \<Rightarrow> verror + HealthTargetScopeRequest" where
  "validateHealthTargetScope scope =
     (let scope = scope\<lparr>ht_Type := trim_upper (ht_Type scope),
                        ht_TargetIDs := normalizeIDs (ht_TargetIDs scope),
                        ht_TargetGroupID := TrimSpace (ht_TargetGroupID scope)\<rparr> in
      if ht_Type scope = ''TARGETS'' then
        if ht_TargetIDs scope = [] \<or> ht_TargetGroupID scope \<noteq> [] then Inl ErrInvalidRequest else Inr scope
      else if ht_Type scope = ''TARGET_GROUP'' then
        if ht_TargetGroupID scope = [] \<or> ht_TargetIDs scope \<noteq> [] then Inl ErrInvalidRequest else Inr scope
      else Inl ErrInvalidRequest)"

definition validateHealthMonitorScope ::
    "HealthMonitorScopeRequest \<Rightarrow> verror + HealthMonitorScopeRequest" where
  "validateHealthMonitorScope scope =
     (let scope = scope\<lparr>hm_Type := trim_upper (hm_Type scope),
                        hm_MonitorID := TrimSpace (hm_MonitorID scope),
                        hm_MonitorGroupID := TrimSpace (hm_MonitorGroupID scope)\<rparr> in
      if hm_Type scope = ''MONITOR'' then
        if hm_MonitorID scope = [] \<or> hm_MonitorGroupID scope \<noteq> [] then Inl ErrInvalidRequest else Inr scope
      else if hm_Type scope = ''MONITOR_GROUP'' then
        if hm_MonitorGroupID scope = [] \<or> hm_MonitorID scope \<noteq> [] then Inl ErrInvalidRequest else Inr scope
      else Inl ErrInvalidRequest)"

definition ValidateHealthCheckRequest :: "HealthCheckRequest \<Rightarrow> verror + HealthCheckRequest" where
  "ValidateHealthCheckRequest r =
     (let r = r\<lparr>hc_Name := TrimSpace (hc_Name r), hc_ProbeType := trim_upper (hc_ProbeType r)\<rparr> in
      if hc_Name r = [] \<or> length (hc_Name r) > 120 then Inl ErrInvalidRequest
      else if hc_ProbeType r \<noteq> ''ICMP'' \<and> hc_ProbeType r \<noteq> ''TCP_PORT'' \<and> hc_ProbeType r \<noteq> ''HTTP''
        then Inl ErrInvalidRequest
      else if hc_IntervalSeconds r \<le> 0 \<or> hc_TimeoutSeconds r \<le> 0 \<or>
              hc_TimeoutSeconds r > hc_IntervalSeconds r then Inl ErrInvalidRequest
      else case validateHealthTargetScope (hc_TargetScope r) of
        Inl e \<Rightarrow> Inl e
      | Inr targetScope \<Rightarrow>
      (case validateHealthMonitorScope (hc_MonitorScope r) of
        Inl e \<Rightarrow> Inl e
      | Inr monitorScope \<Rightarrow>
          Inr (r\<lparr>hc_Config := (if hc_Config r = None then Some [] else hc_Config r),
                 hc_TargetScope := targetScope, hc_MonitorScope := monitorScope\<rparr>)))"

subsection \<open>DNS and notification channels\<close>

record DNSCredentialRequest =
  dc_Name :: string
  dc_Provider :: string
  dc_Secret :: string

record DNSManagedRecordRequest =
  dm_DNSCredentialID :: string
  dm_CredentialZoneID :: string
  dm_RecordHost :: string
  dm_RecordName :: string
  dm_RecordType :: string
  dm_TTL :: int
  dm_Proxied :: bool

record DNSInstanceRequest =
  di_ManagedRecordID :: string
  di_Name :: string
  di_Priority :: int
  di_Enabled :: bool
  di_NodeGroupIDs :: "string list"
  di_AnswerCount :: int
  di_Condition :: json_object
  di_Action :: json_object
  di_NotificationChannelIDs :: "string list"

record NotificationChannelRequest =
  nc_Name :: string
  nc_ChannelType :: string
  nc_Config :: json_object
  nc_Secret :: string
  nc_Enabled :: bool

record RegistrationTokenRequest =
  rt_TTLHours :: int

definition ValidateDNSCredentialRequest ::
    "DNSCredentialRequest \<Rightarrow> bool \<Rightarrow> verror + DNSCredentialRequest" where
  "ValidateDNSCredentialRequest r secretRequired =
     (let r = r\<lparr>dc_Name := TrimSpace (dc_Name r), dc_Provider := trim_upper (dc_Provider r),
                dc_Secret := TrimSpace (dc_Secret r)\<rparr> in
      if dc_Name r = [] \<or> length (dc_Name r) > 120 \<or> dc_Provider r \<noteq> ''CLOUDFLARE'' then Inl ErrInvalidRequest
      else if secretRequired \<and> dc_Secret r = [] then Inl ErrInvalidRequest
      else Inr r)"

definition ValidateDNSManagedRecordRequest ::
    "DNSManagedRecordRequest \<Rightarrow> verror + DNSManagedRecordRequest" where
  "ValidateDNSManagedRecordRequest r =
     (let r = r\<lparr>dm_DNSCredentialID := TrimSpace (dm_DNSCredentialID r),
                dm_CredentialZoneID := TrimSpace (dm_CredentialZoneID r),
                dm_RecordHost := TrimSpace (dm_RecordHost r),
                dm_RecordName := TrimSpace (dm_RecordName r),
                dm_RecordType := trim_upper (dm_RecordType r)\<rparr> in
      if dm_DNSCredentialID r = [] \<or> dm_CredentialZoneID r = [] then Inl ErrInvalidRequest
      else if dm_RecordType r \<noteq> ''A'' \<and> dm_RecordType r \<noteq> ''AAAA'' \<and> dm_RecordType r \<noteq> ''CNAME''
        then Inl ErrInvalidRequest
      else if dm_TTL r < 0 then Inl ErrInvalidRequest
      else Inr (if dm_TTL r = 0 then r\<lparr>dm_TTL := 60\<rparr> else r))"

definition json_string :: "string \<Rightarrow> json_object \<Rightarrow> string" where
  "json_string key obj =
     (case obj of
        None \<Rightarrow> []
      | Some kvs \<Rightarrow> (case map_of kvs key of Some (JString s) \<Rightarrow> s | _ \<Rightarrow> []))"

definition ValidateDNSInstanceRequest :: "DNSInstanceRequest \<Rightarrow> verror + DNSInstanceRequest" where
  "ValidateDNSInstanceRequest r =
     (let r = r\<lparr>di_ManagedRecordID := TrimSpace (di_ManagedRecordID r), di_Name := TrimSpace (di_Name r)\<rparr> in
      if di_ManagedRecordID r = [] \<or> di_Name r = [] \<or> length (di_Name r) > 120 \<or> di_Priority r < 0
        then Inl ErrInvalidRequest
      else
        (let r = (if di_AnswerCount r = 0 then r\<lparr>di_AnswerCount := -1\<rparr> else r) in
         if di_AnswerCount r < -1 then Inl ErrInvalidRequest
         else
           (let r = r\<lparr>di_NodeGroupIDs := uniqueNonEmptyStrings (di_NodeGroupIDs r),
                      di_NotificationChannelIDs := uniqueNonEmptyStrings (di_NotificationChannelIDs r),
                      di_Condition := (if di_Condition r = None then Some [] else di_Condition r)\<rparr> in
            if di_Action r = None then Inl ErrInvalidRequest
            else if TrimSpace (json_string ''type'' (di_Action r)) = [] then Inl ErrInvalidRequest
            else Inr r)))"

definition ValidateNotificationChannelRequest ::
    "NotificationChannelRequest \<Rightarrow> bool \<Rightarrow> verror + NotificationChannelRequest" where
  "ValidateNotificationChannelRequest r secretRequired =
     (let r = r\<lparr>nc_Name := TrimSpace (nc_Name r), nc_ChannelType := trim_upper (nc_ChannelType r),
                nc_Secret := TrimSpace (nc_Secret r)\<rparr> in
      if nc_Name r = [] \<or> length (nc_Name r) > 120 then Inl ErrInvalidRequest
      else if nc_ChannelType r \<noteq> ''WEBHOOK'' \<and> nc_ChannelType r \<noteq> ''EMAIL'' then Inl ErrInvalidRequest
      else
        (let r = (if nc_Config r = None then r\<lparr>nc_Config := Some []\<rparr> else r) in
         if nc_ChannelType r = ''EMAIL'' \<and> secretRequired \<and> nc_Secret r = [] then Inl ErrInvalidRequest
         else Inr r))"

definition ValidateRegistrationTokenRequest ::
    "RegistrationTokenRequest \<Rightarrow> verror + RegistrationTokenRequest" where
  "ValidateRegistrationTokenRequest r =
     (if rt_TTLHours r < 0 \<or> rt_TTLHours r > 24 * 7 then Inl ErrInvalidRequest else Inr r)"

subsection \<open>Targets and target groups\<close>

record TargetRequest =
  tr_Name :: string
  tr_Host :: string
  tr_Port :: int
  tr_Enabled :: bool
  tr_TargetGroupIDs :: "string list option"

record TargetGroupMemberRequest =
  gm_TargetID :: string
  gm_Priority :: int
  gm_Weight :: "int option"
  gm_Enabled :: bool

record TargetGroupRequest =
  gq_Name :: string
  gq_Description :: string
  gq_Scheduler :: string
  gq_Members :: "TargetGroupMemberRequest list"

definition ValidateTargetRequest :: "TargetRequest \<Rightarrow> verror + TargetRequest" where
  "ValidateTargetRequest r =
     (let r = r\<lparr>tr_Name := TrimSpace (tr_Name r), tr_Host := TrimSpace (tr_Host r),
                tr_TargetGroupIDs := map_option normalizeIDs (tr_TargetGroupIDs r)\<rparr> in
      if tr_Name r = [] \<or> length (tr_Name r) > 120 \<or> tr_Host r = [] \<or> length (tr_Host r) > 253
        then Inl ErrInvalidRequest
      else if list_ex (\<lambda>c. List.member [CHR '' '', CHR 0x09, CHR 0x0D, CHR 0x0A] c) (tr_Host r) \<or>
              tr_Port r < 1 \<or> tr_Port r > 65535 then Inl ErrInvalidRequest
      else Inr r)"

fun groupMembersLoop ::
    "string list \<Rightarrow> TargetGroupMemberRequest list \<Rightarrow> verror + TargetGroupMemberRequest list" where
  "groupMembersLoop seen [] = Inr []"
| "groupMembersLoop seen (member # members) =
     (let targetID = TrimSpace (gm_TargetID member) in
      if targetID = [] \<or> gm_Priority member < 0 \<or> List.member seen targetID then Inl ErrInvalidRequest
      else
        (let weight = (case gm_Weight member of None \<Rightarrow> 1 | Some w \<Rightarrow> w) in
         if weight < 0 \<or> weight > 256 then Inl ErrInvalidRequest
         else case groupMembersLoop (targetID # seen) members of
                Inl e \<Rightarrow> Inl e
              | Inr out \<Rightarrow> Inr (member\<lparr>gm_TargetID := targetID, gm_Weight := Some weight\<rparr> # out)))"

definition ValidateTargetGroupRequest :: "TargetGroupRequest \<Rightarrow> verror + TargetGroupRequest" where
  "ValidateTargetGroupRequest r =
     (let scheduler = trim_upper (gq_Scheduler r);
          r = r\<lparr>gq_Name := TrimSpace (gq_Name r), gq_Description := TrimSpace (gq_Description r),
                gq_Scheduler := (if scheduler = [] then ''PRIORITY_IPHASH'' else scheduler)\<rparr> in
      if gq_Name r = [] \<or> length (gq_Name r) > 120 \<or> length (gq_Description r) > 1000
        then Inl ErrInvalidRequest
      else case groupMembersLoop [] (gq_Members r) of
             Inl e \<Rightarrow> Inl e
           | Inr members \<Rightarrow> Inr (r\<lparr>gq_Members := members\<rparr>))"

subsection \<open>Port segments of a rule\<close>

record RulePortSegmentRequest =
  sg_StartPort :: int
  sg_EndPort :: int

fun portSegmentsLoop ::
    "RulePortSegmentRequest list \<Rightarrow> verror + RulePortSegmentRequest list" where
  "portSegmentsLoop [] = Inr []"
| "portSegmentsLoop (value # values) =
     (let value = (if sg_EndPort value = 0 then value\<lparr>sg_EndPort := sg_StartPort value\<rparr> else value) in
      if sg_StartPort value < 1 \<or> sg_StartPort value > 65535 \<or> sg_EndPort value < 1 \<or>
         sg_EndPort value > 65535 \<or> sg_StartPort value > sg_EndPort value then
        Inl (FieldError ''port_segments''
          ''Rule port segments must be within 1-65535 and start_port must be <= end_port.'')
      else case portSegmentsLoop values of Inl e \<Rightarrow> Inl e | Inr out \<Rightarrow> Inr (value # out))"

text \<open>The merge loop; \<open>merged\<close> holds the result so far in reverse, its last element first.\<close>

fun mergeSegments ::
    "RulePortSegmentRequest list \<Rightarrow> RulePortSegmentRequest list \<Rightarrow> RulePortSegmentRequest list" where
  "mergeSegments merged [] = rev merged"
| "mergeSegments merged (segment # segments) =
     (case merged of
        [] \<Rightarrow> mergeSegments [segment] segments
      | m # ms \<Rightarrow>
          if sg_StartPort segment > sg_EndPort m + 1 then mergeSegments (segment # merged) segments
          else if sg_EndPort segment > sg_EndPort m
            then mergeSegments (m\<lparr>sg_EndPort := sg_EndPort segment\<rparr> # ms) segments
          else mergeSegments merged segments)"

definition validateRulePortSegments ::
    "int \<Rightarrow> RulePortSegmentRequest list \<Rightarrow> verror + RulePortSegmentRequest list" where
  "validateRulePortSegments port values =
     (if values = [] then
        if port < 1 \<or> port > 65535 then Inl (FieldError ''port'' ''Rule port must be between 1 and 65535.'')
        else Inr [\<lparr>sg_StartPort = port, sg_EndPort = port\<rparr>]
      else case portSegmentsLoop values of
        Inl e \<Rightarrow> Inl e
      | Inr segments \<Rightarrow>
          (let segments = sort_key (\<lambda>s. (sg_StartPort s, sg_EndPort s)) segments;
               merged = mergeSegments [] segments in
           if port \<noteq> 0 \<and> (length merged \<noteq> 1 \<or> sg_StartPort (merged ! 0) \<noteq> port \<or>
                           sg_EndPort (merged ! 0) \<noteq> port)
           then Inl (FieldError ''port'' ''Rule port must be omitted when using port_segments.'')
           else Inr merged))"

subsection \<open>Rules\<close>

record RuleMatchRequest =
  rm_Type :: string
  rm_SNIHostname :: string

record ProxyProtocolRequest =
  pp_In :: string
  pp_Out :: string

record RuleUpstreamRequest =
  ru_Type :: string
  ru_TargetID :: string
  ru_TargetGroupID :: string

record RuleRequest =
  rq_Name :: string
  rq_Tags :: "string list"
  rq_NodeGroupID :: string
  rq_ListenIP :: string
  rq_SendIP :: string
  rq_FailurePolicy :: string
  rq_DataplanePreference :: string
  rq_ForwardingType :: string
  rq_Protocol :: string
  rq_Port :: int
  rq_PortSegments :: "RulePortSegmentRequest list"
  rq_Match :: RuleMatchRequest
  rq_ProxyProtocol :: ProxyProtocolRequest
  rq_Upstream :: RuleUpstreamRequest
  rq_Enabled :: bool

text \<open>The first lines of \<open>ValidateRuleRequest\<close> trim and normalise every field.\<close>

definition normalizeRuleRequest :: "RuleRequest \<Rightarrow> RuleRequest" where
  "normalizeRuleRequest r =
     r\<lparr>rq_Name := TrimSpace (rq_Name r),
       rq_NodeGroupID := TrimSpace (rq_NodeGroupID r),
       rq_ListenIP := TrimSpace (rq_ListenIP r),
       rq_SendIP := TrimSpace (rq_SendIP r),
       rq_FailurePolicy := trim_upper (rq_FailurePolicy r),
       rq_DataplanePreference := trim_upper (rq_DataplanePreference r),
       rq_ForwardingType := trim_upper (rq_ForwardingType r),
       rq_Protocol := trim_upper (rq_Protocol r),
       rq_Match := \<lparr>rm_Type = trim_upper (rm_Type (rq_Match r)),
                    rm_SNIHostname = ToLower (TrimSpace (rm_SNIHostname (rq_Match r)))\<rparr>,
       rq_ProxyProtocol := \<lparr>pp_In = trim_upper (pp_In (rq_ProxyProtocol r)),
                            pp_Out = trim_upper (pp_Out (rq_ProxyProtocol r))\<rparr>,
       rq_Upstream := \<lparr>ru_Type = trim_upper (ru_Type (rq_Upstream r)),
                       ru_TargetID = TrimSpace (ru_TargetID (rq_Upstream r)),
                       ru_TargetGroupID = TrimSpace (ru_TargetGroupID (rq_Upstream r))\<rparr>,
       rq_Tags := normalizeTags (rq_Tags r)\<rparr>"

definition default_to :: "string \<Rightarrow> string \<Rightarrow> string" where
  "default_to d s = (if s = [] then d else s)"

text \<open>The checks after the port segments, in the order of the code.\<close>

definition ruleFieldErrors :: "RuleRequest \<Rightarrow> verror option" where
  "ruleFieldErrors r =
     (if rq_SendIP r \<noteq> [] \<and> ParseIP (rq_SendIP r) = [] then
        Some (FieldError ''send_ip'' ''Rule send_ip must be a valid IP address.'')
      else if rq_Protocol r \<noteq> ''TCP'' \<and> rq_Protocol r \<noteq> ''UDP'' \<and> rq_Protocol r \<noteq> ''TCP_UDP'' then
        Some (FieldError ''protocol'' ''Rule protocol must be TCP, UDP, or TCP_UDP.'')
      else if rq_ForwardingType r \<noteq> ''DIRECT'' then
        Some (FieldError ''forwarding_type'' ''Only DIRECT forwarding is supported by the current runtime.'')
      else if rq_FailurePolicy r \<noteq> ''KEEP_ENABLED'' \<and> rq_FailurePolicy r \<noteq> ''DISABLE_WHEN_ALL_NODES_FAILED'' then
        Some (FieldError ''failure_policy'' ''Unsupported rule failure policy.'')
      else if \<not> validDataplaneMode (rq_DataplanePreference r) then
        Some (FieldError ''dataplane_preference'' ''Unsupported rule dataplane preference.'')
      else if rm_Type (rq_Match r) \<noteq> ''ANY_INBOUND'' \<and> rm_Type (rq_Match r) \<noteq> ''TLS_SNI'' then
        Some (FieldError ''match.type'' ''Rule match type must be ANY_INBOUND or TLS_SNI.'')
      else if rq_Protocol r \<noteq> ''TCP'' \<and> rm_Type (rq_Match r) \<noteq> ''ANY_INBOUND'' then
        Some (FieldError ''match.type'' ''Only TCP rules can use TLS_SNI matching.'')
      else if rm_Type (rq_Match r) = ''TLS_SNI'' \<and> rm_SNIHostname (rq_Match r) = [] then
        Some (FieldError ''match.sni_hostname'' ''TLS_SNI rules require an SNI hostname.'')
      else if rm_Type (rq_Match r) = ''TLS_SNI'' \<and> \<not> validSNIHostname (rm_SNIHostname (rq_Match r)) then
        Some (FieldError ''match.sni_hostname'' ''TLS_SNI hostname must be a valid hostname token.'')
      else if \<not> validProxyProtocol (pp_In (rq_ProxyProtocol r)) \<or> \<not> validProxyProtocol (pp_Out (rq_ProxyProtocol r)) then
        Some (RequestError ''Rule proxy protocol must be NONE, V1, or V2.'')
      else if rq_Protocol r = ''UDP'' \<and>
              (normalizedProxyProtocol (pp_In (rq_ProxyProtocol r)) \<noteq> [] \<or>
               normalizedProxyProtocol (pp_Out (rq_ProxyProtocol r)) \<noteq> []) then
        Some (RequestError ''UDP rules cannot use Proxy Protocol.'')
      else if ru_Type (rq_Upstream r) = ''TARGET'' then
        if ru_TargetID (rq_Upstream r) = [] \<or> ru_TargetGroupID (rq_Upstream r) \<noteq> [] then
          Some (RequestError ''TARGET upstream requires target_id and no target_group_id.'')
        else None
      else if ru_Type (rq_Upstream r) = ''TARGET_GROUP'' then
        if ru_TargetGroupID (rq_Upstream r) = [] \<or> ru_TargetID (rq_Upstream r) \<noteq> [] then
          Some (RequestError ''TARGET_GROUP upstream requires target_group_id and no target_id.'')
        else None
      else Some (FieldError ''upstream.type'' ''Rule upstream type must be TARGET or TARGET_GROUP.''))"

text \<open>The code interleaves these defaults with the checks; none of the checks before a default reads
  the field it fills, and the host name is cleared after the last check that reads it.\<close>

definition ruleDefaults :: "RuleRequest \<Rightarrow> RuleRequest" where
  "ruleDefaults r =
     r\<lparr>rq_ForwardingType := default_to ''DIRECT'' (rq_ForwardingType r),
       rq_FailurePolicy := default_to ''KEEP_ENABLED'' (rq_FailurePolicy r),
       rq_DataplanePreference := default_to ''AUTO'' (rq_DataplanePreference r)\<rparr>"

definition ValidateRuleRequest :: "RuleRequest \<Rightarrow> verror + RuleRequest" where
  "ValidateRuleRequest r =
     (let r = normalizeRuleRequest r in
      if rq_Name r = [] then Inl (FieldError ''name'' ''Rule name is required.'')
      else if length (rq_Name r) > 120 then
        Inl (FieldError ''name'' ''Rule name must be at most 120 characters.'')
      else if rq_NodeGroupID r = [] then
        Inl (FieldError ''node_group_id'' ''Rule node_group_id is required.'')
      else if rq_ListenIP r = [] then Inl (FieldError ''listen_ip'' ''Rule listen_ip is required.'')
      else case validateRulePortSegments (rq_Port r) (rq_PortSegments r) of
        Inl e \<Rightarrow> Inl e
      | Inr segments \<Rightarrow>
          (let r = ruleDefaults (r\<lparr>rq_PortSegments := segments, rq_Port := sg_StartPort (segments ! 0)\<rparr>) in
           case ruleFieldErrors r of
             Some e \<Rightarrow> Inl e
           | None \<Rightarrow>
               Inr (if rm_Type (rq_Match r) = ''ANY_INBOUND''
                    then r\<lparr>rq_Match := (rq_Match r)\<lparr>rm_SNIHostname := []\<rparr>\<rparr> else r)))"

record RuleCopyRequest =
  cp_Name :: string
  cp_Tags :: "string list option"

record RuleBatchRequest =
  bt_Action :: string
  bt_RuleIDs :: "string list"

definition ValidateRuleCopyRequest :: "RuleCopyRequest \<Rightarrow> verror + RuleCopyRequest" where
  "ValidateRuleCopyRequest r =
     (let r = r\<lparr>cp_Name := TrimSpace (cp_Name r), cp_Tags := map_option normalizeTags (cp_Tags r)\<rparr> in
      if length (cp_Name r) > 120 then
        Inl (FieldError ''name'' ''Copied rule name must be at most 120 characters.'')
      else Inr r)"

definition ValidateRuleBatchRequest :: "RuleBatchRequest \<Rightarrow> verror + RuleBatchRequest" where
  "ValidateRuleBatchRequest r =
     (let action = trim_upper (bt_Action r) in
      if action \<noteq> ''ENABLE'' \<and> action \<noteq> ''DISABLE'' \<and> action \<noteq> ''DELETE'' then
        Inl (FieldError ''action'' ''Batch action must be ENABLE, DISABLE, or DELETE.'')
      else
        (let ruleIDs = dedupLoop TrimSpace (\<lambda>v. v = []) [] (bt_RuleIDs r) in
         if ruleIDs = [] then
           Inl (FieldError ''rule_ids'' ''Batch request must include at least one rule_id.'')
         else Inr (r\<lparr>bt_Action := action, bt_RuleIDs := ruleIDs\<rparr>)))"

subsection \<open>Identifier and tag lists\<close>

text \<open>
  Both list normalisers clean each entry, drop the empty and the over-long ones, keep one copy of
  each and sort. The laws are proved once for any idempotent cleaning function.
\<close>

locale list_normaliser =
  fixes norm :: "string \<Rightarrow> string" and skip :: "string \<Rightarrow> bool"
  assumes norm_idem: "norm (norm v) = norm v"
begin

lemma set_loop: "set (dedupLoop norm skip seen vs) = {v \<in> norm ` set vs. \<not> skip v} - set seen"
  by (induction vs arbitrary: seen) (auto simp: Let_def)

lemma distinct_loop: "distinct (dedupLoop norm skip seen vs)"
  by (induction vs arbitrary: seen) (auto simp: Let_def set_loop)

lemma loop_id:
  "distinct vs \<Longrightarrow> set vs \<inter> set seen = {} \<Longrightarrow> (\<And>v. v \<in> set vs \<Longrightarrow> norm v = v \<and> \<not> skip v) \<Longrightarrow>
   dedupLoop norm skip seen vs = vs"
  by (induction vs arbitrary: seen) (auto simp: Let_def)

lemma loop_sort_idem:
  "dedupLoop norm skip [] (sort (dedupLoop norm skip [] vs)) = sort (dedupLoop norm skip [] vs)"
  by (rule loop_id) (auto simp: distinct_loop set_loop norm_idem)

lemma sort_loop_canonical:
  assumes "{v \<in> norm ` set vs. \<not> skip v} = {v \<in> norm ` set us. \<not> skip v}"
  shows "sort (dedupLoop norm skip [] vs) = sort (dedupLoop norm skip [] us)"
  using assms by (intro sorted_distinct_set_unique) (simp_all add: distinct_loop set_loop)

end

interpretation ids: list_normaliser TrimSpace "\<lambda>v. v = []"
  by unfold_locales simp

interpretation tags: list_normaliser "\<lambda>v. ToLower (TrimSpace v)" "\<lambda>v. v = [] \<or> length v > 64"
  by unfold_locales (simp add: TrimSpace_ToLower)

lemma normalizeTags_idem [simp]: "normalizeTags (normalizeTags vs) = normalizeTags vs"
  by (simp add: normalizeTags_def tags.loop_sort_idem)

text \<open>
  The identifiers a request carries are normalised to a canonical form: the result is strictly
  sorted, holds exactly the trimmed non-empty entries, is unchanged when normalised again, and two
  requests naming the same identifiers in any order, with any repetitions and padding, get the
  same list.
\<close>

theorem normalizeIDs_canonical:
  "sorted (normalizeIDs vs) \<and> distinct (normalizeIDs vs) \<and>
   set (normalizeIDs vs) = TrimSpace ` set vs - {[]} \<and>
   normalizeIDs (normalizeIDs vs) = normalizeIDs vs \<and>
   (normalizeIDs us = normalizeIDs vs \<longleftrightarrow> TrimSpace ` set us - {[]} = TrimSpace ` set vs - {[]})"
proof -
  have set: "set (normalizeIDs ws) = TrimSpace ` set ws - {[]}" for ws
    by (auto simp: normalizeIDs_def ids.set_loop)
  have nonempty: "{v \<in> TrimSpace ` set ws. v \<noteq> []} = TrimSpace ` set ws - {[]}" for ws by auto
  have "normalizeIDs us = normalizeIDs vs" if "TrimSpace ` set us - {[]} = TrimSpace ` set vs - {[]}"
    unfolding normalizeIDs_def using that by (intro ids.sort_loop_canonical) (simp add: nonempty)
  moreover have "sorted (normalizeIDs vs) \<and> distinct (normalizeIDs vs)"
    by (simp add: normalizeIDs_def ids.distinct_loop)
  moreover have "normalizeIDs (normalizeIDs vs) = normalizeIDs vs"
    by (simp add: normalizeIDs_def ids.loop_sort_idem)
  ultimately show ?thesis using set by metis
qed

subsection \<open>Port segments cover what was asked for\<close>

definition segment_ports :: "RulePortSegmentRequest \<Rightarrow> int set" where
  "segment_ports s = {sg_StartPort s..sg_EndPort s}"

definition segments_ports :: "RulePortSegmentRequest list \<Rightarrow> int set" where
  "segments_ports ss = (\<Union>s \<in> set ss. segment_ports s)"

text \<open>What a request asks for: the end port defaults to the start port, and a lone port is a segment.\<close>

definition requested_ports :: "int \<Rightarrow> RulePortSegmentRequest list \<Rightarrow> int set" where
  "requested_ports port values =
     (if values = [] then {port}
      else (\<Union>v \<in> set values. {sg_StartPort v..(if sg_EndPort v = 0 then sg_StartPort v else sg_EndPort v)}))"

definition segment_ok :: "RulePortSegmentRequest \<Rightarrow> bool" where
  "segment_ok s \<longleftrightarrow> 1 \<le> sg_StartPort s \<and> sg_StartPort s \<le> sg_EndPort s \<and> sg_EndPort s \<le> 65535"

definition apart :: "RulePortSegmentRequest \<Rightarrow> RulePortSegmentRequest \<Rightarrow> bool" where
  "apart s t \<longleftrightarrow> sg_EndPort s + 1 < sg_StartPort t"

lemma portSegmentsLoop_ok:
  "portSegmentsLoop vs = Inr out \<Longrightarrow>
     list_all segment_ok out \<and> (vs \<noteq> [] \<longrightarrow> out \<noteq> [] \<and> segments_ports out = requested_ports port vs)"
proof (induction vs arbitrary: out)
  case (Cons v vs)
  let ?v = "if sg_EndPort v = 0 then v\<lparr>sg_EndPort := sg_StartPort v\<rparr> else v"
  from Cons.prems obtain o' where o': "portSegmentsLoop vs = Inr o'" "out = ?v # o'" "segment_ok ?v"
    by (auto simp: Let_def segment_ok_def split: if_splits sum.splits)
  have "segments_ports o' = (if vs = [] then {} else requested_ports port vs)"
    using Cons.IH [OF o'(1)] o'(1) by (auto simp: segments_ports_def)
  then show ?case using o' Cons.IH [OF o'(1)]
    by (auto simp: segments_ports_def segment_ports_def requested_ports_def)
qed simp

lemma portSegmentsLoop_id: "list_all segment_ok ss \<Longrightarrow> portSegmentsLoop ss = Inr ss"
  by (induction ss) (auto simp: segment_ok_def)

lemma mergeSegments_correct:
  assumes "sorted_wrt apart (rev merged)" and "list_all segment_ok merged" and "list_all segment_ok ss"
    and "sorted (map sg_StartPort ss)"
    and "\<forall>m \<in> set merged. \<forall>s \<in> set ss. sg_StartPort m \<le> sg_StartPort s"
  shows "sorted_wrt apart (mergeSegments merged ss) \<and> list_all segment_ok (mergeSegments merged ss) \<and>
    segments_ports (mergeSegments merged ss) = segments_ports merged \<union> segments_ports ss \<and>
    (merged @ ss \<noteq> [] \<longrightarrow> mergeSegments merged ss \<noteq> [])"
  using assms
proof (induction merged ss rule: mergeSegments.induct)
  case (1 merged)
  then show ?case by (auto simp: segments_ports_def list_all_iff)
next
  case (2 merged seg ss)
  show ?case
  proof (cases merged)
    case Nil
    with "2.prems" "2.IH"(1) show ?thesis by (simp add: segments_ports_def)
  next
    case (Cons m ms)
    have ok: "segment_ok m" "segment_ok seg" and ap: "\<forall>x \<in> set ms. apart x m"
      using "2.prems"(1-4) Cons by (auto simp: sorted_wrt_append)
    have le: "sg_StartPort m \<le> sg_StartPort seg"
      using "2.prems"(5) Cons by simp
    consider (new) "sg_StartPort seg > sg_EndPort m + 1"
      | (grow) "sg_StartPort seg \<le> sg_EndPort m + 1" "sg_EndPort seg > sg_EndPort m"
      | (skip) "sg_StartPort seg \<le> sg_EndPort m + 1" "sg_EndPort seg \<le> sg_EndPort m"
      by linarith
    then show ?thesis
    proof cases
      case new
      have "\<forall>x \<in> set ms. apart x seg"
        using ap ok new by (auto simp: apart_def segment_ok_def)
      with "2.prems" "2.IH"(2) [OF Cons] Cons new show ?thesis
        by (simp add: sorted_wrt_append apart_def segments_ports_def Un_ac)
    next
      case grow
      let ?m = "m\<lparr>sg_EndPort := sg_EndPort seg\<rparr>"
      have "segment_ports ?m = segment_ports m \<union> segment_ports seg"
        using grow ok le by (auto simp: segment_ports_def segment_ok_def)
      moreover have "segment_ok ?m" "\<forall>x \<in> set ms. apart x ?m"
        using ok le grow ap by (auto simp: segment_ok_def apart_def)
      ultimately show ?thesis using "2.prems" "2.IH"(3) [OF Cons] Cons grow
        by (simp add: sorted_wrt_append segments_ports_def Un_ac)
    next
      case skip
      then have "segment_ports seg \<subseteq> segment_ports m"
        using le by (auto simp: segment_ports_def)
      then have eq: "segments_ports merged \<union> segments_ports (seg # ss) =
          segments_ports (m # ms) \<union> segments_ports ss"
        using Cons by (auto simp: segments_ports_def)
      show ?thesis unfolding eq using "2.prems" "2.IH"(4) [OF Cons] Cons skip by simp
    qed
  qed
qed

lemma mergeSegments_id:
  "sorted_wrt apart (rev merged @ ss) \<Longrightarrow> mergeSegments merged ss = rev merged @ ss"
proof (induction ss arbitrary: merged)
  case (Cons s ss)
  then have "sorted_wrt apart (rev (s # merged) @ ss)" by (simp add: sorted_wrt_append)
  from Cons.IH [OF this] Cons.prems show ?case
    by (cases merged) (simp_all add: sorted_wrt_append apart_def)
qed simp

lemma apart_sorted:
  "sorted_wrt apart ss \<Longrightarrow> list_all segment_ok ss \<Longrightarrow>
   sorted (map (\<lambda>s. (sg_StartPort s, sg_EndPort s)) ss)"
  by (induction ss) (auto simp: list_all_iff apart_def segment_ok_def)

lemma sorted_starts:
  "sorted (map (\<lambda>s. (sg_StartPort s, sg_EndPort s)) ss) \<Longrightarrow> sorted (map sg_StartPort ss)"
  by (induction ss) auto

lemma list_all_sort_key [simp]: "list_all P (sort_key f xs) = list_all P xs"
  by (simp add: list_all_iff)

lemma segments_ports_sort [simp]: "segments_ports (sort_key f ss) = segments_ports ss"
  by (simp add: segments_ports_def)

lemma validateRulePortSegments_ok:
  assumes "validateRulePortSegments port values = Inr out"
  shows "out \<noteq> [] \<and> list_all segment_ok out \<and> sorted_wrt apart out \<and>
    segments_ports out = requested_ports port values"
proof (cases "values = []")
  case True
  with assms show ?thesis
    by (auto simp: validateRulePortSegments_def segment_ok_def segments_ports_def segment_ports_def
        requested_ports_def split: if_splits)
next
  case False
  with assms obtain ss where ss: "portSegmentsLoop values = Inr ss"
    and out: "out = mergeSegments [] (sort_key (\<lambda>s. (sg_StartPort s, sg_EndPort s)) ss)"
    by (auto simp: validateRulePortSegments_def Let_def split: sum.splits if_splits)
  let ?ss = "sort_key (\<lambda>s. (sg_StartPort s, sg_EndPort s)) ss"
  have "sorted (map sg_StartPort ?ss)" by (rule sorted_starts) simp
  moreover have "?ss \<noteq> []" "list_all segment_ok ?ss"
    using portSegmentsLoop_ok [OF ss] False by (auto simp flip: length_greater_0_conv)
  ultimately show ?thesis
    using mergeSegments_correct [of "[]" ?ss] portSegmentsLoop_ok [OF ss, of port] False out
    by (simp add: segments_ports_def)
qed

lemma validateRulePortSegments_id:
  assumes "out \<noteq> []" "list_all segment_ok out" "sorted_wrt apart out"
  shows "validateRulePortSegments 0 out = Inr out"
proof -
  have "sort_key (\<lambda>s. (sg_StartPort s, sg_EndPort s)) out = out"
    using apart_sorted assms by (intro sort_key_id_if_sorted) simp
  then show ?thesis
    using assms mergeSegments_id [of "[]" out]
    by (simp add: validateRulePortSegments_def portSegmentsLoop_id)
qed

text \<open>
  C6: the port segments of a valid rule cover exactly the ports the request asks for, and they are
  in normal form: non-empty, each within 1 to 65535, in increasing order, with a gap between any
  two, so that no port is listed twice and no two segments could be merged. Validating the result
  again (without the separate port) gives it back.
\<close>

theorem port_segments_normal_form:
  assumes "validateRulePortSegments port values = Inr out"
  shows "segments_ports out = requested_ports port values \<and> out \<noteq> [] \<and>
    list_all (\<lambda>s. 1 \<le> sg_StartPort s \<and> sg_StartPort s \<le> sg_EndPort s \<and> sg_EndPort s \<le> 65535) out \<and>
    sorted_wrt (\<lambda>s t. sg_EndPort s + 1 < sg_StartPort t) out \<and>
    validateRulePortSegments 0 out = Inr out"
  using validateRulePortSegments_ok [OF assms] validateRulePortSegments_id [of out]
  unfolding segment_ok_def apart_def by simp

abbreviation example_segment :: "int \<Rightarrow> int \<Rightarrow> RulePortSegmentRequest" where
  "example_segment s t \<equiv> \<lparr>sg_StartPort = s, sg_EndPort = t\<rparr>"

theorem port_segments_normal_form_witness:
  "validateRulePortSegments 0 [example_segment 9000 0, example_segment 8001 8010, example_segment 8000 8000] =
     Inr [example_segment 8000 8010, example_segment 9000 9000] \<and>
   segments_ports [example_segment 8000 8010, example_segment 9000 9000] =
     requested_ports 0 [example_segment 9000 0, example_segment 8001 8010, example_segment 8000 8000]"
proof -
  have v: "validateRulePortSegments 0 [example_segment 9000 0, example_segment 8001 8010, example_segment 8000 8000] =
     Inr [example_segment 8000 8010, example_segment 9000 9000]" by code_simp
  show ?thesis using port_segments_normal_form [OF v] v by blast
qed

subsection \<open>Rule requests\<close>

text \<open>What every later stage may rely on for a rule that was let in.\<close>

definition rule_request_wf :: "RuleRequest \<Rightarrow> bool" where
  "rule_request_wf r \<longleftrightarrow>
     trimmed (rq_Name r) \<and> rq_Name r \<noteq> [] \<and> length (rq_Name r) \<le> 120 \<and>
     rq_NodeGroupID r \<noteq> [] \<and> rq_ListenIP r \<noteq> [] \<and>
     rq_PortSegments r \<noteq> [] \<and> list_all segment_ok (rq_PortSegments r) \<and>
     sorted_wrt apart (rq_PortSegments r) \<and> rq_Port r = sg_StartPort (hd (rq_PortSegments r)) \<and>
     (rq_SendIP r = [] \<or> ParseIP (rq_SendIP r) \<noteq> []) \<and>
     List.member [''TCP'', ''UDP'', ''TCP_UDP''] (rq_Protocol r) \<and>
     rq_ForwardingType r = ''DIRECT'' \<and>
     (rm_Type (rq_Match r) = ''TLS_SNI'' \<longrightarrow>
        rq_Protocol r = ''TCP'' \<and> validSNIHostname (rm_SNIHostname (rq_Match r))) \<and>
     (rm_Type (rq_Match r) \<noteq> ''TLS_SNI'' \<longrightarrow>
        rm_Type (rq_Match r) = ''ANY_INBOUND'' \<and> rm_SNIHostname (rq_Match r) = []) \<and>
     (rq_Protocol r = ''UDP'' \<longrightarrow>
        normalizedProxyProtocol (pp_In (rq_ProxyProtocol r)) = [] \<and>
        normalizedProxyProtocol (pp_Out (rq_ProxyProtocol r)) = []) \<and>
     (ru_TargetID (rq_Upstream r) = [] \<longleftrightarrow> ru_TargetGroupID (rq_Upstream r) \<noteq> [])"

definition rule_fields_ok :: "RuleRequest \<Rightarrow> bool" where
  "rule_fields_ok r \<longleftrightarrow>
     (rq_SendIP r = [] \<or> ParseIP (rq_SendIP r) \<noteq> []) \<and>
     (rq_Protocol r = ''TCP'' \<or> rq_Protocol r = ''UDP'' \<or> rq_Protocol r = ''TCP_UDP'') \<and>
     rq_ForwardingType r = ''DIRECT'' \<and>
     (rq_FailurePolicy r = ''KEEP_ENABLED'' \<or> rq_FailurePolicy r = ''DISABLE_WHEN_ALL_NODES_FAILED'') \<and>
     validDataplaneMode (rq_DataplanePreference r) \<and>
     (rm_Type (rq_Match r) = ''ANY_INBOUND'' \<or> rm_Type (rq_Match r) = ''TLS_SNI'') \<and>
     (rq_Protocol r = ''TCP'' \<or> rm_Type (rq_Match r) = ''ANY_INBOUND'') \<and>
     (rm_Type (rq_Match r) = ''TLS_SNI'' \<longrightarrow>
        rm_SNIHostname (rq_Match r) \<noteq> [] \<and> validSNIHostname (rm_SNIHostname (rq_Match r))) \<and>
     validProxyProtocol (pp_In (rq_ProxyProtocol r)) \<and> validProxyProtocol (pp_Out (rq_ProxyProtocol r)) \<and>
     (rq_Protocol r = ''UDP'' \<longrightarrow>
        normalizedProxyProtocol (pp_In (rq_ProxyProtocol r)) = [] \<and>
        normalizedProxyProtocol (pp_Out (rq_ProxyProtocol r)) = []) \<and>
     (ru_Type (rq_Upstream r) = ''TARGET'' \<and> ru_TargetID (rq_Upstream r) \<noteq> [] \<and>
        ru_TargetGroupID (rq_Upstream r) = [] \<or>
      ru_Type (rq_Upstream r) = ''TARGET_GROUP'' \<and> ru_TargetID (rq_Upstream r) = [] \<and>
        ru_TargetGroupID (rq_Upstream r) \<noteq> [])"

lemma if_eq_None: "((if b then x else y) = None) \<longleftrightarrow> (b \<longrightarrow> x = None) \<and> (\<not> b \<longrightarrow> y = None)"
  by simp

lemma ruleFieldErrors_None: "ruleFieldErrors r = None \<longleftrightarrow> rule_fields_ok r"
proof -
  have types: "ru_Type (rq_Upstream r) = ''TARGET'' \<Longrightarrow> ru_Type (rq_Upstream r) \<noteq> ''TARGET_GROUP''"
    by simp
  show ?thesis
    by (simp only: ruleFieldErrors_def rule_fields_ok_def if_eq_None option.distinct simp_thms)
      (use types in argo)
qed

lemma normalizeRuleRequest_idem: "normalizeRuleRequest (normalizeRuleRequest r) = normalizeRuleRequest r"
  by (simp add: normalizeRuleRequest_def)

lemma trim_upper_default: "trim_upper d = d \<Longrightarrow> trim_upper s = s \<Longrightarrow> trim_upper (default_to d s) = default_to d s"
  by (simp add: default_to_def)

lemma trim_upper_constants:
  "trim_upper ''DIRECT'' = ''DIRECT''" "trim_upper ''KEEP_ENABLED'' = ''KEEP_ENABLED''"
  "trim_upper ''AUTO'' = ''AUTO''" "trim_upper ''ANY_INBOUND'' = ''ANY_INBOUND''"
  by code_simp+

definition blankSNI :: "RuleRequest \<Rightarrow> RuleRequest" where
  "blankSNI r = (if rm_Type (rq_Match r) = ''ANY_INBOUND''
     then r\<lparr>rq_Match := (rq_Match r)\<lparr>rm_SNIHostname := []\<rparr>\<rparr> else r)"

lemma ValidateRuleRequest_Inr:
  assumes "ValidateRuleRequest r = Inr r'"
  obtains segments where
    "validateRulePortSegments (rq_Port r) (rq_PortSegments r) = Inr segments"
    "r' = blankSNI (ruleDefaults ((normalizeRuleRequest r)
        \<lparr>rq_PortSegments := segments, rq_Port := sg_StartPort (segments ! 0)\<rparr>))"
    "rule_fields_ok (ruleDefaults ((normalizeRuleRequest r)
        \<lparr>rq_PortSegments := segments, rq_Port := sg_StartPort (segments ! 0)\<rparr>))"
    "rq_Name r' \<noteq> []" "length (rq_Name r') \<le> 120" "rq_NodeGroupID r' \<noteq> []" "rq_ListenIP r' \<noteq> []"
proof -
  have same: "rq_Port (normalizeRuleRequest r) = rq_Port r"
    "rq_PortSegments (normalizeRuleRequest r) = rq_PortSegments r"
    by (simp_all add: normalizeRuleRequest_def)
  show thesis
    using assms that
    unfolding ValidateRuleRequest_def Let_def same blankSNI_def [symmetric]
    by (auto simp: ruleFieldErrors_None [symmetric] ruleDefaults_def blankSNI_def
        split: if_splits sum.splits option.splits)
qed

lemma normal_result:
  assumes "R = blankSNI (ruleDefaults ((normalizeRuleRequest r)\<lparr>rq_PortSegments := ss, rq_Port := p\<rparr>))"
  shows "normalizeRuleRequest (R\<lparr>rq_Port := q\<rparr>) = R\<lparr>rq_Port := q\<rparr>" and "ruleDefaults R = R"
    and "blankSNI R = R" and "trimmed (rq_Name R)"
  using assms trim_upper_constants
  by (auto simp: blankSNI_def ruleDefaults_def normalizeRuleRequest_def default_to_def)

lemma rule_fields_ok_blankSNI: "rule_fields_ok r \<Longrightarrow> rule_fields_ok (blankSNI r)"
  by (auto simp: rule_fields_ok_def blankSNI_def)

lemma rule_fields_ok_port: "rule_fields_ok (r\<lparr>rq_Port := p\<rparr>) = rule_fields_ok r"
  by (simp add: rule_fields_ok_def)

lemma fields_wf:
  assumes "rule_fields_ok r" "blankSNI r = r"
  shows "List.member [''TCP'', ''UDP'', ''TCP_UDP''] (rq_Protocol r)"
    and "rm_Type (rq_Match r) \<noteq> ''TLS_SNI'' \<longrightarrow>
        rm_Type (rq_Match r) = ''ANY_INBOUND'' \<and> rm_SNIHostname (rq_Match r) = []"
    and "rm_Type (rq_Match r) = ''TLS_SNI'' \<longrightarrow>
        rq_Protocol r = ''TCP'' \<and> validSNIHostname (rm_SNIHostname (rq_Match r))"
    and "ru_TargetID (rq_Upstream r) = [] \<longleftrightarrow> ru_TargetGroupID (rq_Upstream r) \<noteq> []"
proof -
  show "List.member [''TCP'', ''UDP'', ''TCP_UDP''] (rq_Protocol r)"
    using assms by (auto simp: rule_fields_ok_def)
  have "rm_SNIHostname (rq_Match r) = []" if "rm_Type (rq_Match r) = ''ANY_INBOUND''"
    using assms(2) that unfolding blankSNI_def
    by (metis (no_types, lifting) RuleRequest.ext_inject RuleRequest.surjective RuleRequest.update_convs(12)
        RuleMatchRequest.select_convs(2) RuleMatchRequest.surjective RuleMatchRequest.update_convs(2))
  then show "rm_Type (rq_Match r) \<noteq> ''TLS_SNI'' \<longrightarrow>
        rm_Type (rq_Match r) = ''ANY_INBOUND'' \<and> rm_SNIHostname (rq_Match r) = []"
    using assms(1) unfolding rule_fields_ok_def by argo
  have "''ANY_INBOUND'' \<noteq> ''TLS_SNI''" by simp
  then show "rm_Type (rq_Match r) = ''TLS_SNI'' \<longrightarrow>
        rq_Protocol r = ''TCP'' \<and> validSNIHostname (rm_SNIHostname (rq_Match r))"
    using assms(1) unfolding rule_fields_ok_def by metis
  show "ru_TargetID (rq_Upstream r) = [] \<longleftrightarrow> ru_TargetGroupID (rq_Upstream r) \<noteq> []"
    using assms(1) unfolding rule_fields_ok_def by argo
qed


definition example_rule_request :: RuleRequest where
  "example_rule_request =
     \<lparr>rq_Name = '' web '', rq_Tags = [''B'', ''a'', ''b''], rq_NodeGroupID = ''g1'', rq_ListenIP = ''0.0.0.0'',
      rq_SendIP = [], rq_FailurePolicy = [], rq_DataplanePreference = ''native'', rq_ForwardingType = [],
      rq_Protocol = ''tcp'', rq_Port = 0, rq_PortSegments = [example_segment 443 0, example_segment 80 90],
      rq_Match = \<lparr>rm_Type = ''tls_sni'', rm_SNIHostname = ''Www.Example.org''\<rparr>,
      rq_ProxyProtocol = \<lparr>pp_In = [], pp_Out = ''v2''\<rparr>,
      rq_Upstream = \<lparr>ru_Type = ''target'', ru_TargetID = ''t1'', ru_TargetGroupID = []\<rparr>, rq_Enabled = True\<rparr>"

definition example_rule_result :: RuleRequest where
  "example_rule_result =
     \<lparr>rq_Name = ''web'', rq_Tags = [''a'', ''b''], rq_NodeGroupID = ''g1'', rq_ListenIP = ''0.0.0.0'',
      rq_SendIP = [], rq_FailurePolicy = ''KEEP_ENABLED'', rq_DataplanePreference = ''NATIVE'',
      rq_ForwardingType = ''DIRECT'', rq_Protocol = ''TCP'', rq_Port = 80,
      rq_PortSegments = [example_segment 80 90, example_segment 443 443],
      rq_Match = \<lparr>rm_Type = ''TLS_SNI'', rm_SNIHostname = ''www.example.org''\<rparr>,
      rq_ProxyProtocol = \<lparr>pp_In = [], pp_Out = ''V2''\<rparr>,
      rq_Upstream = \<lparr>ru_Type = ''TARGET'', ru_TargetID = ''t1'', ru_TargetGroupID = []\<rparr>, rq_Enabled = True\<rparr>"


end
