(* ===== verification/Agent_Config.thy ===== *)
theory Agent_Config
  imports Domain
begin

text \<open>
  The data the control plane and the node agents exchange (\<open>pkg/core/agent/config.go\<close>) and the
  protocol version check (\<open>pkg/core/agent/protocol.go\<close>). A pointer field is an \<open>option\<close>, an
  \<open>error\<close> value is either a structured \<open>ConfigApplyError\<close> or a plain message.
\<close>

subsection \<open>protocol.go\<close>

record ProtocolVersion =
  pv_Major :: int
  pv_Minor :: int

definition CurrentProtocolVersion :: ProtocolVersion where
  "CurrentProtocolVersion = \<lparr>pv_Major = 2, pv_Minor = 3\<rparr>"

definition ManagedDataplaneProtocolVersion :: ProtocolVersion where
  "ManagedDataplaneProtocolVersion = \<lparr>pv_Major = 2, pv_Minor = 1\<rparr>"

definition SendIPProtocolVersion :: ProtocolVersion where
  "SendIPProtocolVersion = \<lparr>pv_Major = 2, pv_Minor = 2\<rparr>"

definition LeastLoadTargetGroupProtocolVersion :: ProtocolVersion where
  "LeastLoadTargetGroupProtocolVersion = \<lparr>pv_Major = 2, pv_Minor = 3\<rparr>"

definition Accepts :: "ProtocolVersion \<Rightarrow> ProtocolVersion \<Rightarrow> bool" where
  "Accepts server agent =
     (if pv_Major server \<noteq> pv_Major agent then False
      else if pv_Minor agent > pv_Minor server then False
      else pv_Minor server - pv_Minor agent \<le> 1)"

subsection \<open>config.go: rules\<close>

record TargetEndpoint =
  te_ID :: string
  te_Host :: string
  te_Port :: int
  te_Weight :: int
  te_Enabled :: bool

record TargetPriorityBucket =
  pb_Priority :: int
  pb_Targets :: "TargetEndpoint list"

record RuleUpstreamConfig =
  up_Type :: string
  up_Target :: "TargetEndpoint option"
  up_Scheduler :: string
  up_TargetGroup :: "TargetPriorityBucket list"

record PortSegmentConfig =
  ps_StartPort :: int
  ps_EndPort :: int

record RuleConfig =
  rc_ID :: string
  rc_RuntimeID :: string
  rc_ConfigVersion :: int
  rc_Enabled :: bool
  rc_Dataplane :: string
  rc_ForwardingType :: ForwardingType
  rc_Protocol :: Protocol
  rc_NodeIDs :: "string list"
  rc_NodeGroupIDs :: "string list"
  rc_ListenIP :: string
  rc_Port :: int
  rc_PortSegments :: "PortSegmentConfig list"
  rc_SendIP :: string
  rc_MatchType :: MatchType
  rc_SNIHostname :: string
  rc_ProxyProtocolIn :: string
  rc_ProxyProtocolOut :: string
  rc_Upstream :: RuleUpstreamConfig

record ConfigSnapshot =
  cs_AgentProtocolVersion :: ProtocolVersion
  cs_NodeID :: string
  cs_ConfigVersion :: int
  cs_ConfigHash :: string
  cs_DataplaneMode :: string
  cs_DataplaneInstanceID :: string
  cs_ConflictPolicy :: string
  cs_Rules :: "RuleConfig list"

text \<open>The zero values that a composite literal with missing fields has.\<close>

definition zero_upstream :: RuleUpstreamConfig where
  "zero_upstream = \<lparr>up_Type = [], up_Target = None, up_Scheduler = [], up_TargetGroup = []\<rparr>"

definition zero_rule :: RuleConfig where
  "zero_rule = \<lparr>rc_ID = [], rc_RuntimeID = [], rc_ConfigVersion = 0, rc_Enabled = False,
     rc_Dataplane = [], rc_ForwardingType = [], rc_Protocol = [], rc_NodeIDs = [],
     rc_NodeGroupIDs = [], rc_ListenIP = [], rc_Port = 0, rc_PortSegments = [], rc_SendIP = [],
     rc_MatchType = [], rc_SNIHostname = [], rc_ProxyProtocolIn = [], rc_ProxyProtocolOut = [],
     rc_Upstream = zero_upstream\<rparr>"

definition zero_snapshot :: ConfigSnapshot where
  "zero_snapshot = \<lparr>cs_AgentProtocolVersion = \<lparr>pv_Major = 0, pv_Minor = 0\<rparr>, cs_NodeID = [],
     cs_ConfigVersion = 0, cs_ConfigHash = [], cs_DataplaneMode = [], cs_DataplaneInstanceID = [],
     cs_ConflictPolicy = [], cs_Rules = []\<rparr>"

subsection \<open>config.go: metrics\<close>

record RuleTrafficDelta =
  rd_RuleID :: string
  rd_UploadBytes :: int
  rd_DownloadBytes :: int
  rd_TCPConnections :: int
  rd_UDPPackets :: int

record TargetMetricsPayload =
  tm_RuleID :: string
  tm_TargetID :: string
  tm_TCPConnections :: int
  tm_UDPPacketsPerSecond :: int
  tm_BandwidthBps :: int
  tm_UploadBytes :: int
  tm_DownloadBytes :: int
  tm_LatencyMS :: int

text \<open>Of the metrics payload, the counters and lists that forwarding fills; the fields that describe
  the machine (CPU, memory, disk, operating system) are read from the host and are left out.\<close>

record MetricsPayload =
  mp_TCPConnections :: int
  mp_UDPPacketsPerSecond :: int
  mp_BandwidthBps :: int
  mp_UploadBytes :: int
  mp_DownloadBytes :: int
  mp_Targets :: "TargetMetricsPayload list"
  mp_TrafficReportID :: string
  mp_TrafficDeltas :: "RuleTrafficDelta list"

definition zero_metrics :: MetricsPayload where
  "zero_metrics = \<lparr>mp_TCPConnections = 0, mp_UDPPacketsPerSecond = 0, mp_BandwidthBps = 0,
     mp_UploadBytes = 0, mp_DownloadBytes = 0, mp_Targets = [], mp_TrafficReportID = [],
     mp_TrafficDeltas = []\<rparr>"

subsection \<open>config.go: errors of a configuration that could not be applied\<close>

record ConfigApplyErrorDetail =
  ed_Code :: string
  ed_RuleIDs :: "string list"
  ed_Protocol :: Protocol
  ed_ListenIP :: string
  ed_Port :: int
  ed_Dataplane :: string
  ed_Owner :: string
  ed_DriftStatus :: string
  ed_ExternalResource :: string
  ed_Message :: string

record ConfigApplyError =
  ae_Message :: string
  ae_Errors :: "ConfigApplyErrorDetail list"

datatype go_error = ApplyError ConfigApplyError | PlainError string

definition ConfigApplyError_Error :: "ConfigApplyError \<Rightarrow> string" where
  "ConfigApplyError_Error err =
     (if TrimSpace (ae_Message err) \<noteq> [] then ae_Message err
      else case ae_Errors err of e # _ \<Rightarrow> ed_Message e | [] \<Rightarrow> ''config apply failed'')"

definition Error_string :: "go_error \<Rightarrow> string" where
  "Error_string e = (case e of ApplyError a \<Rightarrow> ConfigApplyError_Error a | PlainError m \<Rightarrow> m)"

definition StructuredApplyErrors :: "go_error option \<Rightarrow> ConfigApplyErrorDetail list" where
  "StructuredApplyErrors err =
     (case err of
        None \<Rightarrow> []
      | Some (ApplyError a) \<Rightarrow> ae_Errors a
      | Some (PlainError _) \<Rightarrow> [])"

end
