(* ===== verification/Target_Candidates.thy ===== *)
theory Target_Candidates
  imports Agent_Config
begin

text \<open>
  The pure part of \<open>pkg/core/forward/target_selection.go\<close>: which endpoints of a target group are
  candidates, the hash that maps a client to one of them, and the loop that looks for the least
  loaded one. A \<open>net.Addr\<close> is its text form, \<open>None\<close> for nil.
\<close>

fun bestBucketLoop ::
    "(TargetEndpoint \<Rightarrow> bool) \<Rightarrow> (int \<times> TargetEndpoint list) option \<Rightarrow> TargetPriorityBucket list \<Rightarrow>
     TargetEndpoint list" where
  "bestBucketLoop usable best [] = (case best of None \<Rightarrow> [] | Some (_, candidates) \<Rightarrow> candidates)"
| "bestBucketLoop usable best (bucket # buckets) =
     (let enabledTargets = filter usable (pb_Targets bucket) in
      if enabledTargets = [] then bestBucketLoop usable best buckets
      else if (case best of None \<Rightarrow> True | Some (bestPriority, _) \<Rightarrow> pb_Priority bucket < bestPriority)
        then bestBucketLoop usable (Some (pb_Priority bucket, enabledTargets)) buckets
      else bestBucketLoop usable best buckets)"

definition enabledTargetGroupCandidates :: "RuleConfig \<Rightarrow> TargetEndpoint list" where
  "enabledTargetGroupCandidates rule = bestBucketLoop te_Enabled None (up_TargetGroup (rc_Upstream rule))"

definition enabledLeastLoadTargetGroupCandidates :: "RuleConfig \<Rightarrow> TargetEndpoint list" where
  "enabledLeastLoadTargetGroupCandidates rule =
     bestBucketLoop (\<lambda>t. te_Enabled t \<and> te_Weight t > 0) None (up_TargetGroup (rc_Upstream rule))"

definition isLeastLoad :: "RuleConfig \<Rightarrow> bool" where
  "isLeastLoad rule \<longleftrightarrow> EqualFold (TrimSpace (up_Scheduler (rc_Upstream rule))) ''LEAST_LOAD''"

definition activeTargetGroupCandidates :: "RuleConfig \<Rightarrow> TargetEndpoint list" where
  "activeTargetGroupCandidates rule =
     (if isLeastLoad rule then enabledLeastLoadTargetGroupCandidates rule
      else enabledTargetGroupCandidates rule)"

definition sourceIPKey :: "string option \<Rightarrow> string" where
  "sourceIPKey address =
     (case address of
        None \<Rightarrow> []
      | Some a \<Rightarrow> (case SplitHostPort a of None \<Rightarrow> a | Some (host, _) \<Rightarrow> host))"

definition stableTargetHash :: "string list \<Rightarrow> uint32" where
  "stableTargetHash parts = fnv32a (concat (map (\<lambda>part. bytes_of part @ [0]) parts))"

text \<open>
  The comparison loop of \<open>selectLeastLoadTargetGroupEndpoint\<close>, \<open>reserveLeastLoadTargetTCPDial\<close> and
  \<open>reserveLeastLoadTargetUDPSession\<close>: loads are compared by cross multiplication in \<open>int64\<close>.
\<close>

fun leastLoadLoop ::
    "(TargetEndpoint \<Rightarrow> int) \<Rightarrow> TargetEndpoint \<Rightarrow> int \<Rightarrow> TargetEndpoint list \<Rightarrow> TargetEndpoint" where
  "leastLoadLoop connections best bestConnections [] = best"
| "leastLoadLoop connections best bestConnections (candidate # candidates) =
     (let candidateConnections = connections candidate in
      if i64 (candidateConnections * te_Weight best) < i64 (bestConnections * te_Weight candidate)
      then leastLoadLoop connections candidate candidateConnections candidates
      else leastLoadLoop connections best bestConnections candidates)"

subsection \<open>Candidates are the usable endpoints of the best bucket\<close>

definition usable_buckets :: "(TargetEndpoint \<Rightarrow> bool) \<Rightarrow> TargetPriorityBucket list \<Rightarrow> TargetPriorityBucket list" where
  "usable_buckets usable bs = filter (\<lambda>b. filter usable (pb_Targets b) \<noteq> []) bs"

lemma bestBucketLoop_cases:
  "(bestBucketLoop usable best bs =
      (case best of None \<Rightarrow> [] | Some (_, cs) \<Rightarrow> cs) \<and>
      (\<forall>b \<in> set (usable_buckets usable bs). \<exists>p cs. best = Some (p, cs) \<and> p \<le> pb_Priority b)) \<or>
   (\<exists>b \<in> set (usable_buckets usable bs).
      bestBucketLoop usable best bs = filter usable (pb_Targets b) \<and>
      (\<forall>c \<in> set (usable_buckets usable bs). pb_Priority b \<le> pb_Priority c) \<and>
      (\<forall>p cs. best = Some (p, cs) \<longrightarrow> pb_Priority b < p))"
proof (induction bs arbitrary: best)
  case (Cons b bs)
  let ?ts = "filter usable (pb_Targets b)"
  consider (skip) "?ts = []"
    | (take) "?ts \<noteq> []" "\<forall>p cs. best = Some (p, cs) \<longrightarrow> pb_Priority b < p"
    | (keep) p cs where "?ts \<noteq> []" "best = Some (p, cs)" "p \<le> pb_Priority b"
    by (cases best) force+
  then show ?case
  proof cases
    case skip
    with Cons.IH [of best] show ?thesis by (auto simp: usable_buckets_def)
  next
    case take
    then have loop: "bestBucketLoop usable best (b # bs) = bestBucketLoop usable (Some (pb_Priority b, ?ts)) bs"
      by (cases best) auto
    have ub: "usable_buckets usable (b # bs) = b # usable_buckets usable bs"
      using take(1) by (simp add: usable_buckets_def)
    from Cons.IH [of "Some (pb_Priority b, ?ts)"] show ?thesis
    proof (elim disjE bexE conjE)
      assume "bestBucketLoop usable (Some (pb_Priority b, ?ts)) bs =
          (case Some (pb_Priority b, ?ts) of None \<Rightarrow> [] | Some (_, cs) \<Rightarrow> cs)"
        and "\<forall>c \<in> set (usable_buckets usable bs). \<exists>p cs. Some (pb_Priority b, ?ts) = Some (p, cs) \<and> p \<le> pb_Priority c"
      then show ?thesis unfolding loop ub using take(2) by (intro disjI2 bexI [of _ b]) auto
    next
      fix c
      assume "c \<in> set (usable_buckets usable bs)"
        and "bestBucketLoop usable (Some (pb_Priority b, ?ts)) bs = filter usable (pb_Targets c)"
        and "\<forall>d \<in> set (usable_buckets usable bs). pb_Priority c \<le> pb_Priority d"
        and "\<forall>p cs. Some (pb_Priority b, ?ts) = Some (p, cs) \<longrightarrow> pb_Priority c < p"
      then show ?thesis unfolding loop ub using take(2) by (intro disjI2 bexI [of _ c]) auto
    qed
  next
    case keep
    with Cons.IH [of best] show ?thesis by (auto simp: usable_buckets_def)
  qed
qed (simp add: usable_buckets_def)

lemma candidates_spec:
  "t \<in> set (bestBucketLoop usable None bs) \<Longrightarrow>
     usable t \<and> (\<exists>b \<in> set bs. t \<in> set (pb_Targets b) \<and>
       (\<forall>c \<in> set bs. \<forall>u \<in> set (pb_Targets c). usable u \<longrightarrow> pb_Priority b \<le> pb_Priority c))"
  using bestBucketLoop_cases [of usable None bs]
  by (auto simp: usable_buckets_def filter_empty_conv) blast

lemma candidates_Nil:
  "bestBucketLoop usable None bs = [] \<longleftrightarrow> (\<forall>b \<in> set bs. \<forall>t \<in> set (pb_Targets b). \<not> usable t)"
proof -
  have none: "(\<forall>b \<in> set bs. \<forall>t \<in> set (pb_Targets b). \<not> usable t) \<longleftrightarrow> set (usable_buckets usable bs) = {}"
    by (auto simp: usable_buckets_def filter_empty_conv)
  have "filter usable (pb_Targets b) \<noteq> []" if "b \<in> set (usable_buckets usable bs)" for b
    using that by (simp add: usable_buckets_def)
  then show ?thesis unfolding none using bestBucketLoop_cases [of usable None bs] by force
qed

subsection \<open>The least loaded candidate\<close>

text \<open>\<open>lighter s t\<close>: the load of \<open>s\<close> relative to its weight is at most that of \<open>t\<close>.\<close>

definition lighter :: "(TargetEndpoint \<Rightarrow> int) \<Rightarrow> TargetEndpoint \<Rightarrow> TargetEndpoint \<Rightarrow> bool" where
  "lighter load s t \<longleftrightarrow> load s * te_Weight t \<le> load t * te_Weight s"

lemma lighter_trans:
  assumes "lighter load s t" "lighter load t u" "0 < te_Weight s" "0 < te_Weight t" "0 < te_Weight u"
  shows "lighter load s u"
proof -
  have "load s * te_Weight t * te_Weight u \<le> load t * te_Weight s * te_Weight u"
    using assms by (simp add: lighter_def mult_right_mono)
  also have "\<dots> = (load t * te_Weight u) * te_Weight s" by simp
  also have "\<dots> \<le> (load u * te_Weight t) * te_Weight s"
    using assms by (intro mult_right_mono) (simp_all add: lighter_def)
  finally have "te_Weight t * (load s * te_Weight u) \<le> te_Weight t * (load u * te_Weight s)"
    by (simp add: ac_simps)
  then show ?thesis using assms by (simp add: lighter_def)
qed

definition loads_small :: "(TargetEndpoint \<Rightarrow> int) \<Rightarrow> TargetEndpoint list \<Rightarrow> bool" where
  "loads_small load ts \<longleftrightarrow>
     (\<forall>s \<in> set ts. 0 < te_Weight s \<and> 0 \<le> load s \<and> (\<forall>t \<in> set ts. load s * te_Weight t < 2 ^ 63))"

lemma loads_small_i64:
  assumes "loads_small load ts" "s \<in> set ts" "t \<in> set ts"
  shows "i64 (load s * te_Weight t) = load s * te_Weight t"
proof (rule i64_nonneg_small)
  have "0 \<le> load s" "0 < te_Weight t" using assms by (auto simp: loads_small_def)
  then show "0 \<le> load s * te_Weight t" by simp
qed (use assms in \<open>auto simp: loads_small_def\<close>)

lemma leastLoadLoop_least:
  assumes "loads_small load (best # seen @ ts)" and "\<forall>t \<in> set seen. lighter load best t"
  shows "leastLoadLoop load best (load best) ts \<in> set (best # ts) \<and>
    (\<forall>t \<in> set (best # seen @ ts). lighter load (leastLoadLoop load best (load best) ts) t)"
  using assms
proof (induction ts arbitrary: best seen)
  case Nil
  then show ?case by (simp add: lighter_def)
next
  case (Cons c ts)
  note small = loads_small_i64 [OF Cons.prems(1)]
  show ?case
  proof (cases "load c * te_Weight best < load best * te_Weight c")
    case True
    then have c: "lighter load c best" by (simp add: lighter_def)
    have "\<forall>t \<in> set (best # seen). lighter load c t"
      using c Cons.prems lighter_trans [OF c] by (auto simp: loads_small_def)
    moreover have "loads_small load (c # (best # seen) @ ts)"
      using Cons.prems(1) by (auto simp: loads_small_def)
    ultimately show ?thesis
      using Cons.IH [of c "best # seen"] True small by auto
  next
    case False
    then have "\<forall>t \<in> set (seen @ [c]). lighter load best t" using Cons.prems(2) by (auto simp: lighter_def)
    moreover have "loads_small load (best # (seen @ [c]) @ ts)" using Cons.prems(1) by simp
    ultimately show ?thesis using Cons.IH [of best "seen @ [c]"] False small by auto
  qed
qed

end
