(* ===== verification/Traffic_Deltas.thy ===== *)
theory Traffic_Deltas
  imports Agent_Config
begin

text \<open>
  Traffic deltas and their merging, which the forwarder (\<open>forward/metrics.go\<close>), the node agent
  (\<open>agent/traffic_spool.go\<close>) and the managed dataplanes (\<open>dataplane/metrics.go\<close>) each do in the same
  way: a map from rule to accumulated delta and a slice with the rules in the order of their first
  occurrence. The contract of merging is stated once, as a locale.
\<close>

subsection \<open>Accumulating deltas\<close>

definition addDelta :: "RuleTrafficDelta \<Rightarrow> RuleTrafficDelta \<Rightarrow> RuleTrafficDelta" where
  "addDelta current delta =
     current\<lparr>rd_UploadBytes := i64 (rd_UploadBytes current + rd_UploadBytes delta),
             rd_DownloadBytes := i64 (rd_DownloadBytes current + rd_DownloadBytes delta),
             rd_TCPConnections := i64 (rd_TCPConnections current + rd_TCPConnections delta),
             rd_UDPPackets := i64 (rd_UDPPackets current + rd_UDPPackets delta)\<rparr>"

definition zero_delta :: "string \<Rightarrow> RuleTrafficDelta" where
  "zero_delta ruleID = \<lparr>rd_RuleID = ruleID, rd_UploadBytes = 0, rd_DownloadBytes = 0,
     rd_TCPConnections = 0, rd_UDPPackets = 0\<rparr>"

text \<open>The map \<open>byRule\<close> and the slice \<open>order\<close> of the merge are one association list, in the order of
  first occurrence.\<close>

fun addByRule :: "RuleTrafficDelta \<Rightarrow> RuleTrafficDelta list \<Rightarrow> RuleTrafficDelta list" where
  "addByRule delta [] = [addDelta (zero_delta (rd_RuleID delta)) delta]"
| "addByRule delta (d # ds) =
     (if rd_RuleID d = rd_RuleID delta then addDelta d delta # ds else d # addByRule delta ds)"

definition delta_empty :: "RuleTrafficDelta \<Rightarrow> bool" where
  "delta_empty d \<longleftrightarrow> rd_UploadBytes d = 0 \<and> rd_DownloadBytes d = 0 \<and> rd_TCPConnections d = 0 \<and>
     rd_UDPPackets d = 0"

definition mergeStep :: "RuleTrafficDelta \<Rightarrow> RuleTrafficDelta list \<Rightarrow> RuleTrafficDelta list" where
  "mergeStep delta byRule = (if rd_RuleID delta = [] then byRule else addByRule delta byRule)"

definition mergeAll :: "RuleTrafficDelta list \<Rightarrow> RuleTrafficDelta list" where
  "mergeAll deltas = filter (\<lambda>d. \<not> delta_empty d) (fold mergeStep deltas [])"

subsection \<open>Sums per rule\<close>

text \<open>The four quantities of a delta.\<close>

datatype component = Upload | Download | Connections | Packets

fun dsel :: "component \<Rightarrow> RuleTrafficDelta \<Rightarrow> int" where
  "dsel Upload d = rd_UploadBytes d"
| "dsel Download d = rd_DownloadBytes d"
| "dsel Connections d = rd_TCPConnections d"
| "dsel Packets d = rd_UDPPackets d"

definition rule_sum :: "component \<Rightarrow> string \<Rightarrow> RuleTrafficDelta list \<Rightarrow> int" where
  "rule_sum c r ds = sum_list (map (dsel c) (filter (\<lambda>d. rd_RuleID d = r) ds))"

lemma component_zero_delta [simp]: "dsel c (zero_delta r) = 0"
  by (cases c) (simp_all add: zero_delta_def)

lemma component_addDelta [simp]: "dsel c (addDelta a b) = i64 (dsel c a + dsel c b)"
  "rd_RuleID (addDelta a b) = rd_RuleID a" "rd_RuleID (zero_delta r) = r"
  by (cases c; simp add: addDelta_def zero_delta_def)+

lemma component_empty: "delta_empty d \<Longrightarrow> dsel c d = 0"
  by (cases c) (simp_all add: delta_empty_def)

lemma rule_sum_simps [simp]: "rule_sum c r [] = 0"
  "rule_sum c r (d # ds) = (if rd_RuleID d = r then dsel c d else 0) + rule_sum c r ds"
  "rule_sum c r (ds @ es) = rule_sum c r ds + rule_sum c r es"
  by (simp_all add: rule_sum_def)

lemma rule_sum_nonneg: "\<forall>d \<in> set ds. 0 \<le> dsel c d \<Longrightarrow> 0 \<le> rule_sum c r ds"
  by (induction ds) auto

subsection \<open>The contract of merging\<close>

text \<open>
  A merge first cleans each delta, then adds up the deltas of each rule; the sum of every rule is
  kept as long as it fits 63 bits, and the result has one non-empty entry per rule.
\<close>

definition merged_form :: "RuleTrafficDelta list \<Rightarrow> bool" where
  "merged_form ds \<longleftrightarrow> distinct (map rd_RuleID ds) \<and> (\<forall>d \<in> set ds. rd_RuleID d \<noteq> [] \<and> \<not> delta_empty d)"

definition clean_nonneg :: "(RuleTrafficDelta \<Rightarrow> RuleTrafficDelta) \<Rightarrow> component \<Rightarrow> RuleTrafficDelta list \<Rightarrow> bool" where
  "clean_nonneg clean c ds \<longleftrightarrow> (\<forall>d \<in> set ds. 0 \<le> dsel c (clean d))"

text \<open>The sum law on its own: a merge that drops the rules \<open>skips\<close> selects and keeps one entry per other rule.\<close>

locale delta_sum =
  fixes merge :: "RuleTrafficDelta list \<Rightarrow> RuleTrafficDelta list"
    and clean :: "RuleTrafficDelta \<Rightarrow> RuleTrafficDelta"
    and skips :: "string \<Rightarrow> bool"
  assumes merge_sum: "\<not> skips r \<Longrightarrow> clean_nonneg clean c ds \<Longrightarrow> rule_sum c r (map clean ds) < 2 ^ 63 \<Longrightarrow>
      rule_sum c r (merge ds) = rule_sum c r (map clean ds)"
    and merge_distinct: "distinct (map rd_RuleID (merge ds))"
begin

lemma merge_total:
  assumes "\<not> skips r" "clean_nonneg clean c (xs @ ys)" "rule_sum c r (map clean (xs @ ys)) < 2 ^ 63"
  shows "rule_sum c r (merge (xs @ ys)) = rule_sum c r (map clean xs) + rule_sum c r (map clean ys)"
  using merge_sum [OF assms] by simp

lemma merge_one_entry: "d \<in> set (merge ds) \<Longrightarrow> e \<in> set (merge ds) \<Longrightarrow> rd_RuleID d = rd_RuleID e \<Longrightarrow> d = e"
  using merge_distinct [of ds] by (auto simp: distinct_map dest: inj_onD)

end

text \<open>A merge that also drops empty entries.\<close>

locale delta_merge =
  fixes merge :: "RuleTrafficDelta list \<Rightarrow> RuleTrafficDelta list"
    and clean :: "RuleTrafficDelta \<Rightarrow> RuleTrafficDelta"
  assumes merge_sum: "r \<noteq> [] \<Longrightarrow> clean_nonneg clean c ds \<Longrightarrow> rule_sum c r (map clean ds) < 2 ^ 63 \<Longrightarrow>
      rule_sum c r (merge ds) = rule_sum c r (map clean ds)"
    and merge_form: "merged_form (merge ds)"

sublocale delta_merge \<subseteq> summing: delta_sum merge clean "\<lambda>r. r = []"
  by unfold_locales (use merge_sum merge_form in \<open>auto simp: merged_form_def\<close>)

lemma addByRule_ids: "set (map rd_RuleID (addByRule d ds)) = insert (rd_RuleID d) (set (map rd_RuleID ds))"
  by (induction ds) auto

lemma addByRule_distinct: "distinct (map rd_RuleID ds) \<Longrightarrow> distinct (map rd_RuleID (addByRule d ds))"
  using addByRule_ids by (induction ds) auto

lemma rule_sum_absent: "s \<notin> rd_RuleID ` set es \<Longrightarrow> rule_sum c s es = 0"
  by (induction es) auto

lemma addByRule_sum:
  "0 \<le> rule_sum c (rd_RuleID d) ds + dsel c d \<Longrightarrow> rule_sum c (rd_RuleID d) ds + dsel c d < 2 ^ 63 \<Longrightarrow>
   distinct (map rd_RuleID ds) \<Longrightarrow>
   rule_sum c r (addByRule d ds) = rule_sum c r ds + (if rd_RuleID d = r then dsel c d else 0)"
proof (induction ds)
  case (Cons e es)
  show ?case
  proof (cases "rd_RuleID e = rd_RuleID d")
    case True
    then show ?thesis using Cons.prems rule_sum_absent [of "rd_RuleID d" es c] by auto
  next
    case False
    then show ?thesis using Cons by auto
  qed
qed auto

lemma addByRule_other: "rd_RuleID e \<noteq> s \<Longrightarrow> rule_sum c s (addByRule e es) = rule_sum c s es"
  by (induction es) auto

lemma mergeStep_distinct: "distinct (map rd_RuleID acc) \<Longrightarrow> distinct (map rd_RuleID (fold mergeStep ds acc))"
  by (induction ds arbitrary: acc) (auto simp: mergeStep_def addByRule_distinct)

lemma mergeStep_ids: "[] \<notin> rd_RuleID ` set acc \<Longrightarrow> [] \<notin> rd_RuleID ` set (fold mergeStep ds acc)"
proof (induction ds arbitrary: acc)
  case (Cons d ds)
  have "[] \<notin> rd_RuleID ` set (mergeStep d acc)"
    using Cons.prems addByRule_ids [of d acc] by (auto simp: mergeStep_def)
  then show ?case using Cons.IH by simp
qed simp

lemma mergeStep_sum:
  assumes "\<forall>d \<in> set ds. 0 \<le> dsel c d" "0 \<le> rule_sum c r acc" "distinct (map rd_RuleID acc)" "r \<noteq> []"
    and "rule_sum c r acc + rule_sum c r ds < 2 ^ 63"
  shows "rule_sum c r (fold mergeStep ds acc) = rule_sum c r acc + rule_sum c r ds"
  using assms
proof (induction ds arbitrary: acc)
  case (Cons d ds)
  have d: "0 \<le> dsel c d" and ds: "0 \<le> rule_sum c r ds"
    using Cons.prems(1) rule_sum_nonneg [of ds c r] by auto
  have step: "rule_sum c r (mergeStep d acc) = rule_sum c r acc + (if rd_RuleID d = r then dsel c d else 0)"
  proof (cases "rd_RuleID d = r")
    case True
    then show ?thesis using addByRule_sum [of c d acc r] Cons.prems d ds by (auto simp: mergeStep_def)
  next
    case False
    then show ?thesis using addByRule_other by (auto simp: mergeStep_def)
  qed
  then show ?case
    using Cons.IH [of "mergeStep d acc"] Cons.prems d mergeStep_distinct [of acc "[d]"] by auto
qed simp

lemma rule_sum_filter: "rule_sum c r (filter (\<lambda>d. \<not> delta_empty d) ds) = rule_sum c r ds"
  by (induction ds) (auto simp: component_empty)

interpretation merge_all: delta_merge mergeAll "\<lambda>d. d"
proof
  show "rule_sum c r (mergeAll ds) = rule_sum c r (map (\<lambda>d. d) ds)"
    if "r \<noteq> []" "clean_nonneg (\<lambda>d. d) c ds" "rule_sum c r (map (\<lambda>d. d) ds) < 2 ^ 63" for r c ds
    using that mergeStep_sum [of ds c r "[]"] by (simp add: mergeAll_def rule_sum_filter clean_nonneg_def)
  show "merged_form (mergeAll ds)" for ds
    using mergeStep_distinct [of "[]" ds] mergeStep_ids [of "[]" ds]
    by (force simp: mergeAll_def distinct_map_filter merged_form_def)
qed

text \<open>Merging again changes nothing.\<close>

definition delta_fits :: "RuleTrafficDelta \<Rightarrow> bool" where
  "delta_fits d \<longleftrightarrow> (\<forall>c. 0 \<le> dsel c d \<and> dsel c d < 2 ^ 63)"

lemma addDelta_zero: "delta_fits d \<Longrightarrow> addDelta (zero_delta (rd_RuleID d)) d = d"
proof -
  assume fits: "delta_fits d"
  have "i64 (dsel c d) = dsel c d" for c using fits by (intro i64_nonneg_small) (auto simp: delta_fits_def)
  from this [of Upload] this [of Download] this [of Connections] this [of Packets]
  show ?thesis by (simp add: addDelta_def zero_delta_def)
qed

lemma addByRule_new:
  "rd_RuleID d \<notin> rd_RuleID ` set ds \<Longrightarrow> delta_fits d \<Longrightarrow> addByRule d ds = ds @ [d]"
  by (induction ds) (auto simp: addDelta_zero)

lemma mergeStep_id:
  "distinct (map rd_RuleID (acc @ ds)) \<Longrightarrow> \<forall>d \<in> set ds. rd_RuleID d \<noteq> [] \<and> delta_fits d \<Longrightarrow>
   fold mergeStep ds acc = acc @ ds"
  by (induction ds arbitrary: acc) (auto simp: mergeStep_def addByRule_new)

lemma mergeAll_id:
  assumes "merged_form ds" "\<forall>d \<in> set ds. delta_fits d"
  shows "mergeAll ds = ds"
  using assms mergeStep_id [of "[]" ds] by (auto simp: mergeAll_def merged_form_def)

lemma mergeStep_fits:
  assumes "\<forall>d \<in> set (acc @ ds). delta_fits d" "distinct (map rd_RuleID acc)"
    and "\<And>c r. rule_sum c r acc + rule_sum c r ds < 2 ^ 63"
  shows "\<forall>d \<in> set (fold mergeStep ds acc). delta_fits d"
proof -
  have sum: "d \<in> set es \<Longrightarrow> distinct (map rd_RuleID es) \<Longrightarrow> rule_sum c (rd_RuleID d) es = dsel c d" for d c es
    by (induction es) (auto simp: rule_sum_absent image_iff)
  show ?thesis using assms
  proof (induction ds arbitrary: acc)
    case (Cons d ds)
    have nn: "0 \<le> rule_sum c r es" if "\<forall>d \<in> set es. delta_fits d" for c r es
      using that by (intro rule_sum_nonneg) (auto simp: delta_fits_def)
    have small: "dsel c e + dsel c d < 2 ^ 63" if "e \<in> set acc" "rd_RuleID e = rd_RuleID d" for c e
      using Cons.prems(3) [of c "rd_RuleID d"] sum [OF that(1) Cons.prems(2), of c] that(2)
        nn [of ds c "rd_RuleID d"] Cons.prems(1) by auto
    have fits: "delta_fits (addDelta e d)" if "e \<in> set acc" "rd_RuleID e = rd_RuleID d" for e
    proof -
      have "i64 (dsel c e + dsel c d) = dsel c e + dsel c d" for c
        using small [OF that, of c] Cons.prems(1) that(1) by (intro i64_nonneg_small) (auto simp: delta_fits_def)
      then show ?thesis using small [OF that] Cons.prems(1) that(1) by (auto simp: delta_fits_def)
    qed
    have "\<forall>e \<in> set (addByRule d acc). delta_fits e"
      using Cons.prems(1) fits addDelta_zero [of d] by (induction acc) auto
    then have "\<forall>e \<in> set (mergeStep d acc @ ds). delta_fits e" using Cons.prems(1) by (auto simp: mergeStep_def)
    moreover have "rule_sum c r (mergeStep d acc) + rule_sum c r ds < 2 ^ 63" for c r
    proof -
      have d: "0 \<le> dsel c d" using Cons.prems(1) by (auto simp: delta_fits_def)
      note bounds = d nn [of acc c r] nn [of ds c r] Cons.prems(1) Cons.prems(3) [of c r]
      show ?thesis
      proof (cases "rd_RuleID d = r")
        case True
        then have "rule_sum c r acc + dsel c d < 2 ^ 63" "0 \<le> rule_sum c r acc + dsel c d"
          using bounds by auto
        then have "rule_sum c r (addByRule d acc) = rule_sum c r acc + dsel c d"
          using addByRule_sum [of c d acc r] Cons.prems(2) True by simp
        then show ?thesis using bounds True by (auto simp: mergeStep_def)
      next
        case False
        then show ?thesis using addByRule_other [of d r c acc] bounds by (auto simp: mergeStep_def)
      qed
    qed
    ultimately show ?case using Cons.IH [of "mergeStep d acc"] mergeStep_distinct [of acc "[d]"] Cons.prems(2)
      by auto
  qed simp
qed

end
