(* ===== verification/Forward_Metrics.thy ===== *)
theory Forward_Metrics
  imports Target_Candidates Traffic_Deltas
begin

text \<open>
  \<open>pkg/core/forward/metrics.go\<close>: the counters of a forwarding supervisor, per node and per (rule,
  target), and the payload the agent reports. Every method runs under one mutex, so it is one
  function on the state. Go maps are partial functions; where the code ranges over a map the order
  the runtime picks is an argument \<open>order\<close> that lists the keys. Counters are \<open>int64\<close>, added with
  wrap-around. The two rates are computed in floating point from the counter difference and the
  elapsed nanoseconds; that function is the argument \<open>rate\<close>. A \<open>time.Time\<close> is its nanoseconds,
  \<open>None\<close> for the zero time.
\<close>

type_synonym targetMetricKey = "string \<times> string"

record Metrics =
  mx_TCPConnections :: int
  mx_TCPConnectionEvents :: int
  mx_UDPPackets :: int
  mx_UploadBytes :: int
  mx_DownloadBytes :: int

record targetMetricCounter =
  tc_tcpConnections :: int
  tc_tcpConnectionEvents :: int
  tc_tcpDialReservations :: int
  tc_udpSessions :: int
  tc_udpSessionReservations :: int
  tc_udpPackets :: int
  tc_uploadBytes :: int
  tc_downloadBytes :: int
  tc_latencyMS :: int

record targetMetricSnapshot =
  ts_TCPConnections :: int
  ts_TCPConnectionEvents :: int
  ts_UDPPackets :: int
  ts_UploadBytes :: int
  ts_DownloadBytes :: int
  ts_LatencyMS :: int

record metricsCounter =
  mc_tcpConnections :: int
  mc_tcpConnectionEvents :: int
  mc_udpPackets :: int
  mc_uploadBytes :: int
  mc_downloadBytes :: int
  mc_lastSnapshot :: Metrics
  mc_targets :: "targetMetricKey \<rightharpoonup> targetMetricCounter"
  mc_lastTargets :: "targetMetricKey \<rightharpoonup> targetMetricSnapshot"
  mc_pendingDeltas :: "RuleTrafficDelta list"
  mc_activeTargets :: "targetMetricKey list"
  mc_activeApplied :: bool
  mc_lastSnapshotAt :: "int option"

definition zero_counter :: targetMetricCounter where
  "zero_counter = \<lparr>tc_tcpConnections = 0, tc_tcpConnectionEvents = 0, tc_tcpDialReservations = 0,
     tc_udpSessions = 0, tc_udpSessionReservations = 0, tc_udpPackets = 0, tc_uploadBytes = 0,
     tc_downloadBytes = 0, tc_latencyMS = 0\<rparr>"

definition zero_snap :: targetMetricSnapshot where
  "zero_snap = \<lparr>ts_TCPConnections = 0, ts_TCPConnectionEvents = 0, ts_UDPPackets = 0,
     ts_UploadBytes = 0, ts_DownloadBytes = 0, ts_LatencyMS = 0\<rparr>"

definition zero_Metrics :: Metrics where
  "zero_Metrics = \<lparr>mx_TCPConnections = 0, mx_TCPConnectionEvents = 0, mx_UDPPackets = 0,
     mx_UploadBytes = 0, mx_DownloadBytes = 0\<rparr>"

definition newMetricsCounter :: "int \<Rightarrow> metricsCounter" where
  "newMetricsCounter now = \<lparr>mc_tcpConnections = 0, mc_tcpConnectionEvents = 0, mc_udpPackets = 0,
     mc_uploadBytes = 0, mc_downloadBytes = 0, mc_lastSnapshot = zero_Metrics,
     mc_targets = Map.empty, mc_lastTargets = Map.empty, mc_pendingDeltas = [],
     mc_activeTargets = [], mc_activeApplied = False, mc_lastSnapshotAt = Some now\<rparr>"

definition metrics_snapshot :: "metricsCounter \<Rightarrow> Metrics" where
  "metrics_snapshot m = \<lparr>mx_TCPConnections = mc_tcpConnections m,
     mx_TCPConnectionEvents = mc_tcpConnectionEvents m, mx_UDPPackets = mc_udpPackets m,
     mx_UploadBytes = mc_uploadBytes m, mx_DownloadBytes = mc_downloadBytes m\<rparr>"

subsection \<open>Active targets\<close>

definition ruleActiveKeys :: "RuleConfig \<Rightarrow> targetMetricKey list" where
  "ruleActiveKeys rule =
     (if \<not> rc_Enabled rule \<or> rc_ID rule = [] then []
      else if up_Type (rc_Upstream rule) = ''TARGET'' then
        (case up_Target (rc_Upstream rule) of
           Some t \<Rightarrow> if te_Enabled t \<and> te_ID t \<noteq> [] then [(rc_ID rule, te_ID t)] else []
         | None \<Rightarrow> [])
      else if up_Type (rc_Upstream rule) = ''TARGET_GROUP'' then
        map (\<lambda>t. (rc_ID rule, te_ID t)) (filter (\<lambda>t. te_ID t \<noteq> []) (activeTargetGroupCandidates rule))
      else [])"

definition activeTargetKeys :: "RuleConfig list \<Rightarrow> targetMetricKey list" where
  "activeTargetKeys rules = concat (map ruleActiveKeys rules)"

text \<open>The sum of the four counters; the nil pointer has none open.\<close>

definition openConnections :: "targetMetricCounter option \<Rightarrow> int" where
  "openConnections target =
     (case target of
        None \<Rightarrow> 0
      | Some t \<Rightarrow> i64 (tc_tcpConnections t + tc_tcpDialReservations t + tc_udpSessions t +
                       tc_udpSessionReservations t))"

definition targetOpenConnectionsLocked :: "string \<Rightarrow> string \<Rightarrow> metricsCounter \<Rightarrow> int" where
  "targetOpenConnectionsLocked ruleID targetID m = openConnections (mc_targets m (ruleID, targetID))"

text \<open>A map from target id to open connections: later entries of the list overwrite earlier ones
  with the same value, and a missing id reads 0.\<close>

definition openConnectionsForTargets ::
    "string \<Rightarrow> TargetEndpoint list \<Rightarrow> metricsCounter \<Rightarrow> (string \<rightharpoonup> int)" where
  "openConnectionsForTargets ruleID targets m =
     map_of (rev (map (\<lambda>t. (te_ID t, openConnections (mc_targets m (ruleID, te_ID t))))
       (filter (\<lambda>t. te_ID t \<noteq> []) targets)))"

subsection \<open>Traffic deltas\<close>

definition positiveDelta :: "int \<Rightarrow> int \<Rightarrow> int" where
  "positiveDelta current prev = (if current \<le> prev then 0 else i64 (current - prev))"

definition counter_snap :: "targetMetricCounter \<Rightarrow> targetMetricSnapshot" where
  "counter_snap t = \<lparr>ts_TCPConnections = tc_tcpConnections t,
     ts_TCPConnectionEvents = tc_tcpConnectionEvents t, ts_UDPPackets = tc_udpPackets t,
     ts_UploadBytes = tc_uploadBytes t, ts_DownloadBytes = tc_downloadBytes t,
     ts_LatencyMS = tc_latencyMS t\<rparr>"

definition targetTrafficDelta ::
    "string \<Rightarrow> targetMetricSnapshot \<Rightarrow> targetMetricSnapshot \<Rightarrow> RuleTrafficDelta option" where
  "targetTrafficDelta ruleID current prev =
     (let delta = \<lparr>rd_RuleID = ruleID,
        rd_UploadBytes = positiveDelta (ts_UploadBytes current) (ts_UploadBytes prev),
        rd_DownloadBytes = positiveDelta (ts_DownloadBytes current) (ts_DownloadBytes prev),
        rd_TCPConnections = positiveDelta (ts_TCPConnectionEvents current) (ts_TCPConnectionEvents prev),
        rd_UDPPackets = positiveDelta (ts_UDPPackets current) (ts_UDPPackets prev)\<rparr> in
      if rd_UploadBytes delta = 0 \<and> rd_DownloadBytes delta = 0 \<and> rd_TCPConnections delta = 0 \<and>
         rd_UDPPackets delta = 0
      then None else Some delta)"

definition lastSnap :: "metricsCounter \<Rightarrow> targetMetricKey \<Rightarrow> targetMetricSnapshot" where
  "lastSnap m key = (case mc_lastTargets m key of None \<Rightarrow> zero_snap | Some s \<Rightarrow> s)"

definition queueFinalInactiveTargetDeltaLocked ::
    "targetMetricKey \<Rightarrow> targetMetricCounter \<Rightarrow> metricsCounter \<Rightarrow> metricsCounter" where
  "queueFinalInactiveTargetDeltaLocked key target m =
     (case targetTrafficDelta (fst key) (counter_snap target) (lastSnap m key) of
        None \<Rightarrow> m
      | Some delta \<Rightarrow> m\<lparr>mc_pendingDeltas := mc_pendingDeltas m @ [delta]\<rparr>)"

definition deleteTarget :: "targetMetricKey \<Rightarrow> metricsCounter \<Rightarrow> metricsCounter" where
  "deleteTarget key m =
     m\<lparr>mc_targets := (mc_targets m)(key := None), mc_lastTargets := (mc_lastTargets m)(key := None)\<rparr>"

definition putTarget :: "targetMetricKey \<Rightarrow> targetMetricCounter \<Rightarrow> metricsCounter \<Rightarrow> metricsCounter" where
  "putTarget key t m = m\<lparr>mc_targets := (mc_targets m)(key \<mapsto> t)\<rparr>"

definition pruneOne :: "targetMetricKey \<Rightarrow> metricsCounter \<Rightarrow> metricsCounter" where
  "pruneOne key m =
     (case mc_targets m key of
        None \<Rightarrow> m
      | Some target \<Rightarrow>
          if List.member (mc_activeTargets m) key then m
          else if openConnections (Some target) \<le> 0
            then deleteTarget key (queueFinalInactiveTargetDeltaLocked key target m)
          else putTarget key (target\<lparr>tc_latencyMS := 0\<rparr>) m)"

definition pruneInactiveTargetsLocked :: "targetMetricKey list \<Rightarrow> metricsCounter \<Rightarrow> metricsCounter" where
  "pruneInactiveTargetsLocked order m =
     (if \<not> mc_activeApplied m then m else fold pruneOne order m)"

definition setActiveTargets ::
    "targetMetricKey list \<Rightarrow> RuleConfig list \<Rightarrow> metricsCounter \<Rightarrow> metricsCounter" where
  "setActiveTargets order rules m =
     pruneInactiveTargetsLocked order
       (m\<lparr>mc_activeTargets := activeTargetKeys rules, mc_activeApplied := True\<rparr>)"

definition pruneClosedInactiveTargetLocked ::
    "targetMetricKey \<Rightarrow> targetMetricCounter \<Rightarrow> metricsCounter \<Rightarrow> metricsCounter" where
  "pruneClosedInactiveTargetLocked key target m =
     (if mc_activeApplied m \<and> \<not> List.member (mc_activeTargets m) key \<and> openConnections (Some target) \<le> 0
      then deleteTarget key (queueFinalInactiveTargetDeltaLocked key target m) else m)"

subsection \<open>Recording\<close>

definition addTCPConnection :: "int \<Rightarrow> metricsCounter \<Rightarrow> metricsCounter" where
  "addTCPConnection delta m =
     (let m = m\<lparr>mc_tcpConnections := i64 (mc_tcpConnections m + delta)\<rparr> in
      if delta > 0 then m\<lparr>mc_tcpConnectionEvents := i64 (mc_tcpConnectionEvents m + delta)\<rparr> else m)"

definition addUDP :: "int \<Rightarrow> metricsCounter \<Rightarrow> metricsCounter" where
  "addUDP delta m = m\<lparr>mc_udpPackets := i64 (mc_udpPackets m + delta)\<rparr>"

definition addUpload :: "int \<Rightarrow> metricsCounter \<Rightarrow> metricsCounter" where
  "addUpload delta m = m\<lparr>mc_uploadBytes := i64 (mc_uploadBytes m + delta)\<rparr>"

definition addDownload :: "int \<Rightarrow> metricsCounter \<Rightarrow> metricsCounter" where
  "addDownload delta m = m\<lparr>mc_downloadBytes := i64 (mc_downloadBytes m + delta)\<rparr>"

text \<open>\<open>targetLocked\<close> finds or creates the counter; \<open>withTarget\<close> runs an update on what it returns.\<close>

definition targetLocked :: "targetMetricKey \<Rightarrow> metricsCounter \<Rightarrow> targetMetricCounter option" where
  "targetLocked key m =
     (case mc_targets m key of
        Some t \<Rightarrow> Some t
      | None \<Rightarrow>
          if mc_activeApplied m \<and> \<not> List.member (mc_activeTargets m) key then None else Some zero_counter)"

definition withTarget ::
    "targetMetricKey \<Rightarrow> (targetMetricCounter \<Rightarrow> targetMetricCounter) \<Rightarrow> metricsCounter \<Rightarrow> metricsCounter" where
  "withTarget key f m = (case targetLocked key m of None \<Rightarrow> m | Some t \<Rightarrow> putTarget key (f t) m)"

definition addTargetUDP :: "string \<Rightarrow> string \<Rightarrow> int \<Rightarrow> metricsCounter \<Rightarrow> metricsCounter" where
  "addTargetUDP ruleID targetID delta =
     withTarget (ruleID, targetID) (\<lambda>t. t\<lparr>tc_udpPackets := i64 (tc_udpPackets t + delta)\<rparr>)"

definition addTargetUpload :: "string \<Rightarrow> string \<Rightarrow> int \<Rightarrow> metricsCounter \<Rightarrow> metricsCounter" where
  "addTargetUpload ruleID targetID delta =
     withTarget (ruleID, targetID) (\<lambda>t. t\<lparr>tc_uploadBytes := i64 (tc_uploadBytes t + delta)\<rparr>)"

definition addTargetDownload :: "string \<Rightarrow> string \<Rightarrow> int \<Rightarrow> metricsCounter \<Rightarrow> metricsCounter" where
  "addTargetDownload ruleID targetID delta =
     withTarget (ruleID, targetID) (\<lambda>t. t\<lparr>tc_downloadBytes := i64 (tc_downloadBytes t + delta)\<rparr>)"

text \<open>\<open>latency.Milliseconds()\<close> truncates the nanoseconds towards zero.\<close>

definition recordTargetLatency :: "string \<Rightarrow> string \<Rightarrow> int \<Rightarrow> metricsCounter \<Rightarrow> metricsCounter" where
  "recordTargetLatency ruleID targetID latency =
     (let latencyMS = (if latency < 0 then - ((- latency) div 1000000) else latency div 1000000);
          latencyMS = (if latency > 0 \<and> latencyMS = 0 then 1 else latencyMS)
      in withTarget (ruleID, targetID) (\<lambda>t. t\<lparr>tc_latencyMS := latencyMS\<rparr>))"

definition addTargetTCPConnection :: "string \<Rightarrow> string \<Rightarrow> int \<Rightarrow> metricsCounter \<Rightarrow> metricsCounter" where
  "addTargetTCPConnection ruleID targetID delta m =
     (let key = (ruleID, targetID);
          found = (case mc_targets m key of
             Some t \<Rightarrow> Some t
           | None \<Rightarrow> if delta < 0 \<or> mc_activeApplied m \<and> \<not> List.member (mc_activeTargets m) key
                      then None else Some zero_counter) in
      case found of
        None \<Rightarrow> m
      | Some t \<Rightarrow>
          (let t = t\<lparr>tc_tcpConnections := i64 (tc_tcpConnections t + delta)\<rparr>;
               t = (if delta > 0 then t\<lparr>tc_tcpConnectionEvents := i64 (tc_tcpConnectionEvents t + delta)\<rparr> else t);
               t = (if tc_tcpConnections t < 0 then t\<lparr>tc_tcpConnections := 0\<rparr> else t)
           in pruneClosedInactiveTargetLocked key t (putTarget key t m)))"

definition addTargetUDPSession :: "string \<Rightarrow> string \<Rightarrow> int \<Rightarrow> metricsCounter \<Rightarrow> metricsCounter" where
  "addTargetUDPSession ruleID targetID delta m =
     (let key = (ruleID, targetID);
          found = (case mc_targets m key of
             Some t \<Rightarrow> Some t
           | None \<Rightarrow> if delta < 0 \<or> mc_activeApplied m \<and> \<not> List.member (mc_activeTargets m) key
                      then None else Some zero_counter) in
      case found of
        None \<Rightarrow> m
      | Some t \<Rightarrow>
          (let t = t\<lparr>tc_udpSessions := i64 (tc_udpSessions t + delta)\<rparr>;
               t = (if tc_udpSessions t < 0 then t\<lparr>tc_udpSessions := 0\<rparr> else t)
           in pruneClosedInactiveTargetLocked key t (putTarget key t m)))"

subsection \<open>Reservations\<close>

definition reserveTargetTCPDial :: "string \<Rightarrow> string \<Rightarrow> metricsCounter \<Rightarrow> bool \<times> metricsCounter" where
  "reserveTargetTCPDial ruleID targetID m =
     (case targetLocked (ruleID, targetID) m of
        None \<Rightarrow> (False, m)
      | Some t \<Rightarrow>
          (True, putTarget (ruleID, targetID) (t\<lparr>tc_tcpDialReservations := i64 (tc_tcpDialReservations t + 1)\<rparr>) m))"

definition zero_endpoint :: TargetEndpoint where
  "zero_endpoint = \<lparr>te_ID = [], te_Host = [], te_Port = 0, te_Weight = 0, te_Enabled = False\<rparr>"

definition leastLoaded :: "string \<Rightarrow> TargetEndpoint list \<Rightarrow> metricsCounter \<Rightarrow> TargetEndpoint" where
  "leastLoaded ruleID targets m =
     (let load = (\<lambda>t. targetOpenConnectionsLocked ruleID (te_ID t) m) in
      leastLoadLoop load (hd targets) (load (hd targets)) (tl targets))"

definition reserveLeastLoadTargetTCPDial ::
    "string \<Rightarrow> TargetEndpoint list \<Rightarrow> metricsCounter \<Rightarrow> (TargetEndpoint \<times> bool \<times> bool) \<times> metricsCounter" where
  "reserveLeastLoadTargetTCPDial ruleID targets m =
     (if targets = [] then ((zero_endpoint, False, False), m)
      else
        (let best = leastLoaded ruleID targets m in
         case targetLocked (ruleID, te_ID best) m of
           None \<Rightarrow> ((best, False, True), m)
         | Some t \<Rightarrow>
             ((best, True, True),
              putTarget (ruleID, te_ID best)
                (t\<lparr>tc_tcpDialReservations := i64 (tc_tcpDialReservations t + 1)\<rparr>) m)))"

definition reserveLeastLoadTargetUDPSession ::
    "string \<Rightarrow> TargetEndpoint list \<Rightarrow> metricsCounter \<Rightarrow> (TargetEndpoint \<times> bool \<times> bool) \<times> metricsCounter" where
  "reserveLeastLoadTargetUDPSession ruleID targets m =
     (if targets = [] then ((zero_endpoint, False, False), m)
      else
        (let best = leastLoaded ruleID targets m in
         case targetLocked (ruleID, te_ID best) m of
           None \<Rightarrow> ((best, False, True), m)
         | Some t \<Rightarrow>
             ((best, True, True),
              putTarget (ruleID, te_ID best)
                (t\<lparr>tc_udpSessionReservations := i64 (tc_udpSessionReservations t + 1)\<rparr>) m)))"

definition releaseTargetTCPDial :: "string \<Rightarrow> string \<Rightarrow> metricsCounter \<Rightarrow> metricsCounter" where
  "releaseTargetTCPDial ruleID targetID m =
     (let key = (ruleID, targetID) in
      case mc_targets m key of
        None \<Rightarrow> m
      | Some t \<Rightarrow>
          (let t = t\<lparr>tc_tcpDialReservations := i64 (tc_tcpDialReservations t - 1)\<rparr>;
               t = (if tc_tcpDialReservations t < 0 then t\<lparr>tc_tcpDialReservations := 0\<rparr> else t)
           in pruneClosedInactiveTargetLocked key t (putTarget key t m)))"

definition found_or_new :: "targetMetricKey \<Rightarrow> metricsCounter \<Rightarrow> targetMetricCounter" where
  "found_or_new key m = (case mc_targets m key of None \<Rightarrow> zero_counter | Some t \<Rightarrow> t)"

definition promoteTargetTCPDial :: "string \<Rightarrow> string \<Rightarrow> metricsCounter \<Rightarrow> metricsCounter" where
  "promoteTargetTCPDial ruleID targetID m =
     (let key = (ruleID, targetID); t = found_or_new key m;
          t = (if tc_tcpDialReservations t > 0
               then t\<lparr>tc_tcpDialReservations := i64 (tc_tcpDialReservations t - 1)\<rparr> else t)
      in putTarget key (t\<lparr>tc_tcpConnections := i64 (tc_tcpConnections t + 1),
                          tc_tcpConnectionEvents := i64 (tc_tcpConnectionEvents t + 1)\<rparr>) m)"

definition releaseTargetUDPSessionReservation :: "string \<Rightarrow> string \<Rightarrow> metricsCounter \<Rightarrow> metricsCounter" where
  "releaseTargetUDPSessionReservation ruleID targetID m =
     (let key = (ruleID, targetID) in
      case mc_targets m key of
        None \<Rightarrow> m
      | Some t \<Rightarrow>
          (let t = t\<lparr>tc_udpSessionReservations := i64 (tc_udpSessionReservations t - 1)\<rparr>;
               t = (if tc_udpSessionReservations t < 0 then t\<lparr>tc_udpSessionReservations := 0\<rparr> else t)
           in pruneClosedInactiveTargetLocked key t (putTarget key t m)))"

definition promoteTargetUDPSessionReservation :: "string \<Rightarrow> string \<Rightarrow> metricsCounter \<Rightarrow> metricsCounter" where
  "promoteTargetUDPSessionReservation ruleID targetID m =
     (let key = (ruleID, targetID); t = found_or_new key m;
          t = (if tc_udpSessionReservations t > 0
               then t\<lparr>tc_udpSessionReservations := i64 (tc_udpSessionReservations t - 1)\<rparr> else t)
      in putTarget key (t\<lparr>tc_udpSessions := i64 (tc_udpSessions t + 1)\<rparr>) m)"

subsection \<open>Reporting\<close>

definition copyReportableTargetSnapshotsLocked ::
    "metricsCounter \<Rightarrow> (targetMetricKey \<rightharpoonup> targetMetricSnapshot)" where
  "copyReportableTargetSnapshotsLocked m =
     (\<lambda>key. case mc_targets m key of
        None \<Rightarrow> None
      | Some target \<Rightarrow>
          if mc_activeApplied m \<and> \<not> List.member (mc_activeTargets m) key \<and> openConnections (Some target) \<le> 0
          then None else Some (counter_snap target))"

definition mergePayloadTrafficDeltas :: "RuleTrafficDelta list \<Rightarrow> RuleTrafficDelta list" where
  "mergePayloadTrafficDeltas deltas = mergeAll deltas"

definition targetPayload ::
    "(int \<Rightarrow> int \<Rightarrow> int) \<Rightarrow> int option \<Rightarrow> targetMetricKey \<Rightarrow> targetMetricSnapshot \<Rightarrow> targetMetricSnapshot \<Rightarrow>
     TargetMetricsPayload" where
  "targetPayload rate elapsed key target lastTarget =
     \<lparr>tm_RuleID = fst key, tm_TargetID = snd key, tm_TCPConnections = ts_TCPConnections target,
      tm_UDPPacketsPerSecond = (case elapsed of None \<Rightarrow> 0
        | Some e \<Rightarrow> rate (i64 (ts_UDPPackets target - ts_UDPPackets lastTarget)) e),
      tm_BandwidthBps = (case elapsed of None \<Rightarrow> 0
        | Some e \<Rightarrow> rate (8 * i64 (ts_UploadBytes target + ts_DownloadBytes target -
                        ts_UploadBytes lastTarget - ts_DownloadBytes lastTarget)) e),
      tm_UploadBytes = ts_UploadBytes target, tm_DownloadBytes = ts_DownloadBytes target,
      tm_LatencyMS = ts_LatencyMS target\<rparr>"

text \<open>
  \<open>agentPayload\<close>. The elapsed time is positive only when the clock moved on since the last payload;
  otherwise the rates and the deltas of this round are not computed.
\<close>

definition elapsedSince :: "int \<Rightarrow> int option \<Rightarrow> int option" where
  "elapsedSince now prev =
     (case prev of None \<Rightarrow> None | Some l \<Rightarrow> if now - l > 0 then Some (now - l) else None)"

definition agentPayload ::
    "(int \<Rightarrow> int \<Rightarrow> int) \<Rightarrow> targetMetricKey list \<Rightarrow> int \<Rightarrow> metricsCounter \<Rightarrow> MetricsPayload \<times> metricsCounter" where
  "agentPayload rate order now m0 =
     (let m = pruneInactiveTargetsLocked order m0;
          current = metrics_snapshot m;
          currentTargets = copyReportableTargetSnapshotsLocked m;
          keys = sort (filter (\<lambda>key. currentTargets key \<noteq> None) order);
          elapsed = elapsedSince now (mc_lastSnapshotAt m);
          prev = mc_lastSnapshot m;
          deltas = (if elapsed = None then []
            else List.map_filter (\<lambda>key. targetTrafficDelta (fst key) (the (currentTargets key)) (lastSnap m key)) keys);
          payload = zero_metrics\<lparr>mp_TCPConnections := mx_TCPConnections current,
            mp_UploadBytes := mx_UploadBytes current, mp_DownloadBytes := mx_DownloadBytes current,
            mp_UDPPacketsPerSecond := (case elapsed of None \<Rightarrow> 0
              | Some e \<Rightarrow> rate (i64 (mx_UDPPackets current - mx_UDPPackets prev)) e),
            mp_BandwidthBps := (case elapsed of None \<Rightarrow> 0
              | Some e \<Rightarrow> rate (8 * i64 (mx_UploadBytes current + mx_DownloadBytes current -
                              mx_UploadBytes prev - mx_DownloadBytes prev)) e),
            mp_Targets := map (\<lambda>key. targetPayload rate elapsed key (the (currentTargets key)) (lastSnap m key)) keys,
            mp_TrafficDeltas := (if mc_pendingDeltas m \<noteq> []
              then mergePayloadTrafficDeltas (mc_pendingDeltas m @ deltas) else deltas)\<rparr>
      in (payload, m\<lparr>mc_pendingDeltas := [], mc_lastSnapshot := current, mc_lastTargets := currentTargets,
                     mc_lastSnapshotAt := Some now\<rparr>))"

end
