(* ===== verification/Metrics_Ledger.thy ===== *)
theory Metrics_Ledger
  imports Forward_Metrics
begin

text \<open>
  No traffic is lost and none is counted twice between the counters of \<open>Forward_Metrics\<close> and the
  payloads they report. For each of the four quantities a delta carries, the \<open>ledger\<close> of a rule is
  what was recorded and not yet reported: the queued deltas, and for every target the difference
  between its counter and the last reported snapshot.
\<close>

fun csel :: "component \<Rightarrow> targetMetricCounter \<Rightarrow> int" where
  "csel Upload t = tc_uploadBytes t"
| "csel Download t = tc_downloadBytes t"
| "csel Connections t = tc_tcpConnectionEvents t"
| "csel Packets t = tc_udpPackets t"

fun ssel :: "component \<Rightarrow> targetMetricSnapshot \<Rightarrow> int" where
  "ssel Upload s = ts_UploadBytes s"
| "ssel Download s = ts_DownloadBytes s"
| "ssel Connections s = ts_TCPConnectionEvents s"
| "ssel Packets s = ts_UDPPackets s"

definition unreported :: "component \<Rightarrow> metricsCounter \<Rightarrow> targetMetricKey \<Rightarrow> int" where
  "unreported c m k = csel c (the (mc_targets m k)) - ssel c (lastSnap m k)"

definition rule_keys :: "string \<Rightarrow> metricsCounter \<Rightarrow> targetMetricKey set" where
  "rule_keys r m = {k \<in> dom (mc_targets m). fst k = r}"

definition ledger :: "component \<Rightarrow> string \<Rightarrow> metricsCounter \<Rightarrow> int" where
  "ledger c r m = rule_sum c r (mc_pendingDeltas m) + (\<Sum>k \<in> rule_keys r m. unreported c m k)"

definition metrics_ok :: "metricsCounter \<Rightarrow> bool" where
  "metrics_ok m \<longleftrightarrow>
     finite (dom (mc_targets m)) \<and> dom (mc_lastTargets m) \<subseteq> dom (mc_targets m) \<and>
     (\<forall>c k t. mc_targets m k = Some t \<longrightarrow>
        0 \<le> ssel c (lastSnap m k) \<and> ssel c (lastSnap m k) \<le> csel c t \<and> csel c t < 2 ^ 63) \<and>
     (\<forall>c. \<forall>d \<in> set (mc_pendingDeltas m). 0 \<le> dsel c d)"

subsection \<open>Deltas\<close>

lemma component_snap [simp]: "ssel c (counter_snap t) = csel c t"
  by (cases c) (simp_all add: counter_snap_def)

lemma component_zero [simp]: "csel c zero_counter = 0" "ssel c zero_snap = 0"
  by (cases c; simp add: zero_counter_def zero_snap_def)+

lemma targetTrafficDelta_Some:
  "targetTrafficDelta r cur prev = Some d \<Longrightarrow>
     rd_RuleID d = r \<and> dsel c d = positiveDelta (ssel c cur) (ssel c prev)"
  by (cases c) (auto simp: targetTrafficDelta_def Let_def split: if_splits)

lemma targetTrafficDelta_None:
  "targetTrafficDelta r cur prev = None \<Longrightarrow> positiveDelta (ssel c cur) (ssel c prev) = 0"
  by (cases c) (auto simp: targetTrafficDelta_def Let_def split: if_splits)

lemma positiveDelta_diff: "0 \<le> p \<Longrightarrow> p \<le> x \<Longrightarrow> x < 2 ^ 63 \<Longrightarrow> positiveDelta x p = x - p"
  by (simp add: positiveDelta_def)

subsection \<open>Operations on one target\<close>

lemma metrics_okD:
  assumes "metrics_ok m"
  shows "finite (dom (mc_targets m))" "finite (rule_keys r m)" "dom (mc_lastTargets m) \<subseteq> dom (mc_targets m)"
    and "mc_targets m k = Some t \<Longrightarrow> 0 \<le> ssel c (lastSnap m k)"
    and "mc_targets m k = Some t \<Longrightarrow> ssel c (lastSnap m k) \<le> csel c t"
    and "mc_targets m k = Some t \<Longrightarrow> csel c t < 2 ^ 63"
    and "d \<in> set (mc_pendingDeltas m) \<Longrightarrow> 0 \<le> dsel c d"
    and "mc_targets m k = None \<Longrightarrow> lastSnap m k = zero_snap"
proof -
  show "finite (rule_keys r m)" using assms
    by (auto simp: metrics_ok_def rule_keys_def intro: finite_subset [of _ "dom (mc_targets m)"])
  show "lastSnap m k = zero_snap" if "mc_targets m k = None"
    using assms that by (auto simp: metrics_ok_def lastSnap_def dom_def split: option.splits)
qed (use assms in \<open>unfold metrics_ok_def, blast+\<close>)

lemma target_delta:
  assumes "metrics_ok m" "mc_targets m k = Some t"
  shows "positiveDelta (csel c t) (ssel c (lastSnap m k)) = unreported c m k" and "0 \<le> unreported c m k"
  using metrics_okD(4-6) [OF assms, of c] assms(2)
  by (simp_all add: positiveDelta_diff unreported_def)

text \<open>Changing a counter: the ledger of its rule grows by what the counter grows.\<close>

lemma lastSnap_putTarget [simp]: "lastSnap (putTarget k t m) = lastSnap m"
  by (simp add: putTarget_def lastSnap_def fun_eq_iff)

lemma putTarget_ok:
  assumes "metrics_ok m" "\<And>c. csel c (found_or_new k m) \<le> csel c t" "\<And>c. csel c t < 2 ^ 63"
  shows "metrics_ok (putTarget k t m)"
proof -
  have "0 \<le> ssel c (lastSnap m k) \<and> ssel c (lastSnap m k) \<le> csel c t" for c
    using assms(2) [of c] metrics_okD(4,5) [OF assms(1), of k _ c] metrics_okD(8) [OF assms(1), of k]
    by (cases "mc_targets m k") (force simp: found_or_new_def)+
  then show ?thesis using assms(1,3)
    unfolding metrics_ok_def lastSnap_putTarget by (auto simp: putTarget_def)
qed

lemma putTarget_ledger:
  assumes "metrics_ok m"
  shows "ledger c r (putTarget k t m) =
    ledger c r m + (if fst k = r then csel c t - csel c (found_or_new k m) else 0)"
proof (cases "fst k = r")
  case True
  let ?K = "rule_keys r m - {k}"
  have fin: "finite ?K" using metrics_okD(2) [OF assms] by simp
  have "rule_keys r (putTarget k t m) = insert k ?K"
    using True by (auto simp: rule_keys_def putTarget_def)
  moreover have "unreported c (putTarget k t m) j = unreported c m j" if "j \<in> ?K" for j
    using that by (simp add: unreported_def) (simp add: putTarget_def)
  moreover have "unreported c (putTarget k t m) k = csel c t - ssel c (lastSnap m k)"
    by (simp add: unreported_def) (simp add: putTarget_def)
  ultimately have new: "(\<Sum>j \<in> rule_keys r (putTarget k t m). unreported c (putTarget k t m) j) =
      csel c t - ssel c (lastSnap m k) + (\<Sum>j \<in> ?K. unreported c m j)"
    using sum.insert [OF fin, of k "unreported c (putTarget k t m)"] by simp
  have old: "(\<Sum>j \<in> rule_keys r m. unreported c m j) =
      csel c (found_or_new k m) - ssel c (lastSnap m k) + (\<Sum>j \<in> ?K. unreported c m j)"
  proof (cases "mc_targets m k")
    case None
    then have "rule_keys r m = ?K" by (auto simp: rule_keys_def)
    then show ?thesis using None metrics_okD(8) [OF assms None] by (simp add: found_or_new_def)
  next
    case (Some u)
    then have "k \<in> rule_keys r m" using True by (auto simp: rule_keys_def)
    then show ?thesis using Some sum.remove [OF metrics_okD(2) [OF assms], of k r "unreported c m"]
      by (simp add: unreported_def found_or_new_def)
  qed
  show ?thesis using True new old by (simp add: ledger_def) (simp add: putTarget_def)
next
  case False
  then have "rule_keys r (putTarget k t m) = rule_keys r m"
    by (auto simp: rule_keys_def putTarget_def)
  moreover have "unreported c (putTarget k t m) j = unreported c m j" if "j \<in> rule_keys r m" for j
    using that False by (auto simp: unreported_def rule_keys_def) (auto simp: putTarget_def)
  ultimately show ?thesis using False by (simp add: ledger_def) (simp add: putTarget_def)
qed

text \<open>Taking a target out with its final delta queued leaves every ledger as it is.\<close>

definition retire :: "targetMetricKey \<Rightarrow> targetMetricCounter \<Rightarrow> metricsCounter \<Rightarrow> metricsCounter" where
  "retire k t m = deleteTarget k (queueFinalInactiveTargetDeltaLocked k t m)"

lemma retire_fields:
  "mc_targets (retire k t m) = (mc_targets m)(k := None)"
  "mc_lastTargets (retire k t m) = (mc_lastTargets m)(k := None)"
  "mc_activeTargets (retire k t m) = mc_activeTargets m"
  "mc_activeApplied (retire k t m) = mc_activeApplied m"
  "mc_lastSnapshotAt (retire k t m) = mc_lastSnapshotAt m"
  "mc_pendingDeltas (retire k t m) = mc_pendingDeltas m @
     (case targetTrafficDelta (fst k) (counter_snap t) (lastSnap m k) of None \<Rightarrow> [] | Some d \<Rightarrow> [d])"
  by (simp_all add: retire_def deleteTarget_def queueFinalInactiveTargetDeltaLocked_def split: option.splits)

lemma retire_delta:
  assumes "metrics_ok m" "mc_targets m k = Some t"
  shows "rule_sum c r (case targetTrafficDelta (fst k) (counter_snap t) (lastSnap m k) of None \<Rightarrow> [] | Some d \<Rightarrow> [d]) =
    (if fst k = r then unreported c m k else 0)"
  using targetTrafficDelta_Some [of "fst k" "counter_snap t" "lastSnap m k" _ c] target_delta(1) [OF assms, of c]
    targetTrafficDelta_None [of "fst k" "counter_snap t" "lastSnap m k" c]
  by (auto split: option.splits)

lemma retire_ok:
  assumes "metrics_ok m" "mc_targets m k = Some t"
  shows "metrics_ok (retire k t m)"
proof -
  have "\<forall>d \<in> set (mc_pendingDeltas (retire k t m)). 0 \<le> dsel c d" for c
    using metrics_okD(7) [OF assms(1), of _ c] target_delta [OF assms, of c]
      targetTrafficDelta_Some [of "fst k" "counter_snap t" "lastSnap m k" _ c]
    by (auto simp: retire_fields split: option.splits)
  moreover have "lastSnap (retire k t m) j = lastSnap m j" if "j \<noteq> k" for j
    using that by (simp add: lastSnap_def retire_fields)
  ultimately show ?thesis using assms(1)
    unfolding metrics_ok_def by (auto simp: retire_fields split: if_splits)
qed

lemma retire_ledger:
  assumes "metrics_ok m" "mc_targets m k = Some t"
  shows "ledger c r (retire k t m) = ledger c r m"
proof -
  have keys: "rule_keys r (retire k t m) = rule_keys r m - {k}"
    by (auto simp: rule_keys_def retire_fields)
  have same: "unreported c (retire k t m) j = unreported c m j" if "j \<in> rule_keys r m - {k}" for j
    using that by (simp add: unreported_def lastSnap_def retire_fields)
  have "(\<Sum>j \<in> rule_keys r m. unreported c m j) =
      (if fst k = r then unreported c m k else 0) + (\<Sum>j \<in> rule_keys r m - {k}. unreported c m j)"
  proof (cases "fst k = r")
    case True
    then have "k \<in> rule_keys r m" using assms(2) by (auto simp: rule_keys_def)
    then show ?thesis using True sum.remove [OF metrics_okD(2) [OF assms(1)], of k r "unreported c m"] by simp
  next
    case False
    then have "rule_keys r m - {k} = rule_keys r m" by (auto simp: rule_keys_def)
    then show ?thesis using False by simp
  qed
  then show ?thesis using retire_delta [OF assms, of c r] same
    by (simp add: ledger_def keys retire_fields(6))
qed

subsection \<open>Pruning\<close>

lemma component_latency [simp]: "csel c (t\<lparr>tc_latencyMS := x\<rparr>) = csel c t"
  by (cases c) simp_all

lemma pruneOne_retire: "pruneOne k m = (case mc_targets m k of None \<Rightarrow> m | Some t \<Rightarrow>
    if List.member (mc_activeTargets m) k then m
    else if openConnections (Some t) \<le> 0 then retire k t m
    else putTarget k (t\<lparr>tc_latencyMS := 0\<rparr>) m)"
  by (cases "mc_targets m k") (simp_all add: pruneOne_def retire_def)

lemma pruneOne_keeps:
  assumes "metrics_ok m"
  shows "metrics_ok (pruneOne k m)" and "ledger c r (pruneOne k m) = ledger c r m"
  using assms retire_ok [OF assms] retire_ledger [OF assms]
    putTarget_ok [OF assms, of k] putTarget_ledger [OF assms, of c r k] metrics_okD(6) [OF assms, of k]
  by (auto simp: pruneOne_retire found_or_new_def split: option.splits)

lemma fold_pruneOne_keeps:
  "metrics_ok m \<Longrightarrow> metrics_ok (fold pruneOne order m) \<and> ledger c r (fold pruneOne order m) = ledger c r m"
  by (induction order arbitrary: m) (simp_all add: pruneOne_keeps)

lemma pruneInactive_keeps:
  assumes "metrics_ok m"
  shows "metrics_ok (pruneInactiveTargetsLocked order m)"
    and "ledger c r (pruneInactiveTargetsLocked order m) = ledger c r m"
  using assms fold_pruneOne_keeps [OF assms] by (simp_all add: pruneInactiveTargetsLocked_def)

lemma pruneOne_frame [frame]:
  "mc_activeTargets (pruneOne k m) = mc_activeTargets m" "mc_activeApplied (pruneOne k m) = mc_activeApplied m"
  "mc_lastSnapshotAt (pruneOne k m) = mc_lastSnapshotAt m"
  "j \<noteq> k \<Longrightarrow> mc_targets (pruneOne k m) j = mc_targets m j"
  "mc_targets m j = None \<Longrightarrow> mc_targets (pruneOne k m) j = None"
  by (auto simp: pruneOne_retire retire_fields putTarget_def split: option.splits)

lemma fold_pruneOne_frame [frame]:
  "mc_activeTargets (fold pruneOne ks m) = mc_activeTargets m"
  "mc_activeApplied (fold pruneOne ks m) = mc_activeApplied m"
  "mc_lastSnapshotAt (fold pruneOne ks m) = mc_lastSnapshotAt m"
  "j \<notin> set ks \<Longrightarrow> mc_targets (fold pruneOne ks m) j = mc_targets m j"
  "mc_targets m j = None \<Longrightarrow> mc_targets (fold pruneOne ks m) j = None"
  by (induction ks arbitrary: m) (simp_all add: frame)

lemma openConnections_latency: "openConnections (Some (t\<lparr>tc_latencyMS := x\<rparr>)) = openConnections (Some t)"
  by (simp add: openConnections_def)

lemma pruneOne_open:
  "mc_targets (pruneOne k m) k = Some t \<Longrightarrow> List.member (mc_activeTargets m) k \<or> 0 < openConnections (Some t)"
  by (auto simp: pruneOne_retire retire_fields putTarget_def openConnections_latency
      split: option.splits if_splits)

text \<open>After a pruning pass over all targets every one left is active or in use.\<close>

lemma fold_pruneOne_open:
  assumes "distinct ks" "k \<in> set ks" "mc_targets (fold pruneOne ks m) k = Some t"
  shows "List.member (mc_activeTargets m) k \<or> 0 < openConnections (Some t)"
  using assms
proof (induction ks arbitrary: m)
  case (Cons j ks)
  show ?case
  proof (cases "j = k")
    case True
    then have "mc_targets (pruneOne k m) k = Some t"
      using Cons.prems fold_pruneOne_frame(4) [of k ks] by simp
    then show ?thesis by (rule pruneOne_open)
  next
    case False
    then show ?thesis using Cons.IH [of "pruneOne j m"] Cons.prems by (simp add: frame)
  qed
qed simp

lemma reportable_all:
  assumes "distinct order" "set order = dom (mc_targets m)"
  shows "copyReportableTargetSnapshotsLocked (pruneInactiveTargetsLocked order m) =
    (\<lambda>k. map_option counter_snap (mc_targets (pruneInactiveTargetsLocked order m) k))"
proof
  fix k
  let ?m = "pruneInactiveTargetsLocked order m"
  have "k \<in> set order" if "mc_targets ?m k = Some t" for t
    using that assms(2) fold_pruneOne_frame(5) [of m k order]
    by (cases "mc_targets m k") (auto simp: pruneInactiveTargetsLocked_def split: if_splits)
  then have "List.member (mc_activeTargets m) k \<or> 0 < openConnections (Some t)"
    if "mc_targets ?m k = Some t" "mc_activeApplied m" for t
    using that fold_pruneOne_open [OF assms(1), of k m t] by (simp add: pruneInactiveTargetsLocked_def)
  then show "copyReportableTargetSnapshotsLocked ?m k = map_option counter_snap (mc_targets ?m k)"
    by (auto simp: copyReportableTargetSnapshotsLocked_def pruneInactiveTargetsLocked_def frame
        split: option.splits)
qed

subsection \<open>A payload reports the whole ledger\<close>

lemma rule_sum_map_filter:
  "rule_sum c r (List.map_filter f ks) = (\<Sum>k \<leftarrow> ks. case f k of None \<Rightarrow> 0 | Some d \<Rightarrow> rule_sum c r [d])"
  by (induction ks) (auto simp: List.map_filter_def)

lemma sum_list_sort: "(\<Sum>x \<leftarrow> sort xs. f x) = (\<Sum>x \<leftarrow> xs. (f x :: int))"
  by (metis mset_map mset_sort sum_mset_sum_list)

lemma deltas_sum:
  assumes ok: "metrics_ok m" and ks: "distinct ks" "set ks = dom (mc_targets m)"
  shows "rule_sum c r (List.map_filter
      (\<lambda>k. targetTrafficDelta (fst k) (counter_snap (the (mc_targets m k))) (lastSnap m k)) (sort ks)) =
    (\<Sum>k \<in> rule_keys r m. unreported c m k)"
proof -
  have one: "(case targetTrafficDelta (fst k) (counter_snap (the (mc_targets m k))) (lastSnap m k) of
      None \<Rightarrow> 0 | Some d \<Rightarrow> rule_sum c r [d]) = (if fst k = r then unreported c m k else 0)"
    if "k \<in> set ks" for k
  proof -
    from that have "k \<in> dom (mc_targets m)" unfolding ks(2) .
    then obtain t where t: "mc_targets m k = Some t" by (auto simp: domIff)
    show ?thesis using retire_delta [OF ok t, of c r]
      by (cases "targetTrafficDelta (fst k) (counter_snap t) (lastSnap m k)") (simp_all add: t)
  qed
  have "rule_sum c r (List.map_filter
      (\<lambda>k. targetTrafficDelta (fst k) (counter_snap (the (mc_targets m k))) (lastSnap m k)) (sort ks)) =
      (\<Sum>k \<leftarrow> ks. if fst k = r then unreported c m k else 0)"
    unfolding rule_sum_map_filter sum_list_sort by (rule arg_cong [of _ _ sum_list]) (use one in auto)
  also have "\<dots> = (\<Sum>k \<in> set ks. if fst k = r then unreported c m k else 0)"
    by (rule sum_list_distinct_conv_sum_set [OF ks(1)])
  also have "\<dots> = (\<Sum>k \<in> rule_keys r m. unreported c m k)"
    unfolding rule_keys_def ks(2) [symmetric] by (simp add: sum.inter_filter)
  finally show ?thesis .
qed

definition targetDeltas :: "metricsCounter \<Rightarrow> targetMetricKey list \<Rightarrow> RuleTrafficDelta list" where
  "targetDeltas m ks = List.map_filter
     (\<lambda>k. targetTrafficDelta (fst k) (counter_snap (the (mc_targets m k))) (lastSnap m k)) ks"

lemma map_filter_same:
  "(\<And>x. x \<in> set xs \<Longrightarrow> f x = g x) \<Longrightarrow> List.map_filter f xs = List.map_filter g xs"
  by (induction xs) (simp_all add: List.map_filter_def)

lemma targetDeltas_nonneg:
  assumes "metrics_ok m" "set ks \<subseteq> dom (mc_targets m)"
  shows "\<forall>d \<in> set (targetDeltas m ks). 0 \<le> dsel c d"
proof
  fix d
  assume "d \<in> set (targetDeltas m ks)"
  then obtain k t where "mc_targets m k = Some t"
    and "targetTrafficDelta (fst k) (counter_snap t) (lastSnap m k) = Some d"
    using assms(2) by (fastforce simp: targetDeltas_def List.map_filter_def)
  then show "0 \<le> dsel c d"
    using targetTrafficDelta_Some target_delta [OF assms(1)] by (metis component_snap)
qed

text \<open>What \<open>agentPayload\<close> does, with all targets left after pruning reported.\<close>

lemma agentPayload_eq:
  assumes order: "distinct order" "set order = dom (mc_targets m)"
    and m1: "m1 = pruneInactiveTargetsLocked order m"
    and ks: "ks = filter (\<lambda>k. mc_targets m1 k \<noteq> None) order"
    and p: "agentPayload rate order now m = (p, m')"
  shows "distinct ks" and "set ks = dom (mc_targets m1)"
    and "mp_TrafficDeltas p = (let ds = (if elapsedSince now (mc_lastSnapshotAt m) = None then [] else targetDeltas m1 (sort ks))
      in if mc_pendingDeltas m1 \<noteq> [] then mergePayloadTrafficDeltas (mc_pendingDeltas m1 @ ds) else ds)"
    and "m' = m1\<lparr>mc_pendingDeltas := [], mc_lastSnapshot := metrics_snapshot m1,
      mc_lastTargets := (\<lambda>k. map_option counter_snap (mc_targets m1 k)), mc_lastSnapshotAt := Some now\<rparr>"
proof -
  show "distinct ks" using order(1) by (simp add: ks)
  have "mc_targets m j = None \<Longrightarrow> mc_targets m1 j = None" for j
    by (simp add: m1 pruneInactiveTargetsLocked_def frame)
  then show "set ks = dom (mc_targets m1)" unfolding ks using order(2) by (auto simp: domIff)
  have at: "mc_lastSnapshotAt m1 = mc_lastSnapshotAt m"
    by (simp add: m1 pruneInactiveTargetsLocked_def frame)
  note snaps = reportable_all [OF order, folded m1]
  have "List.map_filter (\<lambda>key. targetTrafficDelta (fst key) (the (map_option counter_snap (mc_targets m1 key)))
      (lastSnap m1 key)) (sort ks) = targetDeltas m1 (sort ks)"
    unfolding targetDeltas_def by (rule map_filter_same) (auto simp: ks)
  then show "mp_TrafficDeltas p = (let ds = (if elapsedSince now (mc_lastSnapshotAt m) = None then [] else targetDeltas m1 (sort ks))
      in if mc_pendingDeltas m1 \<noteq> [] then mergePayloadTrafficDeltas (mc_pendingDeltas m1 @ ds) else ds)"
    and "m' = m1\<lparr>mc_pendingDeltas := [], mc_lastSnapshot := metrics_snapshot m1,
      mc_lastTargets := (\<lambda>k. map_option counter_snap (mc_targets m1 k)), mc_lastSnapshotAt := Some now\<rparr>"
    using p unfolding agentPayload_def by (auto simp: Let_def m1 [symmetric] snaps at ks)
qed

lemma reported_state:
  assumes "metrics_ok m1" and "m' = m1\<lparr>mc_pendingDeltas := [], mc_lastSnapshot := x,
      mc_lastTargets := (\<lambda>k. map_option counter_snap (mc_targets m1 k)), mc_lastSnapshotAt := y\<rparr>"
  shows "metrics_ok m'" and "ledger c r m' = 0"
proof -
  have snap: "lastSnap m' k = counter_snap t" if "mc_targets m1 k = Some t" for k t
    using that by (simp add: assms(2) lastSnap_def)
  have pos: "0 \<le> csel c t" if "mc_targets m1 k = Some t" for c k t
    using metrics_okD(4,5) [OF assms(1) that] by (meson order_trans)
  show "metrics_ok m'"
    using assms snap pos unfolding metrics_ok_def by (auto simp: dom_def)
  have targets: "mc_targets m' = mc_targets m1" by (simp add: assms(2))
  have "unreported c m' k = 0" if "k \<in> rule_keys r m'" for k
  proof -
    from that obtain t where t: "mc_targets m1 k = Some t" by (auto simp: rule_keys_def targets)
    show ?thesis using snap [OF t] t by (simp add: unreported_def targets)
  qed
  then show "ledger c r m' = 0" by (simp add: ledger_def) (simp add: assms(2))
qed

lemma payload_reports_ledger:
  assumes ok: "metrics_ok m" and order: "distinct order" "set order = dom (mc_targets m)"
    and clock: "elapsedSince now (mc_lastSnapshotAt m) \<noteq> None"
    and small: "ledger c r m < 2 ^ 63" and r: "r \<noteq> []"
    and p: "agentPayload rate order now m = (p, m')"
  shows "rule_sum c r (mp_TrafficDeltas p) = ledger c r m \<and> ledger c r m' = 0 \<and> metrics_ok m'"
proof -
  let ?m = "pruneInactiveTargetsLocked order m"
  let ?ks = "filter (\<lambda>k. mc_targets ?m k \<noteq> None) order"
  note eq = agentPayload_eq [OF order refl refl p] and ok1 = pruneInactive_keeps(1) [OF ok, of order]
  let ?ds = "targetDeltas ?m (sort ?ks)"
  have ds: "rule_sum c r (mc_pendingDeltas ?m) + rule_sum c r ?ds = ledger c r m"
    unfolding ledger_def [of c r ?m] pruneInactive_keeps(2) [OF ok, symmetric, of c r order]
      targetDeltas_def deltas_sum [OF ok1 eq(1,2)] by (rule refl)
  have "set (sort ?ks) \<subseteq> dom (mc_targets ?m)" unfolding set_sort eq(2) ..
  then have nonneg: "clean_nonneg (\<lambda>d. d) c (mc_pendingDeltas ?m @ ?ds)"
    using metrics_okD(7) [OF ok1] targetDeltas_nonneg [OF ok1] by (metis UnE clean_nonneg_def set_append)
  have "rule_sum c r (mp_TrafficDeltas p) = ledger c r m"
  proof (cases "mc_pendingDeltas ?m = []")
    case True
    then show ?thesis using ds clock by (auto simp: eq(3))
  next
    case False
    then show ?thesis
      using clock merge_all.summing.merge_total [OF r nonneg] ds small
      by (auto simp: eq(3) Let_def mergePayloadTrafficDeltas_def)
  qed
  then show ?thesis using reported_state [OF ok1 eq(4)] by blast
qed

subsection \<open>Histories\<close>

text \<open>The methods that change the counters, as events.\<close>

datatype metrics_event =
    EvUpload string string int | EvDownload string string int | EvUDP string string int
  | EvTCPConnection string string int | EvUDPSession string string int | EvLatency string string int
  | EvReserveTCP string string | EvReserveLeastTCP string "TargetEndpoint list"
  | EvReserveLeastUDP string "TargetEndpoint list" | EvReleaseTCP string string | EvPromoteTCP string string
  | EvReleaseUDP string string | EvPromoteUDP string string
  | EvActivate "targetMetricKey list" "RuleConfig list"

fun apply_event :: "metrics_event \<Rightarrow> metricsCounter \<Rightarrow> metricsCounter" where
  "apply_event (EvUpload r t d) m = addTargetUpload r t d m"
| "apply_event (EvDownload r t d) m = addTargetDownload r t d m"
| "apply_event (EvUDP r t d) m = addTargetUDP r t d m"
| "apply_event (EvTCPConnection r t d) m = addTargetTCPConnection r t d m"
| "apply_event (EvUDPSession r t d) m = addTargetUDPSession r t d m"
| "apply_event (EvLatency r t l) m = recordTargetLatency r t l m"
| "apply_event (EvReserveTCP r t) m = snd (reserveTargetTCPDial r t m)"
| "apply_event (EvReserveLeastTCP r ts) m = snd (reserveLeastLoadTargetTCPDial r ts m)"
| "apply_event (EvReserveLeastUDP r ts) m = snd (reserveLeastLoadTargetUDPSession r ts m)"
| "apply_event (EvReleaseTCP r t) m = releaseTargetTCPDial r t m"
| "apply_event (EvPromoteTCP r t) m = promoteTargetTCPDial r t m"
| "apply_event (EvReleaseUDP r t) m = releaseTargetUDPSessionReservation r t m"
| "apply_event (EvPromoteUDP r t) m = promoteTargetUDPSessionReservation r t m"
| "apply_event (EvActivate order rules) m = setActiveTargets order rules m"

text \<open>
  What an event records for a component: the amount it brings, when the target is known or may be
  created. Traffic of a target that left the configuration and was pruned is not recorded.
\<close>

definition takes :: "string \<Rightarrow> string \<Rightarrow> metricsCounter \<Rightarrow> bool" where
  "takes r t m \<longleftrightarrow> targetLocked (r, t) m \<noteq> None"

fun recorded :: "component \<Rightarrow> string \<Rightarrow> metrics_event \<Rightarrow> metricsCounter \<Rightarrow> int" where
  "recorded Upload r (EvUpload s t d) m = (if s = r \<and> takes s t m then d else 0)"
| "recorded Download r (EvDownload s t d) m = (if s = r \<and> takes s t m then d else 0)"
| "recorded Packets r (EvUDP s t d) m = (if s = r \<and> takes s t m then d else 0)"
| "recorded Connections r (EvTCPConnection s t d) m = (if s = r \<and> takes s t m \<and> 0 < d then d else 0)"
| "recorded Connections r (EvPromoteTCP s t) m = (if s = r then 1 else 0)"
| "recorded _ _ _ _ = 0"

text \<open>Amounts are not negative, and no 63-bit counter overflows.\<close>

fun event_key :: "metrics_event \<Rightarrow> (targetMetricKey \<times> int) option" where
  "event_key (EvUpload r t d) = Some ((r, t), d)"
| "event_key (EvDownload r t d) = Some ((r, t), d)"
| "event_key (EvUDP r t d) = Some ((r, t), d)"
| "event_key (EvTCPConnection r t d) = Some ((r, t), max d 0)"
| "event_key (EvPromoteTCP r t) = Some ((r, t), 1)"
| "event_key _ = None"

definition event_fits :: "metrics_event \<Rightarrow> metricsCounter \<Rightarrow> bool" where
  "event_fits e m \<longleftrightarrow>
     (case event_key e of
        None \<Rightarrow> True
      | Some (k, d) \<Rightarrow> 0 \<le> d \<and> (\<forall>c. csel c (found_or_new k m) + d < 2 ^ 63))"

inductive metrics_run ::
    "metricsCounter \<Rightarrow> (component \<Rightarrow> string \<Rightarrow> int) \<Rightarrow> (component \<Rightarrow> string \<Rightarrow> int) \<Rightarrow> bool" where
  start: "metrics_run (newMetricsCounter now) (\<lambda>c r. 0) (\<lambda>c r. 0)"
| event: "metrics_run m reported sofar \<Longrightarrow> event_fits e m \<Longrightarrow>
    metrics_run (apply_event e m) reported (\<lambda>c r. sofar c r + recorded c r e m)"
| report: "metrics_run m reported sofar \<Longrightarrow> distinct order \<Longrightarrow> set order = dom (mc_targets m) \<Longrightarrow>
    elapsedSince now (mc_lastSnapshotAt m) \<noteq> None \<Longrightarrow> (\<And>c r. ledger c r m < 2 ^ 63) \<Longrightarrow>
    agentPayload rate order now m = (p, m') \<Longrightarrow>
    metrics_run m' (\<lambda>c r. reported c r + rule_sum c r (mp_TrafficDeltas p)) sofar"

text \<open>One lemma for every method that stores a counter and may then drop a closed inactive target.\<close>

lemma store_keeps:
  assumes ok: "metrics_ok m" and le: "\<And>c. csel c (found_or_new k m) \<le> csel c t" "\<And>c. csel c t < 2 ^ 63"
  shows "metrics_ok (putTarget k t m)"
    and "ledger c r (putTarget k t m) = ledger c r m + (if fst k = r then csel c t - csel c (found_or_new k m) else 0)"
    and "metrics_ok (pruneClosedInactiveTargetLocked k t (putTarget k t m))"
    and "ledger c r (pruneClosedInactiveTargetLocked k t (putTarget k t m)) =
      ledger c r m + (if fst k = r then csel c t - csel c (found_or_new k m) else 0)"
proof -
  show ok': "metrics_ok (putTarget k t m)" using assms by (rule putTarget_ok)
  show led: "ledger c r (putTarget k t m) = ledger c r m +
      (if fst k = r then csel c t - csel c (found_or_new k m) else 0)" using ok by (rule putTarget_ledger)
  have t: "mc_targets (putTarget k t m) k = Some t" by (simp add: putTarget_def)
  have "pruneClosedInactiveTargetLocked k t (putTarget k t m) =
      (if mc_activeApplied m \<and> \<not> List.member (mc_activeTargets m) k \<and> openConnections (Some t) \<le> 0
       then retire k t (putTarget k t m) else putTarget k t m)"
    by (auto simp: pruneClosedInactiveTargetLocked_def retire_def) (auto simp: putTarget_def)
  then show "metrics_ok (pruneClosedInactiveTargetLocked k t (putTarget k t m))"
    and "ledger c r (pruneClosedInactiveTargetLocked k t (putTarget k t m)) =
      ledger c r m + (if fst k = r then csel c t - csel c (found_or_new k m) else 0)"
    using retire_ok [OF ok' t] retire_ledger [OF ok' t] ok' led by simp_all
qed

lemma found_small: "metrics_ok m \<Longrightarrow> csel c (found_or_new k m) < 2 ^ 63"
  using metrics_okD(6) [of m k _ c] by (cases "mc_targets m k") (simp_all add: found_or_new_def)

lemma targetLocked_found: "targetLocked k m = Some t \<Longrightarrow> t = found_or_new k m"
  by (auto simp: targetLocked_def found_or_new_def split: option.splits if_splits)

lemma component_updates [simp]:
  "csel c (t\<lparr>tc_udpPackets := x\<rparr>) = (if c = Packets then x else csel c t)"
  "csel c (t\<lparr>tc_uploadBytes := x\<rparr>) = (if c = Upload then x else csel c t)"
  "csel c (t\<lparr>tc_downloadBytes := x\<rparr>) = (if c = Download then x else csel c t)"
  "csel c (t\<lparr>tc_tcpConnectionEvents := x\<rparr>) = (if c = Connections then x else csel c t)"
  "csel c (t\<lparr>tc_tcpConnections := x\<rparr>) = csel c t"
  "csel c (t\<lparr>tc_tcpDialReservations := x\<rparr>) = csel c t"
  "csel c (t\<lparr>tc_udpSessions := x\<rparr>) = csel c t"
  "csel c (t\<lparr>tc_udpSessionReservations := x\<rparr>) = csel c t"
  by (cases c; simp)+

lemma found_i64:
  assumes "metrics_ok m" "0 \<le> d" "csel c (found_or_new k m) + d < 2 ^ 63"
  shows "i64 (csel c (found_or_new k m) + d) = csel c (found_or_new k m) + d"
proof (rule i64_nonneg_small)
  have "0 \<le> csel c (found_or_new k m)"
    using metrics_okD(4,5) [OF assms(1), of k _ c]
    by (cases "mc_targets m k") (auto simp: found_or_new_def intro: order_trans)
  then show "0 \<le> csel c (found_or_new k m) + d" using assms(2) by simp
qed (use assms in simp)

text \<open>A counter whose component \<open>b\<close> grows by \<open>d\<close>.\<close>

definition grows :: "component \<Rightarrow> int \<Rightarrow> targetMetricCounter \<Rightarrow> targetMetricCounter \<Rightarrow> bool" where
  "grows b d t u \<longleftrightarrow> (\<forall>c. csel c u = csel c t + (if c = b then d else 0))"

lemma grows_store:
  assumes "metrics_ok m" "grows b d (found_or_new k m) u" "0 \<le> d" "csel b (found_or_new k m) + d < 2 ^ 63"
  shows "metrics_ok (putTarget k u m)"
    and "ledger c r (putTarget k u m) = ledger c r m + (if fst k = r \<and> c = b then d else 0)"
    and "metrics_ok (pruneClosedInactiveTargetLocked k u (putTarget k u m))"
    and "ledger c r (pruneClosedInactiveTargetLocked k u (putTarget k u m)) =
      ledger c r m + (if fst k = r \<and> c = b then d else 0)"
proof -
  have le: "csel c (found_or_new k m) \<le> csel c u" "csel c u < 2 ^ 63" for c
    using assms found_small [OF assms(1), of c k] by (auto simp: grows_def)
  note keeps = store_keeps [OF assms(1) le]
  show "metrics_ok (putTarget k u m)" "metrics_ok (pruneClosedInactiveTargetLocked k u (putTarget k u m))"
    by (rule keeps)+
  show "ledger c r (putTarget k u m) = ledger c r m + (if fst k = r \<and> c = b then d else 0)"
    and "ledger c r (pruneClosedInactiveTargetLocked k u (putTarget k u m)) =
      ledger c r m + (if fst k = r \<and> c = b then d else 0)"
    using keeps(2,4) [of c r] assms(2) by (auto simp: grows_def)
qed

lemma grows_same: "(\<And>c. csel c u = csel c t) \<Longrightarrow> grows b 0 t u"
  by (simp add: grows_def)

lemma withTarget_keeps:
  assumes "metrics_ok m" "grows b d (found_or_new k m) (f (found_or_new k m))" "0 \<le> d"
    and "csel b (found_or_new k m) + d < 2 ^ 63"
  shows "metrics_ok (withTarget k f m) \<and> ledger c r (withTarget k f m) = ledger c r m +
    (if fst k = r \<and> c = b \<and> targetLocked k m \<noteq> None then d else 0)"
  using assms(1) grows_store(1,2) [OF assms] targetLocked_found [of k m]
  by (cases "targetLocked k m") (auto simp: withTarget_def)

lemma add_keeps:
  assumes ok: "metrics_ok m" and d: "0 \<le> d" and fit: "\<And>c. csel c (found_or_new (s, t) m) + d < 2 ^ 63"
  shows "metrics_ok (addTargetUpload s t d m) \<and>
      ledger c r (addTargetUpload s t d m) = ledger c r m + (if s = r \<and> c = Upload \<and> takes s t m then d else 0)"
    and "metrics_ok (addTargetDownload s t d m) \<and>
      ledger c r (addTargetDownload s t d m) = ledger c r m + (if s = r \<and> c = Download \<and> takes s t m then d else 0)"
    and "metrics_ok (addTargetUDP s t d m) \<and>
      ledger c r (addTargetUDP s t d m) = ledger c r m + (if s = r \<and> c = Packets \<and> takes s t m then d else 0)"
proof -
  let ?t = "found_or_new (s, t) m"
  note i64 = found_i64 [OF ok d fit]
  have up: "grows Upload d ?t (?t\<lparr>tc_uploadBytes := i64 (tc_uploadBytes ?t + d)\<rparr>)"
    and down: "grows Download d ?t (?t\<lparr>tc_downloadBytes := i64 (tc_downloadBytes ?t + d)\<rparr>)"
    and udp: "grows Packets d ?t (?t\<lparr>tc_udpPackets := i64 (tc_udpPackets ?t + d)\<rparr>)"
    using i64 [of Upload] i64 [of Download] i64 [of Packets] by (simp_all add: grows_def)
  show "metrics_ok (addTargetUpload s t d m) \<and>
      ledger c r (addTargetUpload s t d m) = ledger c r m + (if s = r \<and> c = Upload \<and> takes s t m then d else 0)"
    using withTarget_keeps [where f = "\<lambda>t. t\<lparr>tc_uploadBytes := i64 (tc_uploadBytes t + d)\<rparr>", OF ok up d fit, of c r]
    by (simp add: addTargetUpload_def takes_def)
  show "metrics_ok (addTargetDownload s t d m) \<and>
      ledger c r (addTargetDownload s t d m) = ledger c r m + (if s = r \<and> c = Download \<and> takes s t m then d else 0)"
    using withTarget_keeps [where f = "\<lambda>t. t\<lparr>tc_downloadBytes := i64 (tc_downloadBytes t + d)\<rparr>", OF ok down d fit, of c r]
    by (simp add: addTargetDownload_def takes_def)
  show "metrics_ok (addTargetUDP s t d m) \<and>
      ledger c r (addTargetUDP s t d m) = ledger c r m + (if s = r \<and> c = Packets \<and> takes s t m then d else 0)"
    using withTarget_keeps [where f = "\<lambda>t. t\<lparr>tc_udpPackets := i64 (tc_udpPackets t + d)\<rparr>", OF ok udp d fit, of c r]
    by (simp add: addTargetUDP_def takes_def)
qed

text \<open>Methods that leave all four reported counters alone.\<close>

lemma neutral_store:
  assumes ok: "metrics_ok m" and "\<And>c. csel c u = csel c (found_or_new k m)"
  shows "metrics_ok (putTarget k u m) \<and> ledger c r (putTarget k u m) = ledger c r m"
    and "metrics_ok (pruneClosedInactiveTargetLocked k u (putTarget k u m)) \<and>
      ledger c r (pruneClosedInactiveTargetLocked k u (putTarget k u m)) = ledger c r m"
  using grows_store(1,3) [OF ok grows_same [of u, OF assms(2)], of c] found_small [OF ok, of c k]
    grows_store(2,4) [OF ok grows_same [of u, OF assms(2)], of c c r] by simp_all

lemma neutral_keeps:
  assumes ok: "metrics_ok m"
    and e: "event_key e = None"
  shows "metrics_ok (apply_event e m) \<and> ledger c r (apply_event e m) = ledger c r m"
proof (cases e)
  case (EvUDPSession s t d)
  then show ?thesis
    using ok neutral_store(2) [OF ok, of _ "(s, t)"]
    by (cases "mc_targets m (s, t)") (auto simp: addTargetUDPSession_def Let_def found_or_new_def)
next
  case (EvLatency s t l)
  then show ?thesis
    using ok neutral_store(1) [OF ok, of _ "(s, t)"] targetLocked_found [of "(s, t)" m]
    by (cases "targetLocked (s, t) m") (auto simp: recordTargetLatency_def Let_def withTarget_def)
next
  case (EvReserveTCP s t)
  then show ?thesis
    using ok neutral_store(1) [OF ok, of _ "(s, t)"] targetLocked_found [of "(s, t)" m]
    by (cases "targetLocked (s, t) m") (auto simp: reserveTargetTCPDial_def)
next
  case (EvReserveLeastTCP s ts)
  let ?k = "(s, te_ID (leastLoaded s ts m))"
  show ?thesis
    using ok EvReserveLeastTCP neutral_store(1) [OF ok, of _ ?k] targetLocked_found [of ?k m]
    by (cases "targetLocked ?k m") (auto simp: reserveLeastLoadTargetTCPDial_def Let_def)
next
  case (EvReserveLeastUDP s ts)
  let ?k = "(s, te_ID (leastLoaded s ts m))"
  show ?thesis
    using ok EvReserveLeastUDP neutral_store(1) [OF ok, of _ ?k] targetLocked_found [of ?k m]
    by (cases "targetLocked ?k m") (auto simp: reserveLeastLoadTargetUDPSession_def Let_def)
next
  case (EvReleaseTCP s t)
  then show ?thesis
    using ok neutral_store(2) [OF ok, of _ "(s, t)"]
    by (cases "mc_targets m (s, t)") (auto simp: releaseTargetTCPDial_def Let_def found_or_new_def)
next
  case (EvReleaseUDP s t)
  then show ?thesis
    using ok neutral_store(2) [OF ok, of _ "(s, t)"]
    by (cases "mc_targets m (s, t)") (auto simp: releaseTargetUDPSessionReservation_def Let_def found_or_new_def)
next
  case (EvPromoteUDP s t)
  then show ?thesis
    using ok neutral_store(1) [OF ok, of _ "(s, t)"]
    by (auto simp: promoteTargetUDPSessionReservation_def Let_def)
next
  case (EvActivate order rules)
  let ?m = "m\<lparr>mc_activeTargets := activeTargetKeys rules, mc_activeApplied := True\<rparr>"
  have same: "lastSnap ?m = lastSnap m" by (simp add: lastSnap_def fun_eq_iff)
  have "metrics_ok ?m" using ok unfolding metrics_ok_def same by simp
  moreover have "ledger c r ?m = ledger c r m"
    by (simp add: ledger_def rule_keys_def unreported_def same)
  ultimately show ?thesis
    using EvActivate pruneInactive_keeps(1) [of ?m order] pruneInactive_keeps(2) [of ?m c r order] by (simp add: setActiveTargets_def)
qed (use e in simp_all)

lemma connection_keeps:
  assumes ok: "metrics_ok m" and fit: "\<And>c. csel c (found_or_new (s, t) m) + max d 0 < 2 ^ 63"
  shows "metrics_ok (addTargetTCPConnection s t d m) \<and> ledger c r (addTargetTCPConnection s t d m) =
    ledger c r m + (if s = r \<and> c = Connections \<and> takes s t m \<and> 0 < d then d else 0)"
proof -
  let ?t = "found_or_new (s, t) m"
  let ?t1 = "?t\<lparr>tc_tcpConnections := i64 (tc_tcpConnections ?t + d)\<rparr>"
  let ?t2 = "if d > 0 then ?t1\<lparr>tc_tcpConnectionEvents := i64 (tc_tcpConnectionEvents ?t1 + d)\<rparr> else ?t1"
  let ?t3 = "if tc_tcpConnections ?t2 < 0 then ?t2\<lparr>tc_tcpConnections := 0\<rparr> else ?t2"
  have "grows Connections (max d 0) ?t ?t3"
    using found_i64 [OF ok, of d Connections "(s, t)"] fit [of Connections] by (auto simp: grows_def)
  note keeps = grows_store(3) [OF ok this _ fit] grows_store(4) [OF ok this _ fit, of c r]
  have eq: "addTargetTCPConnection s t d m =
      (if mc_targets m (s, t) = None \<and> (d < 0 \<or> \<not> takes s t m) then m
       else pruneClosedInactiveTargetLocked (s, t) ?t3 (putTarget (s, t) ?t3 m))"
    by (cases "mc_targets m (s, t)"; cases "d < 0"; cases "mc_activeApplied m \<and> (s, t) \<notin> set (mc_activeTargets m)")
      (simp_all add: addTargetTCPConnection_def Let_def found_or_new_def takes_def targetLocked_def)
  have "takes s t m" if "mc_targets m (s, t) \<noteq> None" using that by (auto simp: takes_def targetLocked_def)
  then show ?thesis unfolding eq using ok keeps by auto
qed

lemma promote_keeps:
  assumes ok: "metrics_ok m" and fit: "csel Connections (found_or_new (s, t) m) + 1 < 2 ^ 63"
  shows "metrics_ok (promoteTargetTCPDial s t m) \<and> ledger c r (promoteTargetTCPDial s t m) =
    ledger c r m + (if s = r \<and> c = Connections then 1 else 0)"
proof -
  let ?t = "found_or_new (s, t) m"
  let ?t1 = "if tc_tcpDialReservations ?t > 0
    then ?t\<lparr>tc_tcpDialReservations := i64 (tc_tcpDialReservations ?t - 1)\<rparr> else ?t"
  let ?t2 = "?t1\<lparr>tc_tcpConnections := i64 (tc_tcpConnections ?t1 + 1),
     tc_tcpConnectionEvents := i64 (tc_tcpConnectionEvents ?t1 + 1)\<rparr>"
  have "grows Connections 1 ?t ?t2"
    using found_i64 [OF ok, of 1 Connections "(s, t)"] fit by (auto simp: grows_def)
  then show ?thesis
    using grows_store(1) [OF ok, of Connections 1 "(s, t)" ?t2]
      grows_store(2) [OF ok, of Connections 1 "(s, t)" ?t2 c r] fit
    by (auto simp: promoteTargetTCPDial_def Let_def)
qed

lemma event_keeps:
  assumes ok: "metrics_ok m" and fits: "event_fits e m"
  shows "metrics_ok (apply_event e m) \<and> ledger c r (apply_event e m) = ledger c r m + recorded c r e m"
proof (cases "event_key e")
  case None
  moreover from None have "recorded c r e m = 0" by (cases e; cases c) simp_all
  ultimately show ?thesis using neutral_keeps [OF ok] by simp
next
  case (Some kd)
  obtain s t d where kd: "kd = ((s, t), d)" by (metis prod.exhaust)
  have d: "0 \<le> d" "\<And>c. csel c (found_or_new (s, t) m) + d < 2 ^ 63"
    using fits Some kd by (auto simp: event_fits_def)
  note keeps = add_keeps [OF ok d, of c r] connection_keeps [OF ok, of s t _ c r] promote_keeps [OF ok, of s t c r]
  show ?thesis
  proof (cases e)
    case (EvTCPConnection s' t' d')
    then have "s' = s" "t' = t" "d = max d' 0" using Some kd by auto
    then show ?thesis using EvTCPConnection keeps(4) [of d'] d by (cases c) auto
  next
    case (EvPromoteTCP s' t')
    then have "s' = s" "t' = t" "d = 1" using Some kd by auto
    then show ?thesis using EvPromoteTCP keeps(5) d(2) [of Connections] by (cases c) auto
  qed (use Some kd keeps(1-3) in \<open>cases c; auto\<close>)+
qed

lemma newMetricsCounter_ok: "metrics_ok (newMetricsCounter now)" "ledger c r (newMetricsCounter now) = 0"
  by (simp_all add: metrics_ok_def ledger_def rule_keys_def newMetricsCounter_def)

text \<open>
  C33: no traffic is lost or counted twice. In every history of a metrics counter, starting empty,
  with bytes, packets and connections recorded in any order, targets activated, retired and pruned,
  and payloads taken at increasing times, what all payloads reported for a rule plus what is still
  held for it equals what was recorded for it, in each of the four quantities; and right after a
  payload nothing is held. Amounts are assumed non-negative and below \<open>2 ^ 63\<close> in total.
\<close>

theorem traffic_conserved:
  assumes "metrics_run m reported sofar" and "r \<noteq> []"
  shows "reported c r + ledger c r m = sofar c r \<and>
    (\<forall>order now rate. distinct order \<and> set order = dom (mc_targets m) \<and>
       elapsedSince now (mc_lastSnapshotAt m) \<noteq> None \<and> ledger c r m < 2 ^ 63 \<longrightarrow>
       rule_sum c r (mp_TrafficDeltas (fst (agentPayload rate order now m))) = sofar c r - reported c r \<and>
       ledger c r (snd (agentPayload rate order now m)) = 0)"
proof -
  have run: "metrics_ok m \<and> (\<forall>c. reported c r + ledger c r m = sofar c r)"
    using assms(1)
  proof (induction rule: metrics_run.induct)
    case (start now)
    then show ?case by (simp add: newMetricsCounter_ok)
  next
    case (event m reported sofar e)
    then show ?case using event_keeps [of m e] by (metis add.assoc)
  next
    case (report m reported sofar order now rate p m')
    have "rule_sum c r (mp_TrafficDeltas p) = ledger c r m \<and> ledger c r m' = 0 \<and> metrics_ok m'" for c
      using payload_reports_ledger [of m order now c r rate p m'] report assms(2) by blast
    then show ?case using report.IH by simp
  qed
  have "rule_sum c r (mp_TrafficDeltas (fst (agentPayload rate order now m))) = ledger c r m \<and>
      ledger c r (snd (agentPayload rate order now m)) = 0"
    if "distinct order \<and> set order = dom (mc_targets m) \<and>
       elapsedSince now (mc_lastSnapshotAt m) \<noteq> None \<and> ledger c r m < 2 ^ 63" for order now rate
    using payload_reports_ledger [of m order now c r rate] run assms(2) that by (metis prod.collapse)
  with run show ?thesis by (metis add_diff_cancel_left')
qed

definition example_metrics :: metricsCounter where
  "example_metrics = apply_event (EvUpload ''r'' ''t'' 5) (newMetricsCounter 0)"

lemma example_metrics_run:
  "metrics_run example_metrics (\<lambda>c r. 0) (\<lambda>c r. 0 + recorded c r (EvUpload ''r'' ''t'' 5) (newMetricsCounter 0))"
  unfolding example_metrics_def
  by (rule metrics_run.event [OF metrics_run.start])
    (simp add: event_fits_def found_or_new_def newMetricsCounter_def)

lemma example_metrics_fields:
  "mc_targets example_metrics = [(''r'', ''t'') \<mapsto> zero_counter\<lparr>tc_uploadBytes := 5\<rparr>]"
  "mc_lastSnapshotAt example_metrics = Some 0" "mc_pendingDeltas example_metrics = []"
  "mc_activeApplied example_metrics = False"
  by (simp_all add: example_metrics_def addTargetUpload_def withTarget_def targetLocked_def
      newMetricsCounter_def putTarget_def zero_counter_def)

theorem traffic_conserved_witness:
  "rule_sum Upload ''r'' (mp_TrafficDeltas (fst (agentPayload (\<lambda>x e. 0) [(''r'', ''t'')] 1 example_metrics))) = 5"
proof -
  have rec: "recorded Upload ''r'' (EvUpload ''r'' ''t'' 5) (newMetricsCounter 0) = 5"
    by (simp add: takes_def targetLocked_def newMetricsCounter_def)
  have r: "''r'' \<noteq> []" by simp
  note cons = traffic_conserved [OF example_metrics_run r, of Upload, unfolded rec]
  have "ledger Upload ''r'' example_metrics = 5" using cons by simp
  moreover have "set [(''r'', ''t'')] = dom (mc_targets example_metrics)" by (simp add: example_metrics_fields)
  moreover have "elapsedSince 1 (mc_lastSnapshotAt example_metrics) \<noteq> None"
    by (simp add: example_metrics_fields elapsedSince_def)
  ultimately show ?thesis using cons [THEN conjunct2, rule_format, of "[(''r'', ''t'')]" 1 "\<lambda>x e. 0"] by simp
qed

text \<open>
  The clock hypothesis above is needed. When a payload is taken without the clock having moved
  on since the last one, it reports no delta, but the snapshots the next deltas are computed from
  are moved forward all the same: everything that was held for any rule is gone, it was not
  reported and will not be.
\<close>

theorem stalled_clock_drops_traffic:
  assumes ok: "metrics_ok m" and order: "distinct order" "set order = dom (mc_targets m)"
    and stalled: "elapsedSince now (mc_lastSnapshotAt m) = None"
    and plain: "mc_pendingDeltas m = []" "\<not> mc_activeApplied m"
  shows "mp_TrafficDeltas (fst (agentPayload rate order now m)) = [] \<and>
    ledger c r (snd (agentPayload rate order now m)) = 0"
proof -
  obtain p m' where p: "agentPayload rate order now m = (p, m')" by (metis prod.exhaust)
  have same: "pruneInactiveTargetsLocked order m = m" using plain by (simp add: pruneInactiveTargetsLocked_def)
  note eq = agentPayload_eq [OF order refl refl p, unfolded same]
  show ?thesis using eq(3) reported_state(2) [OF ok eq(4), of c r] stalled plain by (simp add: p)
qed

theorem stalled_clock_drops_traffic_witness:
  "ledger Upload ''r'' example_metrics = 5 \<and>
   mp_TrafficDeltas (fst (agentPayload (\<lambda>x e. 0) [(''r'', ''t'')] 0 example_metrics)) = [] \<and>
   ledger Upload ''r'' (snd (agentPayload (\<lambda>x e. 0) [(''r'', ''t'')] 0 example_metrics)) = 0"
proof -
  have keys: "rule_keys ''r'' example_metrics = {(''r'', ''t'')}"
    by (auto simp: rule_keys_def example_metrics_fields split: if_splits)
  have prev: "lastSnap example_metrics k = zero_snap" for k
    by (simp add: lastSnap_def example_metrics_def addTargetUpload_def withTarget_def targetLocked_def
        newMetricsCounter_def putTarget_def)
  have "ledger Upload ''r'' example_metrics = 5"
    by (simp add: ledger_def keys unreported_def prev zero_snap_def example_metrics_fields)
  moreover have "metrics_ok example_metrics"
    using event_keeps [OF newMetricsCounter_ok(1), of "EvUpload ''r'' ''t'' 5" 0]
    by (simp add: example_metrics_def event_fits_def found_or_new_def newMetricsCounter_def)
  ultimately show ?thesis
    using stalled_clock_drops_traffic [of example_metrics "[(''r'', ''t'')]" 0 "\<lambda>x e. 0" Upload "''r''"]
    by (simp add: example_metrics_fields elapsedSince_def)
qed

end
