(* ===== verification/Traffic_Spool.thy ===== *)
theory Traffic_Spool
  imports Traffic_Deltas
begin

text \<open>
  \<open>pkg/core/agent/traffic_spool.go\<close>: the traffic deltas a node agent has to deliver to the control
  plane. Deltas are queued, then moved as a whole into a report with an id that is sent with every
  metrics message until it is acknowledged; the state is kept in a file so that it survives a
  restart of the agent. The file is the decoded content of the spool file next to the credential
  file, \<open>None\<close> when it does not exist or cannot be read. The argument \<open>io\<close> of an operation says
  whether the file operations of its persist step succeed; the new content is written to a temporary
  file and renamed, so a failure leaves the old content. The time stamp in the file is never read
  back and is left out. Each operation runs under a mutex.
\<close>

record trafficSpoolFile =
  sf_Pending :: "RuleTrafficDelta list"
  sf_InFlightID :: string
  sf_InFlightDeltas :: "RuleTrafficDelta list"
  sf_SchemaVersion :: string

abbreviation trafficSpoolSchemaVersion :: string where
  "trafficSpoolSchemaVersion \<equiv> ''agent_traffic_spool.v1''"

text \<open>The fields of \<open>NodeRuntime\<close> that the spool uses, and the file.\<close>

record spool =
  sp_credentialFile :: string
  sp_loaded :: bool
  sp_pending :: "RuleTrafficDelta list"
  sp_inFlightID :: string
  sp_inFlight :: "RuleTrafficDelta list"
  sp_file :: "trafficSpoolFile option"

definition maxInt64 :: "int \<Rightarrow> int \<Rightarrow> int" where
  "maxInt64 left right = (if left > right then left else right)"

definition cleanDelta :: "RuleTrafficDelta \<Rightarrow> RuleTrafficDelta" where
  "cleanDelta delta =
     \<lparr>rd_RuleID = TrimSpace (rd_RuleID delta),
      rd_UploadBytes = maxInt64 (rd_UploadBytes delta) 0,
      rd_DownloadBytes = maxInt64 (rd_DownloadBytes delta) 0,
      rd_TCPConnections = maxInt64 (rd_TCPConnections delta) 0,
      rd_UDPPackets = maxInt64 (rd_UDPPackets delta) 0\<rparr>"

definition mergeTrafficDeltas :: "RuleTrafficDelta list \<Rightarrow> RuleTrafficDelta list" where
  "mergeTrafficDeltas deltas = mergeAll (map cleanDelta deltas)"

definition trafficSpoolPath :: "spool \<Rightarrow> bool" where
  "trafficSpoolPath s \<longleftrightarrow> TrimSpace (sp_credentialFile s) \<noteq> []"

definition loadTrafficSpoolLocked :: "spool \<Rightarrow> spool" where
  "loadTrafficSpoolLocked s =
     (if sp_loaded s then s
      else
        (let s = s\<lparr>sp_loaded := True\<rparr> in
         if \<not> trafficSpoolPath s then s
         else case sp_file s of
           None \<Rightarrow> s
         | Some payload \<Rightarrow>
             if sf_SchemaVersion payload \<noteq> [] \<and> sf_SchemaVersion payload \<noteq> trafficSpoolSchemaVersion then s
             else
               (let s = s\<lparr>sp_pending := mergeTrafficDeltas (sf_Pending payload),
                          sp_inFlightID := TrimSpace (sf_InFlightID payload),
                          sp_inFlight := mergeTrafficDeltas (sf_InFlightDeltas payload)\<rparr> in
                if sp_inFlightID s = [] \<or> sp_inFlight s = [] then s\<lparr>sp_inFlightID := [], sp_inFlight := []\<rparr>
                else s)))"

definition persistTrafficSpoolLocked :: "bool \<Rightarrow> spool \<Rightarrow> spool" where
  "persistTrafficSpoolLocked io s =
     (if \<not> trafficSpoolPath s then s
      else if \<not> io then s
      else if sp_pending s = [] \<and> sp_inFlight s = [] then s\<lparr>sp_file := None\<rparr>
      else s\<lparr>sp_file := Some \<lparr>sf_Pending = sp_pending s, sf_InFlightID = sp_inFlightID s,
               sf_InFlightDeltas = sp_inFlight s, sf_SchemaVersion = trafficSpoolSchemaVersion\<rparr>\<rparr>)"

definition queueTrafficDeltas :: "bool \<Rightarrow> RuleTrafficDelta list \<Rightarrow> spool \<Rightarrow> spool" where
  "queueTrafficDeltas io deltas s =
     (let normalized = mergeTrafficDeltas deltas in
      if normalized = [] then s
      else
        (let s = loadTrafficSpoolLocked s;
             s = s\<lparr>sp_pending := mergeTrafficDeltas (sp_pending s @ normalized)\<rparr>
         in persistTrafficSpoolLocked io s))"

text \<open>\<open>newID\<close> is the value \<open>newTrafficReportID\<close> would return.\<close>

definition attachTrafficReport ::
    "bool \<Rightarrow> string \<Rightarrow> MetricsPayload \<Rightarrow> spool \<Rightarrow> MetricsPayload \<times> spool" where
  "attachTrafficReport io newID metrics s =
     (let s = loadTrafficSpoolLocked s;
          s = (if sp_inFlightID s = [] \<and> sp_pending s \<noteq> []
               then persistTrafficSpoolLocked io
                      (s\<lparr>sp_inFlightID := newID, sp_inFlight := sp_pending s, sp_pending := []\<rparr>)
               else s) in
      if sp_inFlightID s = [] \<or> sp_inFlight s = [] then (metrics, s)
      else (metrics\<lparr>mp_TrafficReportID := sp_inFlightID s, mp_TrafficDeltas := sp_inFlight s\<rparr>, s))"

definition acknowledgeTrafficReport :: "bool \<Rightarrow> string \<Rightarrow> spool \<Rightarrow> spool" where
  "acknowledgeTrafficReport io reportID s =
     (let reportID = TrimSpace reportID in
      if reportID = [] then s
      else
        (let s = loadTrafficSpoolLocked s in
         if reportID \<noteq> sp_inFlightID s then s
         else persistTrafficSpoolLocked io (s\<lparr>sp_inFlightID := [], sp_inFlight := []\<rparr>)))"

text \<open>The agent is started (again): memory is empty, the file is as it was.\<close>

definition restart :: "spool \<Rightarrow> spool" where
  "restart s = s\<lparr>sp_loaded := False, sp_pending := [], sp_inFlightID := [], sp_inFlight := []\<rparr>"

subsection \<open>Merging in the agent\<close>

lemma dsel_cleanDelta: "dsel c (cleanDelta d) = max (dsel c d) 0"
  by (cases c) (simp_all add: cleanDelta_def maxInt64_def max_def)

interpretation spool_merge: delta_merge mergeTrafficDeltas cleanDelta
proof
  show "rule_sum c r (mergeTrafficDeltas ds) = rule_sum c r (map cleanDelta ds)"
    if "r \<noteq> []" "clean_nonneg cleanDelta c ds" "rule_sum c r (map cleanDelta ds) < 2 ^ 63" for r c ds
    using that merge_all.merge_sum [of r c "map cleanDelta ds"]
    by (simp add: mergeTrafficDeltas_def clean_nonneg_def)
  show "merged_form (mergeTrafficDeltas ds)" for ds
    by (simp add: mergeTrafficDeltas_def merge_all.merge_form)
qed

lemma clean_nonneg_cleanDelta [simp]: "clean_nonneg cleanDelta c ds"
  by (simp add: clean_nonneg_def dsel_cleanDelta)

text \<open>The deltas held in memory: merged, trimmed, and small enough to be added up.\<close>

definition tidy :: "RuleTrafficDelta list \<Rightarrow> bool" where
  "tidy ds \<longleftrightarrow> merged_form ds \<and> (\<forall>d \<in> set ds. delta_fits d \<and> trimmed (rd_RuleID d))"

lemma cleanDelta_id: "delta_fits d \<Longrightarrow> trimmed (rd_RuleID d) \<Longrightarrow> cleanDelta d = d"
proof -
  assume fits: "delta_fits d" and tr: "trimmed (rd_RuleID d)"
  have "0 \<le> dsel c d" for c using fits by (simp add: delta_fits_def)
  from this [of Upload] this [of Download] this [of Connections] this [of Packets]
  show ?thesis using tr by (simp add: cleanDelta_def maxInt64_def)
qed

lemma tidy_clean: "tidy ds \<Longrightarrow> map cleanDelta ds = ds"
  by (auto simp: tidy_def cleanDelta_id intro!: map_idI)

lemma mergeTrafficDeltas_tidy: "tidy ds \<Longrightarrow> mergeTrafficDeltas ds = ds"
  using tidy_clean mergeAll_id by (auto simp: mergeTrafficDeltas_def tidy_def)

lemma addByRule_trimmed:
  "trimmed (rd_RuleID d) \<Longrightarrow> \<forall>e \<in> set ds. trimmed (rd_RuleID e) \<Longrightarrow> \<forall>e \<in> set (addByRule d ds). trimmed (rd_RuleID e)"
  by (induction ds) auto

lemma mergeStep_trimmed:
  "\<forall>e \<in> set (acc @ ds). trimmed (rd_RuleID e) \<Longrightarrow> \<forall>e \<in> set (fold mergeStep ds acc). trimmed (rd_RuleID e)"
proof (induction ds arbitrary: acc)
  case (Cons d ds)
  have "\<forall>e \<in> set (mergeStep d acc @ ds). trimmed (rd_RuleID e)"
    using Cons.prems addByRule_trimmed [of d acc] by (auto simp: mergeStep_def)
  then show ?case using Cons.IH by simp
qed simp

lemma merge_tidy:
  assumes "\<forall>d \<in> set ds. \<forall>c. dsel c d < 2 ^ 63" "\<And>c r. rule_sum c r (map cleanDelta ds) < 2 ^ 63"
  shows "tidy (mergeTrafficDeltas ds)"
proof -
  have "\<forall>d \<in> set (map cleanDelta ds). delta_fits d"
    using assms(1) by (auto simp: delta_fits_def dsel_cleanDelta)
  then have "\<forall>d \<in> set (fold mergeStep (map cleanDelta ds) []). delta_fits d"
    using assms(2) by (intro mergeStep_fits) simp_all
  moreover have "\<forall>d \<in> set (fold mergeStep (map cleanDelta ds) []). trimmed (rd_RuleID d)"
    by (rule mergeStep_trimmed) (simp add: cleanDelta_def)
  ultimately show ?thesis
    using spool_merge.merge_form [of ds] by (auto simp: tidy_def mergeTrafficDeltas_def mergeAll_def)
qed

subsection \<open>Histories of a spool\<close>

definition held :: "component \<Rightarrow> string \<Rightarrow> spool \<Rightarrow> int" where
  "held c r s = (let s = loadTrafficSpoolLocked s in rule_sum c r (sp_pending s) + rule_sum c r (sp_inFlight s))"

text \<open>The file holds what memory holds: the last write succeeded.\<close>

definition written :: "spool \<Rightarrow> bool" where
  "written s \<longleftrightarrow>
     trafficSpoolPath s \<and>
     (let s = loadTrafficSpoolLocked s in
      sp_file s = (if sp_pending s = [] \<and> sp_inFlight s = [] then None
        else Some \<lparr>sf_Pending = sp_pending s, sf_InFlightID = sp_inFlightID s,
               sf_InFlightDeltas = sp_inFlight s, sf_SchemaVersion = trafficSpoolSchemaVersion\<rparr>))"

definition newSpool :: "string \<Rightarrow> spool" where
  "newSpool cred = \<lparr>sp_credentialFile = cred, sp_loaded = False, sp_pending = [], sp_inFlightID = [],
     sp_inFlight = [], sp_file = None\<rparr>"

text \<open>
  What happens to a spool: deltas are queued, reports are attached to metrics, acknowledgements
  arrive (also late ones and ones that were never asked for), and the agent is restarted, at a
  moment when the file is up to date. \<open>queued\<close> and \<open>acked\<close> add up per quantity and rule what was
  handed in and what was acknowledged, \<open>sent\<close> lists the reports that went out.
\<close>

inductive spool_run ::
    "spool \<Rightarrow> (component \<Rightarrow> string \<Rightarrow> int) \<Rightarrow> (component \<Rightarrow> string \<Rightarrow> int) \<Rightarrow>
     (string \<times> RuleTrafficDelta list) list \<Rightarrow> bool" where
  start: "spool_run (newSpool cred) (\<lambda>c r. 0) (\<lambda>c r. 0) []"
| queue: "spool_run s queued acked sent \<Longrightarrow> \<forall>d \<in> set ds. \<forall>c. dsel c d < 2 ^ 63 \<Longrightarrow>
    (\<And>c r. queued c r + rule_sum c r (map cleanDelta ds) < 2 ^ 63) \<Longrightarrow>
    spool_run (queueTrafficDeltas io ds s) (\<lambda>c r. queued c r + rule_sum c r (map cleanDelta ds)) acked sent"
| attach: "spool_run s queued acked sent \<Longrightarrow> newID \<noteq> [] \<Longrightarrow> trimmed newID \<Longrightarrow> newID \<notin> fst ` set sent \<Longrightarrow>
    attachTrafficReport io newID metrics s = (metrics', s') \<Longrightarrow>
    spool_run s' queued acked
      (if sp_inFlight s' = [] then sent else sent @ [(mp_TrafficReportID metrics', mp_TrafficDeltas metrics')])"
| ack: "spool_run s queued acked sent \<Longrightarrow>
    spool_run (acknowledgeTrafficReport io i s) queued
      (\<lambda>c r. acked c r + (let t = loadTrafficSpoolLocked s in
         if TrimSpace i \<noteq> [] \<and> TrimSpace i = sp_inFlightID t then rule_sum c r (sp_inFlight t) else 0)) sent"
| crash: "spool_run s queued acked sent \<Longrightarrow> written s \<Longrightarrow> spool_run (restart s) queued acked sent"

definition spool_ok :: "spool \<Rightarrow> bool" where
  "spool_ok s \<longleftrightarrow>
     (let t = loadTrafficSpoolLocked s in
      tidy (sp_pending t) \<and> tidy (sp_inFlight t) \<and> trimmed (sp_inFlightID t) \<and>
      (sp_inFlightID t = [] \<longleftrightarrow> sp_inFlight t = []))"

lemma load_loaded [simp]: "sp_loaded (loadTrafficSpoolLocked s)"
  by (simp add: loadTrafficSpoolLocked_def Let_def split: option.splits)

lemma load_id [simp]: "sp_loaded s \<Longrightarrow> loadTrafficSpoolLocked s = s"
  by (simp add: loadTrafficSpoolLocked_def)

lemma load_path [simp]: "trafficSpoolPath (loadTrafficSpoolLocked s) = trafficSpoolPath s"
  by (simp add: loadTrafficSpoolLocked_def trafficSpoolPath_def Let_def split: option.splits)

lemma persist_frame [simp]:
  "sp_loaded (persistTrafficSpoolLocked io s) = sp_loaded s" "sp_pending (persistTrafficSpoolLocked io s) = sp_pending s"
  "sp_inFlightID (persistTrafficSpoolLocked io s) = sp_inFlightID s"
  "sp_inFlight (persistTrafficSpoolLocked io s) = sp_inFlight s"
  by (simp_all add: persistTrafficSpoolLocked_def)

lemma tidy_Nil [simp]: "tidy []"
  by (simp add: tidy_def merged_form_def)

lemma tidy_sum_Nil: "tidy ds \<Longrightarrow> rule_sum c [] ds = 0"
  by (rule rule_sum_absent) (auto simp: tidy_def merged_form_def)

lemma tidy_sum_nonneg: "tidy ds \<Longrightarrow> 0 \<le> rule_sum c r ds"
  by (rule rule_sum_nonneg) (auto simp: tidy_def delta_fits_def)

text \<open>Queueing adds to the pending deltas exactly what is handed in.\<close>

lemma queue_pending:
  assumes ok: "tidy pending" and ds: "\<forall>d \<in> set ds. \<forall>c. dsel c d < 2 ^ 63"
    and small: "\<And>c r. rule_sum c r pending + rule_sum c r (map cleanDelta ds) < 2 ^ 63"
  shows "tidy (mergeTrafficDeltas (pending @ mergeTrafficDeltas ds))"
    and "r \<noteq> [] \<Longrightarrow> rule_sum c r (mergeTrafficDeltas (pending @ mergeTrafficDeltas ds)) =
      rule_sum c r pending + rule_sum c r (map cleanDelta ds)"
    and "tidy (mergeTrafficDeltas ds)"
    and "r \<noteq> [] \<Longrightarrow> rule_sum c r (mergeTrafficDeltas ds) = rule_sum c r (map cleanDelta ds)"
proof -
  have less: "rule_sum c r (map cleanDelta ds) < 2 ^ 63" for c r
    using small [of c r] tidy_sum_nonneg [OF ok, of c r] by simp
  show new: "tidy (mergeTrafficDeltas ds)" using ds less by (rule merge_tidy)
  show sum: "rule_sum c r (mergeTrafficDeltas ds) = rule_sum c r (map cleanDelta ds)" if "r \<noteq> []" for c r
    using that less by (intro spool_merge.merge_sum) simp_all
  have clean: "map cleanDelta (pending @ mergeTrafficDeltas ds) = pending @ mergeTrafficDeltas ds"
    using tidy_clean [OF ok] tidy_clean [OF new] by simp
  have both: "rule_sum c r (map cleanDelta (pending @ mergeTrafficDeltas ds)) < 2 ^ 63" for c r
    unfolding clean using small [of c r] sum [of r c] tidy_sum_Nil [OF ok, of c] tidy_sum_Nil [OF new, of c]
    by (cases "r = []") simp_all
  have "\<forall>d \<in> set (pending @ mergeTrafficDeltas ds). \<forall>c. dsel c d < 2 ^ 63"
    using ok new by (auto simp: tidy_def delta_fits_def)
  from this both show "tidy (mergeTrafficDeltas (pending @ mergeTrafficDeltas ds))" by (rule merge_tidy)
  show "rule_sum c r (mergeTrafficDeltas (pending @ mergeTrafficDeltas ds)) =
      rule_sum c r pending + rule_sum c r (map cleanDelta ds)" if "r \<noteq> []"
    using that both [of c r] spool_merge.merge_sum [of r c "pending @ mergeTrafficDeltas ds"] sum [OF that, of c]
    unfolding clean by simp
qed

lemma load_restart:
  assumes "spool_ok s" "written s"
  shows "sp_pending (loadTrafficSpoolLocked (restart s)) = sp_pending (loadTrafficSpoolLocked s)"
    and "sp_inFlightID (loadTrafficSpoolLocked (restart s)) = sp_inFlightID (loadTrafficSpoolLocked s)"
    and "sp_inFlight (loadTrafficSpoolLocked (restart s)) = sp_inFlight (loadTrafficSpoolLocked s)"
proof -
  let ?t = "loadTrafficSpoolLocked s"
  have disk: "sp_file (restart s) = sp_file ?t" "sp_loaded (restart s) = False"
    "sp_pending (restart s) = []" "sp_inFlightID (restart s) = []" "sp_inFlight (restart s) = []"
    by (simp_all add: restart_def loadTrafficSpoolLocked_def Let_def split: option.splits)
  have path: "trafficSpoolPath (restart s\<lparr>sp_loaded := True\<rparr>)"
    using assms(2) by (simp add: written_def trafficSpoolPath_def restart_def)
  have mem: "tidy (sp_pending ?t)" "tidy (sp_inFlight ?t)" "trimmed (sp_inFlightID ?t)"
    "sp_inFlightID ?t = [] \<longleftrightarrow> sp_inFlight ?t = []"
    using assms(1) by (simp_all add: spool_ok_def Let_def)
  have "sp_file ?t = (if sp_pending ?t = [] \<and> sp_inFlight ?t = [] then None
        else Some \<lparr>sf_Pending = sp_pending ?t, sf_InFlightID = sp_inFlightID ?t,
               sf_InFlightDeltas = sp_inFlight ?t, sf_SchemaVersion = trafficSpoolSchemaVersion\<rparr>)"
    using assms(2) by (simp add: written_def Let_def)
  then show "sp_pending (loadTrafficSpoolLocked (restart s)) = sp_pending ?t"
    and "sp_inFlightID (loadTrafficSpoolLocked (restart s)) = sp_inFlightID ?t"
    and "sp_inFlight (loadTrafficSpoolLocked (restart s)) = sp_inFlight ?t"
    using mem path disk mergeTrafficDeltas_tidy
    by (auto simp: loadTrafficSpoolLocked_def [of "restart s"] Let_def)
qed

text \<open>The invariant of a history: the books balance, and every report that went out under the id in
  flight, or under any one id, has the same deltas.\<close>

definition spool_inv ::
    "spool \<Rightarrow> (component \<Rightarrow> string \<Rightarrow> int) \<Rightarrow> (component \<Rightarrow> string \<Rightarrow> int) \<Rightarrow>
     (string \<times> RuleTrafficDelta list) list \<Rightarrow> bool" where
  "spool_inv s queued acked sent \<longleftrightarrow>
     spool_ok s \<and> (\<forall>c r. queued c r < 2 ^ 63 \<and> 0 \<le> acked c r) \<and>
     (\<forall>c r. 0 \<le> queued c r) \<and>
     (\<forall>c r. r \<noteq> [] \<longrightarrow> held c r s + acked c r = queued c r) \<and>
     (\<forall>i ds. (i, ds) \<in> set sent \<longrightarrow> i \<noteq> []) \<and>
     (\<forall>i ds. (i, ds) \<in> set sent \<longrightarrow> i = sp_inFlightID (loadTrafficSpoolLocked s) \<longrightarrow>
        ds = sp_inFlight (loadTrafficSpoolLocked s)) \<and>
     (\<forall>i ds es. (i, ds) \<in> set sent \<longrightarrow> (i, es) \<in> set sent \<longrightarrow> ds = es)"

lemma spool_inv_loaded:
  assumes "sp_loaded t" "loadTrafficSpoolLocked s = t0" "sp_inFlightID t = sp_inFlightID t0" "sp_inFlight t = sp_inFlight t0"
    and "spool_inv s queued acked sent" "tidy (sp_pending t)"
    and "\<And>c r. queued' c r < 2 ^ 63 \<and> 0 \<le> queued' c r"
    and "\<And>c r. r \<noteq> [] \<Longrightarrow> rule_sum c r (sp_pending t) + rule_sum c r (sp_inFlight t) + acked c r = queued' c r"
  shows "spool_inv t queued' acked sent"
  using assms unfolding spool_inv_def spool_ok_def held_def by (simp add: Let_def)

lemma spool_queue:
  assumes inv: "spool_inv s queued acked sent" and ds: "\<forall>d \<in> set ds. \<forall>c. dsel c d < 2 ^ 63"
    and small: "\<And>c r. queued c r + rule_sum c r (map cleanDelta ds) < 2 ^ 63"
  shows "spool_inv (queueTrafficDeltas io ds s) (\<lambda>c r. queued c r + rule_sum c r (map cleanDelta ds)) acked sent"
proof -
  let ?t = "loadTrafficSpoolLocked s" and ?new = "mergeTrafficDeltas ds"
  have mem: "tidy (sp_pending ?t)" "tidy (sp_inFlight ?t)"
    using inv by (simp_all add: spool_inv_def spool_ok_def Let_def)
  have book: "rule_sum c r (sp_pending ?t) + rule_sum c r (sp_inFlight ?t) + acked c r = queued c r"
    if "r \<noteq> []" for c r using inv that by (simp add: spool_inv_def held_def Let_def)
  have pos: "0 \<le> queued c r" "0 \<le> acked c r" "0 \<le> rule_sum c r (map cleanDelta ds)" for c r
    using inv rule_sum_nonneg [of "map cleanDelta ds" c r] by (simp_all add: spool_inv_def dsel_cleanDelta)
  have fits: "rule_sum c r (sp_pending ?t) + rule_sum c r (map cleanDelta ds) < 2 ^ 63" for c r
    using small [of c r] book [of r c] pos [of c r] tidy_sum_nonneg [OF mem(2), of c r] tidy_sum_Nil [OF mem(1), of c]
    by (cases "r = []") simp_all
  note pend = queue_pending [OF mem(1) ds fits]
  show ?thesis
  proof (cases "?new = []")
    case True
    have "rule_sum c r (map cleanDelta ds) = 0" if "r \<noteq> []" for c r
      using pend(4) [OF that, of c] True by simp
    then show ?thesis using inv small pos True
      by (simp add: spool_inv_def queueTrafficDeltas_def)
  next
    case False
    let ?q = "?t\<lparr>sp_pending := mergeTrafficDeltas (sp_pending ?t @ ?new)\<rparr>"
    have q: "queueTrafficDeltas io ds s = persistTrafficSpoolLocked io ?q"
      using False by (simp add: queueTrafficDeltas_def Let_def)
    have "rule_sum c r (mergeTrafficDeltas (sp_pending ?t @ ?new)) + rule_sum c r (sp_inFlight ?t) + acked c r =
        queued c r + rule_sum c r (map cleanDelta ds)" if "r \<noteq> []" for c r
      using pend(2) [OF that, of c] book [OF that, of c] by simp
    then show ?thesis unfolding q
      by (intro spool_inv_loaded [OF _ refl _ _ inv]) (use pend(1) small pos in auto)
  qed
qed

lemma spool_attach:
  assumes inv: "spool_inv s queued acked sent" and new: "newID \<noteq> []" "trimmed newID" "newID \<notin> fst ` set sent"
    and att: "attachTrafficReport io newID metrics s = (metrics', s')"
  shows "spool_inv s' queued acked
      (if sp_inFlight s' = [] then sent else sent @ [(mp_TrafficReportID metrics', mp_TrafficDeltas metrics')])"
proof -
  let ?t = "loadTrafficSpoolLocked s"
  have mem: "tidy (sp_pending ?t)" "tidy (sp_inFlight ?t)" "sp_inFlightID ?t = [] \<longleftrightarrow> sp_inFlight ?t = []"
    using inv by (simp_all add: spool_inv_def spool_ok_def Let_def)
  show ?thesis
  proof (cases "sp_inFlightID ?t = [] \<and> sp_pending ?t \<noteq> []")
    case True
    let ?u = "persistTrafficSpoolLocked io (?t\<lparr>sp_inFlightID := newID, sp_inFlight := sp_pending ?t, sp_pending := []\<rparr>)"
    have s': "s' = ?u" "mp_TrafficReportID metrics' = newID" "mp_TrafficDeltas metrics' = sp_pending ?t"
      using att True new(1) by (auto simp: attachTrafficReport_def Let_def)
    have "(newID, ds) \<notin> set sent" for ds using new(3) by force
    then show ?thesis using inv True mem new
      unfolding s' spool_inv_def spool_ok_def held_def by (auto simp: Let_def)
  next
    case False
    then have s': "s' = ?t" using att by (auto simp: attachTrafficReport_def Let_def split: if_splits)
    have m': "mp_TrafficReportID metrics' = sp_inFlightID ?t \<and> mp_TrafficDeltas metrics' = sp_inFlight ?t"
      if "sp_inFlight ?t \<noteq> []"
      using att False that mem(3) by (auto simp: attachTrafficReport_def Let_def split: if_splits)
    have base: "spool_inv ?t queued acked sent" using inv by (simp add: spool_inv_def spool_ok_def held_def)
    then show ?thesis unfolding s' using m' mem(3) unfolding spool_inv_def by auto
  qed
qed

lemma spool_ack:
  assumes inv: "spool_inv s queued acked sent"
  shows "spool_inv (acknowledgeTrafficReport io i s) queued
      (\<lambda>c r. acked c r + (let t = loadTrafficSpoolLocked s in
         if TrimSpace i \<noteq> [] \<and> TrimSpace i = sp_inFlightID t then rule_sum c r (sp_inFlight t) else 0)) sent"
proof -
  let ?t = "loadTrafficSpoolLocked s"
  have base: "spool_inv ?t queued acked sent" using inv by (simp add: spool_inv_def spool_ok_def held_def)
  show ?thesis
  proof (cases "TrimSpace i = []")
    case True
    then show ?thesis using inv by (simp add: acknowledgeTrafficReport_def)
  next
    case ne: False
    show ?thesis
    proof (cases "TrimSpace i = sp_inFlightID ?t")
      case True
      have eq: "acknowledgeTrafficReport io i s =
          persistTrafficSpoolLocked io (?t\<lparr>sp_inFlightID := [], sp_inFlight := []\<rparr>)"
        using True ne by (simp add: acknowledgeTrafficReport_def Let_def)
      let ?a = "\<lambda>c r. acked c r + rule_sum c r (sp_inFlight ?t)"
      let ?u = "persistTrafficSpoolLocked io (?t\<lparr>sp_inFlightID := [], sp_inFlight := []\<rparr>)"
      have mem: "tidy (sp_pending ?t)" "tidy (sp_inFlight ?t)"
        using inv by (simp_all add: spool_inv_def spool_ok_def Let_def)
      have "spool_inv ?u queued ?a sent"
        unfolding spool_inv_def
      proof (intro conjI)
        show "spool_ok ?u" using mem by (simp add: spool_ok_def trimmed_iff)
        show "\<forall>c r. queued c r < 2 ^ 63 \<and> 0 \<le> ?a c r"
          using inv tidy_sum_nonneg [OF mem(2)] by (simp add: spool_inv_def)
        show "\<forall>c r. r \<noteq> [] \<longrightarrow> held c r ?u + ?a c r = queued c r"
          using inv by (simp add: spool_inv_def held_def Let_def ac_simps)
      qed (use inv in \<open>auto simp: spool_inv_def\<close>)
      then show ?thesis using True ne by (simp add: eq)
    next
      case False
      then show ?thesis using ne base by (simp add: acknowledgeTrafficReport_def Let_def)
    qed
  qed
qed

lemma spool_run_inv: "spool_run s queued acked sent \<Longrightarrow> spool_inv s queued acked sent"
proof (induction rule: spool_run.induct)
  case (start cred)
  have "loadTrafficSpoolLocked (newSpool cred) = newSpool cred\<lparr>sp_loaded := True\<rparr>"
    by (simp add: loadTrafficSpoolLocked_def newSpool_def Let_def)
  then show ?case by (simp add: spool_inv_def spool_ok_def held_def newSpool_def trimmed_iff Let_def)
next
  case (crash s queued acked sent)
  have "spool_ok s" using crash by (simp add: spool_inv_def)
  note same = load_restart [OF this crash(2)]
  show ?case using crash.IH unfolding spool_inv_def spool_ok_def held_def Let_def same .
qed (rule spool_queue spool_attach spool_ack; assumption)+


definition example_delta :: RuleTrafficDelta where
  "example_delta = \<lparr>rd_RuleID = ''r1'', rd_UploadBytes = 7, rd_DownloadBytes = 3, rd_TCPConnections = 1, rd_UDPPackets = 0\<rparr>"

lemma attach_step:
  assumes "spool_run s q a sent" "newID \<noteq> []" "trimmed newID" "newID \<notin> fst ` set sent"
    and "s' = snd (attachTrafficReport io newID m s)" "sp_inFlight s' \<noteq> []"
  shows "spool_run s' q a (sent @ [(mp_TrafficReportID (fst (attachTrafficReport io newID m s)),
    mp_TrafficDeltas (fst (attachTrafficReport io newID m s)))])"
  using spool_run.attach [OF assms(1-4) prod.collapse [symmetric], of io m] assms(5,6) by simp

definition example_spool :: spool where
  "example_spool = snd (attachTrafficReport True ''i1'' zero_metrics
     (queueTrafficDeltas True [example_delta] (newSpool ''/etc/agent.json'')))"

lemma example_spool_run:
  "spool_run example_spool (\<lambda>c r. 0 + rule_sum c r (map cleanDelta [example_delta])) (\<lambda>c r. 0)
     [(''i1'', [example_delta])]"
proof -
  let ?s1 = "queueTrafficDeltas True [example_delta] (newSpool ''/etc/agent.json'')"
  have less: "dsel c example_delta < 2 ^ 63" "rule_sum c r (map cleanDelta [example_delta]) < 2 ^ 63" for c r
    by (cases c; simp add: example_delta_def cleanDelta_def maxInt64_def)+
  have run: "spool_run ?s1 (\<lambda>c r. 0 + rule_sum c r (map cleanDelta [example_delta])) (\<lambda>c r. 0) []"
    by (rule spool_run.queue [OF spool_run.start]) (use less in simp_all)
  have "mp_TrafficReportID (fst (attachTrafficReport True ''i1'' zero_metrics ?s1)) = ''i1''"
    "mp_TrafficDeltas (fst (attachTrafficReport True ''i1'' zero_metrics ?s1)) = [example_delta]"
    "trimmed ''i1''" "sp_inFlight example_spool = [example_delta]" by code_simp+
  then show ?thesis
    using attach_step [OF run, of "''i1''" example_spool True zero_metrics] by (simp add: example_spool_def)
qed


end
