(* ===== verification/Gauges.thy ===== *)
theory Gauges
  imports Forward_Metrics
begin

text \<open>
  The gauges of the metrics counter: for each rule and target, the open TCP connections, the TCP dials
  in progress, the open UDP sessions and the UDP sessions about to be created. The least-load
  scheduler compares their sum, so a gauge that is not brought back to zero distorts scheduling for
  as long as the agent runs. The theory shows what each operation of \<open>metrics.go\<close> does to the gauges;
  the locale \<open>slots\<close> is the contract that the TCP proxy and the UDP session table rely on.
\<close>

datatype gauge = TcpOpen | TcpDialing | UdpOpen | UdpReserved

fun gsel :: "gauge \<Rightarrow> targetMetricCounter \<Rightarrow> int" where
  "gsel TcpOpen t = tc_tcpConnections t"
| "gsel TcpDialing t = tc_tcpDialReservations t"
| "gsel UdpOpen t = tc_udpSessions t"
| "gsel UdpReserved t = tc_udpSessionReservations t"

definition gval :: "metricsCounter \<Rightarrow> gauge \<Rightarrow> targetMetricKey \<Rightarrow> int" where
  "gval m g k = (case mc_targets m k of None \<Rightarrow> 0 | Some t \<Rightarrow> gsel g t)"

text \<open>No gauge is negative, and all are below a bound (which keeps their sum in 64 bits).\<close>

definition gauges_ok :: "int \<Rightarrow> metricsCounter \<Rightarrow> bool" where
  "gauges_ok N m \<longleftrightarrow> (\<forall>g k. 0 \<le> gval m g k \<and> gval m g k < N)"

abbreviation gauge_limit :: int where "gauge_limit \<equiv> 2305843009213693952"

text \<open>A counter exists for the target or may be created.\<close>

definition tracked :: "metricsCounter \<Rightarrow> targetMetricKey \<Rightarrow> bool" where
  "tracked m k \<longleftrightarrow> targetLocked k m \<noteq> None"

lemma gauges_okD: "gauges_ok N m \<Longrightarrow> mc_targets m k = Some t \<Longrightarrow> 0 \<le> gsel g t \<and> gsel g t < N"
  unfolding gauges_ok_def gval_def by (drule spec [of _ g], drule spec [of _ k]) simp

lemma gauges_ok_nonneg: "gauges_ok N m \<Longrightarrow> 0 \<le> gval m g k"
  unfolding gauges_ok_def by blast

lemma gauges_ok_cong: "gval m' = gval m \<Longrightarrow> gauges_ok N m' = gauges_ok N m"
  by (simp add: gauges_ok_def)

lemma gauges_ok_mono: "gauges_ok N m \<Longrightarrow> N \<le> M \<Longrightarrow> gauges_ok M m"
  unfolding gauges_ok_def by (meson less_le_trans)

text \<open>The effect of an operation on one cell of the gauges.\<close>

definition bump :: "(gauge \<Rightarrow> targetMetricKey \<Rightarrow> int) \<Rightarrow> gauge \<Rightarrow> targetMetricKey \<Rightarrow> int \<Rightarrow> gauge \<Rightarrow> targetMetricKey \<Rightarrow> int" where
  "bump v g k d = v(g := (v g)(k := max 0 (v g k + d)))"

lemma bump_apply: "bump v g k d g' k' = (if g' = g \<and> k' = k then max 0 (v g k + d) else v g' k')"
  by (simp add: bump_def)

lemma bump_inverse: "0 \<le> v g k \<Longrightarrow> bump (bump v g k 1) g k (-1) = v"
  by (auto simp: bump_def fun_eq_iff)

lemma gauges_ok_bump:
  assumes "gauges_ok N m" and "gval m' = bump (gval m) g k d" and "d \<le> 1" and "0 < N"
  shows "gauges_ok (N + 1) m'"
  unfolding gauges_ok_def
proof (intro allI)
  fix g' k'
  have "0 \<le> gval m g' k' \<and> gval m g' k' < N" using assms(1) unfolding gauges_ok_def by blast
  then show "0 \<le> gval m' g' k' \<and> gval m' g' k' < N + 1"
    using assms(3,4) unfolding assms(2) bump_apply by auto
qed

lemma gauges_ok_lower:
  assumes "gauges_ok N m" and "gval m' = bump (gval m) g k (-1)"
  shows "gauges_ok N m'"
  unfolding gauges_ok_def
proof (intro allI)
  fix g' k'
  have "0 \<le> gval m g' k' \<and> gval m g' k' < N" using assms(1) unfolding gauges_ok_def by blast
  then show "0 \<le> gval m' g' k' \<and> gval m' g' k' < N"
    unfolding assms(2) bump_apply by auto
qed

subsection \<open>Bookkeeping operations keep every gauge\<close>

lemma gval_put: "gval (putTarget key t m) g k = (if k = key then gsel g t else gval m g k)"
  by (simp add: gval_def putTarget_def)

lemma gval_queue [simp]: "gval (queueFinalInactiveTargetDeltaLocked key t m) = gval m"
  by (intro ext) (simp add: gval_def queueFinalInactiveTargetDeltaLocked_def split: option.split)

lemma mc_targets_queue [simp]: "mc_targets (queueFinalInactiveTargetDeltaLocked key t m) = mc_targets m"
  by (simp add: queueFinalInactiveTargetDeltaLocked_def split: option.split)

lemma gval_delete: "gval (deleteTarget key m) g k = (if k = key then 0 else gval m g k)"
  by (simp add: gval_def deleteTarget_def)

lemma openConnections_sum:
  assumes "\<And>g. 0 \<le> gsel g t \<and> gsel g t < gauge_limit"
  shows "openConnections (Some t) = gsel TcpOpen t + gsel TcpDialing t + gsel UdpOpen t + gsel UdpReserved t"
  using assms [of TcpOpen] assms [of TcpDialing] assms [of UdpOpen] assms [of UdpReserved]
  by (simp add: openConnections_def)

lemma idle_counter:
  assumes "\<And>g. 0 \<le> gsel g t \<and> gsel g t < gauge_limit" and "openConnections (Some t) \<le> 0"
  shows "gsel g t = 0"
  using assms(2) assms(1) [of TcpOpen] assms(1) [of TcpDialing] assms(1) [of UdpOpen] assms(1) [of UdpReserved]
  unfolding openConnections_sum [OF assms(1)] by (cases g; hypsubst) linarith+

lemma gval_pruneClosed:
  assumes "\<And>g. 0 \<le> gsel g t \<and> gsel g t < gauge_limit"
  shows "gval (pruneClosedInactiveTargetLocked key t (putTarget key t m)) g k = gval (putTarget key t m) g k"
  using idle_counter [OF assms] by (simp add: pruneClosedInactiveTargetLocked_def gval_delete gval_put)

lemma gval_pruneOne:
  assumes "gauges_ok gauge_limit m"
  shows "gval (pruneOne key m) = gval m"
proof (intro ext)
  fix g k
  show "gval (pruneOne key m) g k = gval m g k"
  proof (cases "mc_targets m key")
    case None
    then show ?thesis by (simp add: pruneOne_def)
  next
    case (Some t)
    have b: "0 \<le> gsel g t \<and> gsel g t < gauge_limit" for g
      using gauges_okD [OF assms Some] .
    have same: "gsel g (t\<lparr>tc_latencyMS := 0\<rparr>) = gsel g t" by (cases g) simp_all
    have "gval m g key = gsel g t" using Some by (simp add: gval_def)
    then show ?thesis
      using idle_counter [OF b, where g = g] Some
      by (auto simp: pruneOne_def gval_delete gval_put same)
  qed
qed

lemma gval_setActiveTargets:
  assumes "gauges_ok gauge_limit m"
  shows "gval (setActiveTargets order rules m) = gval m"
proof -
  have fold: "gval (fold pruneOne order n) = gval n" if "gauges_ok gauge_limit n" for n
    using that
  proof (induction order arbitrary: n)
    case (Cons a order)
    have "gauges_ok gauge_limit (pruneOne a n)"
      using Cons.prems by (simp add: gauges_ok_def gval_pruneOne)
    then show ?case using Cons.IH Cons.prems by (simp add: gval_pruneOne)
  qed simp
  have eq: "gval (m\<lparr>mc_activeTargets := A, mc_activeApplied := True\<rparr>) = gval m" for A
    by (intro ext) (simp add: gval_def)
  show ?thesis
    using assms by (simp add: setActiveTargets_def pruneInactiveTargetsLocked_def fold gauges_ok_def eq)
qed

lemma gsel_zero [simp]: "gsel g zero_counter = 0"
  by (cases g) (simp_all add: zero_counter_def)

lemma gsel_locked: "targetLocked key m = Some t \<Longrightarrow> gsel g t = gval m g key"
  by (auto simp: targetLocked_def gval_def split: option.splits if_splits)

lemma gval_absent: "mc_targets m k = None \<Longrightarrow> gval m g k = 0"
  by (simp add: gval_def)

lemma gval_present: "mc_targets m k = Some t \<Longrightarrow> gval m g k = gsel g t"
  by (simp add: gval_def)

lemma gval_untracked: "\<not> tracked m k \<Longrightarrow> mc_targets m k = None"
  by (simp add: tracked_def targetLocked_def split: option.splits)

lemma gval_withTarget:
  assumes "\<And>g t. gsel g (f t) = gsel g t"
  shows "gval (withTarget key f m) = gval m"
  by (intro ext)
    (auto simp: withTarget_def gval_put assms gsel_locked split: option.split)

lemma gval_traffic [simp]:
  "gval (addTCPConnection d m) = gval m" "gval (addUDP d m) = gval m"
  "gval (addUpload d m) = gval m" "gval (addDownload d m) = gval m"
  by (intro ext, simp add: gval_def addTCPConnection_def addUDP_def addUpload_def addDownload_def Let_def)+

lemma gsel_traffic [simp]:
  "gsel g (t\<lparr>tc_udpPackets := x\<rparr>) = gsel g t" "gsel g (t\<lparr>tc_uploadBytes := x\<rparr>) = gsel g t"
  "gsel g (t\<lparr>tc_downloadBytes := x\<rparr>) = gsel g t" "gsel g (t\<lparr>tc_latencyMS := x\<rparr>) = gsel g t"
  "gsel g (t\<lparr>tc_tcpConnectionEvents := x\<rparr>) = gsel g t"
  by (cases g; simp)+

lemma gsel_update [simp]:
  "gsel g (t\<lparr>tc_tcpConnections := x\<rparr>) = (if g = TcpOpen then x else gsel g t)"
  "gsel g (t\<lparr>tc_tcpDialReservations := x\<rparr>) = (if g = TcpDialing then x else gsel g t)"
  "gsel g (t\<lparr>tc_udpSessions := x\<rparr>) = (if g = UdpOpen then x else gsel g t)"
  "gsel g (t\<lparr>tc_udpSessionReservations := x\<rparr>) = (if g = UdpReserved then x else gsel g t)"
  by (cases g; simp)+

lemma gval_target_traffic [simp]:
  "gval (addTargetUDP r t d m) = gval m" "gval (addTargetUpload r t d m) = gval m"
  "gval (addTargetDownload r t d m) = gval m" "gval (recordTargetLatency r t d m) = gval m"
  unfolding addTargetUDP_def addTargetUpload_def addTargetDownload_def recordTargetLatency_def Let_def
  by (rule gval_withTarget, simp)+

subsection \<open>Operations that move a gauge\<close>

text \<open>An update of one gauge of one counter, followed by the clean-up of closed targets.\<close>

lemma gval_settle:
  assumes ok: "gauges_ok N m" "N < gauge_limit"
    and t: "\<And>g. gsel g t = gval m g key"
    and t': "\<And>g'. gsel g' t' = bump (gval m) g key d g' key" and "d \<le> 1"
  shows "gval (pruneClosedInactiveTargetLocked key t' (putTarget key t' m)) = bump (gval m) g key d"
proof -
  have range: "0 \<le> gval m g' k \<and> gval m g' k < N" for g' k
    using ok(1) unfolding gauges_ok_def by blast
  have "0 \<le> gsel g' t' \<and> gsel g' t' < gauge_limit" for g'
    using range [of g' key] ok(2) \<open>d \<le> 1\<close> unfolding t' bump_apply by auto
  then show ?thesis
    by (intro ext) (auto simp: gval_pruneClosed gval_put t' bump_apply)
qed

lemma gauge_range: "gauges_ok N m \<Longrightarrow> N < gauge_limit \<Longrightarrow> 0 \<le> gval m g k \<and> gval m g k < gauge_limit - 1"
  unfolding gauges_ok_def by (meson less_le_trans zle_diff1_eq less_imp_le order.strict_trans1 zless_imp_add1_zle)

lemma lower_gauge:
  assumes ok: "gauges_ok N m" "N < gauge_limit"
    and absent: "mc_targets m key = None \<Longrightarrow> m' = m"
    and present: "\<And>c. mc_targets m key = Some c \<Longrightarrow> 0 \<le> gsel g c \<Longrightarrow> gsel g c < gauge_limit \<Longrightarrow>
      m' = pruneClosedInactiveTargetLocked key (low c) (putTarget key (low c) m)"
    and low: "\<And>c g'. gsel g' (low c) = (if g' = g then max 0 (gsel g c - 1) else gsel g' c)"
  shows "gval m' = bump (gval m) g key (-1)"
proof (cases "mc_targets m key")
  case None
  then show ?thesis using absent by (auto simp: bump_def gval_absent fun_eq_iff)
next
  case (Some c)
  have "gsel g' (low c) = bump (gval m) g key (-1) g' key" for g'
    using Some by (simp add: low bump_apply gval_present)
  then show ?thesis
    using gval_settle [OF ok, of c key "low c"] Some present [OF Some] gauge_range [OF ok, of g key]
    by (simp add: gval_present)
qed

lemma raise_gauge:
  assumes ok: "gauges_ok N m" "N < gauge_limit"
    and absent: "targetLocked key m = None \<Longrightarrow> m' = m"
    and present: "\<And>c. targetLocked key m = Some c \<Longrightarrow> 0 \<le> gsel g c \<Longrightarrow> gsel g c < gauge_limit \<Longrightarrow>
      m' = pruneClosedInactiveTargetLocked key (up c) (putTarget key (up c) m)"
    and up: "\<And>c g'. gsel g' (up c) = (if g' = g then gsel g c + 1 else gsel g' c)"
  shows "gval m' = (if tracked m key then bump (gval m) g key 1 else gval m)"
proof (cases "targetLocked key m")
  case None
  then show ?thesis using absent by (simp add: tracked_def)
next
  case (Some c)
  note c = gsel_locked [OF Some]
  have "gsel g' (up c) = bump (gval m) g key 1 g' key" for g'
    using gauge_range [OF ok, of g key] by (simp add: up bump_apply c)
  then show ?thesis
    using gval_settle [OF ok, of c key "up c"] Some c present [OF Some] gauge_range [OF ok, of g key]
    by (simp add: tracked_def)
qed

lemma tcp_close:
  assumes "gauges_ok N m" "N < gauge_limit"
  shows "gval (addTargetTCPConnection r t (-1) m) = bump (gval m) TcpOpen (r, t) (-1)"
  by (rule lower_gauge [OF assms, where low = "\<lambda>c. c\<lparr>tc_tcpConnections := max 0 (tc_tcpConnections c - 1)\<rparr>"])
    (auto simp: addTargetTCPConnection_def Let_def i64_ok_def max_def)

lemma udp_close:
  assumes "gauges_ok N m" "N < gauge_limit"
  shows "gval (addTargetUDPSession r t (-1) m) = bump (gval m) UdpOpen (r, t) (-1)"
  by (rule lower_gauge [OF assms, where low = "\<lambda>c. c\<lparr>tc_udpSessions := max 0 (tc_udpSessions c - 1)\<rparr>"])
    (auto simp: addTargetUDPSession_def Let_def i64_ok_def max_def)

lemma tcp_release:
  assumes "gauges_ok N m" "N < gauge_limit"
  shows "gval (releaseTargetTCPDial r t m) = bump (gval m) TcpDialing (r, t) (-1)"
  by (rule lower_gauge [OF assms, where low = "\<lambda>c. c\<lparr>tc_tcpDialReservations := max 0 (tc_tcpDialReservations c - 1)\<rparr>"])
    (auto simp: releaseTargetTCPDial_def Let_def i64_ok_def max_def)

lemma udp_release:
  assumes "gauges_ok N m" "N < gauge_limit"
  shows "gval (releaseTargetUDPSessionReservation r t m) = bump (gval m) UdpReserved (r, t) (-1)"
  by (rule lower_gauge [OF assms, where low = "\<lambda>c. c\<lparr>tc_udpSessionReservations := max 0 (tc_udpSessionReservations c - 1)\<rparr>"])
    (auto simp: releaseTargetUDPSessionReservation_def Let_def i64_ok_def max_def)

lemma tcp_open:
  assumes "gauges_ok N m" "N < gauge_limit"
  shows "gval (addTargetTCPConnection r t 1 m) = (if tracked m (r, t) then bump (gval m) TcpOpen (r, t) 1 else gval m)"
  by (rule raise_gauge [OF assms, where up = "\<lambda>c. c\<lparr>tc_tcpConnections := tc_tcpConnections c + 1,
      tc_tcpConnectionEvents := i64 (tc_tcpConnectionEvents c + 1)\<rparr>"])
    (auto simp: addTargetTCPConnection_def Let_def i64_ok_def targetLocked_def split: option.splits if_splits)

lemma udp_open:
  assumes "gauges_ok N m" "N < gauge_limit"
  shows "gval (addTargetUDPSession r t 1 m) = (if tracked m (r, t) then bump (gval m) UdpOpen (r, t) 1 else gval m)"
  by (rule raise_gauge [OF assms, where up = "\<lambda>c. c\<lparr>tc_udpSessions := tc_udpSessions c + 1\<rparr>"])
    (auto simp: addTargetUDPSession_def Let_def i64_ok_def targetLocked_def split: option.splits if_splits)

text \<open>A promotion turns a reservation into an open slot; it creates the counter when there is none.\<close>

lemma gsel_found: "gsel g (found_or_new key m) = gval m g key"
  by (simp add: found_or_new_def gval_def split: option.split)

lemmas tc_found = gsel_found [of TcpOpen, unfolded gsel.simps] gsel_found [of TcpDialing, unfolded gsel.simps]
  gsel_found [of UdpOpen, unfolded gsel.simps] gsel_found [of UdpReserved, unfolded gsel.simps]

lemma promote_gauges:
  assumes "\<And>g. gsel g c' = bump (bump (gval m) h key (-1)) g0 key 1 g key"
  shows "gval (putTarget key c' m) = bump (bump (gval m) h key (-1)) g0 key 1"
  by (intro ext) (auto simp: gval_put assms bump_apply)

lemma tcp_promote:
  assumes "gauges_ok N m" "N < gauge_limit"
  shows "gval (promoteTargetTCPDial r t m) = bump (bump (gval m) TcpDialing (r, t) (-1)) TcpOpen (r, t) 1"
  using gauge_range [OF assms, of TcpOpen "(r, t)"] gauge_range [OF assms, of TcpDialing "(r, t)"]
  unfolding promoteTargetTCPDial_def Let_def
  by (intro promote_gauges) (auto simp: bump_apply i64_ok_def max_def gsel_found tc_found)

lemma udp_promote:
  assumes "gauges_ok N m" "N < gauge_limit"
  shows "gval (promoteTargetUDPSessionReservation r t m) =
    bump (bump (gval m) UdpReserved (r, t) (-1)) UdpOpen (r, t) 1"
  using gauge_range [OF assms, of UdpOpen "(r, t)"] gauge_range [OF assms, of UdpReserved "(r, t)"]
  unfolding promoteTargetUDPSessionReservation_def Let_def
  by (intro promote_gauges) (auto simp: bump_apply i64_ok_def max_def gsel_found tc_found)

text \<open>A reservation raises the gauge when the target is tracked, and says whether it did.\<close>

lemma reserve_put:
  assumes "gauges_ok N m" "N < gauge_limit" "targetLocked key m = Some c"
    and "\<And>g'. gsel g' c' = (if g' = g then gsel g c + 1 else gsel g' c)"
  shows "gval (putTarget key c' m) = bump (gval m) g key 1"
  using gauge_range [OF assms(1,2), of g key]
  by (intro ext) (auto simp: gval_put bump_apply assms(4) gsel_locked [OF assms(3)])

lemma tcp_reserve:
  assumes ok: "gauges_ok N m" "N < gauge_limit" and "reserveTargetTCPDial r t m = (b, m')"
  shows "b = tracked m (r, t)" "gval m' = (if b then bump (gval m) TcpDialing (r, t) 1 else gval m)"
  using assms(3) gauge_range [OF ok, of TcpDialing "(r, t)"] gsel_locked [of "(r, t)" m _ TcpDialing]
  by (auto simp: reserveTargetTCPDial_def tracked_def i64_ok_def intro!: reserve_put [OF ok] split: option.splits)

lemma tcp_reserve_least:
  assumes ok: "gauges_ok N m" "N < gauge_limit"
    and "reserveLeastLoadTargetTCPDial r ts m = ((best, b, found), m')"
  shows "b \<longrightarrow> found" "gval m' = (if b then bump (gval m) TcpDialing (r, te_ID best) 1 else gval m)"
  using assms(3) gauge_range [OF ok, of TcpDialing "(r, te_ID best)"] gsel_locked [of "(r, te_ID best)" m _ TcpDialing]
  by (auto simp: reserveLeastLoadTargetTCPDial_def Let_def i64_ok_def intro!: reserve_put [OF ok]
           split: option.splits if_splits)

lemma udp_reserve_least:
  assumes ok: "gauges_ok N m" "N < gauge_limit"
    and "reserveLeastLoadTargetUDPSession r ts m = ((best, b, found), m')"
  shows "b \<longrightarrow> found" "gval m' = (if b then bump (gval m) UdpReserved (r, te_ID best) 1 else gval m)"
  using assms(3) gauge_range [OF ok, of UdpReserved "(r, te_ID best)"] gsel_locked [of "(r, te_ID best)" m _ UdpReserved]
  by (auto simp: reserveLeastLoadTargetUDPSession_def Let_def i64_ok_def intro!: reserve_put [OF ok]
           split: option.splits if_splits)

subsection \<open>The contract of a slot\<close>

text \<open>
  A client of the counter reserves a slot of a target, then releases it or promotes it to an open one,
  and closes an open one in the end. \<open>add\<close> opens (1) or closes (-1) a slot; other operations may come
  in between as long as they keep the gauges.
\<close>

locale slots =
  fixes opened :: gauge and held :: gauge
    and add :: "string \<Rightarrow> string \<Rightarrow> int \<Rightarrow> metricsCounter \<Rightarrow> metricsCounter"
    and release :: "string \<Rightarrow> string \<Rightarrow> metricsCounter \<Rightarrow> metricsCounter"
    and promote :: "string \<Rightarrow> string \<Rightarrow> metricsCounter \<Rightarrow> metricsCounter"
  assumes distinct_gauges: "opened \<noteq> held"
    and add_open: "gauges_ok N m \<Longrightarrow> N < gauge_limit \<Longrightarrow>
      gval (add r t 1 m) = (if tracked m (r, t) then bump (gval m) opened (r, t) 1 else gval m)"
    and add_close: "gauges_ok N m \<Longrightarrow> N < gauge_limit \<Longrightarrow>
      gval (add r t (-1) m) = bump (gval m) opened (r, t) (-1)"
    and release_law: "gauges_ok N m \<Longrightarrow> N < gauge_limit \<Longrightarrow>
      gval (release r t m) = bump (gval m) held (r, t) (-1)"
    and promote_law: "gauges_ok N m \<Longrightarrow> N < gauge_limit \<Longrightarrow>
      gval (promote r t m) = bump (bump (gval m) held (r, t) (-1)) opened (r, t) 1"
begin

lemma failed_attempt:
  assumes "gauges_ok N m" "N + 1 < gauge_limit" "0 < N" and "gval m1 = bump (gval m) held (r, t) 1"
  shows "gval (release r t m1) = gval m"
  using release_law [OF gauges_ok_bump [OF assms(1,4) _ assms(3)] assms(2)] gauges_ok_nonneg [OF assms(1)]
  by (simp add: assms(4) bump_inverse)

lemma promoted:
  assumes "gauges_ok N m" "N + 1 < gauge_limit" "0 < N" and "gval m1 = bump (gval m) held (r, t) 1"
  shows "gval (promote r t m1) = bump (gval m) opened (r, t) 1"
  using promote_law [OF gauges_ok_bump [OF assms(1,4) _ assms(3)] assms(2)] gauges_ok_nonneg [OF assms(1)]
  by (simp add: assms(4) bump_inverse)

lemma closed_again:
  assumes "gauges_ok N m" "N + 1 < gauge_limit" "0 < N" and "gval m1 = bump (gval m) opened (r, t) 1"
  shows "gval (add r t (-1) m1) = gval m"
  using add_close [OF gauges_ok_bump [OF assms(1,4) _ assms(3)] assms(2)] gauges_ok_nonneg [OF assms(1)]
  by (simp add: assms(4) bump_inverse)

lemma never_opened:
  assumes "gauges_ok N m" "N < gauge_limit" and "\<not> tracked m (r, t)" and "gval m1 = gval m"
  shows "gval (add r t (-1) m1) = gval m"
proof -
  have "gauges_ok N m1" using assms(1) gauges_ok_cong [OF assms(4)] by blast
  then have "gval (add r t (-1) m1) = bump (gval m) opened (r, t) (-1)"
    using add_close [OF _ assms(2)] assms(4) by metis
  also have "\<dots> = gval m"
    by (intro ext) (simp add: bump_apply gval_absent [OF gval_untracked [OF assms(3)]])
  finally show ?thesis .
qed

end

interpretation tcp: slots TcpOpen TcpDialing addTargetTCPConnection releaseTargetTCPDial promoteTargetTCPDial
  by unfold_locales (simp, (erule (1) tcp_open tcp_close tcp_release tcp_promote)+)

interpretation udp: slots UdpOpen UdpReserved addTargetUDPSession releaseTargetUDPSessionReservation
    promoteTargetUDPSessionReservation
  by unfold_locales (simp, (erule (1) udp_open udp_close udp_release udp_promote)+)

end
