(* ===== verification/Target_Selection.thy ===== *)
theory Target_Selection
  imports Forward_Metrics
begin

text \<open>
  \<open>pkg/core/forward/target_selection.go\<close>: the choice of an upstream endpoint for a connection or a
  UDP session. Of the supervisor only its metrics counter is used; the methods that reserve a slot
  return it updated.
\<close>

definition selectLeastLoadTargetGroupEndpoint ::
    "RuleConfig \<Rightarrow> metricsCounter \<Rightarrow> TargetEndpoint \<times> bool" where
  "selectLeastLoadTargetGroupEndpoint rule m =
     (let candidates = enabledLeastLoadTargetGroupCandidates rule in
      if candidates = [] then (zero_endpoint, False)
      else
        (let counts = openConnectionsForTargets (rc_ID rule) candidates m;
             load = (\<lambda>t. case counts (te_ID t) of None \<Rightarrow> 0 | Some n \<Rightarrow> n)
         in (leastLoadLoop load (hd candidates) (load (hd candidates)) (tl candidates), True)))"

definition selectTargetGroupEndpoint ::
    "RuleConfig \<Rightarrow> string option \<Rightarrow> metricsCounter \<Rightarrow> TargetEndpoint \<times> bool" where
  "selectTargetGroupEndpoint rule source m =
     (if isLeastLoad rule then selectLeastLoadTargetGroupEndpoint rule m
      else
        (let candidates = enabledTargetGroupCandidates rule in
         if candidates = [] then (zero_endpoint, False)
         else
           (let index = unat (stableTargetHash [sourceIPKey source, rc_ID rule, rc_Protocol rule]
                              mod word_of_nat (length candidates))
            in (candidates ! index, True))))"

definition selectTarget :: "RuleConfig \<Rightarrow> string option \<Rightarrow> metricsCounter \<Rightarrow> TargetEndpoint \<times> bool" where
  "selectTarget rule source m =
     (case (up_Type (rc_Upstream rule) = ''TARGET'', up_Target (rc_Upstream rule)) of
        (True, Some t) \<Rightarrow>
          if te_Enabled t then (t, True)
          else if up_Type (rc_Upstream rule) = ''TARGET_GROUP'' then selectTargetGroupEndpoint rule source m
          else (zero_endpoint, False)
      | _ \<Rightarrow>
          if up_Type (rc_Upstream rule) = ''TARGET_GROUP'' then selectTargetGroupEndpoint rule source m
          else (zero_endpoint, False))"

definition selectTCPTarget ::
    "RuleConfig \<Rightarrow> string option \<Rightarrow> metricsCounter \<Rightarrow> (TargetEndpoint \<times> bool \<times> bool) \<times> metricsCounter" where
  "selectTCPTarget rule source m =
     (if up_Type (rc_Upstream rule) = ''TARGET_GROUP'' \<and> isLeastLoad rule
      then reserveLeastLoadTargetTCPDial (rc_ID rule) (enabledLeastLoadTargetGroupCandidates rule) m
      else
        (let (target, ok) = selectTarget rule source m in
         if \<not> ok then ((zero_endpoint, False, False), m)
         else (let (reserved, m') = reserveTargetTCPDial (rc_ID rule) (te_ID target) m
               in ((target, reserved, True), m'))))"

definition selectUDPTarget ::
    "RuleConfig \<Rightarrow> string option \<Rightarrow> metricsCounter \<Rightarrow> (TargetEndpoint \<times> bool \<times> bool) \<times> metricsCounter" where
  "selectUDPTarget rule source m =
     (if up_Type (rc_Upstream rule) = ''TARGET_GROUP'' \<and> isLeastLoad rule
      then reserveLeastLoadTargetUDPSession (rc_ID rule) (enabledLeastLoadTargetGroupCandidates rule) m
      else
        (let (target, ok) = selectTarget rule source m in
         if \<not> ok then ((zero_endpoint, False, False), m)
         else ((target, False, True), m)))"

subsection \<open>What is selected\<close>

text \<open>The endpoints a rule may use at all, with their priorities (0 for a single target).\<close>

definition usable_endpoint :: "RuleConfig \<Rightarrow> TargetEndpoint \<Rightarrow> bool" where
  "usable_endpoint rule t \<longleftrightarrow>
     te_Enabled t \<and>
     (up_Type (rc_Upstream rule) = ''TARGET_GROUP'' \<and> isLeastLoad rule \<longrightarrow> 0 < te_Weight t)"

definition offers :: "RuleConfig \<Rightarrow> (int \<times> TargetEndpoint) set" where
  "offers rule =
     (if up_Type (rc_Upstream rule) = ''TARGET'' then {(0, t) |t. up_Target (rc_Upstream rule) = Some t}
      else if up_Type (rc_Upstream rule) = ''TARGET_GROUP'' then
        {(pb_Priority b, t) |b t. b \<in> set (up_TargetGroup (rc_Upstream rule)) \<and> t \<in> set (pb_Targets b)}
      else {})"

definition best_offer :: "RuleConfig \<Rightarrow> TargetEndpoint \<Rightarrow> bool" where
  "best_offer rule t \<longleftrightarrow>
     (\<exists>p. (p, t) \<in> offers rule \<and> usable_endpoint rule t \<and>
       (\<forall>q u. (q, u) \<in> offers rule \<and> usable_endpoint rule u \<longrightarrow> p \<le> q))"

definition rule_load :: "RuleConfig \<Rightarrow> metricsCounter \<Rightarrow> TargetEndpoint \<Rightarrow> int" where
  "rule_load rule m t = targetOpenConnectionsLocked (rc_ID rule) (te_ID t) m"

definition group_size :: "RuleConfig \<Rightarrow> nat" where
  "group_size rule = sum_list (map (\<lambda>b. length (pb_Targets b)) (up_TargetGroup (rc_Upstream rule)))"

lemma candidates_best:
  assumes "up_Type (rc_Upstream rule) = ''TARGET_GROUP''"
  shows "t \<in> set (activeTargetGroupCandidates rule) \<Longrightarrow> best_offer rule t"
    and "activeTargetGroupCandidates rule = [] \<longleftrightarrow> \<not> (\<exists>p t. (p, t) \<in> offers rule \<and> usable_endpoint rule t)"
proof -
  have eq: "activeTargetGroupCandidates rule = bestBucketLoop (usable_endpoint rule) None (up_TargetGroup (rc_Upstream rule))"
    using assms by (simp add: activeTargetGroupCandidates_def enabledLeastLoadTargetGroupCandidates_def
        enabledTargetGroupCandidates_def usable_endpoint_def [abs_def])
  have offers: "(p, u) \<in> offers rule \<longleftrightarrow>
      (\<exists>b \<in> set (up_TargetGroup (rc_Upstream rule)). p = pb_Priority b \<and> u \<in> set (pb_Targets b))" for p u
    using assms by (auto simp: offers_def)
  show "best_offer rule t" if "t \<in> set (activeTargetGroupCandidates rule)"
    using candidates_spec [OF that [unfolded eq]] unfolding best_offer_def offers by blast
  show "activeTargetGroupCandidates rule = [] \<longleftrightarrow> \<not> (\<exists>p t. (p, t) \<in> offers rule \<and> usable_endpoint rule t)"
    unfolding eq candidates_Nil offers by blast
qed

lemma hash_index_less:
  "xs \<noteq> [] \<Longrightarrow> length xs < 2 ^ 32 \<Longrightarrow> xs ! unat (h mod word_of_nat (length xs) :: uint32) \<in> set xs"
  by (intro nth_mem word_mod_less) simp_all

lemma bestBucketLoop_length:
  "length (bestBucketLoop u best bs) \<le>
     (case best of None \<Rightarrow> 0 | Some (_, cs) \<Rightarrow> length cs) + sum_list (map (\<lambda>b. length (pb_Targets b)) bs)"
proof (induction bs arbitrary: best)
  case (Cons b bs)
  have "length (bestBucketLoop u (Some (pb_Priority b, filter u (pb_Targets b))) bs) \<le>
      length (pb_Targets b) + sum_list (map (\<lambda>b. length (pb_Targets b)) bs)"
    using Cons.IH [of "Some (pb_Priority b, filter u (pb_Targets b))"] length_filter_le [of u "pb_Targets b"]
    by (simp del: length_filter_le)
  then show ?case using Cons.IH [of best] by (cases best) (auto simp: Let_def)
qed (auto split: option.splits)

lemma candidates_length: "length (activeTargetGroupCandidates rule) \<le> group_size rule"
  using bestBucketLoop_length [of _ None "up_TargetGroup (rc_Upstream rule)"]
  by (simp add: activeTargetGroupCandidates_def enabledLeastLoadTargetGroupCandidates_def
      enabledTargetGroupCandidates_def group_size_def)

lemma leastLoadLoop_mem: "leastLoadLoop load b n ts \<in> set (b # ts)"
  by (induction ts arbitrary: b n) (auto simp: Let_def)

lemma leastLoaded_mem: "ts \<noteq> [] \<Longrightarrow> leastLoaded r ts m \<in> set ts"
  using leastLoadLoop_mem by (cases ts) (auto simp: leastLoaded_def Let_def)

lemma leastLoaded_least:
  assumes "ts \<noteq> []" "loads_small (\<lambda>t. targetOpenConnectionsLocked r (te_ID t) m) ts"
  shows "\<forall>t \<in> set ts. lighter (\<lambda>t. targetOpenConnectionsLocked r (te_ID t) m) (leastLoaded r ts m) t"
  using assms leastLoadLoop_least [of _ "hd ts" "[]" "tl ts"] by (cases ts) (auto simp: leastLoaded_def)

lemma reserve_load:
  "targetOpenConnectionsLocked r i (putTarget (r, i)
     (found_or_new (r, i) m\<lparr>tc_tcpDialReservations := i64 (tc_tcpDialReservations (found_or_new (r, i) m) + 1)\<rparr>) m) =
   i64 (targetOpenConnectionsLocked r i m + 1)"
  "j \<noteq> i \<Longrightarrow> targetOpenConnectionsLocked r j (putTarget (r, i) t m) = targetOpenConnectionsLocked r j m"
proof -
  show "targetOpenConnectionsLocked r i (putTarget (r, i)
     (found_or_new (r, i) m\<lparr>tc_tcpDialReservations := i64 (tc_tcpDialReservations (found_or_new (r, i) m) + 1)\<rparr>) m) =
   i64 (targetOpenConnectionsLocked r i m + 1)"
  proof -
    have "i64 (a + i64 (b + 1) + c + d) = i64 (i64 (a + b + c + d) + 1)" for a b c d
      using i64_wrap(1) [of "a + b + c + d" 1] i64_wrap(2) [of "a + c + d" "b + 1"] by (simp add: ac_simps)
    then show ?thesis
      by (cases "mc_targets m (r, i)")
        (simp_all add: targetOpenConnectionsLocked_def openConnections_def putTarget_def found_or_new_def
          zero_counter_def)
  qed
qed (simp add: targetOpenConnectionsLocked_def putTarget_def)

lemma targetLocked_found': "targetLocked k m = Some t \<Longrightarrow> t = found_or_new k m"
  by (auto simp: targetLocked_def found_or_new_def split: option.splits if_splits)

lemma selectTarget_best:
  assumes "group_size rule < 2 ^ 32" "\<not> (up_Type (rc_Upstream rule) = ''TARGET_GROUP'' \<and> isLeastLoad rule)"
    and "selectTarget rule source m = (t, ok)"
  shows "(ok \<longleftrightarrow> (\<exists>p t. (p, t) \<in> offers rule \<and> usable_endpoint rule t)) \<and> (ok \<longrightarrow> best_offer rule t)"
proof (cases "up_Type (rc_Upstream rule) = ''TARGET_GROUP''")
  case True
  let ?cs = "activeTargetGroupCandidates rule"
  have cs: "enabledTargetGroupCandidates rule = ?cs"
    using assms(2) True by (simp add: activeTargetGroupCandidates_def)
  have "?cs \<noteq> [] \<Longrightarrow> ?cs ! unat (stableTargetHash [sourceIPKey source, rc_ID rule, rc_Protocol rule]
      mod word_of_nat (length ?cs)) \<in> set ?cs"
    using assms(1) candidates_length [of rule] by (intro hash_index_less) simp_all
  then show ?thesis
    using assms(2,3) True candidates_best [OF True] cs
    by (auto simp: selectTarget_def selectTargetGroupEndpoint_def Let_def split: if_splits)
next
  case False
  then show ?thesis
    using assms(3) by (auto simp: selectTarget_def best_offer_def offers_def usable_endpoint_def
        split: option.splits if_splits bool.splits)
qed


definition example_endpoint :: "string \<Rightarrow> int \<Rightarrow> TargetEndpoint" where
  "example_endpoint i w = \<lparr>te_ID = i, te_Host = ''10.0.0.1'', te_Port = 80, te_Weight = w, te_Enabled = True\<rparr>"

definition example_group_rule :: RuleConfig where
  "example_group_rule = zero_rule\<lparr>rc_ID := ''r1'', rc_Upstream := \<lparr>up_Type = ''TARGET_GROUP'', up_Target = None,
     up_Scheduler = ''least_load'',
     up_TargetGroup = [\<lparr>pb_Priority = 10, pb_Targets = [example_endpoint ''c'' 5]\<rparr>,
       \<lparr>pb_Priority = 1, pb_Targets = [example_endpoint ''a'' 1, example_endpoint ''b'' 0]\<rparr>]\<rparr>\<rparr>"


end
