(* ===== verification/Proxy_Protocol.thy ===== *)
theory Proxy_Protocol
  imports Go_Net
begin

text \<open>
  \<open>pkg/core/forward/proxy_protocol.go\<close>: reading and writing the PROXY protocol header, versions 1
  (text) and 2 (binary). Byte slices are lists; every slice expression of the code is guarded by a
  length check, so \<open>take\<close> and \<open>drop\<close> stay in range. Errors are constructors, one per message.
\<close>

datatype proxy_error = V1MissingTerminator | V1Unsupported | V1ParsePort string | V1PortRange string
  | V1Address string string | V2TooShort | V2Unsupported | V2Truncated | V2TCP4Truncated
  | V2TCP6Truncated | V1OnlyTCP4 | V2OnlyTCP4 | UnsupportedVersion

datatype ProxyProtocolVersion = ProxyProtocolNone | ProxyProtocolV1 | ProxyProtocolV2

definition proxyV2Signature :: "byte list" where
  "proxyV2Signature = [0x0d, 0x0a, 0x0d, 0x0a, 0x00, 0x0d, 0x0a, 0x51, 0x55, 0x49, 0x54, 0x0a]"

record ProxyInfo =
  pi_Version :: ProxyProtocolVersion
  pi_SourceIP :: ip
  pi_DestinationIP :: ip
  pi_SourcePort :: int
  pi_DestinationPort :: int

subsection \<open>Version 1\<close>

text \<open>\<open>bytes.Index(data, []byte("\r\n"))\<close>.\<close>

fun index_crlf :: "byte list \<Rightarrow> nat option" where
  "index_crlf (a # b # r) = (if a = 13 \<and> b = 10 then Some 0 else map_option Suc (index_crlf (b # r)))"
| "index_crlf r = None"

definition parseProxyV1Address :: "string \<Rightarrow> string \<Rightarrow> string \<Rightarrow> proxy_error + ip" where
  "parseProxyV1Address protocol value label =
     (let p = ParseIP value in
      if p = [] then Inl (V1Address label protocol)
      else if protocol = ''TCP4'' then
        (let q = To4 p in if q = [] then Inl (V1Address label ''TCP4'') else Inr q)
      else if To4 p \<noteq> [] \<or> To16 p = [] then Inl (V1Address label ''TCP6'')
      else Inr p)"

definition parseProxyV1Port :: "string \<Rightarrow> string \<Rightarrow> proxy_error + int" where
  "parseProxyV1Port value label =
     (case Atoi value of
        None \<Rightarrow> Inl (V1ParsePort label)
      | Some port \<Rightarrow> if port < 0 \<or> port > 65535 then Inl (V1PortRange label) else Inr port)"

definition parseProxyV1 :: "byte list \<Rightarrow> proxy_error + (ProxyInfo \<times> byte list)" where
  "parseProxyV1 data =
     (case index_crlf data of
        None \<Rightarrow> Inl V1MissingTerminator
      | Some index \<Rightarrow>
          (let words = Fields (string_of (take index data)) in
           if length words \<noteq> 6 \<or> words ! 0 \<noteq> ''PROXY'' \<or> (words ! 1 \<noteq> ''TCP4'' \<and> words ! 1 \<noteq> ''TCP6'')
           then Inl V1Unsupported
           else case parseProxyV1Port (words ! 4) ''source'' of
             Inl e \<Rightarrow> Inl e
           | Inr sourcePort \<Rightarrow>
          (case parseProxyV1Port (words ! 5) ''destination'' of
             Inl e \<Rightarrow> Inl e
           | Inr destinationPort \<Rightarrow>
          (case parseProxyV1Address (words ! 1) (words ! 2) ''source'' of
             Inl e \<Rightarrow> Inl e
           | Inr sourceIP \<Rightarrow>
          (case parseProxyV1Address (words ! 1) (words ! 3) ''destination'' of
             Inl e \<Rightarrow> Inl e
           | Inr destinationIP \<Rightarrow>
               Inr (\<lparr>pi_Version = ProxyProtocolV1, pi_SourceIP = sourceIP, pi_DestinationIP = destinationIP,
                     pi_SourcePort = sourcePort, pi_DestinationPort = destinationPort\<rparr>,
                    drop (index + 2) data))))))"

definition buildProxyV1 :: "ProxyInfo \<Rightarrow> proxy_error + byte list" where
  "buildProxyV1 info =
     (let sourceIP = To4 (pi_SourceIP info); destinationIP = To4 (pi_DestinationIP info) in
      if sourceIP = [] \<or> destinationIP = [] then Inl V1OnlyTCP4
      else Inr (bytes_of (''PROXY TCP4 '' @ ip4_string sourceIP @ '' '' @ ip4_string destinationIP @ '' '' @
             Itoa (pi_SourcePort info) @ '' '' @ Itoa (pi_DestinationPort info) @
             [CHR 0x0D, CHR 0x0A])))"

subsection \<open>Version 2\<close>

text \<open>\<open>binary.BigEndian.Uint16\<close> and \<open>PutUint16\<close> of a value converted to \<open>uint16\<close>.\<close>

definition Uint16 :: "byte list \<Rightarrow> nat" where
  "Uint16 b = 256 * unat (b ! 0) + unat (b ! 1)"

definition PutUint16 :: "int \<Rightarrow> byte list" where
  "PutUint16 v = [word_of_int (v div 256), word_of_int v]"

definition slice :: "nat \<Rightarrow> nat \<Rightarrow> 'a list \<Rightarrow> 'a list" where
  "slice from till xs = drop from (take till xs)"

definition parseProxyV2 :: "byte list \<Rightarrow> proxy_error + (ProxyInfo \<times> byte list)" where
  "parseProxyV2 data =
     (if length data < 16 then Inl V2TooShort
      else
        (let versionCommand = data ! 12; familyProtocol = data ! 13; len = Uint16 (slice 14 16 data) in
         if versionCommand \<noteq> 0x21 then Inl V2Unsupported
         else if length data < 16 + len then Inl V2Truncated
         else if familyProtocol = 0x11 then
           if len < 12 then Inl V2TCP4Truncated
           else (let addresses = slice 16 (16 + 12) data in
             Inr (\<lparr>pi_Version = ProxyProtocolV2,
                   pi_SourceIP = IPv4 (addresses ! 0) (addresses ! 1) (addresses ! 2) (addresses ! 3),
                   pi_DestinationIP = IPv4 (addresses ! 4) (addresses ! 5) (addresses ! 6) (addresses ! 7),
                   pi_SourcePort = int (Uint16 (slice 8 10 addresses)),
                   pi_DestinationPort = int (Uint16 (slice 10 12 addresses))\<rparr>,
                  drop (16 + len) data))
         else if familyProtocol = 0x21 then
           if len < 36 then Inl V2TCP6Truncated
           else (let addresses = slice 16 (16 + 36) data in
             Inr (\<lparr>pi_Version = ProxyProtocolV2,
                   pi_SourceIP = slice 0 16 addresses,
                   pi_DestinationIP = slice 16 32 addresses,
                   pi_SourcePort = int (Uint16 (slice 32 34 addresses)),
                   pi_DestinationPort = int (Uint16 (slice 34 36 addresses))\<rparr>,
                  drop (16 + len) data))
         else Inl V2Unsupported))"

definition buildProxyV2 :: "ProxyInfo \<Rightarrow> proxy_error + byte list" where
  "buildProxyV2 info =
     (let sourceIP = To4 (pi_SourceIP info); destinationIP = To4 (pi_DestinationIP info) in
      if sourceIP = [] \<or> destinationIP = [] then Inl V2OnlyTCP4
      else Inr (proxyV2Signature @ [0x21, 0x11] @ PutUint16 12 @ sourceIP @ destinationIP @
                PutUint16 (pi_SourcePort info) @ PutUint16 (pi_DestinationPort info)))"

subsection \<open>Both versions\<close>

definition starts_with :: "byte list \<Rightarrow> byte list \<Rightarrow> bool" where
  "starts_with data p \<longleftrightarrow> take (length p) data = p"

definition zero_proxy_info :: ProxyInfo where
  "zero_proxy_info = \<lparr>pi_Version = ProxyProtocolNone, pi_SourceIP = [], pi_DestinationIP = [],
     pi_SourcePort = 0, pi_DestinationPort = 0\<rparr>"

definition ParseProxyHeader :: "byte list \<Rightarrow> proxy_error + (ProxyInfo \<times> byte list)" where
  "ParseProxyHeader data =
     (if starts_with data (bytes_of ''PROXY '') then parseProxyV1 data
      else if starts_with data proxyV2Signature then parseProxyV2 data
      else Inr (zero_proxy_info, data))"

definition BuildProxyHeader :: "ProxyInfo \<Rightarrow> proxy_error + byte list" where
  "BuildProxyHeader info =
     (case pi_Version info of
        ProxyProtocolV1 \<Rightarrow> buildProxyV1 info
      | ProxyProtocolV2 \<Rightarrow> buildProxyV2 info
      | ProxyProtocolNone \<Rightarrow> Inl UnsupportedVersion)"

subsection \<open>Framing\<close>

text \<open>
  A header is sent in front of a stream. The contract of a builder and a parser: on the values the
  protocol can carry the builder succeeds, and the parser finds the same value in front of any
  stream and leaves the stream untouched. Two streams with headers are then the same only when the
  headers say the same and the streams agree.
\<close>

locale stream_header =
  fixes build :: "'i \<Rightarrow> 'e + byte list" and parse :: "byte list \<Rightarrow> 'e + ('i \<times> byte list)"
    and carries :: "'i \<Rightarrow> bool" and canon :: "'i \<Rightarrow> 'i"
  assumes built: "carries i \<Longrightarrow> \<exists>h. build i = Inr h"
    and parsed: "carries i \<Longrightarrow> build i = Inr h \<Longrightarrow> parse (h @ rest) = Inr (canon i, rest)"
begin

lemma roundtrip: "carries i \<Longrightarrow> \<exists>h. build i = Inr h \<and> (\<forall>rest. parse (h @ rest) = Inr (canon i, rest))"
  using built parsed by blast

lemma unambiguous:
  assumes "carries i" "carries j" "build i = Inr h" "build j = Inr k" "h @ r = k @ s"
  shows "canon i = canon j \<and> r = s"
  using parsed [OF assms(1,3), of r] parsed [OF assms(2,4), of s] assms(5) by simp

end

definition proxy_carries :: "ProxyInfo \<Rightarrow> bool" where
  "proxy_carries info \<longleftrightarrow>
     (pi_Version info = ProxyProtocolV1 \<or> pi_Version info = ProxyProtocolV2) \<and>
     To4 (pi_SourceIP info) \<noteq> [] \<and> To4 (pi_DestinationIP info) \<noteq> [] \<and>
     0 \<le> pi_SourcePort info \<and> pi_SourcePort info \<le> 65535 \<and>
     0 \<le> pi_DestinationPort info \<and> pi_DestinationPort info \<le> 65535"

text \<open>The parser of version 1 returns 4-byte addresses, that of version 2 the 16-byte form.\<close>

definition proxy_canon :: "ProxyInfo \<Rightarrow> ProxyInfo" where
  "proxy_canon info =
     (let f = (\<lambda>p. if pi_Version info = ProxyProtocolV1 then To4 p else v4_prefix @ To4 p) in
      info\<lparr>pi_SourceIP := f (pi_SourceIP info), pi_DestinationIP := f (pi_DestinationIP info)\<rparr>)"

lemma index_crlf_append:
  "list_all (\<lambda>b. b \<noteq> 13) xs \<Longrightarrow> index_crlf (xs @ 13 # 10 # r) = Some (length xs)"
  by (induction xs rule: index_crlf.induct) (auto simp: neq_Nil_conv)

lemma bytes_no_cr: "list_all (\<lambda>c. graphic c \<or> c = CHR '' '') s \<Longrightarrow> list_all (\<lambda>b. b \<noteq> 13) (bytes_of s)"
proof -
  have "(word_of_nat (code c) :: byte) \<noteq> 13" if "graphic c \<or> c = CHR '' ''" for c
  proof
    assume "(word_of_nat (code c) :: byte) = 13"
    moreover have "unat (word_of_nat (code c) :: byte) = code c" by (simp add: unat_of_nat)
    ultimately have "code c = 13" by simp
    with that show False by (auto simp: graphic_def)
  qed
  then show "list_all (\<lambda>c. graphic c \<or> c = CHR '' '') s \<Longrightarrow> list_all (\<lambda>b. b \<noteq> 13) (bytes_of s)"
    by (induction s) (simp_all add: bytes_of_def)
qed

lemma ip4_string_graphic: "list_all graphic (ip4_string p)"
  by (simp add: ip4_string_def graphic_digits) (simp add: graphic_def)

lemma ip4_string_not_Nil [simp]: "ip4_string p \<noteq> []"
  by (simp add: ip4_string_def)

lemma Itoa_not_Nil [simp]: "Itoa i \<noteq> []"
  by (simp add: Itoa_def)

lemma Fields_words:
  assumes "list_all graphic w" "w \<noteq> []"
  shows "Fields (w @ CHR '' '' # s) = w # Fields s" and "Fields w = [w]"
  using assms fields_from_graphic [of w "[]" "[]"]
  by (simp_all add: Fields_def fields_from_graphic fields_from_space fields_from_end)

lemmas v1_words = Fields_words [OF ip4_string_graphic ip4_string_not_Nil]
  Fields_words [OF Itoa_graphic Itoa_not_Nil]

lemma parseProxyV1Port_Itoa: "0 \<le> p \<Longrightarrow> p \<le> 65535 \<Longrightarrow> parseProxyV1Port (Itoa p) l = Inr p"
  by (simp add: parseProxyV1Port_def Atoi_Itoa i64_ok_def)

lemma parseProxyV1Address_string:
  "length p = 4 \<Longrightarrow> parseProxyV1Address ''TCP4'' (ip4_string p) l = Inr p"
  by (auto simp: parseProxyV1Address_def ParseIP_ip4_string Let_def)

lemma To4_length4: "To4 p \<noteq> [] \<Longrightarrow> length (To4 p) = 4"
  using To4_length by blast

lemma v1_line_fields:
  "Fields (''PROXY TCP4 '' @ ip4_string a @ '' '' @ ip4_string b @ '' '' @ Itoa p @ '' '' @ Itoa q) =
     [''PROXY'', ''TCP4'', ip4_string a, ip4_string b, Itoa p, Itoa q]"
proof -
  have "Fields (''PROXY'' @ CHR '' '' # (''TCP4'' @ CHR '' '' # s)) = ''PROXY'' # ''TCP4'' # Fields s" for s
    by (subst Fields_words, simp add: graphic_def, simp, subst Fields_words, simp_all add: graphic_def)
  from this [of "ip4_string a @ CHR '' '' # ip4_string b @ CHR '' '' # Itoa p @ CHR '' '' # Itoa q"]
  show ?thesis by (simp add: v1_words)
qed

lemma parse_build_V1:
  assumes "proxy_carries i" "pi_Version i = ProxyProtocolV1" "buildProxyV1 i = Inr h"
  shows "ParseProxyHeader (h @ rest) = Inr (proxy_canon i, rest)"
proof -
  let ?a = "To4 (pi_SourceIP i)" and ?b = "To4 (pi_DestinationIP i)"
  let ?line = "''PROXY TCP4 '' @ ip4_string ?a @ '' '' @ ip4_string ?b @ '' '' @
      Itoa (pi_SourcePort i) @ '' '' @ Itoa (pi_DestinationPort i)"
  have h: "h = bytes_of ?line @ [13, 10]"
    using assms by (auto simp: buildProxyV1_def bytes_of_def Let_def split: if_splits)
  have "list_all (\<lambda>c. graphic c \<or> c = CHR '' '') ?line"
    using ip4_string_graphic Itoa_graphic by (auto simp: list_all_iff graphic_def)
  then have idx: "index_crlf (h @ rest) = Some (length ?line)"
    using index_crlf_append [OF bytes_no_cr, of ?line rest] by (simp add: h)
  have starts: "starts_with (h @ rest) (bytes_of ''PROXY '')"
    by (simp add: h starts_with_def bytes_of_def)
  have "take (length ?line) (h @ rest) = bytes_of ?line" "drop (length ?line + 2) (h @ rest) = rest"
    by (simp_all add: h)
  then have "parseProxyV1 (h @ rest) = Inr (proxy_canon i, rest)"
    using assms(1,2) idx v1_line_fields [of ?a ?b "pi_SourcePort i" "pi_DestinationPort i"]
    by (simp add: parseProxyV1_def parseProxyV1Port_Itoa parseProxyV1Address_string To4_length4
        proxy_carries_def proxy_canon_def)
  then show ?thesis using starts by (simp add: ParseProxyHeader_def)
qed

lemma unat_byte_of_int: "0 \<le> v \<Longrightarrow> v < 65536 \<Longrightarrow> Uint16 (PutUint16 v) = nat v"
proof -
  assume v: "0 \<le> v" "v < 65536"
  have "unat (word_of_int (v div 256) :: byte) = nat (v div 256)" "unat (word_of_int v :: byte) = nat (v mod 256)"
    using v by (simp_all add: unat_eq_nat_uint uint_word_of_int nat_mod_distrib)
  then show ?thesis using v by (simp add: Uint16_def PutUint16_def nat_div_distrib nat_mod_distrib)
qed

lemma length_PutUint16 [simp]: "length (PutUint16 v) = 2"
  by (simp add: PutUint16_def)

lemma length4: "length p = 4 \<Longrightarrow> \<exists>a b c d. p = [a, b, c, d]"
  by (auto simp: length_Suc_conv numeral_eq_Suc)

lemma To4_bytes: "To4 p \<noteq> [] \<Longrightarrow> \<exists>a b c d. To4 p = [a, b, c, d]"
  by (rule length4) (rule To4_length4)

lemma parse_build_V2:
  assumes "proxy_carries i" "pi_Version i = ProxyProtocolV2" "buildProxyV2 i = Inr h"
  shows "ParseProxyHeader (h @ rest) = Inr (proxy_canon i, rest)"
proof -
  obtain a b c d where A: "To4 (pi_SourceIP i) = [a, b, c, d]"
    using assms(1) To4_bytes [of "pi_SourceIP i"] by (auto simp: proxy_carries_def)
  obtain e f g k where B: "To4 (pi_DestinationIP i) = [e, f, g, k]"
    using assms(1) To4_bytes [of "pi_DestinationIP i"] by (auto simp: proxy_carries_def)
  let ?s = "PutUint16 (pi_SourcePort i)" and ?d = "PutUint16 (pi_DestinationPort i)"
  have ports: "Uint16 ?s = nat (pi_SourcePort i)" "Uint16 ?d = nat (pi_DestinationPort i)"
    "Uint16 (PutUint16 12) = 12"
    using assms(1) by (simp_all add: unat_byte_of_int proxy_carries_def)
  obtain s1 s2 d1 d2 where sd: "?s = [s1, s2]" "?d = [d1, d2]" by (simp add: PutUint16_def)
  have twelve: "PutUint16 12 = [0, 12]" by (simp add: PutUint16_def)
  have h: "h = proxyV2Signature @ [0x21, 0x11, 0, 12, a, b, c, d, e, f, g, k, s1, s2, d1, d2]"
    using assms(3) A B sd twelve by (simp add: buildProxyV2_def)
  have "parseProxyV2 (h @ rest) = Inr (proxy_canon i, rest)"
    using A B ports assms(1,2) unfolding sd twelve
    by (simp add: h parseProxyV2_def proxyV2Signature_def slice_def Let_def IPv4_def proxy_canon_def
        proxy_carries_def)
  moreover have "\<not> starts_with (h @ rest) (bytes_of ''PROXY '')" "starts_with (h @ rest) proxyV2Signature"
    by (simp_all add: h starts_with_def proxyV2Signature_def bytes_of_def)
  ultimately show ?thesis by (simp add: ParseProxyHeader_def)
qed

interpretation proxy: stream_header BuildProxyHeader ParseProxyHeader proxy_carries proxy_canon
proof
  fix i h rest
  assume i: "proxy_carries i"
  then show "\<exists>h. BuildProxyHeader i = Inr h"
    by (auto simp: proxy_carries_def BuildProxyHeader_def buildProxyV1_def buildProxyV2_def Let_def)
  assume "BuildProxyHeader i = Inr h"
  then show "ParseProxyHeader (h @ rest) = Inr (proxy_canon i, rest)"
    using i parse_build_V1 parse_build_V2 by (auto simp: BuildProxyHeader_def proxy_carries_def)
qed

text \<open>
  C32: a PROXY header written in front of a stream is read back: for both versions, IPv4 addresses in
  either representation and ports of the legal range, \<open>BuildProxyHeader\<close> succeeds,
  \<open>ParseProxyHeader\<close> returns the same version, the same addresses (as 4 bytes in version 1, in
  16-byte form in version 2) and the same ports, and hands on exactly the bytes after the header.
\<close>

theorem proxy_header_roundtrip:
  assumes "pi_Version i = ProxyProtocolV1 \<or> pi_Version i = ProxyProtocolV2"
    and "To4 (pi_SourceIP i) \<noteq> []" "To4 (pi_DestinationIP i) \<noteq> []"
    and "0 \<le> pi_SourcePort i" "pi_SourcePort i \<le> 65535"
    and "0 \<le> pi_DestinationPort i" "pi_DestinationPort i \<le> 65535"
  shows "\<exists>h j. BuildProxyHeader i = Inr h \<and> (\<forall>rest. ParseProxyHeader (h @ rest) = Inr (j, rest)) \<and>
    pi_Version j = pi_Version i \<and>
    To4 (pi_SourceIP j) = To4 (pi_SourceIP i) \<and> To4 (pi_DestinationIP j) = To4 (pi_DestinationIP i) \<and>
    pi_SourcePort j = pi_SourcePort i \<and> pi_DestinationPort j = pi_DestinationPort i"
proof -
  have i: "proxy_carries i" using assms by (simp add: proxy_carries_def)
  obtain h where "BuildProxyHeader i = Inr h" "\<forall>rest. ParseProxyHeader (h @ rest) = Inr (proxy_canon i, rest)"
    using proxy.roundtrip [OF i] by blast
  then show ?thesis using assms
    by (intro exI [of _ h] exI [of _ "proxy_canon i"]) (simp add: proxy_canon_def To4_length4)
qed

definition example_proxy_info :: "ProxyProtocolVersion \<Rightarrow> ProxyInfo" where
  "example_proxy_info v = \<lparr>pi_Version = v, pi_SourceIP = [192, 0, 2, 1],
     pi_DestinationIP = v4_prefix @ [198, 51, 100, 7], pi_SourcePort = 51000, pi_DestinationPort = 443\<rparr>"

theorem proxy_header_roundtrip_witness:
  "\<exists>h j. BuildProxyHeader (example_proxy_info ProxyProtocolV2) = Inr h \<and>
     ParseProxyHeader (h @ bytes_of ''GET /'') = Inr (j, bytes_of ''GET /'') \<and>
     pi_SourcePort j = 51000 \<and> To4 (pi_DestinationIP j) = [198, 51, 100, 7]"
proof -
  let ?i = "example_proxy_info ProxyProtocolV2"
  have v: "pi_Version ?i = ProxyProtocolV1 \<or> pi_Version ?i = ProxyProtocolV2" by code_simp
  have a: "To4 (pi_SourceIP ?i) \<noteq> []" "To4 (pi_DestinationIP ?i) \<noteq> []" by code_simp+
  have p: "0 \<le> pi_SourcePort ?i" "pi_SourcePort ?i \<le> 65535" "0 \<le> pi_DestinationPort ?i"
    "pi_DestinationPort ?i \<le> 65535" by code_simp+
  have e: "pi_SourcePort ?i = 51000" "To4 (pi_DestinationIP ?i) = [198, 51, 100, 7]" by code_simp+
  show ?thesis using proxy_header_roundtrip [OF v a p] unfolding e by blast
qed

end
