(* ===== verification/Tls_Hello.thy ===== *)
theory Tls_Hello
  imports Proxy_Protocol Agent_Config
begin

text \<open>
  The part of \<open>pkg/core/forward/supervisor.go\<close> that looks into a new TCP connection: it skips a PROXY
  header, reads the TLS ClientHello and finds the rule for its server name. A reader is the list of
  bytes the connection delivers before it ends or its deadline passes. Index and slice expressions
  of the code panic when they are out of range: here they yield the error \<open>Panic\<close>, and a theorem
  shows that this never happens. Arithmetic on cursors stays below \<open>2 ^ 32\<close> and is done on \<open>nat\<close>.
\<close>

datatype hello_error = Panic | EOF | NotHandshakeRecord | HelloTooLarge | NotClientHello
  | HelloTruncated | MissingRandom | MissingSessionID | SessionIDTruncated | CipherSuitesTruncated
  | CompressionTruncated | ExtensionsTruncated | ExtensionTruncated | MissingSNI
  | SNIMissingListLength | SNIListTruncated | SNINameTruncated | SNIMissingDNSName

abbreviation maxTLSClientHelloBytes :: nat where "maxTLSClientHelloBytes \<equiv> 8192"
abbreviation maxProxyProtocolV1LineLen :: nat where "maxProxyProtocolV1LineLen \<equiv> 107"

text \<open>Index, big-endian 16-bit read, and slice, with the bounds checks of the language.\<close>

definition rd8 :: "byte list \<Rightarrow> nat \<Rightarrow> (nat \<Rightarrow> hello_error + 'a) \<Rightarrow> hello_error + 'a" where
  "rd8 bs i k = (if i < length bs then k (unat (bs ! i)) else Inl Panic)"

definition rd16 :: "byte list \<Rightarrow> nat \<Rightarrow> (nat \<Rightarrow> hello_error + 'a) \<Rightarrow> hello_error + 'a" where
  "rd16 bs i k = (if i + 2 \<le> length bs then k (Uint16 (slice i (i + 2) bs)) else Inl Panic)"

definition sub_slice :: "byte list \<Rightarrow> nat \<Rightarrow> nat \<Rightarrow> (byte list \<Rightarrow> hello_error + 'a) \<Rightarrow> hello_error + 'a" where
  "sub_slice bs i j k = (if i \<le> j \<and> j \<le> length bs then k (slice i j bs) else Inl Panic)"

subsection \<open>The server name\<close>

function sniNamesLoop :: "byte list \<Rightarrow> nat \<Rightarrow> nat \<Rightarrow> hello_error + string" where
  "sniNamesLoop data till cursor =
     (if cursor + 3 \<le> till then
        rd8 data cursor (\<lambda>nameType.
        rd16 data (cursor + 1) (\<lambda>nameLength.
          let cursor = cursor + 3 in
          if cursor + nameLength > till then Inl SNINameTruncated
          else if nameType = 0 then sub_slice data cursor (cursor + nameLength) (\<lambda>name. Inr (string_of name))
          else sniNamesLoop data till (cursor + nameLength)))
      else Inl SNIMissingDNSName)"
  by pat_completeness auto
termination
  by (relation "measure (\<lambda>(data, till, cursor). till - cursor)") auto

definition parseSNIExtension :: "byte list \<Rightarrow> hello_error + string" where
  "parseSNIExtension data =
     (if length data < 2 then Inl SNIMissingListLength
      else rd16 data 0 (\<lambda>listLength.
        if 2 + listLength > length data then Inl SNIListTruncated
        else sniNamesLoop data (2 + listLength) 2))"

function extensionsLoop :: "byte list \<Rightarrow> nat \<Rightarrow> nat \<Rightarrow> hello_error + string" where
  "extensionsLoop handshake extensionsEnd cursor =
     (if cursor + 4 \<le> extensionsEnd then
        rd16 handshake cursor (\<lambda>extensionType.
        rd16 handshake (cursor + 2) (\<lambda>extensionLength.
          let cursor = cursor + 4 in
          if cursor + extensionLength > extensionsEnd then Inl ExtensionTruncated
          else if extensionType = 0 then
            sub_slice handshake cursor (cursor + extensionLength) parseSNIExtension
          else extensionsLoop handshake extensionsEnd (cursor + extensionLength)))
      else Inl MissingSNI)"
  by pat_completeness auto
termination
  by (relation "measure (\<lambda>(handshake, till, cursor). till - cursor)") auto

declare sniNamesLoop.simps [simp del] extensionsLoop.simps [simp del]

definition handshakeLengthOf :: "byte list \<Rightarrow> (nat \<Rightarrow> hello_error + 'a) \<Rightarrow> hello_error + 'a" where
  "handshakeLengthOf handshake k =
     rd8 handshake 1 (\<lambda>a. rd8 handshake 2 (\<lambda>b. rd8 handshake 3 (\<lambda>c. k (65536 * a + 256 * b + c))))"

definition parseClientHelloSNI :: "byte list \<Rightarrow> hello_error + string" where
  "parseClientHelloSNI handshake =
     (let n = length handshake in
      if n < 4 \<or> handshake ! 0 \<noteq> 1 then Inl NotClientHello
      else handshakeLengthOf handshake (\<lambda>handshakeLength.
      if handshakeLength > n - 4 then Inl HelloTruncated
      else if 4 + 2 + 32 > n then Inl MissingRandom
      else if 38 + 1 > n then Inl MissingSessionID
      else rd8 handshake 38 (\<lambda>sessionIDLength.
      let cursor = 39 in
      if cursor + sessionIDLength + 2 > n then Inl SessionIDTruncated
      else let cursor = cursor + sessionIDLength in
      rd16 handshake cursor (\<lambda>cipherSuiteLength.
      let cursor = cursor + 2 in
      if cursor + cipherSuiteLength + 1 > n then Inl CipherSuitesTruncated
      else let cursor = cursor + cipherSuiteLength in
      rd8 handshake cursor (\<lambda>compressionMethodsLength.
      let cursor = cursor + 1 in
      if cursor + compressionMethodsLength + 2 > n then Inl CompressionTruncated
      else let cursor = cursor + compressionMethodsLength in
      rd16 handshake cursor (\<lambda>extensionsLength.
      let cursor = cursor + 2 in
      if cursor + extensionsLength > n then Inl ExtensionsTruncated
      else extensionsLoop handshake (cursor + extensionsLength) cursor))))))"

subsection \<open>Reading the records\<close>

text \<open>
  \<open>readTLSClientHelloSNI\<close>: the bytes read so far (\<open>preface\<close>), the handshake bytes inside them, the
  expected length of the handshake (0 until it is known) and the reader. The result is the preface,
  the name or an error, and the reader.
\<close>

definition expectedHandshakeBytes :: "byte list \<Rightarrow> nat \<Rightarrow> hello_error + nat" where
  "expectedHandshakeBytes handshake expected =
     (if length handshake \<ge> 4 \<and> expected = 0 then
        if handshake ! 0 \<noteq> 1 then Inl NotClientHello
        else handshakeLengthOf handshake (\<lambda>handshakeLength.
          if 4 + handshakeLength > maxTLSClientHelloBytes then Inl HelloTooLarge
          else Inr (4 + handshakeLength))
      else Inr expected)"

function helloLoop ::
    "byte list \<Rightarrow> byte list \<Rightarrow> nat \<Rightarrow> byte list \<Rightarrow> byte list \<times> (hello_error + string) \<times> byte list" where
  "helloLoop preface handshake expected stream =
     (if length preface < maxTLSClientHelloBytes then
        if length stream < 5 then (preface, Inl EOF, [])
        else
          (let header = take 5 stream; stream = drop 5 stream; preface = preface @ header in
           if header ! 0 \<noteq> 0x16 then (preface, Inl NotHandshakeRecord, stream)
           else
             (let recordLength = Uint16 (slice 3 5 header) in
              if recordLength = 0 \<or> length preface + recordLength > maxTLSClientHelloBytes
                then (preface, Inl HelloTooLarge, stream)
              else if length stream < recordLength then (preface, Inl EOF, [])
              else
                (let body = take recordLength stream; stream = drop recordLength stream;
                     preface = preface @ body; handshake = handshake @ body
                 in case expectedHandshakeBytes handshake expected of
                      Inl e \<Rightarrow> (preface, Inl e, stream)
                    | Inr expected \<Rightarrow>
                        if expected > 0 \<and> length handshake \<ge> expected
                        then (preface, parseClientHelloSNI (take expected handshake), stream)
                        else helloLoop preface handshake expected stream)))
      else (preface, Inl HelloTooLarge, stream))"
  by pat_completeness auto
termination
  by (relation "measure (\<lambda>(preface, handshake, expected, stream). length stream)") auto

declare helloLoop.simps [simp del]

definition readTLSClientHelloSNI :: "byte list \<Rightarrow> byte list \<times> (hello_error + string) \<times> byte list" where
  "readTLSClientHelloSNI reader = helloLoop [] [] 0 reader"

subsection \<open>The PROXY header in front\<close>

datatype consume_error = ReaderError | V1LineTooLong | HeaderError proxy_error | MissingHeader | UnsupportedInbound

function v1LineLoop :: "byte list \<Rightarrow> byte list \<Rightarrow> (consume_error + byte list) \<times> byte list" where
  "v1LineLoop line reader =
     (if length line \<ge> maxProxyProtocolV1LineLen then (Inl V1LineTooLong, reader)
      else case reader of
             [] \<Rightarrow> (Inl ReaderError, [])
           | b # reader' \<Rightarrow>
               if b = 10 then (Inr (line @ [b]), reader') else v1LineLoop (line @ [b]) reader')"
  by pat_completeness auto
termination
  by (relation "measure (\<lambda>(line, reader). length reader)") auto

declare v1LineLoop.simps [simp del]

definition readProxyProtocolV1Line :: "byte list \<Rightarrow> (consume_error + byte list) \<times> byte list" where
  "readProxyProtocolV1Line reader = v1LineLoop [] reader"

definition consumeInboundProxyHeader ::
    "byte list \<Rightarrow> string \<Rightarrow> (consume_error + ProxyInfo) \<times> byte list" where
  "consumeInboundProxyHeader reader version =
     (if version = ''V1'' then
        (case readProxyProtocolV1Line reader of
           (Inl e, reader) \<Rightarrow> (Inl e, reader)
         | (Inr line, reader) \<Rightarrow>
             (case ParseProxyHeader line of
                Inl e \<Rightarrow> (Inl (HeaderError e), reader)
              | Inr (info, _) \<Rightarrow>
                  if pi_Version info \<noteq> ProxyProtocolV1 then (Inl MissingHeader, reader) else (Inr info, reader)))
      else if version = ''V2'' then
        if length reader < 16 then (Inl ReaderError, [])
        else
          (let header = take 16 reader; reader = drop 16 reader; len = Uint16 (slice 14 16 header) in
           if length reader < len then (Inl ReaderError, [])
           else
             (let body = take len reader; reader = drop len reader in
              case ParseProxyHeader (header @ body) of
                Inl e \<Rightarrow> (Inl (HeaderError e), reader)
              | Inr (info, _) \<Rightarrow>
                  if pi_Version info \<noteq> ProxyProtocolV2 then (Inl MissingHeader, reader) else (Inr info, reader)))
      else (Inl UnsupportedInbound, reader))"

text \<open>A \<open>net.TCPAddr\<close> is an address and a port.\<close>

definition sourceAddr :: "ProxyInfo \<Rightarrow> ip \<times> int" where
  "sourceAddr info = (pi_SourceIP info, pi_SourcePort info)"

subsection \<open>Selecting the rule\<close>

definition fwd_normalizedProxyProtocol :: "string \<Rightarrow> string" where
  "fwd_normalizedProxyProtocol version = (if version = [] \<or> version = ''NONE'' then [] else version)"

definition hasSNIRules :: "RuleConfig list \<Rightarrow> bool" where
  "hasSNIRules rules \<longleftrightarrow> list_ex (\<lambda>r. rc_MatchType r = MatchTypeTLSSNI) rules"

fun sniVersionLoop :: "string option \<Rightarrow> RuleConfig list \<Rightarrow> string \<times> bool" where
  "sniVersionLoop version [] = (case version of None \<Rightarrow> ([], False) | Some v \<Rightarrow> (v, True))"
| "sniVersionLoop version (rule # rules) =
     (if rc_MatchType rule \<noteq> MatchTypeTLSSNI then sniVersionLoop version rules
      else
        (let ruleVersion = fwd_normalizedProxyProtocol (rc_ProxyProtocolIn rule) in
         case version of
           None \<Rightarrow> sniVersionLoop (Some ruleVersion) rules
         | Some v \<Rightarrow> if ruleVersion \<noteq> v then ([], False) else sniVersionLoop version rules))"

definition sniInboundProxyProtocol :: "RuleConfig list \<Rightarrow> string \<times> bool" where
  "sniInboundProxyProtocol rules = sniVersionLoop None rules"

text \<open>
  \<open>selectSNIRule\<close>; \<open>deadline\<close> says whether the read deadline could be set. \<open>None\<close> stands for the
  result \<open>false\<close>; otherwise the rule, the bytes already taken from the connection that must be sent
  on, the client address of the PROXY header, and the reader.
\<close>

definition selectSNIRule ::
    "bool \<Rightarrow> byte list \<Rightarrow> RuleConfig list \<Rightarrow>
     (RuleConfig \<times> byte list \<times> (ip \<times> int) option \<times> byte list) option" where
  "selectSNIRule deadline conn rules =
     (if \<not> hasSNIRules rules then None
      else
        (let (proxyVersion, ok) = sniInboundProxyProtocol rules in
         if \<not> ok then None
         else if \<not> deadline then None
         else
           (let consumed = (if proxyVersion \<noteq> [] then
                  (case consumeInboundProxyHeader conn proxyVersion of
                     (Inl _, _) \<Rightarrow> None
                   | (Inr info, reader) \<Rightarrow> Some (Some (sourceAddr info), reader))
                else Some (None, conn))
            in case consumed of
                 None \<Rightarrow> None
               | Some (sourceAddress, reader) \<Rightarrow>
                   (case readTLSClientHelloSNI reader of
                      (preface, Inl _, _) \<Rightarrow> None
                    | (preface, Inr hostname, reader) \<Rightarrow>
                        (case find (\<lambda>r. rc_MatchType r = MatchTypeTLSSNI \<and> EqualFold (rc_SNIHostname r) hostname) rules of
                           None \<Rightarrow> None
                         | Some rule \<Rightarrow> Some (rule, preface, sourceAddress, reader))))))"

subsection \<open>Addresses\<close>

text \<open>The number \<open>strconv.Atoi\<close> returns next to its error: 0, or the nearest bound when the text is a
  number out of range.\<close>

definition Atoi_value :: "string \<Rightarrow> int" where
  "Atoi_value s =
     (case Atoi s of
        Some i \<Rightarrow> i
      | None \<Rightarrow>
          (let neg = (s \<noteq> [] \<and> hd s = CHR ''-'');
               ds = (if s \<noteq> [] \<and> (hd s = CHR ''-'' \<or> hd s = CHR ''+'') then tl s else s)
           in if ds \<noteq> [] \<and> list_all is_digit ds then (if neg then - (2 ^ 63) else 2 ^ 63 - 1) else 0))"

definition splitAddr :: "string \<Rightarrow> ip \<times> int" where
  "splitAddr address =
     (case SplitHostPort address of
        None \<Rightarrow> (IPv4 127 0 0 1, 0)
      | Some (host, portText) \<Rightarrow>
          (let p = ParseIP host in ((if p = [] then IPv4 127 0 0 1 else p), Atoi_value portText)))"

definition targetAddress :: "TargetEndpoint \<Rightarrow> string" where
  "targetAddress target = JoinHostPort (te_Host target) (Itoa (te_Port target))"

text \<open>\<open>format\<close> stands for \<open>HeaderProxyFromAddrs(version, source, destination).Format()\<close> of the PROXY
  protocol library.\<close>

definition outboundProxyHeader ::
    "(nat \<Rightarrow> ip \<times> int \<Rightarrow> ip \<times> int \<Rightarrow> string + byte list) \<Rightarrow> string \<Rightarrow> string \<Rightarrow> string \<Rightarrow> string + byte list" where
  "outboundProxyHeader format version source destination =
     (let s = splitAddr source; d = splitAddr destination in
      if version = ''V1'' then format 1 s d
      else if version = ''V2'' then format 2 s d
      else Inl ''unsupported outbound proxy protocol'')"

end
