(* ===== verification/Udp_Sessions.thy ===== *)
theory Udp_Sessions
  imports Gauges Target_Selection Tls_Hello
begin

text \<open>
  The UDP half of \<open>pkg/core/forward/supervisor.go\<close>: a listener keeps a table of sessions, one per
  client address, rule and send address, each with its own upstream socket. Every datagram is handled
  by a goroutine of its own that selects a target, writes through a session (creating it when
  needed) and records the outcome in the metrics; these are three separate critical sections, so the
  steps of different datagrams, the closing of idle sessions and the closing of the listener
  interleave. The network is the parameter \<open>udpNet\<close>; sockets are numbers, times are nanoseconds, and
  the order in which Go visits a map is an argument.
\<close>

record udpSession =
  us_key :: string
  us_ruleID :: string
  us_targetID :: string
  us_targetAddress :: string
  us_clientAddress :: string
  us_upstream :: nat
  us_lastSeen :: int

record udpSessionTable =
  ut_sessions :: "string \<rightharpoonup> udpSession"
  ut_open :: "nat list"

text \<open>What \<open>net.ResolveUDPAddr\<close>, \<open>net.DialUDP\<close> and the write on a socket answer.\<close>

record udpNet =
  un_resolve :: "string \<Rightarrow> string + string"
  un_dial :: "ip option \<Rightarrow> string \<Rightarrow> string + nat"
  un_send :: "nat \<Rightarrow> string option"

abbreviation udpSessionIdleTimeout :: int where "udpSessionIdleTimeout \<equiv> 30000000000"

definition selectAnyInboundRule :: "RuleConfig list \<Rightarrow> RuleConfig \<times> bool" where
  "selectAnyInboundRule rules =
     (case find (\<lambda>r. rc_MatchType r = MatchTypeAnyInbound) rules of
        Some rule \<Rightarrow> (rule, True)
      | None \<Rightarrow> (zero_rule, False))"

definition localIP :: "string \<Rightarrow> ip option" where
  "localIP sendIP = (let p = ParseIP (TrimSpace sendIP) in if p = [] then None else Some p)"

definition dialUDPUpstream :: "udpNet \<Rightarrow> string \<Rightarrow> string \<Rightarrow> string + nat" where
  "dialUDPUpstream net sendIP upstreamAddress = un_dial net (localIP sendIP) upstreamAddress"

definition newUDPSessionTable :: udpSessionTable where
  "newUDPSessionTable = \<lparr>ut_sessions = Map.empty, ut_open = []\<rparr>"

definition udpSessionKey :: "string \<Rightarrow> string \<Rightarrow> string \<Rightarrow> string" where
  "udpSessionKey clientAddress ruleID sendIP =
     clientAddress @ CHR 0x00 # ruleID @ CHR 0x00 # TrimSpace sendIP"

definition targetStillConfiguredForRule :: "RuleConfig \<Rightarrow> string \<Rightarrow> string \<Rightarrow> bool" where
  "targetStillConfiguredForRule rule targetID targetAddr =
     (if up_Type (rc_Upstream rule) = ''TARGET'' then
        (case up_Target (rc_Upstream rule) of
           None \<Rightarrow> False
         | Some t \<Rightarrow> te_Enabled t \<and> te_ID t = targetID \<and> targetAddress t = targetAddr)
      else if up_Type (rc_Upstream rule) = ''TARGET_GROUP'' then
        list_ex (\<lambda>t. te_ID t = targetID \<and> targetAddress t = targetAddr) (activeTargetGroupCandidates rule)
      else False)"

definition closeSessionLocked ::
    "string \<Rightarrow> udpSession \<Rightarrow> udpSessionTable \<times> metricsCounter \<Rightarrow> udpSessionTable \<times> metricsCounter" where
  "closeSessionLocked key session s =
     (let (table, m) = s in
      (table\<lparr>ut_open := remove1 (us_upstream session) (ut_open table),
             ut_sessions := (ut_sessions table)(key := None)\<rparr>,
       addTargetUDPSession (us_ruleID session) (us_targetID session) (-1) m))"

text \<open>\<open>write\<close>; the result is the target id, whether a session was created, and the error.\<close>

definition session_write ::
    "udpNet \<Rightarrow> int \<Rightarrow> RuleConfig \<Rightarrow> TargetEndpoint \<Rightarrow> string \<Rightarrow> udpSessionTable \<times> metricsCounter \<Rightarrow>
     (string \<times> bool \<times> string option) \<times> udpSessionTable \<times> metricsCounter" where
  "session_write net now rule target clientAddress s0 =
     (let key = udpSessionKey clientAddress (rc_ID rule) (rc_SendIP rule);
          upstreamTargetAddress = targetAddress target;
          (session, s) = (case ut_sessions (fst s0) key of
             None \<Rightarrow> (None, s0)
           | Some session \<Rightarrow>
               if \<not> targetStillConfiguredForRule rule (us_targetID session) (us_targetAddress session)
               then (None, closeSessionLocked key session s0)
               else (Some session, s0));
          (table, m) = s;
          put = (\<lambda>session table. table\<lparr>ut_sessions := (ut_sessions table)(key \<mapsto> session\<lparr>us_lastSeen := now\<rparr>)\<rparr>)
      in case session of
           Some session \<Rightarrow> ((us_targetID session, False, un_send net (us_upstream session)), put session table, m)
         | None \<Rightarrow>
             (case un_resolve net upstreamTargetAddress of
                Inl err \<Rightarrow> (([], False, Some err), table, m)
              | Inr upstreamAddress \<Rightarrow>
                  (case dialUDPUpstream net (rc_SendIP rule) upstreamAddress of
                     Inl err \<Rightarrow> (([], False, Some err), table, m)
                   | Inr upstream \<Rightarrow>
                       (let session = \<lparr>us_key = key, us_ruleID = rc_ID rule, us_targetID = te_ID target,
                              us_targetAddress = upstreamTargetAddress, us_clientAddress = clientAddress,
                              us_upstream = upstream, us_lastSeen = now\<rparr>
                        in ((te_ID target, True, un_send net upstream),
                            put session (table\<lparr>ut_open := upstream # ut_open table\<rparr>), m)))))"

definition closeSessions ::
    "(udpSession \<Rightarrow> bool) \<Rightarrow> string list \<Rightarrow> udpSessionTable \<times> metricsCounter \<Rightarrow> udpSessionTable \<times> metricsCounter" where
  "closeSessions closes order s =
     fold (\<lambda>key s. case ut_sessions (fst s) key of
             None \<Rightarrow> s
           | Some session \<Rightarrow> if closes session then closeSessionLocked key session s else s) order s"

definition closeIdle :: "int \<Rightarrow> string list \<Rightarrow> udpSessionTable \<times> metricsCounter \<Rightarrow> udpSessionTable \<times> metricsCounter" where
  "closeIdle now order = closeSessions (\<lambda>session. \<not> now - us_lastSeen session \<le> udpSessionIdleTimeout) order"

definition closeAll :: "string list \<Rightarrow> udpSessionTable \<times> metricsCounter \<Rightarrow> udpSessionTable \<times> metricsCounter" where
  "closeAll order = closeSessions (\<lambda>session. True) order"

text \<open>One round of \<open>readLoop\<close>: \<open>n\<close> bytes came back and \<open>ok\<close> says whether they reached the client.\<close>

definition readLoop_step :: "bool \<Rightarrow> nat \<Rightarrow> udpSession \<Rightarrow> metricsCounter \<Rightarrow> metricsCounter" where
  "readLoop_step ok n session m =
     (if ok then addTargetDownload (us_ruleID session) (us_targetID session) (int n) (addDownload (int n) m)
      else m)"

text \<open>The last part of \<open>proxyUDP\<close>, after the write.\<close>

definition udpAccount ::
    "RuleConfig \<Rightarrow> TargetEndpoint \<Rightarrow> bool \<Rightarrow> string \<times> bool \<times> string option \<Rightarrow> nat \<Rightarrow> metricsCounter \<Rightarrow> metricsCounter" where
  "udpAccount rule target reserved result n m =
     (let (targetID, created, err) = result;
          m = (if reserved then
                 (if \<not> created then releaseTargetUDPSessionReservation (rc_ID rule) (te_ID target) m
                  else promoteTargetUDPSessionReservation (rc_ID rule) (te_ID target) m)
               else if created then addTargetUDPSession (rc_ID rule) (te_ID target) 1 m
               else m)
      in if err \<noteq> None then m
         else addTargetUpload (rc_ID rule) targetID (int n)
                (addTargetUDP (rc_ID rule) targetID 1 (addUpload (int n) (addUDP 1 m))))"

definition proxyUDP ::
    "udpNet \<Rightarrow> int \<Rightarrow> string \<Rightarrow> RuleConfig list \<Rightarrow> byte list \<Rightarrow> udpSessionTable \<times> metricsCounter \<Rightarrow>
     udpSessionTable \<times> metricsCounter" where
  "proxyUDP net now clientAddress rules payload s =
     (let (rule, ok) = selectAnyInboundRule rules in
      if \<not> ok then s
      else
        (let ((target, reserved, ok), m) = selectUDPTarget rule (Some clientAddress) (snd s) in
         if \<not> ok then (fst s, m)
         else
           (let (result, table, m) = session_write net now rule target clientAddress (fst s, m)
            in (table, udpAccount rule target reserved result (length payload) m))))"

end
