(* ===== verification/Udp_Accounting.thy ===== *)
theory Udp_Accounting
  imports Udp_Sessions
begin

text \<open>
  The interleavings of the goroutines around one UDP session table, and what they keep: the session
  gauge of a target never exceeds the number of its sessions, a reservation is held exactly while a
  datagram is on its way, and the open sockets are the sockets of the sessions.
\<close>

subsection \<open>Datagrams in flight\<close>

text \<open>A datagram that has its target but is not written yet, and one that is written but whose outcome
  is not yet recorded.\<close>

datatype udpTask =
    Writing RuleConfig TargetEndpoint bool string nat
  | Recording RuleConfig TargetEndpoint bool string nat "string \<times> bool \<times> string option"

fun task_slot :: "udpTask \<Rightarrow> targetMetricKey list" where
  "task_slot (Writing rule target reserved client n) = (if reserved then [(rc_ID rule, te_ID target)] else [])"
| "task_slot (Recording rule target reserved client n result) = (if reserved then [(rc_ID rule, te_ID target)] else [])"

text \<open>The session a datagram has created and not yet counted.\<close>

fun uncounted :: "udpTask \<Rightarrow> (string \<times> targetMetricKey) list" where
  "uncounted (Writing rule target reserved client n) = []"
| "uncounted (Recording rule target reserved client n result) =
     (if fst (snd result)
      then [(udpSessionKey client (rc_ID rule) (rc_SendIP rule), (rc_ID rule, te_ID target))] else [])"

record udpSystem =
  sys_table :: udpSessionTable
  sys_metrics :: metricsCounter
  sys_tasks :: "udpTask list"

definition waiting :: "targetMetricKey \<Rightarrow> udpTask list \<Rightarrow> nat" where
  "waiting k tasks = count_list (concat (map task_slot tasks)) k"

definition uncounted_all :: "udpTask list \<Rightarrow> (string \<times> targetMetricKey) list" where
  "uncounted_all tasks = concat (map uncounted tasks)"

definition session_slot :: "udpSession \<Rightarrow> targetMetricKey" where
  "session_slot s = (us_ruleID s, us_targetID s)"

definition live :: "udpSessionTable \<Rightarrow> targetMetricKey \<Rightarrow> string set" where
  "live table k = {key. \<exists>s. ut_sessions table key = Some s \<and> session_slot s = k}"

text \<open>The sessions a step closes have been counted.\<close>

definition counted :: "udpTask list \<Rightarrow> (string \<Rightarrow> bool) \<Rightarrow> bool" where
  "counted tasks closes \<longleftrightarrow> (\<forall>key. closes key \<longrightarrow> key \<notin> fst ` set (uncounted_all tasks))"

abbreviation far_from_limit :: "metricsCounter \<Rightarrow> bool" where
  "far_from_limit m \<equiv> \<forall>g k. gval m g k < gauge_limit - 2"

text \<open>The table closes the session under \<open>key\<close> when the datagram of \<open>rule\<close> is written.\<close>

definition replaces :: "udpSessionTable \<Rightarrow> RuleConfig \<Rightarrow> string \<Rightarrow> string \<Rightarrow> bool" where
  "replaces table rule client key \<longleftrightarrow>
     key = udpSessionKey client (rc_ID rule) (rc_SendIP rule) \<and>
     (case ut_sessions table key of
        None \<Rightarrow> False
      | Some s \<Rightarrow> \<not> targetStillConfiguredForRule rule (us_targetID s) (us_targetAddress s))"

text \<open>A dial never hands out a socket that is still open.\<close>

definition dials_fresh :: "udpNet \<Rightarrow> udpSessionTable \<Rightarrow> bool" where
  "dials_fresh net table \<longleftrightarrow> (\<forall>ip addr n. un_dial net ip addr = Inr n \<longrightarrow> n \<notin> set (ut_open table))"

inductive udp_reach :: "udpSystem \<Rightarrow> bool" where
  start: "gauges_ok gauge_limit m \<Longrightarrow> \<forall>k. gval m UdpOpen k = 0 \<and> gval m UdpReserved k = 0 \<Longrightarrow>
    udp_reach \<lparr>sys_table = newUDPSessionTable, sys_metrics = m, sys_tasks = []\<rparr>"
| arrive: "udp_reach S \<Longrightarrow> far_from_limit (sys_metrics S) \<Longrightarrow> selectAnyInboundRule rules = (rule, True) \<Longrightarrow>
    selectUDPTarget rule (Some client) (sys_metrics S) = ((target, reserved, True), m') \<Longrightarrow>
    udp_reach (S\<lparr>sys_metrics := m', sys_tasks := Writing rule target reserved client n # sys_tasks S\<rparr>)"
| transmit: "udp_reach S \<Longrightarrow> far_from_limit (sys_metrics S) \<Longrightarrow>
    sys_tasks S = xs @ Writing rule target reserved client n # ys \<Longrightarrow>
    counted (sys_tasks S) (replaces (sys_table S) rule client) \<Longrightarrow> dials_fresh net (sys_table S) \<Longrightarrow>
    session_write net now rule target client (sys_table S, sys_metrics S) = (result, table', m') \<Longrightarrow>
    udp_reach \<lparr>sys_table = table', sys_metrics = m', sys_tasks = xs @ Recording rule target reserved client n result # ys\<rparr>"
| account: "udp_reach S \<Longrightarrow> far_from_limit (sys_metrics S) \<Longrightarrow>
    sys_tasks S = xs @ Recording rule target reserved client n result # ys \<Longrightarrow>
    udp_reach (S\<lparr>sys_metrics := udpAccount rule target reserved result n (sys_metrics S), sys_tasks := xs @ ys\<rparr>)"
| idle: "udp_reach S \<Longrightarrow> far_from_limit (sys_metrics S) \<Longrightarrow>
    counted (sys_tasks S) (\<lambda>key. \<exists>s. ut_sessions (sys_table S) key = Some s \<and> \<not> now - us_lastSeen s \<le> udpSessionIdleTimeout) \<Longrightarrow>
    closeIdle now order (sys_table S, sys_metrics S) = (table', m') \<Longrightarrow>
    udp_reach (S\<lparr>sys_table := table', sys_metrics := m'\<rparr>)"
| stop: "udp_reach S \<Longrightarrow> far_from_limit (sys_metrics S) \<Longrightarrow> counted (sys_tasks S) (\<lambda>key. True) \<Longrightarrow>
    closeAll order (sys_table S, sys_metrics S) = (table', m') \<Longrightarrow>
    udp_reach (S\<lparr>sys_table := table', sys_metrics := m'\<rparr>)"
| other: "udp_reach S \<Longrightarrow> gauges_ok gauge_limit m' \<Longrightarrow>
    \<forall>k. gval m' UdpOpen k = gval (sys_metrics S) UdpOpen k \<and> gval m' UdpReserved k = gval (sys_metrics S) UdpReserved k \<Longrightarrow>
    udp_reach (S\<lparr>sys_metrics := m'\<rparr>)"

subsection \<open>The invariant\<close>

definition upstreams :: "udpSessionTable \<Rightarrow> string \<Rightarrow> nat option" where
  "upstreams table key = map_option us_upstream (ut_sessions table key)"

text \<open>The open sockets are the sockets of the sessions, and no two sessions share one.\<close>

definition sockets_ok :: "udpSessionTable \<Rightarrow> bool" where
  "sockets_ok table \<longleftrightarrow>
     distinct (ut_open table) \<and>
     (\<forall>n. n \<in> set (ut_open table) \<longleftrightarrow> (\<exists>key. upstreams table key = Some n)) \<and>
     (\<forall>k1 k2 n. upstreams table k1 = Some n \<and> upstreams table k2 = Some n \<longrightarrow> k1 = k2)"

definition settled :: "udpSessionTable \<Rightarrow> udpTask list \<Rightarrow> targetMetricKey \<Rightarrow> string set" where
  "settled table tasks k = live table k - fst ` set (uncounted_all tasks)"

definition table_inv :: "udpSessionTable \<Rightarrow> udpTask list \<Rightarrow> bool" where
  "table_inv table tasks \<longleftrightarrow>
     finite (dom (ut_sessions table)) \<and> sockets_ok table \<and>
     distinct (map fst (uncounted_all tasks)) \<and>
     (\<forall>(key, k) \<in> set (uncounted_all tasks). key \<in> live table k)"

definition udp_inv :: "udpSystem \<Rightarrow> bool" where
  "udp_inv S \<longleftrightarrow>
     table_inv (sys_table S) (sys_tasks S) \<and>
     (\<forall>g k. 0 \<le> gval (sys_metrics S) g k) \<and>
     (\<forall>k. gval (sys_metrics S) UdpOpen k \<le> int (card (settled (sys_table S) (sys_tasks S) k))) \<and>
     (\<forall>k. gval (sys_metrics S) UdpReserved k = int (waiting k (sys_tasks S)))"

lemma finite_live: "finite (dom (ut_sessions table)) \<Longrightarrow> finite (live table k)"
  by (rule finite_subset [of _ "dom (ut_sessions table)"]) (auto simp: live_def)

text \<open>Closing a counted session keeps the invariant.\<close>

lemma sockets_ok_close:
  assumes ok: "sockets_ok table" and key: "ut_sessions table key = Some s"
  shows "sockets_ok (table\<lparr>ut_open := remove1 (us_upstream s) (ut_open table),
                           ut_sessions := (ut_sessions table)(key := None)\<rparr>)"
proof -
  let ?t = "table\<lparr>ut_open := remove1 (us_upstream s) (ut_open table), ut_sessions := (ut_sessions table)(key := None)\<rparr>"
  have up: "upstreams ?t k = (if k = key then None else upstreams table k)" for k
    by (simp add: upstreams_def)
  have key': "upstreams table key = Some (us_upstream s)" using key by (simp add: upstreams_def)
  have "n \<in> set (ut_open ?t) \<longleftrightarrow> n \<in> set (ut_open table) \<and> n \<noteq> us_upstream s" for n
    using ok by (auto simp: sockets_ok_def)
  also have "\<dots> n \<longleftrightarrow> (\<exists>k. upstreams ?t k = Some n)" for n
    using ok key' unfolding sockets_ok_def up by (metis option.inject option.distinct(1))
  finally have iff: "n \<in> set (ut_open ?t) \<longleftrightarrow> (\<exists>k. upstreams ?t k = Some n)" for n .
  moreover have "upstreams ?t k1 = Some n \<Longrightarrow> upstreams ?t k2 = Some n \<Longrightarrow> k1 = k2" for k1 k2 n
    using ok unfolding sockets_ok_def up by (metis option.distinct(1))
  ultimately show ?thesis using ok unfolding sockets_ok_def by simp
qed

lemma live_close:
  "ut_sessions table key = Some s \<Longrightarrow>
   live (table\<lparr>ut_open := os, ut_sessions := (ut_sessions table)(key := None)\<rparr>) k = live table k - {key}"
  by (auto simp: live_def)

lemma table_inv_close:
  assumes "table_inv table tasks" and "ut_sessions table key = Some s" and "key \<notin> fst ` set (uncounted_all tasks)"
  shows "table_inv (table\<lparr>ut_open := remove1 (us_upstream s) (ut_open table),
                           ut_sessions := (ut_sessions table)(key := None)\<rparr>) tasks"
  using assms sockets_ok_close [of table key s] unfolding table_inv_def live_close [OF assms(2)]
  by (auto simp: image_iff)

text \<open>The part of the invariant that concerns the gauge of open sessions.\<close>

definition open_inv :: "udpTask list \<Rightarrow> udpSessionTable \<times> metricsCounter \<Rightarrow> bool" where
  "open_inv tasks s \<longleftrightarrow>
     table_inv (fst s) tasks \<and> gauges_ok (gauge_limit - 2) (snd s) \<and>
     (\<forall>k. gval (snd s) UdpOpen k \<le> int (card (settled (fst s) tasks k)))"

lemma close_counted:
  assumes inv: "open_inv tasks (table, m)" and key: "ut_sessions table key = Some s"
    and counted: "key \<notin> fst ` set (uncounted_all tasks)"
  shows "open_inv tasks (closeSessionLocked key s (table, m))"
    and "gval (snd (closeSessionLocked key s (table, m))) UdpReserved = gval m UdpReserved"
proof -
  obtain table' m' where eq: "closeSessionLocked key s (table, m) = (table', m')" by fastforce
  have ok: "gauges_ok (gauge_limit - 2) m" using inv by (simp add: open_inv_def)
  have table': "table' = table\<lparr>ut_open := remove1 (us_upstream s) (ut_open table), ut_sessions := (ut_sessions table)(key := None)\<rparr>"
    using eq by (simp add: closeSessionLocked_def)
  have m': "gval m' = bump (gval m) UdpOpen (session_slot s) (-1)"
    using eq udp.add_close [OF ok] by (auto simp: closeSessionLocked_def session_slot_def)
  show "gval (snd (closeSessionLocked key s (table, m))) UdpReserved = gval m UdpReserved"
    unfolding eq by (simp add: m' bump_def)
  have nonneg: "0 \<le> gval m g k" for g k using gauges_ok_nonneg [OF ok] .
  have "gauges_ok (gauge_limit - 2) m'"
    using gauges_ok_lower [OF ok m'] .
  moreover have "gval m' UdpOpen k \<le> int (card (settled table' tasks k))" for k
  proof -
    have le: "gval m UdpOpen k \<le> int (card (settled table tasks k))"
      using inv unfolding open_inv_def fst_conv snd_conv by blast
    have fin: "finite (settled table tasks k)"
      using inv finite_live by (auto simp: open_inv_def table_inv_def settled_def)
    have set: "settled table' tasks k = settled table tasks k - {key}"
      by (auto simp: settled_def table' live_close [OF key])
    show ?thesis
    proof (cases "k = session_slot s")
      case True
      then have "key \<in> settled table tasks k" using key counted by (auto simp: settled_def live_def)
      then show ?thesis using le fin nonneg [of UdpOpen k] True unfolding set m' bump_apply
        by (auto simp: card_Diff_singleton int_ops(6) card_gt_0_iff)
    next
      case False
      then have "key \<notin> settled table tasks k" using key by (auto simp: settled_def live_def)
      then show ?thesis using le False unfolding set m' bump_apply by simp
    qed
  qed
  ultimately show "open_inv tasks (closeSessionLocked key s (table, m))"
    using table_inv_close [OF _ key counted] inv unfolding eq by (simp add: open_inv_def table')
qed

lemma close_counted_many:
  assumes "open_inv tasks s"
    and "\<And>key ses. ut_sessions (fst s) key = Some ses \<Longrightarrow> closes ses \<Longrightarrow> key \<notin> fst ` set (uncounted_all tasks)"
  shows "open_inv tasks (closeSessions closes order s) \<and>
    gval (snd (closeSessions closes order s)) UdpReserved = gval (snd s) UdpReserved"
  using assms
proof (induction order arbitrary: s)
  case (Cons key order)
  define s' where "s' = (case ut_sessions (fst s) key of None \<Rightarrow> s
    | Some ses \<Rightarrow> if closes ses then closeSessionLocked key ses s else s)"
  have step: "open_inv tasks s' \<and> gval (snd s') UdpReserved = gval (snd s) UdpReserved"
    using close_counted [of tasks "fst s" "snd s" key] Cons.prems
    by (simp add: s'_def split: option.split)
  have "ut_sessions (fst s') k = Some ses \<Longrightarrow> ut_sessions (fst s) k = Some ses" for k ses
    by (auto simp: s'_def closeSessionLocked_def split: option.splits if_splits prod.splits)
  then show ?case
    using Cons.IH [of s'] step Cons.prems(2) by (simp add: closeSessions_def s'_def)
qed (simp add: closeSessions_def)

subsection \<open>Every step keeps the invariant\<close>

lemma udp_inv_open:
  "udp_inv S \<Longrightarrow> far_from_limit (sys_metrics S) \<Longrightarrow> open_inv (sys_tasks S) (sys_table S, sys_metrics S)"
  unfolding udp_inv_def open_inv_def gauges_ok_def by simp

lemma udp_invI:
  assumes "table_inv table tasks" "gauges_ok N m"
    and "\<And>k. gval m UdpOpen k \<le> int (card (settled table tasks k))"
    and "\<And>k. gval m UdpReserved k = int (waiting k tasks)"
  shows "udp_inv \<lparr>sys_table = table, sys_metrics = m, sys_tasks = tasks\<rparr>"
  using assms gauges_ok_nonneg [of _ m] unfolding udp_inv_def by auto

lemma udp_inv_of_open:
  assumes "open_inv tasks (table, m)" and "\<And>k. gval m UdpReserved k = int (waiting k tasks)"
  shows "udp_inv \<lparr>sys_table = table, sys_metrics = m, sys_tasks = tasks\<rparr>"
  using assms unfolding open_inv_def fst_conv snd_conv by (blast intro: udp_invI)

lemma closed_inv:
  assumes inv: "udp_inv S"
    and closed: "open_inv (sys_tasks S) (table', m') \<and> gval m' UdpReserved = gval (sys_metrics S) UdpReserved"
  shows "udp_inv (S\<lparr>sys_table := table', sys_metrics := m'\<rparr>)"
proof -
  have "gval m' UdpReserved k = int (waiting k (sys_tasks S))" for k
    using inv closed unfolding udp_inv_def by metis
  then have "udp_inv \<lparr>sys_table = table', sys_metrics = m', sys_tasks = sys_tasks S\<rparr>"
    using closed udp_inv_of_open by blast
  moreover have "S\<lparr>sys_table := table', sys_metrics := m'\<rparr> = \<lparr>sys_table = table', sys_metrics = m', sys_tasks = sys_tasks S\<rparr>"
    by (cases S) simp
  ultimately show ?thesis by (simp only:)
qed

lemma waiting_append [simp]: "waiting k (xs @ ys) = waiting k xs + waiting k ys"
  by (simp add: waiting_def)

lemma waiting_Cons [simp]: "waiting k (x # ys) = count_list (task_slot x) k + waiting k ys"
  by (simp add: waiting_def)

lemma uncounted_append [simp]: "uncounted_all (xs @ ys) = uncounted_all xs @ uncounted_all ys"
  by (simp add: uncounted_all_def)

lemma uncounted_Cons [simp]: "uncounted_all (x # ys) = uncounted x @ uncounted_all ys"
  by (simp add: uncounted_all_def)

text \<open>Only what is uncounted matters of the tasks, and only as a collection.\<close>

lemma open_inv_tasks:
  assumes "mset (uncounted_all tasks') = mset (uncounted_all tasks)"
  shows "open_inv tasks' s = open_inv tasks s"
proof -
  have "distinct (map fst (uncounted_all tasks')) = distinct (map fst (uncounted_all tasks))"
    using assms by (metis mset_map mset_eq_imp_distinct_iff)
  then show ?thesis
    using mset_eq_setD [OF assms] by (simp add: open_inv_def table_inv_def settled_def)
qed

lemma open_inv_touch:
  assumes "ut_sessions table key = Some s" and "open_inv tasks (table, m)"
  shows "open_inv tasks (table\<lparr>ut_sessions := (ut_sessions table)(key \<mapsto> s\<lparr>us_lastSeen := now\<rparr>)\<rparr>, m)"
proof -
  let ?t = "table\<lparr>ut_sessions := (ut_sessions table)(key \<mapsto> s\<lparr>us_lastSeen := now\<rparr>)\<rparr>"
  have live: "live ?t k = live table k" for k
    using assms(1) by (auto simp: live_def session_slot_def)
  have "upstreams ?t = upstreams table"
    using assms(1) by (auto simp: upstreams_def fun_eq_iff)
  then have "sockets_ok ?t = sockets_ok table" by (simp add: sockets_ok_def)
  then show ?thesis
    using assms by (simp add: open_inv_def table_inv_def settled_def live)
qed

lemma open_inv_create:
  assumes inv: "open_inv tasks (table, m)" and new: "ut_sessions table key = None"
    and fresh: "us_upstream s \<notin> set (ut_open table)"
    and tasks': "mset (uncounted_all tasks') = add_mset (key, session_slot s) (mset (uncounted_all tasks))"
  shows "open_inv tasks' (table\<lparr>ut_open := us_upstream s # ut_open table,
    ut_sessions := (ut_sessions table)(key \<mapsto> s)\<rparr>, m)"
proof -
  let ?t = "table\<lparr>ut_open := us_upstream s # ut_open table, ut_sessions := (ut_sessions table)(key \<mapsto> s)\<rparr>"
  have tinv: "table_inv table tasks" using inv by (simp add: open_inv_def)
  have live: "live ?t k = (if k = session_slot s then insert key (live table k) else live table k)" for k
    using new by (auto simp: live_def)
  have notin: "key \<notin> live table k" for k using new by (simp add: live_def)
  then have unc: "key \<notin> fst ` set (uncounted_all tasks)" using tinv by (auto simp: table_inv_def)
  have set': "set (uncounted_all tasks') = insert (key, session_slot s) (set (uncounted_all tasks))"
    using tasks' by (metis set_mset_mset set_mset_add_mset_insert)
  have "mset (map fst (uncounted_all tasks')) = add_mset key (mset (map fst (uncounted_all tasks)))"
    using arg_cong [OF tasks', of "image_mset fst"] by simp
  then have "distinct (map fst (uncounted_all tasks'))"
    using unc tinv mset_eq_imp_distinct_iff [of _ "key # map fst (uncounted_all tasks)"]
    by (simp add: table_inv_def)
  moreover have "sockets_ok ?t"
    using tinv fresh new unfolding table_inv_def sockets_ok_def upstreams_def
    by (auto split: if_splits) (metis option.distinct(1))
  ultimately have "table_inv ?t tasks'"
    using tinv unfolding table_inv_def set' by (auto simp: live)
  moreover have "settled ?t tasks' k = settled table tasks k" for k
    using notin unc by (auto simp: settled_def live set')
  ultimately show ?thesis using inv by (simp add: open_inv_def)
qed

text \<open>The session a datagram finds after outdated ones are closed.\<close>

lemma replaced:
  assumes inv: "open_inv tasks (table, m)" and counted: "counted tasks (replaces table rule client)"
    and key: "key = udpSessionKey client (rc_ID rule) (rc_SendIP rule)" and s: "ut_sessions table key = Some s"
    and old: "\<not> targetStillConfiguredForRule rule (us_targetID s) (us_targetAddress s)"
    and eq: "closeSessionLocked key s (table, m) = (table1, m1)"
  shows "open_inv tasks (table1, m1)" "gval m1 UdpReserved = gval m UdpReserved" "ut_sessions table1 key = None"
    and "set (ut_open table1) \<subseteq> set (ut_open table)"
proof -
  have "replaces table rule client key" using key s old by (simp add: replaces_def)
  then have "key \<notin> fst ` set (uncounted_all tasks)" using counted unfolding counted_def by blast
  from close_counted [OF inv s this] show "open_inv tasks (table1, m1)" "gval m1 UdpReserved = gval m UdpReserved"
    unfolding eq by simp_all
  show "ut_sessions table1 key = None" "set (ut_open table1) \<subseteq> set (ut_open table)"
    using eq set_remove1_subset by (force simp: closeSessionLocked_def)+
qed

lemma write_new:
  assumes inv: "open_inv tasks (table, m)" and new: "ut_sessions table key = None"
    and key: "key = udpSessionKey client (rc_ID rule) (rc_SendIP rule)"
    and fresh: "dials_fresh net table"
    and tasks: "tasks = xs @ Writing rule target reserved client n # ys"
    and eq: "session_write net now rule target client (table, m) = (result, table', m')"
  shows "open_inv (xs @ Recording rule target reserved client n result # ys) (table', m') \<and> m' = m"
proof (cases "fst (snd result)")
  case True
  then obtain u where u: "un_dial net (localIP (rc_SendIP rule)) u = Inr (us_upstream (the (ut_sessions table' key)))"
    and t': "table' = table\<lparr>ut_open := us_upstream (the (ut_sessions table' key)) # ut_open table,
       ut_sessions := (ut_sessions table)(key \<mapsto> the (ut_sessions table' key))\<rparr>"
    and slot: "session_slot (the (ut_sessions table' key)) = (rc_ID rule, te_ID target)" and m': "m' = m"
    using eq new key
    by (auto simp: session_write_def Let_def dialUDPUpstream_def session_slot_def split: sum.splits)
  have "us_upstream (the (ut_sessions table' key)) \<notin> set (ut_open table)"
    using fresh u unfolding dials_fresh_def by blast
  then show ?thesis
    using open_inv_create [OF inv new, of "the (ut_sessions table' key)" "xs @ Recording rule target reserved client n result # ys"]
      True key slot m' t' by (simp add: tasks)
next
  case False
  then have "table' = table \<and> m' = m"
    using eq new key by (auto simp: session_write_def Let_def split: sum.splits)
  moreover have "open_inv (xs @ Recording rule target reserved client n result # ys) (table, m)"
    using inv False by (subst open_inv_tasks [of _ tasks]) (simp_all add: tasks)
  ultimately show ?thesis by simp
qed

lemma write_inv:
  assumes inv: "open_inv tasks (table, m)" and counted: "counted tasks (replaces table rule client)"
    and fresh: "dials_fresh net table"
    and tasks: "tasks = xs @ Writing rule target reserved client n # ys"
    and eq: "session_write net now rule target client (table, m) = (result, table', m')"
  shows "open_inv (xs @ Recording rule target reserved client n result # ys) (table', m') \<and>
    gval m' UdpReserved = gval m UdpReserved"
proof -
  define key where "key = udpSessionKey client (rc_ID rule) (rc_SendIP rule)"
  show ?thesis
  proof (cases "ut_sessions table key")
    case None
    then show ?thesis using write_new [OF inv None key_def fresh tasks eq] by blast
  next
    case (Some s)
    show ?thesis
    proof (cases "targetStillConfiguredForRule rule (us_targetID s) (us_targetAddress s)")
      case True
      then have "\<not> fst (snd result)" "m' = m"
        "table' = table\<lparr>ut_sessions := (ut_sessions table)(key \<mapsto> s\<lparr>us_lastSeen := now\<rparr>)\<rparr>"
        using eq Some by (auto simp: session_write_def Let_def key_def)
      moreover have "open_inv (xs @ Recording rule target reserved client n result # ys) (table', m')"
        using open_inv_touch [OF Some inv, of now] calculation
        by (subst open_inv_tasks [of _ tasks]) (simp_all add: tasks)
      ultimately show ?thesis by simp
    next
      case False
      obtain table1 m1 where c: "closeSessionLocked key s (table, m) = (table1, m1)" by fastforce
      note r = replaced [OF inv counted key_def Some False c]
      have "session_write net now rule target client (table1, m1) = (result, table', m')"
        using eq Some False c r(3) by (simp add: session_write_def Let_def key_def)
      moreover have "dials_fresh net table1" using fresh r(4) by (auto simp: dials_fresh_def)
      ultimately show ?thesis using write_new [OF r(1,3) key_def _ tasks] r(2) by metis
    qed
  qed
qed

text \<open>Recording the outcome of a write.\<close>

lemma table_inv_recorded:
  assumes inv: "table_inv table (xs @ Recording rule target reserved client n result # ys)"
  defines "key \<equiv> udpSessionKey client (rc_ID rule) (rc_SendIP rule)"
  shows "table_inv table (xs @ ys)"
    and "card (settled table (xs @ ys) k) =
      card (settled table (xs @ Recording rule target reserved client n result # ys) k) +
      (if fst (snd result) \<and> k = (rc_ID rule, te_ID target) then 1 else 0)"
proof -
  show "table_inv table (xs @ ys)"
    using inv by (cases "fst (snd result)") (simp_all add: table_inv_def ball_Un)
  have fin: "finite (settled table tasks k)" for tasks k
    using inv finite_live by (auto simp: table_inv_def settled_def)
  show "card (settled table (xs @ ys) k) =
      card (settled table (xs @ Recording rule target reserved client n result # ys) k) +
      (if fst (snd result) \<and> k = (rc_ID rule, te_ID target) then 1 else 0)"
  proof (cases "fst (snd result)")
    case True
    have live: "key \<in> live table (rc_ID rule, te_ID target)" and
      unc: "key \<notin> fst ` set (uncounted_all (xs @ ys))"
      using inv True by (auto simp: table_inv_def key_def)
    have other: "key \<notin> live table k" if "k \<noteq> (rc_ID rule, te_ID target)" for k
      using live that by (auto simp: live_def)
    have "settled table (xs @ ys) k = (if k = (rc_ID rule, te_ID target)
        then insert key (settled table (xs @ Recording rule target reserved client n result # ys) k)
        else settled table (xs @ Recording rule target reserved client n result # ys) k)"
      using True live unc other by (auto simp: settled_def key_def)
    moreover have "key \<notin> settled table (xs @ Recording rule target reserved client n result # ys) k"
      using True by (simp add: settled_def key_def)
    ultimately show ?thesis using True fin by (auto simp: card_insert_if)
  qed (simp add: settled_def)
qed

text \<open>The gauges after \<open>udpAccount\<close>.\<close>

lemma gval_udpAccount:
  assumes ok: "gauges_ok N m" "N < gauge_limit" and key: "key = (rc_ID rule, te_ID target)"
  shows "gval (udpAccount rule target reserved result n m) =
    (if reserved then
       (if fst (snd result) then bump (bump (gval m) UdpReserved key (-1)) UdpOpen key 1
        else bump (gval m) UdpReserved key (-1))
     else if fst (snd result) \<and> tracked m key then bump (gval m) UdpOpen key 1
     else gval m)"
  using udp.add_open [OF ok] udp.release_law [OF ok] udp.promote_law [OF ok]
  by (cases result) (simp add: udpAccount_def key)

lemma account_inv:
  assumes inv: "udp_inv S" and far: "far_from_limit (sys_metrics S)"
    and tasks: "sys_tasks S = xs @ Recording rule target reserved client n result # ys"
  shows "udp_inv (S\<lparr>sys_metrics := udpAccount rule target reserved result n (sys_metrics S), sys_tasks := xs @ ys\<rparr>)"
proof -
  obtain table m where S: "S = \<lparr>sys_table = table, sys_metrics = m, sys_tasks = sys_tasks S\<rparr>" by (cases S) simp
  have ok: "gauges_ok (gauge_limit - 2) m" and le: "gval m UdpOpen k \<le> int (card (settled table (sys_tasks S) k))"
    and t: "table_inv table (sys_tasks S)" and w: "gval m UdpReserved k = int (waiting k (sys_tasks S))" for k
    using udp_inv_open [OF inv far] inv S unfolding open_inv_def udp_inv_def by (metis fst_conv snd_conv udpSystem.select_convs)+
  let ?m = "udpAccount rule target reserved result n m" and ?key = "(rc_ID rule, te_ID target)"
  have ok': "gauges_ok (gauge_limit - 2) m" "gauge_limit - 2 < gauge_limit" using ok by simp_all
  note g = gval_udpAccount [OF ok' refl, of rule target reserved result n]
  note r = table_inv_recorded [OF t [unfolded tasks]]
  have "udp_inv \<lparr>sys_table = table, sys_metrics = ?m, sys_tasks = xs @ ys\<rparr>"
  proof (rule udp_invI [OF r(1)])
    have b: "0 \<le> gval m g k \<and> gval m g k < gauge_limit - 2" for g k
      using ok unfolding gauges_ok_def by blast
    have "0 \<le> gval ?m g' k \<and> gval ?m g' k < gauge_limit" for g' k
      using b [of g' k] b [of UdpOpen ?key] b [of UdpReserved ?key] unfolding g by (auto simp: bump_apply)
    then show "gauges_ok gauge_limit ?m" unfolding gauges_ok_def by blast
    show "gval ?m UdpOpen k \<le> int (card (settled table (xs @ ys) k))" for k
      using le [of k] b [of UdpOpen ?key] unfolding g r(2) tasks by (auto simp: bump_apply)
    show "gval ?m UdpReserved k = int (waiting k (xs @ ys))" for k
      using w [of k] unfolding g tasks by (auto simp: bump_apply)
  qed
  then show ?thesis using S by (metis udpSystem.update_convs(2,3) udpSystem.select_convs(2))
qed

lemma selectUDPTarget_gauges:
  assumes "gauges_ok N m" "N < gauge_limit" and "selectUDPTarget rule source m = ((target, reserved, found), m')"
  shows "gval m' = (if reserved then bump (gval m) UdpReserved (rc_ID rule, te_ID target) 1 else gval m)"
  using assms(3) udp_reserve_least(2) [OF assms(1,2)]
  by (auto simp: selectUDPTarget_def split: if_splits prod.splits)

lemma arrive_inv:
  assumes inv: "udp_inv S" and far: "far_from_limit (sys_metrics S)"
    and sel: "selectUDPTarget rule (Some client) (sys_metrics S) = ((target, reserved, found), m')"
  shows "udp_inv (S\<lparr>sys_metrics := m', sys_tasks := Writing rule target reserved client n # sys_tasks S\<rparr>)"
proof -
  have ok: "gauges_ok (gauge_limit - 2) (sys_metrics S)" using udp_inv_open [OF inv far] by (simp add: open_inv_def)
  have "gauge_limit - 2 < gauge_limit" by simp
  note g = selectUDPTarget_gauges [OF ok this sel]
  have b: "0 \<le> gval (sys_metrics S) g k" for g k using gauges_ok_nonneg [OF ok] .
  have open': "gval m' UdpOpen = gval (sys_metrics S) UdpOpen" unfolding g by (simp add: bump_def)
  have nonneg: "0 \<le> gval m' g' k" for g' k unfolding g using b by (simp add: bump_apply)
  have "gval m' UdpReserved k = int (waiting k (Writing rule target reserved client n # sys_tasks S))" for k
    using inv b [of UdpReserved k] unfolding g udp_inv_def by (cases k) (auto simp: bump_apply)
  then show ?thesis
    using inv nonneg unfolding udp_inv_def by (simp add: open' settled_def table_inv_def)
qed

theorem udp_invariant: "udp_reach S \<Longrightarrow> udp_inv S"
proof (induction rule: udp_reach.induct)
  case (start m)
  then show ?case
    using gauges_ok_nonneg [OF start(1)]
    by (simp add: udp_inv_def table_inv_def sockets_ok_def newUDPSessionTable_def upstreams_def
        uncounted_all_def waiting_def)
next
  case (arrive S rules rule client target reserved m' n)
  then show ?case by (blast intro: arrive_inv)
next
  case (transmit S xs rule target reserved client n ys net now result table' m')
  note w = write_inv [OF udp_inv_open [OF transmit.IH transmit.hyps(2)] transmit.hyps(4,5,3,6)]
  have "gval m' UdpReserved k = int (waiting k (xs @ Recording rule target reserved client n result # ys))" for k
    using conjunct2 [OF w] transmit.IH transmit.hyps(3) by (cases k) (simp add: udp_inv_def)
  then show ?case using w by (blast intro: udp_inv_of_open)
next
  case (account S xs rule target reserved client n result ys)
  then show ?case by (blast intro: account_inv)
next
  case (idle S now order table' m')
  have "open_inv (sys_tasks S) (table', m') \<and> gval m' UdpReserved = gval (sys_metrics S) UdpReserved"
    using close_counted_many [OF udp_inv_open [OF idle.IH idle.hyps(2)],
        of "\<lambda>s. \<not> now - us_lastSeen s \<le> udpSessionIdleTimeout" order] idle.hyps(3,4)
    unfolding closeIdle_def counted_def by force
  then show ?case by (rule closed_inv [OF idle.IH])
next
  case (stop S order table' m')
  have "open_inv (sys_tasks S) (table', m') \<and> gval m' UdpReserved = gval (sys_metrics S) UdpReserved"
    using close_counted_many [OF udp_inv_open [OF stop.IH stop.hyps(2)], of "\<lambda>s. True" order] stop.hyps(3,4)
    unfolding closeAll_def counted_def by force
  then show ?case by (rule closed_inv [OF stop.IH])
next
  case (other S m')
  then show ?case using gauges_ok_nonneg [of _ m'] by (simp add: udp_inv_def)
qed


definition example_udp_rule :: RuleConfig where
  "example_udp_rule = zero_rule\<lparr>rc_ID := ''r1'', rc_Enabled := True, rc_Protocol := ProtocolUDP,
     rc_MatchType := MatchTypeAnyInbound,
     rc_Upstream := \<lparr>up_Type = ''TARGET'', up_Target = Some \<lparr>te_ID = ''t1'', te_Host = ''10.0.0.9'', te_Port = 53,
       te_Weight = 1, te_Enabled = True\<rparr>, up_Scheduler = [], up_TargetGroup = []\<rparr>\<rparr>"

definition example_udp_target :: TargetEndpoint where
  "example_udp_target = \<lparr>te_ID = ''t1'', te_Host = ''10.0.0.9'', te_Port = 53, te_Weight = 1, te_Enabled = True\<rparr>"

definition example_udp_net :: udpNet where
  "example_udp_net = \<lparr>un_resolve = Inr, un_dial = (\<lambda>_ _. Inr 7), un_send = (\<lambda>_. None)\<rparr>"

definition example_client :: string where "example_client = ''192.0.2.1:4000''"

lemma example_select:
  "selectAnyInboundRule [example_udp_rule] = (example_udp_rule, True)"
  "selectUDPTarget example_udp_rule source m = ((example_udp_target, False, True), m)"
  by (simp_all add: selectAnyInboundRule_def selectUDPTarget_def selectTarget_def example_udp_rule_def
      example_udp_target_def zero_rule_def zero_upstream_def isLeastLoad_def)

lemma example_write:
  "session_write example_udp_net 0 example_udp_rule example_udp_target example_client (newUDPSessionTable, m) =
     ((''t1'', True, None),
      \<lparr>ut_sessions = [udpSessionKey example_client ''r1'' [] \<mapsto>
         \<lparr>us_key = udpSessionKey example_client ''r1'' [], us_ruleID = ''r1'', us_targetID = ''t1'',
          us_targetAddress = targetAddress example_udp_target, us_clientAddress = example_client,
          us_upstream = 7, us_lastSeen = 0\<rparr>], ut_open = [7]\<rparr>, m)"
  by (simp add: session_write_def newUDPSessionTable_def Let_def example_udp_net_def dialUDPUpstream_def
      example_udp_rule_def zero_rule_def example_udp_target_def)

lemma gval_new [simp]: "gval (newMetricsCounter now) g k = 0"
  by (simp add: gval_def newMetricsCounter_def)

definition example_udp_system :: udpSystem where
  "example_udp_system =
     \<lparr>sys_table = fst (snd (session_write example_udp_net 0 example_udp_rule example_udp_target example_client
        (newUDPSessionTable, newMetricsCounter 0))),
      sys_metrics = udpAccount example_udp_rule example_udp_target False (''t1'', True, None) 5 (newMetricsCounter 0),
      sys_tasks = []\<rparr>"

lemma example_reach: "udp_reach example_udp_system"
proof -
  let ?m = "newMetricsCounter 0"
  have far: "far_from_limit ?m" by simp
  have ok: "gauges_ok gauge_limit ?m" by (simp add: gauges_ok_def)
  let ?S0 = "\<lparr>sys_table = newUDPSessionTable, sys_metrics = ?m, sys_tasks = []\<rparr>"
  have "udp_reach ?S0" using ok by (rule udp_reach.start) simp
  from udp_reach.arrive [OF this _ example_select(1), of example_client example_udp_target False ?m 5]
  have 1: "udp_reach \<lparr>sys_table = newUDPSessionTable, sys_metrics = ?m,
      sys_tasks = [Writing example_udp_rule example_udp_target False example_client 5]\<rparr>"
    using far example_select(2) by simp
  from udp_reach.transmit [OF this, of "[]" example_udp_rule example_udp_target False example_client 5 "[]" example_udp_net 0]
  have 2: "udp_reach \<lparr>sys_table = fst (snd (session_write example_udp_net 0 example_udp_rule example_udp_target example_client
        (newUDPSessionTable, ?m))), sys_metrics = ?m,
      sys_tasks = [Recording example_udp_rule example_udp_target False example_client 5 (''t1'', True, None)]\<rparr>"
    using far by (simp add: counted_def uncounted_all_def dials_fresh_def newUDPSessionTable_def [symmetric] example_write)
      (simp add: newUDPSessionTable_def)
  from udp_reach.account [OF this, of "[]" example_udp_rule example_udp_target False example_client 5 "(''t1'', True, None)" "[]"]
  show ?thesis using far by (simp add: example_udp_system_def)
qed


text \<open>
  C31: The condition on closing is needed. When a listener is stopped after a datagram has created a
  session and before that datagram records it, the closing finds no session to take off the gauge and
  the recording then adds one: the gauge is at one although the table holds no session whose closing
  could take it down.
\<close>

theorem udp_stop_race:
  assumes "gauges_ok N m" "N < gauge_limit" "gval m UdpOpen (rc_ID rule, te_ID target) = 0"
    and "session_write net now rule target client (newUDPSessionTable, m) = ((targetID, True, err), table1, m1)"
    and "closeAll [udpSessionKey client (rc_ID rule) (rc_SendIP rule)] (table1, m1) = (table2, m2)"
    and "tracked m2 (rc_ID rule, te_ID target)"
  shows "ut_sessions table2 = Map.empty \<and>
    gval (udpAccount rule target False (targetID, True, err) n m2) UdpOpen (rc_ID rule, te_ID target) = 1"
proof -
  let ?k = "(rc_ID rule, te_ID target)" and ?key = "udpSessionKey client (rc_ID rule) (rc_SendIP rule)"
  obtain s where s: "ut_sessions table1 = [?key \<mapsto> s]" "session_slot s = ?k" "m1 = m"
    using assms(4)
    by (auto simp: session_write_def newUDPSessionTable_def Let_def session_slot_def split: sum.splits)
  have m2: "m2 = addTargetUDPSession (us_ruleID s) (us_targetID s) (-1) m" and "ut_sessions table2 = Map.empty"
    using assms(5) s by (auto simp: closeAll_def closeSessions_def closeSessionLocked_def)
  moreover have g2: "gval m2 = bump (gval m) UdpOpen ?k (-1)"
    using udp.add_close [OF assms(1,2)] s(2) unfolding m2 by (simp add: session_slot_def)
  ultimately show ?thesis
    using gval_udpAccount [OF gauges_ok_lower [OF assms(1) g2] assms(2) refl, of rule target False "(targetID, True, err)" n]
      assms(3,6) by (simp add: g2 bump_apply)
qed

theorem udp_stop_race_witness:
  "let (result, table1, m1) = session_write example_udp_net 0 example_udp_rule example_udp_target example_client
         (newUDPSessionTable, newMetricsCounter 0);
       (table2, m2) = closeAll [udpSessionKey example_client ''r1'' []] (table1, m1)
   in ut_sessions table2 = Map.empty \<and>
      gval (udpAccount example_udp_rule example_udp_target False result 5 m2) UdpOpen (''r1'', ''t1'') = 1"
proof -
  let ?m = "newMetricsCounter 0"
  obtain table1 where w: "session_write example_udp_net 0 example_udp_rule example_udp_target example_client
      (newUDPSessionTable, ?m) = ((''t1'', True, None), table1, ?m)"
    using example_write by blast
  obtain table2 m2 where c: "closeAll [udpSessionKey example_client ''r1'' []] (table1, ?m) = (table2, m2)"
    by fastforce
  have ids: "rc_ID example_udp_rule = ''r1''" "te_ID example_udp_target = ''t1''" "rc_SendIP example_udp_rule = []"
    by (simp_all add: example_udp_rule_def example_udp_target_def zero_rule_def)
  have "m2 = addTargetUDPSession ''r1'' ''t1'' (-1) ?m"
    using c w unfolding example_write by (auto simp: closeAll_def closeSessions_def closeSessionLocked_def)
  then have "tracked m2 (rc_ID example_udp_rule, te_ID example_udp_target)"
    by (simp add: tracked_def targetLocked_def addTargetUDPSession_def newMetricsCounter_def)
  moreover have "gauges_ok 1 ?m" by (simp add: gauges_ok_def)
  ultimately show ?thesis
    using udp_stop_race [of 1 ?m example_udp_rule example_udp_target example_udp_net 0 example_client "''t1''" None
        table1 ?m table2 m2 5] w c by (simp add: ids)
qed

end
