(* ===== verification/Tls_Hello_Facts.thy ===== *)
theory Tls_Hello_Facts
  imports Tls_Hello
begin

text \<open>
  What holds of reading a ClientHello: no index is out of range for any input, no byte of the
  connection is lost, and the server name of a well-formed ClientHello is found however the client
  cut it into records.
\<close>

subsection \<open>No panic\<close>

definition safe :: "hello_error + 'a \<Rightarrow> bool" where
  "safe r \<longleftrightarrow> r \<noteq> Inl Panic"

lemma safe_Inr [simp]: "safe (Inr x)" "safe (Inl e) \<longleftrightarrow> e \<noteq> Panic"
  by (simp_all add: safe_def)

lemma rd8_no_panic: "i < length bs \<Longrightarrow> (\<And>v. safe (k v)) \<Longrightarrow> safe (rd8 bs i k)"
  by (simp add: rd8_def)

lemma rd16_no_panic: "i + 2 \<le> length bs \<Longrightarrow> (\<And>v. safe (k v)) \<Longrightarrow> safe (rd16 bs i k)"
  by (simp add: rd16_def)

lemma sub_slice_no_panic:
  "i \<le> j \<Longrightarrow> j \<le> length bs \<Longrightarrow> (\<And>v. safe (k v)) \<Longrightarrow> safe (sub_slice bs i j k)"
  by (simp add: sub_slice_def)

lemmas no_panic = rd8_no_panic rd16_no_panic sub_slice_no_panic

lemma sniNamesLoop_no_panic: "till \<le> length data \<Longrightarrow> safe (sniNamesLoop data till cursor)"
proof (induction data till cursor rule: sniNamesLoop.induct)
  case (1 data till cursor)
  show ?case
    by (subst sniNamesLoop.simps) (use 1 in \<open>auto simp: Let_def intro!: no_panic\<close>)
qed

lemma parseSNIExtension_no_panic: "safe (parseSNIExtension data)"
  by (auto simp: parseSNIExtension_def intro!: rd16_no_panic sniNamesLoop_no_panic)

lemma extensionsLoop_no_panic: "till \<le> length hs \<Longrightarrow> safe (extensionsLoop hs till cursor)"
proof (induction hs till cursor rule: extensionsLoop.induct)
  case (1 hs till cursor)
  show ?case
    by (subst extensionsLoop.simps)
      (use 1 in \<open>auto simp: Let_def parseSNIExtension_no_panic intro!: no_panic\<close>)
qed

lemma handshakeLengthOf_no_panic:
  "4 \<le> length hs \<Longrightarrow> (\<And>v. safe (k v)) \<Longrightarrow> safe (handshakeLengthOf hs k)"
  unfolding handshakeLengthOf_def by (intro rd8_no_panic) auto

lemma parseClientHelloSNI_no_panic: "safe (parseClientHelloSNI hs)"
  by (auto simp: parseClientHelloSNI_def Let_def
      intro!: handshakeLengthOf_no_panic no_panic extensionsLoop_no_panic)

lemma expectedHandshakeBytes_no_panic: "safe (expectedHandshakeBytes hs expected)"
  by (auto simp: expectedHandshakeBytes_def intro!: handshakeLengthOf_no_panic)

text \<open>One round of the loop that reads a whole record.\<close>

definition record_ok :: "byte list \<Rightarrow> byte list \<Rightarrow> nat \<Rightarrow> bool" where
  "record_ok preface stream n \<longleftrightarrow>
     length preface < 8192 \<and> 5 \<le> length stream \<and> stream ! 0 = 0x16 \<and> n = Uint16 (slice 3 5 (take 5 stream)) \<and>
     n \<noteq> 0 \<and> length preface + 5 + n \<le> 8192 \<and> 5 + n \<le> length stream"

lemma helloLoop_record:
  assumes "record_ok preface stream n" "expectedHandshakeBytes (hs @ take n (drop 5 stream)) expected = Inr e"
  shows "helloLoop preface hs expected stream =
    (if e > 0 \<and> length hs + n \<ge> e
     then (preface @ take (5 + n) stream, parseClientHelloSNI (take e (hs @ take n (drop 5 stream))), drop (5 + n) stream)
     else helloLoop (preface @ take (5 + n) stream) (hs @ take n (drop 5 stream)) e (drop (5 + n) stream))"
proof -
  have n: "Uint16 (slice 3 5 (take 5 stream)) = n"
    and len: "5 \<le> length stream" "5 + n \<le> length stream" "\<not> length stream - 5 < n"
    using assms(1) by (auto simp: record_ok_def)
  have "take 5 stream @ take n (drop 5 stream) = take (5 + n) stream" by (simp add: take_add)
  then show ?thesis using assms len
    by (subst helloLoop.simps) (simp add: n Let_def record_ok_def add.commute [of _ 5])
qed

lemma helloLoop_stop:
  assumes "helloLoop preface hs expected stream = (p, result, rest)" "length preface \<le> 8192"
    and "\<And>n e. record_ok preface stream n \<Longrightarrow> expectedHandshakeBytes (hs @ take n (drop 5 stream)) expected \<noteq> Inr e"
  shows "\<exists>e. result = Inl e \<and> e \<noteq> Panic"
proof -
  have "record_ok preface stream (Uint16 (slice 3 5 (take 5 stream)))"
    if "length preface < 8192" "\<not> length stream < 5" "take 5 stream ! 0 = 0x16"
      "\<not> (Uint16 (slice 3 5 (take 5 stream)) = 0 \<or> length (preface @ take 5 stream) + Uint16 (slice 3 5 (take 5 stream)) > 8192)"
      "\<not> length (drop 5 stream) < Uint16 (slice 3 5 (take 5 stream))"
    using that by (auto simp: record_ok_def)
  then show ?thesis
    using assms(1) assms(3) [of "Uint16 (slice 3 5 (take 5 stream))"] expectedHandshakeBytes_no_panic
    unfolding helloLoop.simps [of preface hs expected stream] Let_def
    by (auto simp: safe_def split: if_splits sum.splits)
qed

lemma helloLoop_safe:
  "length preface \<le> 8192 \<Longrightarrow> helloLoop preface hs expected stream = (p, result, rest) \<Longrightarrow>
   safe result \<and> (\<forall>name. result = Inr name \<longrightarrow> p @ rest = preface @ stream \<and> length p \<le> 8192)"
proof (induction "length stream" arbitrary: preface hs expected stream rule: less_induct)
  case less
  show ?case
  proof (cases "\<exists>n e. record_ok preface stream n \<and> expectedHandshakeBytes (hs @ take n (drop 5 stream)) expected = Inr e")
    case True
    then obtain n e where ok: "record_ok preface stream n"
      and e: "expectedHandshakeBytes (hs @ take n (drop 5 stream)) expected = Inr e" by blast
    have len: "length (preface @ take (5 + n) stream) \<le> 8192" "length (drop (5 + n) stream) < length stream"
      using ok by (auto simp: record_ok_def)
    show ?thesis
      using helloLoop_record [OF ok e] less.prems(2) len less.hyps [OF len(2,1)]
        parseClientHelloSNI_no_panic [of "take e (hs @ take n (drop 5 stream))"]
      by (auto split: if_splits)
  next
    case False
    then show ?thesis using helloLoop_stop [OF less.prems(2,1)] by auto
  qed
qed


subsection \<open>A ClientHello is understood\<close>

text \<open>The encoding of a ClientHello (RFC 8446, 6066) that carries a server name: extensions of other
  types before it, anything after it.\<close>

definition enc16 :: "nat \<Rightarrow> byte list" where
  "enc16 n = [word_of_nat (n div 256), word_of_nat (n mod 256)]"

definition enc24 :: "nat \<Rightarrow> byte list" where
  "enc24 n = [word_of_nat (n div 65536), word_of_nat (n div 256 mod 256), word_of_nat (n mod 256)]"

definition extension :: "nat \<times> byte list \<Rightarrow> byte list" where
  "extension x = enc16 (fst x) @ enc16 (length (snd x)) @ snd x"

definition sni_body :: "string \<Rightarrow> byte list" where
  "sni_body host = enc16 (3 + length host) @ [0] @ enc16 (length host) @ bytes_of host"

record hello =
  h_random :: "byte list"
  h_session :: "byte list"
  h_ciphers :: "byte list"
  h_compression :: "byte list"
  h_before :: "(nat \<times> byte list) list"
  h_host :: string
  h_after :: "byte list"

definition hello_extensions :: "hello \<Rightarrow> byte list" where
  "hello_extensions h = concat (map extension (h_before h)) @ extension (0, sni_body (h_host h)) @ h_after h"

definition hello_body :: "hello \<Rightarrow> byte list" where
  "hello_body h =
     h_random h @ [word_of_nat (length (h_session h))] @ h_session h @
     enc16 (length (h_ciphers h)) @ h_ciphers h @
     [word_of_nat (length (h_compression h))] @ h_compression h @
     enc16 (length (hello_extensions h)) @ hello_extensions h"

definition hello_bytes :: "hello \<Rightarrow> byte list" where
  "hello_bytes h = [1] @ enc24 (length (hello_body h)) @ hello_body h"

definition hello_wf :: "hello \<Rightarrow> bool" where
  "hello_wf h \<longleftrightarrow>
     length (h_random h) = 34 \<and> length (h_session h) < 256 \<and> length (h_ciphers h) < 65536 \<and>
     length (h_compression h) < 256 \<and> length (hello_extensions h) < 65536 \<and> length (h_host h) + 3 < 65536 \<and>
     (\<forall>x \<in> set (h_before h). 0 < fst x \<and> fst x < 65536 \<and> length (snd x) < 65536)"

definition tls_record :: "byte list \<Rightarrow> byte list" where
  "tls_record chunk = [0x16, 3, 1] @ enc16 (length chunk) @ chunk"

lemma length_enc [simp]: "length (enc16 n) = 2" "length (enc24 n) = 3"
  by (simp_all add: enc16_def enc24_def)

lemma unat_byte: "n < 256 \<Longrightarrow> unat (word_of_nat n :: byte) = n"
  by (simp add: unat_of_nat)

lemma Uint16_enc16: "n < 65536 \<Longrightarrow> Uint16 (enc16 n) = n"
  by (simp add: Uint16_def enc16_def unat_byte)

lemma rd8_at: "i = length xs \<Longrightarrow> rd8 (xs @ b # ys) i k = k (unat b)"
  by (simp add: rd8_def)

lemma rd16_at: "i = length xs \<Longrightarrow> n < 65536 \<Longrightarrow> rd16 (xs @ enc16 n @ ys) i k = k n"
  by (simp add: rd16_def slice_def Uint16_enc16)

lemma sub_slice_at: "i = length xs \<Longrightarrow> j = i + length m \<Longrightarrow> sub_slice (xs @ m @ ys) i j k = k m"
  by (simp add: sub_slice_def slice_def)

lemma parseSNIExtension_body:
  assumes "length host + 3 < 65536"
  shows "parseSNIExtension (sni_body host) = Inr host"
proof -
  let ?L = "enc16 (3 + length host)" and ?N = "enc16 (length host)"
  have body: "sni_body host = ?L @ (0 # ?N @ bytes_of host)" by (simp add: sni_body_def)
  have rd: "rd16 (sni_body host) 0 k = k (3 + length host)" "rd8 (sni_body host) 2 k = k 0"
    "rd16 (sni_body host) 3 k = k (length host)" for k :: "nat \<Rightarrow> hello_error + string"
    using assms rd16_at [of 0 "[]" "3 + length host" "0 # ?N @ bytes_of host" k]
      rd8_at [of 2 ?L 0 "?N @ bytes_of host" k] rd16_at [of 3 "?L @ [0]" "length host" "bytes_of host" k]
    by (simp_all add: body)
  have sl: "sub_slice (sni_body host) 5 (5 + length host) k = k (bytes_of host)"
    for k :: "byte list \<Rightarrow> hello_error + string"
    using sub_slice_at [of 5 "?L @ [0] @ ?N" "5 + length host" "bytes_of host" "[]" k] by (simp add: body)
  have "sniNamesLoop (sni_body host) (2 + (3 + length host)) 2 = Inr host"
    by (subst sniNamesLoop.simps) (simp add: rd sl)
  then show ?thesis by (simp add: parseSNIExtension_def rd) (simp add: body add.commute)
qed

lemma extensionsLoop_step:
  assumes "t < 65536" "length b < 65536" "till = length xs + length (extension (t, b)) + extra"
    and "hs = xs @ extension (t, b) @ ys"
  shows "extensionsLoop hs till (length xs) =
    (if t = 0 then parseSNIExtension b else extensionsLoop hs till (length (xs @ extension (t, b))))"
proof -
  have hs: "hs = xs @ enc16 t @ enc16 (length b) @ b @ ys" using assms(4) by (simp add: extension_def)
  have rd: "rd16 hs (length xs) k = k t" "rd16 hs (length xs + 2) k = k (length b)"
    for k :: "nat \<Rightarrow> hello_error + string"
    using assms(1,2) rd16_at [of "length xs" xs t "enc16 (length b) @ b @ ys" k]
      rd16_at [of "length xs + 2" "xs @ enc16 t" "length b" "b @ ys" k] by (simp_all add: hs)
  have sl: "sub_slice hs (length xs + 4) (length xs + 4 + length b) k = k b"
    for k :: "byte list \<Rightarrow> hello_error + string"
    using sub_slice_at [of "length xs + 4" "xs @ enc16 t @ enc16 (length b)" "length xs + 4 + length b" b ys k]
    by (simp add: hs)
  have ext: "length (extension (t, b)) = 4 + length b" by (simp add: extension_def)
  show ?thesis using assms(3)
    by (subst extensionsLoop.simps) (simp add: rd sl [unfolded add.assoc] ext Let_def add.assoc del: add_2_eq_Suc')
qed

lemma extensionsLoop_finds:
  assumes "hs = xs @ concat (map extension before) @ extension (0, sni_body host) @ ys @ zs"
    and "till = length xs + length (concat (map extension before) @ extension (0, sni_body host) @ ys)"
    and "\<forall>x \<in> set before. 0 < fst x \<and> fst x < 65536 \<and> length (snd x) < 65536" and "length host + 5 < 65536"
  shows "extensionsLoop hs till (length xs) = Inr host"
  using assms
proof (induction before arbitrary: xs)
  case Nil
  have "length (sni_body host) < 65536" using Nil.prems(4) by (simp add: sni_body_def)
  then show ?case
    using Nil.prems extensionsLoop_step [of 0 "sni_body host" till xs "length ys" hs "ys @ zs"]
      parseSNIExtension_body [of host] by simp
next
  case (Cons x before)
  obtain t b where x: "x = (t, b)" by fastforce
  let ?more = "length (concat (map extension before) @ extension (0, sni_body host) @ ys)"
  let ?ys = "concat (map extension before) @ extension (0, sni_body host) @ ys @ zs"
  have "extensionsLoop hs till (length xs) = extensionsLoop hs till (length (xs @ extension x))"
    using Cons.prems x extensionsLoop_step [of t b till xs ?more hs ?ys] by simp
  also have "\<dots> = Inr host" using Cons.prems by (intro Cons.IH) simp_all
  finally show ?case .
qed

lemma parseClientHelloSNI_hello:
  assumes wf: "hello_wf h" and small: "length (hello_bytes h) \<le> 8192"
  shows "parseClientHelloSNI (hello_bytes h) = Inr (h_host h)"
proof -
  let ?S = "h_session h" and ?C = "h_ciphers h" and ?M = "h_compression h" and ?E = "hello_extensions h"
  let ?hs = "hello_bytes h" and ?B = "hello_body h"
  define p1 where "p1 = [1] @ enc24 (length ?B) @ h_random h"
  define p2 where "p2 = p1 @ [word_of_nat (length ?S)] @ ?S"
  define p3 where "p3 = p2 @ enc16 (length ?C) @ ?C"
  define p4 where "p4 = p3 @ [word_of_nat (length ?M)] @ ?M"
  define p5 where "p5 = p4 @ enc16 (length ?E)"
  have len: "length (h_random h) = 34" "length ?S < 256" "length ?C < 65536" "length ?M < 256" "length ?E < 65536"
    using wf by (simp_all add: hello_wf_def)
  have lp: "length p1 = 38" "length p2 = 39 + length ?S" "length p3 = length p2 + 2 + length ?C"
    "length p4 = length p3 + 1 + length ?M" "length p5 = length p4 + 2"
    using len by (simp_all add: p1_def p2_def p3_def p4_def p5_def)
  have hs: "?hs = p1 @ word_of_nat (length ?S) # ?S @ enc16 (length ?C) @ ?C @ word_of_nat (length ?M) # ?M @ enc16 (length ?E) @ ?E"
    "?hs = p2 @ enc16 (length ?C) @ (?C @ word_of_nat (length ?M) # ?M @ enc16 (length ?E) @ ?E)"
    "?hs = p3 @ word_of_nat (length ?M) # (?M @ enc16 (length ?E) @ ?E)"
    "?hs = p4 @ enc16 (length ?E) @ ?E" "?hs = p5 @ ?E"
    by (simp_all add: hello_bytes_def hello_body_def p1_def p2_def p3_def p4_def p5_def)
  have n: "length ?hs = length p5 + length ?E" by (simp add: hs(5))
  have B: "length ?B = length ?hs - 4" by (simp add: hello_bytes_def)
  have rd: "rd8 ?hs 38 k = k (length ?S)" "rd16 ?hs (39 + length ?S) k = k (length ?C)"
    "rd8 ?hs (length p3) k = k (length ?M)" "rd16 ?hs (length p4) k = k (length ?E)"
    for k :: "nat \<Rightarrow> hello_error + string"
    using len lp(1,2) rd8_at [OF refl, of p1 _ _ k] rd16_at [OF refl, of "length ?C" p2 _ k]
      rd8_at [OF refl, of p3 _ _ k] rd16_at [OF refl, of "length ?E" p4 _ k]
    unfolding hs(1) [symmetric] hs(2) [symmetric] hs(3) [symmetric] hs(4) [symmetric]
    by (metis hs unat_byte)+
  have hl: "handshakeLengthOf ?hs k = k (length ?B)" for k :: "nat \<Rightarrow> hello_error + string"
  proof -
    have "length ?B div 65536 = 0" "length ?B < 65536" using small by (simp_all add: hello_bytes_def)
    then show ?thesis
      by (simp add: handshakeLengthOf_def rd8_def hello_bytes_def enc24_def unat_byte)
  qed
  have ext: "extensionsLoop ?hs (length p5 + length ?E) (length p5) = Inr (h_host h)"
  proof (rule extensionsLoop_finds)
    show "?hs = p5 @ concat (map extension (h_before h)) @ extension (0, sni_body (h_host h)) @ h_after h @ []"
      by (simp add: hs(5) hello_extensions_def)
    show "length (h_host h) + 5 < 65536"
      using small n by (simp add: hs(5) hello_extensions_def extension_def sni_body_def)
  qed (use wf in \<open>auto simp: hello_wf_def hello_extensions_def\<close>)
  have rd': "i = 38 \<Longrightarrow> rd8 ?hs i k = k (length ?S)" "i = 39 + length ?S \<Longrightarrow> rd16 ?hs i k = k (length ?C)"
    "i = length p3 \<Longrightarrow> rd8 ?hs i k = k (length ?M)" "i = length p4 \<Longrightarrow> rd16 ?hs i k = k (length ?E)"
    for i and k :: "nat \<Rightarrow> hello_error + string" using rd by simp_all
  have ext': "i = length p5 \<Longrightarrow> j = length p5 + length ?E \<Longrightarrow> extensionsLoop ?hs j i = Inr (h_host h)" for i j
    using ext by simp
  have first: "?hs ! 0 = 1" by (simp add: hello_bytes_def)
  show ?thesis
    using n lp first B by (simp add: parseClientHelloSNI_def Let_def hl rd' ext')
qed

lemma expected_prefix:
  fixes f :: "byte list"
  assumes "4 \<le> length hs" "hs ! 0 = 1" "\<And>k :: nat \<Rightarrow> hello_error + nat. handshakeLengthOf hs k = k (length hs - 4)"
    and "length hs \<le> 8192" "hs = g @ ys" and e: "e = (if 4 \<le> length f then length hs else 0)"
    and f: "length f \<le> length g"
  shows "expectedHandshakeBytes g e = Inr (if 4 \<le> length g then length hs else 0)"
proof (cases "4 \<le> length g \<and> e = 0")
  case True
  have "handshakeLengthOf g k = handshakeLengthOf hs k" for k :: "nat \<Rightarrow> hello_error + nat"
    using True by (simp add: handshakeLengthOf_def rd8_def assms(5) nth_append)
  moreover have "g ! 0 = 1" using True assms(2,5) by (cases g) auto
  ultimately show ?thesis using True assms(1,3,4) by (simp add: expectedHandshakeBytes_def)
next
  case False
  then show ?thesis using e f by (auto simp: expectedHandshakeBytes_def)
qed

lemma tls_record_ok:
  assumes "chunk \<noteq> []" "length preface + length (tls_record chunk) \<le> 8192"
  shows "record_ok preface (tls_record chunk @ rest) (length chunk)"
    and "take (5 + length chunk) (tls_record chunk @ rest) = tls_record chunk"
    and "drop (5 + length chunk) (tls_record chunk @ rest) = rest"
    and "take (length chunk) (drop 5 (tls_record chunk @ rest)) = chunk"
proof -
  have len: "length (tls_record chunk) = 5 + length chunk" by (simp add: tls_record_def)
  have body: "drop 5 (tls_record chunk @ rest) = chunk @ rest" "slice 3 5 (take 5 (tls_record chunk @ rest)) = enc16 (length chunk)"
    "(tls_record chunk @ rest) ! 0 = 0x16"
    by (simp_all add: tls_record_def slice_def)
  show "record_ok preface (tls_record chunk @ rest) (length chunk)"
    using assms len Uint16_enc16 [of "length chunk"] unfolding record_ok_def body by auto
  show "take (5 + length chunk) (tls_record chunk @ rest) = tls_record chunk"
    and "drop (5 + length chunk) (tls_record chunk @ rest) = rest"
    using len by simp_all
  show "take (length chunk) (drop 5 (tls_record chunk @ rest)) = chunk" unfolding body by simp
qed

lemma helloLoop_records:
  assumes hs: "4 \<le> length hs" "hs ! 0 = 1" "\<And>k :: nat \<Rightarrow> hello_error + nat. handshakeLengthOf hs k = k (length hs - 4)"
      "length hs \<le> 8192"
    and "chunks \<noteq> []" "\<forall>c \<in> set chunks. c \<noteq> []" "hs = f @ concat chunks"
    and "length preface + length (concat (map tls_record chunks)) \<le> 8192"
    and "e = (if 4 \<le> length f then length hs else 0)"
  shows "helloLoop preface f e (concat (map tls_record chunks) @ rest) =
    (preface @ concat (map tls_record chunks), parseClientHelloSNI hs, rest)"
  using assms(5-)
proof (induction chunks arbitrary: preface f e)
  case (Cons c chunks)
  let ?g = "f @ c" and ?more = "concat (map tls_record chunks) @ rest"
  have size: "length preface + length (tls_record c) \<le> 8192" using Cons.prems(4) by simp
  note rec = tls_record_ok [OF _ size, of ?more]
  have c: "c \<noteq> []" using Cons.prems(2) by simp
  have exp: "expectedHandshakeBytes ?g e = Inr (if 4 \<le> length ?g then length hs else 0)"
    using Cons.prems(3,5) by (intro expected_prefix [OF hs, where f = f and ys = "concat chunks"]) simp_all
  have loop: "helloLoop preface f e (tls_record c @ ?more) =
      (if 4 \<le> length ?g \<and> length ?g \<ge> length hs
       then (preface @ tls_record c, parseClientHelloSNI (take (length hs) ?g), ?more)
       else helloLoop (preface @ tls_record c) ?g (if 4 \<le> length ?g then length hs else 0) ?more)"
    using helloLoop_record [OF rec(1) [OF c], of f e] exp rec(2-4) [OF c] hs(1) by auto
  show ?case
  proof (cases "chunks = []")
    case True
    then show ?thesis using loop Cons.prems(3) hs(1) by simp
  next
    case False
    then have "concat chunks \<noteq> []" using Cons.prems(2) by (cases chunks) auto
    then have "\<not> length ?g \<ge> length hs" using Cons.prems(3) by simp
    then have "helloLoop preface f e (tls_record c @ ?more) =
        helloLoop (preface @ tls_record c) ?g (if 4 \<le> length ?g then length hs else 0) ?more"
      using loop by simp
    also have "\<dots> = ((preface @ tls_record c) @ concat (map tls_record chunks), parseClientHelloSNI hs, rest)"
      using False Cons.prems by (intro Cons.IH) simp_all
    finally show ?thesis by simp
  qed
qed simp

lemma client_hello_parsed:
  assumes "hello_wf h" and "concat chunks = hello_bytes h" and "list_all (\<lambda>c. c \<noteq> []) chunks"
    and "length (concat (map tls_record chunks)) \<le> 8192"
  shows "readTLSClientHelloSNI (concat (map tls_record chunks) @ rest) =
    (concat (map tls_record chunks), Inr (h_host h), rest)"
proof -
  let ?hs = "hello_bytes h"
  have "length (concat chunks) \<le> length (concat (map tls_record chunks))"
    by (induction chunks) (simp_all add: tls_record_def)
  then have small: "length ?hs \<le> 8192" using assms(2,4) by simp
  have four: "4 \<le> length ?hs" "?hs ! 0 = 1" by (simp_all add: hello_bytes_def)
  have hl: "handshakeLengthOf ?hs k = k (length ?hs - 4)" for k :: "nat \<Rightarrow> hello_error + nat"
    using small by (simp add: handshakeLengthOf_def rd8_def hello_bytes_def enc24_def unat_byte)
  have "chunks \<noteq> []" using assms(2) four by auto
  then have "helloLoop [] [] 0 (concat (map tls_record chunks) @ rest) =
      ([] @ concat (map tls_record chunks), parseClientHelloSNI ?hs, rest)"
    using assms by (intro helloLoop_records [OF four hl small]) (simp_all add: list_all_iff)
  then show ?thesis
    using parseClientHelloSNI_hello [OF assms(1) small] by (simp add: readTLSClientHelloSNI_def)
qed

text \<open>
  C38: a ClientHello with a server name is understood: for every well-formed ClientHello, with any
  session id, cipher suites, compression methods and other extensions, cut in any way into TLS
  records that together stay within the limit of 8192 bytes, and followed by anything, the reader
  finds exactly the server name, and gives back exactly the bytes of the records.
\<close>

theorem client_hello_roundtrip:
  assumes "hello_wf h" and "concat chunks = hello_bytes h" and "list_all (\<lambda>c. c \<noteq> []) chunks"
    and "length (concat (map tls_record chunks)) \<le> 8192"
  shows "readTLSClientHelloSNI (concat (map tls_record chunks) @ rest) =
    (concat (map tls_record chunks), Inr (h_host h), rest)"
  using assms by (rule client_hello_parsed)

definition example_hello :: hello where
  "example_hello = \<lparr>h_random = replicate 34 7, h_session = [1, 2], h_ciphers = [0x13, 0x01], h_compression = [0],
     h_before = [(10, [0, 2, 0, 23])], h_host = ''a.io'', h_after = []\<rparr>"

theorem client_hello_roundtrip_witness:
  "readTLSClientHelloSNI (concat (map tls_record [take 2 (hello_bytes example_hello), drop 2 (hello_bytes example_hello)]) @ [23]) =
    (concat (map tls_record [take 2 (hello_bytes example_hello), drop 2 (hello_bytes example_hello)]), Inr ''a.io'', [23])"
proof -
  have wf: "hello_wf example_hello"
    by (simp add: hello_wf_def example_hello_def hello_extensions_def extension_def sni_body_def)
  have len: "length (hello_bytes example_hello) = 70"
    by (simp add: hello_bytes_def hello_body_def hello_extensions_def extension_def sni_body_def example_hello_def)
  have "h_host example_hello = ''a.io''" by (simp add: example_hello_def)
  then show ?thesis
    using client_hello_roundtrip [OF wf, of "[take 2 (hello_bytes example_hello), drop 2 (hello_bytes example_hello)]" "[23]"]
      len by (simp add: tls_record_def) (metis gr_implies_not0 length_0_conv zero_less_numeral)
qed


subsection \<open>The PROXY header in front of the ClientHello\<close>

lemma length_digits: "n < 10 ^ k \<Longrightarrow> 0 < k \<Longrightarrow> length (digits n) \<le> k"
proof (induction k arbitrary: n)
  case (Suc k)
  show ?case
  proof (cases "n < 10")
    case True
    then show ?thesis by (simp add: digits.simps)
  next
    case False
    then have "0 < k" using Suc.prems(1) by (cases k) auto
    moreover have "n div 10 < 10 ^ k" using Suc.prems(1) by (simp add: div_less_iff_less_mult mult.commute)
    ultimately have "length (digits (n div 10)) \<le> k" using Suc.IH by blast
    then show ?thesis using False by (simp add: digits.simps [of n])
  qed
qed simp

lemma length_ip4_string: "length (ip4_string p) \<le> 15"
proof -
  have "unat (b :: byte) < 2 ^ LENGTH(8)" for b by (rule unsigned_less)
  then have "unat (b :: byte) < 10 ^ 3" for b by (rule less_trans) simp
  then have "length (digits (unat (b :: byte))) \<le> 3" for b by (intro length_digits) simp_all
  from this [of "p ! 0"] this [of "p ! 1"] this [of "p ! 2"] this [of "p ! 3"]
  show ?thesis by (simp add: ip4_string_def)
qed

lemma length_Itoa_port: "0 \<le> p \<Longrightarrow> p \<le> 65535 \<Longrightarrow> length (Itoa p) \<le> 5"
  by (simp add: Itoa_def) (intro length_digits; simp)

lemma v1LineLoop_line:
  "list_all (\<lambda>b. b \<noteq> 10) xs \<Longrightarrow> length acc + length xs < 107 \<Longrightarrow>
   v1LineLoop acc (xs @ 10 # rest) = (Inr (acc @ xs @ [10]), rest)"
  by (induction xs arbitrary: acc) (simp_all add: v1LineLoop.simps [of _ "_ # _"])

lemma bytes_no_lf: "list_all (\<lambda>c. graphic c \<or> c = CHR '' '') s \<Longrightarrow> list_all (\<lambda>b. b \<noteq> 10) (bytes_of s)"
proof -
  have "(word_of_nat (code c) :: byte) \<noteq> 10" if "graphic c \<or> c = CHR '' ''" for c
  proof
    assume "(word_of_nat (code c) :: byte) = 10"
    moreover have "unat (word_of_nat (code c) :: byte) = code c" by (simp add: unat_of_nat)
    ultimately have "code c = 10" by simp
    with that show False by (auto simp: graphic_def)
  qed
  then show "list_all (\<lambda>c. graphic c \<or> c = CHR '' '') s \<Longrightarrow> list_all (\<lambda>b. b \<noteq> 10) (bytes_of s)"
    by (induction s) (simp_all add: bytes_of_def)
qed

lemma consume_V1:
  assumes i: "proxy_carries i" "pi_Version i = ProxyProtocolV1" and h: "BuildProxyHeader i = Inr h"
  shows "consumeInboundProxyHeader (h @ rest) ''V1'' = (Inr (proxy_canon i), rest)"
proof -
  let ?a = "To4 (pi_SourceIP i)" and ?b = "To4 (pi_DestinationIP i)"
  let ?line = "''PROXY TCP4 '' @ ip4_string ?a @ '' '' @ ip4_string ?b @ '' '' @
      Itoa (pi_SourcePort i) @ '' '' @ Itoa (pi_DestinationPort i)"
  have eq: "h = (bytes_of ?line @ [13]) @ [10]"
    using h i(2) by (auto simp: BuildProxyHeader_def buildProxyV1_def bytes_of_def Let_def split: if_splits)
  have "list_all (\<lambda>c. graphic c \<or> c = CHR '' '') ?line"
    using ip4_string_graphic Itoa_graphic by (auto simp: list_all_iff graphic_def)
  then have "list_all (\<lambda>b. b \<noteq> 10) (bytes_of ?line @ [13])" using bytes_no_lf by simp
  moreover have "length (bytes_of ?line @ [13]) < 107"
    using length_ip4_string [of ?a] length_ip4_string [of ?b] i(1)
      length_Itoa_port [of "pi_SourcePort i"] length_Itoa_port [of "pi_DestinationPort i"]
    by (simp add: proxy_carries_def)
  ultimately have "readProxyProtocolV1Line (h @ rest) = (Inr h, rest)"
    using v1LineLoop_line [of "bytes_of ?line @ [13]" "[]" rest] by (simp add: readProxyProtocolV1Line_def eq)
  moreover have "ParseProxyHeader h = Inr (proxy_canon i, [])"
    using proxy.parsed [OF i(1) h, of "[]"] by simp
  moreover have "pi_Version (proxy_canon i) = ProxyProtocolV1" using i(2) by (simp add: proxy_canon_def)
  ultimately show ?thesis by (simp add: consumeInboundProxyHeader_def)
qed

lemma consume_V2:
  assumes i: "proxy_carries i" "pi_Version i = ProxyProtocolV2" and h: "BuildProxyHeader i = Inr h"
  shows "consumeInboundProxyHeader (h @ rest) ''V2'' = (Inr (proxy_canon i), rest)"
proof -
  obtain xs where eq: "h = (proxyV2Signature @ [0x21, 0x11] @ PutUint16 12) @ xs" "length xs = 12"
    using h i To4_length4 by (auto simp: BuildProxyHeader_def buildProxyV2_def Let_def proxy_carries_def split: if_splits)
  let ?head = "proxyV2Signature @ [0x21, 0x11] @ PutUint16 12"
  have head: "length ?head = 16" "Uint16 (slice 14 16 ?head) = 12"
    by (simp_all add: proxyV2Signature_def slice_def PutUint16_def Uint16_def)
  have split: "take 16 (h @ rest) = ?head" "drop 16 (h @ rest) = xs @ rest" "\<not> length (h @ rest) < 16"
    using eq head(1) by simp_all
  have "ParseProxyHeader (?head @ xs) = Inr (proxy_canon i, [])"
    using proxy.parsed [OF i(1) h, of "[]"] eq(1) by simp
  moreover have "pi_Version (proxy_canon i) = ProxyProtocolV2" using i(2) by (simp add: proxy_canon_def)
  ultimately show ?thesis
    unfolding consumeInboundProxyHeader_def split Let_def head(2) using split(3) eq(2) by simp
qed


definition example_sni_rule :: RuleConfig where
  "example_sni_rule = zero_rule\<lparr>rc_ID := ''r1'', rc_MatchType := MatchTypeTLSSNI, rc_SNIHostname := ''A.io'',
     rc_ProxyProtocolIn := ''V1''\<rparr>"


end
