(* ===== verification/Tcp_Proxy.thy ===== *)
theory Tcp_Proxy
  imports Udp_Sessions Tls_Hello_Facts "HOL-Library.Sublist"
begin

text \<open>
  \<open>proxyTCP\<close> of \<open>pkg/core/forward/supervisor.go\<close>: the life of one accepted TCP connection. What the
  outside world answers during that life (the client's bytes, the dial, the writes, the chunks the two
  copy loops deliver) is the record \<open>tcpConn\<close>; the handler is a function of it and of the metrics.
\<close>

record tcpConn =
  tn_remote :: string
  tn_deadline :: bool
  tn_input :: "byte list"
  tn_dial :: "ip option \<Rightarrow> string \<Rightarrow> (string \<times> int) option"
  tn_format :: "nat \<Rightarrow> ip \<times> int \<Rightarrow> ip \<times> int \<Rightarrow> string + byte list"
  tn_writeHeader :: "nat \<times> bool"
  tn_writePreface :: "nat \<times> bool"
  tn_copy :: "(bool \<times> nat) list"

text \<open>A dial answers the address of the upstream and the time it took. A write answers how many bytes
  went out and whether there was no error. A copied chunk is an upload (\<open>True\<close>) or a download of so many
  bytes.\<close>

datatype tcpResult = Dropped | Forwarded TargetEndpoint "byte list" "byte list" "byte list"

definition dialTCPUpstream :: "tcpConn \<Rightarrow> string \<Rightarrow> string \<Rightarrow> (string \<times> int) option" where
  "dialTCPUpstream c sendIP address = tn_dial c (localIP sendIP) address"

text \<open>The first part of the handler: the rule, the bytes read ahead, the client address, and the
  reader for the rest.\<close>

definition tcpClassify :: "tcpConn \<Rightarrow> RuleConfig list \<Rightarrow> (RuleConfig \<times> byte list \<times> string \<times> byte list) option" where
  "tcpClassify c rules =
     (let (rule, ok) = selectAnyInboundRule rules in
      if ok then
        (let proxyVersion = fwd_normalizedProxyProtocol (rc_ProxyProtocolIn rule) in
         if proxyVersion \<noteq> [] then
           if \<not> tn_deadline c then None
           else (case consumeInboundProxyHeader (tn_input c) proxyVersion of
                   (Inl _, _) \<Rightarrow> None
                 | (Inr proxyInfo, reader) \<Rightarrow> Some (rule, [], TCPAddr_string (sourceAddr proxyInfo), reader))
         else Some (rule, [], tn_remote c, tn_input c))
      else
        (case selectSNIRule (tn_deadline c) (tn_input c) rules of
           None \<Rightarrow> None
         | Some (rule, preface, source, reader) \<Rightarrow>
             if rc_ID rule = [] then None
             else Some (rule, preface,
               (case source of None \<Rightarrow> tn_remote c | Some a \<Rightarrow> TCPAddr_string a), reader)))"

definition tcpUpload :: "RuleConfig \<Rightarrow> TargetEndpoint \<Rightarrow> nat \<Rightarrow> metricsCounter \<Rightarrow> metricsCounter" where
  "tcpUpload rule target n m = addTargetUpload (rc_ID rule) (te_ID target) (int n) (addUpload (int n) m)"

definition tcpDownload :: "RuleConfig \<Rightarrow> TargetEndpoint \<Rightarrow> nat \<Rightarrow> metricsCounter \<Rightarrow> metricsCounter" where
  "tcpDownload rule target n m = addTargetDownload (rc_ID rule) (te_ID target) (int n) (addDownload (int n) m)"

text \<open>\<open>countingWriter.Write\<close>: bytes that went out are counted also when the write fails.\<close>

definition countWrite :: "(nat \<Rightarrow> metricsCounter \<Rightarrow> metricsCounter) \<Rightarrow> nat \<Rightarrow> metricsCounter \<Rightarrow> metricsCounter" where
  "countWrite add n m = (if n > 0 then add n m else m)"

definition tcpCopy :: "RuleConfig \<Rightarrow> TargetEndpoint \<Rightarrow> (bool \<times> nat) list \<Rightarrow> metricsCounter \<Rightarrow> metricsCounter" where
  "tcpCopy rule target chunks m =
     fold (\<lambda>(up, n) m. countWrite (if up then tcpUpload rule target else tcpDownload rule target) n m) chunks m"

text \<open>The part between opening and closing: the outbound PROXY header, the bytes read ahead, the copy.\<close>

definition tcpRelay ::
    "tcpConn \<Rightarrow> RuleConfig \<Rightarrow> TargetEndpoint \<Rightarrow> string \<Rightarrow> string \<Rightarrow> byte list \<Rightarrow> byte list \<Rightarrow> metricsCounter \<Rightarrow>
     tcpResult \<times> metricsCounter" where
  "tcpRelay c rule target source upstream preface reader m =
     (let up = tcpUpload rule target;
          header = (if rc_ProxyProtocolOut rule \<noteq> [] \<and> rc_ProxyProtocolOut rule \<noteq> ''NONE''
             then map_option Some (case outboundProxyHeader (tn_format c) (rc_ProxyProtocolOut rule) source upstream of
                    Inl _ \<Rightarrow> None | Inr h \<Rightarrow> Some h)
             else Some None)
      in case header of
           None \<Rightarrow> (Dropped, m)
         | Some header \<Rightarrow>
             (let (n, ok) = (case header of None \<Rightarrow> (0, True) | Some _ \<Rightarrow> tn_writeHeader c);
                  m = countWrite up n m
              in if \<not> ok then (Dropped, m)
                 else
                   (let (n, ok) = (if preface \<noteq> [] then tn_writePreface c else (0, True));
                        m = countWrite up n m
                    in if \<not> ok then (Dropped, m)
                       else (Forwarded target (case header of None \<Rightarrow> [] | Some h \<Rightarrow> h) preface reader,
                             tcpCopy rule target (tn_copy c) m))))"

definition proxyTCP :: "tcpConn \<Rightarrow> RuleConfig list \<Rightarrow> metricsCounter \<Rightarrow> tcpResult \<times> metricsCounter" where
  "proxyTCP c rules m =
     (case tcpClassify c rules of
        None \<Rightarrow> (Dropped, m)
      | Some (rule, preface, source, reader) \<Rightarrow>
          (let ((target, reserved, ok), m) = selectTCPTarget rule (Some source) m in
           if \<not> ok then (Dropped, m)
           else
             (case dialTCPUpstream c (rc_SendIP rule) (targetAddress target) of
                None \<Rightarrow> (Dropped, if reserved then releaseTargetTCPDial (rc_ID rule) (te_ID target) m else m)
              | Some (upstream, took) \<Rightarrow>
                  (let m = addTCPConnection 1 (recordTargetLatency (rc_ID rule) (te_ID target) took m);
                       m = (if reserved then promoteTargetTCPDial (rc_ID rule) (te_ID target) m
                            else addTargetTCPConnection (rc_ID rule) (te_ID target) 1 m);
                       (result, m) = tcpRelay c rule target source upstream preface reader m
                   in (result, addTargetTCPConnection (rc_ID rule) (te_ID target) (-1) (addTCPConnection (-1) m))))))"

subsection \<open>The connection gauge\<close>

lemma gval_countWrite:
  "gval (countWrite (tcpUpload rule target) n m) = gval m"
  "gval (countWrite (tcpDownload rule target) n m) = gval m"
  by (simp_all add: countWrite_def tcpUpload_def tcpDownload_def)

lemma gval_tcpCopy: "gval (tcpCopy rule target chunks m) = gval m"
  unfolding tcpCopy_def
  by (induction chunks arbitrary: m) (auto simp: gval_countWrite split: prod.split)

lemma gval_tcpRelay: "gval (snd (tcpRelay c rule target source upstream preface reader m)) = gval m"
  by (auto simp: tcpRelay_def Let_def gval_tcpCopy gval_countWrite split: option.split prod.split)

lemma selectTCPTarget_gauges:
  assumes "gauges_ok N m" "N < gauge_limit" and "selectTCPTarget rule source m = ((target, reserved, found), m')"
  shows "gval m' = (if reserved then bump (gval m) TcpDialing (rc_ID rule, te_ID target) 1 else gval m)"
    and "\<not> reserved \<and> found \<Longrightarrow> \<not> tracked m' (rc_ID rule, te_ID target)"
  using assms(3) tcp_reserve [OF assms(1,2)] tcp_reserve_least [OF assms(1,2)]
  by (auto simp: selectTCPTarget_def reserveLeastLoadTargetTCPDial_def reserveTargetTCPDial_def tracked_def Let_def
           split: if_splits prod.splits option.splits)

lemma tracked_latency: "\<not> tracked m k \<Longrightarrow> \<not> tracked (addTCPConnection d (recordTargetLatency r t took m)) k"
  by (auto simp: tracked_def recordTargetLatency_def withTarget_def targetLocked_def addTCPConnection_def putTarget_def Let_def
           split: option.splits if_splits)

lemma proxyTCP_gauges:
  assumes ok: "gauges_ok N m" "N + 1 < gauge_limit" "0 < N"
  shows "gval (snd (proxyTCP c rules m)) = gval m"
proof (cases "tcpClassify c rules")
  case (Some x)
  obtain rule preface source reader where x: "x = (rule, preface, source, reader)" by (cases x) auto
  obtain target reserved found m1 where sel: "selectTCPTarget rule (Some source) m = ((target, reserved, found), m1)"
    by (metis surj_pair)
  let ?k = "(rc_ID rule, te_ID target)"
  have ok': "N < gauge_limit" using ok(2) by simp
  note g = selectTCPTarget_gauges [OF ok(1) ok' sel]
  show ?thesis
  proof (cases "found \<and> dialTCPUpstream c (rc_SendIP rule) (targetAddress target) \<noteq> None")
    case False
    have "found" if "reserved"
      using sel that by (auto simp: selectTCPTarget_def reserveLeastLoadTargetTCPDial_def Let_def split: if_splits prod.splits option.splits)
    then show ?thesis
      using False Some g(1) tcp.failed_attempt [OF ok, of m1 "rc_ID rule" "te_ID target"]
      by (auto simp: proxyTCP_def x sel split: option.splits)
  next
    case True
    then obtain upstream took where dial: "dialTCPUpstream c (rc_SendIP rule) (targetAddress target) = Some (upstream, took)"
      by auto
    define m3 where "m3 = addTCPConnection 1 (recordTargetLatency (rc_ID rule) (te_ID target) took m1)"
    define m4 where "m4 = (if reserved then promoteTargetTCPDial (rc_ID rule) (te_ID target) m3
      else addTargetTCPConnection (rc_ID rule) (te_ID target) 1 m3)"
    define m5 where "m5 = addTCPConnection (-1) (snd (tcpRelay c rule target source upstream preface reader m4))"
    have m3: "gval m3 = gval m1" by (simp add: m3_def)
    have m5: "gval m5 = gval m4" by (simp add: m5_def gval_tcpRelay)
    have "gval (addTargetTCPConnection (rc_ID rule) (te_ID target) (-1) m5) = gval m"
    proof (cases reserved)
      case True
      then have "gval m5 = bump (gval m) TcpOpen ?k 1"
        using tcp.promoted [OF ok, of m3] g(1) m3 m5 by (simp add: m4_def)
      then show ?thesis by (rule tcp.closed_again [OF ok])
    next
      case False
      then have u: "\<not> tracked m3 ?k" using g(2) True tracked_latency by (simp add: m3_def)
      have m3': "gval m3 = gval m" using m3 g(1) False by simp
      have ok3: "gauges_ok N m3" using ok(1) gauges_ok_cong [OF m3'] by blast
      have "gval m5 = gval m3" using m5 False tcp.add_open [OF ok3 ok'] u by (simp add: m4_def)
      from tcp.never_opened [OF ok3 ok' u this] show ?thesis unfolding m3' .
    qed
    then show ?thesis
      using True unfolding m5_def m4_def m3_def by (cases reserved) (simp_all add: proxyTCP_def Some x sel dial Let_def case_prod_beta)
  qed
qed (simp add: proxyTCP_def)

subsection \<open>The global counters\<close>

definition globals :: "metricsCounter \<Rightarrow> int \<times> int \<times> int" where
  "globals m = (mc_tcpConnections m, mc_uploadBytes m, mc_downloadBytes m)"

lemma globals_target [simp]:
  "globals (putTarget k t m) = globals m"
  "globals (pruneClosedInactiveTargetLocked k t m) = globals m"
  "globals (withTarget k f m) = globals m"
  by (simp_all add: globals_def putTarget_def pruneClosedInactiveTargetLocked_def deleteTarget_def
      queueFinalInactiveTargetDeltaLocked_def withTarget_def split: option.split)

lemma globals_ops [simp]:
  "globals (addTargetTCPConnection r t d m) = globals m" "globals (releaseTargetTCPDial r t m) = globals m"
  "globals (promoteTargetTCPDial r t m) = globals m" "globals (recordTargetLatency r t d m) = globals m"
  "globals (addTargetUpload r t d m) = globals m" "globals (addTargetDownload r t d m) = globals m"
  by (simp_all add: addTargetTCPConnection_def releaseTargetTCPDial_def promoteTargetTCPDial_def Let_def
      recordTargetLatency_def addTargetUpload_def addTargetDownload_def split: option.split)

lemma globals_select:
  "selectTCPTarget rule source m = (r, m') \<Longrightarrow> globals m' = globals m"
  by (auto simp: selectTCPTarget_def reserveLeastLoadTargetTCPDial_def reserveTargetTCPDial_def Let_def
           split: if_splits prod.splits option.splits)

definition uploads :: "(bool \<times> nat) list \<Rightarrow> nat" where
  "uploads chunks = sum_list (map snd (filter fst chunks))"

definition downloads :: "(bool \<times> nat) list \<Rightarrow> nat" where
  "downloads chunks = sum_list (map snd (filter (\<lambda>c. \<not> fst c) chunks))"

abbreviation counts :: "metricsCounter \<Rightarrow> metricsCounter \<Rightarrow> int \<Rightarrow> int \<Rightarrow> bool" where
  "counts m m' u d \<equiv> mc_tcpConnections m' = mc_tcpConnections m \<and>
     i64 (mc_uploadBytes m') = i64 (mc_uploadBytes m + u) \<and> i64 (mc_downloadBytes m') = i64 (mc_downloadBytes m + d)"

lemma counts_globals: "globals m' = globals m \<Longrightarrow> counts m m' 0 0"
  by (simp add: globals_def)

lemma i64_idem: "i64 (i64 x) = i64 x"
  by simp

lemma counts_trans:
  assumes "counts m m1 u d" and "counts m1 m2 u' d'"
  shows "counts m m2 (u + u') (d + d')"
proof -
  have "i64 (x + a) = i64 (i64 x + a)" for x a by (simp add: i64_wrap)
  then show ?thesis using assms by (metis add.assoc)
qed

lemma counts_upload: "counts m (countWrite (tcpUpload rule target) n m) (int n) 0"
proof -
  have "globals (addTargetUpload (rc_ID rule) (te_ID target) (int n) (addUpload (int n) m)) = globals (addUpload (int n) m)" by simp
  then show ?thesis by (simp add: countWrite_def tcpUpload_def globals_def addUpload_def i64_idem)
qed

lemma counts_download: "counts m (countWrite (tcpDownload rule target) n m) 0 (int n)"
proof -
  have "globals (addTargetDownload (rc_ID rule) (te_ID target) (int n) (addDownload (int n) m)) = globals (addDownload (int n) m)" by simp
  then show ?thesis by (simp add: countWrite_def tcpDownload_def globals_def addDownload_def i64_idem)
qed

lemma counts_copy: "counts m (tcpCopy rule target chunks m) (int (uploads chunks)) (int (downloads chunks))"
proof (induction chunks arbitrary: m)
  case (Cons x chunks)
  obtain up n where x: "x = (up, n)" by (cases x)
  define m1 where "m1 = countWrite (if up then tcpUpload rule target else tcpDownload rule target) n m"
  have "counts m m1 (if up then int n else 0) (if up then 0 else int n)"
    using counts_upload [of rule target n m] counts_download [of rule target n m] by (cases up) (simp_all add: m1_def)
  from counts_trans [OF this Cons.IH]
  show ?case by (cases up) (simp_all add: x tcpCopy_def m1_def uploads_def downloads_def add.commute)
qed (simp add: tcpCopy_def uploads_def downloads_def)

text \<open>The bytes of the PROXY header and of what was read ahead that went out.\<close>

definition headWritten :: "tcpConn \<Rightarrow> RuleConfig \<Rightarrow> byte list \<Rightarrow> nat" where
  "headWritten c rule preface =
     (if rc_ProxyProtocolOut rule \<noteq> [] \<and> rc_ProxyProtocolOut rule \<noteq> ''NONE'' then fst (tn_writeHeader c) else 0) +
     (if preface \<noteq> [] then fst (tn_writePreface c) else 0)"

lemma counts_relay:
  assumes "tcpRelay c rule target source upstream preface reader m = (Forwarded t h p r, m')"
  shows "counts m m' (int (headWritten c rule preface + uploads (tn_copy c))) (int (downloads (tn_copy c))) \<and>
    t = target \<and> p = preface \<and> r = reader"
proof -
  let ?out = "rc_ProxyProtocolOut rule \<noteq> [] \<and> rc_ProxyProtocolOut rule \<noteq> ''NONE''"
  define m1 where "m1 = countWrite (tcpUpload rule target) (if ?out then fst (tn_writeHeader c) else 0) m"
  define m2 where "m2 = countWrite (tcpUpload rule target) (if preface \<noteq> [] then fst (tn_writePreface c) else 0) m1"
  have "m' = tcpCopy rule target (tn_copy c) m2 \<and> t = target \<and> p = preface \<and> r = reader"
    using assms by (auto simp: tcpRelay_def Let_def m1_def m2_def split: if_splits prod.splits option.splits sum.splits)
  moreover have "counts m (tcpCopy rule target (tn_copy c) m2)
      (int (headWritten c rule preface + uploads (tn_copy c))) (int (downloads (tn_copy c)))"
    using counts_trans [OF counts_trans [OF
        counts_upload [of rule target "if ?out then fst (tn_writeHeader c) else 0" m, folded m1_def]
        counts_upload [of rule target "if preface \<noteq> [] then fst (tn_writePreface c) else 0" m1, folded m2_def]]
        counts_copy [of rule target "tn_copy c" m2]]
    by (simp add: headWritten_def)
  ultimately show ?thesis by simp
qed

lemma relay_connections:
  "mc_tcpConnections (snd (tcpRelay c rule target source upstream preface reader m)) = mc_tcpConnections m"
  using counts_upload [of rule target] counts_copy [of rule target]
  by (auto simp: tcpRelay_def Let_def split: option.split prod.split)

lemma globals_conn: "globals m' = globals m \<Longrightarrow> mc_tcpConnections m' = mc_tcpConnections m"
  by (simp add: globals_def)

lemma proxyTCP_connections:
  assumes "i64_ok (mc_tcpConnections m)"
  shows "mc_tcpConnections (snd (proxyTCP c rules m)) = mc_tcpConnections m"
proof (cases "tcpClassify c rules")
  case (Some x)
  obtain rule preface source reader where x: "x = (rule, preface, source, reader)" by (cases x) auto
  obtain target reserved found m1 where sel: "selectTCPTarget rule (Some source) m = ((target, reserved, found), m1)"
    by (metis surj_pair)
  have m1: "mc_tcpConnections m1 = mc_tcpConnections m" using globals_conn [OF globals_select [OF sel]] .
  note keep = globals_ops [THEN globals_conn] relay_connections
  have "i64 (i64 (mc_tcpConnections m + 1) - 1) = mc_tcpConnections m"
    using i64_wrap(1) [of "mc_tcpConnections m + 1" "-1"] assms by simp
  then show ?thesis
    by (auto simp: proxyTCP_def Some x sel m1 keep addTCPConnection_def Let_def case_prod_beta split: option.split)
qed (simp add: proxyTCP_def)

subsection \<open>The byte stream\<close>

lemma v1LineLoop_suffix: "v1LineLoop line reader = (r, rest) \<Longrightarrow> suffix rest reader"
proof (induction line reader rule: v1LineLoop.induct)
  case (1 line reader)
  show ?case
  proof (cases reader)
    case Nil
    then show ?thesis using "1.prems" by (auto simp: v1LineLoop.simps [of line] split: if_splits)
  next
    case (Cons b reader')
    then show ?thesis
      using "1.prems" "1.IH" [OF _ Cons]
      by (auto simp: v1LineLoop.simps [of line "b # reader'"] suffix_Cons split: if_splits)
  qed
qed

lemma consume_suffix:
  assumes "consumeInboundProxyHeader reader version = (r, rest)"
  shows "suffix rest reader"
proof (cases "version = ''V1''")
  case True
  then show ?thesis
    using assms v1LineLoop_suffix [of "[]" reader]
    by (auto simp: consumeInboundProxyHeader_def readProxyProtocolV1Line_def split: prod.splits sum.splits if_splits)
next
  case False
  have "suffix (drop n (drop 16 reader)) reader" for n
    by (simp add: suffix_drop)
  then show ?thesis
    using assms False
    by (auto simp: consumeInboundProxyHeader_def Let_def split: prod.splits sum.splits if_splits)
qed

lemma sniVersionLoop_agree:
  "sniVersionLoop version rules = (v, True) \<Longrightarrow>
   (version = None \<or> version = Some v) \<and>
   (\<forall>r \<in> set rules. rc_MatchType r = MatchTypeTLSSNI \<longrightarrow> fwd_normalizedProxyProtocol (rc_ProxyProtocolIn r) = v)"
proof (induction rules arbitrary: version)
  case (Cons r rules)
  then show ?case
    by (cases version) (auto simp: Let_def split: if_splits dest!: Cons.IH)
qed (simp split: option.splits)

lemma selectSNIRule_stream:
  assumes "selectSNIRule deadline conn rules = Some (rule, preface, source, reader)"
  shows "rule \<in> set rules \<and> suffix (preface @ reader) conn \<and>
    (fwd_normalizedProxyProtocol (rc_ProxyProtocolIn rule) = [] \<longrightarrow> preface @ reader = conn)"
proof -
  obtain v where v: "sniInboundProxyProtocol rules = (v, True)"
    using assms by (auto simp: selectSNIRule_def split: if_splits prod.splits)
  obtain inner hostname where
    inner: "if v \<noteq> [] then (\<exists>info. consumeInboundProxyHeader conn v = (Inr info, inner)) else inner = conn"
    and hello: "readTLSClientHelloSNI inner = (preface, Inr hostname, reader)"
    and rule: "find (\<lambda>r. rc_MatchType r = MatchTypeTLSSNI \<and> EqualFold (rc_SNIHostname r) hostname) rules = Some rule"
    using assms v by (auto simp: selectSNIRule_def Let_def split: if_splits prod.splits sum.splits option.splits)
  have r: "rule \<in> set rules" "rc_MatchType rule = MatchTypeTLSSNI" using find_Some_in [OF rule] by simp_all
  have version: "fwd_normalizedProxyProtocol (rc_ProxyProtocolIn rule) = v"
    using sniVersionLoop_agree [of None rules v] v r by (auto simp: sniInboundProxyProtocol_def)
  have "preface @ reader = inner"
    using helloLoop_safe [of "[]" "[]" 0 inner preface "Inr hostname" reader] hello
    by (simp add: readTLSClientHelloSNI_def)
  moreover have "suffix inner conn \<and> (v = [] \<longrightarrow> inner = conn)"
    using inner consume_suffix by (auto split: if_splits)
  ultimately show ?thesis using r(1) version by simp
qed

lemma tcpClassify_stream:
  assumes "tcpClassify c rules = Some (rule, preface, source, reader)"
  shows "rule \<in> set rules \<and> suffix (preface @ reader) (tn_input c) \<and>
    (fwd_normalizedProxyProtocol (rc_ProxyProtocolIn rule) = [] \<longrightarrow> preface @ reader = tn_input c)"
proof (cases "snd (selectAnyInboundRule rules)")
  case True
  then show ?thesis
    using assms consume_suffix [of "tn_input c"]
    by (auto simp: tcpClassify_def selectAnyInboundRule_def Let_def dest!: find_Some_in
             split: if_splits prod.splits sum.splits option.splits)
next
  case False
  then obtain source' where "selectSNIRule (tn_deadline c) (tn_input c) rules = Some (rule, preface, source', reader)"
    using assms by (auto simp: tcpClassify_def split: if_splits prod.splits option.splits)
  then show ?thesis by (rule selectSNIRule_stream)
qed



definition example_tcp_rule :: RuleConfig where
  "example_tcp_rule = zero_rule\<lparr>rc_ID := ''r1'', rc_Enabled := True, rc_Protocol := ProtocolTCP,
     rc_MatchType := MatchTypeAnyInbound,
     rc_Upstream := \<lparr>up_Type = ''TARGET'', up_Target = Some \<lparr>te_ID = ''t1'', te_Host = ''10.0.0.9'', te_Port = 443,
       te_Weight = 1, te_Enabled = True\<rparr>, up_Scheduler = [], up_TargetGroup = []\<rparr>\<rparr>"

definition example_tcp_conn :: tcpConn where
  "example_tcp_conn = \<lparr>tn_remote = ''192.0.2.1:4000'', tn_deadline = True, tn_input = [1, 2, 3],
     tn_dial = (\<lambda>_ _. Some (''10.0.0.9:443'', 2000000)), tn_format = (\<lambda>_ _ _. Inl []),
     tn_writeHeader = (0, True), tn_writePreface = (0, True), tn_copy = [(True, 3), (False, 9)]\<rparr>"

lemma example_forwarded:
  "fst (proxyTCP example_tcp_conn [example_tcp_rule] (newMetricsCounter 0)) =
     Forwarded \<lparr>te_ID = ''t1'', te_Host = ''10.0.0.9'', te_Port = 443, te_Weight = 1, te_Enabled = True\<rparr> [] [] [1, 2, 3]"
  by (simp add: proxyTCP_def tcpClassify_def selectAnyInboundRule_def example_tcp_rule_def zero_rule_def zero_upstream_def
      fwd_normalizedProxyProtocol_def example_tcp_conn_def selectTCPTarget_def selectTarget_def isLeastLoad_def
      reserveTargetTCPDial_def targetLocked_def newMetricsCounter_def dialTCPUpstream_def tcpRelay_def Let_def case_prod_beta)



end
