(* ===== verification/Supervisor.thy ===== *)
theory Supervisor
  imports Udp_Sessions
begin

text \<open>
  The supervisor of \<open>pkg/core/forward/supervisor.go\<close>: it owns one listener per listen address,
  protocol and port, and \<open>Apply\<close> brings the set of listeners from one configuration to the next. The
  sockets that are open are part of the state (\<open>sv_open\<close>); whether the operating system grants a new one
  is the parameter \<open>listen\<close>, a function of the sockets already open. The orders in which Go visits its
  maps are the fields of \<open>mapOrders\<close>.
\<close>

record listenerKey =
  lk_listenIP :: string
  lk_protocol :: Protocol
  lk_port :: int

record listenerRuntime =
  lr_rules :: "RuleConfig list"
  lr_sessions :: udpSessionTable

record stoppedListenerRuntime =
  sl_key :: listenerKey
  sl_rules :: "RuleConfig list"

record Supervisor =
  sv_listeners :: "listenerKey \<rightharpoonup> listenerRuntime"
  sv_metrics :: metricsCounter
  sv_open :: "listenerKey list"

record mapOrders =
  mo_validate :: "listenerKey list"
  mo_old :: "listenerKey list"
  mo_start :: "listenerKey list"
  mo_removed :: "listenerKey list"
  mo_sessions :: "listenerKey \<Rightarrow> string list"
  mo_targets :: "targetMetricKey list"

type_synonym listenFn = "listenerKey list \<Rightarrow> string \<Rightarrow> string \<Rightarrow> string option"

definition NewSupervisor :: "int \<Rightarrow> Supervisor" where
  "NewSupervisor now = \<lparr>sv_listeners = Map.empty, sv_metrics = newMetricsCounter now, sv_open = []\<rparr>"

subsection \<open>Grouping and overlap\<close>

definition normalizedForwardingType :: "RuleConfig \<Rightarrow> ForwardingType" where
  "normalizedForwardingType rule =
     (if rc_ForwardingType rule = [] then ForwardingTypeDirect else rc_ForwardingType rule)"

definition listenerProtocols :: "Protocol \<Rightarrow> Protocol list" where
  "listenerProtocols protocol =
     (if protocol = ProtocolTCPUDP then [ProtocolTCP, ProtocolUDP] else [protocol])"

definition addToGroup ::
    "RuleConfig \<Rightarrow> Protocol \<Rightarrow> (listenerKey \<rightharpoonup> RuleConfig list) \<Rightarrow> (listenerKey \<rightharpoonup> RuleConfig list)" where
  "addToGroup rule protocol grouped =
     (let key = \<lparr>lk_listenIP = rc_ListenIP rule, lk_protocol = protocol, lk_port = rc_Port rule\<rparr> in
      grouped(key \<mapsto> (case grouped key of None \<Rightarrow> [] | Some rules \<Rightarrow> rules) @ [rule]))"

fun groupLoop ::
    "(listenerKey \<rightharpoonup> RuleConfig list) \<Rightarrow> RuleConfig list \<Rightarrow> string + (listenerKey \<rightharpoonup> RuleConfig list)" where
  "groupLoop grouped [] = Inr grouped"
| "groupLoop grouped (rule # rules) =
     (if \<not> rc_Enabled rule then groupLoop grouped rules
      else if normalizedForwardingType rule \<noteq> ForwardingTypeDirect
        then Inl (''unsupported forwarding type '' @ rc_ForwardingType rule)
      else groupLoop (fold (addToGroup rule) (listenerProtocols (rc_Protocol rule)) grouped) rules)"

definition groupRulesByListener :: "RuleConfig list \<Rightarrow> string + (listenerKey \<rightharpoonup> RuleConfig list)" where
  "groupRulesByListener rules = groupLoop Map.empty rules"

definition fwd_isWildcardListenIP :: "string \<Rightarrow> bool" where
  "fwd_isWildcardListenIP value =
     (let value = TrimCut ''[]'' (TrimSpace value) in
      if value = [] then True
      else (let p = ParseIP value in p \<noteq> [] \<and> IsUnspecified p))"

definition fwd_listenIPsOverlap :: "string \<Rightarrow> string \<Rightarrow> bool" where
  "fwd_listenIPsOverlap left right \<longleftrightarrow>
     left = right \<or> fwd_isWildcardListenIP left \<or> fwd_isWildcardListenIP right"

definition listenerKeysOverlap :: "listenerKey \<Rightarrow> listenerKey \<Rightarrow> bool" where
  "listenerKeysOverlap left right \<longleftrightarrow>
     lk_protocol left = lk_protocol right \<and> lk_port left = lk_port right \<and>
     fwd_listenIPsOverlap (lk_listenIP left) (lk_listenIP right)"

definition listenerKeyString :: "listenerKey \<Rightarrow> string" where
  "listenerKeyString key = lk_protocol key @ ''/'' @ lk_listenIP key @ '':'' @ Itoa (lk_port key)"

definition overlapsAnyListener :: "listenerKey \<Rightarrow> listenerKey list \<Rightarrow> bool" where
  "overlapsAnyListener key listeners \<longleftrightarrow> list_ex (listenerKeysOverlap key) listeners"

text \<open>The two nested loops over the keys; the argument is the list of keys in the order they came.\<close>

fun validateNoOverlappingListeners :: "listenerKey list \<Rightarrow> string option" where
  "validateNoOverlappingListeners [] = None"
| "validateNoOverlappingListeners (left # keys) =
     (case find (listenerKeysOverlap left) keys of
        Some right \<Rightarrow>
          Some (''overlapping listeners '' @ listenerKeyString left @ '' and '' @ listenerKeyString right)
      | None \<Rightarrow> validateNoOverlappingListeners keys)"

subsection \<open>Starting and stopping\<close>

definition startListener ::
    "listenFn \<Rightarrow> listenerKey \<Rightarrow> RuleConfig list \<Rightarrow> Supervisor \<Rightarrow> (string + listenerRuntime) \<times> Supervisor" where
  "startListener listen key rules S =
     (let listenAddress = JoinHostPort (lk_listenIP key) (Itoa (lk_port key));
          start = (\<lambda>network. case listen (sv_open S) network listenAddress of
             Some err \<Rightarrow> (Inl err, S)
           | None \<Rightarrow> (Inr \<lparr>lr_rules = rules, lr_sessions = newUDPSessionTable\<rparr>, S\<lparr>sv_open := key # sv_open S\<rparr>))
      in if lk_protocol key = ProtocolTCP then start ''tcp''
         else if lk_protocol key = ProtocolUDP then start ''udp''
         else (Inl (''unsupported listener protocol '' @ lk_protocol key), S))"

text \<open>\<open>runtime.stop\<close>: a TCP listener has no sessions, so closing them is no step of it.\<close>

definition stopListener ::
    "(listenerKey \<Rightarrow> string list) \<Rightarrow> listenerKey \<Rightarrow> listenerRuntime \<Rightarrow> Supervisor \<Rightarrow> Supervisor" where
  "stopListener order key runtime S =
     S\<lparr>sv_metrics := snd (closeAll (order key) (lr_sessions runtime, sv_metrics S)),
       sv_open := remove1 key (sv_open S)\<rparr>"

fun stopOverlappingAbsentListenersLocked ::
    "(listenerKey \<Rightarrow> string list) \<Rightarrow> listenerKey list \<Rightarrow> listenerKey list \<Rightarrow> Supervisor \<Rightarrow>
     stoppedListenerRuntime list \<times> Supervisor" where
  "stopOverlappingAbsentListenersLocked sorder grouped [] S = ([], S)"
| "stopOverlappingAbsentListenersLocked sorder grouped (oldKey # keys) S =
     (case sv_listeners S oldKey of
        None \<Rightarrow> stopOverlappingAbsentListenersLocked sorder grouped keys S
      | Some runtime \<Rightarrow>
          if List.member grouped oldKey then stopOverlappingAbsentListenersLocked sorder grouped keys S
          else if \<not> overlapsAnyListener oldKey grouped then stopOverlappingAbsentListenersLocked sorder grouped keys S
          else
            (let S = S\<lparr>sv_listeners := (sv_listeners S)(oldKey := None)\<rparr>;
                 S = stopListener sorder oldKey runtime S;
                 (stopped, S) = stopOverlappingAbsentListenersLocked sorder grouped keys S
             in (\<lparr>sl_key = oldKey, sl_rules = lr_rules runtime\<rparr> # stopped, S)))"

fun restoreStoppedListenersLocked ::
    "listenFn \<Rightarrow> stoppedListenerRuntime list \<Rightarrow> Supervisor \<Rightarrow> string option \<times> Supervisor" where
  "restoreStoppedListenersLocked listen [] S = (None, S)"
| "restoreStoppedListenersLocked listen (stopped # rest) S =
     (case sv_listeners S (sl_key stopped) of
        Some _ \<Rightarrow> restoreStoppedListenersLocked listen rest S
      | None \<Rightarrow>
          (case startListener listen (sl_key stopped) (sl_rules stopped) S of
             (Inl err, S) \<Rightarrow> (Some err, S)
           | (Inr runtime, S) \<Rightarrow>
               restoreStoppedListenersLocked listen rest
                 (S\<lparr>sv_listeners := (sv_listeners S)(sl_key stopped \<mapsto> runtime)\<rparr>)))"

text \<open>The loop of \<open>Apply\<close> that keeps or starts a listener per group: the started ones, and the group
  whose listener could not be started with its error.\<close>

fun startLoop ::
    "listenFn \<Rightarrow> (listenerKey \<rightharpoonup> RuleConfig list) \<Rightarrow> listenerKey list \<Rightarrow> (listenerKey \<times> listenerRuntime) list \<Rightarrow>
     Supervisor \<Rightarrow> (listenerKey \<times> RuleConfig list \<times> string) option \<times> (listenerKey \<times> listenerRuntime) list \<times> Supervisor" where
  "startLoop listen grouped [] started S = (None, started, S)"
| "startLoop listen grouped (key # keys) started S =
     (case grouped key of
        None \<Rightarrow> startLoop listen grouped keys started S
      | Some rules \<Rightarrow>
          (case sv_listeners S key of
             Some _ \<Rightarrow> startLoop listen grouped keys started S
           | None \<Rightarrow>
               (case startListener listen key rules S of
                  (Inl err, S) \<Rightarrow> (Some (key, rules, err), started, S)
                | (Inr runtime, S) \<Rightarrow> startLoop listen grouped keys ((key, runtime) # started) S)))"

definition stopMany ::
    "(listenerKey \<Rightarrow> string list) \<Rightarrow> (listenerKey \<times> listenerRuntime) list \<Rightarrow> Supervisor \<Rightarrow> Supervisor" where
  "stopMany sorder runtimes S = fold (\<lambda>(key, runtime). stopListener sorder key runtime) runtimes S"

subsection \<open>Errors\<close>

definition ruleIDsForListener :: "RuleConfig list \<Rightarrow> string list" where
  "ruleIDsForListener rules = sort (filter (\<lambda>i. TrimSpace i \<noteq> []) (map rc_ID rules))"

definition listenerBindApplyError :: "listenerKey \<Rightarrow> RuleConfig list \<Rightarrow> string \<Rightarrow> ConfigApplyError" where
  "listenerBindApplyError key rules err =
     \<lparr>ae_Message = err,
      ae_Errors = [\<lparr>ed_Code = ''LISTENER_BIND_FAILED'', ed_RuleIDs = ruleIDsForListener rules,
        ed_Protocol = lk_protocol key, ed_ListenIP = lk_listenIP key, ed_Port = lk_port key,
        ed_Dataplane = [], ed_Owner = [], ed_DriftStatus = [], ed_ExternalResource = [], ed_Message = err\<rparr>]\<rparr>"

subsection \<open>Apply and Close\<close>

definition supervisor_Apply ::
    "listenFn \<Rightarrow> mapOrders \<Rightarrow> ConfigSnapshot \<Rightarrow> Supervisor \<Rightarrow> go_error option \<times> Supervisor" where
  "supervisor_Apply listen orders snapshot S =
     (case groupRulesByListener (cs_Rules snapshot) of
        Inl err \<Rightarrow> (Some (PlainError err), S)
      | Inr grouped \<Rightarrow>
          (case validateNoOverlappingListeners (mo_validate orders) of
             Some err \<Rightarrow> (Some (PlainError err), S)
           | None \<Rightarrow>
               (let (preStopped, S) = stopOverlappingAbsentListenersLocked (mo_sessions orders) (mo_validate orders) (mo_old orders) S
                in case startLoop listen grouped (mo_start orders) [] S of
                     (Some (key, rules, err), started, S) \<Rightarrow>
                       (let applyErr = listenerBindApplyError key rules err;
                            S = stopMany (mo_sessions orders) started S;
                            (restoreErr, S) = restoreStoppedListenersLocked listen preStopped S;
                            applyErr = (case restoreErr of
                               None \<Rightarrow> applyErr
                             | Some e \<Rightarrow> applyErr\<lparr>ae_Message :=
                                 ConfigApplyError_Error applyErr @ ''; restore previous listeners: '' @ e\<rparr>)
                        in (Some (ApplyError applyErr), S))
                   | (None, started, S) \<Rightarrow>
                       (let old = sv_listeners S;
                            next = (\<lambda>key. case grouped key of
                               None \<Rightarrow> None
                             | Some _ \<Rightarrow> (case old key of Some r \<Rightarrow> Some r | None \<Rightarrow> map_of started key));
                            removed = List.map_filter (\<lambda>key. case old key of
                               None \<Rightarrow> None
                             | Some r \<Rightarrow> if next key = None then Some (key, r) else None) (mo_removed orders);
                            S = S\<lparr>sv_listeners := (\<lambda>key. case grouped key of
                                   None \<Rightarrow> None
                                 | Some rules \<Rightarrow> map_option (\<lambda>r. r\<lparr>lr_rules := rules\<rparr>) (next key))\<rparr>;
                            S = stopMany (mo_sessions orders) removed S
                        in (None, S\<lparr>sv_metrics := setActiveTargets (mo_targets orders) (cs_Rules snapshot) (sv_metrics S)\<rparr>)))))"

definition supervisor_Close :: "mapOrders \<Rightarrow> Supervisor \<Rightarrow> Supervisor" where
  "supervisor_Close orders S =
     (let listeners = sv_listeners S;
          runtimes = List.map_filter (\<lambda>key. map_option (Pair key) (listeners key)) (mo_old orders)
      in stopMany (mo_sessions orders) runtimes (S\<lparr>sv_listeners := Map.empty\<rparr>))"

end
