(* ===== verification/Supervisor_Apply.thy ===== *)
theory Supervisor_Apply
  imports Supervisor
begin

text \<open>
  \<open>Apply\<close> is a transaction: it either installs the new configuration completely or, when the system lets
  the listeners it had to stop come back, leaves the old one in place; at no time are two overlapping
  sockets open, and no socket is left behind.
\<close>

subsection \<open>The invariant of a supervisor\<close>

definition no_overlap :: "listenerKey set \<Rightarrow> bool" where
  "no_overlap K \<longleftrightarrow> (\<forall>a \<in> K. \<forall>b \<in> K. a \<noteq> b \<longrightarrow> \<not> listenerKeysOverlap a b)"

definition sv_ok :: "Supervisor \<Rightarrow> bool" where
  "sv_ok S \<longleftrightarrow> distinct (sv_open S) \<and> set (sv_open S) = dom (sv_listeners S) \<and> no_overlap (dom (sv_listeners S))"

text \<open>The iteration orders are permutations of the maps they range over.\<close>

definition orders_ok :: "mapOrders \<Rightarrow> (listenerKey \<rightharpoonup> RuleConfig list) \<Rightarrow> Supervisor \<Rightarrow> bool" where
  "orders_ok orders grouped S \<longleftrightarrow>
     distinct (mo_validate orders) \<and> set (mo_validate orders) = dom grouped \<and>
     distinct (mo_start orders) \<and> set (mo_start orders) = dom grouped \<and>
     distinct (mo_old orders) \<and> set (mo_old orders) = dom (sv_listeners S) \<and>
     distinct (mo_removed orders) \<and> set (mo_removed orders) = dom (sv_listeners S)"

lemma overlap_refl [simp]: "listenerKeysOverlap k k"
  by (simp add: listenerKeysOverlap_def fwd_listenIPsOverlap_def)

lemma overlap_sym: "listenerKeysOverlap a b = listenerKeysOverlap b a"
  by (auto simp: listenerKeysOverlap_def fwd_listenIPsOverlap_def)

lemma no_overlapD: "no_overlap K \<Longrightarrow> a \<in> K \<Longrightarrow> b \<in> K \<Longrightarrow> listenerKeysOverlap a b \<Longrightarrow> a = b"
  unfolding no_overlap_def by blast

lemma no_overlap_subset: "no_overlap K \<Longrightarrow> L \<subseteq> K \<Longrightarrow> no_overlap L"
  unfolding no_overlap_def by blast

lemma no_overlap_insert:
  "no_overlap (insert k K) \<longleftrightarrow> no_overlap K \<and> (\<forall>a \<in> K. a \<noteq> k \<longrightarrow> \<not> listenerKeysOverlap k a)"
  unfolding no_overlap_def using overlap_sym by (metis insert_iff)

lemma validate_correct:
  "distinct keys \<Longrightarrow> validateNoOverlappingListeners keys = None \<longleftrightarrow> no_overlap (set keys)"
proof (induction keys)
  case (Cons left keys)
  have "find (listenerKeysOverlap left) keys = None \<longleftrightarrow> (\<forall>a \<in> set keys. a \<noteq> left \<longrightarrow> \<not> listenerKeysOverlap left a)"
    using Cons.prems by (auto simp: find_None_iff)
  then show ?case using Cons by (auto simp: no_overlap_insert split: option.split)
qed (simp add: no_overlap_def)

subsection \<open>The loops\<close>

lemma stopListener_frame [simp]:
  "sv_listeners (stopListener order key r S) = sv_listeners S"
  "sv_open (stopListener order key r S) = remove1 key (sv_open S)"
  by (simp_all add: stopListener_def)

lemma stopMany_spec:
  assumes "distinct (sv_open S)"
  shows "sv_listeners (stopMany order rs S) = sv_listeners S"
    and "distinct (sv_open (stopMany order rs S))"
    and "set (sv_open (stopMany order rs S)) = set (sv_open S) - fst ` set rs"
  using assms
  by (induction rs arbitrary: S) (auto simp: stopMany_def split: prod.splits)

text \<open>The listeners that have to make room: absent from the new configuration and overlapping it.\<close>

definition blocking :: "listenerKey list \<Rightarrow> (listenerKey \<rightharpoonup> 'a) \<Rightarrow> listenerKey set" where
  "blocking grouped old = {k \<in> dom old. k \<notin> set grouped \<and> overlapsAnyListener k grouped}"

lemma stopOverlapping_spec:
  assumes "stopOverlappingAbsentListenersLocked order grouped keys S = (stopped, S')"
    and "distinct keys" and "distinct (sv_open S)"
  shows "distinct (map sl_key stopped)"
    and "sl_key ` set stopped = blocking grouped (sv_listeners S) \<inter> set keys"
    and "\<forall>x \<in> set stopped. map_option lr_rules (sv_listeners S (sl_key x)) = Some (sl_rules x)"
    and "sv_listeners S' = (sv_listeners S) |` (- (blocking grouped (sv_listeners S) \<inter> set keys))"
    and "distinct (sv_open S')"
    and "set (sv_open S') = set (sv_open S) - blocking grouped (sv_listeners S) \<inter> set keys"
proof -
  have "distinct (map sl_key stopped) \<and> sl_key ` set stopped = blocking grouped (sv_listeners S) \<inter> set keys \<and>
    (\<forall>x \<in> set stopped. map_option lr_rules (sv_listeners S (sl_key x)) = Some (sl_rules x)) \<and>
    sv_listeners S' = (sv_listeners S) |` (- (blocking grouped (sv_listeners S) \<inter> set keys)) \<and>
    distinct (sv_open S') \<and> set (sv_open S') = set (sv_open S) - blocking grouped (sv_listeners S) \<inter> set keys"
    using assms
  proof (induction keys arbitrary: S stopped)
    case (Cons key keys)
    show ?case
    proof (cases "key \<in> blocking grouped (sv_listeners S)")
      case False
      then have "stopOverlappingAbsentListenersLocked order grouped keys S = (stopped, S')"
        using Cons.prems(1) by (auto simp: blocking_def split: option.splits if_splits)
      with Cons.IH [OF this] Cons.prems False show ?thesis by auto
    next
      case True
      then obtain r where r: "sv_listeners S key = Some r" "key \<notin> set grouped" "overlapsAnyListener key grouped"
        by (auto simp: blocking_def)
      define S1 where "S1 = stopListener order key r (S\<lparr>sv_listeners := (sv_listeners S)(key := None)\<rparr>)"
      obtain rest where rest: "stopOverlappingAbsentListenersLocked order grouped keys S1 = (rest, S')"
        and stopped: "stopped = \<lparr>sl_key = key, sl_rules = lr_rules r\<rparr> # rest"
        using Cons.prems(1) r by (auto simp: S1_def Let_def split: prod.splits)
      have l1: "sv_listeners S1 = (sv_listeners S)(key := None)" and o1: "sv_open S1 = remove1 key (sv_open S)"
        by (simp_all add: S1_def)
      have b1: "blocking grouped ((sv_listeners S)(key := None)) = blocking grouped (sv_listeners S) - {key}"
        by (auto simp: blocking_def)
      have "distinct (sv_open S1)" using Cons.prems(3) by (simp add: o1)
      note ih = Cons.IH [OF rest _ this, unfolded l1 b1 o1]
      have "key \<notin> set keys" "distinct keys" using Cons.prems(2) by simp_all
      moreover have "blocking grouped (sv_listeners S) \<inter> set (key # keys) =
          insert key ((blocking grouped (sv_listeners S) - {key}) \<inter> set keys)"
        using True calculation by auto
      moreover have "(\<lambda>k. if k \<in> - A then ((sv_listeners S)(key := None)) k else None) =
          (\<lambda>k. if k \<in> - insert key A then sv_listeners S k else None)" for A
        by auto
      ultimately show ?thesis
        using ih Cons.prems(3) r unfolding stopped restrict_map_def by (auto split: if_splits)
    qed
  qed (simp add: restrict_map_def)
  then show "distinct (map sl_key stopped)"
    "sl_key ` set stopped = blocking grouped (sv_listeners S) \<inter> set keys"
    "\<forall>x \<in> set stopped. map_option lr_rules (sv_listeners S (sl_key x)) = Some (sl_rules x)"
    "sv_listeners S' = (sv_listeners S) |` (- (blocking grouped (sv_listeners S) \<inter> set keys))"
    "distinct (sv_open S')"
    "set (sv_open S') = set (sv_open S) - blocking grouped (sv_listeners S) \<inter> set keys"
    by simp_all
qed

text \<open>What a start does to the supervisor.\<close>

definition grants :: "listenFn \<Rightarrow> listenerKey list \<Rightarrow> listenerKey \<Rightarrow> bool" where
  "grants listen opened key \<longleftrightarrow>
     (lk_protocol key = ProtocolTCP \<or> lk_protocol key = ProtocolUDP) \<and>
     listen opened (if lk_protocol key = ProtocolTCP then ''tcp'' else ''udp'')
       (JoinHostPort (lk_listenIP key) (Itoa (lk_port key))) = None"

lemma startListener_granted:
  "grants listen (sv_open S) key \<Longrightarrow> startListener listen key rules S =
     (Inr \<lparr>lr_rules = rules, lr_sessions = newUDPSessionTable\<rparr>, S\<lparr>sv_open := key # sv_open S\<rparr>)"
  by (auto simp: startListener_def grants_def Let_def)

lemma startListener_refused:
  "\<not> grants listen (sv_open S) key \<Longrightarrow> \<exists>err. startListener listen key rules S = (Inl err, S)"
  by (auto simp: startListener_def grants_def Let_def)

lemma startListener_cases:
  obtains err where "startListener listen key rules S = (Inl err, S)"
  | "startListener listen key rules S =
       (Inr \<lparr>lr_rules = rules, lr_sessions = newUDPSessionTable\<rparr>, S\<lparr>sv_open := key # sv_open S\<rparr>)"
  using startListener_granted startListener_refused by blast

text \<open>The groups that need a new listener.\<close>

definition missing :: "(listenerKey \<rightharpoonup> RuleConfig list) \<Rightarrow> listenerKey list \<Rightarrow> Supervisor \<Rightarrow> listenerKey set" where
  "missing grouped keys S = {k \<in> set keys. grouped k \<noteq> None \<and> sv_listeners S k = None}"

definition fresh_runtime :: "(listenerKey \<rightharpoonup> RuleConfig list) \<Rightarrow> listenerKey \<times> listenerRuntime \<Rightarrow> bool" where
  "fresh_runtime grouped x \<longleftrightarrow>
     (\<exists>rules. grouped (fst x) = Some rules \<and> snd x = \<lparr>lr_rules = rules, lr_sessions = newUDPSessionTable\<rparr>)"

definition start_result ::
    "listenFn \<Rightarrow> (listenerKey \<rightharpoonup> RuleConfig list) \<Rightarrow> listenerKey list \<Rightarrow> Supervisor \<Rightarrow>
     (listenerKey \<times> RuleConfig list \<times> string) option \<Rightarrow> (listenerKey \<times> listenerRuntime) list \<Rightarrow> Supervisor \<Rightarrow> bool" where
  "start_result listen grouped keys S failure news S' \<longleftrightarrow>
     sv_listeners S' = sv_listeners S \<and> distinct (sv_open S') \<and>
     set (sv_open S') = set (sv_open S) \<union> fst ` set news \<and>
     fst ` set news \<subseteq> missing grouped keys S \<and> list_all (fresh_runtime grouped) news \<and>
     (case failure of
        None \<Rightarrow> fst ` set news = missing grouped keys S
      | Some (key, rules, err) \<Rightarrow>
          key \<in> missing grouped keys S \<and> grouped key = Some rules \<and>
          (\<exists>T. fst (startListener listen key rules T) = Inl err \<and>
               set (sv_open T) \<subseteq> set (sv_open S) \<union> (missing grouped keys S - {key})))"

lemma startLoop_spec:
  assumes "startLoop listen grouped keys started S = (failure, started', S')"
    and "distinct keys" and "distinct (sv_open S)" and "missing grouped keys S \<inter> set (sv_open S) = {}"
  shows "\<exists>news. started' = news @ started \<and> start_result listen grouped keys S failure news S'"
  using assms
proof (induction keys arbitrary: started S)
  case Nil
  then show ?case by (auto simp: start_result_def missing_def)
next
  case (Cons key keys)
  show ?case
  proof (cases "grouped key \<noteq> None \<and> sv_listeners S key = None")
    case False
    then have m: "missing grouped (key # keys) S = missing grouped keys S" by (auto simp: missing_def)
    have "startLoop listen grouped keys started S = (failure, started', S')"
      using False Cons.prems(1) by (auto split: option.splits)
    from Cons.IH [OF this] Cons.prems(2-4) show ?thesis
      unfolding start_result_def m by simp
  next
    case True
    then obtain rules where rules: "grouped key = Some rules" and new: "sv_listeners S key = None" by auto
    have m: "missing grouped (key # keys) S = insert key (missing grouped keys S)"
      and fresh: "key \<notin> missing grouped keys S"
      using True Cons.prems(2) by (auto simp: missing_def)
    show ?thesis
    proof (rule startListener_cases [of listen key rules S])
      fix err
      assume e: "startListener listen key rules S = (Inl err, S)"
      then have "failure = Some (key, rules, err)" "started' = started" "S' = S"
        using Cons.prems(1) rules new by auto
      moreover have "\<exists>T. fst (startListener listen key rules T) = Inl err \<and>
          set (sv_open T) \<subseteq> set (sv_open S) \<union> (missing grouped (key # keys) S - {key})"
        using e by (intro exI [of _ S]) auto
      ultimately show ?thesis
        using Cons.prems(3) rules by (intro exI [of _ "[]"]) (simp add: start_result_def m)
    next
      let ?r = "\<lparr>lr_rules = rules, lr_sessions = newUDPSessionTable\<rparr>"
      let ?S = "S\<lparr>sv_open := key # sv_open S\<rparr>"
      assume "startListener listen key rules S = (Inr ?r, ?S)"
      then have rest: "startLoop listen grouped keys ((key, ?r) # started) ?S = (failure, started', S')"
        using Cons.prems(1) rules new by auto
      have ms: "missing grouped keys ?S = missing grouped keys S" by (simp add: missing_def)
      have "distinct (sv_open ?S)" "missing grouped keys ?S \<inter> set (sv_open ?S) = {}"
        using Cons.prems(3,4) fresh unfolding ms m by auto
      with Cons.IH [OF rest] Cons.prems(2) obtain news where news: "started' = news @ (key, ?r) # started"
        and res: "start_result listen grouped keys ?S failure news S'" by auto
      have "start_result listen grouped (key # keys) S failure (news @ [(key, ?r)]) S'"
        using res rules fresh unfolding start_result_def m ms
        by (auto simp: fresh_runtime_def split: option.splits)
      then show ?thesis using news by (intro exI [of _ "news @ [(key, ?r)]"]) simp
    qed
  qed
qed

text \<open>Restarting the listeners that were stopped.\<close>

definition restorable :: "listenFn \<Rightarrow> listenerKey set \<Rightarrow> bool" where
  "restorable listen K \<longleftrightarrow>
     (\<forall>key \<in> K. \<forall>opened. (\<forall>o' \<in> set opened. \<not> listenerKeysOverlap key o') \<longrightarrow> grants listen opened key)"

lemma restore_spec:
  assumes "restoreStoppedListenersLocked listen stopped S = (failure, S')"
    and "distinct (map sl_key stopped)" and "distinct (sv_open S)" and "set (sv_open S) = dom (sv_listeners S)"
    and "sl_key ` set stopped \<inter> dom (sv_listeners S) = {}"
  shows "distinct (sv_open S') \<and> set (sv_open S') = dom (sv_listeners S') \<and>
    dom (sv_listeners S') \<subseteq> dom (sv_listeners S) \<union> sl_key ` set stopped \<and>
    (\<forall>k \<in> dom (sv_listeners S). sv_listeners S' k = sv_listeners S k) \<and>
    (\<forall>x \<in> set stopped. sl_key x \<in> dom (sv_listeners S') \<longrightarrow>
       sv_listeners S' (sl_key x) = Some \<lparr>lr_rules = sl_rules x, lr_sessions = newUDPSessionTable\<rparr>) \<and>
    (restorable listen (sl_key ` set stopped) \<and> no_overlap (dom (sv_listeners S) \<union> sl_key ` set stopped) \<longrightarrow>
       failure = None \<and> dom (sv_listeners S') = dom (sv_listeners S) \<union> sl_key ` set stopped)"
  using assms
proof (induction stopped arbitrary: S)
  case (Cons x stopped)
  have new: "sv_listeners S (sl_key x) = None" using Cons.prems(5) by auto
  show ?case
  proof (cases "grants listen (sv_open S) (sl_key x)")
    case False
    then obtain err where "startListener listen (sl_key x) (sl_rules x) S = (Inl err, S)"
      using startListener_refused by blast
    then have eq: "failure = Some err" "S' = S" using Cons.prems(1) new by auto
    have "\<not> (restorable listen (sl_key ` set (x # stopped)) \<and> no_overlap (dom (sv_listeners S) \<union> sl_key ` set (x # stopped)))"
    proof
      assume a: "restorable listen (sl_key ` set (x # stopped)) \<and> no_overlap (dom (sv_listeners S) \<union> sl_key ` set (x # stopped))"
      have "\<not> listenerKeysOverlap (sl_key x) o'" if "o' \<in> set (sv_open S)" for o'
        using no_overlapD [OF conjunct2 [OF a], of "sl_key x" o'] that Cons.prems(4) new by auto
      then show False using a False unfolding restorable_def by simp
    qed
    moreover have "sl_key y \<notin> dom (sv_listeners S)" if "y \<in> set (x # stopped)" for y
      using Cons.prems(5) that by blast
    ultimately show ?thesis using eq Cons.prems(3,4) by blast
  next
    case True
    let ?r = "\<lparr>lr_rules = sl_rules x, lr_sessions = newUDPSessionTable\<rparr>"
    define S1 where "S1 = S\<lparr>sv_open := sl_key x # sv_open S, sv_listeners := (sv_listeners S)(sl_key x \<mapsto> ?r)\<rparr>"
    have rest: "restoreStoppedListenersLocked listen stopped S1 = (failure, S')"
      using Cons.prems(1) new startListener_granted [OF True, of "sl_rules x"] by (simp add: S1_def)
    have l1: "sv_listeners S1 = (sv_listeners S)(sl_key x \<mapsto> ?r)" and o1: "sv_open S1 = sl_key x # sv_open S"
      by (simp_all add: S1_def)
    have d1: "dom (sv_listeners S1) = insert (sl_key x) (dom (sv_listeners S))" by (simp add: l1)
    have p: "distinct (map sl_key stopped)" "distinct (sv_open S1)" "set (sv_open S1) = dom (sv_listeners S1)"
      "sl_key ` set stopped \<inter> dom (sv_listeners S1) = {}"
      using Cons.prems(2-5) new unfolding d1 o1 by auto
    note ih = Cons.IH [OF rest p]
    have u: "dom (sv_listeners S1) \<union> sl_key ` set stopped = dom (sv_listeners S) \<union> sl_key ` set (x # stopped)"
      by (simp add: d1)
    have r: "restorable listen (sl_key ` set (x # stopped)) \<Longrightarrow> restorable listen (sl_key ` set stopped)"
      by (simp add: restorable_def)
    have k0: "\<forall>k \<in> dom (sv_listeners S1). sv_listeners S' k = sv_listeners S1 k"
      using ih by blast
    have keep1: "sv_listeners S' (sl_key x) = Some ?r"
      using bspec [OF k0, of "sl_key x"] by (simp add: l1)
    have keep2: "sv_listeners S' k = sv_listeners S k" if "k \<in> dom (sv_listeners S)" for k
      using bspec [OF k0, of k] that new by (auto simp: l1 split: if_splits)
    have "\<forall>y \<in> set (x # stopped). sl_key y \<in> dom (sv_listeners S') \<longrightarrow>
        sv_listeners S' (sl_key y) = Some \<lparr>lr_rules = sl_rules y, lr_sessions = newUDPSessionTable\<rparr>"
      using keep1 ih by simp
    moreover have "\<forall>k \<in> dom (sv_listeners S). sv_listeners S' k = sv_listeners S k" using keep2 by blast
    moreover have "restorable listen (sl_key ` set (x # stopped)) \<and> no_overlap (dom (sv_listeners S) \<union> sl_key ` set (x # stopped)) \<longrightarrow>
       failure = None \<and> dom (sv_listeners S') = dom (sv_listeners S) \<union> sl_key ` set (x # stopped)"
      using ih [unfolded u] r by blast
    moreover have "dom (sv_listeners S') \<subseteq> dom (sv_listeners S) \<union> sl_key ` set (x # stopped)"
      using ih [unfolded u] by (elim conjE)
    moreover have "distinct (sv_open S')" using ih by (elim conjE)
    moreover have "set (sv_open S') = dom (sv_listeners S')" using ih by (elim conjE)
    ultimately show ?thesis by - (intro conjI; assumption)
  qed
qed simp

subsection \<open>Apply\<close>

lemma image_map_filter:
  "fst ` set (List.map_filter (\<lambda>k. case f k of None \<Rightarrow> None | Some r \<Rightarrow> if P k then Some (k, r) else None) ks) =
   {k \<in> set ks. f k \<noteq> None \<and> P k}"
  by (induction ks) (auto simp: List.map_filter_def split: option.splits if_splits)

text \<open>The state after the listeners in the way are stopped.\<close>

lemma prestop:
  assumes ok: "sv_ok S" "orders_ok orders grouped S"
    and stop: "stopOverlappingAbsentListenersLocked (mo_sessions orders) (mo_validate orders) (mo_old orders) S = (stopped, S1)"
  shows "distinct (map sl_key stopped)"
    and "sl_key ` set stopped = blocking (mo_validate orders) (sv_listeners S)"
    and "\<forall>x \<in> set stopped. map_option lr_rules (sv_listeners S (sl_key x)) = Some (sl_rules x)"
    and "sv_listeners S1 = sv_listeners S |` (- blocking (mo_validate orders) (sv_listeners S))"
    and "distinct (sv_open S1)" and "set (sv_open S1) = dom (sv_listeners S1)"
    and "\<And>k. k \<in> dom grouped \<Longrightarrow> sv_listeners S1 k = sv_listeners S k"
    and "\<And>k o'. k \<in> dom grouped \<Longrightarrow> o' \<in> dom (sv_listeners S1) \<Longrightarrow> o' \<notin> dom grouped \<Longrightarrow> \<not> listenerKeysOverlap k o'"
proof -
  have old: "distinct (mo_old orders)" "set (mo_old orders) = dom (sv_listeners S)" "set (mo_validate orders) = dom grouped"
    and op: "distinct (sv_open S)" "set (sv_open S) = dom (sv_listeners S)"
    using ok by (simp_all add: orders_ok_def sv_ok_def)
  have b: "blocking (mo_validate orders) (sv_listeners S) \<inter> set (mo_old orders) = blocking (mo_validate orders) (sv_listeners S)"
    unfolding old by (auto simp: blocking_def)
  note s = stopOverlapping_spec [OF stop old(1) op(1), unfolded b]
  from s(1,2,3,4,5) show "distinct (map sl_key stopped)"
    "sl_key ` set stopped = blocking (mo_validate orders) (sv_listeners S)"
    "\<forall>x \<in> set stopped. map_option lr_rules (sv_listeners S (sl_key x)) = Some (sl_rules x)"
    and l: "sv_listeners S1 = sv_listeners S |` (- blocking (mo_validate orders) (sv_listeners S))"
    and "distinct (sv_open S1)" .
  show "set (sv_open S1) = dom (sv_listeners S1)" using s(6) op(2) by (auto simp: l)
  show "sv_listeners S1 k = sv_listeners S k" if "k \<in> dom grouped" for k
    using that old(3) by (auto simp: l restrict_map_def blocking_def)
  show "\<not> listenerKeysOverlap k o'"
    if "k \<in> dom grouped" "o' \<in> dom (sv_listeners S1)" "o' \<notin> dom grouped" for k o'
  proof
    assume "listenerKeysOverlap k o'"
    then have "overlapsAnyListener o' (mo_validate orders)"
      using that(1) old(3) overlap_sym by (auto simp: overlapsAnyListener_def list_ex_iff)
    then have "o' \<in> blocking (mo_validate orders) (sv_listeners S)"
      using that(2,3) old(3) by (auto simp: blocking_def l)
    then show False using that(2) by (simp add: l)
  qed
qed

text \<open>The two ways \<open>Apply\<close> gets past its checks, written over the states in between.\<close>

lemma apply_cases:
  assumes ok: "sv_ok S" "orders_ok orders grouped S"
    and group: "groupRulesByListener (cs_Rules snapshot) = Inr grouped"
    and valid: "validateNoOverlappingListeners (mo_validate orders) = None"
    and stop: "stopOverlappingAbsentListenersLocked (mo_sessions orders) (mo_validate orders) (mo_old orders) S = (stopped, S1)"
    and start: "startLoop listen grouped (mo_start orders) [] S1 = (failure, started, S2)"
  shows "start_result listen grouped (mo_start orders) S1 failure started S2"
    and "missing grouped (mo_start orders) S1 = dom grouped - dom (sv_listeners S)"
    and "missing grouped (mo_start orders) S1 \<inter> dom (sv_listeners S1) = {}"
proof -
  note p = prestop [OF ok stop]
  have start_set: "set (mo_start orders) = dom grouped" "distinct (mo_start orders)"
    using ok(2) by (simp_all add: orders_ok_def)
  show m: "missing grouped (mo_start orders) S1 = dom grouped - dom (sv_listeners S)"
    using p(7) by (auto simp: missing_def start_set dom_def)
  show "missing grouped (mo_start orders) S1 \<inter> dom (sv_listeners S1) = {}"
    by (auto simp: missing_def)
  then have "missing grouped (mo_start orders) S1 \<inter> set (sv_open S1) = {}" using p(6) by simp
  from startLoop_spec [OF start start_set(2) p(5) this]
  show "start_result listen grouped (mo_start orders) S1 failure started S2" by simp
qed

lemma apply_success_state:
  assumes ok: "sv_ok S" "orders_ok orders grouped S"
    and group: "groupRulesByListener (cs_Rules snapshot) = Inr grouped"
    and app: "supervisor_Apply listen orders snapshot S = (None, S')"
  shows "sv_listeners S' = (\<lambda>key. map_option (\<lambda>rules.
      \<lparr>lr_rules = rules, lr_sessions = (case sv_listeners S key of Some r \<Rightarrow> lr_sessions r | None \<Rightarrow> newUDPSessionTable)\<rparr>) (grouped key))"
    and "sv_ok S'"
proof -
  have valid: "validateNoOverlappingListeners (mo_validate orders) = None"
    using app group by (auto simp: supervisor_Apply_def split: option.splits)
  obtain stopped S1 where stop: "stopOverlappingAbsentListenersLocked (mo_sessions orders) (mo_validate orders) (mo_old orders) S = (stopped, S1)"
    by fastforce
  obtain failure started S2 where start: "startLoop listen grouped (mo_start orders) [] S1 = (failure, started, S2)"
    by (metis surj_pair)
  have none: "failure = None"
    using app by (auto simp: supervisor_Apply_def group valid stop start Let_def split: option.splits prod.splits)
  note c = apply_cases [OF ok group valid stop start] and p = prestop [OF ok stop]
  have r: "sv_listeners S2 = sv_listeners S1" "distinct (sv_open S2)"
    "set (sv_open S2) = set (sv_open S1) \<union> (dom grouped - dom (sv_listeners S))"
    "fst ` set started = dom grouped - dom (sv_listeners S)" "list_all (fresh_runtime grouped) started"
    using c(1,2) none by (simp_all add: start_result_def)
  let ?next = "\<lambda>key. case grouped key of None \<Rightarrow> None
    | Some _ \<Rightarrow> (case sv_listeners S2 key of Some r \<Rightarrow> Some r | None \<Rightarrow> map_of started key)"
  define removed where "removed = List.map_filter (\<lambda>key. case sv_listeners S2 key of None \<Rightarrow> None
    | Some r \<Rightarrow> if ?next key = None then Some (key, r) else None) (mo_removed orders)"
  define S3 where "S3 = S2\<lparr>sv_listeners := (\<lambda>key. case grouped key of None \<Rightarrow> None
    | Some rules \<Rightarrow> map_option (\<lambda>r. r\<lparr>lr_rules := rules\<rparr>) (?next key))\<rparr>"
  have S': "S' = (stopMany (mo_sessions orders) removed S3)\<lparr>sv_metrics :=
      setActiveTargets (mo_targets orders) (cs_Rules snapshot) (sv_metrics (stopMany (mo_sessions orders) removed S3))\<rparr>"
    using app by (simp add: supervisor_Apply_def group valid stop start none Let_def removed_def S3_def)
  have started: "map_of started key = Some \<lparr>lr_rules = rules, lr_sessions = newUDPSessionTable\<rparr>"
    if "grouped key = Some rules" "sv_listeners S key = None" for key rules
  proof -
    have "key \<in> fst ` set started" using that r(4) by auto
    then obtain rt where rt: "map_of started key = Some rt" by (metis map_of_eq_None_iff not_None_eq)
    then have "fresh_runtime grouped (key, rt)" using r(5) map_of_SomeD by (fastforce simp: list_all_iff)
    then show ?thesis using rt that(1) by (simp add: fresh_runtime_def)
  qed
  have keep: "sv_listeners S2 key = sv_listeners S key" if "grouped key = Some rules" for key rules
    using p(7) [of key] that r(1) by auto
  show l': "sv_listeners S' = (\<lambda>key. map_option (\<lambda>rules.
      \<lparr>lr_rules = rules, lr_sessions = (case sv_listeners S key of Some r \<Rightarrow> lr_sessions r | None \<Rightarrow> newUDPSessionTable)\<rparr>) (grouped key))"
    using stopMany_spec(1) [of S3] r(2) started keep
    by (intro ext) (auto simp: S' S3_def split: option.split)
  then have d': "dom (sv_listeners S') = dom grouped" by (auto simp: dom_def)
  have next_none: "?next key = None \<longleftrightarrow> grouped key = None" for key
    using started keep by (cases "grouped key") (auto split: option.split)
  have "set (mo_removed orders) = dom (sv_listeners S)" using ok(2) by (simp add: orders_ok_def)
  then have rem: "fst ` set removed = dom (sv_listeners S1) - dom grouped"
    unfolding removed_def image_map_filter next_none r(1) by (auto simp: p(4))
  have "set (sv_open S') = dom grouped" "distinct (sv_open S')"
  proof -
    have "dom grouped \<inter> dom (sv_listeners S) \<subseteq> dom (sv_listeners S1)"
      using p(7) by (fastforce simp: domIff)
    moreover have "set (sv_open S') = set (sv_open S2) - fst ` set removed" and "distinct (sv_open S')"
      using stopMany_spec(2,3) [of S3 "mo_sessions orders" removed] r(2) by (simp_all add: S' S3_def)
    ultimately show "set (sv_open S') = dom grouped" "distinct (sv_open S')"
      unfolding rem r(3) p(6) by blast+
  qed
  moreover have "no_overlap (dom grouped)"
    using validate_correct [of "mo_validate orders"] valid ok(2) by (simp add: orders_ok_def)
  ultimately show "sv_ok S'" by (simp add: sv_ok_def d')
qed

text \<open>Restarting what was stopped before a failing start.\<close>

lemma rollback:
  assumes ok: "sv_ok S" "orders_ok orders grouped S"
    and stop: "stopOverlappingAbsentListenersLocked (mo_sessions orders) (mo_validate orders) (mo_old orders) S = (stopped, S1)"
    and l3: "sv_listeners S3 = sv_listeners S1" and d3: "distinct (sv_open S3)" and o3: "set (sv_open S3) = set (sv_open S1)"
    and restore: "restoreStoppedListenersLocked listen stopped S3 = (restoreErr, S')"
  shows "sv_ok S'"
    and "sv_listeners S' k = Some r' \<Longrightarrow> \<exists>r. sv_listeners S k = Some r \<and> lr_rules r' = lr_rules r"
    and "k \<notin> blocking (mo_validate orders) (sv_listeners S) \<Longrightarrow> sv_listeners S' k = sv_listeners S k"
    and "restorable listen (dom (sv_listeners S)) \<Longrightarrow> dom (sv_listeners S') = dom (sv_listeners S)"
proof -
  let ?B = "blocking (mo_validate orders) (sv_listeners S)"
  note p = prestop [OF ok stop]
  have B: "?B \<subseteq> dom (sv_listeners S)" by (auto simp: blocking_def)
  have d1: "dom (sv_listeners S3) = dom (sv_listeners S) - ?B" by (auto simp: l3 p(4))
  have disj: "sl_key ` set stopped \<inter> dom (sv_listeners S3) = {}" using p(2) d1 by auto
  have all: "dom (sv_listeners S3) \<union> sl_key ` set stopped = dom (sv_listeners S)" using p(2) d1 B by auto
  have open3: "set (sv_open S3) = dom (sv_listeners S3)" using o3 p(6) l3 by simp
  note r = restore_spec [OF restore p(1) d3 open3 disj, unfolded all]
  have kept: "sv_listeners S' k = sv_listeners S k" if "k \<in> dom (sv_listeners S)" "k \<notin> ?B" for k
  proof -
    have "k \<in> dom (sv_listeners S3)" using that d1 by blast
    then have "sv_listeners S' k = sv_listeners S1 k" using r unfolding l3 by blast
    then show ?thesis using that(2) by (simp add: p(4) restrict_map_def)
  qed
  show "sv_listeners S' k = sv_listeners S k" if "k \<notin> ?B" for k
    using kept [OF _ that] r by (cases "k \<in> dom (sv_listeners S)") (blast, metis domIff subsetD)
  show "\<exists>r. sv_listeners S k = Some r \<and> lr_rules r' = lr_rules r" if k: "sv_listeners S' k = Some r'" for k r'
  proof (cases "k \<in> ?B")
    case True
    then obtain x where x: "x \<in> set stopped" "sl_key x = k" using p(2) by (metis imageE)
    then have "r' = \<lparr>lr_rules = sl_rules x, lr_sessions = newUDPSessionTable\<rparr>" using r k by auto
    then show ?thesis using bspec [OF p(3) x(1)] x(2) by auto
  next
    case False
    have "k \<in> dom (sv_listeners S)" using r k by (meson domI subsetD)
    then show ?thesis using kept False k by fastforce
  qed
  show "dom (sv_listeners S') = dom (sv_listeners S)" if "restorable listen (dom (sv_listeners S))"
  proof -
    have "restorable listen (sl_key ` set stopped)" using that p(2) B unfolding restorable_def by blast
    then show ?thesis using r ok(1) unfolding sv_ok_def by (elim conjE) simp
  qed
  have "no_overlap (dom (sv_listeners S'))"
    using r ok(1) no_overlap_subset [of "dom (sv_listeners S)"] unfolding sv_ok_def by (elim conjE) simp
  then show "sv_ok S'" using r unfolding sv_ok_def by (elim conjE) (intro conjI; assumption)
qed

lemma apply_failure_cases:
  assumes ok: "sv_ok S" "orders_ok orders grouped S"
    and group: "groupRulesByListener (cs_Rules snapshot) = Inr grouped"
    and app: "supervisor_Apply listen orders snapshot S = (Some e, S')"
  obtains (unchanged) "S' = S"
  | (rolled_back) stopped S1 S3 restoreErr where
      "stopOverlappingAbsentListenersLocked (mo_sessions orders) (mo_validate orders) (mo_old orders) S = (stopped, S1)"
      "sv_listeners S3 = sv_listeners S1" "distinct (sv_open S3)" "set (sv_open S3) = set (sv_open S1)"
      "restoreStoppedListenersLocked listen stopped S3 = (restoreErr, S')"
proof -
  have "S' = S \<or> (\<exists>stopped S1 S3 restoreErr.
      stopOverlappingAbsentListenersLocked (mo_sessions orders) (mo_validate orders) (mo_old orders) S = (stopped, S1) \<and>
      sv_listeners S3 = sv_listeners S1 \<and> distinct (sv_open S3) \<and> set (sv_open S3) = set (sv_open S1) \<and>
      restoreStoppedListenersLocked listen stopped S3 = (restoreErr, S'))"
  proof (cases "validateNoOverlappingListeners (mo_validate orders)")
    case (Some err)
    then show ?thesis using app group by (simp add: supervisor_Apply_def)
  next
    case None
    obtain stopped S1 where stop: "stopOverlappingAbsentListenersLocked (mo_sessions orders) (mo_validate orders) (mo_old orders) S = (stopped, S1)"
      by fastforce
    obtain failure started S2 where start: "startLoop listen grouped (mo_start orders) [] S1 = (failure, started, S2)"
      by (metis surj_pair)
    note c = apply_cases [OF ok group None stop start]
    have c1: "sv_listeners S2 = sv_listeners S1" "distinct (sv_open S2)" "set (sv_open S2) = set (sv_open S1) \<union> fst ` set started"
      "fst ` set started \<subseteq> missing grouped (mo_start orders) S1"
      using c(1) by (simp_all add: start_result_def)
    define S3 where "S3 = stopMany (mo_sessions orders) started S2"
    obtain restoreErr where "restoreStoppedListenersLocked listen stopped S3 = (restoreErr, S')"
      using app by (cases failure) (auto simp: supervisor_Apply_def group None stop start S3_def Let_def split: prod.splits)
    moreover have "sv_listeners S3 = sv_listeners S1" "distinct (sv_open S3)"
      using stopMany_spec [OF c1(2)] c1(1) by (simp_all add: S3_def)
    moreover have "fst ` set started \<inter> set (sv_open S1) = {}"
      using c1(4) c(3) unfolding prestop(6) [OF ok stop] by blast
    then have "set (sv_open S3) = set (sv_open S1)"
      unfolding S3_def stopMany_spec(3) [OF c1(2)] c1(3) by blast
    ultimately show ?thesis using stop by blast
  qed
  then show thesis using that by blast
qed

subsection \<open>The rules of a listener\<close>

text \<open>The rules a listener serves, in the order of the configuration.\<close>

definition serves :: "listenerKey \<Rightarrow> RuleConfig \<Rightarrow> bool" where
  "serves key rule \<longleftrightarrow>
     rc_Enabled rule \<and> rc_ListenIP rule = lk_listenIP key \<and> rc_Port rule = lk_port key \<and>
     lk_protocol key \<in> set (listenerProtocols (rc_Protocol rule))"

definition rules_for :: "listenerKey \<Rightarrow> RuleConfig list \<Rightarrow> RuleConfig list option" where
  "rules_for key rules = (let rs = filter (serves key) rules in if rs = [] then None else Some rs)"

lemma addToGroup_protocols:
  assumes "rc_Enabled rule"
  shows "fold (addToGroup rule) (listenerProtocols (rc_Protocol rule)) grouped key =
    (if serves key rule then Some ((case grouped key of None \<Rightarrow> [] | Some rs \<Rightarrow> rs) @ [rule]) else grouped key)"
  using assms
  by (cases key) (auto simp: listenerProtocols_def addToGroup_def serves_def Let_def split: option.split)

lemma groupLoop_correct:
  "groupLoop grouped rules = Inr grouped' \<Longrightarrow>
   grouped' key = (let rs = filter (serves key) rules in
     if rs = [] then grouped key else Some ((case grouped key of None \<Rightarrow> [] | Some old \<Rightarrow> old) @ rs))"
proof (induction grouped rules rule: groupLoop.induct)
  case (2 grouped rule rules)
  show ?case
  proof (cases "rc_Enabled rule")
    case True
    then have "groupLoop (fold (addToGroup rule) (listenerProtocols (rc_Protocol rule)) grouped) rules = Inr grouped'"
      using "2.prems" by (auto split: if_splits)
    moreover have "normalizedForwardingType rule = ForwardingTypeDirect"
      using "2.prems" True by (auto split: if_splits)
    ultimately have "grouped' key = (let rs = filter (serves key) rules; g = fold (addToGroup rule)
        (listenerProtocols (rc_Protocol rule)) grouped key
        in if rs = [] then g else Some ((case g of None \<Rightarrow> [] | Some old \<Rightarrow> old) @ rs))"
      using "2.IH"(2) True unfolding Let_def by blast
    then show ?thesis
      unfolding addToGroup_protocols [OF True] by (auto simp: Let_def split: option.splits)
  next
    case False
    then show ?thesis using "2.IH"(1) "2.prems" by (auto simp: serves_def Let_def)
  qed
qed simp

lemma group_correct: "groupRulesByListener rules = Inr grouped \<Longrightarrow> grouped = (\<lambda>key. rules_for key rules)"
  using groupLoop_correct [of Map.empty rules grouped]
  by (intro ext) (simp add: groupRulesByListener_def rules_for_def Let_def)

subsection \<open>The transaction\<close>

text \<open>
  C8: A configuration that is applied without an error is installed completely: the supervisor then has
  exactly one listener for each listen address, protocol and port that an enabled rule asks for, serving
  exactly the rules that ask for it in their order; a listener that was already there keeps its UDP
  sessions and a new one starts with none; exactly the sockets of these listeners are open and no two
  of them overlap.
\<close>

theorem apply_installs:
  assumes "sv_ok S" "orders_ok orders grouped S" "groupRulesByListener (cs_Rules snapshot) = Inr grouped"
    and "supervisor_Apply listen orders snapshot S = (None, S')"
  shows "sv_ok S' \<and>
    map_option lr_rules (sv_listeners S' key) = rules_for key (cs_Rules snapshot) \<and>
    (\<forall>r'. sv_listeners S' key = Some r' \<longrightarrow> lr_sessions r' =
       (case sv_listeners S key of Some r \<Rightarrow> lr_sessions r | None \<Rightarrow> newUDPSessionTable))"
  using apply_success_state [OF assms] group_correct [OF assms(3)]
  by (auto simp: option.map_comp comp_def option.map_ident)

text \<open>
  C9: A configuration that cannot be applied leaves nothing half done. No listener is added, every
  listener that is still there serves the rules it served before, the listeners that do not overlap the
  new configuration are untouched, and the open sockets are those of the listeners. When the addresses
  of the old listeners can be bound again while nothing overlapping is open, all of them are back.
\<close>

theorem apply_rolls_back:
  assumes ok: "sv_ok S" "\<And>grouped. groupRulesByListener (cs_Rules snapshot) = Inr grouped \<Longrightarrow> orders_ok orders grouped S"
    and app: "supervisor_Apply listen orders snapshot S = (Some e, S')"
  shows "sv_ok S' \<and>
    (\<forall>r'. sv_listeners S' key = Some r' \<longrightarrow> (\<exists>r. sv_listeners S key = Some r \<and> lr_rules r' = lr_rules r)) \<and>
    (key \<notin> blocking (mo_validate orders) (sv_listeners S) \<longrightarrow> sv_listeners S' key = sv_listeners S key) \<and>
    (restorable listen (dom (sv_listeners S)) \<longrightarrow>
       map_option lr_rules (sv_listeners S' key) = map_option lr_rules (sv_listeners S key))"
proof (cases "groupRulesByListener (cs_Rules snapshot)")
  case (Inl err)
  then show ?thesis using app ok(1) by (simp add: supervisor_Apply_def)
next
  case (Inr grouped)
  from ok(1) ok(2) [OF Inr] Inr app show ?thesis
  proof (cases rule: apply_failure_cases)
    case unchanged
    then show ?thesis using ok(1) by simp
  next
    case (rolled_back stopped S1 S3 restoreErr)
    note r = rollback [OF ok(1) ok(2) [OF Inr] rolled_back]
    have "map_option lr_rules (sv_listeners S' key) = map_option lr_rules (sv_listeners S key)"
      if "restorable listen (dom (sv_listeners S))"
    proof -
      have "key \<in> dom (sv_listeners S') \<longleftrightarrow> key \<in> dom (sv_listeners S)" using r(4) [OF that] by simp
      then show ?thesis using r(2) [of key] by (cases "sv_listeners S' key") auto
    qed
    then show ?thesis using r(1-3) by blast
  qed
qed

lemma apply_ok_when_granted:
  assumes ok: "sv_ok S" "orders_ok orders grouped S" "groupRulesByListener (cs_Rules snapshot) = Inr grouped"
    and "no_overlap (dom grouped)" and free: "restorable listen (dom grouped)"
  shows "fst (supervisor_Apply listen orders snapshot S) = None"
proof -
  have valid: "validateNoOverlappingListeners (mo_validate orders) = None"
    using validate_correct [of "mo_validate orders"] assms(2,4) by (simp add: orders_ok_def)
  obtain stopped S1 where stop: "stopOverlappingAbsentListenersLocked (mo_sessions orders) (mo_validate orders) (mo_old orders) S = (stopped, S1)"
    by fastforce
  obtain failure started S2 where start: "startLoop listen grouped (mo_start orders) [] S1 = (failure, started, S2)"
    by (metis surj_pair)
  note c = apply_cases [OF ok valid stop start] and p = prestop [OF ok(1,2) stop]
  have "failure = None"
  proof (rule ccontr)
    assume "failure \<noteq> None"
    then obtain key rules err T where key: "key \<in> missing grouped (mo_start orders) S1" "grouped key = Some rules"
      and T: "fst (startListener listen key rules T) = Inl err"
        "set (sv_open T) \<subseteq> set (sv_open S1) \<union> (missing grouped (mo_start orders) S1 - {key})"
      using c(1) by (auto simp: start_result_def)
    have "\<not> listenerKeysOverlap key o'" if "o' \<in> set (sv_open T)" for o'
    proof (cases "o' \<in> dom grouped")
      case True
      have "o' \<noteq> key" using that T(2) key(1) c(3) p(6) by blast
      then show ?thesis using no_overlapD [OF assms(4), of key o'] True key(2) by blast
    next
      case False
      then have "o' \<in> dom (sv_listeners S1)" using that T(2) c(2) p(6) by blast
      then show ?thesis using p(8) [of key o'] False key(2) by blast
    qed
    then have "grants listen (sv_open T) key" using free key(2) unfolding restorable_def by blast
    then show False using startListener_granted [of listen T key rules] T(1) by simp
  qed
  then show ?thesis by (simp add: supervisor_Apply_def ok(3) valid stop start Let_def)
qed

text \<open>
  C10: When a bind fails only if an overlapping socket of the agent itself is open, a configuration of
  direct rules whose listeners do not overlap is always applied, whatever listeners the agent had
  before: the supervisor makes room before it starts a listener.
\<close>

theorem apply_succeeds:
  assumes ok: "sv_ok S" "orders_ok orders grouped S" "groupRulesByListener (cs_Rules snapshot) = Inr grouped"
    and "no_overlap (dom grouped)" and free: "restorable listen (dom grouped)"
  shows "fst (supervisor_Apply listen orders snapshot S) = None"
  using apply_ok_when_granted [OF assms] .

subsection \<open>Every state of a supervisor\<close>

lemma image_map_filter_all:
  "fst ` set (List.map_filter (\<lambda>k. map_option (Pair k) (f k)) ks) = {k \<in> set ks. f k \<noteq> None}"
  by (induction ks) (auto simp: List.map_filter_simps split: option.splits)

lemma close_state:
  assumes "sv_ok S" "distinct (mo_old orders)" "set (mo_old orders) = dom (sv_listeners S)"
  shows "sv_listeners (supervisor_Close orders S) = Map.empty \<and> sv_open (supervisor_Close orders S) = []"
proof -
  have d: "distinct (sv_open (S\<lparr>sv_listeners := Map.empty\<rparr>))" using assms(1) by (simp add: sv_ok_def)
  have "fst ` set (List.map_filter (\<lambda>key. map_option (Pair key) (sv_listeners S key)) (mo_old orders)) = set (sv_open S)"
    using assms unfolding image_map_filter_all by (auto simp: sv_ok_def)
  then have "set (sv_open (supervisor_Close orders S)) = {}"
    using stopMany_spec(3) [OF d, of "mo_sessions orders"] by (simp add: supervisor_Close_def)
  then show ?thesis using stopMany_spec(1) [OF d, of "mo_sessions orders"] by (simp add: supervisor_Close_def)
qed

inductive sv_reach :: "Supervisor \<Rightarrow> bool" where
  created: "sv_reach (NewSupervisor now)"
| applied: "sv_reach S \<Longrightarrow>
    (\<And>grouped. groupRulesByListener (cs_Rules snapshot) = Inr grouped \<Longrightarrow> orders_ok orders grouped S) \<Longrightarrow>
    sv_reach (snd (supervisor_Apply listen orders snapshot S))"
| closed: "sv_reach S \<Longrightarrow> distinct (mo_old orders) \<Longrightarrow> set (mo_old orders) = dom (sv_listeners S) \<Longrightarrow>
    sv_reach (supervisor_Close orders S)"
| forwarded: "sv_reach S \<Longrightarrow> sv_listeners S key = Some r \<Longrightarrow>
    sv_reach (S\<lparr>sv_listeners := (sv_listeners S)(key \<mapsto> r\<lparr>lr_sessions := table\<rparr>), sv_metrics := m\<rparr>)"

lemma apply_keeps_ok:
  assumes "sv_ok S" "\<And>grouped. groupRulesByListener (cs_Rules snapshot) = Inr grouped \<Longrightarrow> orders_ok orders grouped S"
  shows "sv_ok (snd (supervisor_Apply listen orders snapshot S))"
proof (cases "groupRulesByListener (cs_Rules snapshot)")
  case (Inl err)
  then show ?thesis using assms(1) by (simp add: supervisor_Apply_def)
next
  case (Inr grouped)
  obtain result S' where app: "supervisor_Apply listen orders snapshot S = (result, S')" by fastforce
  show ?thesis
  proof (cases result)
    case None
    then show ?thesis using apply_success_state(2) [OF assms(1) assms(2) [OF Inr] Inr] app by simp
  next
    case (Some e)
    with app have app': "supervisor_Apply listen orders snapshot S = (Some e, S')" by simp
    have "sv_ok S'"
      using assms(1) assms(2) [OF Inr] Inr app'
      by (rule apply_failure_cases) (use assms(1) rollback(1) [OF assms(1) assms(2) [OF Inr]] in blast)+
    then show ?thesis using app by simp
  qed
qed

text \<open>
  C11: In every state a supervisor can get into by applying configurations, with or without success, by
  forwarding and by closing, the open sockets are exactly those of its listeners, each open once, and no
  two of them overlap.
\<close>

theorem supervisor_sockets_sound:
  assumes "sv_reach S"
  shows "distinct (sv_open S) \<and> set (sv_open S) = dom (sv_listeners S) \<and>
    (\<forall>a b. a \<in> dom (sv_listeners S) \<longrightarrow> b \<in> dom (sv_listeners S) \<longrightarrow> a \<noteq> b \<longrightarrow> \<not> listenerKeysOverlap a b)"
proof -
  have "sv_ok S" using assms
  proof (induction rule: sv_reach.induct)
    case (closed S orders)
    then show ?case using close_state [of S orders] by (simp add: sv_ok_def no_overlap_def)
  next
    case (forwarded S key r table m)
    then show ?case by (simp add: sv_ok_def insert_absorb domI)
  next
    case (applied S snapshot orders listen)
    then show ?case by (blast intro: apply_keeps_ok)
  qed (simp add: sv_ok_def NewSupervisor_def no_overlap_def)
  then show ?thesis unfolding sv_ok_def no_overlap_def by blast
qed

subsection \<open>An example\<close>

definition example_listener_rule :: "int \<Rightarrow> RuleConfig" where
  "example_listener_rule p = zero_rule\<lparr>rc_ID := ''r1'', rc_Enabled := True, rc_Protocol := ProtocolTCP,
     rc_ListenIP := ''10.0.0.1'', rc_Port := p, rc_MatchType := MatchTypeAnyInbound\<rparr>"

definition example_key :: "int \<Rightarrow> listenerKey" where
  "example_key p = \<lparr>lk_listenIP = ''10.0.0.1'', lk_protocol = ProtocolTCP, lk_port = p\<rparr>"

definition example_config :: "int \<Rightarrow> ConfigSnapshot" where
  "example_config p = zero_snapshot\<lparr>cs_Rules := [example_listener_rule p]\<rparr>"

definition example_orders :: "int \<Rightarrow> listenerKey list \<Rightarrow> mapOrders" where
  "example_orders p old = \<lparr>mo_validate = [example_key p], mo_old = old, mo_start = [example_key p],
     mo_removed = old, mo_sessions = (\<lambda>_. []), mo_targets = []\<rparr>"

definition example_supervisor :: Supervisor where
  "example_supervisor = snd (supervisor_Apply (\<lambda>_ _ _. None) (example_orders 80 []) (example_config 80) (NewSupervisor 0))"

lemma example_group:
  "groupRulesByListener (cs_Rules (example_config p)) = Inr [example_key p \<mapsto> [example_listener_rule p]]"
  by (simp add: groupRulesByListener_def example_config_def example_listener_rule_def zero_snapshot_def zero_rule_def
      normalizedForwardingType_def listenerProtocols_def addToGroup_def example_key_def)

lemma example_orders_ok:
  "distinct old \<Longrightarrow> set old = dom (sv_listeners S) \<Longrightarrow>
   orders_ok (example_orders p old) [example_key p \<mapsto> [example_listener_rule p]] S"
  by (simp add: orders_ok_def example_orders_def)

lemma new_ok: "sv_ok (NewSupervisor now)"
  by (simp add: sv_ok_def NewSupervisor_def no_overlap_def)

theorem apply_succeeds_witness:
  "fst (supervisor_Apply (\<lambda>_ _ _. None) (example_orders 80 []) (example_config 80) (NewSupervisor 0)) = None"
proof (rule apply_succeeds [OF new_ok example_orders_ok example_group])
  show "set [] = dom (sv_listeners (NewSupervisor 0))" by (simp add: NewSupervisor_def)
  show "no_overlap (dom [example_key 80 \<mapsto> [example_listener_rule 80]])" by (simp add: no_overlap_def)
  show "restorable (\<lambda>_ _ _. None) (dom [example_key 80 \<mapsto> [example_listener_rule 80]])"
    by (simp add: restorable_def grants_def example_key_def)
qed simp

lemma example_applied:
  "supervisor_Apply (\<lambda>_ _ _. None) (example_orders 80 []) (example_config 80) (NewSupervisor 0) = (None, example_supervisor)"
  unfolding example_supervisor_def
  by (simp add: supervisor_Apply_def example_group NewSupervisor_def example_orders_def example_key_def
      startListener_def Let_def)

lemma example_state:
  "sv_listeners example_supervisor = [example_key 80 \<mapsto> \<lparr>lr_rules = [example_listener_rule 80], lr_sessions = newUDPSessionTable\<rparr>]"
  "sv_open example_supervisor = [example_key 80]"
  by (auto simp: example_supervisor_def supervisor_Apply_def example_group NewSupervisor_def example_orders_def example_key_def
      startListener_def Let_def stopMany_def List.map_filter_def fun_eq_iff)

theorem apply_installs_witness:
  "map_option lr_rules (sv_listeners example_supervisor (example_key 80)) = Some [example_listener_rule 80]"
proof -
  have "set [] = dom (sv_listeners (NewSupervisor 0))" by (simp add: NewSupervisor_def)
  from apply_installs [OF new_ok example_orders_ok [OF _ this] example_group example_applied, of "example_key 80"]
  show ?thesis
    by (simp add: rules_for_def serves_def example_config_def zero_snapshot_def example_listener_rule_def zero_rule_def
        example_key_def listenerProtocols_def)
qed

theorem supervisor_sockets_sound_witness:
  "sv_reach example_supervisor \<and> set (sv_open example_supervisor) = dom (sv_listeners example_supervisor) \<and>
   example_key 80 \<in> dom (sv_listeners example_supervisor)"
proof -
  have "set [] = dom (sv_listeners (NewSupervisor 0))" by (simp add: NewSupervisor_def)
  then have "orders_ok (example_orders 80 []) grouped (NewSupervisor 0)"
    if "groupRulesByListener (cs_Rules (example_config 80)) = Inr grouped" for grouped
    using that example_orders_ok [of "[]" "NewSupervisor 0" 80] by (simp add: example_group)
  then have "sv_reach example_supervisor"
    unfolding example_supervisor_def by (rule sv_reach.applied [OF sv_reach.created])
  moreover have "example_key 80 \<in> dom (sv_listeners example_supervisor)"
    by (simp add: example_state)
  ultimately show ?thesis using supervisor_sockets_sound [of example_supervisor] by blast
qed

text \<open>The system refuses port 81, so the change from port 80 to 81 fails and port 80 stays.\<close>

theorem apply_rolls_back_witness:
  "let listen = (\<lambda>_ _ address. if address = ''10.0.0.1:81'' then Some ''denied'' else None);
       (result, S') = supervisor_Apply listen (example_orders 81 [example_key 80]) (example_config 81) example_supervisor
   in result \<noteq> None \<and> map_option lr_rules (sv_listeners S' (example_key 80)) = Some [example_listener_rule 80]"
proof -
  let ?listen = "\<lambda>_ _ address. if address = ''10.0.0.1:81'' then Some ''denied'' else None :: string option"
  let ?orders = "example_orders 81 [example_key 80]"
  note l = example_state(1) and o = example_state(2)
  have ok: "sv_ok example_supervisor" using l o by (simp add: sv_ok_def no_overlap_def)
  have d: "set [example_key 80] = dom (sv_listeners example_supervisor)" by (simp add: l)
  have orders: "orders_ok ?orders grouped example_supervisor"
    if "groupRulesByListener (cs_Rules (example_config 81)) = Inr grouped" for grouped
    using that example_orders_ok [OF _ d, of 81] by (simp add: example_group)
  obtain result S' where app: "supervisor_Apply ?listen ?orders (example_config 81) example_supervisor = (result, S')"
    by fastforce
  have addr: "JoinHostPort ''10.0.0.1'' (Itoa 81) = ''10.0.0.1:81''" by code_simp
  have addr80: "JoinHostPort ''10.0.0.1'' (Itoa 80) = ''10.0.0.1:80''" by code_simp
  have "result \<noteq> None"
    using app by (auto simp: supervisor_Apply_def example_group l o example_orders_def example_key_def startListener_def
        overlapsAnyListener_def listenerKeysOverlap_def addr Let_def split: prod.splits)
  then obtain e where e: "supervisor_Apply ?listen ?orders (example_config 81) example_supervisor = (Some e, S')"
    using app by auto
  have "restorable ?listen (dom (sv_listeners example_supervisor))"
    by (simp add: l restorable_def grants_def example_key_def addr80)
  then have "map_option lr_rules (sv_listeners S' (example_key 80)) = Some [example_listener_rule 80]"
    using apply_rolls_back [OF ok orders e, of "example_key 80"] l by simp
  then show ?thesis using \<open>result \<noteq> None\<close> app by simp
qed

end
