(* ===== verification/Config_Compiler.thy ===== *)
theory Config_Compiler
  imports Agent_Config
begin

text \<open>
  \<open>pkg/core/service/config_compiler.go\<close>: the control plane turns the rules of an organization into the
  configuration snapshot of one node, with the defaults of \<open>control_dataplane.go\<close>,
  \<open>control_rule_deployment.go\<close> and \<open>control_targets.go\<close> it uses. SHA-256 over the JSON form of the hashed fields is
  the argument \<open>digest\<close>; no property needs anything of it.
\<close>

subsection \<open>Defaults\<close>

abbreviation NodeDataplaneModeAuto :: string where "NodeDataplaneModeAuto \<equiv> ''AUTO''"
abbreviation NodeDataplaneModeNative :: string where "NodeDataplaneModeNative \<equiv> ''NATIVE''"
abbreviation NodeDataplaneModeHAProxy :: string where "NodeDataplaneModeHAProxy \<equiv> ''HAPROXY''"
abbreviation NodeDataplaneModeNFTables :: string where "NodeDataplaneModeNFTables \<equiv> ''NFTABLES''"
abbreviation targetGroupSchedulerPriorityIPHash :: string where
  "targetGroupSchedulerPriorityIPHash \<equiv> ''PRIORITY_IPHASH''"
abbreviation targetGroupSchedulerLeastLoad :: string where "targetGroupSchedulerLeastLoad \<equiv> ''LEAST_LOAD''"

definition defaultNodeDataplaneMode :: "string \<Rightarrow> string" where
  "defaultNodeDataplaneMode value =
     (if List.member [NodeDataplaneModeNative, NodeDataplaneModeHAProxy, NodeDataplaneModeNFTables] (ToUpper (TrimSpace value))
      then ToUpper (TrimSpace value) else NodeDataplaneModeAuto)"

definition defaultNodeDataplaneConflictPolicy :: "string \<Rightarrow> string" where
  "defaultNodeDataplaneConflictPolicy value =
     (if ToUpper (TrimSpace value) = ''FAIL_FAST'' then ''FAIL_FAST'' else ''FAIL_FAST'')"

definition defaultDataplanePreference :: "string \<Rightarrow> string" where
  "defaultDataplanePreference value =
     (let value = ToUpper (TrimSpace value) in
      if List.member [''NATIVE'', ''HAPROXY'', ''NFTABLES''] value then value else ''AUTO'')"

definition normalizeTargetGroupScheduler :: "string \<Rightarrow> string" where
  "normalizeTargetGroupScheduler scheduler =
     (let scheduler = ToUpper (TrimSpace scheduler) in
      if scheduler = [] then targetGroupSchedulerPriorityIPHash else scheduler)"

subsection \<open>What an agent understands\<close>

definition version_at_least :: "ProtocolVersion \<Rightarrow> ProtocolVersion \<Rightarrow> bool" where
  "version_at_least version required =
     (if pv_Major version \<noteq> pv_Major required then pv_Major version > pv_Major required
      else pv_Minor version \<ge> pv_Minor required)"

definition agentSupportsManagedDataplane :: "ProtocolVersion \<Rightarrow> bool" where
  "agentSupportsManagedDataplane version = version_at_least version ManagedDataplaneProtocolVersion"

definition agentSupportsSendIP :: "ProtocolVersion \<Rightarrow> bool" where
  "agentSupportsSendIP version = version_at_least version SendIPProtocolVersion"

definition agentSupportsLeastLoadTargetGroups :: "ProtocolVersion \<Rightarrow> bool" where
  "agentSupportsLeastLoadTargetGroups version = version_at_least version LeastLoadTargetGroupProtocolVersion"

definition nativeCompatibleRulesForLegacyAgent :: "string \<Rightarrow> RuleConfig list \<Rightarrow> RuleConfig list" where
  "nativeCompatibleRulesForLegacyAgent inputMode rules =
     (if defaultNodeDataplaneMode inputMode = NodeDataplaneModeHAProxy \<or>
         defaultNodeDataplaneMode inputMode = NodeDataplaneModeNFTables then []
      else List.map_filter (\<lambda>rule.
        if TrimSpace (rc_SendIP rule) \<noteq> [] then None
        else if defaultDataplanePreference (rc_Dataplane rule) = NodeDataplaneModeHAProxy \<or>
                defaultDataplanePreference (rc_Dataplane rule) = NodeDataplaneModeNFTables then None
        else Some (rule\<lparr>rc_Dataplane := []\<rparr>)) rules)"

definition protocol22CompatibleRulesForAgent :: "RuleConfig list \<Rightarrow> RuleConfig list" where
  "protocol22CompatibleRulesForAgent rules =
     filter (\<lambda>rule. \<not> TrimSpace (rc_SendIP rule) \<noteq> [] \<and> \<not> TrimSpace (rc_RuntimeID rule) \<noteq> []) rules"

definition protocol23CompatibleRulesForAgent :: "RuleConfig list \<Rightarrow> RuleConfig list" where
  "protocol23CompatibleRulesForAgent rules =
     filter (\<lambda>rule. \<not> (up_Type (rc_Upstream rule) = ''TARGET_GROUP'' \<and>
       normalizeTargetGroupScheduler (up_Scheduler (rc_Upstream rule)) = targetGroupSchedulerLeastLoad)) rules"

subsection \<open>The rules of a node\<close>

datatype compile_error = ErrInvalidInput

definition openCoreExecutableRuleSupported :: "RuleConfig \<Rightarrow> compile_error + bool" where
  "openCoreExecutableRuleSupported rule =
     (let forwardingType = (if rc_ForwardingType rule = [] then ForwardingTypeDirect else rc_ForwardingType rule) in
      if forwardingType \<noteq> ForwardingTypeDirect then Inr False
      else if TrimSpace (rc_MatchType rule) = [] then Inl ErrInvalidInput
      else if rc_MatchType rule = MatchTypeAnyInbound \<or> rc_MatchType rule = MatchTypeTLSSNI then Inr True
      else Inr False)"

definition ruleMatchesAnyNodeGroup :: "RuleConfig \<Rightarrow> string list \<Rightarrow> bool" where
  "ruleMatchesAnyNodeGroup rule nodeGroupSet = list_ex (List.member nodeGroupSet) (rc_NodeGroupIDs rule)"

definition ruleMatchesNode :: "RuleConfig \<Rightarrow> string \<Rightarrow> string list \<Rightarrow> bool" where
  "ruleMatchesNode rule nodeID nodeGroupSet \<longleftrightarrow>
     List.member (rc_NodeIDs rule) nodeID \<or> ruleMatchesAnyNodeGroup rule nodeGroupSet"

text \<open>A bucket without targets sorts before the others of its priority; the others by their first target.\<close>

definition bucket_key :: "TargetPriorityBucket \<Rightarrow> int \<times> bool \<times> string" where
  "bucket_key bucket =
     (pb_Priority bucket, pb_Targets bucket \<noteq> [], case pb_Targets bucket of [] \<Rightarrow> [] | t # _ \<Rightarrow> te_ID t)"

definition normalizedUpstream :: "RuleUpstreamConfig \<Rightarrow> RuleUpstreamConfig" where
  "normalizedUpstream upstream =
     upstream\<lparr>up_Scheduler := (if up_Type upstream = ''TARGET_GROUP''
                then normalizeTargetGroupScheduler (up_Scheduler upstream) else []),
       up_TargetGroup := sort_key bucket_key
         (map (\<lambda>bucket. bucket\<lparr>pb_Targets := sort_key te_ID (pb_Targets bucket)\<rparr>) (up_TargetGroup upstream))\<rparr>"

definition normalizedRule :: "RuleConfig \<Rightarrow> RuleConfig" where
  "normalizedRule rule =
     rule\<lparr>rc_ForwardingType := (if rc_ForwardingType rule = [] then ForwardingTypeDirect else rc_ForwardingType rule),
       rc_NodeIDs := sort (rc_NodeIDs rule), rc_NodeGroupIDs := sort (rc_NodeGroupIDs rule),
       rc_Upstream := normalizedUpstream (rc_Upstream rule)\<rparr>"

definition runtimeRuleID :: "RuleConfig \<Rightarrow> int \<Rightarrow> string" where
  "runtimeRuleID rule port =
     (case rc_PortSegments rule of
        [segment] \<Rightarrow> if ps_StartPort segment = port \<and> ps_EndPort segment = port then TrimSpace (rc_RuntimeID rule)
                   else TrimSpace (rc_ID rule) @ ''-p'' @ Itoa port
      | _ \<Rightarrow> TrimSpace (rc_ID rule) @ ''-p'' @ Itoa port)"

text \<open>The ports of a segment, its ends swapped when they are in the wrong order; none if an end is not positive.\<close>

definition segmentPorts :: "PortSegmentConfig \<Rightarrow> int list" where
  "segmentPorts segment =
     (let start = ps_StartPort segment; end' = ps_EndPort segment in
      if start \<le> 0 \<or> end' \<le> 0 then []
      else if end' < start then [end'..start] else [start..end'])"

definition expandRulePortSegments :: "RuleConfig \<Rightarrow> RuleConfig list" where
  "expandRulePortSegments rule =
     (if rc_PortSegments rule = [] then [rule]
      else
        (let result = concat (map (\<lambda>segment. map (\<lambda>port.
               rule\<lparr>rc_RuntimeID := runtimeRuleID rule port, rc_Port := port, rc_PortSegments := []\<rparr>)
               (segmentPorts segment)) (rc_PortSegments rule)) in
         if result = [] then [rule\<lparr>rc_PortSegments := []\<rparr>] else result))"

fun matchLoop ::
    "string \<Rightarrow> string list \<Rightarrow> RuleConfig list \<Rightarrow> int \<Rightarrow> RuleConfig list \<Rightarrow> compile_error + RuleConfig list \<times> int" where
  "matchLoop nodeID nodeGroupSet matches configVersion [] = Inr (matches, configVersion)"
| "matchLoop nodeID nodeGroupSet matches configVersion (rule # rules) =
     (if \<not> rc_Enabled rule then matchLoop nodeID nodeGroupSet matches configVersion rules
      else if ruleMatchesNode rule nodeID nodeGroupSet then
        (let configVersion = (if rc_ConfigVersion rule > configVersion then rc_ConfigVersion rule else configVersion) in
         case openCoreExecutableRuleSupported rule of
           Inl err \<Rightarrow> Inl err
         | Inr supported \<Rightarrow>
             if \<not> supported then matchLoop nodeID nodeGroupSet matches configVersion rules
             else matchLoop nodeID nodeGroupSet (matches @ expandRulePortSegments (normalizedRule rule)) configVersion rules)
      else matchLoop nodeID nodeGroupSet matches configVersion rules)"

definition matchingEnabledRules ::
    "string \<Rightarrow> string list \<Rightarrow> RuleConfig list \<Rightarrow> compile_error + RuleConfig list \<times> int" where
  "matchingEnabledRules nodeID nodeGroups rules =
     (case matchLoop nodeID nodeGroups [] 0 rules of
        Inl err \<Rightarrow> Inl err
      | Inr (matches, configVersion) \<Rightarrow> Inr (sort_key (\<lambda>r. (rc_ID r, rc_Port r)) matches, configVersion))"

subsection \<open>The snapshot of a node\<close>

type_synonym digestFn = "ProtocolVersion \<times> string \<times> int \<times> RuleConfig list \<Rightarrow> string"

record AgentConfigInput =
  ci_NodeID :: string
  ci_NodeGroups :: "string list"
  ci_AgentProtocolVersion :: ProtocolVersion
  ci_AgentProtocolKnown :: bool
  ci_DataplaneMode :: string
  ci_DataplaneInstanceID :: string
  ci_DataplaneConflictPolicy :: string
  ci_Rules :: "RuleConfig list"

definition configHash :: "digestFn \<Rightarrow> ConfigSnapshot \<Rightarrow> string" where
  "configHash digest config =
     digest (cs_AgentProtocolVersion config, cs_NodeID config, cs_ConfigVersion config, cs_Rules config)"

definition EmptyNodeAgentConfig :: "digestFn \<Rightarrow> string \<Rightarrow> ConfigSnapshot" where
  "EmptyNodeAgentConfig digest nodeID =
     (let config = zero_snapshot\<lparr>cs_AgentProtocolVersion := CurrentProtocolVersion, cs_NodeID := nodeID, cs_ConfigVersion := 0,
            cs_DataplaneMode := NodeDataplaneModeAuto, cs_ConflictPolicy := ''FAIL_FAST'', cs_Rules := []\<rparr>
      in config\<lparr>cs_ConfigHash := configHash digest config\<rparr>)"

definition Compile :: "digestFn \<Rightarrow> AgentConfigInput \<Rightarrow> compile_error + ConfigSnapshot" where
  "Compile digest input =
     (case matchingEnabledRules (ci_NodeID input) (ci_NodeGroups input) (ci_Rules input) of
        Inl err \<Rightarrow> Inl err
      | Inr (rules, configVersion) \<Rightarrow>
          (let compiled = zero_snapshot\<lparr>cs_AgentProtocolVersion := CurrentProtocolVersion, cs_NodeID := ci_NodeID input,
                 cs_ConfigVersion := configVersion, cs_DataplaneMode := defaultNodeDataplaneMode (ci_DataplaneMode input),
                 cs_DataplaneInstanceID := TrimSpace (ci_DataplaneInstanceID input),
                 cs_ConflictPolicy := defaultNodeDataplaneConflictPolicy (ci_DataplaneConflictPolicy input), cs_Rules := rules\<rparr>;
               agentProtocolVersion = (if \<not> ci_AgentProtocolKnown input then \<lparr>pv_Major = 0, pv_Minor = 0\<rparr>
                 else ci_AgentProtocolVersion input);
               compiled = (if \<not> agentSupportsManagedDataplane agentProtocolVersion then
                   compiled\<lparr>cs_DataplaneMode := NodeDataplaneModeNative, cs_DataplaneInstanceID := [], cs_ConflictPolicy := [],
                     cs_Rules := nativeCompatibleRulesForLegacyAgent (ci_DataplaneMode input) (cs_Rules compiled)\<rparr>
                 else compiled);
               compiled = (if \<not> agentSupportsSendIP agentProtocolVersion
                 then compiled\<lparr>cs_Rules := protocol22CompatibleRulesForAgent (cs_Rules compiled)\<rparr> else compiled);
               compiled = (if \<not> agentSupportsLeastLoadTargetGroups agentProtocolVersion
                 then compiled\<lparr>cs_Rules := protocol23CompatibleRulesForAgent (cs_Rules compiled)\<rparr> else compiled)
           in Inr (compiled\<lparr>cs_ConfigHash := configHash digest compiled\<rparr>)))"

subsection \<open>The rules that reach a node\<close>

definition wanted :: "string \<Rightarrow> string list \<Rightarrow> RuleConfig \<Rightarrow> bool" where
  "wanted nodeID nodeGroups rule \<longleftrightarrow> rc_Enabled rule \<and> ruleMatchesNode rule nodeID nodeGroups"

definition executable :: "RuleConfig \<Rightarrow> bool" where
  "executable rule \<longleftrightarrow> openCoreExecutableRuleSupported rule = Inr True"

definition malformed :: "RuleConfig \<Rightarrow> bool" where
  "malformed rule \<longleftrightarrow> openCoreExecutableRuleSupported rule = Inl ErrInvalidInput"

definition expanded :: "string \<Rightarrow> string list \<Rightarrow> RuleConfig list \<Rightarrow> RuleConfig list" where
  "expanded nodeID nodeGroups rules =
     concat (map (\<lambda>r. expandRulePortSegments (normalizedRule r)) (filter (\<lambda>r. wanted nodeID nodeGroups r \<and> executable r) rules))"

definition newest :: "string \<Rightarrow> string list \<Rightarrow> RuleConfig list \<Rightarrow> int" where
  "newest nodeID nodeGroups rules = Max (insert 0 (rc_ConfigVersion ` {r \<in> set rules. wanted nodeID nodeGroups r}))"

lemma supported_cases:
  obtains "openCoreExecutableRuleSupported r = Inl ErrInvalidInput" "malformed r" "\<not> executable r"
  | "openCoreExecutableRuleSupported r = Inr True" "\<not> malformed r" "executable r"
  | "openCoreExecutableRuleSupported r = Inr False" "\<not> malformed r" "\<not> executable r"
  unfolding malformed_def executable_def
  by (cases "openCoreExecutableRuleSupported r") (auto intro: compile_error.exhaust)

lemma newest_Cons:
  "newest n g (r # rules) = (if wanted n g r then max (rc_ConfigVersion r) (newest n g rules) else newest n g rules)"
proof -
  have "{x \<in> set (r # rules). wanted n g x} = (if wanted n g r then insert r {x \<in> set rules. wanted n g x} else {x \<in> set rules. wanted n g x})"
    by auto
  then show ?thesis
    unfolding newest_def by (simp add: insert_commute[of 0] Max_insert)
qed

lemma matchLoop_spec:
  "matchLoop n g ms v rules =
     (if \<exists>r \<in> set rules. wanted n g r \<and> malformed r then Inl ErrInvalidInput
      else Inr (ms @ expanded n g rules, max v (newest n g rules)))"
  if "v \<ge> 0"
  using that
proof (induction rules arbitrary: ms v)
  case Nil
  then show ?case by (simp add: expanded_def newest_def)
next
  case (Cons r rules)
  show ?case
  proof (cases "wanted n g r")
    case False
    then have "matchLoop n g ms v (r # rules) = matchLoop n g ms v rules"
      by (auto simp: wanted_def)
    with False Cons show ?thesis
      by (simp add: newest_Cons expanded_def)
  next
    case True
    define v' where "v' = max v (rc_ConfigVersion r)"
    have vif: "(if rc_ConfigVersion r > v then rc_ConfigVersion r else v) = v'"
      by (simp add: v'_def)
    have step: "matchLoop n g ms v (r # rules) =
        (case openCoreExecutableRuleSupported r of
           Inl err \<Rightarrow> Inl err
         | Inr supported \<Rightarrow> if \<not> supported then matchLoop n g ms v' rules
             else matchLoop n g (ms @ expandRulePortSegments (normalizedRule r)) v' rules)"
      using True vif by (simp only: matchLoop.simps Let_def wanted_def) simp
    have v': "v' \<ge> 0" "max v' (newest n g rules) = max v (newest n g (r # rules))"
      using Cons.prems True by (auto simp: v'_def newest_Cons)
    show ?thesis
      unfolding step by (cases r rule: supported_cases) (simp_all add: Cons.IH[OF v'(1)] v'(2) True expanded_def)
  qed
qed

lemma matchingEnabledRules_spec:
  "matchingEnabledRules n g rules =
     (if \<exists>r \<in> set rules. wanted n g r \<and> malformed r then Inl ErrInvalidInput
      else Inr (sort_key (\<lambda>r. (rc_ID r, rc_Port r)) (expanded n g rules), newest n g rules))"
proof -
  have "0 \<le> newest n g rules" by (simp add: newest_def)
  then show ?thesis
    unfolding matchingEnabledRules_def by (simp add: matchLoop_spec)
qed

subsection \<open>Ports\<close>

text \<open>The ports a rule asks for: those of its segments, or its port when no segment has any.\<close>

definition wantedPorts :: "RuleConfig \<Rightarrow> int set" where
  "wantedPorts rule =
     (let ps = \<Union> (set ` segmentPorts ` set (rc_PortSegments rule)) in if ps = {} then {rc_Port rule} else ps)"

lemma set_segmentPorts:
  "set (segmentPorts s) = {p. 0 < ps_StartPort s \<and> 0 < ps_EndPort s \<and>
     min (ps_StartPort s) (ps_EndPort s) \<le> p \<and> p \<le> max (ps_StartPort s) (ps_EndPort s)}"
  by (auto simp: segmentPorts_def Let_def)

lemma expand_member:
  "e \<in> set (expandRulePortSegments r) \<longleftrightarrow>
     (\<exists>p \<in> wantedPorts r. e = r\<lparr>rc_Port := p, rc_PortSegments := [],
        rc_RuntimeID := (if \<Union> (set ` segmentPorts ` set (rc_PortSegments r)) = {} then rc_RuntimeID r else runtimeRuleID r p)\<rparr>)"
proof (cases "rc_PortSegments r = []")
  case True
  then show ?thesis
    by (cases r) (simp add: expandRulePortSegments_def wantedPorts_def)
next
  case False
  let ?all = "\<Union> (set ` segmentPorts ` set (rc_PortSegments r))"
  let ?f = "\<lambda>p. r\<lparr>rc_RuntimeID := runtimeRuleID r p, rc_Port := p, rc_PortSegments := []\<rparr>"
  let ?res = "concat (map (\<lambda>s. map ?f (segmentPorts s)) (rc_PortSegments r))"
  have res: "set ?res = ?f ` ?all" by auto
  show ?thesis
  proof (cases "?all = {}")
    case True
    with res have "?res = []" by simp
    with False True show ?thesis
      by (cases r) (simp add: expandRulePortSegments_def wantedPorts_def)
  next
    case nonempty: False
    with res have "?res \<noteq> []" by auto
    then have "set (expandRulePortSegments r) = ?f ` ?all"
      using False res by (simp add: expandRulePortSegments_def Let_def)
    moreover have "?f p = r\<lparr>rc_Port := p, rc_PortSegments := [], rc_RuntimeID := runtimeRuleID r p\<rparr>" for p
      by (cases r) simp
    ultimately show ?thesis
      using nonempty by (auto simp: wantedPorts_def Let_def)
  qed
qed

lemma normalizedRule_simps [simp]:
  "rc_ID (normalizedRule r) = rc_ID r" "rc_Port (normalizedRule r) = rc_Port r"
  "rc_PortSegments (normalizedRule r) = rc_PortSegments r" "rc_RuntimeID (normalizedRule r) = rc_RuntimeID r"
  "rc_SendIP (normalizedRule r) = rc_SendIP r" "rc_Dataplane (normalizedRule r) = rc_Dataplane r"
  by (simp_all add: normalizedRule_def)

lemma runtimeRuleID_normalized [simp]: "runtimeRuleID (normalizedRule r) p = runtimeRuleID r p"
  by (cases "rc_PortSegments r" rule: remdups_adj.cases) (simp_all add: runtimeRuleID_def)

lemma wantedPorts_normalized [simp]: "wantedPorts (normalizedRule r) = wantedPorts r"
  by (simp add: wantedPorts_def)

text \<open>The compiled form of a rule at one of its ports.\<close>

definition compiledRule :: "RuleConfig \<Rightarrow> int \<Rightarrow> RuleConfig" where
  "compiledRule r p = (normalizedRule r)\<lparr>rc_Port := p, rc_PortSegments := [],
     rc_RuntimeID := (if list_all (\<lambda>s. segmentPorts s = []) (rc_PortSegments r) then rc_RuntimeID r else runtimeRuleID r p)\<rparr>"

lemma expand_set: "set (expandRulePortSegments (normalizedRule r)) = compiledRule r ` wantedPorts r"
proof -
  have "\<Union> (set ` segmentPorts ` set (rc_PortSegments r)) = {} \<longleftrightarrow> list_all (\<lambda>s. segmentPorts s = []) (rc_PortSegments r)"
    by (auto simp: list_all_iff)
  then have "e \<in> set (expandRulePortSegments (normalizedRule r)) \<longleftrightarrow> (\<exists>p \<in> wantedPorts r. e = compiledRule r p)" for e
    unfolding expand_member compiledRule_def by simp
  then show ?thesis by blast
qed

lemma expand_id_port:
  assumes "e \<in> set (expandRulePortSegments (normalizedRule r))"
  shows "rc_ID e = rc_ID r" "rc_Port e \<in> wantedPorts r"
  using assms by (auto simp: expand_member)

lemma expand_by_port:
  assumes "e \<in> set (expandRulePortSegments r)" "e' \<in> set (expandRulePortSegments r)" "rc_Port e = rc_Port e'"
  shows "e = e'"
  using assms by (auto simp: expand_member)

subsection \<open>Old agents\<close>

lemma supports_chain:
  "agentSupportsLeastLoadTargetGroups v \<Longrightarrow> agentSupportsSendIP v"
  "agentSupportsSendIP v \<Longrightarrow> agentSupportsManagedDataplane v"
  by (auto simp: agentSupportsLeastLoadTargetGroups_def agentSupportsSendIP_def agentSupportsManagedDataplane_def
      version_at_least_def LeastLoadTargetGroupProtocolVersion_def SendIPProtocolVersion_def
      ManagedDataplaneProtocolVersion_def split: if_splits)

definition agentVersion :: "AgentConfigInput \<Rightarrow> ProtocolVersion" where
  "agentVersion input = (if ci_AgentProtocolKnown input then ci_AgentProtocolVersion input else \<lparr>pv_Major = 0, pv_Minor = 0\<rparr>)"

definition legacyRules :: "AgentConfigInput \<Rightarrow> RuleConfig list \<Rightarrow> RuleConfig list" where
  "legacyRules input rules =
     (let v = agentVersion input;
          rules = (if agentSupportsManagedDataplane v then rules else nativeCompatibleRulesForLegacyAgent (ci_DataplaneMode input) rules);
          rules = (if agentSupportsSendIP v then rules else protocol22CompatibleRulesForAgent rules)
      in if agentSupportsLeastLoadTargetGroups v then rules else protocol23CompatibleRulesForAgent rules)"

definition compiledSnapshot :: "digestFn \<Rightarrow> AgentConfigInput \<Rightarrow> ConfigSnapshot" where
  "compiledSnapshot digest input =
     (let managed = agentSupportsManagedDataplane (agentVersion input);
          version = newest (ci_NodeID input) (ci_NodeGroups input) (ci_Rules input);
          rules = legacyRules input (sort_key (\<lambda>r. (rc_ID r, rc_Port r))
            (expanded (ci_NodeID input) (ci_NodeGroups input) (ci_Rules input)))
      in \<lparr>cs_AgentProtocolVersion = CurrentProtocolVersion, cs_NodeID = ci_NodeID input, cs_ConfigVersion = version,
          cs_ConfigHash = digest (CurrentProtocolVersion, ci_NodeID input, version, rules),
          cs_DataplaneMode = (if managed then defaultNodeDataplaneMode (ci_DataplaneMode input) else NodeDataplaneModeNative),
          cs_DataplaneInstanceID = (if managed then TrimSpace (ci_DataplaneInstanceID input) else []),
          cs_ConflictPolicy = (if managed then ''FAIL_FAST'' else []), cs_Rules = rules\<rparr>)"

lemma Compile_spec:
  "Compile digest input =
     (if \<exists>r \<in> set (ci_Rules input). wanted (ci_NodeID input) (ci_NodeGroups input) r \<and> malformed r then Inl ErrInvalidInput
      else Inr (compiledSnapshot digest input))"
  unfolding Compile_def matchingEnabledRules_spec
  by (auto simp: compiledSnapshot_def legacyRules_def agentVersion_def configHash_def zero_snapshot_def
      defaultNodeDataplaneConflictPolicy_def Let_def)

lemma expanded_member:
  "e \<in> set (expanded n g rules) \<longleftrightarrow>
     (\<exists>r \<in> set rules. wanted n g r \<and> executable r \<and> e \<in> set (expandRulePortSegments (normalizedRule r)))"
  by (auto simp: expanded_def)

lemma set_expanded:
  "set (expanded n g rules) = {compiledRule r p | r p. r \<in> set rules \<and> wanted n g r \<and> executable r \<and> p \<in> wantedPorts r}"
  unfolding set_eq_iff expanded_member expand_set by blast

text \<open>With distinct rule ids, an id and a port name one compiled rule, so sorting forgets the order of the input.\<close>

lemma expanded_key_inj:
  assumes "distinct (map rc_ID rules)"
  shows "inj_on (\<lambda>r. (rc_ID r, rc_Port r)) (set (expanded n g rules))"
proof (rule inj_onI)
  fix e e' assume "e \<in> set (expanded n g rules)" "e' \<in> set (expanded n g rules)"
    and eq: "(rc_ID e, rc_Port e) = (rc_ID e', rc_Port e')"
  then obtain r r' where r: "r \<in> set rules" "e \<in> set (expandRulePortSegments (normalizedRule r))"
      and r': "r' \<in> set rules" "e' \<in> set (expandRulePortSegments (normalizedRule r'))"
    by (auto simp: expanded_member)
  with eq have "rc_ID r = rc_ID r'" using expand_id_port by (metis prod.inject)
  with assms r r' have "r = r'" by (auto simp: distinct_map dest: inj_onD)
  with r r' eq show "e = e'" by (auto intro: expand_by_port)
qed

lemma expanded_mset:
  assumes "mset rules = mset rules'"
  shows "mset (expanded n g rules) = mset (expanded n g rules')"
proof -
  have "mset (expanded n g rs) = (\<Sum>r \<in># filter_mset (\<lambda>r. wanted n g r \<and> executable r) (mset rs).
      mset (expandRulePortSegments (normalizedRule r)))" for rs
    unfolding expanded_def by (induction rs) auto
  with assms show ?thesis by simp
qed

lemma wanted_groups: "set g = set g' \<Longrightarrow> wanted n g = wanted n g'"
  by (intro ext) (simp add: wanted_def ruleMatchesNode_def ruleMatchesAnyNodeGroup_def list_ex_iff)

lemma expanded_runtime:
  assumes "e \<in> set (expanded n g rules)"
  shows "rc_PortSegments e = []" "executable e"
proof -
  obtain r p where e: "e = compiledRule r p" and r: "executable r"
    using assms by (auto simp: set_expanded)
  show "rc_PortSegments e = []" by (simp add: e compiledRule_def)
  show "executable e" using r unfolding e compiledRule_def
    by (auto simp: executable_def openCoreExecutableRuleSupported_def normalizedRule_def Let_def split: if_splits)
qed

lemma executable_dataplane [simp]: "executable (r\<lparr>rc_Dataplane := d\<rparr>) \<longleftrightarrow> executable r"
  by (simp add: executable_def openCoreExecutableRuleSupported_def)

lemma native_legacy_member:
  "e \<in> set (nativeCompatibleRulesForLegacyAgent m rules) \<Longrightarrow>
     TrimSpace (rc_SendIP e) = [] \<and> rc_Dataplane e = [] \<and> (\<exists>r \<in> set rules. e = r\<lparr>rc_Dataplane := []\<rparr>)"
  by (auto simp: nativeCompatibleRulesForLegacyAgent_def List.map_filter_def split: if_splits)

lemma legacyRules_member:
  assumes "e \<in> set (legacyRules input rules)"
  shows "\<not> agentSupportsManagedDataplane (agentVersion input) \<Longrightarrow> TrimSpace (rc_SendIP e) = [] \<and> rc_Dataplane e = []"
    and "\<not> agentSupportsSendIP (agentVersion input) \<Longrightarrow> TrimSpace (rc_SendIP e) = [] \<and> TrimSpace (rc_RuntimeID e) = []"
    and "\<not> agentSupportsLeastLoadTargetGroups (agentVersion input) \<Longrightarrow>
      \<not> (up_Type (rc_Upstream e) = ''TARGET_GROUP'' \<and>
         normalizeTargetGroupScheduler (up_Scheduler (rc_Upstream e)) = targetGroupSchedulerLeastLoad)"
  using assms native_legacy_member
  by (auto simp: legacyRules_def Let_def protocol22CompatibleRulesForAgent_def protocol23CompatibleRulesForAgent_def
      split: if_splits)

subsection \<open>Properties\<close>


text \<open>
  C18: The snapshot of a node does not depend on the order in which the store lists rules or node groups, nor on repeated
  node groups: as long as rule ids are distinct, every order gives the same error or the same snapshot, hash included.
\<close>

theorem compile_order_independent:
  assumes "mset rules = mset (ci_Rules input)" "set groups = set (ci_NodeGroups input)" "distinct (map rc_ID (ci_Rules input))"
  shows "Compile digest (input\<lparr>ci_Rules := rules, ci_NodeGroups := groups\<rparr>) = Compile digest input"
proof -
  have same: "wanted n groups = wanted n (ci_NodeGroups input)" for n using assms(2) by (rule wanted_groups)
  have set: "set rules = set (ci_Rules input)" using assms(1) by (rule mset_eq_setD)
  have expd: "expanded n groups rules = expanded n (ci_NodeGroups input) rules" for n
    by (simp add: expanded_def same)
  have sorted: "sort_key (\<lambda>r. (rc_ID r, rc_Port r)) (expanded n (ci_NodeGroups input) rules) =
      sort_key (\<lambda>r. (rc_ID r, rc_Port r)) (expanded n (ci_NodeGroups input) (ci_Rules input))" for n
    by (rule sort_key_perm_eq[OF expanded_mset[OF assms(1)[symmetric]] expanded_key_inj[OF assms(3)], symmetric])
  have newest: "newest n groups rules = newest n (ci_NodeGroups input) (ci_Rules input)" for n
    by (simp add: newest_def same set)
  have agent: "agentVersion (input\<lparr>ci_Rules := rules, ci_NodeGroups := groups\<rparr>) = agentVersion input"
    "ci_DataplaneMode (input\<lparr>ci_Rules := rules, ci_NodeGroups := groups\<rparr>) = ci_DataplaneMode input"
    by (simp_all add: agentVersion_def)
  have legacy: "legacyRules (input\<lparr>ci_Rules := rules, ci_NodeGroups := groups\<rparr>) rs = legacyRules input rs" for rs
    unfolding legacyRules_def agent ..
  have "compiledSnapshot digest (input\<lparr>ci_Rules := rules, ci_NodeGroups := groups\<rparr>) = compiledSnapshot digest input"
    unfolding compiledSnapshot_def agent legacy Let_def by (simp add: expd sorted newest)
  then show ?thesis
    unfolding Compile_spec by (simp add: same set)
qed

definition example_port_rule :: RuleConfig where
  "example_port_rule = zero_rule\<lparr>rc_ID := ''r1'', rc_ConfigVersion := 4, rc_Enabled := True, rc_Protocol := ProtocolTCP,
     rc_NodeIDs := [''n1''], rc_PortSegments := [\<lparr>ps_StartPort = 80, ps_EndPort = 81\<rparr>], rc_MatchType := MatchTypeAnyInbound,
     rc_SendIP := ''10.0.0.9''\<rparr>"

definition example_group_rule :: RuleConfig where
  "example_group_rule = zero_rule\<lparr>rc_ID := ''r0'', rc_ConfigVersion := 7, rc_Enabled := True, rc_Protocol := ProtocolUDP,
     rc_NodeGroupIDs := [''g1''], rc_Port := 53, rc_MatchType := MatchTypeAnyInbound\<rparr>"

definition example_input :: AgentConfigInput where
  "example_input = \<lparr>ci_NodeID = ''n1'', ci_NodeGroups = [''g1''], ci_AgentProtocolVersion = \<lparr>pv_Major = 2, pv_Minor = 3\<rparr>,
     ci_AgentProtocolKnown = True, ci_DataplaneMode = ''haproxy'', ci_DataplaneInstanceID = [], ci_DataplaneConflictPolicy = [],
     ci_Rules = [example_port_rule, example_group_rule]\<rparr>"

lemma example_compiled:
  "Compile (\<lambda>_. ''h'') example_input = Inr (compiledSnapshot (\<lambda>_. ''h'') example_input)"
  "map (\<lambda>r. (rc_ID r, rc_Port r)) (cs_Rules (compiledSnapshot (\<lambda>_. ''h'') example_input)) =
     [(''r0'', 53), (''r1'', 80), (''r1'', 81)]"
  by code_simp+


lemma compile_order_independent_witness:
  "Compile (\<lambda>_. ''h'') (example_input\<lparr>ci_Rules := [example_group_rule, example_port_rule], ci_NodeGroups := [''g1'', ''g1'']\<rparr>) =
   Compile (\<lambda>_. ''h'') example_input"
  by (rule compile_order_independent)
    (simp_all add: example_input_def example_port_rule_def example_group_rule_def add_mset_commute)


definition example_old_agent :: AgentConfigInput where
  "example_old_agent = example_input\<lparr>ci_AgentProtocolKnown := False, ci_DataplaneMode := []\<rparr>"


end
