(* ===== verification/Dataplane_Plan.thy ===== *)
theory Dataplane_Plan
  imports Agent_Config
begin

text \<open>
  \<open>pkg/core/dataplane\<close>: how a node agent decides which of its three forwarding engines carries which rule.
  \<open>types.go\<close> (modes), \<open>errors.go\<close> (listener keys and error details), the rules each engine supports
  (\<open>haproxy.go\<close>, \<open>nftables.go\<close>) and the planning functions of \<open>manager.go\<close>.
\<close>

subsection \<open>types.go: modes\<close>

abbreviation ModeAuto :: string where "ModeAuto \<equiv> ''AUTO''"
abbreviation ModeNative :: string where "ModeNative \<equiv> ''NATIVE''"
abbreviation ModeHAProxy :: string where "ModeHAProxy \<equiv> ''HAPROXY''"
abbreviation ModeNFTables :: string where "ModeNFTables \<equiv> ''NFTABLES''"
abbreviation ErrorListenerConflict :: string where "ErrorListenerConflict \<equiv> ''LISTENER_CONFLICT''"
abbreviation ErrorDataplaneUnsupportedRule :: string where
  "ErrorDataplaneUnsupportedRule \<equiv> ''DATAPLANE_UNSUPPORTED_RULE''"

definition known_mode :: "string \<Rightarrow> string option" where
  "known_mode value =
     (let v = ToUpper (TrimSpace value) in
      if List.member [ModeAuto, ModeHAProxy, ModeNFTables, ModeNative] v then Some v else None)"

lemma known_mode_constants [simp]:
  "known_mode ''AUTO'' = Some ''AUTO''" "known_mode ''NATIVE'' = Some ''NATIVE''"
  "known_mode ''HAPROXY'' = Some ''HAPROXY''" "known_mode ''NFTABLES'' = Some ''NFTABLES''"
  by code_simp+

text \<open>\<open>normalizeMode\<close> calls itself on the fallback; the second call always has a known fallback.\<close>

function normalizeMode :: "string \<Rightarrow> string \<Rightarrow> string" where
  "normalizeMode value fallback =
     (case known_mode value of
        Some mode \<Rightarrow> mode
      | None \<Rightarrow> if TrimSpace fallback \<noteq> [] then normalizeMode fallback ModeNative else ModeNative)"
  by pat_completeness auto
termination
  by (relation "measure (\<lambda>(value, fallback).
        if known_mode value \<noteq> None then 0 else if known_mode fallback \<noteq> None then 1 else 2)") auto

declare normalizeMode.simps [simp del]

definition normalizePreference :: "string \<Rightarrow> string" where
  "normalizePreference value = normalizeMode value ModeAuto"

definition normalizeConflictPolicy :: "string \<Rightarrow> string" where
  "normalizeConflictPolicy value =
     (if ToUpper (TrimSpace value) = ''FAIL_FAST'' then ''FAIL_FAST'' else ''FAIL_FAST'')"

subsection \<open>errors.go: listener keys and error details\<close>

record dp_listenerKey =
  dk_protocol :: Protocol
  dk_listenIP :: string
  dk_port :: int

record plannedRule =
  pr_rule :: RuleConfig
  pr_dataplane :: string

definition zero_detail :: ConfigApplyErrorDetail where
  "zero_detail = \<lparr>ed_Code = [], ed_RuleIDs = [], ed_Protocol = [], ed_ListenIP = [], ed_Port = 0,
     ed_Dataplane = [], ed_Owner = [], ed_DriftStatus = [], ed_ExternalResource = [], ed_Message = []\<rparr>"

definition configApplyError :: "string \<Rightarrow> ConfigApplyErrorDetail list \<Rightarrow> ConfigApplyError" where
  "configApplyError message details = \<lparr>ae_Message = TrimSpace message, ae_Errors = details\<rparr>"

definition unsupportedRuleError :: "RuleConfig \<Rightarrow> string \<Rightarrow> string \<Rightarrow> ConfigApplyErrorDetail" where
  "unsupportedRuleError rule dataplane message =
     zero_detail\<lparr>ed_Code := ErrorDataplaneUnsupportedRule, ed_RuleIDs := [rc_ID rule], ed_Protocol := rc_Protocol rule,
       ed_ListenIP := rc_ListenIP rule, ed_Port := rc_Port rule, ed_Dataplane := dataplane, ed_Message := message\<rparr>"

definition ruleIDs :: "RuleConfig list \<Rightarrow> string list" where
  "ruleIDs rules = sort (filter (\<lambda>i. TrimSpace i \<noteq> []) (map rc_ID rules))"

definition listenerError ::
    "string \<Rightarrow> dp_listenerKey \<Rightarrow> RuleConfig list \<Rightarrow> string \<Rightarrow> string \<Rightarrow> string \<Rightarrow> ConfigApplyErrorDetail" where
  "listenerError errCode key rules dataplane owner message =
     zero_detail\<lparr>ed_Code := errCode, ed_RuleIDs := ruleIDs rules, ed_Protocol := dk_protocol key,
       ed_ListenIP := dk_listenIP key, ed_Port := dk_port key, ed_Dataplane := dataplane, ed_Owner := owner,
       ed_Message := message\<rparr>"

definition normalizeListenIP :: "string \<Rightarrow> string" where
  "normalizeListenIP value = (let value = TrimSpace value in if value = [] then ''0.0.0.0'' else value)"

definition listenerKeysForRule :: "RuleConfig \<Rightarrow> dp_listenerKey list" where
  "listenerKeysForRule rule =
     (let listenIP = normalizeListenIP (rc_ListenIP rule) in
      if rc_Protocol rule = ProtocolTCPUDP then
        [\<lparr>dk_protocol = ProtocolTCP, dk_listenIP = listenIP, dk_port = rc_Port rule\<rparr>,
         \<lparr>dk_protocol = ProtocolUDP, dk_listenIP = listenIP, dk_port = rc_Port rule\<rparr>]
      else [\<lparr>dk_protocol = rc_Protocol rule, dk_listenIP = listenIP, dk_port = rc_Port rule\<rparr>])"

definition listenerKeyForRule :: "RuleConfig \<Rightarrow> dp_listenerKey" where
  "listenerKeyForRule rule = listenerKeysForRule rule ! 0"

definition dp_listenerKeyString :: "dp_listenerKey \<Rightarrow> string" where
  "dp_listenerKeyString key = dk_protocol key @ ''/'' @ dk_listenIP key @ '':'' @ Itoa (dk_port key)"

subsection \<open>haproxy.go, nftables.go: what an engine supports\<close>

record prioritizedTarget =
  pt_priority :: int
  pt_endpoint :: TargetEndpoint

text \<open>The nil slice is \<open>None\<close>: a target group without targets is an empty slice, not nil.\<close>

definition upstreamTargets :: "RuleConfig \<Rightarrow> prioritizedTarget list option" where
  "upstreamTargets rule =
     (if up_Type (rc_Upstream rule) = ''TARGET'' then
        map_option (\<lambda>t. [\<lparr>pt_priority = 10, pt_endpoint = t\<rparr>]) (up_Target (rc_Upstream rule))
      else if up_Type (rc_Upstream rule) = ''TARGET_GROUP'' then
        Some (sort_key (\<lambda>t. (pt_priority t, te_ID (pt_endpoint t)))
          (concat (map (\<lambda>bucket. map (\<lambda>target. \<lparr>pt_priority = pb_Priority bucket, pt_endpoint = target\<rparr>) (pb_Targets bucket))
             (up_TargetGroup (rc_Upstream rule)))))
      else None)"

definition haproxySupportsRule :: "RuleConfig \<Rightarrow> bool" where
  "haproxySupportsRule rule =
     (if rc_Protocol rule \<noteq> ProtocolTCP then False
      else if rc_MatchType rule \<noteq> MatchTypeAnyInbound \<and> rc_MatchType rule \<noteq> MatchTypeTLSSNI then False
      else upstreamTargets rule \<noteq> None)"

definition nftIPFamily :: "ip \<Rightarrow> string" where
  "nftIPFamily p = (if To4 p = [] then ''ip6'' else ''ip'')"

definition nftListenAddressFamily :: "string \<Rightarrow> string" where
  "nftListenAddressFamily listenIP =
     (let value = TrimSpace listenIP in
      if value = [] \<or> value = ''0.0.0.0'' then ''ip''
      else if value = ''::'' then ''ip6''
      else (let p = ParseIP value in if p = [] then [] else nftIPFamily p))"

definition nftListenAddressIsLoopback :: "string \<Rightarrow> bool" where
  "nftListenAddressIsLoopback listenIP =
     (let value = TrimSpace listenIP in
      if value = [] \<or> value = ''0.0.0.0'' \<or> value = ''::'' then False
      else (let p = ParseIP value in p \<noteq> [] \<and> IsLoopback p))"

definition proxySet :: "string \<Rightarrow> bool" where
  "proxySet value \<longleftrightarrow> TrimSpace value \<noteq> [] \<and> TrimSpace value \<noteq> ''NONE''"

definition nftablesSupportsRule :: "RuleConfig \<Rightarrow> bool" where
  "nftablesSupportsRule rule =
     (if TrimSpace (rc_SendIP rule) \<noteq> [] then False
      else if rc_MatchType rule \<noteq> MatchTypeAnyInbound then False
      else if proxySet (rc_ProxyProtocolIn rule) then False
      else if proxySet (rc_ProxyProtocolOut rule) then False
      else if up_Type (rc_Upstream rule) \<noteq> ''TARGET'' then False
      else case up_Target (rc_Upstream rule) of
        None \<Rightarrow> False
      | Some target \<Rightarrow>
          if \<not> te_Enabled target then True
          else
            (let targetIP = ParseIP (te_Host target) in
             if targetIP = [] then False
             else if IsLoopback targetIP then False
             else if nftListenAddressIsLoopback (rc_ListenIP rule) then False
             else (let listenFamily = nftListenAddressFamily (rc_ListenIP rule) in
                   listenFamily = [] \<or> listenFamily = nftIPFamily targetIP)))"

subsection \<open>manager.go: choosing an engine\<close>

definition backendSupportsRule :: "string \<Rightarrow> RuleConfig \<Rightarrow> bool" where
  "backendSupportsRule dataplane rule =
     (if dataplane = ModeNative then True
      else if dataplane = ModeHAProxy then haproxySupportsRule rule
      else if dataplane = ModeNFTables then nftablesSupportsRule rule
      else False)"

text \<open>An engine, or the detail of an error.\<close>

definition autoSelectDataplane :: "RuleConfig \<Rightarrow> ConfigApplyErrorDetail + string" where
  "autoSelectDataplane rule =
     (if rc_Protocol rule = ProtocolUDP \<and> rc_MatchType rule = MatchTypeAnyInbound then
        (if backendSupportsRule ModeNFTables rule then Inr ModeNFTables else Inr ModeNative)
      else if rc_Protocol rule = ProtocolTCP then
        (if backendSupportsRule ModeHAProxy rule then Inr ModeHAProxy
         else Inl (unsupportedRuleError rule ModeHAProxy
           ''AUTO requires HAProxy for TCP TLS_SNI/ANY_INBOUND, but the rule is not HAProxy-plan_compatible''))
      else Inr ModeNative)"

definition selectDataplane :: "string \<Rightarrow> RuleConfig \<Rightarrow> ConfigApplyErrorDetail + string" where
  "selectDataplane nodeMode rule =
     (let preference = normalizePreference (rc_Dataplane rule) in
      if preference \<noteq> ModeAuto then
        (if nodeMode \<noteq> ModeAuto \<and> nodeMode \<noteq> preference
         then Inl (unsupportedRuleError rule preference
           (''node dataplane mode '' @ nodeMode @ '' does not allow rule preference '' @ preference))
         else Inr preference)
      else if nodeMode \<noteq> ModeAuto then Inr nodeMode
      else autoSelectDataplane rule)"

subsection \<open>manager.go: conflicts between listeners\<close>

definition listenIPFamily :: "ip \<Rightarrow> string" where
  "listenIPFamily p = (if To4 p = [] then ''ip6'' else ''ip'')"

definition dp_listenIPsOverlap :: "string \<Rightarrow> string \<Rightarrow> bool" where
  "dp_listenIPsOverlap left right =
     (let left = normalizeListenIP left; right = normalizeListenIP right in
      if left = right then True
      else
        (let leftIP = ParseIP (TrimCut ''[]'' left); rightIP = ParseIP (TrimCut ''[]'' right) in
         if leftIP = [] \<or> rightIP = [] then False
         else if listenIPFamily leftIP \<noteq> listenIPFamily rightIP then False
         else IsUnspecified leftIP \<or> IsUnspecified rightIP))"

definition dp_listenerKeysOverlap :: "dp_listenerKey \<Rightarrow> dp_listenerKey \<Rightarrow> bool" where
  "dp_listenerKeysOverlap left right \<longleftrightarrow>
     dk_protocol left = dk_protocol right \<and> dk_port left = dk_port right \<and>
     dp_listenIPsOverlap (dk_listenIP left) (dk_listenIP right)"

definition sameProxyProtocol :: "plannedRule list \<Rightarrow> bool" where
  "sameProxyProtocol entries =
     (case entries of
        [] \<Rightarrow> True
      | e # es \<Rightarrow> list_all (\<lambda>x. TrimSpace (rc_ProxyProtocolIn (pr_rule x)) = TrimSpace (rc_ProxyProtocolIn (pr_rule e))) es)"

text \<open>The loop of \<open>listenerConflictDetail\<close> over the entries: the error that ends it, or whether an
  \<open>ANY_INBOUND\<close> rule was seen, and the rules collected so far.\<close>

fun conflictLoop ::
    "dp_listenerKey \<Rightarrow> string \<Rightarrow> bool \<Rightarrow> (string \<rightharpoonup> string) \<Rightarrow> RuleConfig list \<Rightarrow> plannedRule list \<Rightarrow>
     ConfigApplyErrorDetail + (bool \<times> RuleConfig list)" where
  "conflictLoop key dataplane hasAny sniByValue rules [] = Inr (hasAny, rules)"
| "conflictLoop key dataplane hasAny sniByValue rules (entry # entries) =
     (let rule = pr_rule entry; rules = rules @ [rule] in
      if pr_dataplane entry \<noteq> dataplane then
        Inl (listenerError ErrorListenerConflict key rules ''MIXED'' [] ''one listener cannot be owned by multiple dataplanes'')
      else
        (let hasAny = (hasAny \<or> rc_MatchType rule = MatchTypeAnyInbound);
             sni = ToLower (TrimSpace (rc_SNIHostname rule)) in
         if rc_MatchType rule = MatchTypeTLSSNI then
           (if sniByValue sni \<noteq> None \<and> sniByValue sni \<noteq> Some (rc_ID rule) then
              Inl (listenerError ErrorListenerConflict key rules dataplane []
                ''multiple TLS_SNI rules use the same listener and SNI hostname'')
            else conflictLoop key dataplane hasAny (sniByValue(sni \<mapsto> rc_ID rule)) rules entries)
         else conflictLoop key dataplane hasAny sniByValue rules entries))"

definition listenerConflictDetail :: "dp_listenerKey \<Rightarrow> plannedRule list \<Rightarrow> ConfigApplyErrorDetail option" where
  "listenerConflictDetail key entries =
     (if length entries \<le> 1 then None
      else
        (let dataplane = pr_dataplane (entries ! 0) in
         case conflictLoop key dataplane False Map.empty [] entries of
           Inl detail \<Rightarrow> Some detail
         | Inr (hasAny, rules) \<Rightarrow>
             if hasAny then
               Some (listenerError ErrorListenerConflict key rules dataplane []
                 ''ANY_INBOUND listener cannot share protocol/listen IP/port with another rule'')
             else if \<not> sameProxyProtocol entries then
               Some (listenerError ErrorListenerConflict key rules dataplane []
                 ''rules sharing one listener must use the same incoming proxy protocol setting'')
             else None))"

text \<open>\<open>grouped[key] = append(grouped[key], rule)\<close> for every key of a rule.\<close>

definition groupPlanned :: "plannedRule list \<Rightarrow> (dp_listenerKey \<rightharpoonup> plannedRule list)" where
  "groupPlanned rules =
     fold (\<lambda>rule grouped. fold (\<lambda>key grouped.
         grouped(key \<mapsto> (case grouped key of None \<Rightarrow> [] | Some entries \<Rightarrow> entries) @ [rule]))
       (listenerKeysForRule (pr_rule rule)) grouped) rules Map.empty"

text \<open>The keys of the groups, sorted by protocol, address and port.\<close>

definition groupedKeys :: "plannedRule list \<Rightarrow> dp_listenerKey list" where
  "groupedKeys rules =
     sort_key (\<lambda>k. (dk_protocol k, dk_listenIP k, dk_port k))
       (uniq [] (concat (map (\<lambda>r. listenerKeysForRule (pr_rule r)) rules)))"

definition groupOf :: "(dp_listenerKey \<rightharpoonup> plannedRule list) \<Rightarrow> dp_listenerKey \<Rightarrow> plannedRule list" where
  "groupOf grouped key = (case grouped key of None \<Rightarrow> [] | Some entries \<Rightarrow> entries)"

fun crossConflicts ::
    "(dp_listenerKey \<rightharpoonup> plannedRule list) \<Rightarrow> dp_listenerKey list \<Rightarrow> ConfigApplyErrorDetail list" where
  "crossConflicts grouped [] = []"
| "crossConflicts grouped (left # keys) =
     List.map_filter (\<lambda>right. if \<not> dp_listenerKeysOverlap left right then None
        else listenerConflictDetail left (groupOf grouped left @ groupOf grouped right)) keys @
     crossConflicts grouped keys"

definition detectListenerConflicts :: "plannedRule list \<Rightarrow> ConfigApplyErrorDetail list" where
  "detectListenerConflicts rules =
     (let grouped = groupPlanned rules; keys = groupedKeys rules in
      crossConflicts grouped keys @
      List.map_filter (\<lambda>key. listenerConflictDetail key (groupOf grouped key)) keys)"

subsection \<open>manager.go: the plan\<close>

record plan =
  pl_rules :: "string \<Rightarrow> RuleConfig list"
  pl_planned :: "plannedRule list"

definition hasManaged :: "plan \<Rightarrow> bool" where
  "hasManaged p \<longleftrightarrow> length (pl_rules p ModeHAProxy) > 0 \<or> length (pl_rules p ModeNFTables) > 0"

definition snapshotFor :: "plan \<Rightarrow> string \<Rightarrow> ConfigSnapshot \<Rightarrow> ConfigSnapshot" where
  "snapshotFor p dataplane base = base\<lparr>cs_Rules := pl_rules p dataplane\<rparr>"

fun planLoop ::
    "string \<Rightarrow> plan \<Rightarrow> ConfigApplyErrorDetail list \<Rightarrow> RuleConfig list \<Rightarrow> plan \<times> ConfigApplyErrorDetail list" where
  "planLoop nodeMode result details [] = (result, details)"
| "planLoop nodeMode result details (rule # rules) =
     (case selectDataplane nodeMode rule of
        Inl errDetail \<Rightarrow> planLoop nodeMode result (details @ [errDetail]) rules
      | Inr dataplane \<Rightarrow>
          if \<not> backendSupportsRule dataplane rule then
            planLoop nodeMode result (details @ [unsupportedRuleError rule dataplane (dataplane @ '' does not support this rule shape'')]) rules
          else
            planLoop nodeMode
              (result\<lparr>pl_rules := (pl_rules result)(dataplane := pl_rules result dataplane @ [rule]),
                      pl_planned := pl_planned result @ [\<lparr>pr_rule = rule, pr_dataplane = dataplane\<rparr>]\<rparr>)
              details rules)"

definition effectiveMode :: "string \<Rightarrow> ConfigSnapshot \<Rightarrow> string" where
  "effectiveMode optionsMode snapshot =
     (let nodeMode = normalizeMode (cs_DataplaneMode snapshot) ModeAuto in
      if nodeMode = ModeAuto then normalizeMode optionsMode ModeAuto else nodeMode)"

definition manager_plan :: "string \<Rightarrow> ConfigSnapshot \<Rightarrow> ConfigApplyError + plan" where
  "manager_plan optionsMode snapshot =
     (let nodeMode = effectiveMode optionsMode snapshot;
          (result, details) = planLoop nodeMode \<lparr>pl_rules = (\<lambda>_. []), pl_planned = []\<rparr> [] (cs_Rules snapshot);
          details = details @ detectListenerConflicts (pl_planned result)
      in if details \<noteq> [] then Inl (configApplyError ''dataplane plan failed'' details) else Inr result)"

subsection \<open>The conflict check against a pairwise specification\<close>

text \<open>Two planned rules may share a socket when one engine carries both, neither takes all traffic, they read
  the same PROXY header, and one server name does not name two rules.\<close>

definition may_share :: "plannedRule \<Rightarrow> plannedRule \<Rightarrow> bool" where
  "may_share a b \<longleftrightarrow>
     pr_dataplane a = pr_dataplane b \<and>
     rc_MatchType (pr_rule a) \<noteq> MatchTypeAnyInbound \<and> rc_MatchType (pr_rule b) \<noteq> MatchTypeAnyInbound \<and>
     TrimSpace (rc_ProxyProtocolIn (pr_rule a)) = TrimSpace (rc_ProxyProtocolIn (pr_rule b)) \<and>
     (rc_MatchType (pr_rule a) = MatchTypeTLSSNI \<and> rc_MatchType (pr_rule b) = MatchTypeTLSSNI \<and>
      ToLower (TrimSpace (rc_SNIHostname (pr_rule a))) = ToLower (TrimSpace (rc_SNIHostname (pr_rule b))) \<longrightarrow>
      rc_ID (pr_rule a) = rc_ID (pr_rule b))"

definition sockets_meet :: "plannedRule \<Rightarrow> plannedRule \<Rightarrow> bool" where
  "sockets_meet a b =
     list_ex (\<lambda>k. list_ex (dp_listenerKeysOverlap k) (listenerKeysForRule (pr_rule b))) (listenerKeysForRule (pr_rule a))"

definition plan_compatible :: "plannedRule \<Rightarrow> plannedRule \<Rightarrow> bool" where
  "plan_compatible a b \<longleftrightarrow> (sockets_meet a b \<longrightarrow> may_share a b)"

lemma may_share_sym: "may_share a b \<longleftrightarrow> may_share b a"
  unfolding may_share_def by metis

lemma dp_overlap_sym: "dp_listenerKeysOverlap k k' \<longleftrightarrow> dp_listenerKeysOverlap k' k"
  unfolding dp_listenerKeysOverlap_def dp_listenIPsOverlap_def by (auto simp: Let_def)

lemma dp_overlap_refl [simp]: "dp_listenerKeysOverlap k k"
  by (simp add: dp_listenerKeysOverlap_def dp_listenIPsOverlap_def)

lemma sockets_meet_iff:
  "sockets_meet a b \<longleftrightarrow> (\<exists>k k'. k \<in> set (listenerKeysForRule (pr_rule a)) \<and>
     k' \<in> set (listenerKeysForRule (pr_rule b)) \<and> dp_listenerKeysOverlap k k')"
  unfolding sockets_meet_def list_ex_iff by blast

lemma plan_compatible_sym: "plan_compatible a b \<longleftrightarrow> plan_compatible b a"
  unfolding plan_compatible_def sockets_meet_iff using dp_overlap_sym may_share_sym by metis

lemma rule_keys_distinct: "distinct (listenerKeysForRule r)"
  by (simp add: listenerKeysForRule_def Let_def)

lemma rule_keys_apart:
  "\<lbrakk>k \<in> set (listenerKeysForRule r); k' \<in> set (listenerKeysForRule r); dp_listenerKeysOverlap k k'\<rbrakk> \<Longrightarrow> k = k'"
  by (auto simp: listenerKeysForRule_def Let_def dp_listenerKeysOverlap_def split: if_splits)

subsubsection \<open>One group\<close>

definition entry_sni :: "plannedRule \<Rightarrow> string" where
  "entry_sni e = ToLower (TrimSpace (rc_SNIHostname (pr_rule e)))"

definition sni_entry :: "plannedRule \<Rightarrow> bool" where
  "sni_entry e \<longleftrightarrow> rc_MatchType (pr_rule e) = MatchTypeTLSSNI"

definition sni_clean :: "(string \<rightharpoonup> string) \<Rightarrow> plannedRule list \<Rightarrow> bool" where
  "sni_clean m es \<longleftrightarrow>
     (\<forall>e \<in> set es. sni_entry e \<longrightarrow> m (entry_sni e) \<noteq> None \<longrightarrow> m (entry_sni e) = Some (rc_ID (pr_rule e))) \<and>
     sorted_wrt (\<lambda>a b. sni_entry a \<and> sni_entry b \<and> entry_sni a = entry_sni b \<longrightarrow> rc_ID (pr_rule a) = rc_ID (pr_rule b)) es"

lemma sni_clean_step:
  assumes "sni_entry e"
  shows "sni_clean m (e # es) \<longleftrightarrow>
    (m (entry_sni e) = None \<or> m (entry_sni e) = Some (rc_ID (pr_rule e))) \<and>
    sni_clean (m(entry_sni e \<mapsto> rc_ID (pr_rule e))) es"
  using assms unfolding sni_clean_def by (auto split: if_splits)

lemma conflictLoop_ok:
  "(\<exists>rs'. conflictLoop key d any m rs es = Inr (any', rs')) \<longleftrightarrow>
     (\<forall>e \<in> set es. pr_dataplane e = d) \<and> sni_clean m es \<and>
     any' = (any \<or> (\<exists>e \<in> set es. rc_MatchType (pr_rule e) = MatchTypeAnyInbound))"
proof (induction es arbitrary: any m rs)
  case Nil
  then show ?case by (auto simp: sni_clean_def)
next
  case (Cons e es)
  show ?case
  proof (cases "sni_entry e")
    case True
    define m' where "m' = m(entry_sni e \<mapsto> rc_ID (pr_rule e))"
    have "conflictLoop key d any m rs (e # es) =
        (if pr_dataplane e \<noteq> d then
           Inl (listenerError ErrorListenerConflict key (rs @ [pr_rule e]) ''MIXED'' [] ''one listener cannot be owned by multiple dataplanes'')
         else if m (entry_sni e) \<noteq> None \<and> m (entry_sni e) \<noteq> Some (rc_ID (pr_rule e)) then
           Inl (listenerError ErrorListenerConflict key (rs @ [pr_rule e]) d []
             ''multiple TLS_SNI rules use the same listener and SNI hostname'')
         else conflictLoop key d (any \<or> rc_MatchType (pr_rule e) = MatchTypeAnyInbound) m' (rs @ [pr_rule e]) es)"
      using True by (simp add: Let_def m'_def entry_sni_def sni_entry_def)
    then show ?thesis
      unfolding sni_clean_step[OF True] m'_def[symmetric]
      using Cons.IH[of "any \<or> rc_MatchType (pr_rule e) = MatchTypeAnyInbound" m' "rs @ [pr_rule e]"] by auto
  next
    case False
    then have "sni_clean m (e # es) \<longleftrightarrow> sni_clean m es"
      by (auto simp: sni_clean_def)
    with False show ?thesis
      using Cons.IH by (auto simp: Let_def sni_entry_def)
  qed
qed

lemma sameProxyProtocol_iff:
  "sameProxyProtocol es \<longleftrightarrow>
     sorted_wrt (\<lambda>a b. TrimSpace (rc_ProxyProtocolIn (pr_rule a)) = TrimSpace (rc_ProxyProtocolIn (pr_rule b))) es"
proof (cases es)
  case (Cons e es')
  have "sorted_wrt (\<lambda>a b. f a = f b) xs" if "\<forall>x \<in> set xs. f x = c" for f :: "plannedRule \<Rightarrow> string" and c xs
    using that by (induction xs) auto
  then show ?thesis
    using Cons by (auto simp: sameProxyProtocol_def list_all_iff)
qed (simp add: sameProxyProtocol_def)

lemma sorted_wrt_conj:
  "sorted_wrt (\<lambda>a b. P a b \<and> Q a b) xs \<longleftrightarrow> sorted_wrt P xs \<and> sorted_wrt Q xs"
  by (induction xs) auto

lemma sorted_wrt_neither:
  assumes "length xs > 1"
  shows "sorted_wrt (\<lambda>a b. \<not> P a) xs \<and> sorted_wrt (\<lambda>a b. \<not> P b) xs \<longleftrightarrow> (\<forall>x \<in> set xs. \<not> P x)"
proof -
  have "sorted_wrt (\<lambda>a b. \<not> P a) ys \<and> sorted_wrt (\<lambda>a b. \<not> P b) ys" if "\<forall>y \<in> set ys. \<not> P y" for ys
    using that by (induction ys) auto
  then show ?thesis
    using assms by (cases xs rule: remdups_adj.cases) auto
qed

lemma sorted_wrt_same:
  "sorted_wrt (\<lambda>a b. f a = f b) (x # xs) \<longleftrightarrow> (\<forall>y \<in> set (x # xs). f y = f x)"
proof -
  have "sorted_wrt (\<lambda>a b. f a = f b) ys" if "\<forall>y \<in> set ys. f y = c" for c ys
    using that by (induction ys) auto
  then show ?thesis by auto
qed

lemma may_share_parts:
  "may_share = (\<lambda>a b. pr_dataplane a = pr_dataplane b \<and>
     ((\<not> rc_MatchType (pr_rule a) = MatchTypeAnyInbound \<and> \<not> rc_MatchType (pr_rule b) = MatchTypeAnyInbound) \<and>
     (TrimSpace (rc_ProxyProtocolIn (pr_rule a)) = TrimSpace (rc_ProxyProtocolIn (pr_rule b)) \<and>
     (sni_entry a \<and> sni_entry b \<and> entry_sni a = entry_sni b \<longrightarrow> rc_ID (pr_rule a) = rc_ID (pr_rule b)))))"
  by (intro ext) (auto simp: may_share_def sni_entry_def entry_sni_def)

lemma listenerConflictDetail_none:
  "listenerConflictDetail key es = None \<longleftrightarrow> sorted_wrt may_share es"
proof (cases "length es > 1")
  case False
  then show ?thesis
    by (cases es rule: remdups_adj.cases) (auto simp: listenerConflictDetail_def)
next
  case True
  then obtain x xs where es: "es = x # xs" by (cases es) auto
  let ?any = "\<exists>e \<in> set es. rc_MatchType (pr_rule e) = MatchTypeAnyInbound"
  have loop: "(\<exists>rs. conflictLoop key (pr_dataplane x) False Map.empty [] es = Inr (any', rs)) \<longleftrightarrow>
      (\<forall>e \<in> set es. pr_dataplane e = pr_dataplane x) \<and> sni_clean Map.empty es \<and> any' = ?any" for any'
    by (subst conflictLoop_ok) simp
  have same: "sorted_wrt (\<lambda>a b. pr_dataplane a = pr_dataplane b) es \<longleftrightarrow> (\<forall>e \<in> set es. pr_dataplane e = pr_dataplane x)"
    unfolding es by (rule sorted_wrt_same)
  have "listenerConflictDetail key es = None \<longleftrightarrow>
      (\<exists>rs. conflictLoop key (pr_dataplane x) False Map.empty [] es = Inr (False, rs)) \<and> sameProxyProtocol es"
    using True es
    by (auto simp: listenerConflictDetail_def Let_def split: sum.splits if_splits)
  also have "\<dots> \<longleftrightarrow> sorted_wrt may_share es"
    unfolding loop may_share_parts sorted_wrt_conj sorted_wrt_neither[OF True] sameProxyProtocol_iff same
    by (simp add: sni_clean_def) blast
  finally show ?thesis .
qed

subsubsection \<open>The groups of a plan\<close>

lemma group_step:
  "distinct keys \<Longrightarrow>
   groupOf (fold (\<lambda>key grouped. grouped(key \<mapsto> (case grouped key of None \<Rightarrow> [] | Some entries \<Rightarrow> entries) @ [r])) keys g) k =
   groupOf g k @ (if k \<in> set keys then [r] else [])"
  by (induction keys arbitrary: g) (auto simp: groupOf_def)

lemma groupOf_planned_from:
  "groupOf (fold (\<lambda>rule grouped. fold (\<lambda>key grouped.
         grouped(key \<mapsto> (case grouped key of None \<Rightarrow> [] | Some entries \<Rightarrow> entries) @ [rule]))
       (listenerKeysForRule (pr_rule rule)) grouped) rules g) k =
   groupOf g k @ filter (\<lambda>r. k \<in> set (listenerKeysForRule (pr_rule r))) rules"
  by (induction rules arbitrary: g) (simp_all add: group_step[OF rule_keys_distinct])

lemma groupOf_planned:
  "groupOf (groupPlanned rules) k = filter (\<lambda>r. k \<in> set (listenerKeysForRule (pr_rule r))) rules"
  unfolding groupPlanned_def groupOf_planned_from by (simp add: groupOf_def)

lemma map_filter_none: "List.map_filter f xs = [] \<longleftrightarrow> (\<forall>x \<in> set xs. f x = None)"
  by (induction xs) (auto simp: List.map_filter_def split: option.splits)

lemma crossConflicts_none:
  "crossConflicts g ks = [] \<longleftrightarrow>
     sorted_wrt (\<lambda>l r. dp_listenerKeysOverlap l r \<longrightarrow> sorted_wrt may_share (groupOf g l @ groupOf g r)) ks"
  by (induction ks) (auto simp: map_filter_none listenerConflictDetail_none)

lemma groupedKeys_facts:
  "distinct (groupedKeys rules)"
  "set (groupedKeys rules) = (\<Union>r \<in> set rules. set (listenerKeysForRule (pr_rule r)))"
  by (simp_all add: groupedKeys_def distinct_uniq set_uniq)

lemma sorted_wrt_distinct: "sorted_wrt (\<noteq>) xs \<longleftrightarrow> distinct xs"
  by (induction xs) auto

lemma sorted_wrt_pairs:
  assumes "sorted_wrt P xs" "x \<in> set xs" "y \<in> set xs" "x \<noteq> y"
  shows "P x y \<or> P y x"
proof -
  obtain i j where ij: "i < length xs" "j < length xs" "x = xs ! i" "y = xs ! j"
    using assms(2,3) by (auto simp: in_set_conv_nth)
  with assms(4) have "i < j \<or> j < i" by (cases i j rule: linorder_cases) auto
  with ij assms(1) show ?thesis by (auto simp: sorted_wrt_iff_nth_less)
qed

text \<open>Two rules with a common key are in one group; two rules with distinct overlapping keys are in a combined one.\<close>

lemma conflicts_none_pairwise:
  assumes none: "detectListenerConflicts (xs @ a # ys @ b # zs) = []" and meet: "sockets_meet a b"
  shows "may_share a b"
proof -
  let ?rs = "xs @ a # ys @ b # zs" and ?g = "groupPlanned (xs @ a # ys @ b # zs)"
  obtain k k' where k: "k \<in> set (listenerKeysForRule (pr_rule a))" "k' \<in> set (listenerKeysForRule (pr_rule b))"
      and ov: "dp_listenerKeysOverlap k k'"
    using meet unfolding sockets_meet_iff by blast
  have cross: "sorted_wrt (\<lambda>l r. dp_listenerKeysOverlap l r \<longrightarrow> sorted_wrt may_share (groupOf ?g l @ groupOf ?g r)) (groupedKeys ?rs)"
    and each: "\<forall>k \<in> set (groupedKeys ?rs). sorted_wrt may_share (groupOf ?g k)"
    using none by (simp_all add: detectListenerConflicts_def Let_def crossConflicts_none map_filter_none listenerConflictDetail_none)
  have mem: "k \<in> set (groupedKeys ?rs)" "k' \<in> set (groupedKeys ?rs)"
    using k by (auto simp: groupedKeys_facts)
  show ?thesis
  proof (cases "k = k'")
    case True
    have "sorted_wrt may_share (groupOf ?g k)" using each mem(1) by blast
    with k True show ?thesis
      by (simp add: groupOf_planned sorted_wrt_append)
  next
    case False
    have in_groups: "a \<in> set (groupOf ?g k)" "b \<in> set (groupOf ?g k')"
      using k by (simp_all add: groupOf_planned)
    have "sorted_wrt may_share (groupOf ?g k @ groupOf ?g k') \<or> sorted_wrt may_share (groupOf ?g k' @ groupOf ?g k)"
      using sorted_wrt_pairs[OF cross mem False] ov dp_overlap_sym by blast
    then show ?thesis
      using in_groups may_share_sym by (auto simp: sorted_wrt_append)
  qed
qed

lemma sorted_wrt_split:
  "(\<And>ys x zs w vs. xs = ys @ x # zs @ w # vs \<Longrightarrow> P x w) \<Longrightarrow> sorted_wrt P xs"
proof (induction xs)
  case (Cons v xs)
  have "sorted_wrt P xs"
    by (rule Cons.IH) (use Cons.prems[of "v # ys" for ys] in auto)
  moreover have "P v w" if "w \<in> set xs" for w
    using split_list[OF that] Cons.prems[of "[]"] by auto
  ultimately show ?case by simp
qed simp

lemma common_key_meet:
  "\<lbrakk>k \<in> set (listenerKeysForRule (pr_rule a)); k \<in> set (listenerKeysForRule (pr_rule b))\<rbrakk> \<Longrightarrow> sockets_meet a b"
  unfolding sockets_meet_iff using dp_overlap_refl by blast

lemma group_may_share:
  assumes "sorted_wrt plan_compatible rules"
  shows "sorted_wrt may_share (groupOf (groupPlanned rules) k)"
proof -
  have "sorted_wrt plan_compatible (groupOf (groupPlanned rules) k)"
    unfolding groupOf_planned using assms by (rule sorted_wrt_filter)
  then show ?thesis
    by (rule sorted_wrt_mono_rel[rotated])
      (simp add: plan_compatible_def groupOf_planned common_key_meet[of k])
qed

lemma combined_may_share:
  assumes pairs: "sorted_wrt plan_compatible rules" and ov: "dp_listenerKeysOverlap k k'" and ne: "k \<noteq> k'"
  shows "sorted_wrt may_share (groupOf (groupPlanned rules) k @ groupOf (groupPlanned rules) k')"
proof -
  have "may_share a b" if "a \<in> set (groupOf (groupPlanned rules) k)" "b \<in> set (groupOf (groupPlanned rules) k')" for a b
  proof -
    have a: "a \<in> set rules" "k \<in> set (listenerKeysForRule (pr_rule a))"
      and b: "b \<in> set rules" "k' \<in> set (listenerKeysForRule (pr_rule b))"
      using that by (auto simp: groupOf_planned)
    have "a \<noteq> b" using a b ov ne rule_keys_apart by blast
    from sorted_wrt_pairs[OF pairs a(1) b(1) this] have "plan_compatible a b"
      using plan_compatible_sym[of a b] by (elim disjE) simp_all
    moreover have "sockets_meet a b" using a b ov unfolding sockets_meet_iff by blast
    ultimately show ?thesis by (simp add: plan_compatible_def)
  qed
  with group_may_share[OF pairs] show ?thesis
    by (simp add: sorted_wrt_append)
qed

lemma detect_none_iff: "detectListenerConflicts rules = [] \<longleftrightarrow> sorted_wrt plan_compatible rules"
proof
  assume none: "detectListenerConflicts rules = []"
  show "sorted_wrt plan_compatible rules"
  proof (rule sorted_wrt_split)
    fix xs a ys b zs assume "rules = xs @ a # ys @ b # zs"
    with none have "detectListenerConflicts (xs @ a # ys @ b # zs) = []" by simp
    then show "plan_compatible a b"
      unfolding plan_compatible_def by (intro impI) (rule conflicts_none_pairwise)
  qed
next
  assume pairs: "sorted_wrt plan_compatible rules"
  have "sorted_wrt (\<lambda>l r. dp_listenerKeysOverlap l r \<longrightarrow>
      sorted_wrt may_share (groupOf (groupPlanned rules) l @ groupOf (groupPlanned rules) r)) (groupedKeys rules)"
    using groupedKeys_facts(1)[of rules, folded sorted_wrt_distinct]
    by (rule sorted_wrt_mono_rel[rotated]) (use combined_may_share[OF pairs] in blast)
  then show "detectListenerConflicts rules = []"
    by (simp add: detectListenerConflicts_def Let_def crossConflicts_none map_filter_none
        listenerConflictDetail_none group_may_share[OF pairs])
qed

subsubsection \<open>The loop over the rules\<close>

definition assigned :: "string \<Rightarrow> plannedRule \<Rightarrow> bool" where
  "assigned nodeMode e \<longleftrightarrow>
     selectDataplane nodeMode (pr_rule e) = Inr (pr_dataplane e) \<and> backendSupportsRule (pr_dataplane e) (pr_rule e)"

definition rules_of :: "plannedRule list \<Rightarrow> string \<Rightarrow> RuleConfig list" where
  "rules_of es d = map pr_rule (filter (\<lambda>e. pr_dataplane e = d) es)"

lemma planLoop_details: "\<exists>more. snd (planLoop m p ds rules) = ds @ more"
proof (induction rules arbitrary: p ds)
  case (Cons r rules)
  have "\<exists>more. snd (planLoop m q (ds @ [d]) rules) = ds @ more" for q d
    using Cons.IH[of q "ds @ [d]"] by auto
  then show ?case
    using Cons.IH by (simp split: sum.split)
qed simp

lemma planLoop_grows: "planLoop m p (ds @ [d]) rules \<noteq> (q, [])"
  using planLoop_details[of m p "ds @ [d]" rules] by auto

lemma planned_head:
  assumes "\<And>e. assigned m e \<and> pr_rule e = r \<longleftrightarrow> e = e0"
  shows "(\<exists>es. ps = qs @ es \<and> map pr_rule es = r # rules \<and> list_all (assigned m) es \<and> C) \<longleftrightarrow>
    (\<exists>es. ps = (qs @ [e0]) @ es \<and> map pr_rule es = rules \<and> list_all (assigned m) es \<and> C)"
proof
  assume "\<exists>es. ps = qs @ es \<and> map pr_rule es = r # rules \<and> list_all (assigned m) es \<and> C"
  then obtain e es where "ps = qs @ e # es" "pr_rule e = r" "map pr_rule es = rules" "assigned m e"
      "list_all (assigned m) es" C
    by (auto simp: map_eq_Cons_conv)
  with assms[of e] show "\<exists>es. ps = (qs @ [e0]) @ es \<and> map pr_rule es = rules \<and> list_all (assigned m) es \<and> C"
    by (intro exI[of _ es]) simp
next
  assume "\<exists>es. ps = (qs @ [e0]) @ es \<and> map pr_rule es = rules \<and> list_all (assigned m) es \<and> C"
  then obtain es where "ps = qs @ e0 # es" "map pr_rule es = rules" "list_all (assigned m) es" C
    by auto
  with assms[of e0] show "\<exists>es. ps = qs @ es \<and> map pr_rule es = r # rules \<and> list_all (assigned m) es \<and> C"
    by (intro exI[of _ "e0 # es"]) simp
qed

lemma planLoop_ok:
  assumes "pl_rules p = rules_of (pl_planned p)"
  shows "planLoop m p [] rules = (q, []) \<longleftrightarrow>
    (\<exists>es. pl_planned q = pl_planned p @ es \<and> map pr_rule es = rules \<and> list_all (assigned m) es \<and>
          pl_rules q = rules_of (pl_planned q))"
  using assms
proof (induction rules arbitrary: p)
  case Nil
  then show ?case by (cases p; cases q) auto
next
  case (Cons r rules)
  show ?case
  proof (cases "\<exists>d. selectDataplane m r = Inr d \<and> backendSupportsRule d r")
    case False
    then have "planLoop m p [] (r # rules) \<noteq> (q, [])"
      using planLoop_grows[of m p "[]" _ rules q] by (auto split: sum.splits)
    moreover have "\<not> assigned m e" if "pr_rule e = r" for e
      using False that by (auto simp: assigned_def)
    ultimately show ?thesis
      by (auto simp: map_eq_Cons_conv)
  next
    case True
    then obtain d where d: "selectDataplane m r = Inr d" "backendSupportsRule d r" by blast
    define p' where "p' = p\<lparr>pl_rules := (pl_rules p)(d := pl_rules p d @ [r]),
        pl_planned := pl_planned p @ [\<lparr>pr_rule = r, pr_dataplane = d\<rparr>]\<rparr>"
    have p': "pl_rules p' = rules_of (pl_planned p')" "pl_planned p' = pl_planned p @ [\<lparr>pr_rule = r, pr_dataplane = d\<rparr>]"
      using Cons.prems by (auto simp: p'_def rules_of_def fun_eq_iff)
    have entry: "assigned m e \<and> pr_rule e = r \<longleftrightarrow> e = \<lparr>pr_rule = r, pr_dataplane = d\<rparr>" for e
      using d by (cases e) (auto simp: assigned_def)
    have "planLoop m p [] (r # rules) = planLoop m p' [] rules"
      using d by (simp add: p'_def)
    with Cons.IH[OF p'(1)] show ?thesis
      unfolding p'(2) planned_head[OF entry] by (simp only:)
  qed
qed

lemma manager_plan_ok_iff:
  "manager_plan mode s = Inr p \<longleftrightarrow>
     map pr_rule (pl_planned p) = cs_Rules s \<and> list_all (assigned (effectiveMode mode s)) (pl_planned p) \<and>
     pl_rules p = rules_of (pl_planned p) \<and> sorted_wrt plan_compatible (pl_planned p)"
proof -
  define m where "m = effectiveMode mode s"
  obtain q ds where loop: "planLoop m \<lparr>pl_rules = (\<lambda>_. []), pl_planned = []\<rparr> [] (cs_Rules s) = (q, ds)"
    by (cases "planLoop m \<lparr>pl_rules = (\<lambda>_. []), pl_planned = []\<rparr> [] (cs_Rules s)") auto
  have "manager_plan mode s = Inr p \<longleftrightarrow> ds = [] \<and> q = p \<and> detectListenerConflicts (pl_planned p) = []"
    using loop by (auto simp: manager_plan_def m_def Let_def split: if_splits)
  also have "\<dots> \<longleftrightarrow> planLoop m \<lparr>pl_rules = (\<lambda>_. []), pl_planned = []\<rparr> [] (cs_Rules s) = (p, []) \<and>
      sorted_wrt plan_compatible (pl_planned p)"
    using loop by (auto simp: detect_none_iff)
  also have "planLoop m \<lparr>pl_rules = (\<lambda>_. []), pl_planned = []\<rparr> [] (cs_Rules s) = (p, []) \<longleftrightarrow>
      map pr_rule (pl_planned p) = cs_Rules s \<and> list_all (assigned m) (pl_planned p) \<and> pl_rules p = rules_of (pl_planned p)"
    by (subst planLoop_ok) (auto simp: rules_of_def)
  finally show ?thesis by (simp add: m_def)
qed

lemma plan_failed_message: "TrimSpace ''dataplane plan failed'' = ''dataplane plan failed''"
  by code_simp

subsection \<open>Properties\<close>

text \<open>
  C16: The grouped conflict check reports nothing exactly for the plans in which every two rules (at different
  positions) whose sockets meet may share one: the quadratic pairwise specification and the code's check by sorted
  listener keys agree.
\<close>

theorem conflict_detection_exact:
  "detectListenerConflicts planned = [] \<longleftrightarrow> sorted_wrt plan_compatible planned"
  by (rule detect_none_iff)

text \<open>
  C15: A plan is accepted exactly when every rule of the snapshot, in order, has an engine that its preference and the
  node's mode select and that supports it, the rules of each engine are the ones assigned to it in snapshot order,
  and every two rules whose sockets meet may share one. A refused plan carries at least one error detail.
\<close>

theorem plan_exact:
  "(manager_plan mode s = Inr p \<longleftrightarrow>
     map pr_rule (pl_planned p) = cs_Rules s \<and>
     list_all (\<lambda>e. selectDataplane (effectiveMode mode s) (pr_rule e) = Inr (pr_dataplane e) \<and>
                  backendSupportsRule (pr_dataplane e) (pr_rule e)) (pl_planned p) \<and>
     pl_rules p = (\<lambda>d. map pr_rule (filter (\<lambda>e. pr_dataplane e = d) (pl_planned p))) \<and>
     sorted_wrt plan_compatible (pl_planned p)) \<and>
   (case manager_plan mode s of
      Inl e \<Rightarrow> ae_Message e = ''dataplane plan failed'' \<and> ae_Errors e \<noteq> []
    | Inr _ \<Rightarrow> True)"
proof
  show "manager_plan mode s = Inr p \<longleftrightarrow>
     map pr_rule (pl_planned p) = cs_Rules s \<and>
     list_all (\<lambda>e. selectDataplane (effectiveMode mode s) (pr_rule e) = Inr (pr_dataplane e) \<and>
                  backendSupportsRule (pr_dataplane e) (pr_rule e)) (pl_planned p) \<and>
     pl_rules p = (\<lambda>d. map pr_rule (filter (\<lambda>e. pr_dataplane e = d) (pl_planned p))) \<and>
     sorted_wrt plan_compatible (pl_planned p)"
    using manager_plan_ok_iff[of mode s p] unfolding assigned_def[abs_def] rules_of_def[abs_def] .
  show "case manager_plan mode s of
      Inl e \<Rightarrow> ae_Message e = ''dataplane plan failed'' \<and> ae_Errors e \<noteq> [] | Inr _ \<Rightarrow> True"
    by (simp add: manager_plan_def Let_def configApplyError_def plan_failed_message split: prod.split)
qed

end
