(* ===== verification/Go_Path.thy ===== *)
theory Go_Path
  imports Go_Strings
begin

text \<open>
  The part of Go's \<open>path/filepath\<close> package (on a Unix system) that the program uses: \<open>Clean\<close>, \<open>Join\<close>, \<open>Base\<close>
  and \<open>Dir\<close>.
\<close>

definition join_slash :: "string list \<Rightarrow> string" where
  "join_slash parts = (case parts of [] \<Rightarrow> [] | p # ps \<Rightarrow> p @ concat (map (\<lambda>q. CHR ''/'' # q) ps))"

text \<open>\<open>Clean\<close> keeps a stack of the elements seen: \<open>..\<close> takes the element before it away, is dropped at the root, and
  stays in front of a relative path.\<close>

definition clean_step :: "bool \<Rightarrow> string list \<Rightarrow> string \<Rightarrow> string list" where
  "clean_step rooted stack part =
     (if part = [] \<or> part = ''.'' then stack
      else if part = ''..'' then
        (if stack \<noteq> [] \<and> last stack \<noteq> ''..'' then butlast stack else if rooted then stack else stack @ [part])
      else stack @ [part])"

definition filepath_Clean :: "string \<Rightarrow> string" where
  "filepath_Clean path =
     (if path = [] then ''.''
      else
        (let rooted = HasPrefix path ''/'';
             out = (if rooted then ''/'' else []) @ join_slash (foldl (clean_step rooted) [] (Split (CHR ''/'') path)) in
         if out = [] then ''.'' else out))"

definition filepath_Join :: "string list \<Rightarrow> string" where
  "filepath_Join elems =
     (case dropWhile (\<lambda>e. e = []) elems of [] \<Rightarrow> [] | es \<Rightarrow> filepath_Clean (join_slash es))"

definition after_slash :: "string \<Rightarrow> string" where
  "after_slash path = rev (takeWhile (\<lambda>c. c \<noteq> CHR ''/'') (rev path))"

definition filepath_Base :: "string \<Rightarrow> string" where
  "filepath_Base path =
     (if path = [] then ''.''
      else
        (let base = after_slash (rev (dropWhile (\<lambda>c. c = CHR ''/'') (rev path))) in
         if base = [] then ''/'' else base))"

definition filepath_Dir :: "string \<Rightarrow> string" where
  "filepath_Dir path = filepath_Clean (take (length path - length (after_slash path)) path)"

lemma filepath_examples:
  "filepath_Clean ''/a//b/../c/./d/'' = ''/a/c/d''" "filepath_Clean ''../../x/..'' = ''../..''"
  "filepath_Clean ''/../a'' = ''/a''" "filepath_Join [[], ''a'', [], ''b/../c''] = ''a/c''"
  "filepath_Base ''/opt/prism/'' = ''prism''" "filepath_Base ''///'' = ''/''" "filepath_Dir ''/opt/x/haproxy'' = ''/opt/x''"
  by code_simp+

end
