(* ===== verification/Dataplane_Locks.thy ===== *)
theory Dataplane_Locks
  imports Dataplane_Plan Go_Path
begin

text \<open>
  \<open>dataplane/sanitize.go\<close> and \<open>dataplane/locks.go\<close>: lock files in a shared directory keep two Prism instances on
  one host from serving the same listener. A lock names its owner (instance, process, start time of the process) and the
  listener; a lock whose process is gone is stale. The directory is a list of file names with their contents. What the
  host answers (which processes live, what \<open>/proc\<close> holds, what \<open>nft\<close> prints, which file operations fail) is in the
  records \<open>hostEnv\<close> and \<open>lockIO\<close>; SHA-256 in hexadecimal is a field of \<open>hostEnv\<close>.
\<close>

subsection \<open>sanitize.go\<close>

text \<open>The length of the UTF-8 sequence a string starts with; 1 for a byte that starts none, as in Go's decoding.\<close>

definition continues :: "nat \<Rightarrow> nat \<Rightarrow> string \<Rightarrow> nat \<Rightarrow> bool" where
  "continues lo hi s i \<longleftrightarrow> i < length s \<and> lo \<le> code (s ! i) \<and> code (s ! i) \<le> hi"

definition rune_len :: "string \<Rightarrow> nat" where
  "rune_len s =
     (case s of
        [] \<Rightarrow> 1
      | c # _ \<Rightarrow>
          (let b = code c; tail = continues 0x80 0xBF s in
           if b < 0xC2 then 1
           else if b \<le> 0xDF then (if tail 1 then 2 else 1)
           else if b \<le> 0xEF then
             (if continues (if b = 0xE0 then 0xA0 else 0x80) (if b = 0xED then 0x9F else 0xBF) s 1 \<and> tail 2 then 3 else 1)
           else if b \<le> 0xF4 then
             (if continues (if b = 0xF0 then 0x90 else 0x80) (if b = 0xF4 then 0x8F else 0xBF) s 1 \<and> tail 2 \<and> tail 3 then 4 else 1)
           else 1))"

lemma rune_len_pos: "0 < rune_len s"
  by (simp add: rune_len_def Let_def split: list.split)

text \<open>Ranging over a string: its runes as substrings.\<close>

function runes :: "string \<Rightarrow> string list" where
  "runes s = (if s = [] then [] else take (rune_len s) s # runes (drop (rune_len s) s))"
  by pat_completeness auto
termination
  by (relation "measure length") (use rune_len_pos in \<open>auto simp: diff_less\<close>)

declare runes.simps [simp del]

definition alnum :: "char \<Rightarrow> bool" where
  "alnum c \<longleftrightarrow> (97 \<le> code c \<and> code c \<le> 122) \<or> (65 \<le> code c \<and> code c \<le> 90) \<or> (48 \<le> code c \<and> code c \<le> 57)"

definition sanitizeName :: "string \<Rightarrow> string" where
  "sanitizeName value =
     (let value = TrimSpace value in
      if value = [] then ''default''
      else
        (let result = TrimCut ''_'' (map (\<lambda>r. case r of [c] \<Rightarrow> if alnum c then c else CHR ''_'' | _ \<Rightarrow> CHR ''_'') (runes value)) in
         if result = [] then ''default'' else if length result > 60 then take 60 result else result))"

definition sanitizeComment :: "string \<Rightarrow> string" where
  "sanitizeComment value = filter (\<lambda>c. c \<noteq> CHR 0x5C) (filter (\<lambda>c. c \<noteq> CHR 0x22) value)"

definition nftablesTableNameForInstance :: "(string \<Rightarrow> string) \<Rightarrow> string \<Rightarrow> string" where
  "nftablesTableNameForInstance sha256hex instanceID =
     (let safe = sanitizeName instanceID; safe = (if length safe > 48 then take 48 safe else safe) in
      ''prism_'' @ safe @ ''_'' @ take 10 (sha256hex (TrimSpace instanceID)))"

subsection \<open>Options and the host\<close>

record Options =
  op_Mode :: string
  op_ConflictPolicy :: string
  op_InstanceID :: string
  op_ServiceName :: string
  op_InstallDir :: string
  op_StateDir :: string
  op_RunDir :: string
  op_HAProxyPath :: string
  op_NFTPath :: string
  op_ExternalBackends :: bool

definition orElse :: "string \<Rightarrow> string \<Rightarrow> string" where
  "orElse value fallback = (if TrimSpace value = [] then fallback else value)"

text \<open>The options after \<open>NewManager\<close>.\<close>

definition NewManager_options :: "Options \<Rightarrow> Options" where
  "NewManager_options options =
     (let service = orElse (op_ServiceName options) ''prism-node-agent'' in
      options\<lparr>op_Mode := normalizeMode (op_Mode options) ModeNative,
        op_ConflictPolicy := normalizeConflictPolicy (op_ConflictPolicy options),
        op_ServiceName := service,
        op_InstallDir := orElse (op_InstallDir options) (filepath_Join [''/opt'', service]),
        op_StateDir := orElse (op_StateDir options) (filepath_Join [''/var/lib'', service, ''dataplane'']),
        op_RunDir := orElse (op_RunDir options) (filepath_Join [''/run'', ''prism'']),
        op_InstanceID := orElse (op_InstanceID options) service\<rparr>)"

record hostEnv =
  he_pid :: int
  he_alive :: "int \<Rightarrow> bool"
  he_stat :: "int \<Rightarrow> string option"
  he_nft :: "string \<Rightarrow> bool \<times> string"
  he_sha256hex :: "string \<Rightarrow> string"

record lockIO =
  io_mkdirErr :: "string option"
  io_statErr :: "string option"
  io_lockErr :: "string option"
  io_readDirErr :: "string option"
  io_readable :: "string \<Rightarrow> bool"
  io_removable :: "string \<Rightarrow> bool"
  io_openErr :: "string \<Rightarrow> string option"
  io_writeErr :: "string \<Rightarrow> string option"
  io_closeErr :: "string \<Rightarrow> string option"

type_synonym lockFiles = "(string \<times> string) list"

record lockDir =
  ld_exists :: bool
  ld_files :: lockFiles

definition readLock :: "lockIO \<Rightarrow> string \<Rightarrow> lockFiles \<Rightarrow> string option" where
  "readLock io name files = (if io_readable io name then map_of files name else None)"

definition removeLock :: "lockIO \<Rightarrow> string \<Rightarrow> lockFiles \<Rightarrow> lockFiles" where
  "removeLock io name files = (if io_removable io name then filter (\<lambda>f. fst f \<noteq> name) files else files)"

definition readDir :: "lockFiles \<Rightarrow> string list" where
  "readDir files = sort (map fst files)"

subsection \<open>locks.go: lock data and processes\<close>

abbreviation ErrorListenerOwnedByOtherPrismInstance :: string where
  "ErrorListenerOwnedByOtherPrismInstance \<equiv> ''LISTENER_OWNED_BY_OTHER_PRISM_INSTANCE''"

definition parseLockValue :: "string \<Rightarrow> string \<Rightarrow> string" where
  "parseLockValue data key =
     (let prefix = key @ ''='' in
      case filter (\<lambda>line. HasPrefix line prefix) (Split (CHR 0x0A) data) of
        [] \<Rightarrow> []
      | line # _ \<Rightarrow> TrimSpace (TrimPrefix line prefix))"

definition listenerKeyFromLockData :: "string \<Rightarrow> dp_listenerKey option" where
  "listenerKeyFromLockData data =
     (let protocol = TrimSpace (parseLockValue data ''listen_protocol'');
          listenIP = TrimSpace (parseLockValue data ''listen_ip'');
          portText = TrimSpace (parseLockValue data ''listen_port'') in
      if protocol = [] \<or> listenIP = [] \<or> portText = [] then None
      else map_option (\<lambda>port. \<lparr>dk_protocol = protocol, dk_listenIP = listenIP, dk_port = port\<rparr>) (Atoi portText))"

definition processAlive :: "hostEnv \<Rightarrow> string \<Rightarrow> bool" where
  "processAlive env pid =
     (case Atoi (TrimSpace pid) of None \<Rightarrow> False | Some v \<Rightarrow> if v \<le> 0 then False else he_alive env v)"

definition processStartTime :: "hostEnv \<Rightarrow> string \<Rightarrow> string" where
  "processStartTime env pid =
     (case Atoi (TrimSpace pid) of
        None \<Rightarrow> []
      | Some v \<Rightarrow>
          if v \<le> 0 then []
          else case he_stat env v of
            None \<Rightarrow> []
          | Some stat \<Rightarrow>
              (case last_index_byte (CHR '')'') stat of
                 None \<Rightarrow> []
               | Some e \<Rightarrow>
                   if e + 2 \<ge> length stat then []
                   else (let fields = Fields (drop (e + 2) stat) in if length fields < 20 then [] else fields ! 19)))"

definition processMatchesLock :: "hostEnv \<Rightarrow> string \<Rightarrow> string \<Rightarrow> bool" where
  "processMatchesLock env pid expectedStartTime =
     (if \<not> processAlive env pid then False
      else
        (let expectedStartTime = TrimSpace expectedStartTime in
         if expectedStartTime = [] then processAlive env pid else processStartTime env pid = expectedStartTime))"

definition currentProcessStartTime :: "hostEnv \<Rightarrow> string" where
  "currentProcessStartTime env = processStartTime env (Itoa (he_pid env))"

definition lockOwnedByCurrentProcessOrStale :: "hostEnv \<Rightarrow> string \<Rightarrow> bool" where
  "lockOwnedByCurrentProcessOrStale env data =
     (let pid = parseLockValue data ''pid'' in
      TrimSpace pid = Itoa (he_pid env) \<or> \<not> processMatchesLock env pid (parseLockValue data ''process_start_time''))"

definition nftTableMissing :: "string \<Rightarrow> bool" where
  "nftTableMissing message =
     (let value = ToLower (TrimSpace message) in Contains value ''no such file'' \<or> Contains value ''does not exist'')"

text \<open>\<open>he_nft\<close> says for a table whether listing it failed, and what was printed.\<close>

definition lockMayProtectOtherNFTablesState :: "Options \<Rightarrow> hostEnv \<Rightarrow> string \<Rightarrow> bool" where
  "lockMayProtectOtherNFTablesState opts env data =
     (let owner = TrimSpace (parseLockValue data ''instance_id'') in
      if owner = [] \<or> owner = op_InstanceID opts then False
      else if TrimSpace (parseLockValue data ''dataplane'') \<noteq> ModeNFTables then False
      else
        (let (failed, output) = he_nft env (nftablesTableNameForInstance (he_sha256hex env) owner) in
         if \<not> failed then True
         else (let message = TrimSpace output in if message = [] then True else \<not> nftTableMissing message)))"

subsection \<open>locks.go: errors\<close>

definition rulesFromPlanned :: "plannedRule list \<Rightarrow> RuleConfig list" where
  "rulesFromPlanned entries = map pr_rule entries"

definition firstDataplane :: "plannedRule list \<Rightarrow> string" where
  "firstDataplane entries = pr_dataplane (entries ! 0)"

definition lockErrorDetails ::
    "dp_listenerKey list \<Rightarrow> (dp_listenerKey \<rightharpoonup> plannedRule list) \<Rightarrow> string \<Rightarrow> string \<Rightarrow> ConfigApplyErrorDetail list" where
  "lockErrorDetails korder grouped owner message =
     map (\<lambda>key. listenerError ErrorListenerOwnedByOtherPrismInstance key (rulesFromPlanned (groupOf grouped key))
       (firstDataplane (groupOf grouped key)) owner message) korder"

definition lockError :: "dp_listenerKey \<Rightarrow> plannedRule list \<Rightarrow> string \<Rightarrow> string \<Rightarrow> go_error" where
  "lockError key entries owner message =
     ApplyError (configApplyError message [listenerError ErrorListenerOwnedByOtherPrismInstance key (rulesFromPlanned entries)
       (firstDataplane entries) owner message])"

definition liveOwnedLockError :: "dp_listenerKey \<Rightarrow> plannedRule list \<Rightarrow> string \<Rightarrow> string \<Rightarrow> go_error" where
  "liveOwnedLockError key planned dataplane owner =
     (let rules = rulesFromPlanned planned;
          rules = (if rules = [] then [zero_rule\<lparr>rc_ID := ''existing-listener-lock'', rc_Protocol := dk_protocol key,
              rc_ListenIP := dk_listenIP key, rc_Port := dk_port key, rc_MatchType := MatchTypeAnyInbound\<rparr>] else rules) in
      ApplyError (configApplyError ''listener is owned by another Prism process''
        [listenerError ErrorListenerOwnedByOtherPrismInstance key rules dataplane owner ''listener is owned by another Prism process'']))"

subsection \<open>locks.go: acquiring\<close>

definition lockName :: "dp_listenerKey \<Rightarrow> string" where
  "lockName key = sanitizeName (dp_listenerKeyString key) @ ''.lock''"

definition dirLockName :: string where "dirLockName = ''.prism-listeners.lock''"

definition lockContent :: "Options \<Rightarrow> hostEnv \<Rightarrow> dp_listenerKey \<Rightarrow> string \<Rightarrow> string" where
  "lockContent opts env key dataplane =
     ''instance_id='' @ op_InstanceID opts @ [CHR 0x0A] @
     ''pid='' @ Itoa (he_pid env) @ [CHR 0x0A] @
     ''process_start_time='' @ currentProcessStartTime env @ [CHR 0x0A] @
     ''service='' @ op_ServiceName opts @ [CHR 0x0A] @
     ''dataplane='' @ dataplane @ [CHR 0x0A] @
     ''listen_protocol='' @ dk_protocol key @ [CHR 0x0A] @
     ''listen_ip='' @ dk_listenIP key @ [CHR 0x0A] @
     ''listen_port='' @ Itoa (dk_port key) @ [CHR 0x0A]"

text \<open>The attempts of \<open>writeListenerLock\<close>.\<close>

primrec writeLockAttempts ::
    "nat \<Rightarrow> Options \<Rightarrow> hostEnv \<Rightarrow> lockIO \<Rightarrow> string \<Rightarrow> dp_listenerKey \<Rightarrow> plannedRule list \<Rightarrow> lockFiles \<Rightarrow> go_error option \<times> lockFiles" where
  "writeLockAttempts 0 opts env io name key entries files =
     (Some (lockError key entries [] ''listener lock could not be acquired''), files)"
| "writeLockAttempts (Suc n) opts env io name key entries files =
     (case map_of files name of
        None \<Rightarrow>
          (case io_openErr io name of
             Some err \<Rightarrow> (Some (PlainError err), files)
           | None \<Rightarrow>
               (case io_writeErr io name of
                  Some err \<Rightarrow> (Some (PlainError err), removeLock io name ((name, []) # files))
                | None \<Rightarrow> (map_option PlainError (io_closeErr io name),
                    (name, lockContent opts env key (firstDataplane entries)) # files)))
      | Some _ \<Rightarrow>
          (case readLock io name files of
             None \<Rightarrow> writeLockAttempts n opts env io name key entries files
           | Some data \<Rightarrow>
               (let owner = parseLockValue data ''instance_id''; pid = parseLockValue data ''pid'';
                    matches = processMatchesLock env pid (parseLockValue data ''process_start_time'');
                    mine = (owner = op_InstanceID opts \<and> TrimSpace pid = Itoa (he_pid env)) in
                if owner \<noteq> [] \<and> matches \<and> \<not> mine then
                  (Some (lockError key entries owner ''listener is owned by another Prism instance''), files)
                else if lockMayProtectOtherNFTablesState opts env data then
                  (Some (lockError key entries owner ''listener is owned by another Prism instance''), files)
                else if mine \<or> \<not> matches then
                  writeLockAttempts n opts env io name key entries (removeLock io name files)
                else (Some (lockError key entries owner ''listener lock is invalid''), files))))"

definition writeListenerLock ::
    "Options \<Rightarrow> hostEnv \<Rightarrow> lockIO \<Rightarrow> string \<Rightarrow> dp_listenerKey \<Rightarrow> plannedRule list \<Rightarrow> lockFiles \<Rightarrow> go_error option \<times> lockFiles" where
  "writeListenerLock opts env io name key entries files = writeLockAttempts 2 opts env io name key entries files"

definition releaseListenerLockPath :: "Options \<Rightarrow> hostEnv \<Rightarrow> lockIO \<Rightarrow> string \<Rightarrow> lockFiles \<Rightarrow> lockFiles" where
  "releaseListenerLockPath opts env io name files =
     (case readLock io name files of
        None \<Rightarrow> files
      | Some data \<Rightarrow>
          if parseLockValue data ''instance_id'' = op_InstanceID opts \<and> lockOwnedByCurrentProcessOrStale env data
          then removeLock io name files else files)"

definition releaseListenerLockPaths :: "Options \<Rightarrow> hostEnv \<Rightarrow> lockIO \<Rightarrow> string list \<Rightarrow> lockFiles \<Rightarrow> lockFiles" where
  "releaseListenerLockPaths opts env io paths files = fold (releaseListenerLockPath opts env io) paths files"

text \<open>The loop over the directory. Whatever the first overlapping key of the plan is, the file is decided on with it.\<close>

fun overlapLoop ::
    "Options \<Rightarrow> hostEnv \<Rightarrow> lockIO \<Rightarrow> dp_listenerKey list \<Rightarrow> (dp_listenerKey \<rightharpoonup> plannedRule list) \<Rightarrow> string list \<Rightarrow> lockFiles \<Rightarrow>
     go_error option \<times> lockFiles" where
  "overlapLoop opts env io korder grouped [] files = (None, files)"
| "overlapLoop opts env io korder grouped (name # names) files =
     (if \<not> HasSuffix name ''.lock'' then overlapLoop opts env io korder grouped names files
      else case readLock io name files of
        None \<Rightarrow> overlapLoop opts env io korder grouped names files
      | Some data \<Rightarrow>
          (case listenerKeyFromLockData data of
             None \<Rightarrow> overlapLoop opts env io korder grouped names files
           | Some existingKey \<Rightarrow>
               (let owner = parseLockValue data ''instance_id''; pid = parseLockValue data ''pid'' in
                case find (dp_listenerKeysOverlap existingKey) korder of
                  None \<Rightarrow> overlapLoop opts env io korder grouped names files
                | Some key \<Rightarrow>
                    if owner = op_InstanceID opts \<and> lockOwnedByCurrentProcessOrStale env data then
                      overlapLoop opts env io korder grouped names (removeLock io name files)
                    else if owner \<noteq> [] \<and> processMatchesLock env pid (parseLockValue data ''process_start_time'') then
                      (Some (lockError key (groupOf grouped key) owner ''listener is owned by another Prism instance''), files)
                    else if lockMayProtectOtherNFTablesState opts env data then
                      (Some (lockError key (groupOf grouped key) owner ''listener is owned by another Prism instance''), files)
                    else overlapLoop opts env io korder grouped names (removeLock io name files))))"

fun acquireLoop ::
    "Options \<Rightarrow> hostEnv \<Rightarrow> lockIO \<Rightarrow> (dp_listenerKey \<rightharpoonup> plannedRule list) \<Rightarrow> dp_listenerKey list \<Rightarrow> string list \<Rightarrow> lockFiles \<Rightarrow>
     go_error option \<times> lockFiles" where
  "acquireLoop opts env io grouped [] acquired files = (None, files)"
| "acquireLoop opts env io grouped (key # keys) acquired files =
     (case writeListenerLock opts env io (lockName key) key (groupOf grouped key) files of
        (Some err, files) \<Rightarrow> (Some err, releaseListenerLockPaths opts env io acquired files)
      | (None, files) \<Rightarrow> acquireLoop opts env io grouped keys (acquired @ [lockName key]) files)"

text \<open>\<open>withListenerDirectoryLock\<close>: the lock file of the directory is created first; \<open>fn\<close> runs under it.\<close>

definition withListenerDirectoryLock ::
    "lockIO \<Rightarrow> (lockFiles \<Rightarrow> go_error option \<times> lockFiles) \<Rightarrow> lockFiles \<Rightarrow> go_error option \<times> lockFiles" where
  "withListenerDirectoryLock io fn files =
     (case io_openErr io dirLockName of
        Some err \<Rightarrow> (Some (PlainError err), files)
      | None \<Rightarrow>
          (let files = (if map_of files dirLockName = None then (dirLockName, []) # files else files) in
           case io_lockErr io of
             Some err \<Rightarrow> (Some (PlainError err), files)
           | None \<Rightarrow> fn files))"

text \<open>\<open>korder\<close> is the order in which the map of the groups is walked.\<close>

definition ensureExternalListenerLocks ::
    "Options \<Rightarrow> hostEnv \<Rightarrow> lockIO \<Rightarrow> dp_listenerKey list \<Rightarrow> plan \<Rightarrow> lockDir \<Rightarrow> go_error option \<times> lockDir" where
  "ensureExternalListenerLocks opts env io korder p dir =
     (let grouped = groupPlanned (pl_planned p) in
      if korder = [] then (None, dir)
      else case io_mkdirErr io of
        Some err \<Rightarrow> (Some (ApplyError (configApplyError err (lockErrorDetails korder grouped [] err))), dir)
      | None \<Rightarrow>
          (let (err, files) = withListenerDirectoryLock io (\<lambda>files.
                 case io_readDirErr io of
                   Some err \<Rightarrow> (Some (PlainError err), files)
                 | None \<Rightarrow>
                     (case overlapLoop opts env io korder grouped (readDir files) files of
                        (Some err, files) \<Rightarrow> (Some err, files)
                      | (None, files) \<Rightarrow> acquireLoop opts env io grouped (sort_key dp_listenerKeyString korder) [] files))
                 (ld_files dir)
           in (err, \<lparr>ld_exists = True, ld_files = files\<rparr>)))"

subsection \<open>locks.go: releasing, stale locks, locks of another process\<close>

definition releaseExternalListenerLocks :: "Options \<Rightarrow> hostEnv \<Rightarrow> lockIO \<Rightarrow> plan \<Rightarrow> lockDir \<Rightarrow> lockDir" where
  "releaseExternalListenerLocks opts env io p dir =
     dir\<lparr>ld_files := releaseListenerLockPaths opts env io
       (concat (map (\<lambda>entry. map lockName (listenerKeysForRule (pr_rule entry))) (pl_planned p))) (ld_files dir)\<rparr>"

definition staleOne :: "Options \<Rightarrow> hostEnv \<Rightarrow> lockIO \<Rightarrow> string list \<Rightarrow> string \<Rightarrow> lockFiles \<Rightarrow> lockFiles" where
  "staleOne opts env io desired name files =
     (if \<not> HasSuffix name ''.lock'' \<or> List.member desired name then files
      else releaseListenerLockPath opts env io name files)"

definition removeStaleExternalListenerLocks ::
    "Options \<Rightarrow> hostEnv \<Rightarrow> lockIO \<Rightarrow> plan \<Rightarrow> lockDir \<Rightarrow> go_error option \<times> lockDir" where
  "removeStaleExternalListenerLocks opts env io p dir =
     (let desired = map lockName (groupedKeys (pl_planned p)) in
      if \<not> ld_exists dir then (None, dir)
      else case io_readDirErr io of
        Some err \<Rightarrow> (Some (PlainError err), dir)
      | None \<Rightarrow> (None, dir\<lparr>ld_files := fold (staleOne opts env io desired) (readDir (ld_files dir)) (ld_files dir)\<rparr>))"

fun liveOwnedLoop ::
    "Options \<Rightarrow> hostEnv \<Rightarrow> lockIO \<Rightarrow> dp_listenerKey list \<Rightarrow> (dp_listenerKey \<rightharpoonup> plannedRule list) \<Rightarrow> string list \<Rightarrow> lockFiles \<Rightarrow>
     go_error option" where
  "liveOwnedLoop opts env io korder grouped [] files = None"
| "liveOwnedLoop opts env io korder grouped (name # names) files =
     (if \<not> HasSuffix name ''.lock'' then liveOwnedLoop opts env io korder grouped names files
      else case readLock io name files of
        None \<Rightarrow> liveOwnedLoop opts env io korder grouped names files
      | Some data \<Rightarrow>
          if parseLockValue data ''instance_id'' \<noteq> op_InstanceID opts then liveOwnedLoop opts env io korder grouped names files
          else
            (let pid = parseLockValue data ''pid'' in
             if TrimSpace pid = Itoa (he_pid env) \<or> \<not> processMatchesLock env pid (parseLockValue data ''process_start_time'')
             then liveOwnedLoop opts env io korder grouped names files
             else case listenerKeyFromLockData data of
               None \<Rightarrow> Some (liveOwnedLockError \<lparr>dk_protocol = [], dk_listenIP = [], dk_port = 0\<rparr> []
                 (parseLockValue data ''dataplane'') (op_InstanceID opts))
             | Some existingKey \<Rightarrow>
                 (case find (dp_listenerKeysOverlap existingKey) korder of
                    Some key \<Rightarrow> Some (liveOwnedLockError key (groupOf grouped key) (firstDataplane (groupOf grouped key)) (op_InstanceID opts))
                  | None \<Rightarrow> Some (liveOwnedLockError existingKey [] (parseLockValue data ''dataplane'') (op_InstanceID opts)))))"

definition ensureNoLiveOwnedListenerLocksFromOtherProcess ::
    "Options \<Rightarrow> hostEnv \<Rightarrow> lockIO \<Rightarrow> dp_listenerKey list \<Rightarrow> plan \<Rightarrow> lockDir \<Rightarrow> go_error option \<times> lockDir" where
  "ensureNoLiveOwnedListenerLocksFromOtherProcess opts env io korder p dir =
     (case io_statErr io of
        Some err \<Rightarrow> (Some (PlainError err), dir)
      | None \<Rightarrow>
          if \<not> ld_exists dir then (None, dir)
          else
            (let (err, files) = withListenerDirectoryLock io (\<lambda>files.
                   case io_readDirErr io of
                     Some err \<Rightarrow> (Some (PlainError err), files)
                   | None \<Rightarrow> (liveOwnedLoop opts env io korder (groupPlanned (pl_planned p)) (readDir files) files, files))
                   (ld_files dir)
             in (err, dir\<lparr>ld_files := files\<rparr>)))"

end
