(* ===== verification/Lock_Exclusion.thy ===== *)
theory Lock_Exclusion
  imports Dataplane_Locks
begin

text \<open>
  What the listener locks promise: the data of a lock reads back as what was written, no operation takes away a lock that
  another live process holds, and a successful acquisition leaves no such lock on a listener of the plan.
\<close>

subsection \<open>Lock data\<close>

definition lock_lines :: "(string \<times> string) list \<Rightarrow> string" where
  "lock_lines kvs = concat (map (\<lambda>(k, v). k @ ''='' @ v @ [CHR 0x0A]) kvs)"

definition line_safe :: "string \<Rightarrow> bool" where
  "line_safe s \<longleftrightarrow> CHR 0x0A \<notin> set s"

definition key_safe :: "string \<Rightarrow> bool" where
  "key_safe s \<longleftrightarrow> line_safe s \<and> CHR ''='' \<notin> set s"

lemma prefix_line:
  assumes "CHR ''='' \<notin> set k" "CHR ''='' \<notin> set key"
  shows "HasPrefix (k @ ''='' @ v) (key @ ''='') \<longleftrightarrow> k = key"
proof
  assume "HasPrefix (k @ ''='' @ v) (key @ ''='')"
  then obtain t where eq: "k @ CHR ''='' # v = key @ CHR ''='' # t" by (auto simp: HasPrefix_iff)
  have cut: "takeWhile (\<lambda>c. c \<noteq> CHR ''='') (xs @ CHR ''='' # ys) = xs" if "CHR ''='' \<notin> set xs" for xs ys
    using that by (induction xs) auto
  show "k = key"
    using cut[OF assms(1), of v] cut[OF assms(2), of t] eq by simp
next
  assume "k = key"
  then show "HasPrefix (k @ ''='' @ v) (key @ ''='')" by (simp add: HasPrefix_iff)
qed

lemma split_lock_lines:
  "list_all (\<lambda>(k, v). key_safe k \<and> line_safe v) kvs \<Longrightarrow>
   Split (CHR 0x0A) (lock_lines kvs) = map (\<lambda>(k, v). k @ ''='' @ v) kvs @ [[]]"
proof (induction kvs)
  case (Cons kv kvs)
  obtain k v where kv: "kv = (k, v)" by (cases kv)
  have "CHR 0x0A \<notin> set (k @ ''='' @ v)"
    using Cons.prems by (auto simp: kv key_safe_def line_safe_def)
  then have "Split (CHR 0x0A) ((k @ ''='' @ v) @ CHR 0x0A # lock_lines kvs) = (k @ ''='' @ v) # Split (CHR 0x0A) (lock_lines kvs)"
    by (rule Split_append)
  then show ?case using Cons by (simp add: kv lock_lines_def)
qed (simp add: lock_lines_def)

lemma parse_lock_lines:
  assumes "list_all (\<lambda>(k, v). key_safe k \<and> line_safe v) kvs" "key_safe key"
  shows "parseLockValue (lock_lines kvs) key = (case map_of kvs key of None \<Rightarrow> [] | Some v \<Rightarrow> TrimSpace v)"
proof -
  have "filter (\<lambda>line. HasPrefix line (key @ ''='')) (map (\<lambda>(k, v). k @ ''='' @ v) kvs @ [[]]) =
      map (\<lambda>(k, v). k @ ''='' @ v) (filter (\<lambda>kv. fst kv = key) kvs)"
    using assms
  proof (induction kvs)
    case Nil
    then show ?case by (simp add: HasPrefix_def)
  next
    case (Cons kv kvs)
    then show ?case using prefix_line[of "fst kv" key "snd kv"] by (cases kv) (simp add: key_safe_def)
  qed
  moreover have "map_of kvs key = (case filter (\<lambda>kv. fst kv = key) kvs of [] \<Rightarrow> None | kv # _ \<Rightarrow> Some (snd kv))"
    by (induction kvs) auto
  moreover have "TrimPrefix (key @ ''='' @ v) (key @ ''='') = v" for v
    using HasPrefix_append[of "key @ ''=''" v] by (simp add: TrimPrefix_def)
  moreover have "fst kv = key" if "filter (\<lambda>kv. fst kv = key) kvs = kv # more" for kv more
    using that by (metis (mono_tags, lifting) filter_eq_ConsD)
  ultimately show ?thesis
    unfolding parseLockValue_def Let_def split_lock_lines[OF assms(1)]
    by (cases "filter (\<lambda>kv. fst kv = key) kvs") (auto split: prod.splits)
qed

definition lock_fields :: "Options \<Rightarrow> hostEnv \<Rightarrow> dp_listenerKey \<Rightarrow> string \<Rightarrow> (string \<times> string) list" where
  "lock_fields opts env key dataplane =
     [(''instance_id'', op_InstanceID opts), (''pid'', Itoa (he_pid env)), (''process_start_time'', currentProcessStartTime env),
      (''service'', op_ServiceName opts), (''dataplane'', dataplane), (''listen_protocol'', dk_protocol key),
      (''listen_ip'', dk_listenIP key), (''listen_port'', Itoa (dk_port key))]"

lemma lockContent_lines: "lockContent opts env key dataplane = lock_lines (lock_fields opts env key dataplane)"
  by (simp add: lockContent_def lock_lines_def lock_fields_def)

text \<open>What an instance writes into a lock fits on its line, and the names are free of surrounding space.\<close>

definition writable :: "Options \<Rightarrow> hostEnv \<Rightarrow> bool" where
  "writable opts env \<longleftrightarrow> line_safe (op_InstanceID opts) \<and> TrimSpace (op_InstanceID opts) = op_InstanceID opts \<and>
     line_safe (op_ServiceName opts) \<and> line_safe (currentProcessStartTime env)"

definition key_ok :: "dp_listenerKey \<Rightarrow> bool" where
  "key_ok key \<longleftrightarrow> line_safe (dk_protocol key) \<and> line_safe (dk_listenIP key) \<and> dk_protocol key \<noteq> [] \<and> dk_listenIP key \<noteq> [] \<and>
     TrimSpace (dk_protocol key) = dk_protocol key \<and> TrimSpace (dk_listenIP key) = dk_listenIP key \<and> i64_ok (dk_port key)"

lemma Itoa_safe: "line_safe (Itoa i)" "TrimSpace (Itoa i) = Itoa i"
  using Itoa_graphic[of i] trimmed_graphic[of "Itoa i"] by (auto simp: line_safe_def list_all_iff graphic_def)

lemma lock_fields_safe:
  assumes "writable opts env" "line_safe (dk_protocol key)" "line_safe (dk_listenIP key)" "line_safe dataplane"
  shows "list_all (\<lambda>(k, v). key_safe k \<and> line_safe v) (lock_fields opts env key dataplane)"
  using assms by (simp add: lock_fields_def writable_def key_safe_def Itoa_safe) (simp add: line_safe_def)

lemma parse_lockContent:
  assumes "writable opts env" "line_safe (dk_protocol key)" "line_safe (dk_listenIP key)" "line_safe dataplane"
  shows "parseLockValue (lockContent opts env key dataplane) ''instance_id'' = op_InstanceID opts"
    "parseLockValue (lockContent opts env key dataplane) ''pid'' = Itoa (he_pid env)"
    "parseLockValue (lockContent opts env key dataplane) ''process_start_time'' = TrimSpace (currentProcessStartTime env)"
    "parseLockValue (lockContent opts env key dataplane) ''dataplane'' = TrimSpace dataplane"
    "parseLockValue (lockContent opts env key dataplane) ''listen_protocol'' = TrimSpace (dk_protocol key)"
    "parseLockValue (lockContent opts env key dataplane) ''listen_ip'' = TrimSpace (dk_listenIP key)"
    "parseLockValue (lockContent opts env key dataplane) ''listen_port'' = Itoa (dk_port key)"
proof -
  have keys: "key_safe ''instance_id''" "key_safe ''pid''" "key_safe ''process_start_time''" "key_safe ''dataplane''"
      "key_safe ''listen_protocol''" "key_safe ''listen_ip''" "key_safe ''listen_port''"
    by (simp_all add: key_safe_def line_safe_def)
  note parse = parse_lock_lines[OF lock_fields_safe[OF assms]]
  show "parseLockValue (lockContent opts env key dataplane) ''instance_id'' = op_InstanceID opts"
    "parseLockValue (lockContent opts env key dataplane) ''pid'' = Itoa (he_pid env)"
    "parseLockValue (lockContent opts env key dataplane) ''process_start_time'' = TrimSpace (currentProcessStartTime env)"
    "parseLockValue (lockContent opts env key dataplane) ''dataplane'' = TrimSpace dataplane"
    "parseLockValue (lockContent opts env key dataplane) ''listen_protocol'' = TrimSpace (dk_protocol key)"
    "parseLockValue (lockContent opts env key dataplane) ''listen_ip'' = TrimSpace (dk_listenIP key)"
    "parseLockValue (lockContent opts env key dataplane) ''listen_port'' = Itoa (dk_port key)"
    unfolding lockContent_lines parse[OF keys(1)] parse[OF keys(2)] parse[OF keys(3)] parse[OF keys(4)]
      parse[OF keys(5)] parse[OF keys(6)] parse[OF keys(7)]
    using assms(1) by (simp_all add: lock_fields_def writable_def Itoa_safe)
qed

lemma Itoa_nonempty: "Itoa i \<noteq> []"
  by (simp add: Itoa_def digits.simps[of "nat i"])

lemma lock_key_read:
  assumes "writable opts env" "key_ok key" "line_safe dataplane"
  shows "listenerKeyFromLockData (lockContent opts env key dataplane) = Some key"
  using assms parse_lockContent[OF assms(1) _ _ assms(3), of key] 
  by (cases key) (simp add: listenerKeyFromLockData_def key_ok_def Itoa_safe Atoi_Itoa Itoa_nonempty Let_def)

subsection \<open>Locks of other live processes\<close>

definition heldByOther :: "Options \<Rightarrow> hostEnv \<Rightarrow> string \<Rightarrow> bool" where
  "heldByOther opts env data \<longleftrightarrow>
     parseLockValue data ''instance_id'' \<noteq> [] \<and>
     processMatchesLock env (parseLockValue data ''pid'') (parseLockValue data ''process_start_time'') \<and>
     \<not> (parseLockValue data ''instance_id'' = op_InstanceID opts \<and> TrimSpace (parseLockValue data ''pid'') = Itoa (he_pid env))"

definition keeps_held :: "Options \<Rightarrow> hostEnv \<Rightarrow> lockFiles \<Rightarrow> lockFiles \<Rightarrow> bool" where
  "keeps_held opts env files files' \<longleftrightarrow>
     (\<forall>name data. map_of files name = Some data \<and> heldByOther opts env data \<longrightarrow> map_of files' name = Some data)"

lemma keeps_held_refl [simp]: "keeps_held opts env files files"
  by (simp add: keeps_held_def)

lemma keeps_held_trans: "keeps_held opts env a b \<Longrightarrow> keeps_held opts env b c \<Longrightarrow> keeps_held opts env a c"
  unfolding keeps_held_def by blast

lemma map_of_removeLock:
  "map_of (removeLock io name files) n = (if n = name \<and> io_removable io name then None else map_of files n)"
  by (induction files) (auto simp: removeLock_def)

lemma keeps_remove:
  "(\<And>data. map_of files name = Some data \<Longrightarrow> \<not> heldByOther opts env data) \<Longrightarrow> keeps_held opts env files (removeLock io name files)"
  by (auto simp: keeps_held_def map_of_removeLock)

lemma keeps_new: "map_of files name = None \<Longrightarrow> keeps_held opts env files ((name, c) # files)"
  by (auto simp: keeps_held_def)

lemma readLock_data: "readLock io name files = Some data \<Longrightarrow> map_of files name = Some data"
  by (simp add: readLock_def split: if_splits)

lemma release_keeps: "keeps_held opts env files (releaseListenerLockPath opts env io name files)"
proof (cases "readLock io name files")
  case (Some data)
  then show ?thesis
    using readLock_data[OF Some]
    by (auto simp: releaseListenerLockPath_def heldByOther_def lockOwnedByCurrentProcessOrStale_def Let_def intro!: keeps_remove)
qed (simp add: releaseListenerLockPath_def)

lemma fold_keeps:
  "(\<And>x files. keeps_held opts env files (f x files)) \<Longrightarrow> keeps_held opts env files (fold f xs files)"
  by (induction xs arbitrary: files) (auto intro: keeps_held_trans)

lemma releases_keep: "keeps_held opts env files (releaseListenerLockPaths opts env io names files)"
  unfolding releaseListenerLockPaths_def by (rule fold_keeps) (rule release_keeps)

lemma write_keeps: "keeps_held opts env files (snd (writeLockAttempts n opts env io name key entries files))"
proof (induction n arbitrary: files)
  case (Suc n)
  show ?case
  proof (cases "map_of files name")
    case None
    have "keeps_held opts env files (removeLock io name ((name, []) # files))"
      using None by (auto simp: keeps_held_def map_of_removeLock)
    then show ?thesis using None by (auto simp: keeps_new split: option.split)
  next
    case Some: (Some old)
    show ?thesis
    proof (cases "readLock io name files")
      case None
      then show ?thesis using Some Suc by simp
    next
      case read: (Some data)
      have "keeps_held opts env files (snd (writeLockAttempts n opts env io name key entries (removeLock io name files)))"
        if "\<not> heldByOther opts env data"
        by (rule keeps_held_trans[OF keeps_remove Suc]) (use that readLock_data[OF read] in auto)
      then show ?thesis
        using Some read by (auto simp: heldByOther_def Let_def)
    qed
  qed
qed simp

lemma overlap_keeps: "keeps_held opts env files (snd (overlapLoop opts env io korder grouped names files))"
proof (induction names arbitrary: files)
  case (Cons name names)
  show ?case
  proof (cases "readLock io name files")
    case None
    then show ?thesis using Cons by simp
  next
    case (Some data)
    have "keeps_held opts env files (snd (overlapLoop opts env io korder grouped names (removeLock io name files)))"
      if "\<not> heldByOther opts env data"
      by (rule keeps_held_trans[OF keeps_remove Cons]) (use that readLock_data[OF Some] in auto)
    then show ?thesis
      using Some Cons
      by (auto simp: heldByOther_def lockOwnedByCurrentProcessOrStale_def Let_def split: option.split)
  qed
qed simp

lemma acquire_keeps: "keeps_held opts env files (snd (acquireLoop opts env io grouped keys acquired files))"
proof (induction keys arbitrary: acquired files)
  case (Cons key keys)
  obtain err files' where w: "writeListenerLock opts env io (lockName key) key (groupOf grouped key) files = (err, files')"
    by (cases "writeListenerLock opts env io (lockName key) key (groupOf grouped key) files") auto
  have "keeps_held opts env files files'"
    using write_keeps[of opts env files 2 io "lockName key" key "groupOf grouped key"] w by (simp add: writeListenerLock_def)
  then show ?case
    using Cons releases_keep w by (cases err) (auto intro: keeps_held_trans)
qed simp

subsection \<open>Exclusion\<close>

text \<open>A lock file that the agent can read and that speaks for a listener meeting one of the keys.\<close>

definition concerns :: "lockIO \<Rightarrow> dp_listenerKey list \<Rightarrow> string \<Rightarrow> string \<Rightarrow> bool" where
  "concerns io keys name data \<longleftrightarrow> io_readable io name \<and> HasSuffix name ''.lock'' \<and>
     (\<exists>k key. listenerKeyFromLockData data = Some k \<and> key \<in> set keys \<and> dp_listenerKeysOverlap k key)"

definition only_own :: "Options \<Rightarrow> hostEnv \<Rightarrow> lockIO \<Rightarrow> dp_listenerKey list \<Rightarrow> lockFiles \<Rightarrow> bool" where
  "only_own opts env io keys files \<longleftrightarrow>
     (\<forall>name data. map_of files name = Some data \<and> concerns io keys name data \<longrightarrow> \<not> heldByOther opts env data)"

lemma overlap_shrinks:
  "map_of (snd (overlapLoop opts env io korder grouped names files)) n = Some data \<Longrightarrow> map_of files n = Some data"
proof (induction names arbitrary: files)
  case (Cons name names)
  have shrink: "map_of (removeLock io name files) n = Some data \<Longrightarrow> map_of files n = Some data"
    by (simp add: map_of_removeLock split: if_splits)
  show ?case
  proof (cases "readLock io name files")
    case None
    then show ?thesis using Cons by (simp split: if_splits)
  next
    case (Some old)
    then show ?thesis
      using Cons.prems Cons.IH[of files] Cons.IH[of "removeLock io name files"] shrink
      by (auto simp: Let_def split: if_splits option.splits)
  qed
qed simp

lemma overlap_clears:
  assumes "overlapLoop opts env io korder grouped names files = (None, files')" "name \<in> set names"
    and "map_of files' name = Some data" "concerns io korder name data"
  shows "\<not> heldByOther opts env data"
  using assms(1,2)
proof (induction names arbitrary: files)
  case (Cons n names)
  show ?case
  proof (cases "name \<in> set names")
    case True
    then show ?thesis
      using Cons by (auto simp: Let_def split: if_splits option.splits)
  next
    case False
    with Cons.prems have n: "n = name" by simp
    have "map_of files name = Some data"
      using overlap_shrinks[of opts env io korder grouped "n # names" files name data] Cons.prems(1) assms(3) by simp
    then have read: "readLock io name files = Some data"
      using assms(4) by (simp add: readLock_def concerns_def)
    obtain k where k: "listenerKeyFromLockData data = Some k" "\<exists>key \<in> set korder. dp_listenerKeysOverlap k key"
      using assms(4) by (auto simp: concerns_def)
    then obtain key where "find (dp_listenerKeysOverlap k) korder = Some key"
      using find_None_iff[of "dp_listenerKeysOverlap k" korder] by (cases "find (dp_listenerKeysOverlap k) korder") auto
    with k(1) read Cons.prems(1) assms(4) n show ?thesis
      by (auto simp: concerns_def heldByOther_def lockOwnedByCurrentProcessOrStale_def Let_def split: if_splits)
  qed
qed simp

text \<open>The files after acquiring are those from before, less some, and the agent's own.\<close>

definition ownContent :: "Options \<Rightarrow> hostEnv \<Rightarrow> (dp_listenerKey \<rightharpoonup> plannedRule list) \<Rightarrow> dp_listenerKey \<Rightarrow> string" where
  "ownContent opts env grouped key = lockContent opts env key (firstDataplane (groupOf grouped key))"

lemma write_success:
  assumes "writeLockAttempts n opts env io name key entries files = (None, files')"
  shows "map_of files' name = Some (lockContent opts env key (firstDataplane entries)) \<and>
    (\<forall>m. m \<noteq> name \<longrightarrow> map_of files' m = map_of files m)"
  using assms
proof (induction n arbitrary: files)
  case (Suc n)
  show ?case
  proof (cases "map_of files name")
    case None
    then show ?thesis using Suc.prems by (auto split: option.splits)
  next
    case Some: (Some old)
    have "map_of (removeLock io name files) m = map_of files m" if "m \<noteq> name" for m
      using that by (simp add: map_of_removeLock)
    then show ?thesis
      using Some Suc.prems Suc.IH[of files] Suc.IH[of "removeLock io name files"]
      by (auto simp: Let_def split: option.splits if_splits)
  qed
qed simp

lemma acquire_success:
  assumes "acquireLoop opts env io grouped keys acquired files = (None, files')"
  shows "(\<forall>key \<in> set keys. \<exists>key' \<in> set keys. lockName key' = lockName key \<and>
            map_of files' (lockName key) = Some (ownContent opts env grouped key')) \<and>
    (\<forall>name. name \<notin> lockName ` set keys \<longrightarrow> map_of files' name = map_of files name)"
  using assms
proof (induction keys arbitrary: acquired files)
  case (Cons key keys)
  obtain files1 where w: "writeListenerLock opts env io (lockName key) key (groupOf grouped key) files = (None, files1)"
      and rest: "acquireLoop opts env io grouped keys (acquired @ [lockName key]) files1 = (None, files')"
    using Cons.prems by (auto split: prod.splits option.splits)
  note own = write_success[OF w[unfolded writeListenerLock_def], folded ownContent_def]
  note IH = Cons.IH[OF rest]
  have "\<exists>key' \<in> set (key # keys). lockName key' = lockName key \<and> map_of files' (lockName key) = Some (ownContent opts env grouped key')"
  proof (cases "lockName key \<in> lockName ` set keys")
    case True
    then obtain k where "k \<in> set keys" "lockName k = lockName key" by auto
    with IH show ?thesis by (metis list.set_intros(2))
  next
    case False
    with IH own show ?thesis by simp
  qed
  with IH own show ?case by auto
qed simp

lemma own_not_held:
  assumes "writable opts env" "key_ok key" "line_safe (firstDataplane (groupOf grouped key))"
  shows "\<not> heldByOther opts env (ownContent opts env grouped key)"
  using parse_lockContent[OF assms(1) _ _ assms(3), of key] assms(2)
  by (simp add: heldByOther_def ownContent_def key_ok_def Itoa_safe)

lemma locks_only_own:
  assumes ov: "overlapLoop opts env io keys grouped (readDir files) files = (None, files1)"
    and aq: "acquireLoop opts env io grouped keys' [] files1 = (None, files2)" and perm: "set keys' = set keys"
    and ok: "writable opts env" "\<forall>key \<in> set keys. key_ok key \<and> line_safe (firstDataplane (groupOf grouped key))"
  shows "only_own opts env io keys files2"
  unfolding only_own_def
proof (intro allI impI)
  fix name data assume here: "map_of files2 name = Some data \<and> concerns io keys name data"
  show "\<not> heldByOther opts env data"
  proof (cases "name \<in> lockName ` set keys'")
    case True
    then obtain key' where "key' \<in> set keys" "data = ownContent opts env grouped key'"
      using acquire_success[OF aq] here perm by auto
    then show ?thesis using own_not_held[OF ok(1)] ok(2) by simp
  next
    case False
    with acquire_success[OF aq] here have old: "map_of files1 name = Some data" by simp
    then have "map_of files name = Some data"
      using overlap_shrinks[of opts env io keys grouped "readDir files" files name data] ov by simp
    then have "name \<in> set (readDir files)"
      by (force simp: readDir_def dest: map_of_SomeD)
    from overlap_clears[OF ov this old] here show ?thesis by blast
  qed
qed

text \<open>The engines of a plan have one-line names.\<close>

lemma plan_engines:
  assumes "manager_plan mode s = Inr p" "e \<in> set (pl_planned p)"
  shows "pr_dataplane e \<in> {ModeNative, ModeHAProxy, ModeNFTables}"
proof -
  have "backendSupportsRule (pr_dataplane e) (pr_rule e)"
    using assms by (auto simp: manager_plan_ok_iff list_all_iff assigned_def)
  then show ?thesis by (auto simp: backendSupportsRule_def split: if_splits)
qed

lemma plan_engine_line_safe:
  assumes "manager_plan mode s = Inr p" "key \<in> set (groupedKeys (pl_planned p))"
  shows "line_safe (firstDataplane (groupOf (groupPlanned (pl_planned p)) key))"
proof -
  let ?group = "groupOf (groupPlanned (pl_planned p)) key"
  have "?group \<noteq> []"
    using assms(2) by (auto simp: groupOf_planned groupedKeys_facts filter_empty_conv)
  then have "?group ! 0 \<in> set ?group" by simp
  then have "?group ! 0 \<in> set (pl_planned p)" by (simp add: groupOf_planned)
  from plan_engines[OF assms(1) this] show ?thesis
    by (auto simp: firstDataplane_def line_safe_def)
qed

lemma ensure_cases:
  assumes "ensureExternalListenerLocks opts env io korder p dir = (err, dir')"
  obtains "err \<noteq> None \<or> korder = []" "keeps_held opts env (ld_files dir) (ld_files dir')"
  | files files1 where "err = None" "keeps_held opts env (ld_files dir) (ld_files dir')"
      "overlapLoop opts env io korder (groupPlanned (pl_planned p)) (readDir files) files = (None, files1)"
      "acquireLoop opts env io (groupPlanned (pl_planned p)) (sort_key dp_listenerKeyString korder) [] files1 = (None, ld_files dir')"
proof (cases "korder = [] \<or> io_mkdirErr io \<noteq> None \<or> io_openErr io dirLockName \<noteq> None")
  case True
  then have "(err \<noteq> None \<or> korder = []) \<and> ld_files dir' = ld_files dir"
    using assms by (auto simp: ensureExternalListenerLocks_def withListenerDirectoryLock_def Let_def split: if_splits option.splits)
  then show thesis using that(1) by simp
next
  case False
  define files where "files = (if map_of (ld_files dir) dirLockName = None then (dirLockName, []) # ld_files dir else ld_files dir)"
  have start: "keeps_held opts env (ld_files dir) files" by (simp add: files_def keeps_new)
  obtain e1 files1 where ov: "overlapLoop opts env io korder (groupPlanned (pl_planned p)) (readDir files) files = (e1, files1)"
    by (cases "overlapLoop opts env io korder (groupPlanned (pl_planned p)) (readDir files) files") auto
  obtain e2 files2 where aq: "acquireLoop opts env io (groupPlanned (pl_planned p)) (sort_key dp_listenerKeyString korder) [] files1 = (e2, files2)"
    by (cases "acquireLoop opts env io (groupPlanned (pl_planned p)) (sort_key dp_listenerKeyString korder) [] files1") auto
  have k1: "keeps_held opts env (ld_files dir) files1"
    using keeps_held_trans[OF start overlap_keeps[of opts env files io korder "groupPlanned (pl_planned p)" "readDir files"]] ov by simp
  have k2: "keeps_held opts env (ld_files dir) files2"
    using keeps_held_trans[OF k1 acquire_keeps[of opts env files1 io "groupPlanned (pl_planned p)" "sort_key dp_listenerKeyString korder" "[]"]] aq by simp
  define out where "out =
      (case io_lockErr io of Some e \<Rightarrow> (Some (PlainError e), files)
       | None \<Rightarrow> (case io_readDirErr io of Some e \<Rightarrow> (Some (PlainError e), files)
           | None \<Rightarrow> (case e1 of Some e \<Rightarrow> (Some e, files1) | None \<Rightarrow> (e2, files2))))"
  have "ensureExternalListenerLocks opts env io korder p dir = (fst out, \<lparr>ld_exists = True, ld_files = snd out\<rparr>)"
    using False ov aq unfolding out_def
    by (cases "io_lockErr io"; cases "io_readDirErr io"; cases e1)
      (simp_all add: ensureExternalListenerLocks_def withListenerDirectoryLock_def files_def[symmetric] Let_def)
  with assms have res: "err = fst out" "ld_files dir' = snd out" by auto
  have keeps: "keeps_held opts env (ld_files dir) (snd out)"
    by (simp add: out_def start k1 k2 split: option.split)
  show thesis
  proof (cases "fst out = None")
    case True
    then have "e1 = None" "e2 = None" "snd out = files2"
      by (simp_all add: out_def split: option.splits)
    then show thesis using that(2)[of files files1] res keeps ov aq True by simp
  next
    case False
    then show thesis using that(1) res keeps by simp
  qed
qed

subsection \<open>Properties\<close>

text \<open>
  A lock file reads back as the listener, the instance and the process that wrote it, whatever one-line values it
  was written with.
\<close>

theorem lock_roundtrip:
  assumes "writable opts env" "key_ok key" "line_safe dataplane"
  shows "listenerKeyFromLockData (lockContent opts env key dataplane) = Some key \<and>
    parseLockValue (lockContent opts env key dataplane) ''instance_id'' = op_InstanceID opts \<and>
    parseLockValue (lockContent opts env key dataplane) ''pid'' = Itoa (he_pid env) \<and>
    lockOwnedByCurrentProcessOrStale env (lockContent opts env key dataplane)"
  using lock_key_read[OF assms] parse_lockContent[OF assms(1) _ _ assms(3), of key] assms(2)
  by (simp add: key_ok_def lockOwnedByCurrentProcessOrStale_def Itoa_safe)

definition example_opts :: Options where
  "example_opts = \<lparr>op_Mode = ModeNative, op_ConflictPolicy = ''FAIL_FAST'', op_InstanceID = ''node-a'', op_ServiceName = ''prism-node-agent'',
     op_InstallDir = [], op_StateDir = [], op_RunDir = ''/run/prism'', op_HAProxyPath = [], op_NFTPath = [], op_ExternalBackends = False\<rparr>"

definition example_env :: hostEnv where
  "example_env = \<lparr>he_pid = 42, he_alive = (\<lambda>pid. pid = 42), he_stat = (\<lambda>_. None), he_nft = (\<lambda>_. (True, ''no such file'')), he_sha256hex = (\<lambda>s. s)\<rparr>"

definition example_io :: lockIO where
  "example_io = \<lparr>io_mkdirErr = None, io_statErr = None, io_lockErr = None, io_readDirErr = None, io_readable = (\<lambda>_. True),
     io_removable = (\<lambda>_. True), io_openErr = (\<lambda>_. None), io_writeErr = (\<lambda>_. None), io_closeErr = (\<lambda>_. None)\<rparr>"

definition example_lock_key :: dp_listenerKey where
  "example_lock_key = \<lparr>dk_protocol = ProtocolTCP, dk_listenIP = ''0.0.0.0'', dk_port = 443\<rparr>"

lemma example_writable: "writable example_opts example_env" "key_ok example_lock_key" "line_safe ''NATIVE''"
  by code_simp+

lemma lock_roundtrip_witness:
  "listenerKeyFromLockData (lockContent example_opts example_env example_lock_key ''NATIVE'') = Some example_lock_key"
  using lock_roundtrip[OF example_writable] by blast

text \<open>
  C25: Acquiring the locks of a plan never takes away a lock that another live process holds, whether it succeeds or
  not. When it succeeds, no lock that the agent can read and that meets a listener of the plan is held by another live
  process, and every listener of the plan has its lock file, written by this process.
\<close>

theorem listener_locks_exclusive:
  assumes "manager_plan mode s = Inr p" "set korder = set (groupedKeys (pl_planned p))"
    and "writable opts env" "\<forall>key \<in> set korder. key_ok key"
    and "ensureExternalListenerLocks opts env io korder p dir = (err, dir')"
  shows "keeps_held opts env (ld_files dir) (ld_files dir') \<and>
    (err = None \<longrightarrow>
      only_own opts env io korder (ld_files dir') \<and>
      (\<forall>key \<in> set korder. \<exists>key' \<in> set korder. lockName key' = lockName key \<and>
         map_of (ld_files dir') (lockName key) = Some (ownContent opts env (groupPlanned (pl_planned p)) key')))"
  using assms(5)
proof (cases rule: ensure_cases)
  case 1
  then show ?thesis by (auto simp: only_own_def concerns_def)
next
  case (2 files files1)
  have ok: "\<forall>key \<in> set korder. key_ok key \<and> line_safe (firstDataplane (groupOf (groupPlanned (pl_planned p)) key))"
    using assms(2,4) plan_engine_line_safe[OF assms(1)] by simp
  from locks_only_own[OF 2(3,4) _ assms(3) ok] have "only_own opts env io korder (ld_files dir')" by simp
  with 2(2) acquire_success[OF 2(4)] show ?thesis by simp
qed

text \<open>A stale lock of another instance on an overlapping address is replaced.\<close>

definition example_planned :: plannedRule where
  "example_planned = \<lparr>pr_rule = zero_rule\<lparr>rc_ID := ''r1'', rc_Protocol := ProtocolTCP, rc_Port := 443, rc_MatchType := MatchTypeAnyInbound\<rparr>,
     pr_dataplane = ModeNative\<rparr>"

definition example_plan :: plan where
  "example_plan = \<lparr>pl_rules = rules_of [example_planned], pl_planned = [example_planned]\<rparr>"

definition example_lock_dir :: lockDir where
  "example_lock_dir = \<lparr>ld_exists = True, ld_files = [(''TCP_10_0_0_1_443.lock'',
     lockContent (example_opts\<lparr>op_InstanceID := ''node-b''\<rparr>) (example_env\<lparr>he_pid := 7\<rparr>)
       (example_lock_key\<lparr>dk_listenIP := ''10.0.0.1''\<rparr>) ''NATIVE'')]\<rparr>"

lemma example_plan_made: "manager_plan ModeNative (zero_snapshot\<lparr>cs_Rules := [pr_rule example_planned]\<rparr>) = Inr example_plan"
proof -
  have "assigned (effectiveMode ModeNative (zero_snapshot\<lparr>cs_Rules := [pr_rule example_planned]\<rparr>)) example_planned"
    by code_simp
  then show ?thesis by (simp add: manager_plan_ok_iff example_plan_def)
qed

lemma listener_locks_exclusive_witness:
  "only_own example_opts example_env example_io [example_lock_key]
     (ld_files (snd (ensureExternalListenerLocks example_opts example_env example_io [example_lock_key] example_plan example_lock_dir))) \<and>
   map fst (ld_files (snd (ensureExternalListenerLocks example_opts example_env example_io [example_lock_key] example_plan example_lock_dir))) =
     [''TCP_0_0_0_0_443.lock'', ''.prism-listeners.lock'']"
proof -
  let ?r = "ensureExternalListenerLocks example_opts example_env example_io [example_lock_key] example_plan example_lock_dir"
  have keys: "set [example_lock_key] = set (groupedKeys (pl_planned example_plan))"
    by code_simp
  have run: "fst ?r = None" "map fst (ld_files (snd ?r)) = [''TCP_0_0_0_0_443.lock'', ''.prism-listeners.lock'']"
    by code_simp+
  have "?r = (None, snd ?r)" using run(1) by (metis prod.collapse)
  from listener_locks_exclusive[OF example_plan_made keys example_writable(1) _ this] example_writable(2) run(2)
  show ?thesis by simp
qed

end
