(* ===== verification/Dataplane_Metrics.thy ===== *)
theory Dataplane_Metrics
  imports Traffic_Deltas
begin

text \<open>
  Traffic of the managed data planes: \<open>dataplane/metrics.go\<close> and the counter reading of \<open>haproxy.go\<close> and
  \<open>nftables.go\<close>. The counters are cumulative in HAProxy and in the kernel; a backend remembers the last ones it
  read and reports differences. What the other side sends (the rows of \<open>show stat\<close> up to the first one that cannot be
  read, the output of \<open>nft list table\<close>) is an argument; the order in which Go walks a map is one too.
\<close>

subsection \<open>metrics.go: counters\<close>

record managedTrafficSnapshot =
  ms_UploadBytes :: int
  ms_DownloadBytes :: int
  ms_TCPConnectionEvents :: int
  ms_UDPPackets :: int

definition zero_managed :: managedTrafficSnapshot where
  "zero_managed = \<lparr>ms_UploadBytes = 0, ms_DownloadBytes = 0, ms_TCPConnectionEvents = 0, ms_UDPPackets = 0\<rparr>"

type_synonym managedCounters = "string \<rightharpoonup> managedTrafficSnapshot"

definition managedAt :: "managedCounters \<Rightarrow> string \<Rightarrow> managedTrafficSnapshot" where
  "managedAt values ruleID = (case values ruleID of None \<Rightarrow> zero_managed | Some s \<Rightarrow> s)"

definition addManagedTrafficSnapshot :: "string \<Rightarrow> managedTrafficSnapshot \<Rightarrow> managedCounters \<Rightarrow> managedCounters" where
  "addManagedTrafficSnapshot ruleID snapshot values =
     (let current = managedAt values ruleID in
      values(ruleID \<mapsto> \<lparr>ms_UploadBytes = i64 (ms_UploadBytes current + ms_UploadBytes snapshot),
        ms_DownloadBytes = i64 (ms_DownloadBytes current + ms_DownloadBytes snapshot),
        ms_TCPConnectionEvents = i64 (ms_TCPConnectionEvents current + ms_TCPConnectionEvents snapshot),
        ms_UDPPackets = i64 (ms_UDPPackets current + ms_UDPPackets snapshot)\<rparr>))"

definition positiveManagedDelta :: "int \<Rightarrow> int \<Rightarrow> int" where
  "positiveManagedDelta current prev =
     (if current < 0 then 0
      else if current < prev then current
      else if current = prev then 0
      else i64 (current - prev))"

definition managedDelta :: "managedCounters \<Rightarrow> managedCounters \<Rightarrow> string \<Rightarrow> RuleTrafficDelta" where
  "managedDelta current prev ruleID =
     (let snapshot = managedAt current ruleID; previous = managedAt prev ruleID in
      \<lparr>rd_RuleID = ruleID,
       rd_UploadBytes = positiveManagedDelta (ms_UploadBytes snapshot) (ms_UploadBytes previous),
       rd_DownloadBytes = positiveManagedDelta (ms_DownloadBytes snapshot) (ms_DownloadBytes previous),
       rd_TCPConnections = positiveManagedDelta (ms_TCPConnectionEvents snapshot) (ms_TCPConnectionEvents previous),
       rd_UDPPackets = positiveManagedDelta (ms_UDPPackets snapshot) (ms_UDPPackets previous)\<rparr>)"

text \<open>\<open>order\<close> lists the rules of \<open>current\<close> in the order of the iteration.\<close>

definition managedTrafficDeltas :: "string list \<Rightarrow> managedCounters \<Rightarrow> managedCounters \<Rightarrow> RuleTrafficDelta list" where
  "managedTrafficDeltas order current prev =
     filter (\<lambda>delta. \<not> delta_empty delta) (map (managedDelta current prev) (filter (\<lambda>r. current r \<noteq> None) order))"

definition dp_mergeStep :: "RuleTrafficDelta \<Rightarrow> RuleTrafficDelta list \<Rightarrow> RuleTrafficDelta list" where
  "dp_mergeStep delta byRule = (if TrimSpace (rd_RuleID delta) = [] then byRule else addByRule delta byRule)"

definition mergeDataplaneTrafficDeltas :: "RuleTrafficDelta list \<Rightarrow> RuleTrafficDelta list" where
  "mergeDataplaneTrafficDeltas deltas = fold dp_mergeStep deltas []"

definition mergeMetricsPayloads :: "MetricsPayload list \<Rightarrow> MetricsPayload" where
  "mergeMetricsPayloads payloads =
     (case payloads of
        [] \<Rightarrow> zero_metrics
      | p # ps \<Rightarrow>
          (let result = fold (\<lambda>payload result. result\<lparr>
                 mp_TrafficDeltas := mp_TrafficDeltas result @ mp_TrafficDeltas payload,
                 mp_Targets := mp_Targets result @ mp_Targets payload\<rparr>) ps p
           in result\<lparr>mp_TrafficDeltas := mergeDataplaneTrafficDeltas (mp_TrafficDeltas result)\<rparr>))"

subsection \<open>metrics.go: reading numbers and columns\<close>

text \<open>\<open>strconv.ParseInt(value, 10, 64)\<close> with the error dropped: 0 for what is no number, the nearest bound for a
  number out of range.\<close>

definition parseInt64 :: "string \<Rightarrow> int" where
  "parseInt64 value =
     (let s = TrimSpace value;
          neg = (case s of [] \<Rightarrow> False | c # _ \<Rightarrow> c = CHR ''-'');
          ds = (case s of [] \<Rightarrow> [] | c # cs \<Rightarrow> if c = CHR ''-'' \<or> c = CHR ''+'' then cs else s)
      in if ds = [] then 0
         else case read_digits 0 ds of
                None \<Rightarrow> 0
              | Some n \<Rightarrow> if neg then max (- (2 ^ 63)) (- int n) else min (2 ^ 63 - 1) (int n))"

text \<open>A later column of the same name replaces an earlier one.\<close>

definition csvHeaderIndexes :: "string list \<Rightarrow> (string \<rightharpoonup> nat)" where
  "csvHeaderIndexes header = map_of (rev (zip (map TrimSpace header) [0..<length header]))"

definition csvValue :: "string list \<Rightarrow> (string \<rightharpoonup> nat) \<Rightarrow> string \<Rightarrow> string" where
  "csvValue row indexes name =
     (case indexes name of
        None \<Rightarrow> []
      | Some index \<Rightarrow> if index \<ge> length row then [] else TrimSpace (row ! index))"

subsection \<open>haproxy.go\<close>

record HAProxyMetrics =
  hm_last :: managedCounters
  hm_ruleIDs :: "(string \<rightharpoonup> string) option"

definition ruleIDForBackend :: "HAProxyMetrics \<Rightarrow> string \<Rightarrow> string" where
  "ruleIDForBackend backend backendName =
     (case hm_ruleIDs backend of
        None \<Rightarrow> TrimPrefix backendName ''be_''
      | Some ruleIDs \<Rightarrow> (case ruleIDs backendName of None \<Rightarrow> [] | Some i \<Rightarrow> i))"

definition haproxyRow :: "HAProxyMetrics \<Rightarrow> (string \<rightharpoonup> nat) \<Rightarrow> string list \<Rightarrow> managedCounters \<Rightarrow> managedCounters" where
  "haproxyRow backend indexes row result =
     (if csvValue row indexes ''svname'' \<noteq> ''BACKEND'' then result
      else
        (let backendName = csvValue row indexes ''pxname'' in
         if \<not> HasPrefix backendName ''be_'' then result
         else
           (let ruleID = ruleIDForBackend backend backendName in
            if ruleID = [] then result
            else addManagedTrafficSnapshot ruleID
              \<lparr>ms_UploadBytes = parseInt64 (csvValue row indexes ''bin''),
               ms_DownloadBytes = parseInt64 (csvValue row indexes ''bout''),
               ms_TCPConnectionEvents = parseInt64 (csvValue row indexes ''stot''), ms_UDPPackets = 0\<rparr> result)))"

text \<open>\<open>stat\<close>: nothing when the socket cannot be used or no header comes back, otherwise the header and the rows read.\<close>

definition haproxy_readTrafficCounters ::
    "(string list \<times> string list list) option \<Rightarrow> HAProxyMetrics \<Rightarrow> managedCounters option" where
  "haproxy_readTrafficCounters stat backend =
     (case stat of
        None \<Rightarrow> None
      | Some (header, rows) \<Rightarrow>
          (let header = (case header of [] \<Rightarrow> [] | h # hs \<Rightarrow> TrimPrefix h ''# '' # hs);
               indexes = csvHeaderIndexes header
           in Some (fold (haproxyRow backend indexes) rows Map.empty)))"

definition haproxy_AgentMetrics ::
    "(string list \<times> string list list) option \<Rightarrow> string list \<Rightarrow> HAProxyMetrics \<Rightarrow> MetricsPayload \<times> HAProxyMetrics" where
  "haproxy_AgentMetrics stat order backend =
     (case haproxy_readTrafficCounters stat backend of
        None \<Rightarrow> (zero_metrics, backend)
      | Some current \<Rightarrow>
          (zero_metrics\<lparr>mp_TrafficDeltas := managedTrafficDeltas order current (hm_last backend)\<rparr>,
           backend\<lparr>hm_last := current\<rparr>))"

subsection \<open>nftables.go\<close>

text \<open>\<open>nftCounterPattern\<close>. The groups of digits are as long as possible; the rule id is the one of the last comment
  of the line that has one; of several counters the first that can be completed is taken.\<close>

definition nft_comment :: string where "nft_comment = ''comment \"prism rule=''"

fun lastComment :: "string \<Rightarrow> string option" where
  "lastComment [] = None"
| "lastComment (c # cs) =
     (case lastComment cs of
        Some ruleID \<Rightarrow> Some ruleID
      | None \<Rightarrow>
          if HasPrefix (c # cs) nft_comment then
            (let ruleID = takeWhile (\<lambda>x. x \<noteq> CHR 0x22 \<and> x \<noteq> CHR '' '') (drop (length nft_comment) (c # cs)) in
             if ruleID = [] then None else Some ruleID)
          else None)"

definition counterHere :: "string \<Rightarrow> (string \<times> string \<times> string) option" where
  "counterHere s =
     (if \<not> HasPrefix s ''counter packets '' then None
      else
        (let s = drop 16 s; packets = takeWhile is_digit s; s = drop (length packets) s in
         if packets = [] \<or> \<not> HasPrefix s '' bytes '' then None
         else
           (let s = drop 7 s; bytes = takeWhile is_digit s; s = drop (length bytes) s in
            if bytes = [] then None
            else map_option (\<lambda>ruleID. (packets, bytes, ruleID)) (lastComment s))))"

fun nftCounterPattern :: "string \<Rightarrow> (string \<times> string \<times> string) option" where
  "nftCounterPattern [] = None"
| "nftCounterPattern (c # cs) = (case counterHere (c # cs) of Some m \<Rightarrow> Some m | None \<Rightarrow> nftCounterPattern cs)"

definition nftLine :: "string \<Rightarrow> managedCounters \<Rightarrow> managedCounters" where
  "nftLine line result =
     (if \<not> Contains line '' dnat '' then result
      else case nftCounterPattern line of
        None \<Rightarrow> result
      | Some (packets, bytes, ruleID) \<Rightarrow>
          (let snapshot = managedAt result ruleID;
               snapshot = snapshot\<lparr>ms_UploadBytes := i64 (ms_UploadBytes snapshot + parseInt64 bytes)\<rparr>;
               snapshot = (if Contains line '' udp dport ''
                 then snapshot\<lparr>ms_UDPPackets := i64 (ms_UDPPackets snapshot + parseInt64 packets)\<rparr> else snapshot)
           in result(ruleID \<mapsto> snapshot)))"

definition nft_readTrafficCounters :: "string option \<Rightarrow> managedCounters option" where
  "nft_readTrafficCounters listing =
     map_option (\<lambda>output. fold nftLine (Split (CHR 0x0A) output) Map.empty) listing"

definition nft_AgentMetrics :: "string option \<Rightarrow> string list \<Rightarrow> managedCounters \<Rightarrow> MetricsPayload \<times> managedCounters" where
  "nft_AgentMetrics listing order last' =
     (case nft_readTrafficCounters listing of
        None \<Rightarrow> (zero_metrics, last')
      | Some current \<Rightarrow> (zero_metrics\<lparr>mp_TrafficDeltas := managedTrafficDeltas order current last'\<rparr>, current))"

subsection \<open>Merging the reports of the three engines\<close>

lemma dp_mergeStep_filter:
  "fold dp_mergeStep ds acc = fold mergeStep (filter (\<lambda>d. TrimSpace (rd_RuleID d) \<noteq> []) ds) acc"
  by (induction ds arbitrary: acc) (auto simp: dp_mergeStep_def mergeStep_def)

lemma rule_sum_keep:
  "P r \<Longrightarrow> rule_sum c r (filter (\<lambda>d. P (rd_RuleID d)) ds) = rule_sum c r ds"
  by (induction ds) auto

interpretation dataplane_merge: delta_sum mergeDataplaneTrafficDeltas "\<lambda>d. d" "\<lambda>r. TrimSpace r = []"
proof
  show "rule_sum c r (mergeDataplaneTrafficDeltas ds) = rule_sum c r (map (\<lambda>d. d) ds)"
    if r: "\<not> TrimSpace r = []" and "clean_nonneg (\<lambda>d. d) c ds" "rule_sum c r (map (\<lambda>d. d) ds) < 2 ^ 63" for r c ds
  proof -
    let ?kept = "filter (\<lambda>d. TrimSpace (rd_RuleID d) \<noteq> []) ds"
    have kept: "rule_sum c r ?kept = rule_sum c r ds"
      using rule_sum_keep[of "\<lambda>i. TrimSpace i \<noteq> []" r c ds] r by simp
    have "r \<noteq> []" using r by auto
    then show ?thesis
      using that mergeStep_sum[of ?kept c r "[]"] kept
      by (simp add: mergeDataplaneTrafficDeltas_def dp_mergeStep_filter clean_nonneg_def)
  qed
  show "distinct (map rd_RuleID (mergeDataplaneTrafficDeltas ds))" for ds
    unfolding mergeDataplaneTrafficDeltas_def dp_mergeStep_filter by (rule mergeStep_distinct) simp
qed

lemma merged_payload:
  "mp_TrafficDeltas (mergeMetricsPayloads [a, b, c]) =
     mergeDataplaneTrafficDeltas (mp_TrafficDeltas a @ mp_TrafficDeltas b @ mp_TrafficDeltas c)"
  by (simp add: mergeMetricsPayloads_def Let_def)

subsection \<open>What the differences add up to\<close>

fun msel :: "component \<Rightarrow> managedTrafficSnapshot \<Rightarrow> int" where
  "msel Upload s = ms_UploadBytes s"
| "msel Download s = ms_DownloadBytes s"
| "msel Connections s = ms_TCPConnectionEvents s"
| "msel Packets s = ms_UDPPackets s"

lemma dsel_managedDelta:
  "dsel c (managedDelta current prev r) = positiveManagedDelta (msel c (managedAt current r)) (msel c (managedAt prev r))"
  by (cases c) (simp_all add: managedDelta_def Let_def)

lemma rule_sum_managedDeltas:
  assumes "distinct order"
  shows "rule_sum c r (managedTrafficDeltas order current prev) =
    (if r \<in> set order \<and> current r \<noteq> None
     then positiveManagedDelta (msel c (managedAt current r)) (msel c (managedAt prev r)) else 0)"
  unfolding managedTrafficDeltas_def rule_sum_filter using assms
proof (induction order)
  case (Cons x xs)
  then show ?case by (cases "x = r") (auto simp: dsel_managedDelta, auto simp: managedDelta_def Let_def)
qed simp

text \<open>The counter of a rule over time runs in epochs: it grows until the engine restarts and counts from zero again.
  The total is the sum of the values each epoch ended with.\<close>

fun epoch_ends :: "int list \<Rightarrow> int" where
  "epoch_ends [] = 0"
| "epoch_ends [c] = c"
| "epoch_ends (c # d # cs) = (if d < c then c else 0) + epoch_ends (d # cs)"

fun payload_run :: "('i \<Rightarrow> string list \<Rightarrow> 's \<Rightarrow> MetricsPayload \<times> 's) \<Rightarrow> 's \<Rightarrow> ('i \<times> string list) list \<Rightarrow> RuleTrafficDelta list" where
  "payload_run metrics s [] = []"
| "payload_run metrics s ((i, order) # ins) =
     mp_TrafficDeltas (fst (metrics i order s)) @ payload_run metrics (snd (metrics i order s)) ins"

definition order_of :: "string list \<Rightarrow> managedCounters option \<Rightarrow> bool" where
  "order_of order reading = (case reading of None \<Rightarrow> True | Some current \<Rightarrow> distinct order \<and> set order = dom current)"

definition readings_of :: "('i \<Rightarrow> 's \<Rightarrow> managedCounters option) \<Rightarrow> 's \<Rightarrow> ('i \<times> string list) list \<Rightarrow> managedCounters list" where
  "readings_of readc s ins = List.map_filter (\<lambda>(i, order). readc i s) ins"

text \<open>A backend that reports the differences between the counters it reads and those it read last.\<close>

locale counter_source =
  fixes readc :: "'i \<Rightarrow> 's \<Rightarrow> managedCounters option"
    and lastOf :: "'s \<Rightarrow> managedCounters"
    and metrics :: "'i \<Rightarrow> string list \<Rightarrow> 's \<Rightarrow> MetricsPayload \<times> 's"
  assumes silent: "readc i s = None \<Longrightarrow> metrics i order s = (zero_metrics, s)"
    and reports: "readc i s = Some current \<Longrightarrow>
      mp_TrafficDeltas (fst (metrics i order s)) = managedTrafficDeltas order current (lastOf s)"
    and remembers: "readc i s = Some current \<Longrightarrow> lastOf (snd (metrics i order s)) = current"
    and reads_same: "readc j (snd (metrics i order s)) = readc j s"
begin

lemma run_conserves:
  assumes "\<forall>(i, order) \<in> set ins. order_of order (readc i s)"
    and "\<forall>current \<in> set (readings_of readc s ins). current r \<noteq> None \<and> 0 \<le> msel c (managedAt current r) \<and> msel c (managedAt current r) < 2 ^ 63"
    and "0 \<le> msel c (managedAt (lastOf s) r)"
  shows "rule_sum c r (payload_run metrics s ins) =
    epoch_ends (msel c (managedAt (lastOf s) r) # map (\<lambda>current. msel c (managedAt current r)) (readings_of readc s ins)) -
    msel c (managedAt (lastOf s) r)"
  using assms
proof (induction ins arbitrary: s)
  case Nil
  then show ?case by (simp add: readings_of_def List.map_filter_def)
next
  case (Cons x ins)
  obtain i order where x: "x = (i, order)" by (cases x)
  define s' where "s' = snd (metrics i order s)"
  have same: "readc j s' = readc j s" for j by (simp add: s'_def reads_same)
  have later: "readings_of readc s' ins = readings_of readc s ins" by (simp add: readings_of_def same)
  show ?case
  proof (cases "readc i s")
    case None
    then have "s' = s" "mp_TrafficDeltas (fst (metrics i order s)) = []"
      by (simp_all add: s'_def silent zero_metrics_def)
    moreover have "readings_of readc s (x # ins) = readings_of readc s ins"
      using None by (simp add: readings_of_def List.map_filter_def x)
    ultimately show ?thesis using Cons by (simp add: x s'_def[symmetric])
  next
    case (Some current)
    have readings: "readings_of readc s (x # ins) = current # readings_of readc s ins"
      using Some by (simp add: readings_of_def List.map_filter_def x)
    have last': "lastOf s' = current" using Some by (simp add: s'_def remembers)
    have ord: "distinct order" "set order = dom current"
      using Cons.prems(1) Some by (auto simp: x order_of_def)
    have r: "current r \<noteq> None" "0 \<le> msel c (managedAt current r)" "msel c (managedAt current r) < 2 ^ 63"
      using Cons.prems(2) by (simp_all add: readings)
    have rest: "rule_sum c r (payload_run metrics s' ins) =
        epoch_ends (msel c (managedAt current r) # map (\<lambda>current. msel c (managedAt current r)) (readings_of readc s ins)) -
        msel c (managedAt current r)"
      using Cons.IH[of s'] Cons.prems r by (simp add: same later readings[unfolded x] last' x)
    have "rule_sum c r (payload_run metrics s (x # ins)) =
        positiveManagedDelta (msel c (managedAt current r)) (msel c (managedAt (lastOf s) r)) +
        rule_sum c r (payload_run metrics s' ins)"
      using Some r ord by (simp add: x s'_def[symmetric] reports rule_sum_managedDeltas domIff)
    moreover have "positiveManagedDelta (msel c (managedAt current r)) (msel c (managedAt (lastOf s) r)) =
        (if msel c (managedAt current r) < msel c (managedAt (lastOf s) r) then msel c (managedAt current r)
         else msel c (managedAt current r) - msel c (managedAt (lastOf s) r))"
      using r(2,3) Cons.prems(3) by (simp add: positiveManagedDelta_def i64_nonneg_small)
    ultimately show ?thesis by (simp add: readings rest)
  qed
qed

text \<open>A reading without a rule, between two with it, makes the second one count from zero.\<close>

lemma gap_counts_again:
  assumes full: "readc i s = Some current" and gap: "readc j s = Some partial"
    and r: "current r \<noteq> None" "partial r = None" "lastOf s r = None"
    and ord: "distinct order" "set order = dom current"
    and ord': "distinct order'" "set order' = dom partial"
    and small: "0 \<le> msel c (managedAt current r)" "msel c (managedAt current r) < 2 ^ 63"
  shows "rule_sum c r (payload_run metrics s [(i, order), (j, order'), (i, order)]) = 2 * msel c (managedAt current r)"
proof -
  have zero: "msel c zero_managed = 0" by (cases c) (simp_all add: zero_managed_def)
  have none: "managedAt partial r = zero_managed" "managedAt (lastOf s) r = zero_managed"
    using r by (simp_all add: managedAt_def)
  define s1 where "s1 = snd (metrics i order s)"
  define s2 where "s2 = snd (metrics j order' s1)"
  have s1: "readc k s1 = readc k s" "lastOf s1 = current" for k
    using full by (simp_all add: s1_def reads_same remembers)
  have s2: "readc k s2 = readc k s" "lastOf s2 = partial" for k
    using gap s1 by (simp_all add: s2_def reads_same remembers)
  have "r \<in> set order" "r \<notin> set order'" using r ord ord' by auto
  moreover have "positiveManagedDelta (msel c (managedAt current r)) 0 = msel c (managedAt current r)"
    using small by (simp add: positiveManagedDelta_def i64_nonneg_small)
  ultimately show ?thesis
    using full gap s1 s2 r ord ord' none zero
    by (simp add: s1_def[symmetric] s2_def[symmetric] reports rule_sum_managedDeltas)
qed

end

lemma haproxy_read_ruleIDs:
  "hm_ruleIDs b = hm_ruleIDs b' \<Longrightarrow> haproxy_readTrafficCounters stat b = haproxy_readTrafficCounters stat b'"
proof -
  assume eq: "hm_ruleIDs b = hm_ruleIDs b'"
  then have "ruleIDForBackend b = ruleIDForBackend b'" by (intro ext) (simp add: ruleIDForBackend_def)
  then have "haproxyRow b = haproxyRow b'" by (intro ext) (simp add: haproxyRow_def Let_def)
  then show ?thesis by (simp only: haproxy_readTrafficCounters_def)
qed

interpretation haproxy_source: counter_source haproxy_readTrafficCounters hm_last haproxy_AgentMetrics
proof
  show "haproxy_readTrafficCounters j (snd (haproxy_AgentMetrics i order s)) = haproxy_readTrafficCounters j s" for i j order s
    by (rule haproxy_read_ruleIDs) (simp add: haproxy_AgentMetrics_def split: option.split)
qed (simp_all add: haproxy_AgentMetrics_def)

interpretation nft_source: counter_source "\<lambda>listing _. nft_readTrafficCounters listing" "\<lambda>s. s" nft_AgentMetrics
  by unfold_locales (simp_all add: nft_AgentMetrics_def)

lemma r1_not_blank: "TrimSpace ''r1'' \<noteq> []"
  by code_simp

subsection \<open>Properties\<close>


definition example_haproxy :: HAProxyMetrics where
  "example_haproxy = \<lparr>hm_last = Map.empty, hm_ruleIDs = Some [''be_r1'' \<mapsto> ''r1'']\<rparr>"

definition example_header :: "string list" where
  "example_header = [''pxname'', ''svname'', ''stot'', ''bin'', ''bout'']"

definition example_row :: "string \<Rightarrow> string list" where
  "example_row bytes = [''be_r1'', ''BACKEND'', ''1'', bytes, ''0'']"

definition example_stat :: "string \<Rightarrow> (string list \<times> string list list) option" where
  "example_stat bytes = Some (example_header, [example_row bytes])"

definition example_cut_stat :: "(string list \<times> string list list) option" where
  "example_cut_stat = Some (example_header, [])"

lemma example_last: "hm_last example_haproxy = Map.empty"
  by (simp add: example_haproxy_def)

lemma example_columns:
  "csvValue (example_row ''700'') (csvHeaderIndexes example_header) ''svname'' = ''BACKEND''"
  "csvValue (example_row ''700'') (csvHeaderIndexes example_header) ''pxname'' = ''be_r1''"
  "parseInt64 (csvValue (example_row ''700'') (csvHeaderIndexes example_header) ''stot'') = 1"
  "parseInt64 (csvValue (example_row ''700'') (csvHeaderIndexes example_header) ''bin'') = 700"
  "parseInt64 (csvValue (example_row ''700'') (csvHeaderIndexes example_header) ''bout'') = 0"
  "csvValue (example_row ''50'') (csvHeaderIndexes example_header) ''svname'' = ''BACKEND''"
  "csvValue (example_row ''50'') (csvHeaderIndexes example_header) ''pxname'' = ''be_r1''"
  "parseInt64 (csvValue (example_row ''50'') (csvHeaderIndexes example_header) ''stot'') = 1"
  "parseInt64 (csvValue (example_row ''50'') (csvHeaderIndexes example_header) ''bin'') = 50"
  "parseInt64 (csvValue (example_row ''50'') (csvHeaderIndexes example_header) ''bout'') = 0"
  by code_simp+

lemma example_rows:
  "haproxy_readTrafficCounters (example_stat ''700'') example_haproxy =
     Some [''r1'' \<mapsto> \<lparr>ms_UploadBytes = 700, ms_DownloadBytes = 0, ms_TCPConnectionEvents = 1, ms_UDPPackets = 0\<rparr>]"
  "haproxy_readTrafficCounters (example_stat ''50'') example_haproxy =
     Some [''r1'' \<mapsto> \<lparr>ms_UploadBytes = 50, ms_DownloadBytes = 0, ms_TCPConnectionEvents = 1, ms_UDPPackets = 0\<rparr>]"
  "haproxy_readTrafficCounters example_cut_stat example_haproxy = Some Map.empty"
  "haproxy_readTrafficCounters None example_haproxy = None"
proof -
  have header: "(case example_header of [] \<Rightarrow> [] | h # hs \<Rightarrow> TrimPrefix h ''# '' # hs) = example_header"
    by (simp add: example_header_def TrimPrefix_def HasPrefix_def)
  have be: "HasPrefix ''be_r1'' ''be_''" "ruleIDForBackend example_haproxy ''be_r1'' = ''r1''"
    by (simp_all add: HasPrefix_def ruleIDForBackend_def example_haproxy_def)
  note facts = haproxy_readTrafficCounters_def haproxyRow_def addManagedTrafficSnapshot_def managedAt_def zero_managed_def
    header be example_columns
  show "haproxy_readTrafficCounters (example_stat ''700'') example_haproxy =
     Some [''r1'' \<mapsto> \<lparr>ms_UploadBytes = 700, ms_DownloadBytes = 0, ms_TCPConnectionEvents = 1, ms_UDPPackets = 0\<rparr>]"
    "haproxy_readTrafficCounters (example_stat ''50'') example_haproxy =
     Some [''r1'' \<mapsto> \<lparr>ms_UploadBytes = 50, ms_DownloadBytes = 0, ms_TCPConnectionEvents = 1, ms_UDPPackets = 0\<rparr>]"
    "haproxy_readTrafficCounters example_cut_stat example_haproxy = Some Map.empty"
    "haproxy_readTrafficCounters None example_haproxy = None"
    by (simp_all add: facts example_stat_def example_cut_stat_def i64_nonneg_small)
qed


text \<open>
  C35: A reading that is cut off before the row of a rule makes the next complete reading report the whole counter again:
  the traffic of the rule is counted twice.
\<close>

theorem haproxy_cut_reading_counts_twice:
  assumes "haproxy_readTrafficCounters fullStat b = Some current" "haproxy_readTrafficCounters cutStat b = Some partial"
    and "current r \<noteq> None" "partial r = None" "hm_last b r = None"
    and "distinct order" "set order = dom current" "distinct order'" "set order' = dom partial"
    and "0 \<le> msel c (managedAt current r)" "msel c (managedAt current r) < 2 ^ 63"
  shows "rule_sum c r (payload_run haproxy_AgentMetrics b [(fullStat, order), (cutStat, order'), (fullStat, order)]) =
    2 * msel c (managedAt current r)"
  using assms by (rule haproxy_source.gap_counts_again)

lemma haproxy_cut_reading_counts_twice_witness:
  "rule_sum Upload ''r1'' (payload_run haproxy_AgentMetrics example_haproxy
     [(example_stat ''700'', [''r1'']), (example_cut_stat, []), (example_stat ''700'', [''r1''])]) = 1400"
proof -
  have "rule_sum Upload ''r1'' (payload_run haproxy_AgentMetrics example_haproxy
     [(example_stat ''700'', [''r1'']), (example_cut_stat, []), (example_stat ''700'', [''r1''])]) =
     2 * msel Upload (managedAt [''r1'' \<mapsto> \<lparr>ms_UploadBytes = 700, ms_DownloadBytes = 0, ms_TCPConnectionEvents = 1, ms_UDPPackets = 0\<rparr>] ''r1'')"
    by (rule haproxy_cut_reading_counts_twice[OF example_rows(1,3)]) (simp_all add: managedAt_def example_haproxy_def)
  then show ?thesis by (simp add: managedAt_def)
qed

text \<open>
  The report of a node merges those of its three engines into one entry per rule whose quantities are the sums, for
  every rule with a non-blank id, as long as no quantity is negative and the sum fits 63 bits.
\<close>

theorem manager_metrics_sum:
  assumes "TrimSpace r \<noteq> []"
    and "\<forall>d \<in> set (mp_TrafficDeltas native @ mp_TrafficDeltas haproxy @ mp_TrafficDeltas nft). 0 \<le> dsel c d"
    and "rule_sum c r (mp_TrafficDeltas native) + rule_sum c r (mp_TrafficDeltas haproxy) + rule_sum c r (mp_TrafficDeltas nft) < 2 ^ 63"
  shows "rule_sum c r (mp_TrafficDeltas (mergeMetricsPayloads [native, haproxy, nft])) =
      rule_sum c r (mp_TrafficDeltas native) + rule_sum c r (mp_TrafficDeltas haproxy) + rule_sum c r (mp_TrafficDeltas nft) \<and>
    distinct (map rd_RuleID (mp_TrafficDeltas (mergeMetricsPayloads [native, haproxy, nft])))"
  using assms dataplane_merge.merge_sum[of r c "mp_TrafficDeltas native @ mp_TrafficDeltas haproxy @ mp_TrafficDeltas nft"]
    dataplane_merge.merge_distinct
  by (simp add: merged_payload clean_nonneg_def)

lemma manager_metrics_sum_witness:
  "rule_sum Upload ''r1'' (mp_TrafficDeltas (mergeMetricsPayloads
     [zero_metrics\<lparr>mp_TrafficDeltas := [\<lparr>rd_RuleID = ''r1'', rd_UploadBytes = 5, rd_DownloadBytes = 0, rd_TCPConnections = 0, rd_UDPPackets = 0\<rparr>]\<rparr>,
      zero_metrics\<lparr>mp_TrafficDeltas := [\<lparr>rd_RuleID = ''r1'', rd_UploadBytes = 7, rd_DownloadBytes = 0, rd_TCPConnections = 0, rd_UDPPackets = 0\<rparr>]\<rparr>,
      zero_metrics])) = 12"
  using manager_metrics_sum[of "''r1''"
      "zero_metrics\<lparr>mp_TrafficDeltas := [\<lparr>rd_RuleID = ''r1'', rd_UploadBytes = 5, rd_DownloadBytes = 0, rd_TCPConnections = 0, rd_UDPPackets = 0\<rparr>]\<rparr>"
      "zero_metrics\<lparr>mp_TrafficDeltas := [\<lparr>rd_RuleID = ''r1'', rd_UploadBytes = 7, rd_DownloadBytes = 0, rd_TCPConnections = 0, rd_UDPPackets = 0\<rparr>]\<rparr>"
      zero_metrics Upload] r1_not_blank
  by (simp add: zero_metrics_def)

end
