(* ===== verification/Dataplane_Render.thy ===== *)
theory Dataplane_Render
  imports Dataplane_Locks Dataplane_Metrics Target_Candidates
begin

text \<open>
  The configurations the managed engines are given: \<open>renderHAProxyConfig\<close> of \<open>dataplane/haproxy.go\<close> and
  \<open>renderNFTablesConfig\<close> of \<open>dataplane/nftables.go\<close>. The text is built line by line; \<open>unlines\<close> ends each line.
\<close>

definition unlines :: "string list \<Rightarrow> string" where
  "unlines ls = concat (map (\<lambda>l. l @ [CHR 0x0A]) ls)"

subsection \<open>haproxy.go: names\<close>

definition haproxyRuleKey :: "RuleConfig \<Rightarrow> string" where
  "haproxyRuleKey rule = (if TrimSpace (rc_RuntimeID rule) \<noteq> [] then TrimSpace (rc_RuntimeID rule) else TrimSpace (rc_ID rule))"

definition haproxyBackendName :: "RuleConfig \<Rightarrow> string" where
  "haproxyBackendName rule = ''be_'' @ sanitizeName (haproxyRuleKey rule)"

definition haproxyRuleNames :: "RuleConfig list \<Rightarrow> (string \<rightharpoonup> string)" where
  "haproxyRuleNames rules = fold (\<lambda>rule ruleIDs. ruleIDs(haproxyBackendName rule \<mapsto> rc_ID rule)) rules Map.empty"

definition listenerHasTLSSNI :: "RuleConfig list \<Rightarrow> bool" where
  "listenerHasTLSSNI rules = list_ex (\<lambda>rule. rc_MatchType rule = MatchTypeTLSSNI) rules"

definition validHAProxySNIValue :: "string \<Rightarrow> bool" where
  "validHAProxySNIValue value =
     (let value = TrimSpace value in
      if value = [] \<or> length value > 253 then False
      else list_all (\<lambda>c. alnum c \<or> c = CHR ''-'' \<or> c = CHR ''.'') value)"

subsection \<open>haproxy.go: a backend\<close>

text \<open>The targets that become servers, each with its index and whether it is a backup.\<close>

definition leastLoadRule :: "RuleConfig \<Rightarrow> bool" where
  "leastLoadRule rule \<longleftrightarrow> EqualFold (TrimSpace (up_Scheduler (rc_Upstream rule))) ''LEAST_LOAD''"

definition becomesServer :: "RuleConfig \<Rightarrow> prioritizedTarget \<Rightarrow> bool" where
  "becomesServer rule target \<longleftrightarrow> te_Enabled (pt_endpoint target) \<and> \<not> (leastLoadRule rule \<and> te_Weight (pt_endpoint target) \<le> 0)"

definition minPriority :: "prioritizedTarget list \<Rightarrow> int option" where
  "minPriority targets =
     fold (\<lambda>target m. case m of None \<Rightarrow> Some (pt_priority target)
       | Some p \<Rightarrow> if pt_priority target < p then Some (pt_priority target) else Some p) targets None"

definition haproxyServers :: "RuleConfig \<Rightarrow> (nat \<times> prioritizedTarget \<times> bool) list" where
  "haproxyServers rule =
     (let targets = (case upstreamTargets rule of None \<Rightarrow> [] | Some ts \<Rightarrow> ts) in
      case minPriority (filter (becomesServer rule) targets) of
        None \<Rightarrow> []
      | Some m \<Rightarrow> map (\<lambda>(index, target). (index, target, pt_priority target > m))
          (filter (\<lambda>(index, target). becomesServer rule target) (enumerate 0 targets)))"

definition haproxyServerLine :: "RuleConfig \<Rightarrow> bool \<Rightarrow> nat \<times> prioritizedTarget \<times> bool \<Rightarrow> string" where
  "haproxyServerLine rule hasBackupTarget server =
     (let (index, target, backup) = server; endpoint = pt_endpoint target; sendIP = TrimSpace (rc_SendIP rule);
          out = TrimSpace (rc_ProxyProtocolOut rule) in
      ''  server '' @ sanitizeName (te_ID endpoint @ ''_'' @ Itoa (int index)) @ '' '' @
      JoinHostPort (te_Host endpoint) (Itoa (te_Port endpoint)) @
      (if sendIP \<noteq> [] then '' source '' @ sendIP else []) @
      (if backup then '' backup'' else []) @
      (if leastLoadRule rule then '' weight '' @ Itoa (te_Weight endpoint) else []) @
      (if hasBackupTarget then '' check'' else []) @
      (if out = ''V1'' \<or> out = ''PROXY_V1'' then '' send-proxy''
       else if out = ''V2'' \<or> out = ''PROXY_V2'' then '' send-proxy-v2'' else []))"

definition haproxyBackendLines :: "RuleConfig \<Rightarrow> string list" where
  "haproxyBackendLines rule =
     (let servers = haproxyServers rule; hasBackupTarget = list_ex (\<lambda>(index, target, backup). backup) servers in
      [''backend '' @ haproxyBackendName rule,
       if leastLoadRule rule then ''  balance leastconn'' else ''  balance source''] @
      map (haproxyServerLine rule hasBackupTarget) servers @ [[]])"

subsection \<open>haproxy.go: the configuration\<close>

definition haproxyRuleLines :: "RuleConfig \<Rightarrow> string list" where
  "haproxyRuleLines rule =
     (if rc_MatchType rule = MatchTypeAnyInbound then [''  default_backend '' @ haproxyBackendName rule]
      else
        (let aclName = ''sni_'' @ sanitizeName (haproxyRuleKey rule) in
         [''  acl '' @ aclName @ '' req.ssl_sni -i '' @ rc_SNIHostname rule,
          ''  use_backend '' @ haproxyBackendName rule @ '' if '' @ aclName]))"

definition sniError :: "RuleConfig \<Rightarrow> ConfigApplyError option" where
  "sniError rule =
     (if rc_MatchType rule \<noteq> MatchTypeAnyInbound \<and> \<not> validHAProxySNIValue (rc_SNIHostname rule)
      then Some (configApplyError ''invalid TLS_SNI hostname''
        [unsupportedRuleError rule ModeHAProxy ''TLS_SNI hostname must be a hostname token''])
      else None)"

definition haproxyFrontendLines :: "dp_listenerKey \<Rightarrow> RuleConfig list \<Rightarrow> string list" where
  "haproxyFrontendLines key rules =
     [''frontend fe_'' @ sanitizeName (dp_listenerKeyString key),
      ''  bind '' @ JoinHostPort (dk_listenIP key) (Itoa (dk_port key)) @
        (if proxySet (rc_ProxyProtocolIn (rules ! 0)) then '' accept-proxy'' else [])] @
     (if listenerHasTLSSNI rules then
        [''  tcp-request inspect-delay 5s'', ''  tcp-request content accept if { req_ssl_hello_type 1 }''] else []) @
     concat (map haproxyRuleLines rules) @ [[]] @ concat (map haproxyBackendLines rules)"

definition haproxyHead :: "string \<Rightarrow> string \<Rightarrow> string list" where
  "haproxyHead socketFile pidFile =
     [''global'', ''  master-worker'',
      ''  stats socket '' @ socketFile @ '' mode 600 level admin expose-fd listeners'',
      ''  pidfile '' @ pidFile, [],
      ''defaults'', ''  mode tcp'', ''  timeout connect 5s'', ''  timeout client 1m'', ''  timeout server 1m'', []]"

definition haproxyKeys :: "RuleConfig list \<Rightarrow> dp_listenerKey list" where
  "haproxyKeys rules =
     sort_key (\<lambda>k. (dk_protocol k, dk_listenIP k, dk_port k)) (uniq [] (map listenerKeyForRule rules))"

definition haproxyGroup :: "RuleConfig list \<Rightarrow> dp_listenerKey \<Rightarrow> RuleConfig list" where
  "haproxyGroup rules key = sort_key haproxyRuleKey (filter (\<lambda>rule. listenerKeyForRule rule = key) rules)"

definition haproxyLines :: "string \<Rightarrow> string \<Rightarrow> RuleConfig list \<Rightarrow> string list" where
  "haproxyLines socketFile pidFile rules =
     haproxyHead socketFile pidFile @
     concat (map (\<lambda>key. haproxyFrontendLines key (haproxyGroup rules key)) (haproxyKeys rules))"

definition firstError :: "('a \<Rightarrow> 'e option) \<Rightarrow> 'a list \<Rightarrow> 'e option" where
  "firstError f xs = (case List.map_filter f xs of [] \<Rightarrow> None | e # _ \<Rightarrow> Some e)"

definition renderHAProxyConfig :: "string \<Rightarrow> string \<Rightarrow> ConfigSnapshot \<Rightarrow> ConfigApplyError + string" where
  "renderHAProxyConfig socketFile pidFile snapshot =
     (let rules = cs_Rules snapshot in
      case firstError (\<lambda>rule. if haproxySupportsRule rule then None
             else Some (configApplyError ''HAProxy does not support this rule''
               [unsupportedRuleError rule ModeHAProxy ''unsupported HAProxy rule''])) rules of
        Some err \<Rightarrow> Inl err
      | None \<Rightarrow>
          (case firstError sniError (concat (map (haproxyGroup rules) (haproxyKeys rules))) of
             Some err \<Rightarrow> Inl err
           | None \<Rightarrow> Inr (unlines (haproxyLines socketFile pidFile rules))))"

subsection \<open>nftables.go: the configuration\<close>

definition nftRuleProtocols :: "Protocol \<Rightarrow> string list" where
  "nftRuleProtocols protocol =
     (if protocol = ProtocolTCPUDP then [''tcp'', ''udp''] else if protocol = ProtocolUDP then [''udp''] else [''tcp''])"

definition nftListenMatch :: "string \<Rightarrow> string" where
  "nftListenMatch listenIP =
     (let value = TrimSpace listenIP in
      if value = [] \<or> value = ''0.0.0.0'' then ''fib daddr type local ip daddr 0.0.0.0/0''
      else if value = ''::'' then ''fib daddr type local ip6 daddr ::/0''
      else
        (let p = ParseIP value in
         if p = [] then [] else if To4 p = [] then ''ip6 daddr '' @ value else ''ip daddr '' @ value))"

definition nftDNATTargetHost :: "ip \<Rightarrow> string \<Rightarrow> int \<Rightarrow> string" where
  "nftDNATTargetHost p host port = (if To4 p = [] \<and> port > 0 then ''['' @ host @ '']'' else host)"

definition nftTag :: "ConfigSnapshot \<Rightarrow> RuleConfig \<Rightarrow> string" where
  "nftTag snapshot rule =
     sanitizeComment (rc_ID rule) @ '' version='' @ Itoa (cs_ConfigVersion snapshot) @
     '' hash='' @ sanitizeComment (cs_ConfigHash snapshot) @ [CHR 0x22]"

text \<open>A line of the prerouting chain, in the parts before and after its counter.\<close>

definition nftDnatHead :: "RuleConfig \<Rightarrow> string \<Rightarrow> string" where
  "nftDnatHead rule protocol =
     ''    '' @ (let listenMatch = nftListenMatch (rc_ListenIP rule) in if listenMatch \<noteq> [] then listenMatch @ '' '' else []) @
     protocol @ '' dport '' @ Itoa (rc_Port rule)"

definition nftDnatTail :: "ConfigSnapshot \<Rightarrow> RuleConfig \<Rightarrow> TargetEndpoint \<Rightarrow> string" where
  "nftDnatTail snapshot rule target =
     (let p = ParseIP (te_Host target) in
      '' meta mark set 0x70726973 dnat '' @ nftIPFamily p @ '' to '' @ nftDNATTargetHost p (te_Host target) (te_Port target) @
      (if te_Port target > 0 then '':'' @ Itoa (te_Port target) else []) @ '' '' @ nft_comment @ nftTag snapshot rule)"

definition nftDnatLine :: "ConfigSnapshot \<Rightarrow> RuleConfig \<Rightarrow> TargetEndpoint \<Rightarrow> string \<Rightarrow> string" where
  "nftDnatLine snapshot rule target protocol = nftDnatHead rule protocol @ '' counter'' @ nftDnatTail snapshot rule target"

definition nftMasqueradeLine :: "ConfigSnapshot \<Rightarrow> RuleConfig \<Rightarrow> TargetEndpoint \<Rightarrow> string \<Rightarrow> string" where
  "nftMasqueradeLine snapshot rule target protocol =
     ''    '' @ nftIPFamily (ParseIP (te_Host target)) @ '' daddr '' @ te_Host target @ '' '' @ protocol @ '' dport '' @
     Itoa (te_Port target) @ '' meta mark 0x70726973 masquerade comment '' @ [CHR 0x22] @ ''prism postrouting-rule='' @
     nftTag snapshot rule"

text \<open>The enabled target of a rule.\<close>

definition nftTarget :: "RuleConfig \<Rightarrow> TargetEndpoint option" where
  "nftTarget rule = (case up_Target (rc_Upstream rule) of Some target \<Rightarrow> if te_Enabled target then Some target else None | None \<Rightarrow> None)"

definition nftRuleError :: "RuleConfig \<Rightarrow> ConfigApplyError option" where
  "nftRuleError rule =
     (case nftTarget rule of
        None \<Rightarrow> None
      | Some target \<Rightarrow>
          (let p = ParseIP (te_Host target); listenFamily = nftListenAddressFamily (rc_ListenIP rule) in
           if p = [] then Some (configApplyError ''nftables target must be a literal IP''
             [unsupportedRuleError rule ModeNFTables ''target host must be a literal IP''])
           else if listenFamily \<noteq> [] \<and> listenFamily \<noteq> nftIPFamily p then
             Some (configApplyError ''nftables cannot DNAT across address families''
               [unsupportedRuleError rule ModeNFTables ''listen address and target address must use the same IP family''])
           else None))"

definition nftRuleLines :: "(RuleConfig \<Rightarrow> TargetEndpoint \<Rightarrow> string \<Rightarrow> string) \<Rightarrow> RuleConfig \<Rightarrow> string list" where
  "nftRuleLines line rule =
     (case nftTarget rule of None \<Rightarrow> [] | Some target \<Rightarrow> map (line rule target) (nftRuleProtocols (rc_Protocol rule)))"

definition nftSorted :: "RuleConfig list \<Rightarrow> RuleConfig list" where
  "nftSorted rules = sort_key (\<lambda>rule. (rc_Protocol rule, rc_Port rule, rc_ID rule)) rules"

definition nftLines :: "ConfigSnapshot \<Rightarrow> string \<Rightarrow> bool \<Rightarrow> string list" where
  "nftLines snapshot tableName replaceExisting =
     (if replaceExisting then [''delete table inet '' @ tableName] else []) @
     [''table inet '' @ tableName @ '' {'', ''  chain prerouting {'', ''    type nat hook prerouting priority dstnat; policy accept;''] @
     concat (map (nftRuleLines (nftDnatLine snapshot)) (nftSorted (cs_Rules snapshot))) @
     [''  }'', ''  chain postrouting {'', ''    type nat hook postrouting priority srcnat; policy accept;''] @
     concat (map (nftRuleLines (nftMasqueradeLine snapshot)) (nftSorted (cs_Rules snapshot))) @
     [''  }'', ''}'']"

definition renderNFTablesConfig :: "ConfigSnapshot \<Rightarrow> string \<Rightarrow> bool \<Rightarrow> ConfigApplyError + string" where
  "renderNFTablesConfig snapshot tableName replaceExisting =
     (case firstError nftRuleError (nftSorted (cs_Rules snapshot)) of
        Some err \<Rightarrow> Inl err
      | None \<Rightarrow> Inr (unlines (nftLines snapshot tableName replaceExisting)))"

end
