(* ===== verification/Render_Facts.thy ===== *)
theory Render_Facts
  imports Dataplane_Render
begin

text \<open>
  What the rendered configurations promise: a planned snapshot can be rendered, the backends of HAProxy are complete and
  prefer the same targets as the native engine, and the counters of nftables come back to the rule they were rendered for.
\<close>

subsection \<open>Planned rules can be rendered\<close>

lemma firstError_None: "firstError f xs = None \<longleftrightarrow> (\<forall>x \<in> set xs. f x = None)"
proof -
  have "List.map_filter f xs = [] \<longleftrightarrow> (\<forall>x \<in> set xs. f x = None)" by (rule map_filter_none)
  then show ?thesis by (cases "List.map_filter f xs") (auto simp: firstError_def)
qed

lemma haproxyKeys_set: "set (haproxyKeys rules) = listenerKeyForRule ` set rules"
  by (simp add: haproxyKeys_def set_uniq)

lemma haproxyGroup_set: "set (haproxyGroup rules key) = {rule \<in> set rules. listenerKeyForRule rule = key}"
  by (simp add: haproxyGroup_def)

lemma haproxy_groups_set: "set (concat (map (haproxyGroup rules) (haproxyKeys rules))) = set rules"
  by (auto simp: haproxyKeys_set haproxyGroup_set)

lemma render_haproxy_ok_iff:
  "renderHAProxyConfig socketFile pidFile s = Inr text \<longleftrightarrow>
     (\<forall>rule \<in> set (cs_Rules s). haproxySupportsRule rule \<and> sniError rule = None) \<and>
     text = unlines (haproxyLines socketFile pidFile (cs_Rules s))"
proof -
  have "firstError sniError (concat (map (haproxyGroup (cs_Rules s)) (haproxyKeys (cs_Rules s)))) = None \<longleftrightarrow>
      (\<forall>rule \<in> set (cs_Rules s). sniError rule = None)"
    unfolding firstError_None haproxy_groups_set ..
  moreover have "firstError (\<lambda>rule. if haproxySupportsRule rule then None
             else Some (configApplyError ''HAProxy does not support this rule''
               [unsupportedRuleError rule ModeHAProxy ''unsupported HAProxy rule''])) (cs_Rules s) = None \<longleftrightarrow>
      (\<forall>rule \<in> set (cs_Rules s). haproxySupportsRule rule)"
    unfolding firstError_None by simp
  ultimately show ?thesis
    unfolding renderHAProxyConfig_def Let_def by (auto split: option.splits)
qed

lemma nft_rule_renders: "nftablesSupportsRule rule \<Longrightarrow> nftRuleError rule = None"
  by (auto simp: nftablesSupportsRule_def nftRuleError_def nftTarget_def Let_def split: if_splits option.splits)

lemma render_nft_ok:
  assumes "\<forall>rule \<in> set (cs_Rules s). nftablesSupportsRule rule"
  shows "renderNFTablesConfig s tableName replace = Inr (unlines (nftLines s tableName replace))"
proof -
  have "firstError nftRuleError (nftSorted (cs_Rules s)) = None"
    using assms nft_rule_renders by (simp add: firstError_None nftSorted_def)
  then show ?thesis by (simp add: renderNFTablesConfig_def)
qed

lemma planned_for_engine:
  assumes "manager_plan mode s = Inr p" "rule \<in> set (pl_rules p d)"
  shows "backendSupportsRule d rule"
  using assms by (auto simp: manager_plan_ok_iff rules_of_def assigned_def list_all_iff)

subsection \<open>Servers\<close>

lemma minPriority_spec:
  "minPriority ts = (if ts = [] then None else Some (Min (pt_priority ` set ts)))"
proof -
  have step: "fold (\<lambda>target m. case m of None \<Rightarrow> Some (pt_priority target)
       | Some p \<Rightarrow> if pt_priority target < p then Some (pt_priority target) else Some p) ts (Some p) =
      Some (Min (insert p (pt_priority ` set ts)))" for p ts
  proof (induction ts arbitrary: p)
    case (Cons t ts)
    have eq: "(if pt_priority t < p then Some (pt_priority t) else Some p) = Some (min (pt_priority t) p)" by (simp add: min_def)
    have "Min (insert (min (pt_priority t) p) (pt_priority ` set ts)) = Min (insert p (pt_priority ` set (t # ts)))"
      by (cases "set ts = {}") (simp_all add: Min_insert min.assoc min.commute min.left_commute)
    with Cons eq show ?case by simp
  qed simp
  show ?thesis
    by (cases ts) (simp_all add: minPriority_def step)
qed

lemma haproxyServers_set:
  "(\<exists>index. (index, t, backup) \<in> set (haproxyServers rule)) \<longleftrightarrow>
     (\<exists>ts. upstreamTargets rule = Some ts \<and> t \<in> set ts \<and> becomesServer rule t \<and>
        backup = (\<exists>u \<in> set ts. becomesServer rule u \<and> pt_priority u < pt_priority t))"
proof (cases "upstreamTargets rule")
  case None
  then show ?thesis by (simp add: haproxyServers_def minPriority_spec)
next
  case (Some ts)
  let ?live = "filter (becomesServer rule) ts"
  show ?thesis
  proof (cases "?live = []")
    case True
    then show ?thesis using Some by (auto simp: haproxyServers_def minPriority_spec filter_empty_conv)
  next
    case False
    let ?m = "Min (pt_priority ` set ?live)"
    have servers: "haproxyServers rule = map (\<lambda>(index, target). (index, target, pt_priority target > ?m))
          (filter (\<lambda>(index, target). becomesServer rule target) (enumerate 0 ts))"
      using Some False by (simp add: haproxyServers_def minPriority_spec)
    have "snd ` set (enumerate 0 ts) = set ts" by (metis list.set_map map_snd_enumerate)
    then have index: "(\<exists>index. (index, t) \<in> set (enumerate 0 ts)) \<longleftrightarrow> t \<in> set ts" by force
    have "?m < pt_priority t \<longleftrightarrow> (\<exists>u \<in> set ?live. pt_priority u < pt_priority t)"
      using False by (subst Min_less_iff) (auto simp: filter_empty_conv)
    then show ?thesis
      unfolding servers using Some index by (auto simp: image_iff)
  qed
qed

lemma group_targets:
  assumes "up_Type (rc_Upstream rule) = ''TARGET_GROUP''"
  shows "\<exists>ts. upstreamTargets rule = Some ts \<and>
    (\<forall>t. t \<in> set ts \<longleftrightarrow> (\<exists>b \<in> set (up_TargetGroup (rc_Upstream rule)). pt_priority t = pb_Priority b \<and> pt_endpoint t \<in> set (pb_Targets b)))"
proof -
  have entry: "t = \<lparr>pt_priority = pb_Priority b, pt_endpoint = e\<rparr> \<longleftrightarrow> pt_priority t = pb_Priority b \<and> pt_endpoint t = e" for t b e
    by (cases t) auto
  show ?thesis using assms by (auto simp: upstreamTargets_def image_iff entry)
qed

text \<open>The first bucket of the best priority, when priorities are distinct, is the only one.\<close>

lemma candidates_exact:
  assumes "distinct (map pb_Priority bs)"
  shows "e \<in> set (bestBucketLoop usable None bs) \<longleftrightarrow>
    (\<exists>b \<in> set bs. e \<in> set (pb_Targets b) \<and> usable e \<and>
       \<not> (\<exists>c \<in> set bs. \<exists>u \<in> set (pb_Targets c). usable u \<and> pb_Priority c < pb_Priority b))"
proof -
  have inj: "b = c" if "b \<in> set bs" "c \<in> set bs" "pb_Priority b = pb_Priority c" for b c
    using assms that by (auto simp: distinct_map dest: inj_onD)
  from bestBucketLoop_cases[of usable None bs] show ?thesis
  proof (elim disjE conjE bexE)
    assume "bestBucketLoop usable None bs = (case None of None \<Rightarrow> [] | Some (_, cs) \<Rightarrow> cs)"
      and "\<forall>b \<in> set (usable_buckets usable bs). \<exists>p cs. None = Some (p, cs) \<and> p \<le> pb_Priority b"
    then show ?thesis by (auto simp: usable_buckets_def filter_empty_conv)
  next
    fix b assume b: "b \<in> set (usable_buckets usable bs)" and loop: "bestBucketLoop usable None bs = filter usable (pb_Targets b)"
      and least: "\<forall>c \<in> set (usable_buckets usable bs). pb_Priority b \<le> pb_Priority c"
    have mem: "b \<in> set bs" "\<exists>u \<in> set (pb_Targets b). usable u" using b by (auto simp: usable_buckets_def filter_empty_conv)
    have le: "pb_Priority b \<le> pb_Priority c" if "c \<in> set bs" "u \<in> set (pb_Targets c)" "usable u" for c u
      using least that by (auto simp: usable_buckets_def filter_empty_conv)
    show ?thesis unfolding loop
    proof
      assume "e \<in> set (filter usable (pb_Targets b))"
      then show "\<exists>b \<in> set bs. e \<in> set (pb_Targets b) \<and> usable e \<and>
          \<not> (\<exists>c \<in> set bs. \<exists>u \<in> set (pb_Targets c). usable u \<and> pb_Priority c < pb_Priority b)"
        using mem(1) le by (intro bexI[of _ b]) force+
    next
      assume "\<exists>b \<in> set bs. e \<in> set (pb_Targets b) \<and> usable e \<and>
          \<not> (\<exists>c \<in> set bs. \<exists>u \<in> set (pb_Targets c). usable u \<and> pb_Priority c < pb_Priority b)"
      then obtain b' where b': "b' \<in> set bs" "e \<in> set (pb_Targets b')" "usable e"
          "\<not> (\<exists>c \<in> set bs. \<exists>u \<in> set (pb_Targets c). usable u \<and> pb_Priority c < pb_Priority b')" by blast
      then have "pb_Priority b' = pb_Priority b" using mem le[of b' e] by (meson linorder_not_le order_antisym)
      then show "e \<in> set (filter usable (pb_Targets b))" using inj[OF b'(1) mem(1)] b' by simp
    qed
  qed
qed

text \<open>Targets with their priority and endpoints in their bucket say the same.\<close>

lemma target_in_bucket:
  fixes ts :: "prioritizedTarget list" and bs :: "TargetPriorityBucket list"
  assumes "\<And>t. t \<in> set ts \<longleftrightarrow> (\<exists>b \<in> set bs. pt_priority t = pb_Priority b \<and> pt_endpoint t \<in> set (pb_Targets b))"
  shows "(\<exists>t. pt_endpoint t = e \<and> t \<in> set ts \<and> Q \<and> P (pt_priority t)) \<longleftrightarrow> (\<exists>b \<in> set bs. e \<in> set (pb_Targets b) \<and> Q \<and> P (pb_Priority b))"
proof
  assume "\<exists>b \<in> set bs. e \<in> set (pb_Targets b) \<and> Q \<and> P (pb_Priority b)"
  then obtain b where "b \<in> set bs" "e \<in> set (pb_Targets b)" Q "P (pb_Priority b)" by blast
  then show "\<exists>t. pt_endpoint t = e \<and> t \<in> set ts \<and> Q \<and> P (pt_priority t)"
    using assms by (intro exI[of _ "\<lparr>pt_priority = pb_Priority b, pt_endpoint = e\<rparr>"]) auto
qed (use assms in auto)

lemma better_target:
  fixes ts :: "prioritizedTarget list" and bs :: "TargetPriorityBucket list"
  assumes "\<And>t. t \<in> set ts \<longleftrightarrow> (\<exists>b \<in> set bs. pt_priority t = pb_Priority b \<and> pt_endpoint t \<in> set (pb_Targets b))"
    and "\<And>t. S t \<longleftrightarrow> usable (pt_endpoint t)"
  shows "(\<exists>u \<in> set ts. S u \<and> pt_priority u < p) \<longleftrightarrow> (\<exists>c \<in> set bs. \<exists>e \<in> set (pb_Targets c). usable e \<and> pb_Priority c < p)"
  using target_in_bucket[OF assms(1), of _ _ "\<lambda>q. q < p"] assms(2) by metis

lemma no_target:
  fixes ts :: "prioritizedTarget list" and bs :: "TargetPriorityBucket list"
  assumes "\<And>t. t \<in> set ts \<longleftrightarrow> (\<exists>b \<in> set bs. pt_priority t = pb_Priority b \<and> pt_endpoint t \<in> set (pb_Targets b))"
  shows "(\<forall>t \<in> set ts. \<not> usable (pt_endpoint t)) \<longleftrightarrow> (\<forall>b \<in> set bs. \<forall>e \<in> set (pb_Targets b). \<not> usable e)"
  using target_in_bucket[OF assms, of _ _ "\<lambda>q. True"] by metis

lemma candidates_of_rule:
  "activeTargetGroupCandidates rule =
     bestBucketLoop (\<lambda>e. te_Enabled e \<and> \<not> (leastLoadRule rule \<and> te_Weight e \<le> 0)) None (up_TargetGroup (rc_Upstream rule))"
proof -
  have eq: "(\<lambda>e. te_Enabled e \<and> 0 < te_Weight e) = (\<lambda>e. te_Enabled e \<and> \<not> te_Weight e \<le> 0)"
    by auto
  show ?thesis
    by (cases "leastLoadRule rule")
      (simp_all add: activeTargetGroupCandidates_def isLeastLoad_def leastLoadRule_def
        enabledLeastLoadTargetGroupCandidates_def enabledTargetGroupCandidates_def eq)
qed

subsection \<open>References between the sections\<close>

text \<open>The lines of a frontend that send traffic to a backend, and the lines that open one.\<close>

lemma haproxyLines_member:
  "line \<in> set (haproxyLines socketFile pidFile rules) \<longleftrightarrow>
     line \<in> set (haproxyHead socketFile pidFile) \<or>
     (\<exists>key \<in> set (haproxyKeys rules). line \<in> set (haproxyFrontendLines key (haproxyGroup rules key)))"
  by (auto simp: haproxyLines_def)

lemma backend_line_present:
  assumes "rule \<in> set rules"
  shows "''backend '' @ haproxyBackendName rule \<in> set (haproxyLines socketFile pidFile rules)"
    and "set (haproxyRuleLines rule) \<subseteq> set (haproxyLines socketFile pidFile rules)"
proof -
  have key: "listenerKeyForRule rule \<in> set (haproxyKeys rules)" "rule \<in> set (haproxyGroup rules (listenerKeyForRule rule))"
    using assms by (auto simp: haproxyKeys_set haproxyGroup_set)
  have "''backend '' @ haproxyBackendName rule \<in> set (haproxyBackendLines rule)"
    by (simp add: haproxyBackendLines_def Let_def)
  with key show "''backend '' @ haproxyBackendName rule \<in> set (haproxyLines socketFile pidFile rules)"
    unfolding haproxyLines_member haproxyFrontendLines_def by auto
  from key show "set (haproxyRuleLines rule) \<subseteq> set (haproxyLines socketFile pidFile rules)"
    unfolding subset_iff haproxyLines_member haproxyFrontendLines_def by auto
qed

text \<open>Only rules write lines that name a backend.\<close>

definition names_backend :: "string \<Rightarrow> bool" where
  "names_backend line \<longleftrightarrow> HasPrefix line ''  default_backend '' \<or> HasPrefix line ''  use_backend ''"

lemma names_backend_simps [simp]:
  "\<not> names_backend []" "names_backend (CHR '' '' # CHR '' '' # CHR ''d'' # s) \<longleftrightarrow> HasPrefix (''  d'' @ s) ''  default_backend ''"
  "names_backend (CHR '' '' # CHR '' '' # CHR ''u'' # s) \<longleftrightarrow> HasPrefix (''  u'' @ s) ''  use_backend ''"
  "c \<noteq> CHR '' '' \<Longrightarrow> \<not> names_backend (c # s)"
  "c \<noteq> CHR ''d'' \<Longrightarrow> c \<noteq> CHR ''u'' \<Longrightarrow> \<not> names_backend (CHR '' '' # CHR '' '' # c # s)"
  by (auto simp: names_backend_def HasPrefix_def)

lemma names_backend_rule:
  assumes "line \<in> set (haproxyLines socketFile pidFile rules)" "names_backend line"
  shows "\<exists>rule \<in> set rules. line \<in> set (haproxyRuleLines rule)"
proof -
  have head: "\<not> names_backend l" if "l \<in> set (haproxyHead socketFile pidFile)" for l
    using that by (auto simp: haproxyHead_def)
  have backend: "\<not> names_backend l" if "l \<in> set (haproxyBackendLines rule)" for l rule
    using that by (auto simp: haproxyBackendLines_def haproxyServerLine_def Let_def split: if_splits)
  obtain key where "line \<in> set (haproxyFrontendLines key (haproxyGroup rules key))"
    using assms head by (auto simp: haproxyLines_member)
  then have "\<exists>rule \<in> set (haproxyGroup rules key). line \<in> set (haproxyRuleLines rule)"
    using assms(2) backend by (auto simp: haproxyFrontendLines_def split: if_splits)
  then show ?thesis by (auto simp: haproxyGroup_set)
qed

subsection \<open>A sample snapshot\<close>

definition sample_endpoint :: "string \<Rightarrow> TargetEndpoint" where
  "sample_endpoint i = \<lparr>te_ID = i, te_Host = ''10.0.0.5'', te_Port = 53, te_Weight = 1, te_Enabled = True\<rparr>"

definition sample_sni_rule :: RuleConfig where
  "sample_sni_rule = zero_rule\<lparr>rc_ID := ''r1'', rc_Protocol := ProtocolTCP, rc_Port := 443, rc_MatchType := MatchTypeTLSSNI,
     rc_SNIHostname := ''example.com'', rc_Upstream := \<lparr>up_Type = ''TARGET_GROUP'', up_Target = None, up_Scheduler = [],
       up_TargetGroup = [\<lparr>pb_Priority = 20, pb_Targets = [sample_endpoint ''b'']\<rparr>, \<lparr>pb_Priority = 10, pb_Targets = [sample_endpoint ''a'']\<rparr>]\<rparr>\<rparr>"

definition sample_udp_rule :: RuleConfig where
  "sample_udp_rule = zero_rule\<lparr>rc_ID := ''r2'', rc_Protocol := ProtocolUDP, rc_Port := 53, rc_MatchType := MatchTypeAnyInbound,
     rc_Upstream := zero_upstream\<lparr>up_Type := ''TARGET'', up_Target := Some (sample_endpoint ''a'')\<rparr>\<rparr>"

definition sample_planned :: "plannedRule list" where
  "sample_planned = [\<lparr>pr_rule = sample_sni_rule, pr_dataplane = ModeHAProxy\<rparr>, \<lparr>pr_rule = sample_udp_rule, pr_dataplane = ModeNFTables\<rparr>]"

definition sample_snapshot :: ConfigSnapshot where
  "sample_snapshot = zero_snapshot\<lparr>cs_Rules := map pr_rule sample_planned\<rparr>"

definition sample_plan :: plan where
  "sample_plan = \<lparr>pl_rules = rules_of sample_planned, pl_planned = sample_planned\<rparr>"

lemma sample_plan_made: "manager_plan ModeAuto sample_snapshot = Inr sample_plan"
proof -
  have "list_all (assigned (effectiveMode ModeAuto sample_snapshot)) sample_planned" by code_simp
  moreover have "sorted_wrt plan_compatible sample_planned" by code_simp
  ultimately show ?thesis by (simp add: manager_plan_ok_iff sample_plan_def sample_snapshot_def)
qed

subsection \<open>Properties\<close>

text \<open>
  C26: A snapshot that was planned can be rendered: the rules planned for nftables always, those planned for HAProxy
  unless a TLS_SNI rule has a host name that is no host name token.
\<close>

theorem planned_rules_render:
  assumes "manager_plan mode s = Inr p"
  shows "(\<exists>text. renderNFTablesConfig (snapshotFor p ModeNFTables s) tableName replace = Inr text) \<and>
    ((\<exists>text. renderHAProxyConfig socketFile pidFile (snapshotFor p ModeHAProxy s) = Inr text) \<longleftrightarrow>
     list_all (\<lambda>rule. rc_MatchType rule = MatchTypeAnyInbound \<or> validHAProxySNIValue (rc_SNIHostname rule)) (pl_rules p ModeHAProxy))"
proof -
  have nft: "\<forall>rule \<in> set (cs_Rules (snapshotFor p ModeNFTables s)). nftablesSupportsRule rule"
    using planned_for_engine[OF assms, of _ ModeNFTables] by (auto simp: snapshotFor_def backendSupportsRule_def)
  have "\<forall>rule \<in> set (pl_rules p ModeHAProxy). haproxySupportsRule rule"
    using planned_for_engine[OF assms, of _ ModeHAProxy] by (auto simp: backendSupportsRule_def)
  then show ?thesis
    using render_nft_ok[OF nft] by (auto simp: render_haproxy_ok_iff snapshotFor_def list_all_iff sniError_def)
qed

lemma planned_rules_render_witness:
  "(\<exists>text. renderNFTablesConfig (snapshotFor sample_plan ModeNFTables sample_snapshot) ''prism'' False = Inr text) \<and>
   (\<exists>text. renderHAProxyConfig ''/s'' ''/p'' (snapshotFor sample_plan ModeHAProxy sample_snapshot) = Inr text)"
proof -
  have "list_all (\<lambda>rule. rc_MatchType rule = MatchTypeAnyInbound \<or> validHAProxySNIValue (rc_SNIHostname rule)) (pl_rules sample_plan ModeHAProxy)"
    by code_simp
  then show ?thesis using planned_rules_render[OF sample_plan_made, of "''prism''" False "''/s''" "''/p''"] by blast
qed

text \<open>
  In a rendered HAProxy configuration every rule has its routing line and its backend section, and every backend that
  a routing line names belongs to a rule of the snapshot, so that it has a section as well.
\<close>

theorem haproxy_backends_complete:
  assumes "renderHAProxyConfig socketFile pidFile s = Inr text"
  shows "\<exists>lines. text = unlines lines \<and>
    (\<forall>rule \<in> set (cs_Rules s). ''backend '' @ haproxyBackendName rule \<in> set lines \<and> set (haproxyRuleLines rule) \<subseteq> set lines) \<and>
    (\<forall>line \<in> set lines. names_backend line \<longrightarrow>
       (\<exists>rule \<in> set (cs_Rules s). line \<in> set (haproxyRuleLines rule) \<and> ''backend '' @ haproxyBackendName rule \<in> set lines))"
proof (intro exI[of _ "haproxyLines socketFile pidFile (cs_Rules s)"] conjI ballI impI)
  show "text = unlines (haproxyLines socketFile pidFile (cs_Rules s))"
    using assms by (simp add: render_haproxy_ok_iff)
  fix rule assume rule: "rule \<in> set (cs_Rules s)"
  show "''backend '' @ haproxyBackendName rule \<in> set (haproxyLines socketFile pidFile (cs_Rules s))"
    "set (haproxyRuleLines rule) \<subseteq> set (haproxyLines socketFile pidFile (cs_Rules s))"
    by (rule backend_line_present[OF rule])+
next
  fix line assume "line \<in> set (haproxyLines socketFile pidFile (cs_Rules s))" "names_backend line"
  from names_backend_rule[OF this] show "\<exists>rule \<in> set (cs_Rules s). line \<in> set (haproxyRuleLines rule) \<and>
      ''backend '' @ haproxyBackendName rule \<in> set (haproxyLines socketFile pidFile (cs_Rules s))"
    using backend_line_present(1)[of _ "cs_Rules s"] by blast
qed

lemma haproxy_backends_complete_witness:
  "\<exists>lines. unlines (haproxyLines ''/s'' ''/p'' [sample_sni_rule]) = unlines lines \<and> ''backend be_r1'' \<in> set lines"
proof -
  have ok: "haproxySupportsRule sample_sni_rule" "sniError sample_sni_rule = None" "haproxyBackendName sample_sni_rule = ''be_r1''"
    by code_simp+
  then have "renderHAProxyConfig ''/s'' ''/p'' (zero_snapshot\<lparr>cs_Rules := [sample_sni_rule]\<rparr>) =
      Inr (unlines (haproxyLines ''/s'' ''/p'' [sample_sni_rule]))"
    by (simp add: render_haproxy_ok_iff)
  from haproxy_backends_complete[OF this] ok(3) show ?thesis by auto
qed

text \<open>
  C27: For a target group with one bucket per priority, the servers that HAProxy prefers (those that are no backup) are
  exactly the endpoints the native engine chooses among, for either scheduler; HAProxy has none only when native has none.
\<close>

theorem haproxy_prefers_native_candidates:
  assumes "up_Type (rc_Upstream rule) = ''TARGET_GROUP''" "distinct (map pb_Priority (up_TargetGroup (rc_Upstream rule)))"
  shows "{pt_endpoint target | index target. (index, target, False) \<in> set (haproxyServers rule)} = set (activeTargetGroupCandidates rule) \<and>
    (haproxyServers rule = [] \<longleftrightarrow> activeTargetGroupCandidates rule = [])"
proof -
  define usable where "usable e \<longleftrightarrow> te_Enabled e \<and> \<not> (leastLoadRule rule \<and> te_Weight e \<le> 0)" for e :: TargetEndpoint
  define bs where "bs = up_TargetGroup (rc_Upstream rule)"
  obtain ts where ts: "upstreamTargets rule = Some ts"
      and mem: "\<And>t. t \<in> set ts \<longleftrightarrow> (\<exists>b \<in> set bs. pt_priority t = pb_Priority b \<and> pt_endpoint t \<in> set (pb_Targets b))"
    using group_targets[OF assms(1)] unfolding bs_def by blast
  have server: "becomesServer rule t \<longleftrightarrow> usable (pt_endpoint t)" for t by (simp add: becomesServer_def usable_def)
  have native: "activeTargetGroupCandidates rule = bestBucketLoop usable None bs"
    unfolding candidates_of_rule bs_def usable_def[abs_def] ..
  have better: "(\<exists>u \<in> set ts. becomesServer rule u \<and> pt_priority u < p) \<longleftrightarrow>
      (\<exists>c \<in> set bs. \<exists>e \<in> set (pb_Targets c). usable e \<and> pb_Priority c < p)" for p
    by (rule better_target) (simp_all add: mem server)
  have "e \<in> {pt_endpoint target | index target. (index, target, False) \<in> set (haproxyServers rule)} \<longleftrightarrow>
      e \<in> set (activeTargetGroupCandidates rule)" for e
  proof -
    have "e \<in> {pt_endpoint target | index target. (index, target, False) \<in> set (haproxyServers rule)} \<longleftrightarrow>
        (\<exists>t. pt_endpoint t = e \<and> (\<exists>index. (index, t, False) \<in> set (haproxyServers rule)))" by blast
    also have "\<dots> \<longleftrightarrow> (\<exists>t. pt_endpoint t = e \<and> t \<in> set ts \<and> usable e \<and>
        \<not> (\<exists>c \<in> set bs. \<exists>u \<in> set (pb_Targets c). usable u \<and> pb_Priority c < pt_priority t))"
      unfolding haproxyServers_set better[symmetric] using ts by (auto simp: server)
    also have "\<dots> \<longleftrightarrow> (\<exists>b \<in> set bs. e \<in> set (pb_Targets b) \<and> usable e \<and>
        \<not> (\<exists>c \<in> set bs. \<exists>u \<in> set (pb_Targets c). usable u \<and> pb_Priority c < pb_Priority b))"
      by (rule target_in_bucket) (rule mem)
    also have "\<dots> \<longleftrightarrow> e \<in> set (activeTargetGroupCandidates rule)"
      unfolding native by (rule candidates_exact[OF assms(2)[folded bs_def], symmetric])
    finally show ?thesis .
  qed
  moreover have "haproxyServers rule = [] \<longleftrightarrow> activeTargetGroupCandidates rule = []"
  proof -
    have "haproxyServers rule = [] \<longleftrightarrow> \<not> (\<exists>t backup. \<exists>index. (index, t, backup) \<in> set (haproxyServers rule))"
      by (cases "haproxyServers rule") auto
    also have "\<dots> \<longleftrightarrow> (\<forall>t \<in> set ts. \<not> usable (pt_endpoint t))"
      unfolding haproxyServers_set using ts by (auto simp: server)
    also have "\<dots> \<longleftrightarrow> (\<forall>b \<in> set bs. \<forall>e \<in> set (pb_Targets b). \<not> usable e)"
      by (rule no_target) (rule mem)
    finally show ?thesis unfolding native candidates_Nil .
  qed
  ultimately show ?thesis by blast
qed

lemma haproxy_prefers_native_candidates_witness:
  "{pt_endpoint target | index target. (index, target, False) \<in> set (haproxyServers sample_sni_rule)} = {sample_endpoint ''a''}"
proof -
  have "activeTargetGroupCandidates sample_sni_rule = [sample_endpoint ''a'']" by code_simp
  with haproxy_prefers_native_candidates[of sample_sni_rule] show ?thesis by (simp add: sample_sni_rule_def)
qed

end
