(* ===== verification/Nft_Counters.thy ===== *)
theory Nft_Counters
  imports Render_Facts
begin

text \<open>
  The counter of an nftables rule finds its way back: the kernel lists a rule with the packets and bytes after the word
  \<open>counter\<close>, and reading that line credits the rule it was rendered for.
\<close>

subsection \<open>The comment of a line\<close>

lemma comment_needs_quote: "CHR 0x22 \<notin> set s \<Longrightarrow> \<not> HasPrefix (s @ [CHR 0x22]) nft_comment"
proof
  assume q: "CHR 0x22 \<notin> set s" and "HasPrefix (s @ [CHR 0x22]) nft_comment"
  then obtain t where eq: "s @ [CHR 0x22] = nft_comment @ t" by (auto simp: HasPrefix_iff)
  then have "s = butlast (nft_comment @ t)" by (metis butlast_snoc)
  then have "CHR 0x22 \<in> set s" by (cases "t = []") (auto simp: nft_comment_def butlast_append)
  with q show False by simp
qed

lemma no_comment_before_quote: "CHR 0x22 \<notin> set s \<Longrightarrow> lastComment (s @ [CHR 0x22]) = None"
proof (induction s)
  case Nil
  then show ?case by (simp add: HasPrefix_def nft_comment_def)
next
  case (Cons c s)
  then show ?case using comment_needs_quote[of "c # s"] by simp
qed

lemma lastComment_append: "lastComment y = Some r \<Longrightarrow> lastComment (x @ y) = Some r"
  by (induction x) auto

definition id_char :: "char \<Rightarrow> bool" where
  "id_char c \<longleftrightarrow> c \<noteq> CHR 0x22 \<and> c \<noteq> CHR 0x5C \<and> c \<noteq> CHR '' ''"

lemma lastComment_here:
  assumes "list_all id_char ruleID" "ruleID \<noteq> []" "CHR 0x22 \<notin> set s"
  shows "lastComment (nft_comment @ ruleID @ CHR '' '' # s @ [CHR 0x22]) = Some ruleID"
proof -
  let ?rest = "ruleID @ CHR '' '' # s @ [CHR 0x22]"
  have "CHR 0x22 \<notin> set (''prism rule='' @ ruleID @ CHR '' '' # s)"
    using assms by (auto simp: list_all_iff id_char_def)
  from no_comment_before_quote[OF this] have none: "lastComment (''prism rule='' @ ?rest) = None" by simp
  have cut: "takeWhile (\<lambda>x. x \<noteq> CHR 0x22 \<and> x \<noteq> CHR '' '') ?rest = ruleID"
    using assms(1) by (subst takeWhile_append2) (auto simp: list_all_iff id_char_def)
  have full: "nft_comment @ ?rest = ''comment '' @ CHR 0x22 # ''prism rule='' @ ?rest" by (simp add: nft_comment_def)
  have "lastComment (''omment '' @ CHR 0x22 # ''prism rule='' @ ?rest) = None"
    using none by (simp add: HasPrefix_def nft_comment_def)
  moreover have "HasPrefix (nft_comment @ ?rest) nft_comment" "drop (length nft_comment) (nft_comment @ ?rest) = ?rest"
    by simp_all
  ultimately show ?thesis
    using cut assms(2) unfolding full by (simp add: nft_comment_def)
qed

subsection \<open>Numbers\<close>

lemma Itoa_digits: "0 \<le> i \<Longrightarrow> list_all is_digit (Itoa i)"
  by (simp add: Itoa_def digits_all_digit)

lemma quote_not_Itoa: "CHR 0x22 \<notin> set (Itoa i)"
  using digits_all_digit[of "nat i"] digits_all_digit[of "nat (- i)"] by (auto simp: Itoa_def list_all_iff is_digit_def)

lemma takeWhile_Itoa: "0 \<le> i \<Longrightarrow> \<not> is_digit c \<Longrightarrow> takeWhile is_digit (Itoa i @ c # s) = Itoa i"
  using Itoa_digits[of i] by (subst takeWhile_append2) (auto simp: list_all_iff)

lemma parseInt64_Itoa:
  assumes "0 \<le> i" "i < 2 ^ 63"
  shows "parseInt64 (Itoa i) = i"
proof -
  have trim: "TrimSpace (Itoa i) = Itoa i" using Itoa_graphic[of i] by (intro TrimSpace_id trimmed_graphic)
  have atoi: "Atoi (Itoa i) = Some i" using assms by (intro Atoi_Itoa) (simp add: i64_ok_def)
  show ?thesis
    using atoi assms unfolding parseInt64_def Atoi_def trim Let_def by (auto split: if_splits option.splits)
qed

subsection \<open>The counter of a line\<close>

lemma counterHere_line:
  assumes "0 \<le> packets" "0 \<le> bytes" "lastComment tail = Some ruleID" "tail = CHR '' '' # tail'"
  shows "counterHere (''counter packets '' @ Itoa packets @ '' bytes '' @ Itoa bytes @ tail) = Some (Itoa packets, Itoa bytes, ruleID)"
proof -
  have p: "takeWhile is_digit (Itoa packets @ '' bytes '' @ Itoa bytes @ tail) = Itoa packets"
    using takeWhile_Itoa[OF assms(1), of "CHR '' ''"] by (simp add: is_digit_def)
  have b: "takeWhile is_digit (Itoa bytes @ tail) = Itoa bytes"
    using takeWhile_Itoa[OF assms(2), of "CHR '' ''"] by (simp add: assms(4) is_digit_def)
  have ne: "Itoa packets \<noteq> []" "Itoa bytes \<noteq> []" by (simp_all add: Itoa_def digits.simps[of "nat _"])
  have pre: "HasPrefix (''counter packets '' @ x) ''counter packets ''" "HasPrefix ('' bytes '' @ x) '' bytes ''" for x
    by (rule HasPrefix_append)+
  have d16: "drop 16 (''counter packets '' @ x) = x" "drop 7 ('' bytes '' @ x) = x" for x by simp_all
  show ?thesis
    unfolding counterHere_def Let_def d16 p using pre ne b assms(3) by (simp add: d16)
qed

lemma no_counter_in_head:
  assumes head: "CHR ''k'' \<notin> set g" and digit: "is_digit d"
    and u: "u @ v = g @ [d, CHR '' '']" "v \<noteq> []"
  shows "\<not> HasPrefix (v @ x) ''counter packets ''"
proof
  assume pre: "HasPrefix (v @ x) ''counter packets ''"
  have nodigit: "\<not> is_digit (''counter packets '' ! i)" if "i < 16" for i
  proof -
    have "list_all (\<lambda>c. \<not> is_digit c) ''counter packets ''" by (simp add: is_digit_def)
    with that show ?thesis by (simp add: list_all_length)
  qed
  have len: "length ''counter packets '' = 16" by simp
  have take: "take 16 (v @ x) = ''counter packets ''" using pre unfolding HasPrefix_def len .
  have "v = [CHR '' ''] \<or> v = [d, CHR '' ''] \<or> (\<exists>w. v = w @ [d, CHR '' ''] \<and> set w \<subseteq> set g)"
    using u by (auto simp: append_eq_append_conv2 Cons_eq_append_conv append_eq_Cons_conv)
  then consider "v = [CHR '' '']" | w where "v = w @ [d, CHR '' '']" "set w \<subseteq> set g" by force
  then show False
  proof cases
    case 1
    then show False using take by simp
  next
    case (2 w)
    show False
    proof (cases "length w < 16")
      case True
      have "take 16 (v @ x) ! length w = d" using True 2 by (simp add: nth_append)
      with take nodigit[OF True] digit show False by simp
    next
      case False
      then have "take 16 w = ''counter packets ''" using take 2 by simp
      then have "CHR ''k'' \<in> set (take 16 w)" by simp
      then show False using head 2(2) set_take_subset[of 16 w] by auto
    qed
  qed
qed

lemma pattern_skips:
  assumes "\<And>u v. u @ v = h \<Longrightarrow> v \<noteq> [] \<Longrightarrow> \<not> HasPrefix (v @ x) ''counter packets ''" "counterHere x = Some m"
  shows "nftCounterPattern (h @ x) = Some m"
  using assms(1)
proof (induction h)
  case Nil
  obtain c cs where "x = c # cs" using assms(2) by (cases x) (auto simp: counterHere_def HasPrefix_def)
  then show ?case using assms(2) by simp
next
  case (Cons c h)
  have "counterHere (c # h @ x) = None" using Cons.prems[of "[]" "c # h"] by (simp add: counterHere_def)
  moreover have "nftCounterPattern (h @ x) = Some m"
    by (rule Cons.IH) (use Cons.prems[of "c # u" for u] in auto)
  ultimately show ?case by simp
qed

subsection \<open>A rendered line\<close>

lemma Contains_append: "Contains y sub \<Longrightarrow> Contains (x @ y) sub"
  by (induction x) auto

lemma Contains_here: "sub \<noteq> [] \<Longrightarrow> Contains (sub @ y) sub"
  using HasPrefix_append[of sub y] by (cases "sub @ y") auto

lemma Contains_mid: "sub \<noteq> [] \<Longrightarrow> Contains (x @ sub @ y) sub"
  by (intro Contains_append Contains_here)

lemma sanitizeComment_id: "list_all id_char s \<Longrightarrow> sanitizeComment s = s"
  by (induction s) (auto simp: sanitizeComment_def id_char_def)

lemma quote_not_sanitized: "CHR 0x22 \<notin> set (sanitizeComment s)"
  by (simp add: sanitizeComment_def)

lemma tail_comment:
  assumes "list_all id_char (rc_ID rule)" "rc_ID rule \<noteq> []"
  shows "lastComment (nftDnatTail snapshot rule target) = Some (rc_ID rule)"
proof -
  let ?s = "''version='' @ Itoa (cs_ConfigVersion snapshot) @ '' hash='' @ sanitizeComment (cs_ConfigHash snapshot)"
  have "CHR 0x22 \<notin> set ?s" by (simp add: quote_not_Itoa quote_not_sanitized)
  from lastComment_here[OF assms this]
  have "lastComment (nft_comment @ nftTag snapshot rule) = Some (rc_ID rule)"
    by (simp add: nftTag_def sanitizeComment_id[OF assms(1)])
  from lastComment_append[OF this] show ?thesis
    unfolding nftDnatTail_def Let_def by (metis append_assoc)
qed

definition address_char :: "char \<Rightarrow> bool" where
  "address_char c \<longleftrightarrow> is_hex c \<or> c = CHR ''.'' \<or> c = CHR '':''"

lemma head_form:
  assumes "list_all address_char (TrimSpace (rc_ListenIP rule))" "protocol \<in> {''tcp'', ''udp''}" "0 \<le> rc_Port rule"
  shows "\<exists>g d. nftDnatHead rule protocol = g @ [d] \<and> CHR ''k'' \<notin> set g \<and> is_digit d"
proof -
  have ne: "Itoa (rc_Port rule) \<noteq> []" by (simp add: Itoa_def digits.simps[of "nat _"])
  have digits: "list_all is_digit (Itoa (rc_Port rule))" using assms(3) by (rule Itoa_digits)
  let ?pre = "''    '' @ (let listenMatch = nftListenMatch (rc_ListenIP rule) in if listenMatch \<noteq> [] then listenMatch @ '' '' else []) @
     protocol @ '' dport '' "
  have "CHR ''k'' \<notin> set (TrimSpace (rc_ListenIP rule))"
    using assms(1) by (auto simp: list_all_iff address_char_def is_hex_def hex_value_def)
  then have "CHR ''k'' \<notin> set (nftListenMatch (rc_ListenIP rule))"
    by (simp add: nftListenMatch_def Let_def)
  then have "CHR ''k'' \<notin> set ?pre" using assms(2) by (auto simp: Let_def)
  moreover have "CHR ''k'' \<notin> set (butlast (Itoa (rc_Port rule)))"
    using digits by (auto simp: list_all_iff is_digit_def dest!: in_set_butlastD)
  moreover have "is_digit (last (Itoa (rc_Port rule)))" using digits ne by (simp add: list_all_iff)
  moreover have "nftDnatHead rule protocol = (?pre @ butlast (Itoa (rc_Port rule))) @ [last (Itoa (rc_Port rule))]"
    using ne by (simp add: nftDnatHead_def)
  ultimately show ?thesis
    by (intro exI[of _ "?pre @ butlast (Itoa (rc_Port rule))"] exI[of _ "last (Itoa (rc_Port rule))"]) simp
qed

text \<open>The line as the kernel lists it, with its counts.\<close>

definition listed :: "ConfigSnapshot \<Rightarrow> RuleConfig \<Rightarrow> TargetEndpoint \<Rightarrow> string \<Rightarrow> int \<Rightarrow> int \<Rightarrow> string" where
  "listed snapshot rule target protocol packets bytes =
     nftDnatHead rule protocol @ '' counter packets '' @ Itoa packets @ '' bytes '' @ Itoa bytes @ nftDnatTail snapshot rule target"

lemma listed_matches:
  assumes "list_all address_char (TrimSpace (rc_ListenIP rule))" "protocol \<in> {''tcp'', ''udp''}" "0 \<le> rc_Port rule"
    and "list_all id_char (rc_ID rule)" "rc_ID rule \<noteq> []" "0 \<le> packets" "0 \<le> bytes"
  shows "nftCounterPattern (listed snapshot rule target protocol packets bytes) = Some (Itoa packets, Itoa bytes, rc_ID rule)"
proof -
  obtain g d where gd: "nftDnatHead rule protocol = g @ [d]" "CHR ''k'' \<notin> set g" "is_digit d"
    using head_form[OF assms(1-3)] by blast
  let ?x = "''counter packets '' @ Itoa packets @ '' bytes '' @ Itoa bytes @ nftDnatTail snapshot rule target"
  obtain tail where "nftDnatTail snapshot rule target = CHR '' '' # tail" by (simp add: nftDnatTail_def Let_def)
  from counterHere_line[OF assms(6,7) tail_comment[OF assms(4,5)] this]
  have here: "counterHere ?x = Some (Itoa packets, Itoa bytes, rc_ID rule)" .
  have skip: "\<not> HasPrefix (v @ ?x) ''counter packets ''" if "u @ v = g @ [d, CHR '' '']" "v \<noteq> []" for u v
    using that by (rule no_counter_in_head[OF gd(2,3)])
  have "nftCounterPattern ((g @ [d, CHR '' '']) @ ?x) = Some (Itoa packets, Itoa bytes, rc_ID rule)"
    using skip here by (rule pattern_skips)
  then show ?thesis by (simp add: listed_def gd(1))
qed

subsection \<open>Property\<close>

text \<open>
  When the kernel lists a rendered DNAT line with its counts, reading the line adds the bytes to the rule the line was
  rendered for, and the packets too when the line is for UDP; the counters of other rules stay.
\<close>

theorem nft_counters_attributed:
  assumes "list_all address_char (TrimSpace (rc_ListenIP rule))" "protocol \<in> set (nftRuleProtocols (rc_Protocol rule))"
    and "0 \<le> rc_Port rule" "list_all id_char (rc_ID rule)" "rc_ID rule \<noteq> []"
    and "0 \<le> packets" "packets < 2 ^ 63" "0 \<le> bytes" "bytes < 2 ^ 63"
  shows "\<exists>s. nftLine (listed snapshot rule target protocol packets bytes) counters = counters(rc_ID rule \<mapsto> s) \<and>
    ms_UploadBytes s = i64 (ms_UploadBytes (managedAt counters (rc_ID rule)) + bytes) \<and>
    (protocol = ''udp'' \<longrightarrow> ms_UDPPackets s = i64 (ms_UDPPackets (managedAt counters (rc_ID rule)) + packets))"
proof -
  let ?line = "listed snapshot rule target protocol packets bytes"
  have proto: "protocol \<in> {''tcp'', ''udp''}" using assms(2) by (auto simp: nftRuleProtocols_def split: if_splits)
  have match: "nftCounterPattern ?line = Some (Itoa packets, Itoa bytes, rc_ID rule)"
    by (rule listed_matches[OF assms(1) proto assms(3-5,6,8)])
  have dnat: "Contains ?line '' dnat ''"
    using Contains_mid[of "'' dnat ''" "nftDnatHead rule protocol @ '' counter packets '' @ Itoa packets @ '' bytes '' @ Itoa bytes @
      '' meta mark set 0x70726973''"] by (simp add: listed_def nftDnatTail_def Let_def)
  have udp: "Contains ?line '' udp dport ''" if "protocol = ''udp''"
  proof -
    obtain a where "nftDnatHead rule ''udp'' = a @ '' udp dport '' @ Itoa (rc_Port rule)"
      by (cases "nftListenMatch (rc_ListenIP rule) = []") (auto simp: nftDnatHead_def Let_def)
    then show ?thesis using that Contains_mid[of "'' udp dport ''" a] by (simp add: listed_def)
  qed
  have nums: "parseInt64 (Itoa packets) = packets" "parseInt64 (Itoa bytes) = bytes"
    using assms by (simp_all add: parseInt64_Itoa)
  define s0 where "s0 = (managedAt counters (rc_ID rule))\<lparr>ms_UploadBytes := i64 (ms_UploadBytes (managedAt counters (rc_ID rule)) + bytes)\<rparr>"
  define s where "s = (if Contains ?line '' udp dport '' then s0\<lparr>ms_UDPPackets := i64 (ms_UDPPackets s0 + packets)\<rparr> else s0)"
  have "nftLine ?line counters = counters(rc_ID rule \<mapsto> s)"
    using dnat by (simp add: nftLine_def match nums Let_def s_def s0_def)
  moreover have "ms_UploadBytes s = i64 (ms_UploadBytes (managedAt counters (rc_ID rule)) + bytes)"
    by (simp add: s_def s0_def)
  moreover have "protocol = ''udp'' \<longrightarrow> ms_UDPPackets s = i64 (ms_UDPPackets (managedAt counters (rc_ID rule)) + packets)"
    using udp by (simp add: s_def s0_def)
  ultimately show ?thesis by blast
qed

lemma nft_counters_attributed_witness:
  "\<exists>s. nftLine (listed sample_snapshot sample_udp_rule (sample_endpoint ''a'') ''udp'' 3 400) Map.empty = [''r2'' \<mapsto> s] \<and>
    ms_UploadBytes s = 400 \<and> ms_UDPPackets s = 3"
proof -
  have "list_all address_char (TrimSpace (rc_ListenIP sample_udp_rule))" "''udp'' \<in> set (nftRuleProtocols (rc_Protocol sample_udp_rule))"
    "0 \<le> rc_Port sample_udp_rule" "list_all id_char (rc_ID sample_udp_rule)" "rc_ID sample_udp_rule = ''r2''"
    by code_simp+
  with nft_counters_attributed[of sample_udp_rule "''udp''" 3 400 sample_snapshot "sample_endpoint ''a''" Map.empty] show ?thesis
    by (simp add: managedAt_def zero_managed_def i64_nonneg_small)
qed

end
