(* ===== verification/Dataplane_Backends.thy ===== *)
theory Dataplane_Backends
  imports Dataplane_Render Supervisor
begin

text \<open>
  The three engines of \<open>pkg/core/dataplane\<close> as the manager drives them: \<open>native.go\<close>, and the parts of \<open>haproxy.go\<close> and
  \<open>nftables.go\<close> that write configurations, run commands and stop processes. The machine they run on has a state of an
  arbitrary type, and the record \<open>host\<close> holds what the program does with it: files, commands, signals, processes, the
  clock of a polling loop and the iteration order of maps. Nothing is assumed about these operations here.
\<close>

record 'w host =
  ho_stat :: "'w \<Rightarrow> string \<Rightarrow> bool"
  ho_readFile :: "'w \<Rightarrow> string \<Rightarrow> string + string"
  ho_mkdirAll :: "string \<Rightarrow> 'w \<Rightarrow> string option \<times> 'w"
  ho_writeFile :: "string \<Rightarrow> string \<Rightarrow> 'w \<Rightarrow> string option \<times> 'w"
  ho_rename :: "string \<Rightarrow> string \<Rightarrow> 'w \<Rightarrow> string option \<times> 'w"
  ho_remove :: "string \<Rightarrow> 'w \<Rightarrow> 'w"
  ho_CombinedOutput :: "string \<Rightarrow> string list \<Rightarrow> 'w \<Rightarrow> string \<times> string option \<times> 'w"
  ho_FindProcess :: "'w \<Rightarrow> int \<Rightarrow> bool"
  ho_SIGTERM :: "int \<Rightarrow> 'w \<Rightarrow> (bool \<times> string) option \<times> 'w"
  ho_alive :: "'w \<Rightarrow> int \<Rightarrow> bool"
  ho_readlink :: "'w \<Rightarrow> string \<Rightarrow> string option"
  ho_evalSymlinks :: "'w \<Rightarrow> string \<Rightarrow> string option"
  ho_polls :: "'w \<Rightarrow> nat"
  ho_sleep :: "'w \<Rightarrow> 'w"
  ho_probe :: "'w \<Rightarrow> string \<Rightarrow> string \<Rightarrow> string option"
  ho_linux :: bool
  ho_pid :: int
  ho_sha256hex :: "string \<Rightarrow> string"
  ho_lockIO :: "'w \<Rightarrow> lockIO"
  ho_lockOrder :: "'w \<Rightarrow> plannedRule list \<Rightarrow> dp_listenerKey list"
  ho_listen :: "'w \<Rightarrow> listenFn"
  ho_orders :: "'w \<Rightarrow> RuleConfig list \<Rightarrow> Supervisor \<Rightarrow> mapOrders"
  ho_sockets :: "listenerKey list \<Rightarrow> 'w \<Rightarrow> 'w"

text \<open>
  The fields that are not calls of the standard library: \<open>ho_SIGTERM\<close> tells whether a failed signal was \<open>ESRCH\<close>;
  \<open>ho_polls\<close> is how often the clock lets the loop of \<open>waitForManagedHAProxyExit\<close> run before its deadline; \<open>ho_probe\<close>
  is a listener that is opened and closed again; \<open>ho_sockets\<close> tells the machine which sockets the forwarder has open.
\<close>

subsection \<open>Steps that stop at the first error\<close>

type_synonym 's step = "'s \<Rightarrow> go_error option \<times> 's"

primrec run_steps :: "'s step list \<Rightarrow> 's step" where
  "run_steps [] s = (None, s)"
| "run_steps (f # fs) s = (case f s of (Some err, s) \<Rightarrow> (Some err, s) | (None, s) \<Rightarrow> run_steps fs s)"

definition plain :: "string option \<times> 's \<Rightarrow> go_error option \<times> 's" where
  "plain r = (map_option PlainError (fst r), snd r)"

lemma run_steps_ok:
  "run_steps (f # fs) s = (None, t) \<longleftrightarrow> (\<exists>u. f s = (None, u) \<and> run_steps fs u = (None, t))"
  by (auto split: prod.split option.split)

lemma run_steps_append:
  "run_steps (fs @ gs) s = (case run_steps fs s of (Some err, s) \<Rightarrow> (Some err, s) | (None, s) \<Rightarrow> run_steps gs s)"
  by (induction fs arbitrary: s) (auto split: prod.split option.split)

lemma plain_ok [simp]: "plain r = (None, t) \<longleftrightarrow> r = (None, t)"
  by (cases r) (auto simp: plain_def)

text \<open>What \<open>locks.go\<close> sees of the machine.\<close>

definition nftPath :: "Options \<Rightarrow> string" where
  "nftPath opts = orElse (op_NFTPath opts) ''nft''"

definition host_env :: "'w host \<Rightarrow> Options \<Rightarrow> 'w \<Rightarrow> hostEnv" where
  "host_env host opts w =
     \<lparr>he_pid = ho_pid host, he_alive = ho_alive host w,
      he_stat = (\<lambda>pid. case ho_readFile host w (filepath_Join [''/proc'', Itoa pid, ''stat'']) of
         Inl _ \<Rightarrow> None | Inr data \<Rightarrow> Some data),
      he_nft = (\<lambda>table. let (output, err, _) = ho_CombinedOutput host (TrimSpace (nftPath opts)) [''list'', ''table'', ''inet'', table] w
         in (err \<noteq> None, output)),
      he_sha256hex = ho_sha256hex host\<rparr>"

subsection \<open>native.go\<close>

definition native_Apply :: "'w host \<Rightarrow> ConfigSnapshot \<Rightarrow> Supervisor \<times> 'w \<Rightarrow> go_error option \<times> Supervisor \<times> 'w" where
  "native_Apply host snapshot = (\<lambda>(S, w).
     let (err, S) = supervisor_Apply (ho_listen host w) (ho_orders host w (cs_Rules snapshot) S) snapshot S
     in (err, S, ho_sockets host (sv_open S) w))"

definition native_CleanupOwnedState :: "'w host \<Rightarrow> Supervisor \<times> 'w \<Rightarrow> go_error option \<times> Supervisor \<times> 'w" where
  "native_CleanupOwnedState host = native_Apply host zero_snapshot"

definition native_Close :: "'w host \<Rightarrow> Supervisor \<times> 'w \<Rightarrow> Supervisor \<times> 'w" where
  "native_Close host = (\<lambda>(S, w).
     let S = supervisor_Close (ho_orders host w [] S) S in (S, ho_sockets host (sv_open S) w))"

subsection \<open>haproxy.go: paths and processes\<close>

record haproxyPaths =
  hp_configDir :: string
  hp_runDir :: string
  hp_pidFile :: string
  hp_socketFile :: string

definition haproxy_paths :: "Options \<Rightarrow> haproxyPaths" where
  "haproxy_paths opts =
     (let runDir = filepath_Join [op_RunDir opts, ''dataplane'', sanitizeName (op_InstanceID opts), ''haproxy''] in
      \<lparr>hp_configDir = filepath_Join [op_StateDir opts, ''haproxy''], hp_runDir = runDir,
       hp_pidFile = filepath_Join [runDir, ''haproxy.pid''], hp_socketFile = filepath_Join [runDir, ''haproxy.sock'']\<rparr>)"

definition haproxyPath :: "Options \<Rightarrow> string" where
  "haproxyPath opts =
     orElse (op_HAProxyPath opts) (filepath_Join [op_InstallDir opts, ''current'', ''dataplane'', ''haproxy'', ''haproxy''])"

definition pathIsInstalledHAProxyExecutable :: "Options \<Rightarrow> string \<Rightarrow> bool" where
  "pathIsInstalledHAProxyExecutable opts path =
     (let value = filepath_Clean (TrimSpace path); base = filepath_Base value; installDir = filepath_Clean (op_InstallDir opts) in
      if value = ''.'' then False
      else if base \<noteq> ''haproxy'' \<and> base \<noteq> ''haproxy.bin'' then False
      else if installDir = ''.'' \<or> installDir = [] then False
      else if value \<noteq> installDir \<and> \<not> HasPrefix value (installDir @ ''/'') then False
      else Contains value ''/dataplane/haproxy/'')"

definition resolved :: "'w host \<Rightarrow> 'w \<Rightarrow> string \<Rightarrow> string" where
  "resolved host w path = (case ho_evalSymlinks host w path of None \<Rightarrow> path | Some p \<Rightarrow> p)"

definition pathIsManagedHAProxyExecutable :: "'w host \<Rightarrow> Options \<Rightarrow> 'w \<Rightarrow> string \<Rightarrow> bool" where
  "pathIsManagedHAProxyExecutable host opts w path =
     (let actual = TrimSpace path in
      if actual = [] then False
      else
        (let expectedWrapper = resolved host w (haproxyPath opts);
             expectedBinary = resolved host w (filepath_Join [filepath_Dir (haproxyPath opts), ''haproxy.bin'']);
             actualResolved = resolved host w actual in
         if actualResolved = expectedWrapper \<or> actualResolved = expectedBinary then True
         else pathIsInstalledHAProxyExecutable opts actual \<or> pathIsInstalledHAProxyExecutable opts actualResolved))"

definition pidLooksLikeManagedHAProxy :: "'w host \<Rightarrow> Options \<Rightarrow> 'w \<Rightarrow> int \<Rightarrow> bool" where
  "pidLooksLikeManagedHAProxy host opts w pid =
     (let byExe = (case ho_readlink host w (filepath_Join [''/proc'', Itoa pid, ''exe'']) of
            None \<Rightarrow> False | Some exe \<Rightarrow> pathIsManagedHAProxyExecutable host opts w exe) in
      if byExe then True
      else case ho_readFile host w (filepath_Join [''/proc'', Itoa pid, ''cmdline'']) of
        Inl _ \<Rightarrow> False
      | Inr cmdline \<Rightarrow> list_ex (pathIsManagedHAProxyExecutable host opts w) (Split (CHR 0x00) cmdline))"

definition readPID :: "'w host \<Rightarrow> 'w \<Rightarrow> string \<Rightarrow> string" where
  "readPID host w path = (case ho_readFile host w path of Inl _ \<Rightarrow> [] | Inr data \<Rightarrow> TrimSpace data)"

definition managedHAProxyPID :: "'w host \<Rightarrow> Options \<Rightarrow> 'w \<Rightarrow> string" where
  "managedHAProxyPID host opts w =
     (let pid = readPID host w (hp_pidFile (haproxy_paths opts)) in
      if pid = [] then []
      else case Atoi pid of
        None \<Rightarrow> []
      | Some value \<Rightarrow>
          if value \<le> 0 then [] else if \<not> pidLooksLikeManagedHAProxy host opts w value then [] else pid)"

definition removeRuntimeFiles :: "'w host \<Rightarrow> Options \<Rightarrow> 'w \<Rightarrow> 'w" where
  "removeRuntimeFiles host opts w =
     ho_remove host (hp_socketFile (haproxy_paths opts)) (ho_remove host (hp_pidFile (haproxy_paths opts)) w)"

primrec waitLoop :: "nat \<Rightarrow> 'w host \<Rightarrow> Options \<Rightarrow> int \<Rightarrow> 'w \<Rightarrow> go_error option \<times> 'w" where
  "waitLoop 0 host opts pid w = (Some (PlainError (''timed out waiting for managed HAProxy pid '' @ Itoa pid @ '' to exit'')), w)"
| "waitLoop (Suc n) host opts pid w =
     (if \<not> processAlive (host_env host opts w) (Itoa pid) \<or> \<not> pidLooksLikeManagedHAProxy host opts w pid then (None, w)
      else waitLoop n host opts pid (ho_sleep host w))"

definition waitForManagedHAProxyExit :: "'w host \<Rightarrow> Options \<Rightarrow> int \<Rightarrow> 'w \<Rightarrow> go_error option \<times> 'w" where
  "waitForManagedHAProxyExit host opts pid w = waitLoop (ho_polls host w) host opts pid w"

definition stopOwnedProcess :: "'w host \<Rightarrow> Options \<Rightarrow> 'w step" where
  "stopOwnedProcess host opts w =
     (let pid = readPID host w (hp_pidFile (haproxy_paths opts)); gone = (\<lambda>w. (None, removeRuntimeFiles host opts w)) in
      if pid = [] then gone w
      else case Atoi pid of
        None \<Rightarrow> gone w
      | Some value \<Rightarrow>
          if value \<le> 0 then gone w
          else if \<not> ho_FindProcess host w value then gone w
          else if \<not> pidLooksLikeManagedHAProxy host opts w value then gone w
          else (case ho_SIGTERM host value w of
             (Some (esrch, err), w) \<Rightarrow>
               if esrch \<or> \<not> processAlive (host_env host opts w) pid then gone w
               else (Some (PlainError (''stop managed HAProxy pid '' @ Itoa value @ '': '' @ err)), w)
           | (None, w) \<Rightarrow>
               (case waitForManagedHAProxyExit host opts value w of
                  (Some err, w) \<Rightarrow> (Some err, w)
                | (None, w) \<Rightarrow> gone w)))"

subsection \<open>haproxy.go: Apply\<close>

definition unsupportedBackendDetails :: "RuleConfig list \<Rightarrow> string \<Rightarrow> string \<Rightarrow> ConfigApplyErrorDetail list" where
  "unsupportedBackendDetails rules dataplane message = map (\<lambda>rule. unsupportedRuleError rule dataplane message) rules"

definition haproxyValidateDetails :: "RuleConfig list \<Rightarrow> string \<Rightarrow> ConfigApplyErrorDetail list" where
  "haproxyValidateDetails rules message =
     map (\<lambda>rule. (unsupportedRuleError rule ModeHAProxy message)\<lparr>ed_Code := ''HAPROXY_VALIDATE_FAILED''\<rparr>) rules"

definition haproxyTmpConfig :: "Options \<Rightarrow> ConfigSnapshot \<Rightarrow> string" where
  "haproxyTmpConfig opts snapshot =
     filepath_Join [hp_configDir (haproxy_paths opts), ''.'' @ Itoa (cs_ConfigVersion snapshot) @ ''.cfg.tmp'']"

definition haproxyActiveConfig :: "Options \<Rightarrow> string" where
  "haproxyActiveConfig opts = filepath_Join [hp_configDir (haproxy_paths opts), ''active.cfg'']"

definition haproxy_validate :: "'w host \<Rightarrow> Options \<Rightarrow> ConfigSnapshot \<Rightarrow> 'w step" where
  "haproxy_validate host opts snapshot w =
     (case ho_CombinedOutput host (haproxyPath opts) [''-c'', ''-f'', haproxyTmpConfig opts snapshot] w of
        (output, Some _, w) \<Rightarrow>
          (Some (ApplyError (configApplyError (TrimSpace output) (haproxyValidateDetails (cs_Rules snapshot) (TrimSpace output)))), w)
      | (output, None, w) \<Rightarrow> (None, w))"

definition haproxyStartArgs :: "'w host \<Rightarrow> Options \<Rightarrow> 'w \<Rightarrow> string list" where
  "haproxyStartArgs host opts w =
     (let paths = haproxy_paths opts; oldPID = managedHAProxyPID host opts w in
      [''-D'', ''-f'', haproxyActiveConfig opts, ''-p'', hp_pidFile paths] @
      (if oldPID \<noteq> [] then (if ho_stat host w (hp_socketFile paths) then [''-x'', hp_socketFile paths] else []) @ [''-sf'', oldPID] else []))"

definition haproxy_start :: "'w host \<Rightarrow> Options \<Rightarrow> ConfigSnapshot \<Rightarrow> 'w step" where
  "haproxy_start host opts snapshot w =
     (case ho_CombinedOutput host (haproxyPath opts) (haproxyStartArgs host opts w) w of
        (output, Some err, w) \<Rightarrow>
          (let message = (if TrimSpace output = [] then err else TrimSpace output) in
           (Some (ApplyError (configApplyError message (unsupportedBackendDetails (cs_Rules snapshot) ModeHAProxy message))), w))
      | (output, None, w) \<Rightarrow> (None, w))"

definition haproxy_install :: "'w host \<Rightarrow> Options \<Rightarrow> ConfigSnapshot \<Rightarrow> 'w step" where
  "haproxy_install host opts snapshot w =
     (let paths = haproxy_paths opts in
      if \<not> ho_stat host w (haproxyPath opts) then
        (Some (ApplyError (configApplyError ''Prism managed HAProxy binary is unavailable''
          (unsupportedBackendDetails (cs_Rules snapshot) ModeHAProxy ''HAProxy binary is not installed''))), w)
      else case renderHAProxyConfig (hp_socketFile paths) (hp_pidFile paths) snapshot of
        Inl err \<Rightarrow> (Some (ApplyError err), w)
      | Inr rendered \<Rightarrow> run_steps
          [\<lambda>w. plain (ho_mkdirAll host (hp_configDir paths) w),
           \<lambda>w. plain (ho_mkdirAll host (hp_runDir paths) w),
           \<lambda>w. plain (ho_writeFile host (haproxyTmpConfig opts snapshot) rendered w),
           haproxy_validate host opts snapshot,
           \<lambda>w. plain (ho_rename host (haproxyTmpConfig opts snapshot) (haproxyActiveConfig opts) w),
           haproxy_start host opts snapshot] w)"

definition haproxy_Apply :: "'w host \<Rightarrow> Options \<Rightarrow> ConfigSnapshot \<Rightarrow> (HAProxyMetrics \<times> 'w) step" where
  "haproxy_Apply host opts snapshot = (\<lambda>(backend, w).
     if cs_Rules snapshot = [] then (let (err, w) = stopOwnedProcess host opts w in (err, backend, w))
     else case haproxy_install host opts snapshot w of
       (Some err, w) \<Rightarrow> (Some err, backend, w)
     | (None, w) \<Rightarrow> (None, backend\<lparr>hm_ruleIDs := Some (haproxyRuleNames (cs_Rules snapshot))\<rparr>, w))"

subsection \<open>nftables.go\<close>

definition tableName :: "'w host \<Rightarrow> Options \<Rightarrow> string" where
  "tableName host opts = nftablesTableNameForInstance (ho_sha256hex host) (op_InstanceID opts)"

definition nftablesApplyDetails :: "RuleConfig list \<Rightarrow> string \<Rightarrow> ConfigApplyErrorDetail list" where
  "nftablesApplyDetails rules message =
     map (\<lambda>rule. (unsupportedRuleError rule ModeNFTables message)\<lparr>ed_Code := ''NFTABLES_LOCKED''\<rparr>) rules"

text \<open>Every call passes no rules, so that the error is about the rule \<open>nftables-cleanup\<close>.\<close>

definition cleanupTable :: "'w host \<Rightarrow> Options \<Rightarrow> RuleConfig list \<Rightarrow> 'w step" where
  "cleanupTable host opts rules w =
     (case ho_CombinedOutput host (nftPath opts) [''destroy'', ''table'', ''inet'', tableName host opts] w of
        (output, None, w) \<Rightarrow> (None, w)
      | (output, Some err, w) \<Rightarrow>
          (let message = TrimSpace output in
           if message \<noteq> [] \<and> nftTableMissing message then (None, w)
           else
             (let message = (if message = [] then err else message);
                  rules = (if rules = [] then [zero_rule\<lparr>rc_ID := ''nftables-cleanup'', rc_Protocol := ProtocolTCPUDP,
                    rc_ListenIP := ''0.0.0.0'', rc_Port := 0, rc_MatchType := MatchTypeAnyInbound\<rparr>] else rules) in
              (Some (ApplyError (configApplyError message (nftablesApplyDetails rules message))), w))))"

definition tableExists :: "'w host \<Rightarrow> Options \<Rightarrow> 'w \<Rightarrow> bool \<times> 'w" where
  "tableExists host opts w =
     (let (_, err, w) = ho_CombinedOutput host (nftPath opts) [''list'', ''table'', ''inet'', tableName host opts] w in (err = None, w))"

definition listenerNetwork :: "string \<Rightarrow> string \<Rightarrow> string" where
  "listenerNetwork base listenIP =
     (let p = ParseIP (TrimCut ''[]'' (TrimSpace listenIP)) in
      if p = [] then base else if To4 p = [] then base @ ''6'' else base @ ''4'')"

definition probeListenerAvailable :: "'w host \<Rightarrow> 'w \<Rightarrow> dp_listenerKey \<Rightarrow> string option" where
  "probeListenerAvailable host w key =
     ho_probe host w (listenerNetwork (if dk_protocol key = ProtocolUDP then ''udp'' else ''tcp'') (dk_listenIP key))
       (JoinHostPort (dk_listenIP key) (Itoa (dk_port key)))"

definition targetEnabled :: "RuleConfig \<Rightarrow> bool" where
  "targetEnabled rule = (case up_Target (rc_Upstream rule) of None \<Rightarrow> False | Some target \<Rightarrow> te_Enabled target)"

definition checkNFTablesListenersAvailable :: "'w host \<Rightarrow> 'w \<Rightarrow> RuleConfig list \<Rightarrow> go_error option" where
  "checkNFTablesListenersAvailable host w rules =
     (let used = filter targetEnabled rules;
          keys = sort_key dp_listenerKeyString (remdups (concat (map listenerKeysForRule used))) in
      firstError (\<lambda>key. map_option (\<lambda>err. ApplyError (configApplyError err
        [listenerError ''LISTENER_OWNED_BY_EXTERNAL_PROCESS'' key (filter (\<lambda>rule. List.member (listenerKeysForRule rule) key) used)
           ModeNFTables ''external'' err])) (probeListenerAvailable host w key)) keys)"

definition nftTargetRequiresForwarding :: "ip \<Rightarrow> bool" where
  "nftTargetRequiresForwarding p \<longleftrightarrow> \<not> IsLoopback p \<and> \<not> IsUnspecified p"

definition requireSysctlEnabled :: "'w host \<Rightarrow> 'w \<Rightarrow> string \<Rightarrow> string \<Rightarrow> RuleConfig list \<Rightarrow> go_error option" where
  "requireSysctlEnabled host w path message rules =
     (case ho_readFile host w path of
        Inl err \<Rightarrow> Some (ApplyError (configApplyError (message @ '': '' @ err) (unsupportedBackendDetails rules ModeNFTables message)))
      | Inr data \<Rightarrow>
          if TrimSpace data \<noteq> ''1'' then Some (ApplyError (configApplyError message (unsupportedBackendDetails rules ModeNFTables message)))
          else None)"

text \<open>The addresses of the targets that need the kernel to forward.\<close>

definition forwardedTargets :: "RuleConfig list \<Rightarrow> ip list" where
  "forwardedTargets rules =
     filter (\<lambda>p. p \<noteq> [] \<and> nftTargetRequiresForwarding p)
       (map (\<lambda>rule. ParseIP (te_Host (the (up_Target (rc_Upstream rule))))) (filter targetEnabled rules))"

definition checkNFTablesKernelForwarding :: "'w host \<Rightarrow> 'w \<Rightarrow> RuleConfig list \<Rightarrow> go_error option" where
  "checkNFTablesKernelForwarding host w rules =
     (if \<not> ho_linux host then None
      else
        (let needsIPv4 = list_ex (\<lambda>p. To4 p \<noteq> []) (forwardedTargets rules);
             needsIPv6 = list_ex (\<lambda>p. To4 p = []) (forwardedTargets rules);
             err4 = (if needsIPv4 then requireSysctlEnabled host w ''/proc/sys/net/ipv4/ip_forward'' ''IPv4 forwarding is disabled'' rules
                     else None) in
         case err4 of
           Some err \<Rightarrow> Some err
         | None \<Rightarrow> if needsIPv6 then
             requireSysctlEnabled host w ''/proc/sys/net/ipv6/conf/all/forwarding'' ''IPv6 forwarding is disabled'' rules
           else None))"

definition nftConfigPath :: "Options \<Rightarrow> ConfigSnapshot \<Rightarrow> string" where
  "nftConfigPath opts snapshot =
     filepath_Join [filepath_Join [op_StateDir opts, ''nftables''], Itoa (cs_ConfigVersion snapshot) @ ''.nft'']"

definition nft_load :: "'w host \<Rightarrow> Options \<Rightarrow> ConfigSnapshot \<Rightarrow> 'w step" where
  "nft_load host opts snapshot w =
     (case ho_CombinedOutput host (nftPath opts) [''-f'', nftConfigPath opts snapshot] w of
        (output, Some _, w) \<Rightarrow>
          (Some (ApplyError (configApplyError (TrimSpace output) (nftablesApplyDetails (cs_Rules snapshot) (TrimSpace output)))), w)
      | (output, None, w) \<Rightarrow> (None, w))"

definition nft_write :: "'w host \<Rightarrow> Options \<Rightarrow> ConfigSnapshot \<Rightarrow> 'w step" where
  "nft_write host opts snapshot w =
     (let (replaceExisting, w) = tableExists host opts w in
      case renderNFTablesConfig snapshot (tableName host opts) replaceExisting of
        Inl err \<Rightarrow> (Some (ApplyError err), w)
      | Inr rendered \<Rightarrow> plain (ho_writeFile host (nftConfigPath opts snapshot) rendered w))"

definition nft_Apply :: "'w host \<Rightarrow> Options \<Rightarrow> ConfigSnapshot \<Rightarrow> 'w step" where
  "nft_Apply host opts snapshot w =
     (if cs_Rules snapshot = [] then cleanupTable host opts [] w
      else run_steps
        [\<lambda>w. (firstError (\<lambda>rule. if nftablesSupportsRule rule then None
              else Some (ApplyError (configApplyError ''nftables does not support this rule''
                [unsupportedRuleError rule ModeNFTables ''unsupported nftables rule'']))) (cs_Rules snapshot), w),
         \<lambda>w. (checkNFTablesListenersAvailable host w (cs_Rules snapshot), w),
         \<lambda>w. (if op_ExternalBackends opts then checkNFTablesKernelForwarding host w (cs_Rules snapshot) else None, w),
         \<lambda>w. plain (ho_mkdirAll host (filepath_Join [op_StateDir opts, ''nftables'']) w),
         nft_write host opts snapshot,
         nft_load host opts snapshot] w)"

end
