(* ===== verification/Dataplane_Manager.thy ===== *)
theory Dataplane_Manager
  imports Dataplane_Backends
begin

text \<open>
  \<open>dataplane.Manager\<close> of \<open>manager.go\<close>: it plans a snapshot, takes the listener locks, brings the three engines from the
  previous snapshot to the new one, and goes back when an engine refuses. The lock directory is kept apart from the rest of
  the machine.
\<close>

record 'w Manager =
  mg_native :: Supervisor
  mg_haproxy :: HAProxyMetrics
  mg_nft :: managedCounters
  mg_last :: "ConfigSnapshot option"
  mg_resolved :: "string \<rightharpoonup> string"
  mg_dir :: lockDir
  mg_world :: 'w

definition NewManager :: "int \<Rightarrow> lockDir \<Rightarrow> 'w \<Rightarrow> 'w Manager" where
  "NewManager now dir w =
     \<lparr>mg_native = NewSupervisor now, mg_haproxy = \<lparr>hm_last = Map.empty, hm_ruleIDs = None\<rparr>, mg_nft = Map.empty,
      mg_last = None, mg_resolved = Map.empty, mg_dir = dir, mg_world = w\<rparr>"

subsection \<open>The engines as steps of the manager\<close>

definition on_native :: "'w host \<Rightarrow> ConfigSnapshot \<Rightarrow> 'w Manager step" where
  "on_native host snapshot M =
     (let (err, S, w) = native_Apply host snapshot (mg_native M, mg_world M) in (err, M\<lparr>mg_native := S, mg_world := w\<rparr>))"

definition on_haproxy :: "'w host \<Rightarrow> Options \<Rightarrow> ConfigSnapshot \<Rightarrow> 'w Manager step" where
  "on_haproxy host opts snapshot M =
     (let (err, h, w) = haproxy_Apply host opts snapshot (mg_haproxy M, mg_world M) in (err, M\<lparr>mg_haproxy := h, mg_world := w\<rparr>))"

definition on_nft :: "'w host \<Rightarrow> Options \<Rightarrow> ConfigSnapshot \<Rightarrow> 'w Manager step" where
  "on_nft host opts snapshot M =
     (let (err, w) = nft_Apply host opts snapshot (mg_world M) in (err, M\<lparr>mg_world := w\<rparr>))"

definition annotateBackendErrors :: "string \<Rightarrow> go_error \<Rightarrow> go_error" where
  "annotateBackendErrors dataplane err =
     (let details = StructuredApplyErrors (Some err) in
      if details = [] then err
      else ApplyError (configApplyError (Error_string err)
        (map (\<lambda>d. if ed_Dataplane d = [] then d\<lparr>ed_Dataplane := dataplane\<rparr> else d) details)))"

definition annotated :: "string \<Rightarrow> 's step \<Rightarrow> 's step" where
  "annotated dataplane f s = (let (err, s) = f s in (map_option (annotateBackendErrors dataplane) err, s))"

definition ignoring :: "'s step \<Rightarrow> 's step" where
  "ignoring f s = (None, snd (f s))"

text \<open>\<open>CleanupOwnedState\<close> goes on after an error and returns the first one.\<close>

primrec run_all :: "'s step list \<Rightarrow> 's step" where
  "run_all [] s = (None, s)"
| "run_all (f # fs) s =
     (let (err, s) = f s; (later, s) = run_all fs s in (case err of None \<Rightarrow> later | Some e \<Rightarrow> Some e, s))"

definition manager_CleanupOwnedState :: "'w host \<Rightarrow> Options \<Rightarrow> 'w Manager step" where
  "manager_CleanupOwnedState host opts =
     run_all [on_nft host opts zero_snapshot, on_haproxy host opts zero_snapshot, on_native host zero_snapshot]"

definition manager_Close :: "'w host \<Rightarrow> Options \<Rightarrow> 'w Manager step" where
  "manager_Close host opts =
     run_all [on_nft host opts zero_snapshot, on_haproxy host opts zero_snapshot, on_native host zero_snapshot,
       \<lambda>M. let (S, w) = native_Close host (mg_native M, mg_world M) in (None, M\<lparr>mg_native := S, mg_world := w\<rparr>)]"

subsection \<open>Locks\<close>

definition manager_env :: "'w host \<Rightarrow> Options \<Rightarrow> 'w Manager \<Rightarrow> hostEnv" where
  "manager_env host opts M = host_env host opts (mg_world M)"

definition ensureLocks :: "'w host \<Rightarrow> Options \<Rightarrow> plan \<Rightarrow> 'w Manager step" where
  "ensureLocks host opts p M =
     (let (err, dir) = ensureExternalListenerLocks opts (manager_env host opts M) (ho_lockIO host (mg_world M))
            (ho_lockOrder host (mg_world M) (pl_planned p)) p (mg_dir M)
      in (err, M\<lparr>mg_dir := dir\<rparr>))"

definition releaseLocks :: "'w host \<Rightarrow> Options \<Rightarrow> plan \<Rightarrow> 'w Manager \<Rightarrow> 'w Manager" where
  "releaseLocks host opts p M =
     M\<lparr>mg_dir := releaseExternalListenerLocks opts (manager_env host opts M) (ho_lockIO host (mg_world M)) p (mg_dir M)\<rparr>"

definition removeStaleLocks :: "'w host \<Rightarrow> Options \<Rightarrow> plan \<Rightarrow> 'w Manager step" where
  "removeStaleLocks host opts p M =
     (let (err, dir) = removeStaleExternalListenerLocks opts (manager_env host opts M) (ho_lockIO host (mg_world M)) p (mg_dir M)
      in (err, M\<lparr>mg_dir := dir\<rparr>))"

definition ensureNoLiveLocks :: "'w host \<Rightarrow> Options \<Rightarrow> plan \<Rightarrow> 'w Manager step" where
  "ensureNoLiveLocks host opts p M =
     (let (err, dir) = ensureNoLiveOwnedListenerLocksFromOtherProcess opts (manager_env host opts M) (ho_lockIO host (mg_world M))
            (ho_lockOrder host (mg_world M) (pl_planned p)) p (mg_dir M)
      in (err, M\<lparr>mg_dir := dir\<rparr>))"

definition listenerLockDirExists :: "'w host \<Rightarrow> 'w Manager \<Rightarrow> bool" where
  "listenerLockDirExists host M \<longleftrightarrow> io_statErr (ho_lockIO host (mg_world M)) = None \<and> ld_exists (mg_dir M)"

subsection \<open>From one snapshot to the next\<close>

definition snapshotHasDataplane :: "Options \<Rightarrow> ConfigSnapshot option \<Rightarrow> string \<Rightarrow> bool" where
  "snapshotHasDataplane opts previous dataplane =
     (case previous of
        None \<Rightarrow> False
      | Some snapshot \<Rightarrow>
          (case manager_plan (op_Mode opts) snapshot of Inl _ \<Rightarrow> False | Inr p \<Rightarrow> length (pl_rules p dataplane) > 0))"

definition snapshotHasManaged :: "Options \<Rightarrow> ConfigSnapshot option \<Rightarrow> bool" where
  "snapshotHasManaged opts previous \<longleftrightarrow>
     snapshotHasDataplane opts previous ModeHAProxy \<or> snapshotHasDataplane opts previous ModeNFTables"

definition dp_listenerKeySet :: "RuleConfig list \<Rightarrow> dp_listenerKey list" where
  "dp_listenerKeySet rules = concat (map listenerKeysForRule rules)"

definition hasOutgoingListener :: "plan \<Rightarrow> plan \<Rightarrow> string \<Rightarrow> bool" where
  "hasOutgoingListener previous current dataplane =
     list_ex (\<lambda>key. \<not> List.member (dp_listenerKeySet (pl_rules current dataplane)) key) (dp_listenerKeySet (pl_rules previous dataplane))"

definition retainedExternalRules :: "plan \<Rightarrow> plan \<Rightarrow> string \<Rightarrow> RuleConfig list" where
  "retainedExternalRules previous current dataplane =
     filter (\<lambda>rule. list_ex (List.member (dp_listenerKeySet (pl_rules previous dataplane))) (listenerKeysForRule rule))
       (pl_rules current dataplane)"

definition stopOutgoingExternalBackends ::
    "'w host \<Rightarrow> Options \<Rightarrow> ConfigSnapshot option \<Rightarrow> plan \<Rightarrow> ConfigSnapshot \<Rightarrow> 'w Manager step" where
  "stopOutgoingExternalBackends host opts previous current base M =
     (case previous of
        None \<Rightarrow> (None, M)
      | Some snapshot \<Rightarrow>
          (case manager_plan (op_Mode opts) snapshot of
             Inl _ \<Rightarrow> (None, M)
           | Inr previousPlan \<Rightarrow> run_steps
               [\<lambda>M. if hasOutgoingListener previousPlan current ModeHAProxy then annotated ModeHAProxy
                      (on_haproxy host opts (base\<lparr>cs_Rules := retainedExternalRules previousPlan current ModeHAProxy\<rparr>)) M else (None, M),
                \<lambda>M. if hasOutgoingListener previousPlan current ModeNFTables then annotated ModeNFTables
                      (on_nft host opts (base\<lparr>cs_Rules := retainedExternalRules previousPlan current ModeNFTables\<rparr>)) M else (None, M)] M))"

definition cleanupOwnedExternalBackends :: "'w host \<Rightarrow> Options \<Rightarrow> plan \<Rightarrow> 'w Manager step" where
  "cleanupOwnedExternalBackends host opts p =
     run_steps
       [annotated ModeHAProxy (on_haproxy host opts zero_snapshot),
        if length (pl_rules p ModeNFTables) > 0 then annotated ModeNFTables (on_nft host opts zero_snapshot)
        else ignoring (on_nft host opts zero_snapshot)]"

definition restorePreviousListenerLocks :: "'w host \<Rightarrow> Options \<Rightarrow> ConfigSnapshot option \<Rightarrow> plan \<Rightarrow> 'w Manager \<Rightarrow> 'w Manager" where
  "restorePreviousListenerLocks host opts previous current M =
     (let M = releaseLocks host opts current M in
      case previous of
        None \<Rightarrow> M
      | Some snapshot \<Rightarrow>
          (case manager_plan (op_Mode opts) snapshot of Inl _ \<Rightarrow> M | Inr previousPlan \<Rightarrow> snd (ensureLocks host opts previousPlan M)))"

definition rollbackSteps :: "'w host \<Rightarrow> Options \<Rightarrow> ConfigSnapshot \<Rightarrow> plan \<Rightarrow> 'w Manager step list" where
  "rollbackSteps host opts previous p =
     [on_native host zero_snapshot,
      on_haproxy host opts (snapshotFor p ModeHAProxy previous),
      on_nft host opts (snapshotFor p ModeNFTables previous),
      on_native host (snapshotFor p ModeNative previous),
      ensureLocks host opts p]"

definition rollbackAfterFailedApply :: "'w host \<Rightarrow> Options \<Rightarrow> ConfigSnapshot option \<Rightarrow> plan \<Rightarrow> 'w Manager \<Rightarrow> 'w Manager" where
  "rollbackAfterFailedApply host opts previous current M =
     (case previous of
        None \<Rightarrow> if hasManaged current then snd (manager_CleanupOwnedState host opts M) else M
      | Some snapshot \<Rightarrow>
          (case manager_plan (op_Mode opts) snapshot of
             Inl _ \<Rightarrow> M
           | Inr rollbackPlan \<Rightarrow> snd (run_all (rollbackSteps host opts snapshot rollbackPlan) M)))"

text \<open>An engine that refuses: the locks are released, the engines go back, the error names the engine.\<close>

definition orRollback :: "'w host \<Rightarrow> Options \<Rightarrow> ConfigSnapshot option \<Rightarrow> plan \<Rightarrow> string \<Rightarrow> 'w Manager step \<Rightarrow> 'w Manager step" where
  "orRollback host opts previous p dataplane f M =
     (case f M of
        (None, M) \<Rightarrow> (None, M)
      | (Some err, M) \<Rightarrow>
          (Some (annotateBackendErrors dataplane err),
           rollbackAfterFailedApply host opts previous p (releaseLocks host opts p M)))"

definition resolvedPlan :: "plan \<Rightarrow> (string \<rightharpoonup> string)" where
  "resolvedPlan p = fold (\<lambda>entry m. m(rc_ID (pr_rule entry) \<mapsto> pr_dataplane entry)) (pl_planned p) Map.empty"

text \<open>The parts of \<open>Apply\<close> before the engines are called.\<close>

definition prepareFirst :: "'w host \<Rightarrow> Options \<Rightarrow> ConfigSnapshot option \<Rightarrow> plan \<Rightarrow> 'w Manager step" where
  "prepareFirst host opts previous p M =
     (if previous = None then run_steps [ensureNoLiveLocks host opts p, cleanupOwnedExternalBackends host opts p] M else (None, M))"

definition acquireLocks :: "'w host \<Rightarrow> Options \<Rightarrow> plan \<Rightarrow> 'w Manager step" where
  "acquireLocks host opts p M =
     (if hasManaged p \<or> listenerLockDirExists host M then ensureLocks host opts p M else (None, M))"

definition makeRoom :: "'w host \<Rightarrow> Options \<Rightarrow> ConfigSnapshot option \<Rightarrow> plan \<Rightarrow> ConfigSnapshot \<Rightarrow> 'w Manager step" where
  "makeRoom host opts previous p snapshot M =
     (case stopOutgoingExternalBackends host opts previous p snapshot M of
        (Some err, M) \<Rightarrow> (Some err, restorePreviousListenerLocks host opts previous p M)
      | (None, M) \<Rightarrow> (None, M))"

definition dropStaleLocks :: "'w host \<Rightarrow> Options \<Rightarrow> ConfigSnapshot option \<Rightarrow> plan \<Rightarrow> 'w Manager step" where
  "dropStaleLocks host opts previous p M =
     (if hasManaged p \<or> snapshotHasManaged opts previous \<or> listenerLockDirExists host M then
        (case removeStaleLocks host opts p M of
           (Some err, M) \<Rightarrow> (Some err, releaseLocks host opts p M)
         | (None, M) \<Rightarrow> (None, M))
      else (None, M))"

definition prepareSteps :: "'w host \<Rightarrow> Options \<Rightarrow> ConfigSnapshot option \<Rightarrow> plan \<Rightarrow> ConfigSnapshot \<Rightarrow> 'w Manager step list" where
  "prepareSteps host opts previous p snapshot =
     [prepareFirst host opts previous p, acquireLocks host opts p, makeRoom host opts previous p snapshot,
      dropStaleLocks host opts previous p]"

text \<open>The engines, and what is remembered of a success.\<close>

definition applyHAProxy :: "'w host \<Rightarrow> Options \<Rightarrow> ConfigSnapshot option \<Rightarrow> plan \<Rightarrow> ConfigSnapshot \<Rightarrow> 'w Manager step" where
  "applyHAProxy host opts previous p snapshot M =
     (if length (pl_rules p ModeHAProxy) > 0 \<or> snapshotHasDataplane opts previous ModeHAProxy then
        orRollback host opts previous p ModeHAProxy (on_haproxy host opts (snapshotFor p ModeHAProxy snapshot)) M else (None, M))"

definition applyNFTables :: "'w host \<Rightarrow> Options \<Rightarrow> ConfigSnapshot option \<Rightarrow> plan \<Rightarrow> ConfigSnapshot \<Rightarrow> 'w Manager step" where
  "applyNFTables host opts previous p snapshot M =
     (if length (pl_rules p ModeNFTables) > 0 \<or> snapshotHasDataplane opts previous ModeNFTables then
        orRollback host opts previous p ModeNFTables (on_nft host opts (snapshotFor p ModeNFTables snapshot)) M else (None, M))"

definition remember :: "plan \<Rightarrow> ConfigSnapshot \<Rightarrow> 'w Manager step" where
  "remember p snapshot M = (None, M\<lparr>mg_last := Some snapshot, mg_resolved := resolvedPlan p\<rparr>)"

definition engineSteps :: "'w host \<Rightarrow> Options \<Rightarrow> ConfigSnapshot option \<Rightarrow> plan \<Rightarrow> ConfigSnapshot \<Rightarrow> 'w Manager step list" where
  "engineSteps host opts previous p snapshot =
     [orRollback host opts previous p ModeNative (on_native host (snapshotFor p ModeNative snapshot)),
      applyHAProxy host opts previous p snapshot, applyNFTables host opts previous p snapshot, remember p snapshot]"

definition manager_Apply :: "'w host \<Rightarrow> Options \<Rightarrow> ConfigSnapshot \<Rightarrow> 'w Manager step" where
  "manager_Apply host opts snapshot M =
     (case manager_plan (op_Mode opts) snapshot of
        Inl err \<Rightarrow> (Some (ApplyError err), M)
      | Inr p \<Rightarrow> run_steps (prepareSteps host opts (mg_last M) p snapshot @ engineSteps host opts (mg_last M) p snapshot) M)"

definition ResolvedDataplanes :: "'w Manager \<Rightarrow> (string \<rightharpoonup> string)" where
  "ResolvedDataplanes M = mg_resolved M"

end
