(* ===== verification/Engine_Laws.thy ===== *)
theory Engine_Laws
  imports Dataplane_Manager Supervisor_Apply
begin

text \<open>
  What the program relies on of HAProxy, of \<open>nft\<close> and of the file system, as predicates on a \<open>host\<close>, and what each engine
  then does: a snapshot that an engine accepts is in force in it, and an operation on one engine leaves the others alone.
\<close>

subsection \<open>What the machine promises\<close>

text \<open>
  \<open>running w\<close> is the process and the configuration text of the HAProxy the agent started, \<open>table w\<close> the contents of the
  nftables table of the instance. \<open>quiet\<close> says that an operation touches neither engine nor the pid file.
\<close>

type_synonym 'w runningFn = "'w \<Rightarrow> (int \<times> string) option"
type_synonym 'w tableFn = "'w \<Rightarrow> string option"

definition pid_of :: "'w host \<Rightarrow> Options \<Rightarrow> 'w \<Rightarrow> string" where
  "pid_of host opts w = readPID host w (hp_pidFile (haproxy_paths opts))"

definition quiet :: "'w host \<Rightarrow> Options \<Rightarrow> 'w runningFn \<Rightarrow> 'w tableFn \<Rightarrow> 'w \<Rightarrow> 'w \<Rightarrow> bool" where
  "quiet host opts running table w w' \<longleftrightarrow>
     running w' = running w \<and> table w' = table w \<and> pid_of host opts w' = pid_of host opts w"

text \<open>Files: writing and renaming do what they say, and leave the engines alone.\<close>

definition file_laws :: "'w host \<Rightarrow> Options \<Rightarrow> 'w runningFn \<Rightarrow> 'w tableFn \<Rightarrow> bool" where
  "file_laws host opts running table \<longleftrightarrow>
     (\<forall>path w. quiet host opts running table w (snd (ho_mkdirAll host path w))) \<and>
     (\<forall>path w. running (ho_remove host path w) = running w \<and> table (ho_remove host path w) = table w) \<and>
     (\<forall>sockets w. quiet host opts running table w (ho_sockets host sockets w))"

definition write_law :: "'w host \<Rightarrow> Options \<Rightarrow> 'w runningFn \<Rightarrow> 'w tableFn \<Rightarrow> bool" where
  "write_law host opts running table \<longleftrightarrow>
     (\<forall>s content path w e w'. path = haproxyTmpConfig opts s \<or> path = nftConfigPath opts s \<longrightarrow>
        ho_writeFile host path content w = (e, w') \<longrightarrow>
        quiet host opts running table w w' \<and> (e = None \<longrightarrow> ho_readFile host w' path = Inr content))"

definition rename_law :: "'w host \<Rightarrow> Options \<Rightarrow> 'w runningFn \<Rightarrow> 'w tableFn \<Rightarrow> bool" where
  "rename_law host opts running table \<longleftrightarrow>
     (\<forall>s w e w'. ho_rename host (haproxyTmpConfig opts s) (haproxyActiveConfig opts) w = (e, w') \<longrightarrow>
        quiet host opts running table w w' \<and>
        (e = None \<longrightarrow> ho_readFile host w' (haproxyActiveConfig opts) = ho_readFile host w (haproxyTmpConfig opts s)))"

text \<open>
  HAProxy: checking a configuration changes nothing. A start that succeeds runs the configuration file and has written the
  pid file, and one that fails leaves the old process in place. A running process is alive and recognisable and its number
  is positive and fits an \<open>int\<close>; a signal or the passing of time can only end it.
\<close>

definition check_law :: "'w host \<Rightarrow> Options \<Rightarrow> 'w runningFn \<Rightarrow> 'w tableFn \<Rightarrow> bool" where
  "check_law host opts running table \<longleftrightarrow>
     (\<forall>s w out e w'. ho_CombinedOutput host (haproxyPath opts) [''-c'', ''-f'', haproxyTmpConfig opts s] w = (out, e, w') \<longrightarrow>
        quiet host opts running table w w' \<and> ho_readFile host w' (haproxyTmpConfig opts s) = ho_readFile host w (haproxyTmpConfig opts s))"

definition start_law :: "'w host \<Rightarrow> Options \<Rightarrow> 'w runningFn \<Rightarrow> 'w tableFn \<Rightarrow> bool" where
  "start_law host opts running table \<longleftrightarrow>
     (\<forall>args w out e w'.
        ho_CombinedOutput host (haproxyPath opts) (''-D'' # ''-f'' # haproxyActiveConfig opts # args) w = (out, e, w') \<longrightarrow>
        (e \<noteq> None \<longrightarrow> quiet host opts running table w w') \<and>
        (e = None \<longrightarrow> table w' = table w \<and>
           (\<exists>pid text. ho_readFile host w (haproxyActiveConfig opts) = Inr text \<and>
              running w' = Some (pid, text) \<and> Atoi (pid_of host opts w') = Some pid)))"

definition process_law :: "'w host \<Rightarrow> Options \<Rightarrow> 'w runningFn \<Rightarrow> bool" where
  "process_law host opts running \<longleftrightarrow>
     (\<forall>w pid text. running w = Some (pid, text) \<longrightarrow>
        0 < pid \<and> i64_ok pid \<and> ho_FindProcess host w pid \<and> ho_alive host w pid \<and> pidLooksLikeManagedHAProxy host opts w pid)"

definition ends_only :: "'w host \<Rightarrow> Options \<Rightarrow> 'w runningFn \<Rightarrow> 'w tableFn \<Rightarrow> 'w \<Rightarrow> 'w \<Rightarrow> bool" where
  "ends_only host opts running table w w' \<longleftrightarrow>
     (running w' = running w \<or> running w' = None) \<and> table w' = table w \<and> pid_of host opts w' = pid_of host opts w"

definition signal_law :: "'w host \<Rightarrow> Options \<Rightarrow> 'w runningFn \<Rightarrow> 'w tableFn \<Rightarrow> bool" where
  "signal_law host opts running table \<longleftrightarrow>
     (\<forall>w. ends_only host opts running table w (ho_sleep host w)) \<and>
     (\<forall>pid w r w'. ho_SIGTERM host pid w = (r, w') \<longrightarrow>
        ends_only host opts running table w w' \<and>
        (\<forall>err text. r = Some (True, err) \<and> running w = Some (pid, text) \<longrightarrow> running w' = None))"

text \<open>
  \<open>nft\<close>: listing succeeds exactly when the table exists. A file is loaded as a whole or not at all; \<open>delete table\<close> in front
  of a table definition replaces it. \<open>destroy\<close> removes the table, and when it fails because there is none there is none.
\<close>

definition list_law :: "'w host \<Rightarrow> Options \<Rightarrow> 'w runningFn \<Rightarrow> 'w tableFn \<Rightarrow> bool" where
  "list_law host opts running table \<longleftrightarrow>
     (\<forall>w out e w'. ho_CombinedOutput host (nftPath opts) [''list'', ''table'', ''inet'', tableName host opts] w = (out, e, w') \<longrightarrow>
        quiet host opts running table w w' \<and> (e = None \<longleftrightarrow> table w \<noteq> None))"

definition load_law :: "'w host \<Rightarrow> Options \<Rightarrow> 'w runningFn \<Rightarrow> 'w tableFn \<Rightarrow> bool" where
  "load_law host opts running table \<longleftrightarrow>
     (\<forall>s w out e w'. ho_CombinedOutput host (nftPath opts) [''-f'', nftConfigPath opts s] w = (out, e, w') \<longrightarrow>
        running w' = running w \<and> pid_of host opts w' = pid_of host opts w \<and> (e \<noteq> None \<longrightarrow> table w' = table w) \<and>
        (\<forall>body. e = None \<and> HasPrefix body (''table inet '' @ tableName host opts) \<longrightarrow>
           (ho_readFile host w (nftConfigPath opts s) = Inr (''delete table inet '' @ tableName host opts @ [CHR 0x0A] @ body) \<longrightarrow>
              table w' = Some body) \<and>
           (ho_readFile host w (nftConfigPath opts s) = Inr body \<and> table w = None \<longrightarrow> table w' = Some body)))"

definition destroy_law :: "'w host \<Rightarrow> Options \<Rightarrow> 'w runningFn \<Rightarrow> 'w tableFn \<Rightarrow> bool" where
  "destroy_law host opts running table \<longleftrightarrow>
     (\<forall>w out e w'. ho_CombinedOutput host (nftPath opts) [''destroy'', ''table'', ''inet'', tableName host opts] w = (out, e, w') \<longrightarrow>
        running w' = running w \<and> pid_of host opts w' = pid_of host opts w \<and>
        (e = None \<longrightarrow> table w' = None) \<and> (e \<noteq> None \<longrightarrow> table w' = table w) \<and>
        (e \<noteq> None \<and> nftTableMissing (TrimSpace out) \<longrightarrow> table w = None))"

definition engine_laws :: "'w host \<Rightarrow> Options \<Rightarrow> 'w runningFn \<Rightarrow> 'w tableFn \<Rightarrow> bool" where
  "engine_laws host opts running table \<longleftrightarrow>
     file_laws host opts running table \<and> write_law host opts running table \<and> rename_law host opts running table \<and>
     check_law host opts running table \<and> start_law host opts running table \<and> process_law host opts running \<and>
     signal_law host opts running table \<and>
     list_law host opts running table \<and> load_law host opts running table \<and> destroy_law host opts running table"

lemma engine_lawsD:
  assumes "engine_laws host opts running table"
  shows "file_laws host opts running table" "write_law host opts running table" "rename_law host opts running table"
    "check_law host opts running table" "start_law host opts running table" "process_law host opts running"
    "signal_law host opts running table" "list_law host opts running table" "load_law host opts running table"
    "destroy_law host opts running table"
  using assms by (simp_all add: engine_laws_def)

text \<open>The iteration orders the runtime picks for the maps of the forwarder are permutations of their keys.\<close>

definition order_laws :: "'w host \<Rightarrow> bool" where
  "order_laws host \<longleftrightarrow>
     (\<forall>w rules S grouped. sv_ok S \<and> groupRulesByListener rules = Inr grouped \<longrightarrow> orders_ok (ho_orders host w rules S) grouped S)"

text \<open>The pid file names the process that runs.\<close>

definition pid_ok :: "'w host \<Rightarrow> Options \<Rightarrow> 'w runningFn \<Rightarrow> 'w \<Rightarrow> bool" where
  "pid_ok host opts running w \<longleftrightarrow>
     (\<forall>pid text. running w = Some (pid, text) \<longrightarrow> Atoi (pid_of host opts w) = Some pid)"

lemma quiet_pid_ok: "quiet host opts running table w w' \<Longrightarrow> pid_ok host opts running w \<Longrightarrow> pid_ok host opts running w'"
  by (simp add: quiet_def pid_ok_def)

lemma quiet_trans:
  "quiet host opts running table w w' \<Longrightarrow> quiet host opts running table w' w'' \<Longrightarrow> quiet host opts running table w w''"
  by (simp add: quiet_def)

lemma quiet_refl [simp]: "quiet host opts running table w w"
  by (simp add: quiet_def)

subsection \<open>Stopping HAProxy\<close>

lemma env_alive [simp]: "he_alive (host_env host opts w) = ho_alive host w"
  by (simp add: host_env_def)

lemma alive_env: "0 < pid \<Longrightarrow> i64_ok pid \<Longrightarrow> processAlive (host_env host opts w) (Itoa pid) = ho_alive host w pid"
  by (simp add: processAlive_def Atoi_Itoa TrimSpace_id [OF trimmed_graphic [OF Itoa_graphic]])

lemma waitLoop_spec:
  assumes proc: "process_law host opts running" and sig: "signal_law host opts running table"
    and "waitLoop n host opts pid w = (e, w')" and "\<forall>p t. running w = Some (p, t) \<longrightarrow> p = pid"
  shows "(e = None \<longrightarrow> running w' = None) \<and> ends_only host opts running table w w'"
  using assms(3,4)
proof (induction n arbitrary: w)
  case (Suc n)
  show ?case
  proof (cases "\<not> processAlive (host_env host opts w) (Itoa pid) \<or> \<not> pidLooksLikeManagedHAProxy host opts w pid")
    case True
    have "running w = None"
    proof (rule ccontr)
      assume "running w \<noteq> None"
      then obtain t where "running w = Some (pid, t)" using Suc.prems(2) by fastforce
      then have "0 < pid" "i64_ok pid" "ho_alive host w pid" "pidLooksLikeManagedHAProxy host opts w pid"
        using proc unfolding process_law_def by blast+
      then show False using True by (simp add: alive_env)
    qed
    then show ?thesis using True Suc.prems(1) by (simp add: ends_only_def)
  next
    case False
    have s: "ends_only host opts running table w (ho_sleep host w)" using sig by (simp add: signal_law_def)
    have "waitLoop n host opts pid (ho_sleep host w) = (e, w')" using Suc.prems(1) False by simp
    moreover have "\<forall>p t. running (ho_sleep host w) = Some (p, t) \<longrightarrow> p = pid" using Suc.prems(2) s by (auto simp: ends_only_def)
    ultimately show ?thesis using Suc.IH s by (fastforce simp: ends_only_def)
  qed
qed (auto simp: ends_only_def)

lemma removeRuntimeFiles_frame:
  "file_laws host opts running table \<Longrightarrow>
   running (removeRuntimeFiles host opts w) = running w \<and> table (removeRuntimeFiles host opts w) = table w"
  by (simp add: file_laws_def removeRuntimeFiles_def)

text \<open>When nothing runs any more, removing the files ends the stop.\<close>

lemma pid_ok_ends: "ends_only host opts running table w w' \<Longrightarrow> pid_ok host opts running w \<Longrightarrow> pid_ok host opts running w'"
  by (auto simp: ends_only_def pid_ok_def)

lemma stopOwned_spec:
  assumes laws: "engine_laws host opts running table" and pid: "pid_ok host opts running w"
    and stop: "stopOwnedProcess host opts w = (e, w')"
  shows "table w' = table w \<and> pid_ok host opts running w' \<and> (e = None \<longrightarrow> running w' = None)"
proof -
  note L = engine_lawsD [OF laws]
  have gone: ?thesis if "(e, w') = (None, removeRuntimeFiles host opts v)" "running v = None" "table v = table w" for v
    using that removeRuntimeFiles_frame [OF L(1), of v] by (simp add: pid_ok_def)
  have runs: "\<exists>v. Atoi (pid_of host opts w) = Some v \<and> 0 < v \<and> ho_FindProcess host w v \<and> pidLooksLikeManagedHAProxy host opts w v"
    if "running w \<noteq> None"
    using that pid L(6) unfolding pid_ok_def process_law_def by force
  show ?thesis
  proof (cases "\<exists>v. Atoi (pid_of host opts w) = Some v \<and> 0 < v \<and> ho_FindProcess host w v \<and> pidLooksLikeManagedHAProxy host opts w v")
    case False
    then have "stopOwnedProcess host opts w = (None, removeRuntimeFiles host opts w)"
      by (auto simp: stopOwnedProcess_def Let_def pid_of_def split: option.split)
    moreover have "running w = None" using runs False by blast
    ultimately show ?thesis using gone [of w] stop by simp
  next
    case True
    then obtain num where v: "Atoi (pid_of host opts w) = Some num" "0 < num" "ho_FindProcess host w num"
      "pidLooksLikeManagedHAProxy host opts w num" by blast
    obtain r w1 where sig: "ho_SIGTERM host num w = (r, w1)" by fastforce
    have e1: "ends_only host opts running table w w1" and esrch: "\<And>err text. r = Some (True, err) \<Longrightarrow> running w = Some (num, text) \<Longrightarrow> running w1 = None"
      using L(7) sig unfolding signal_law_def by blast+
    have only: "\<forall>p t. running w1 = Some (p, t) \<longrightarrow> p = num" using pid v(1) e1 by (auto simp: pid_ok_def ends_only_def)
    have pid1: "pid_ok host opts running w1" "table w1 = table w" using pid_ok_ends [OF e1 pid] e1 by (simp_all add: ends_only_def)
    have ne: "pid_of host opts w \<noteq> []" using v(1) by (auto simp: Atoi_def)
    show ?thesis
    proof (cases r)
      case None
      obtain e2 w2 where wait: "waitForManagedHAProxyExit host opts num w1 = (e2, w2)" by fastforce
      have w2: "e2 = None \<longrightarrow> running w2 = None" "ends_only host opts running table w1 w2"
        using waitLoop_spec [OF L(6,7) wait [unfolded waitForManagedHAProxyExit_def] only] by simp_all
      have "stopOwnedProcess host opts w = (case e2 of None \<Rightarrow> (None, removeRuntimeFiles host opts w2) | Some err \<Rightarrow> (Some err, w2))"
        using v ne sig wait None by (simp add: stopOwnedProcess_def Let_def pid_of_def split: option.split)
      then show ?thesis
        using gone [of w2] w2 pid_ok_ends [OF w2(2) pid1(1)] pid1(2) stop by (cases e2) (auto simp: ends_only_def)
    next
      case (Some x)
      obtain esrch' err where x: "x = (esrch', err)" by fastforce
      show ?thesis
      proof (cases "esrch' \<or> \<not> processAlive (host_env host opts w1) (pid_of host opts w)")
        case True
        then have "stopOwnedProcess host opts w = (None, removeRuntimeFiles host opts w1)"
          using v ne sig Some x by (simp add: stopOwnedProcess_def Let_def pid_of_def)
        moreover have "running w1 = None"
        proof (rule ccontr)
          assume "running w1 \<noteq> None"
          then obtain t where r1: "running w1 = Some (num, t)" using only by fastforce
          then have "running w = Some (num, t)" using e1 by (auto simp: ends_only_def)
          then have "\<not> esrch'" using esrch [of err t] Some x r1 by auto
          moreover have "ho_alive host w1 num" using L(6) r1 unfolding process_law_def by blast
          moreover have "TrimSpace (pid_of host opts w) = pid_of host opts w"
            by (simp add: pid_of_def readPID_def split: sum.split)
          ultimately show False using True v(1,2) by (simp add: processAlive_def)
        qed
        ultimately show ?thesis using gone [of w1] pid1(2) stop by simp
      next
        case False
        then have "stopOwnedProcess host opts w = (Some (PlainError (''stop managed HAProxy pid '' @ Itoa num @ '': '' @ err)), w1)"
          using v ne sig Some x by (simp add: stopOwnedProcess_def Let_def pid_of_def)
        then show ?thesis using pid1 stop by simp
      qed
    qed
  qed
qed

subsection \<open>Applying to HAProxy\<close>

text \<open>The configuration text a snapshot asks of HAProxy; none when it has no rules.\<close>

definition haproxy_text :: "Options \<Rightarrow> ConfigSnapshot \<Rightarrow> string option" where
  "haproxy_text opts s =
     (if cs_Rules s = [] then None
      else case renderHAProxyConfig (hp_socketFile (haproxy_paths opts)) (hp_pidFile (haproxy_paths opts)) s of
        Inl _ \<Rightarrow> None | Inr text \<Rightarrow> Some text)"

text \<open>What no step of HAProxy changes, whether it succeeds or not.\<close>

definition keeps :: "'w host \<Rightarrow> Options \<Rightarrow> 'w runningFn \<Rightarrow> 'w tableFn \<Rightarrow> 'w \<Rightarrow> 'w \<Rightarrow> bool" where
  "keeps host opts running table w w' \<longleftrightarrow>
     table w' = table w \<and> (pid_ok host opts running w \<longrightarrow> pid_ok host opts running w')"

lemma quiet_keeps: "quiet host opts running table w w' \<Longrightarrow> keeps host opts running table w w'"
  using quiet_pid_ok by (fastforce simp: keeps_def quiet_def)

lemma run_steps_rel:
  assumes "\<And>s. R s s" "\<And>s t u. R s t \<Longrightarrow> R t u \<Longrightarrow> R s u" and "list_all (\<lambda>f. \<forall>s. R s (snd (f s))) fs"
  shows "R s (snd (run_steps fs s))"
  using assms(3)
proof (induction fs arbitrary: s)
  case (Cons f fs)
  have "R s (snd (f s))" using Cons.prems by simp
  moreover have "R (snd (f s)) (snd (run_steps fs (snd (f s))))" using Cons by simp
  ultimately show ?case using assms(2) by (cases "f s") (auto split: option.split)
qed (simp add: assms(1))

lemma run_all_rel:
  assumes "\<And>s. R s s" "\<And>s t u. R s t \<Longrightarrow> R t u \<Longrightarrow> R s u" and "list_all (\<lambda>f. \<forall>s. R s (snd (f s))) fs"
  shows "R s (snd (run_all fs s))"
  using assms(3)
proof (induction fs arbitrary: s)
  case (Cons f fs)
  have "R s (snd (f s))" using Cons.prems by simp
  moreover have "R (snd (f s)) (snd (run_all fs (snd (f s))))" using Cons by simp
  ultimately show ?case using assms(2) by (auto simp: split_beta)
qed (simp add: assms(1))

lemma snd_plain [simp]: "snd (plain r) = snd r"
  by (simp add: plain_def)

lemma keeps_refl [simp]: "keeps host opts running table w w"
  by (simp add: keeps_def)

lemma keeps_trans:
  "keeps host opts running table w w' \<Longrightarrow> keeps host opts running table w' w'' \<Longrightarrow> keeps host opts running table w w''"
  by (simp add: keeps_def)

lemma mkdir_quiet: "engine_laws host opts running table \<Longrightarrow> quiet host opts running table w (snd (ho_mkdirAll host path w))"
  using engine_lawsD(1) by (fastforce simp: file_laws_def)

lemma write_quiet:
  "engine_laws host opts running table \<Longrightarrow> path = haproxyTmpConfig opts s \<or> path = nftConfigPath opts s \<Longrightarrow>
   quiet host opts running table w (snd (ho_writeFile host path content w))"
  using engine_lawsD(2) unfolding write_law_def by (metis prod.collapse)

lemma rename_quiet:
  "engine_laws host opts running table \<Longrightarrow>
   quiet host opts running table w (snd (ho_rename host (haproxyTmpConfig opts s) (haproxyActiveConfig opts) w))"
  using engine_lawsD(3) unfolding rename_law_def by (metis prod.collapse)

lemma validate_quiet:
  assumes "engine_laws host opts running table"
  shows "quiet host opts running table w (snd (haproxy_validate host opts s w))"
proof -
  obtain out e w' where r: "ho_CombinedOutput host (haproxyPath opts) [''-c'', ''-f'', haproxyTmpConfig opts s] w = (out, e, w')"
    by (metis surj_pair)
  then have "quiet host opts running table w w'" using engine_lawsD(4) [OF assms] unfolding check_law_def by blast
  then show ?thesis using r by (simp add: haproxy_validate_def split: option.split)
qed

lemma start_args: "\<exists>args. haproxyStartArgs host opts w = ''-D'' # ''-f'' # haproxyActiveConfig opts # args"
  by (simp add: haproxyStartArgs_def Let_def)

lemma start_spec:
  assumes "engine_laws host opts running table" and "haproxy_start host opts s w = (e, w')"
  shows "keeps host opts running table w w' \<and>
    (e = None \<longrightarrow> (\<exists>pid text. ho_readFile host w (haproxyActiveConfig opts) = Inr text \<and> running w' = Some (pid, text)))"
proof -
  obtain args where args: "haproxyStartArgs host opts w = ''-D'' # ''-f'' # haproxyActiveConfig opts # args"
    using start_args [of host opts w] by blast
  obtain out e' w'' where r: "ho_CombinedOutput host (haproxyPath opts) (''-D'' # ''-f'' # haproxyActiveConfig opts # args) w = (out, e', w'')"
    by (metis surj_pair)
  have eq: "w'' = w'" "e' = None \<longleftrightarrow> e = None"
    using assms(2) r unfolding haproxy_start_def args by (auto simp: Let_def split: option.splits)
  have law: "e' \<noteq> None \<longrightarrow> quiet host opts running table w w''"
    "e' = None \<longrightarrow> table w'' = table w \<and> (\<exists>pid text. ho_readFile host w (haproxyActiveConfig opts) = Inr text \<and>
       running w'' = Some (pid, text) \<and> Atoi (pid_of host opts w'') = Some pid)"
    using engine_lawsD(5) [OF assms(1)] r unfolding start_law_def by blast+
  show ?thesis
  proof (cases e)
    case None
    with law(2) eq show ?thesis by (auto simp: keeps_def pid_ok_def)
  next
    case (Some x)
    with law(1) eq show ?thesis using quiet_keeps by fastforce
  qed
qed

lemma install_keeps:
  assumes "engine_laws host opts running table"
  shows "keeps host opts running table w (snd (haproxy_install host opts s w))"
proof -
  have "\<forall>w. keeps host opts running table w (snd (haproxy_start host opts s w))"
    using start_spec [OF assms] by (metis prod.collapse)
  then have "keeps host opts running table w (snd (run_steps
      [\<lambda>w. plain (ho_mkdirAll host c w), \<lambda>w. plain (ho_mkdirAll host r w),
       \<lambda>w. plain (ho_writeFile host (haproxyTmpConfig opts s) conf w), haproxy_validate host opts s,
       \<lambda>w. plain (ho_rename host (haproxyTmpConfig opts s) (haproxyActiveConfig opts) w), haproxy_start host opts s] w))" for c r conf
    using mkdir_quiet [OF assms, THEN quiet_keeps] write_quiet [OF assms disjI1 [OF refl], THEN quiet_keeps] rename_quiet [OF assms, THEN quiet_keeps]
      validate_quiet [OF assms, THEN quiet_keeps]
    by (intro run_steps_rel [of "keeps host opts running table"]) (auto elim: keeps_trans)
  then show ?thesis by (simp add: haproxy_install_def Let_def del: run_steps.simps split: sum.split)
qed

lemma install_ok:
  assumes "engine_laws host opts running table" and "haproxy_install host opts s w = (None, w')" and "cs_Rules s \<noteq> []"
  shows "map_option snd (running w') = haproxy_text opts s"
proof -
  let ?p = "haproxy_paths opts"
  obtain conf where conf: "renderHAProxyConfig (hp_socketFile ?p) (hp_pidFile ?p) s = Inr conf"
    using assms(2) by (auto simp: haproxy_install_def Let_def split: if_splits sum.splits)
  obtain w1 w2 w3 w4 w5 where
    w3: "ho_writeFile host (haproxyTmpConfig opts s) conf w2 = (None, w3)" and
    w4: "haproxy_validate host opts s w3 = (None, w4)" and
    w5: "ho_rename host (haproxyTmpConfig opts s) (haproxyActiveConfig opts) w4 = (None, w5)" and
    w6: "haproxy_start host opts s w5 = (None, w')"
    using assms(2) conf unfolding haproxy_install_def Let_def
    by (auto simp: run_steps_ok simp del: run_steps.simps(2) split: if_splits)
  obtain out where "ho_CombinedOutput host (haproxyPath opts) [''-c'', ''-f'', haproxyTmpConfig opts s] w3 = (out, None, w4)"
    using w4 by (auto simp: haproxy_validate_def split: prod.splits option.splits)
  then have "ho_readFile host w4 (haproxyTmpConfig opts s) = ho_readFile host w3 (haproxyTmpConfig opts s)"
    using engine_lawsD(4) [OF assms(1)] unfolding check_law_def by blast
  moreover have "ho_readFile host w3 (haproxyTmpConfig opts s) = Inr conf"
    using engine_lawsD(2) [OF assms(1)] w3 unfolding write_law_def by blast
  moreover have "ho_readFile host w5 (haproxyActiveConfig opts) = ho_readFile host w4 (haproxyTmpConfig opts s)"
    using engine_lawsD(3) [OF assms(1)] w5 unfolding rename_law_def by blast
  ultimately show ?thesis using start_spec [OF assms(1) w6] conf assms(3) by (auto simp: haproxy_text_def)
qed

text \<open>HAProxy as an engine: a success puts the snapshot into force, and nothing else of the manager changes.\<close>

definition others_kept :: "'w Manager \<Rightarrow> 'w Manager \<Rightarrow> bool" where
  "others_kept M M' \<longleftrightarrow> mg_dir M' = mg_dir M \<and> mg_last M' = mg_last M \<and> mg_resolved M' = mg_resolved M"

lemma on_haproxy_spec:
  assumes laws: "engine_laws host opts running table" and pid: "pid_ok host opts running (mg_world M)"
    and ap: "on_haproxy host opts s M = (e, M')"
  shows "table (mg_world M') = table (mg_world M) \<and> pid_ok host opts running (mg_world M') \<and> mg_native M' = mg_native M \<and>
    others_kept M M' \<and> (e = None \<longrightarrow> map_option snd (running (mg_world M')) = haproxy_text opts s)"
proof (cases "cs_Rules s = []")
  case True
  obtain e' w' where stop: "stopOwnedProcess host opts (mg_world M) = (e', w')" by fastforce
  then have "M' = M\<lparr>mg_haproxy := mg_haproxy M, mg_world := w'\<rparr>" "e' = e"
    using ap True by (simp_all add: on_haproxy_def haproxy_Apply_def)
  then show ?thesis using stopOwned_spec [OF laws pid stop] True by (simp add: others_kept_def haproxy_text_def)
next
  case False
  obtain e' w' where inst: "haproxy_install host opts s (mg_world M) = (e', w')" by fastforce
  then have "mg_world M' = w'" "e' = e" "mg_native M' = mg_native M" "others_kept M M'"
    using ap False by (auto simp: on_haproxy_def haproxy_Apply_def others_kept_def split: option.splits)
  moreover have "keeps host opts running table (mg_world M) w'" using install_keeps [OF laws, of "mg_world M" s] inst by simp
  ultimately show ?thesis using install_ok [OF laws, of s "mg_world M" w'] inst False pid by (auto simp: keeps_def)
qed

subsection \<open>Applying to nftables\<close>

definition nft_text :: "'w host \<Rightarrow> Options \<Rightarrow> ConfigSnapshot \<Rightarrow> string option" where
  "nft_text host opts s =
     (if cs_Rules s = [] then None
      else case renderNFTablesConfig s (tableName host opts) False of Inl _ \<Rightarrow> None | Inr body \<Rightarrow> Some body)"

lemma render_forms:
  assumes "renderNFTablesConfig s T b = Inr conf"
  shows "\<exists>body. renderNFTablesConfig s T False = Inr body \<and> HasPrefix body (''table inet '' @ T) \<and>
    conf = (if b then ''delete table inet '' @ T @ [CHR 0x0A] @ body else body)"
  using assms by (auto simp: renderNFTablesConfig_def nftLines_def unlines_def HasPrefix_def split: option.splits)

lemma engines_same_pid_ok:
  "running w' = running w \<Longrightarrow> pid_of host opts w' = pid_of host opts w \<Longrightarrow> pid_ok host opts running w \<Longrightarrow> pid_ok host opts running w'"
  by (simp add: pid_ok_def)

definition haproxy_same :: "'w host \<Rightarrow> Options \<Rightarrow> 'w runningFn \<Rightarrow> 'w \<Rightarrow> 'w \<Rightarrow> bool" where
  "haproxy_same host opts running w w' \<longleftrightarrow> running w' = running w \<and> pid_of host opts w' = pid_of host opts w"

lemma quiet_haproxy_same: "quiet host opts running table w w' \<Longrightarrow> haproxy_same host opts running w w'"
  by (simp add: quiet_def haproxy_same_def)

lemma cleanup_spec:
  assumes "engine_laws host opts running table" and "cleanupTable host opts rules w = (e, w')"
  shows "haproxy_same host opts running w w' \<and> table w' = (if e = None then None else table w)"
proof -
  obtain out e' w'' where r: "ho_CombinedOutput host (nftPath opts) [''destroy'', ''table'', ''inet'', tableName host opts] w = (out, e', w'')"
    by (metis surj_pair)
  then have d: "haproxy_same host opts running w w''" "e' = None \<longrightarrow> table w'' = None" "e' \<noteq> None \<longrightarrow> table w'' = table w"
    "e' \<noteq> None \<and> nftTableMissing (TrimSpace out) \<longrightarrow> table w = None"
    using engine_lawsD(10) [OF assms(1)] unfolding destroy_law_def haproxy_same_def by blast+
  have eq: "w'' = w'" "e = None \<longleftrightarrow> e' = None \<or> (TrimSpace out \<noteq> [] \<and> nftTableMissing (TrimSpace out))"
    using assms(2) r by (auto simp: cleanupTable_def Let_def split: option.splits if_splits)
  then show ?thesis using d by auto
qed

lemma nft_write_spec:
  assumes "engine_laws host opts running table" and "nft_write host opts s w = (e, w')"
  shows "quiet host opts running table w w' \<and>
    (e = None \<longrightarrow> (\<exists>body. renderNFTablesConfig s (tableName host opts) False = Inr body \<and>
       HasPrefix body (''table inet '' @ tableName host opts) \<and>
       ho_readFile host w' (nftConfigPath opts s) =
         Inr (if table w \<noteq> None then ''delete table inet '' @ tableName host opts @ [CHR 0x0A] @ body else body)))"
proof -
  obtain out e1 w1 where r: "ho_CombinedOutput host (nftPath opts) [''list'', ''table'', ''inet'', tableName host opts] w = (out, e1, w1)"
    by (metis surj_pair)
  then have l: "quiet host opts running table w w1" "e1 = None \<longleftrightarrow> table w \<noteq> None"
    using engine_lawsD(8) [OF assms(1)] unfolding list_law_def by blast+
  show ?thesis
  proof (cases "renderNFTablesConfig s (tableName host opts) (e1 = None)")
    case (Inl err)
    then show ?thesis using assms(2) r l(1) by (auto simp: nft_write_def tableExists_def)
  next
    case (Inr conf)
    then have wr: "plain (ho_writeFile host (nftConfigPath opts s) conf w1) = (e, w')"
      using assms(2) r by (simp add: nft_write_def tableExists_def)
    then obtain e2 where wr2: "ho_writeFile host (nftConfigPath opts s) conf w1 = (e2, w')" "e2 = None \<longleftrightarrow> e = None"
      by (cases "ho_writeFile host (nftConfigPath opts s) conf w1") (auto simp: plain_def)
    have "quiet host opts running table w1 w'" "e2 = None \<longrightarrow> ho_readFile host w' (nftConfigPath opts s) = Inr conf"
      using engine_lawsD(2) [OF assms(1)] wr2(1) unfolding write_law_def by blast+
    then show ?thesis using quiet_trans [OF l(1)] render_forms [OF Inr] l(2) wr2(2) by auto
  qed
qed

lemma nft_load_spec:
  assumes "engine_laws host opts running table" and "nft_load host opts s w = (e, w')"
  shows "haproxy_same host opts running w w' \<and> (e \<noteq> None \<longrightarrow> table w' = table w) \<and>
    (\<forall>body. e = None \<and> HasPrefix body (''table inet '' @ tableName host opts) \<and>
       ho_readFile host w (nftConfigPath opts s) =
         Inr (if table w \<noteq> None then ''delete table inet '' @ tableName host opts @ [CHR 0x0A] @ body else body) \<longrightarrow> table w' = Some body)"
proof -
  obtain out e1 w1 where r: "ho_CombinedOutput host (nftPath opts) [''-f'', nftConfigPath opts s] w = (out, e1, w1)"
    by (metis surj_pair)
  have eq: "w1 = w'" "e1 = None \<longleftrightarrow> e = None"
    using assms(2) r by (auto simp: nft_load_def split: option.splits)
  have "load_law host opts running table" using engine_lawsD(9) [OF assms(1)] .
  from this [unfolded load_law_def, rule_format, OF r] show ?thesis
    unfolding eq haproxy_same_def by (auto split: if_splits)
qed

lemma nft_spec:
  assumes laws: "engine_laws host opts running table" and ap: "nft_Apply host opts s w = (e, w')"
  shows "haproxy_same host opts running w w' \<and> table w' = (if e = None then nft_text host opts s else table w)"
proof (cases "cs_Rules s = []")
  case True
  then show ?thesis using cleanup_spec [OF laws] ap by (auto simp: nft_Apply_def nft_text_def)
next
  case False
  obtain f g h k where fs: "nft_Apply host opts s w = run_steps ([\<lambda>w. (f w, w), \<lambda>w. (g w, w), \<lambda>w. (h w, w),
      \<lambda>w. plain (ho_mkdirAll host k w)] @ [nft_write host opts s, nft_load host opts s]) w"
    using False unfolding nft_Apply_def by auto
  let ?fs = "[\<lambda>w. (f w, w), \<lambda>w. (g w, w), \<lambda>w. (h w, w), \<lambda>w. plain (ho_mkdirAll host k w)]"
  have q: "quiet host opts running table w (snd (run_steps ?fs w))"
    using mkdir_quiet [OF laws] by (intro run_steps_rel [of "quiet host opts running table"]) (auto elim: quiet_trans)
  obtain e1 w1 where r1: "run_steps ?fs w = (e1, w1)" by fastforce
  have q1: "haproxy_same host opts running w w1" "table w1 = table w" using q r1 by (simp_all add: quiet_def haproxy_same_def)
  show ?thesis
  proof (cases e1)
    case (Some x)
    then show ?thesis using q1 ap r1 unfolding fs run_steps_append by auto
  next
    case None
    obtain e2 w2 where r2: "nft_write host opts s w1 = (e2, w2)" by fastforce
    note wr = nft_write_spec [OF laws r2]
    show ?thesis
    proof (cases e2)
      case (Some x)
      then have "e = Some x" "w' = w2" using ap r1 r2 None unfolding fs run_steps_append by simp_all
      then show ?thesis using q1 wr by (auto simp: haproxy_same_def quiet_def)
    next
      case e2: None
      then have ld: "nft_load host opts s w2 = (e, w')"
        using ap r1 r2 None unfolding fs run_steps_append by (cases "nft_load host opts s w2") (auto split: option.splits)
      obtain body where body: "renderNFTablesConfig s (tableName host opts) False = Inr body" "HasPrefix body (''table inet '' @ tableName host opts)"
        "ho_readFile host w2 (nftConfigPath opts s) =
           Inr (if table w2 \<noteq> None then ''delete table inet '' @ tableName host opts @ [CHR 0x0A] @ body else body)"
        using wr e2 by (auto simp: quiet_def)
      note sp = nft_load_spec [OF laws ld]
      have "table w2 = table w" "haproxy_same host opts running w w2" using wr q1 by (auto simp: quiet_def haproxy_same_def)
      moreover have "e = None \<Longrightarrow> table w' = Some body" using sp body by blast
      ultimately show ?thesis using sp body(1) False by (auto simp: nft_text_def haproxy_same_def)
    qed
  qed
qed

lemma on_nft_spec:
  assumes laws: "engine_laws host opts running table" and ap: "on_nft host opts s M = (e, M')"
  shows "haproxy_same host opts running (mg_world M) (mg_world M') \<and> mg_native M' = mg_native M \<and> others_kept M M' \<and>
    table (mg_world M') = (if e = None then nft_text host opts s else table (mg_world M))"
proof -
  obtain w' where "nft_Apply host opts s (mg_world M) = (e, w')" "M' = M\<lparr>mg_world := w'\<rparr>"
    using ap by (auto simp: on_nft_def split: prod.splits)
  then show ?thesis using nft_spec [OF laws] by (simp add: others_kept_def)
qed

subsection \<open>Applying to the forwarder\<close>

lemma sockets_quiet: "engine_laws host opts running table \<Longrightarrow> quiet host opts running table w (ho_sockets host ks w)"
  using engine_lawsD(1) by (fastforce simp: file_laws_def)

text \<open>The listeners of a supervisor are the groups of the rules.\<close>

definition native_holds :: "RuleConfig list \<Rightarrow> Supervisor \<Rightarrow> bool" where
  "native_holds rules S \<longleftrightarrow> groupRulesByListener rules = Inr (\<lambda>key. map_option lr_rules (sv_listeners S key))"

lemma on_native_spec:
  assumes laws: "engine_laws host opts running table" "order_laws host" and ok: "sv_ok (mg_native M)"
    and ap: "on_native host s M = (e, M')"
  shows "quiet host opts running table (mg_world M) (mg_world M') \<and> others_kept M M' \<and> sv_ok (mg_native M') \<and>
    (e = None \<longrightarrow> native_holds (cs_Rules s) (mg_native M'))"
proof -
  let ?w = "mg_world M" and ?S = "mg_native M"
  let ?o = "ho_orders host ?w (cs_Rules s) ?S"
  have ord: "orders_ok ?o grouped ?S" if "groupRulesByListener (cs_Rules s) = Inr grouped" for grouped
    using laws(2) ok that by (simp add: order_laws_def)
  obtain S' where S': "supervisor_Apply (ho_listen host ?w) ?o s ?S = (e, S')"
    and M': "M' = M\<lparr>mg_native := S', mg_world := ho_sockets host (sv_open S') ?w\<rparr>"
    using ap by (auto simp: on_native_def native_Apply_def Let_def split: prod.splits)
  have "sv_ok S'" using apply_keeps_ok [OF ok ord] S' by (metis snd_conv)
  moreover have "native_holds (cs_Rules s) S'" if none: "e = None"
  proof -
    obtain grouped where g: "groupRulesByListener (cs_Rules s) = Inr grouped"
      using S' none by (cases "groupRulesByListener (cs_Rules s)") (auto simp: supervisor_Apply_def)
    show ?thesis
      using apply_success_state [OF ok ord [OF g] g, of "ho_listen host ?w" S'] S' none g
      by (simp add: native_holds_def option.map_comp comp_def option.map_ident)
  qed
  ultimately show ?thesis using sockets_quiet [OF laws(1)] M' by (simp add: others_kept_def)
qed

end
