(* ===== verification/Manager_Apply.thy ===== *)
theory Manager_Apply
  imports Engine_Laws
begin

text \<open>
  \<open>Manager.Apply\<close> is a transaction over the three engines: a snapshot applied without error is what all of them carry, and
  an engine that refuses a snapshot leaves the node with the previous one.
\<close>

definition engines_hold ::
    "'w host \<Rightarrow> Options \<Rightarrow> 'w runningFn \<Rightarrow> 'w tableFn \<Rightarrow> plan \<Rightarrow> ConfigSnapshot \<Rightarrow> 'w Manager \<Rightarrow> bool" where
  "engines_hold host opts running table p s M \<longleftrightarrow>
     native_holds (pl_rules p ModeNative) (mg_native M) \<and>
     map_option snd (running (mg_world M)) = haproxy_text opts (snapshotFor p ModeHAProxy s) \<and>
     table (mg_world M) = nft_text host opts (snapshotFor p ModeNFTables s)"

text \<open>The state between two calls of \<open>Apply\<close>: the engines carry the snapshot the manager remembers.\<close>

definition manager_ok :: "'w host \<Rightarrow> Options \<Rightarrow> 'w runningFn \<Rightarrow> 'w tableFn \<Rightarrow> 'w Manager \<Rightarrow> bool" where
  "manager_ok host opts running table M \<longleftrightarrow>
     sv_ok (mg_native M) \<and> pid_ok host opts running (mg_world M) \<and>
     (\<forall>s. mg_last M = Some s \<longrightarrow> (\<exists>p. manager_plan (op_Mode opts) s = Inr p \<and> engines_hold host opts running table p s M))"

text \<open>Steps on the lock directory change nothing else.\<close>

definition locks_only :: "'w Manager \<Rightarrow> 'w Manager \<Rightarrow> bool" where
  "locks_only M M' \<longleftrightarrow>
     mg_native M' = mg_native M \<and> mg_world M' = mg_world M \<and> mg_last M' = mg_last M \<and> mg_resolved M' = mg_resolved M"

lemma lock_steps [simp]:
  "locks_only M (snd (ensureLocks host opts p M))" "locks_only M (releaseLocks host opts p M)"
  "locks_only M (snd (removeStaleLocks host opts p M))" "locks_only M (snd (ensureNoLiveLocks host opts p M))"
  by (simp_all add: locks_only_def ensureLocks_def releaseLocks_def removeStaleLocks_def ensureNoLiveLocks_def split: prod.split)

lemma locks_onlyD:
  "f M = (e, M') \<Longrightarrow> locks_only M (snd (f M)) \<Longrightarrow> locks_only M M'"
  by simp

lemma annotated_result: "annotated d f s = (e, t) \<longleftrightarrow> (\<exists>e'. f s = (e', t) \<and> e = map_option (annotateBackendErrors d) e')"
  by (auto simp: annotated_def split: prod.split)

lemma annotated_ok [simp]: "annotated d f s = (None, t) \<longleftrightarrow> f s = (None, t)"
  by (auto simp: annotated_result)

lemma zero_snapshot_text [simp]: "haproxy_text opts zero_snapshot = None" "nft_text host opts zero_snapshot = None"
  by (simp_all add: haproxy_text_def nft_text_def zero_snapshot_def)

definition destroys :: "'w host \<Rightarrow> Options \<Rightarrow> bool" where
  "destroys host opts \<longleftrightarrow> (\<forall>w. fst (cleanupTable host opts [] w) = None)"

lemma first_cleanup:
  assumes laws: "engine_laws host opts running table" and pid: "pid_ok host opts running (mg_world M)"
    and stale: "table (mg_world M) = None \<or> destroys host opts"
    and cl: "cleanupOwnedExternalBackends host opts p M = (None, M')"
  shows "running (mg_world M') = None \<and> table (mg_world M') = None \<and> mg_native M' = mg_native M \<and> mg_last M' = mg_last M"
proof -
  obtain M1 where m1: "on_haproxy host opts zero_snapshot M = (None, M1)"
    and m2: "(if length (pl_rules p ModeNFTables) > 0 then annotated ModeNFTables (on_nft host opts zero_snapshot)
        else ignoring (on_nft host opts zero_snapshot)) M1 = (None, M')"
    using cl unfolding cleanupOwnedExternalBackends_def run_steps_ok by auto
  note s1 = on_haproxy_spec [OF laws pid m1]
  obtain e where e: "on_nft host opts zero_snapshot M1 = (e, M')" "length (pl_rules p ModeNFTables) > 0 \<longrightarrow> e = None"
    using m2 by (cases "on_nft host opts zero_snapshot M1") (auto simp: ignoring_def split: if_splits)
  note s2 = on_nft_spec [OF laws e(1)]
  have "table (mg_world M') = None"
  proof (cases e)
    case None
    then show ?thesis using s2 by simp
  next
    case (Some x)
    then have "\<not> destroys host opts"
      using e(1) unfolding destroys_def on_nft_def nft_Apply_def
      by (auto simp: zero_snapshot_def split: prod.splits) (metis fst_conv option.distinct(1))
    then show ?thesis using s2 s1 stale Some by simp
  qed
  then show ?thesis using s1 s2 by (auto simp: haproxy_same_def others_kept_def)
qed

lemma outgoing_none: "pl_rules q d = [] \<Longrightarrow> \<not> hasOutgoingListener q p d"
  by (simp add: hasOutgoingListener_def dp_listenerKeySet_def)

text \<open>Making room: the engines whose listeners go are reduced to what they keep.\<close>

lemma staged_haproxy:
  assumes laws: "engine_laws host opts running table" and pid: "pid_ok host opts running (mg_world M)"
    and st: "(if b then annotated d (on_haproxy host opts s) M else (None, M)) = (e, M')"
  shows "pid_ok host opts running (mg_world M') \<and> mg_native M' = mg_native M \<and> mg_last M' = mg_last M \<and>
    table (mg_world M') = table (mg_world M) \<and> (\<not> b \<longrightarrow> running (mg_world M') = running (mg_world M))"
proof (cases b)
  case True
  then obtain e' where "on_haproxy host opts s M = (e', M')" using st by (auto simp: annotated_result)
  from on_haproxy_spec [OF laws pid this] True show ?thesis by (simp add: others_kept_def)
qed (use st pid in auto)

lemma staged_nft:
  assumes laws: "engine_laws host opts running table" and pid: "pid_ok host opts running (mg_world M)"
    and st: "(if b then annotated d (on_nft host opts s) M else (None, M)) = (e, M')"
  shows "pid_ok host opts running (mg_world M') \<and> mg_native M' = mg_native M \<and> mg_last M' = mg_last M \<and>
    running (mg_world M') = running (mg_world M) \<and> (\<not> b \<longrightarrow> table (mg_world M') = table (mg_world M))"
proof (cases b)
  case True
  then obtain e' where "on_nft host opts s M = (e', M')" using st by (auto simp: annotated_result)
  from on_nft_spec [OF laws this] True pid show ?thesis by (simp add: others_kept_def haproxy_same_def pid_ok_def)
qed (use st pid in auto)

lemma stopOutgoing_spec:
  assumes laws: "engine_laws host opts running table" and pid: "pid_ok host opts running (mg_world M)"
    and st: "stopOutgoingExternalBackends host opts previous p s M = (e, M')"
  shows "pid_ok host opts running (mg_world M') \<and> mg_native M' = mg_native M \<and> mg_last M' = mg_last M \<and>
    (\<not> snapshotHasDataplane opts previous ModeHAProxy \<longrightarrow> running (mg_world M') = running (mg_world M)) \<and>
    (\<not> snapshotHasDataplane opts previous ModeNFTables \<longrightarrow> table (mg_world M') = table (mg_world M))"
proof (cases "\<exists>t q. previous = Some t \<and> manager_plan (op_Mode opts) t = Inr q")
  case False
  then have "stopOutgoingExternalBackends host opts previous p s M = (None, M)"
    by (auto simp: stopOutgoingExternalBackends_def split: option.splits sum.splits)
  then show ?thesis using st pid by simp
next
  case True
  then obtain t q where t: "previous = Some t" "manager_plan (op_Mode opts) t = Inr q" by blast
  have has: "snapshotHasDataplane opts previous d \<longleftrightarrow> pl_rules q d \<noteq> []" for d
    by (simp add: snapshotHasDataplane_def t)
  obtain e1 M1 where m1: "(if hasOutgoingListener q p ModeHAProxy then annotated ModeHAProxy
      (on_haproxy host opts (s\<lparr>cs_Rules := retainedExternalRules q p ModeHAProxy\<rparr>)) M else (None, M)) = (e1, M1)" by fastforce
  note s1 = staged_haproxy [OF laws pid m1]
  show ?thesis
  proof (cases e1)
    case (Some x)
    then have "M' = M1" using st m1 by (simp add: stopOutgoingExternalBackends_def t)
    then show ?thesis using s1 outgoing_none [of q ModeHAProxy p] has by auto
  next
    case None
    then have m2: "(if hasOutgoingListener q p ModeNFTables then annotated ModeNFTables
        (on_nft host opts (s\<lparr>cs_Rules := retainedExternalRules q p ModeNFTables\<rparr>)) M1 else (None, M1)) = (e, M')"
      using st m1 by (auto simp: stopOutgoingExternalBackends_def t split: if_splits prod.splits option.splits)
    note s2 = staged_nft [OF laws conjunct1 [OF s1] m2]
    show ?thesis using s1 s2 outgoing_none [of q ModeHAProxy p] outgoing_none [of q ModeNFTables p] has by auto
  qed
qed

text \<open>The state in which the engines are called: prepared, with the engines that will not be called already right.\<close>

definition prepared ::
    "'w host \<Rightarrow> Options \<Rightarrow> 'w runningFn \<Rightarrow> 'w tableFn \<Rightarrow> ConfigSnapshot option \<Rightarrow> plan \<Rightarrow> 'w Manager \<Rightarrow> bool" where
  "prepared host opts running table previous p M \<longleftrightarrow>
     sv_ok (mg_native M) \<and> pid_ok host opts running (mg_world M) \<and> mg_last M = previous \<and>
     (pl_rules p ModeHAProxy = [] \<and> \<not> snapshotHasDataplane opts previous ModeHAProxy \<longrightarrow> running (mg_world M) = None) \<and>
     (pl_rules p ModeNFTables = [] \<and> \<not> snapshotHasDataplane opts previous ModeNFTables \<longrightarrow> table (mg_world M) = None)"

lemma idle_engines:
  assumes "manager_ok host opts running table M" "mg_last M = Some t"
  shows "\<not> snapshotHasDataplane opts (Some t) ModeHAProxy \<longrightarrow> running (mg_world M) = None"
    and "\<not> snapshotHasDataplane opts (Some t) ModeNFTables \<longrightarrow> table (mg_world M) = None"
  using assms by (auto simp: manager_ok_def engines_hold_def snapshotHasDataplane_def haproxy_text_def nft_text_def snapshotFor_def)

lemma first_step:
  assumes laws: "engine_laws host opts running table" and ok: "manager_ok host opts running table M"
    and stale: "mg_last M = None \<longrightarrow> table (mg_world M) = None \<or> destroys host opts"
    and st: "prepareFirst host opts (mg_last M) p M = (None, A)"
  shows "pid_ok host opts running (mg_world A) \<and> mg_native A = mg_native M \<and> mg_last A = mg_last M \<and>
    (\<not> snapshotHasDataplane opts (mg_last M) ModeHAProxy \<longrightarrow> running (mg_world A) = None) \<and>
    (\<not> snapshotHasDataplane opts (mg_last M) ModeNFTables \<longrightarrow> table (mg_world A) = None)"
proof (cases "mg_last M")
  case None
  then obtain M1 where m1: "ensureNoLiveLocks host opts p M = (None, M1)" "cleanupOwnedExternalBackends host opts p M1 = (None, A)"
    using st by (auto simp: prepareFirst_def run_steps_ok simp del: run_steps.simps(2))
  have l: "locks_only M M1" using m1(1) lock_steps(4) [of M host opts p] by simp
  then have "pid_ok host opts running (mg_world M1)" "table (mg_world M1) = None \<or> destroys host opts"
    using ok stale None by (auto simp: manager_ok_def locks_only_def)
  from first_cleanup [OF laws this m1(2)] show ?thesis using l by (auto simp: locks_only_def pid_ok_def)
next
  case (Some t)
  then show ?thesis using st ok idle_engines [OF ok Some] by (auto simp: manager_ok_def prepareFirst_def)
qed

lemma prepare_ok:
  assumes laws: "engine_laws host opts running table" and ok: "manager_ok host opts running table M"
    and stale: "mg_last M = None \<longrightarrow> table (mg_world M) = None \<or> destroys host opts"
    and st: "run_steps (prepareSteps host opts (mg_last M) p s) M = (None, D)"
  shows "prepared host opts running table (mg_last M) p D"
proof -
  obtain A B C where a: "prepareFirst host opts (mg_last M) p M = (None, A)" and b: "acquireLocks host opts p A = (None, B)"
    and c: "makeRoom host opts (mg_last M) p s B = (None, C)" and d: "dropStaleLocks host opts (mg_last M) p C = (None, D)"
    using st unfolding prepareSteps_def run_steps_ok by auto
  have lb: "locks_only A B"
    using b lock_steps(1) [of A host opts p] by (auto simp: acquireLocks_def locks_only_def split: if_splits)
  have ld: "locks_only C D"
    using d lock_steps(3) [of C host opts p]
    by (auto simp: dropStaleLocks_def locks_only_def split: if_splits prod.splits option.splits)
  have c': "stopOutgoingExternalBackends host opts (mg_last M) p s B = (None, C)"
    using c by (auto simp: makeRoom_def split: prod.splits option.splits)
  note sa = first_step [OF laws ok stale a]
  have pb: "pid_ok host opts running (mg_world B)" using sa lb by (simp add: locks_only_def)
  note sc = stopOutgoing_spec [OF laws pb c']
  show ?thesis using sa sc lb ld ok unfolding prepared_def locks_only_def manager_ok_def by auto
qed

lemma orRollback_ok [simp]: "orRollback host opts previous p d f M = (None, M') \<longleftrightarrow> f M = (None, M')"
  by (auto simp: orRollback_def split: prod.split option.split)

lemma engines_ok:
  assumes laws: "engine_laws host opts running table" "order_laws host"
    and pre: "prepared host opts running table previous p D"
    and st: "run_steps (engineSteps host opts previous p s) D = (None, M')"
  shows "engines_hold host opts running table p s M' \<and> sv_ok (mg_native M') \<and> pid_ok host opts running (mg_world M') \<and>
    mg_last M' = Some s \<and> mg_resolved M' = resolvedPlan p"
proof -
  obtain E F G where e: "on_native host (snapshotFor p ModeNative s) D = (None, E)" and f: "applyHAProxy host opts previous p s E = (None, F)"
    and g: "applyNFTables host opts previous p s F = (None, G)" and m: "M' = G\<lparr>mg_last := Some s, mg_resolved := resolvedPlan p\<rparr>"
    using st unfolding engineSteps_def run_steps_ok by (auto simp: remember_def)
  have pre': "sv_ok (mg_native D)" "pid_ok host opts running (mg_world D)" using pre by (simp_all add: prepared_def)
  note se = on_native_spec [OF laws pre'(1) e]
  have pe: "pid_ok host opts running (mg_world E)" using quiet_pid_ok [OF conjunct1 [OF se] pre'(2)] .
  have sf: "table (mg_world F) = table (mg_world E) \<and> pid_ok host opts running (mg_world F) \<and> mg_native F = mg_native E \<and>
      map_option snd (running (mg_world F)) = haproxy_text opts (snapshotFor p ModeHAProxy s)"
  proof (cases "length (pl_rules p ModeHAProxy) > 0 \<or> snapshotHasDataplane opts previous ModeHAProxy")
    case True
    then have "on_haproxy host opts (snapshotFor p ModeHAProxy s) E = (None, F)" using f by (simp add: applyHAProxy_def)
    from on_haproxy_spec [OF laws(1) pe this] show ?thesis by simp
  next
    case False
    then have "F = E" using f by (simp add: applyHAProxy_def)
    moreover have "running (mg_world E) = None" using se pre False by (simp add: prepared_def quiet_def)
    ultimately show ?thesis using pe False by (simp add: haproxy_text_def snapshotFor_def)
  qed
  have sg: "haproxy_same host opts running (mg_world F) (mg_world G) \<and> mg_native G = mg_native F \<and>
      table (mg_world G) = nft_text host opts (snapshotFor p ModeNFTables s)"
  proof (cases "length (pl_rules p ModeNFTables) > 0 \<or> snapshotHasDataplane opts previous ModeNFTables")
    case True
    then have "on_nft host opts (snapshotFor p ModeNFTables s) F = (None, G)" using g by (simp add: applyNFTables_def)
    from on_nft_spec [OF laws(1) this] show ?thesis by simp
  next
    case False
    then have "G = F" using g by (simp add: applyNFTables_def)
    moreover have "table (mg_world E) = None" using se pre False by (simp add: prepared_def quiet_def)
    ultimately show ?thesis using sf False by (simp add: haproxy_same_def nft_text_def snapshotFor_def)
  qed
  show ?thesis
    using se sf sg m by (auto simp: engines_hold_def haproxy_same_def pid_ok_def snapshotFor_def)
qed

subsection \<open>Going back\<close>

text \<open>The previous snapshot can be put into force again: both managed engines accept it and its addresses can be bound.\<close>

definition accepts_again :: "'w host \<Rightarrow> Options \<Rightarrow> ConfigSnapshot \<Rightarrow> plan \<Rightarrow> Supervisor \<Rightarrow> bool" where
  "accepts_again host opts s q S \<longleftrightarrow>
     (\<forall>M. fst (on_haproxy host opts (snapshotFor q ModeHAProxy s) M) = None) \<and>
     (\<forall>M. fst (on_nft host opts (snapshotFor q ModeNFTables s) M) = None) \<and>
     (\<forall>w. restorable (ho_listen host w) (dom (sv_listeners S)))"

lemma native_again:
  assumes laws: "engine_laws host opts running table" "order_laws host"
    and ok: "sv_ok (mg_native N)" and old: "sv_ok S" "native_holds (cs_Rules s) S"
    and free: "\<forall>w. restorable (ho_listen host w) (dom (sv_listeners S))"
  shows "fst (on_native host s N) = None"
proof -
  define grouped where "grouped = (\<lambda>key. map_option lr_rules (sv_listeners S key))"
  have g: "groupRulesByListener (cs_Rules s) = Inr grouped" using old(2) by (simp add: native_holds_def grouped_def)
  have "dom grouped = dom (sv_listeners S)" by (simp add: grouped_def dom_def)
  then have "no_overlap (dom grouped)" "restorable (ho_listen host (mg_world N)) (dom grouped)"
    using old(1) free by (simp_all add: sv_ok_def)
  then have "fst (supervisor_Apply (ho_listen host (mg_world N)) (ho_orders host (mg_world N) (cs_Rules s) (mg_native N)) s (mg_native N)) = None"
    using apply_ok_when_granted [OF ok] laws(2) ok g unfolding order_laws_def by blast
  then show ?thesis by (auto simp: on_native_def native_Apply_def split: prod.split)
qed

lemma snd_run_all: "snd (run_all (f # fs) s) = snd (run_all fs (snd (f s)))"
  by (simp add: split_beta)

lemma rollback_ok:
  assumes laws: "engine_laws host opts running table" "order_laws host"
    and N: "sv_ok (mg_native N)" "pid_ok host opts running (mg_world N)"
    and q: "manager_plan (op_Mode opts) t = Inr q"
    and old: "sv_ok S" "native_holds (pl_rules q ModeNative) S"
    and again: "accepts_again host opts t q S"
    and M': "M' = rollbackAfterFailedApply host opts (Some t) p N"
  shows "engines_hold host opts running table q t M' \<and> sv_ok (mg_native M') \<and> pid_ok host opts running (mg_world M') \<and> mg_last M' = mg_last N"
proof -
  obtain e1 A where a: "on_native host zero_snapshot N = (e1, A)" by fastforce
  obtain B where b: "on_haproxy host opts (snapshotFor q ModeHAProxy t) A = (None, B)"
    using again unfolding accepts_again_def by (metis prod.collapse)
  obtain C where c: "on_nft host opts (snapshotFor q ModeNFTables t) B = (None, C)"
    using again unfolding accepts_again_def by (metis prod.collapse)
  note sa = on_native_spec [OF laws N(1) a]
  have pa: "pid_ok host opts running (mg_world A)" using quiet_pid_ok [OF conjunct1 [OF sa] N(2)] .
  note sb = on_haproxy_spec [OF laws(1) pa b] and sc = on_nft_spec [OF laws(1) c]
  have okc: "sv_ok (mg_native C)" using sa sb sc by simp
  have "fst (on_native host (snapshotFor q ModeNative t) C) = None"
    using native_again [OF laws okc old(1), of "snapshotFor q ModeNative t"] old(2) again
    by (simp add: snapshotFor_def accepts_again_def)
  then obtain D where d: "on_native host (snapshotFor q ModeNative t) C = (None, D)" by (metis prod.collapse)
  note sd = on_native_spec [OF laws okc d]
  have M'': "M' = snd (ensureLocks host opts q D)"
    using q unfolding M' rollbackAfterFailedApply_def rollbackSteps_def by (simp add: snd_run_all a b c d del: run_all.simps(2))
  have "locks_only D M'" unfolding M'' by simp
  then show ?thesis
    using sa sb sc sd by (auto simp: engines_hold_def locks_only_def haproxy_same_def quiet_def pid_ok_def others_kept_def snapshotFor_def)
qed

lemma orRollback_failed:
  "orRollback host opts previous p d f M = (Some e, M') \<longleftrightarrow>
     (\<exists>err N. f M = (Some err, N) \<and> e = annotateBackendErrors d err \<and>
        M' = rollbackAfterFailedApply host opts previous p (releaseLocks host opts p N))"
  by (auto simp: orRollback_def split: prod.split option.split)

text \<open>Whichever engine refuses, the roll-back starts from a state with sound sockets and a true pid file.\<close>

lemma engines_fail:
  assumes laws: "engine_laws host opts running table" "order_laws host"
    and pre: "prepared host opts running table previous p D"
    and st: "run_steps (engineSteps host opts previous p s) D = (Some e, M')"
  shows "\<exists>N. sv_ok (mg_native N) \<and> pid_ok host opts running (mg_world N) \<and> mg_last N = previous \<and>
    M' = rollbackAfterFailedApply host opts previous p N"
proof -
  have found: ?thesis if "sv_ok (mg_native N)" "pid_ok host opts running (mg_world N)" "mg_last N = previous"
    "M' = rollbackAfterFailedApply host opts previous p (releaseLocks host opts p N)" for N
    using that lock_steps(2) [of N host opts p] by (intro exI [of _ "releaseLocks host opts p N"]) (auto simp: locks_only_def)
  have pre': "sv_ok (mg_native D)" "pid_ok host opts running (mg_world D)" "mg_last D = previous" using pre by (simp_all add: prepared_def)
  obtain e1 E where e1: "on_native host (snapshotFor p ModeNative s) D = (e1, E)" by fastforce
  note se = on_native_spec [OF laws pre'(1) e1]
  have pe: "pid_ok host opts running (mg_world E)" "mg_last E = previous"
    using quiet_pid_ok [OF conjunct1 [OF se] pre'(2)] se pre'(3) by (simp_all add: others_kept_def)
  obtain e2 F where f: "applyHAProxy host opts previous p s E = (e2, F)" by fastforce
  obtain e3 G where g: "applyNFTables host opts previous p s F = (e3, G)" by fastforce
  show ?thesis
  proof (cases e1)
    case (Some err)
    then show ?thesis using found [of E] se pe st e1 by (simp add: engineSteps_def orRollback_def)
  next
    case n1: None
    show ?thesis
    proof (cases e2)
      case (Some err)
      then obtain err' N where N: "on_haproxy host opts (snapshotFor p ModeHAProxy s) E = (Some err', N)"
        "F = rollbackAfterFailedApply host opts previous p (releaseLocks host opts p N)"
        using f by (auto simp: applyHAProxy_def orRollback_failed split: if_splits)
      have "M' = F" using st e1 n1 f Some by (simp add: engineSteps_def orRollback_def)
      with on_haproxy_spec [OF laws(1) pe(1) N(1)] found [of N] N(2) se pe(2) show ?thesis by (simp add: others_kept_def)
    next
      case n2: None
      have sf: "sv_ok (mg_native F)" "pid_ok host opts running (mg_world F)" "mg_last F = previous"
      proof -
        have "on_haproxy host opts (snapshotFor p ModeHAProxy s) E = (None, F) \<or> F = E"
          using f n2 by (auto simp: applyHAProxy_def split: if_splits)
        then show "sv_ok (mg_native F)" "pid_ok host opts running (mg_world F)" "mg_last F = previous"
          using on_haproxy_spec [OF laws(1) pe(1), of "snapshotFor p ModeHAProxy s" None F] se pe by (auto simp: others_kept_def)
      qed
      have fail: "e3 \<noteq> None" "M' = G" using st e1 n1 f n2 g
        by (auto simp: engineSteps_def orRollback_def remember_def split: option.splits)
      then obtain err' N where N: "on_nft host opts (snapshotFor p ModeNFTables s) F = (Some err', N)"
        "G = rollbackAfterFailedApply host opts previous p (releaseLocks host opts p N)"
        using g by (auto simp: applyNFTables_def orRollback_failed split: if_splits)
      from on_nft_spec [OF laws(1) N(1)] found [of N] N(2) sf fail(2) show ?thesis
        by (simp add: others_kept_def haproxy_same_def pid_ok_def)
    qed
  qed
qed

lemma apply_installed:
  assumes "engine_laws host opts running table" "order_laws host" "manager_ok host opts running table M"
    and "mg_last M = None \<longrightarrow> table (mg_world M) = None \<or> destroys host opts"
    and "manager_Apply host opts s M = (None, M')"
  shows "\<exists>p. manager_plan (op_Mode opts) s = Inr p \<and> engines_hold host opts running table p s M' \<and>
    mg_last M' = Some s \<and> mg_resolved M' = resolvedPlan p \<and> manager_ok host opts running table M'"
proof -
  obtain p D where p: "manager_plan (op_Mode opts) s = Inr p"
    and d: "run_steps (prepareSteps host opts (mg_last M) p s) M = (None, D)"
    and m: "run_steps (engineSteps host opts (mg_last M) p s) D = (None, M')"
    using assms(5) by (auto simp: manager_Apply_def run_steps_append split: sum.splits prod.splits option.splits)
  note pre = prepare_ok [OF assms(1,3,4) d]
  from engines_ok [OF assms(1,2) pre m] p show ?thesis by (auto simp: manager_ok_def)
qed

end
