(* ===== verification/Manager_Transaction.thy ===== *)
theory Manager_Transaction
  imports Manager_Apply
begin

text \<open>
  The properties of \<open>Manager.Apply\<close>, shown on a small machine whose HAProxy and \<open>nft\<close> obey the laws of \<open>Engine_Laws\<close>.
\<close>

subsection \<open>An example machine\<close>

text \<open>
  A machine with files, a HAProxy that runs what it is started with, and a table; \<open>refuse\<close> says which files \<open>nft\<close> does not
  accept.
\<close>

record machineWorld =
  ew_files :: "(string \<times> string) list"
  ew_conf :: "string option"
  ew_table :: "string option"

definition machine_opts :: Options where
  "machine_opts = \<lparr>op_Mode = ModeAuto, op_ConflictPolicy = ''FAIL_FAST'', op_InstanceID = ''a'', op_ServiceName = ''prism'',
     op_InstallDir = ''/opt/p'', op_StateDir = ''/var/p'', op_RunDir = ''/run/p'', op_HAProxyPath = ''/bin/haproxy'', op_NFTPath = ''nft'',
     op_ExternalBackends = False\<rparr>"

definition machine_pidFile :: string where "machine_pidFile = ''/run/p/dataplane/a/haproxy/haproxy.pid''"

definition machine_table :: string where "machine_table = ''prism_a_0123456789''"

definition machine_command ::
    "(string \<Rightarrow> bool) \<Rightarrow> string \<Rightarrow> string list \<Rightarrow> machineWorld \<Rightarrow> string \<times> string option \<times> machineWorld" where
  "machine_command refuse name args w =
     (if name = ''/bin/haproxy'' then
        (if take 2 args = [''-D'', ''-f''] then
           (case map_of (ew_files w) (args ! 2) of
              None \<Rightarrow> ([], Some ''exit status 1'', w)
            | Some conf \<Rightarrow> ([], None, w\<lparr>ew_files := (machine_pidFile, ''42'') # ew_files w, ew_conf := Some conf\<rparr>))
         else ([], None, w))
      else if take 1 args = [''list''] then ([], if ew_table w = None then Some ''exit status 1'' else None, w)
      else if take 1 args = [''destroy''] then ([], None, w\<lparr>ew_table := None\<rparr>)
      else if refuse (args ! 1) then (''netlink error'', Some ''exit status 1'', w)
      else
        (let delete = ''delete table inet '' @ machine_table @ [CHR 0x0A] in
         case map_of (ew_files w) (args ! 1) of
           None \<Rightarrow> (''no such file'', Some ''exit status 1'', w)
         | Some conf \<Rightarrow> ([], None, w\<lparr>ew_table := Some (if HasPrefix conf delete then drop (length delete) conf else conf)\<rparr>)))"

definition machine_keys :: "RuleConfig list \<Rightarrow> listenerKey list" where
  "machine_keys rules = remdups (concat (map (\<lambda>r. map (\<lambda>p. \<lparr>lk_listenIP = rc_ListenIP r, lk_protocol = p, lk_port = rc_Port r\<rparr>)
     (listenerProtocols (rc_Protocol r))) (filter rc_Enabled rules)))"

definition machine_orders :: "RuleConfig list \<Rightarrow> Supervisor \<Rightarrow> mapOrders" where
  "machine_orders rules S = \<lparr>mo_validate = machine_keys rules, mo_old = sv_open S, mo_start = machine_keys rules, mo_removed = sv_open S,
     mo_sessions = (\<lambda>_. []), mo_targets = []\<rparr>"

definition machine_lockIO :: lockIO where
  "machine_lockIO = \<lparr>io_mkdirErr = None, io_statErr = None, io_lockErr = None, io_readDirErr = None, io_readable = (\<lambda>_. True),
     io_removable = (\<lambda>_. True), io_openErr = (\<lambda>_. None), io_writeErr = (\<lambda>_. None), io_closeErr = (\<lambda>_. None)\<rparr>"

definition machine_host :: "(string \<Rightarrow> bool) \<Rightarrow> machineWorld host" where
  "machine_host refuse =
     \<lparr>ho_stat = (\<lambda>w path. True),
      ho_readFile = (\<lambda>w path. case map_of (ew_files w) path of None \<Rightarrow> Inl ''not found'' | Some data \<Rightarrow> Inr data),
      ho_mkdirAll = (\<lambda>path w. (None, w)),
      ho_writeFile = (\<lambda>path data w. if path = machine_pidFile then (Some ''busy'', w) else (None, w\<lparr>ew_files := (path, data) # ew_files w\<rparr>)),
      ho_rename = (\<lambda>old new w. case map_of (ew_files w) old of
         None \<Rightarrow> (Some ''not found'', w) | Some data \<Rightarrow> (None, w\<lparr>ew_files := (new, data) # ew_files w\<rparr>)),
      ho_remove = (\<lambda>path w. w\<lparr>ew_files := filter (\<lambda>f. fst f \<noteq> path) (ew_files w)\<rparr>),
      ho_CombinedOutput = machine_command refuse,
      ho_FindProcess = (\<lambda>w pid. True),
      ho_SIGTERM = (\<lambda>pid w. (None, w\<lparr>ew_conf := None\<rparr>)),
      ho_alive = (\<lambda>w pid. ew_conf w \<noteq> None),
      ho_readlink = (\<lambda>w path. Some ''/bin/haproxy''),
      ho_evalSymlinks = (\<lambda>w path. Some path),
      ho_polls = (\<lambda>w. 1), ho_sleep = (\<lambda>w. w), ho_probe = (\<lambda>w network address. None), ho_linux = True, ho_pid = 7,
      ho_sha256hex = (\<lambda>s. ''0123456789abcdef''), ho_lockIO = (\<lambda>w. machine_lockIO),
      ho_lockOrder = (\<lambda>w planned. groupedKeys planned), ho_listen = (\<lambda>w opened network address. None),
      ho_orders = (\<lambda>w. machine_orders), ho_sockets = (\<lambda>sockets w. w)\<rparr>"

definition machine_running :: "machineWorld runningFn" where
  "machine_running w = map_option (Pair 42) (ew_conf w)"

lemma machine_paths [simp]:
  "hp_pidFile (haproxy_paths machine_opts) = machine_pidFile" "haproxyPath machine_opts = ''/bin/haproxy''" "nftPath machine_opts = ''nft''"
  "haproxyActiveConfig machine_opts = ''/var/p/haproxy/active.cfg''"
  by code_simp+

lemma machine_pid_path [simp]: "machine_pidFile \<noteq> ''/var/p/haproxy/active.cfg''" "''/var/p/haproxy/active.cfg'' \<noteq> machine_pidFile"
  by code_simp+

lemma machine_tableName [simp]: "tableName (machine_host refuse) machine_opts = machine_table"
proof -
  have "nftablesTableNameForInstance (\<lambda>s. ''0123456789abcdef'') (op_InstanceID machine_opts) = machine_table" by code_simp
  then show ?thesis by (simp add: tableName_def machine_host_def)
qed

lemma machine_ops [simp]:
  "ho_stat (machine_host refuse) w path" "ho_mkdirAll (machine_host refuse) path w = (None, w)"
  "ho_readFile (machine_host refuse) w path = (case map_of (ew_files w) path of None \<Rightarrow> Inl ''not found'' | Some data \<Rightarrow> Inr data)"
  "ho_writeFile (machine_host refuse) path data w =
     (if path = machine_pidFile then (Some ''busy'', w) else (None, w\<lparr>ew_files := (path, data) # ew_files w\<rparr>))"
  "ho_rename (machine_host refuse) old new w = (case map_of (ew_files w) old of
     None \<Rightarrow> (Some ''not found'', w) | Some data \<Rightarrow> (None, w\<lparr>ew_files := (new, data) # ew_files w\<rparr>))"
  "ho_remove (machine_host refuse) path w = w\<lparr>ew_files := filter (\<lambda>f. fst f \<noteq> path) (ew_files w)\<rparr>"
  "ho_CombinedOutput (machine_host refuse) = machine_command refuse" "ho_FindProcess (machine_host refuse) w pid"
  "ho_SIGTERM (machine_host refuse) pid w = (None, w\<lparr>ew_conf := None\<rparr>)" "ho_alive (machine_host refuse) w pid \<longleftrightarrow> ew_conf w \<noteq> None"
  "ho_sleep (machine_host refuse) w = w" "ho_polls (machine_host refuse) w = 1" "ho_sockets (machine_host refuse) sockets w = w"
  "ho_orders (machine_host refuse) w = machine_orders" "ho_listen (machine_host refuse) w = (\<lambda>opened network address. None)"
  by (simp_all add: machine_host_def)

lemma machine_looks_managed [simp]: "pidLooksLikeManagedHAProxy (machine_host refuse) machine_opts w pid"
proof -
  have "TrimSpace ''/bin/haproxy'' = ''/bin/haproxy''" by code_simp
  then have "pathIsManagedHAProxyExecutable (machine_host refuse) machine_opts w ''/bin/haproxy''"
    by (simp add: pathIsManagedHAProxyExecutable_def resolved_def machine_host_def Let_def)
  then show ?thesis by (simp add: pidLooksLikeManagedHAProxy_def machine_host_def)
qed

lemma machine_pid_of: "pid_of (machine_host refuse) machine_opts w = (case map_of (ew_files w) machine_pidFile of None \<Rightarrow> [] | Some d \<Rightarrow> TrimSpace d)"
  by (simp add: pid_of_def readPID_def split: option.split)

lemmas machine_defs = quiet_def ends_only_def machine_pid_of machine_running_def

lemma machine_file_laws:
  "file_laws (machine_host refuse) machine_opts machine_running ew_table" "write_law (machine_host refuse) machine_opts machine_running ew_table"
  "rename_law (machine_host refuse) machine_opts machine_running ew_table"
  by (auto simp: file_laws_def write_law_def rename_law_def machine_defs split: option.splits)

lemma machine_haproxy_laws:
  "check_law (machine_host refuse) machine_opts machine_running ew_table" "start_law (machine_host refuse) machine_opts machine_running ew_table"
  "process_law (machine_host refuse) machine_opts machine_running" "signal_law (machine_host refuse) machine_opts machine_running ew_table"
proof -
  have pid: "Atoi (TrimSpace ''42'') = Some 42" by code_simp
  show "check_law (machine_host refuse) machine_opts machine_running ew_table" "start_law (machine_host refuse) machine_opts machine_running ew_table"
    by (auto simp: check_law_def start_law_def machine_command_def machine_defs pid split: option.splits)
  show "process_law (machine_host refuse) machine_opts machine_running" "signal_law (machine_host refuse) machine_opts machine_running ew_table"
    by (auto simp: process_law_def signal_law_def machine_defs i64_ok_def)
qed

lemma delete_or_table:
  "HasPrefix conf (''table inet '' @ T) \<Longrightarrow> \<not> HasPrefix conf (''delete table inet '' @ T @ [CHR 0x0A])"
  by (cases conf) (auto simp: HasPrefix_def)

lemma machine_nft_laws:
  "list_law (machine_host refuse) machine_opts machine_running ew_table" "load_law (machine_host refuse) machine_opts machine_running ew_table"
  "destroy_law (machine_host refuse) machine_opts machine_running ew_table"
proof -
  show "list_law (machine_host refuse) machine_opts machine_running ew_table" "destroy_law (machine_host refuse) machine_opts machine_running ew_table"
    by (auto simp: list_law_def destroy_law_def machine_command_def machine_defs split: option.splits if_splits)
  let ?d = "''delete table inet '' @ machine_table @ [CHR 0x0A]"
  have loaded: "(if HasPrefix conf ?d then drop (length ?d) conf else conf) = body"
    if "HasPrefix body (''table inet '' @ machine_table)" "conf = ?d @ body \<or> conf = body" for conf body
    using that delete_or_table HasPrefix_append [of ?d body] by (auto simp del: append_assoc append_Cons)
  show "load_law (machine_host refuse) machine_opts machine_running ew_table"
    unfolding load_law_def machine_tableName
  proof (intro allI impI, goal_cases)
    case (1 s w out e w')
    then show ?case
      using loaded [of _ "the (map_of (ew_files w) (nftConfigPath machine_opts s))"]
      by (auto simp: machine_command_def machine_defs Let_def split: option.splits if_splits simp del: append.simps)
  qed
qed

lemma machine_laws: "engine_laws (machine_host refuse) machine_opts machine_running ew_table"
  by (simp add: engine_laws_def machine_file_laws machine_haproxy_laws machine_nft_laws)

lemma machine_order_laws: "order_laws (machine_host refuse)"
proof -
  have "set (machine_keys rules) = dom grouped" if "groupRulesByListener rules = Inr grouped" for rules grouped
  proof -
    have "grouped = (\<lambda>key. rules_for key rules)" using group_correct [OF that] .
    moreover have "rules_for key rules \<noteq> None \<longleftrightarrow> key \<in> set (machine_keys rules)" for key
      by (cases key) (auto simp: rules_for_def serves_def machine_keys_def Let_def filter_empty_conv image_iff)
    ultimately show ?thesis by (auto simp: dom_def)
  qed
  then show ?thesis by (auto simp: order_laws_def orders_ok_def machine_orders_def sv_ok_def machine_keys_def)
qed

definition machine_rule :: "string \<Rightarrow> Protocol \<Rightarrow> int \<Rightarrow> RuleConfig" where
  "machine_rule i protocol port = zero_rule\<lparr>rc_ID := i, rc_Enabled := True, rc_Protocol := protocol, rc_ListenIP := ''10.0.0.1'',
     rc_Port := port, rc_MatchType := MatchTypeAnyInbound,
     rc_Upstream := zero_upstream\<lparr>up_Type := ''TARGET'', up_Target := Some (zero_endpoint\<lparr>te_ID := ''t'', te_Host := ''10.0.0.9'',
       te_Port := 80, te_Enabled := True\<rparr>)\<rparr>\<rparr>"

text \<open>Under the mode AUTO a TCP rule goes to HAProxy, a UDP rule to nftables and a rule for both to the forwarder.\<close>

definition machine_snapshot :: "int \<Rightarrow> RuleConfig list \<Rightarrow> ConfigSnapshot" where
  "machine_snapshot version rules = zero_snapshot\<lparr>cs_ConfigVersion := version, cs_DataplaneMode := ModeAuto, cs_Rules := rules\<rparr>"

definition machine_manager :: "machineWorld Manager" where
  "machine_manager = NewManager 0 \<lparr>ld_exists = False, ld_files = []\<rparr> \<lparr>ew_files = [], ew_conf = None, ew_table = None\<rparr>"

definition machine_three :: ConfigSnapshot where
  "machine_three = machine_snapshot 1 [machine_rule ''r1'' ProtocolTCP 1, machine_rule ''r2'' ProtocolUDP 2, machine_rule ''r3'' ProtocolTCPUDP 3]"

lemma machine_stop: "fst (stopOwnedProcess (machine_host refuse) machine_opts w) = None"
  by (auto simp: stopOwnedProcess_def Let_def waitForManagedHAProxyExit_def processAlive_def split: option.split)

lemma machine_install:
  assumes "renderHAProxyConfig (hp_socketFile (haproxy_paths machine_opts)) machine_pidFile s = Inr conf"
    and "haproxyTmpConfig machine_opts s \<noteq> machine_pidFile"
  shows "fst (haproxy_install (machine_host refuse) machine_opts s w) = None"
proof -
  obtain args where args: "haproxyStartArgs (machine_host refuse) machine_opts v = ''-D'' # ''-f'' # haproxyActiveConfig machine_opts # args v" for v
    using start_args by metis
  show ?thesis
    using assms by (simp add: haproxy_install_def Let_def plain_def haproxy_validate_def haproxy_start_def machine_command_def args)
qed

lemma machine_haproxy:
  assumes "cs_Rules s = [] \<or> (\<exists>conf. renderHAProxyConfig (hp_socketFile (haproxy_paths machine_opts)) machine_pidFile s = Inr conf) \<and>
      haproxyTmpConfig machine_opts s \<noteq> machine_pidFile"
  shows "fst (on_haproxy (machine_host refuse) machine_opts s M) = None"
  using assms machine_stop [of refuse "mg_world M"] machine_install [of s _ refuse "mg_world M"]
  by (auto simp: on_haproxy_def haproxy_Apply_def split: prod.splits option.splits)

lemma firstError_none: "(\<And>x. x \<in> set xs \<Longrightarrow> f x = None) \<Longrightarrow> firstError f xs = None"
proof -
  assume "\<And>x. x \<in> set xs \<Longrightarrow> f x = None"
  then have "List.map_filter f xs = []" by (simp add: map_filter_none)
  then show ?thesis by (simp add: firstError_def)
qed

lemma machine_load:
  assumes "list_all nftablesSupportsRule (cs_Rules s)" "nftConfigPath machine_opts s \<noteq> machine_pidFile"
    and "\<And>b. \<exists>conf. renderNFTablesConfig s machine_table b = Inr conf" "\<not> refuse (nftConfigPath machine_opts s)"
  shows "fst (nft_Apply (machine_host refuse) machine_opts s w) = None"
proof -
  obtain conf where conf: "renderNFTablesConfig s machine_table b = Inr (conf b)" for b using assms(3) by metis
  have sup: "firstError (\<lambda>rule. if nftablesSupportsRule rule then None else Some (err rule)) (cs_Rules s) = None" for err
    using assms(1) by (intro firstError_none) (simp add: list_all_iff)
  have probe: "checkNFTablesListenersAvailable (machine_host refuse) v (cs_Rules s) = None" for v
    unfolding checkNFTablesListenersAvailable_def Let_def
    by (intro firstError_none) (simp add: probeListenerAvailable_def machine_host_def)
  have no_sysctl: "\<not> op_ExternalBackends machine_opts" by (simp add: machine_opts_def)
  show ?thesis
    using assms(2,4) by (simp add: nft_Apply_def cleanupTable_def sup probe nft_write_def nft_load_def tableExists_def machine_command_def conf plain_def
        no_sysctl Let_def)
qed

lemma machine_nft:
  assumes "cs_Rules s = [] \<or> (list_all nftablesSupportsRule (cs_Rules s) \<and> nftConfigPath machine_opts s \<noteq> machine_pidFile \<and>
      (\<forall>b. \<exists>conf. renderNFTablesConfig s machine_table b = Inr conf) \<and> \<not> refuse (nftConfigPath machine_opts s))"
  shows "fst (on_nft (machine_host refuse) machine_opts s M) = None"
proof -
  have "fst (nft_Apply (machine_host refuse) machine_opts s (mg_world M)) = None"
    using assms machine_load [of s refuse "mg_world M"] by (auto simp: nft_Apply_def cleanupTable_def machine_command_def)
  then show ?thesis by (simp add: on_nft_def split_beta)
qed

definition machine_planned :: "plannedRule list" where
  "machine_planned = [\<lparr>pr_rule = machine_rule ''r1'' ProtocolTCP 1, pr_dataplane = ModeHAProxy\<rparr>,
     \<lparr>pr_rule = machine_rule ''r2'' ProtocolUDP 2, pr_dataplane = ModeNFTables\<rparr>,
     \<lparr>pr_rule = machine_rule ''r3'' ProtocolTCPUDP 3, pr_dataplane = ModeNative\<rparr>]"

definition machine_plan :: plan where
  "machine_plan = \<lparr>pl_rules = rules_of machine_planned, pl_planned = machine_planned\<rparr>"

lemma machine_three_plan: "manager_plan (op_Mode machine_opts) machine_three = Inr machine_plan"
proof -
  have "map pr_rule machine_planned = cs_Rules machine_three" by code_simp
  moreover have "list_all (assigned (effectiveMode (op_Mode machine_opts) machine_three)) machine_planned" by code_simp
  moreover have "sorted_wrt plan_compatible machine_planned" by code_simp
  ultimately show ?thesis by (simp add: manager_plan_ok_iff machine_plan_def)
qed

lemma machine_list:
  "machine_command refuse name (''list'' # args) w =
     (if name = ''/bin/haproxy'' then ([], None, w) else ([], if ew_table w = None then Some ''exit status 1'' else None, w))"
  by (simp add: machine_command_def)

lemma machine_env: "manager_env (machine_host refuse) machine_opts M = manager_env (machine_host (\<lambda>_. False)) machine_opts M"
  by (simp add: manager_env_def host_env_def machine_list) (simp add: machine_host_def)

lemma machine_lock_fields [simp]:
  "ho_lockIO (machine_host refuse) w = machine_lockIO" "ho_lockOrder (machine_host refuse) w planned = groupedKeys planned"
  by (simp_all add: machine_host_def)

lemma machine_first_step: "prepareFirst (machine_host refuse) machine_opts None p machine_manager = (None, machine_manager)"
proof -
  have "ensureNoLiveLocks (machine_host refuse) machine_opts p machine_manager = (None, machine_manager)"
    by (simp add: ensureNoLiveLocks_def ensureNoLiveOwnedListenerLocksFromOtherProcess_def machine_lockIO_def machine_manager_def NewManager_def)
  moreover have "on_haproxy (machine_host refuse) machine_opts zero_snapshot machine_manager = (None, machine_manager)"
    by (simp add: on_haproxy_def haproxy_Apply_def zero_snapshot_def stopOwnedProcess_def readPID_def removeRuntimeFiles_def Let_def
        machine_manager_def NewManager_def)
  moreover have "on_nft (machine_host refuse) machine_opts zero_snapshot machine_manager = (None, machine_manager)"
    by (simp add: on_nft_def nft_Apply_def zero_snapshot_def cleanupTable_def machine_command_def machine_manager_def NewManager_def)
  ultimately show ?thesis
    by (simp add: prepareFirst_def cleanupOwnedExternalBackends_def annotated_def ignoring_def)
qed

text \<open>On a machine without lock files the first snapshot gets as far as the engines when its locks can be taken.\<close>

lemma machine_prepare:
  assumes "hasManaged p" "fst (ensureLocks (machine_host refuse) machine_opts p machine_manager) = None"
  shows "fst (run_steps (prepareSteps (machine_host refuse) machine_opts None p s) machine_manager) = None"
proof -
  note machine_first_step [of refuse p]
  moreover obtain D where "ensureLocks (machine_host refuse) machine_opts p machine_manager = (None, D)"
    using assms(2) by (metis prod.collapse)
  moreover have "fst (removeStaleLocks (machine_host refuse) machine_opts p D) = None"
    by (simp add: removeStaleLocks_def removeStaleExternalListenerLocks_def machine_lockIO_def Let_def)
  ultimately show ?thesis
    using assms(1) by (auto simp: prepareSteps_def acquireLocks_def makeRoom_def stopOutgoingExternalBackends_def dropStaleLocks_def
        split: prod.split option.split)
qed

lemma machine_native:
  assumes "groupRulesByListener (cs_Rules s) = Inr grouped" "no_overlap (dom grouped)"
    and "\<forall>key \<in> dom grouped. lk_protocol key = ProtocolTCP \<or> lk_protocol key = ProtocolUDP" "sv_ok (mg_native M)"
  shows "fst (on_native (machine_host refuse) s M) = None"
proof -
  have "fst (supervisor_Apply (\<lambda>_ _ _. None) (machine_orders (cs_Rules s) (mg_native M)) s (mg_native M)) = None"
    using apply_ok_when_granted [OF assms(4) _ assms(1,2)] machine_order_laws [of "\<lambda>_. False"] assms
    by (auto simp: order_laws_def restorable_def grants_def)
  then show ?thesis by (simp add: on_native_def native_Apply_def split_beta Let_def)
qed

lemma machine_locks: "fst (ensureLocks (machine_host refuse) machine_opts machine_plan machine_manager) = None"
proof -
  have "fst (ensureExternalListenerLocks machine_opts (manager_env (machine_host (\<lambda>_. False)) machine_opts machine_manager) machine_lockIO
      (groupedKeys machine_planned) machine_plan (mg_dir machine_manager)) = None" by code_simp
  then show ?thesis by (simp add: ensureLocks_def machine_env [of refuse] machine_plan_def split_beta)
qed

lemma machine_manager_ok: "manager_ok (machine_host refuse) machine_opts machine_running ew_table machine_manager"
  by (simp add: manager_ok_def machine_manager_def NewManager_def new_ok pid_ok_def machine_running_def)

lemma engineSteps_succeed:
  assumes "fst (on_native host (snapshotFor p ModeNative s) D) = None"
    and "\<And>M. fst (on_haproxy host opts (snapshotFor p ModeHAProxy s) M) = None"
    and "\<And>M. fst (on_nft host opts (snapshotFor p ModeNFTables s) M) = None"
  shows "fst (run_steps (engineSteps host opts previous p s) D) = None"
proof -
  have haproxy: "fst (applyHAProxy host opts previous p s E) = None" for E
    using assms(2) [of E] by (auto simp: applyHAProxy_def orRollback_def split: prod.split option.split)
  have nft: "fst (applyNFTables host opts previous p s F) = None" for F
    using assms(3) [of F] by (auto simp: applyNFTables_def orRollback_def split: prod.split option.split)
  obtain E where "on_native host (snapshotFor p ModeNative s) D = (None, E)" using assms(1) by (metis prod.collapse)
  moreover obtain F where "applyHAProxy host opts previous p s E = (None, F)"
    using haproxy [of E] by (metis prod.collapse)
  moreover obtain G where "applyNFTables host opts previous p s F = (None, G)"
    using nft [of F] by (metis prod.collapse)
  ultimately show ?thesis by (simp add: engineSteps_def orRollback_def remember_def)
qed

lemma machine_three_engines:
  "cs_Rules (snapshotFor machine_plan ModeNative machine_three) = [machine_rule ''r3'' ProtocolTCPUDP 3]"
  "cs_Rules (snapshotFor machine_plan ModeHAProxy machine_three) = [machine_rule ''r1'' ProtocolTCP 1]"
  "cs_Rules (snapshotFor machine_plan ModeNFTables machine_three) = [machine_rule ''r2'' ProtocolUDP 2]"
  by code_simp+

lemma machine_group:
  "groupRulesByListener [machine_rule ''r3'' ProtocolTCPUDP 3] =
     Inr [\<lparr>lk_listenIP = ''10.0.0.1'', lk_protocol = ProtocolTCP, lk_port = 3\<rparr> \<mapsto> [machine_rule ''r3'' ProtocolTCPUDP 3],
          \<lparr>lk_listenIP = ''10.0.0.1'', lk_protocol = ProtocolUDP, lk_port = 3\<rparr> \<mapsto> [machine_rule ''r3'' ProtocolTCPUDP 3]]"
  by (simp add: groupRulesByListener_def machine_rule_def zero_rule_def normalizedForwardingType_def listenerProtocols_def addToGroup_def)

lemma machine_native_again: "sv_ok (mg_native M) \<Longrightarrow> cs_Rules s = [machine_rule ''r3'' ProtocolTCPUDP 3] \<Longrightarrow> fst (on_native (machine_host refuse) s M) = None"
  by (rule machine_native) (simp_all add: machine_group no_overlap_insert, simp_all add: no_overlap_def listenerKeysOverlap_def)

lemma machine_renders:
  assumes "list_all haproxySupportsRule (cs_Rules s)"
    and "list_all (\<lambda>r. sniError r = None) (concat (map (haproxyGroup (cs_Rules s)) (haproxyKeys (cs_Rules s))))"
  shows "\<exists>conf. renderHAProxyConfig socket pid s = Inr conf"
proof -
  have "firstError sniError (concat (map (haproxyGroup (cs_Rules s)) (haproxyKeys (cs_Rules s)))) = None"
    "firstError (\<lambda>rule. if haproxySupportsRule rule then None else Some (f rule)) (cs_Rules s) = None" for f :: "RuleConfig \<Rightarrow> ConfigApplyError"
    using assms by (auto simp: list_all_iff intro!: firstError_none)
  then show ?thesis by (simp add: renderHAProxyConfig_def Let_def)
qed

lemma machine_nft_refused:
  assumes "cs_Rules s \<noteq> []" "refuse (nftConfigPath machine_opts s)"
  shows "fst (on_nft (machine_host refuse) machine_opts s M) \<noteq> None"
proof
  assume "fst (on_nft (machine_host refuse) machine_opts s M) = None"
  then have "\<exists>w'. nft_Apply (machine_host refuse) machine_opts s (mg_world M) = (None, w')"
    by (auto simp: on_nft_def split: prod.splits)
  then obtain w w' where "nft_load (machine_host refuse) machine_opts s w = (None, w')"
    using assms(1) by (auto simp: nft_Apply_def run_steps_ok simp del: run_steps.simps(2))
  then show False using assms(2) by (simp add: nft_load_def machine_command_def)
qed

lemma machine_three_applies: "fst (manager_Apply (machine_host (\<lambda>_. False)) machine_opts machine_three machine_manager) = None"
proof -
  let ?h = "machine_host (\<lambda>_. False)"
  have managed: "hasManaged machine_plan" by code_simp
  have last: "mg_last machine_manager = None" by (simp add: machine_manager_def NewManager_def)
  obtain D where d: "run_steps (prepareSteps ?h machine_opts None machine_plan machine_three) machine_manager = (None, D)"
    using machine_prepare [OF managed machine_locks] by (metis prod.collapse)
  have pre: "prepared ?h machine_opts machine_running ew_table None machine_plan D"
    using prepare_ok [OF machine_laws machine_manager_ok _ d [folded last]] last by (simp add: machine_manager_def NewManager_def)
  let ?s = "snapshotFor machine_plan ModeHAProxy machine_three" and ?n = "snapshotFor machine_plan ModeNFTables machine_three"
  have sup: "list_all haproxySupportsRule (cs_Rules ?s)"
    "list_all (\<lambda>r. sniError r = None) (concat (map (haproxyGroup (cs_Rules ?s)) (haproxyKeys (cs_Rules ?s))))" by code_simp+
  note hap = machine_renders [OF sup]
  have nft: "list_all nftablesSupportsRule (cs_Rules ?n)" "list_all (\<lambda>r. nftRuleError r = None) (nftSorted (cs_Rules ?n))" by code_simp+
  have paths: "haproxyTmpConfig machine_opts ?s \<noteq> machine_pidFile" "nftConfigPath machine_opts ?n \<noteq> machine_pidFile" by code_simp+
  have "fst (run_steps (engineSteps ?h machine_opts None machine_plan machine_three) D) = None"
  proof (rule engineSteps_succeed)
    show "fst (on_native ?h (snapshotFor machine_plan ModeNative machine_three) D) = None"
      using pre by (intro machine_native_again) (simp_all add: prepared_def machine_three_engines)
    show "fst (on_haproxy ?h machine_opts ?s M) = None" for M using hap paths(1) by (intro machine_haproxy) blast
    show "fst (on_nft ?h machine_opts ?n M) = None" for M
      using nft paths(2) by (intro machine_nft) (simp add: renderNFTablesConfig_def firstError_none list_all_iff)
  qed
  then show ?thesis using d last by (simp add: manager_Apply_def machine_three_plan run_steps_append)
qed

text \<open>A machine on which \<open>nft\<close> refuses the file of version 2, with a rule of the forwarder in force.\<close>

abbreviation refusing :: "string \<Rightarrow> bool" where
  "refusing path \<equiv> path = ''/var/p/nftables/2.nft''"

definition machine_old :: ConfigSnapshot where
  "machine_old = machine_snapshot 1 [machine_rule ''r3'' ProtocolTCPUDP 3]"

definition machine_new :: ConfigSnapshot where
  "machine_new = machine_snapshot 2 [machine_rule ''r2'' ProtocolUDP 2]"

definition machine_single :: "RuleConfig \<Rightarrow> string \<Rightarrow> plan" where
  "machine_single rule dataplane =
     \<lparr>pl_rules = rules_of [\<lparr>pr_rule = rule, pr_dataplane = dataplane\<rparr>], pl_planned = [\<lparr>pr_rule = rule, pr_dataplane = dataplane\<rparr>]\<rparr>"

definition machine_started :: "machineWorld Manager" where
  "machine_started = snd (manager_Apply (machine_host refusing) machine_opts machine_old machine_manager)"

lemma machine_plans:
  "manager_plan (op_Mode machine_opts) machine_old = Inr (machine_single (machine_rule ''r3'' ProtocolTCPUDP 3) ModeNative)"
  "manager_plan (op_Mode machine_opts) machine_new = Inr (machine_single (machine_rule ''r2'' ProtocolUDP 2) ModeNFTables)"
proof -
  have "assigned (effectiveMode (op_Mode machine_opts) machine_old) \<lparr>pr_rule = machine_rule ''r3'' ProtocolTCPUDP 3, pr_dataplane = ModeNative\<rparr>"
    "assigned (effectiveMode (op_Mode machine_opts) machine_new) \<lparr>pr_rule = machine_rule ''r2'' ProtocolUDP 2, pr_dataplane = ModeNFTables\<rparr>"
    "cs_Rules machine_old = [machine_rule ''r3'' ProtocolTCPUDP 3]" "cs_Rules machine_new = [machine_rule ''r2'' ProtocolUDP 2]"
    by code_simp+
  then show "manager_plan (op_Mode machine_opts) machine_old = Inr (machine_single (machine_rule ''r3'' ProtocolTCPUDP 3) ModeNative)"
    "manager_plan (op_Mode machine_opts) machine_new = Inr (machine_single (machine_rule ''r2'' ProtocolUDP 2) ModeNFTables)"
    by (simp_all add: manager_plan_ok_iff machine_single_def)
qed

lemma single_rules [simp]: "pl_rules (machine_single rule dataplane) d = (if d = dataplane then [rule] else [])"
  by (simp add: machine_single_def rules_of_def)

lemma machine_started_state:
  "manager_Apply (machine_host refusing) machine_opts machine_old machine_manager = (None, machine_started)"
  "mg_world machine_started = mg_world machine_manager" "mg_dir machine_started = mg_dir machine_manager" "mg_last machine_started = Some machine_old"
proof -
  let ?p = "machine_single (machine_rule ''r3'' ProtocolTCPUDP 3) ModeNative" and ?h = "machine_host refusing"
  have new: "mg_last machine_manager = None" "sv_ok (mg_native machine_manager)" "\<not> ld_exists (mg_dir machine_manager)"
    by (simp_all add: machine_manager_def NewManager_def new_ok)
  have "\<not> hasManaged ?p" "\<not> listenerLockDirExists ?h machine_manager" by (simp_all add: hasManaged_def listenerLockDirExists_def new)
  then have prep: "run_steps (prepareSteps ?h machine_opts None ?p machine_old) machine_manager = (None, machine_manager)"
    by (simp add: prepareSteps_def machine_first_step acquireLocks_def makeRoom_def stopOutgoingExternalBackends_def dropStaleLocks_def
        snapshotHasManaged_def snapshotHasDataplane_def)
  have "fst (on_native ?h (snapshotFor ?p ModeNative machine_old) machine_manager) = None"
    using new by (intro machine_native_again) (simp_all add: snapshotFor_def)
  then obtain E where e: "on_native ?h (snapshotFor ?p ModeNative machine_old) machine_manager = (None, E)" by (metis prod.collapse)
  then have E: "mg_world E = mg_world machine_manager" "mg_dir E = mg_dir machine_manager"
    by (auto simp: on_native_def native_Apply_def split: prod.splits)
  have "manager_Apply ?h machine_opts machine_old machine_manager =
      (None, E\<lparr>mg_last := Some machine_old, mg_resolved := resolvedPlan ?p\<rparr>)"
    using prep e by (simp add: manager_Apply_def machine_plans new run_steps_append engineSteps_def orRollback_def applyHAProxy_def
        applyNFTables_def remember_def snapshotHasDataplane_def)
  then show "manager_Apply ?h machine_opts machine_old machine_manager = (None, machine_started)"
    "mg_world machine_started = mg_world machine_manager" "mg_dir machine_started = mg_dir machine_manager" "mg_last machine_started = Some machine_old"
    using E by (simp_all add: machine_started_def)
qed

lemma machine_new_locks: "fst (ensureLocks (machine_host refuse) machine_opts (machine_single (machine_rule ''r2'' ProtocolUDP 2) ModeNFTables) machine_started) = None"
proof -
  have "fst (ensureExternalListenerLocks machine_opts (manager_env (machine_host (\<lambda>_. False)) machine_opts machine_manager) machine_lockIO
      (groupedKeys [\<lparr>pr_rule = machine_rule ''r2'' ProtocolUDP 2, pr_dataplane = ModeNFTables\<rparr>])
      (machine_single (machine_rule ''r2'' ProtocolUDP 2) ModeNFTables) (mg_dir machine_manager)) = None" by code_simp
  moreover have "pl_planned (machine_single (machine_rule ''r2'' ProtocolUDP 2) ModeNFTables) =
      [\<lparr>pr_rule = machine_rule ''r2'' ProtocolUDP 2, pr_dataplane = ModeNFTables\<rparr>]" by (simp add: machine_single_def)
  moreover have "manager_env (machine_host refuse) machine_opts machine_started = manager_env (machine_host (\<lambda>_. False)) machine_opts machine_manager"
    unfolding machine_env [of refuse] by (simp add: manager_env_def machine_started_state)
  ultimately show ?thesis by (simp add: ensureLocks_def machine_started_state split_beta)
qed

lemma machine_new_prepared:
  "fst (run_steps (prepareSteps (machine_host refusing) machine_opts (Some machine_old)
     (machine_single (machine_rule ''r2'' ProtocolUDP 2) ModeNFTables) machine_new) machine_started) = None"
proof -
  let ?p = "machine_single (machine_rule ''r2'' ProtocolUDP 2) ModeNFTables" and ?h = "machine_host refusing"
  obtain D where "ensureLocks ?h machine_opts ?p machine_started = (None, D)" using machine_new_locks by (metis prod.collapse)
  moreover have "hasManaged ?p" by (simp add: hasManaged_def)
  moreover have "fst (removeStaleLocks ?h machine_opts ?p D) = None"
    by (simp add: removeStaleLocks_def removeStaleExternalListenerLocks_def machine_lockIO_def Let_def)
  ultimately show ?thesis
    by (auto simp: prepareSteps_def prepareFirst_def acquireLocks_def makeRoom_def stopOutgoingExternalBackends_def machine_plans
        outgoing_none dropStaleLocks_def split: prod.split option.split)
qed

lemma machine_refused: "fst (manager_Apply (machine_host refusing) machine_opts machine_new machine_started) \<noteq> None"
proof
  let ?p = "machine_single (machine_rule ''r2'' ProtocolUDP 2) ModeNFTables" and ?h = "machine_host refusing"
  assume "fst (manager_Apply ?h machine_opts machine_new machine_started) = None"
  then obtain D where "fst (run_steps (engineSteps ?h machine_opts (Some machine_old) ?p machine_new) D) = None"
    using machine_new_prepared
    by (auto simp: manager_Apply_def machine_plans machine_started_state run_steps_append split: prod.splits option.splits)
  then obtain M' where "run_steps (engineSteps ?h machine_opts (Some machine_old) ?p machine_new) D = (None, M')" by (metis prod.collapse)
  then obtain E F where "on_nft ?h machine_opts (snapshotFor ?p ModeNFTables machine_new) E = (None, F)"
    unfolding engineSteps_def run_steps_ok by (auto simp: applyNFTables_def)
  moreover have "nftConfigPath machine_opts (snapshotFor ?p ModeNFTables machine_new) = ''/var/p/nftables/2.nft''" by code_simp
  ultimately show False
    using machine_nft_refused [of "snapshotFor ?p ModeNFTables machine_new" refusing E] by (simp add: snapshotFor_def)
qed

lemma machine_started_ok: "manager_ok (machine_host refusing) machine_opts machine_running ew_table machine_started"
  using apply_installed [OF machine_laws machine_order_laws machine_manager_ok _ machine_started_state(1)]
  by (auto simp: machine_manager_def NewManager_def)

lemma machine_accepts_again:
  "accepts_again (machine_host refusing) machine_opts machine_old (machine_single (machine_rule ''r3'' ProtocolTCPUDP 3) ModeNative) (mg_native machine_started)"
proof -
  have "native_holds [machine_rule ''r3'' ProtocolTCPUDP 3] (mg_native machine_started)"
    using machine_started_ok by (simp add: manager_ok_def engines_hold_def machine_started_state machine_plans)
  then have l: "(\<lambda>key. map_option lr_rules (sv_listeners (mg_native machine_started) key)) =
      [\<lparr>lk_listenIP = ''10.0.0.1'', lk_protocol = ProtocolTCP, lk_port = 3\<rparr> \<mapsto> [machine_rule ''r3'' ProtocolTCPUDP 3],
       \<lparr>lk_listenIP = ''10.0.0.1'', lk_protocol = ProtocolUDP, lk_port = 3\<rparr> \<mapsto> [machine_rule ''r3'' ProtocolTCPUDP 3]]" (is "?l = ?r")
    by (simp add: native_holds_def machine_group)
  have "dom ?l = dom (sv_listeners (mg_native machine_started))" by (simp add: dom_def)
  then have "dom (sv_listeners (mg_native machine_started)) = dom ?r" unfolding l by (rule sym)
  then have "\<forall>key \<in> dom (sv_listeners (mg_native machine_started)). lk_protocol key = ProtocolTCP \<or> lk_protocol key = ProtocolUDP"
    by simp
  then show ?thesis
    by (auto simp: accepts_again_def restorable_def grants_def snapshotFor_def intro!: machine_haproxy machine_nft)
qed

subsection \<open>The transaction\<close>

text \<open>
  C12: A snapshot that \<open>Manager.Apply\<close> accepts is in force in all three engines: the listeners of the forwarder are those of
  its rules, HAProxy runs the configuration rendered for its rules and is stopped when it has none, the nftables table
  is the one rendered for its rules and is gone when it has none; the manager remembers the snapshot and the engine of every
  rule. It holds for every machine whose files, HAProxy and \<open>nft\<close> behave as documented, when the first snapshot of an agent
  finds no table left by an earlier run or can destroy it.
\<close>

theorem manager_apply_installs:
  assumes "engine_laws host opts running table" "order_laws host" "manager_ok host opts running table M"
    and "mg_last M = None \<longrightarrow> table (mg_world M) = None \<or> destroys host opts"
    and "manager_Apply host opts s M = (None, M')"
  shows "\<exists>p. manager_plan (op_Mode opts) s = Inr p \<and> engines_hold host opts running table p s M' \<and>
    mg_last M' = Some s \<and> ResolvedDataplanes M' = resolvedPlan p \<and> manager_ok host opts running table M'"
  using apply_installed [OF assms] by (simp add: ResolvedDataplanes_def)

theorem manager_apply_installs_witness:
  "\<exists>p. manager_plan (op_Mode machine_opts) machine_three = Inr p \<and>
     engines_hold (machine_host (\<lambda>_. False)) machine_opts machine_running ew_table p machine_three
       (snd (manager_Apply (machine_host (\<lambda>_. False)) machine_opts machine_three machine_manager))"
proof -
  obtain M' where m: "manager_Apply (machine_host (\<lambda>_. False)) machine_opts machine_three machine_manager = (None, M')"
    using machine_three_applies by (metis prod.collapse)
  have "ew_table (mg_world machine_manager) = None" by (simp add: machine_manager_def NewManager_def)
  then have "mg_last machine_manager = None \<longrightarrow> ew_table (mg_world machine_manager) = None \<or> destroys (machine_host (\<lambda>_. False)) machine_opts"
    by simp
  from manager_apply_installs [OF machine_laws machine_order_laws machine_manager_ok this m] m show ?thesis by auto
qed



subsection \<open>A failure while room is made\<close>

text \<open>
  C14: A failure before the engines are called is not rolled back. When a snapshot takes listeners away from HAProxy and from
  nftables, HAProxy is reduced first; if \<open>nft\<close> then refuses, \<open>Apply\<close> fails, the manager still remembers the
  previous snapshot, and HAProxy runs without the listeners that were to go.
\<close>

theorem stage_failure_not_undone:
  assumes laws: "engine_laws host opts running table" and ok: "manager_ok host opts running table M"
    and last: "mg_last M = Some t" "manager_plan (op_Mode opts) t = Inr q" and plan: "manager_plan (op_Mode opts) s = Inr p"
    and out: "hasOutgoingListener q p ModeHAProxy" "hasOutgoingListener q p ModeNFTables"
    and b: "acquireLocks host opts p M = (None, B)"
    and c: "on_haproxy host opts (s\<lparr>cs_Rules := retainedExternalRules q p ModeHAProxy\<rparr>) B = (None, C)"
    and d: "on_nft host opts (s\<lparr>cs_Rules := retainedExternalRules q p ModeNFTables\<rparr>) C = (Some e, D)"
  shows "\<exists>e' M'. manager_Apply host opts s M = (Some e', M') \<and> mg_last M' = Some t \<and>
    map_option snd (running (mg_world M')) = haproxy_text opts (s\<lparr>cs_Rules := retainedExternalRules q p ModeHAProxy\<rparr>)"
proof -
  let ?M' = "restorePreviousListenerLocks host opts (Some t) p D"
  have lb: "locks_only M B" using b lock_steps(1) [of M host opts p] by (auto simp: acquireLocks_def locks_only_def split: if_splits)
  then have pb: "pid_ok host opts running (mg_world B)" using ok by (simp add: manager_ok_def locks_only_def)
  note sc = on_haproxy_spec [OF laws pb c] and sd = on_nft_spec [OF laws d]
  have "stopOutgoingExternalBackends host opts (Some t) p s B = (Some (annotateBackendErrors ModeNFTables e), D)"
    using out c d by (simp add: stopOutgoingExternalBackends_def last annotated_def)
  then have ap: "manager_Apply host opts s M = (Some (annotateBackendErrors ModeNFTables e), ?M')"
    using b by (simp add: manager_Apply_def plan last prepareSteps_def prepareFirst_def makeRoom_def run_steps_append)
  have "locks_only D ?M'"
    using lock_steps(2) [of D host opts p] lock_steps(1) [of "releaseLocks host opts p D" host opts q]
    by (auto simp: restorePreviousListenerLocks_def last locks_only_def)
  then show ?thesis using ap sc sd lb last(1) by (auto simp: locks_only_def others_kept_def haproxy_same_def)
qed

text \<open>Two rules of each managed engine are in force, and one of each goes.\<close>

definition crowded_planned :: "RuleConfig list \<Rightarrow> plannedRule list" where
  "crowded_planned rules =
     map (\<lambda>r. \<lparr>pr_rule = r, pr_dataplane = (if rc_Protocol r = ProtocolTCP then ModeHAProxy else ModeNFTables)\<rparr>) rules"

definition crowded_plan :: "RuleConfig list \<Rightarrow> plan" where
  "crowded_plan rules = \<lparr>pl_rules = rules_of (crowded_planned rules), pl_planned = crowded_planned rules\<rparr>"

definition crowded_old :: ConfigSnapshot where
  "crowded_old = machine_snapshot 1 [machine_rule ''r1'' ProtocolTCP 1, machine_rule ''r4'' ProtocolTCP 4,
     machine_rule ''r2'' ProtocolUDP 2, machine_rule ''r5'' ProtocolUDP 5]"

definition crowded_new :: ConfigSnapshot where
  "crowded_new = machine_snapshot 2 [machine_rule ''r1'' ProtocolTCP 1, machine_rule ''r2'' ProtocolUDP 2]"

definition crowded_manager :: "machineWorld Manager" where
  "crowded_manager = (NewManager 0 \<lparr>ld_exists = False, ld_files = []\<rparr>
     \<lparr>ew_files = [(machine_pidFile, ''42'')],
      ew_conf = haproxy_text machine_opts (snapshotFor (crowded_plan (cs_Rules crowded_old)) ModeHAProxy crowded_old),
      ew_table = nft_text (machine_host refusing) machine_opts (snapshotFor (crowded_plan (cs_Rules crowded_old)) ModeNFTables crowded_old)\<rparr>)
     \<lparr>mg_last := Some crowded_old\<rparr>"

lemma crowded_plans:
  "manager_plan (op_Mode machine_opts) crowded_old = Inr (crowded_plan (cs_Rules crowded_old))"
  "manager_plan (op_Mode machine_opts) crowded_new = Inr (crowded_plan (cs_Rules crowded_new))"
proof -
  have "list_all (assigned (effectiveMode (op_Mode machine_opts) crowded_old)) (crowded_planned (cs_Rules crowded_old))"
    "sorted_wrt plan_compatible (crowded_planned (cs_Rules crowded_old))"
    "list_all (assigned (effectiveMode (op_Mode machine_opts) crowded_new)) (crowded_planned (cs_Rules crowded_new))"
    "sorted_wrt plan_compatible (crowded_planned (cs_Rules crowded_new))"
    by code_simp+
  then show "manager_plan (op_Mode machine_opts) crowded_old = Inr (crowded_plan (cs_Rules crowded_old))"
    "manager_plan (op_Mode machine_opts) crowded_new = Inr (crowded_plan (cs_Rules crowded_new))"
    by (simp_all add: manager_plan_ok_iff crowded_plan_def crowded_planned_def comp_def)
qed

lemma crowded_ok: "manager_ok (machine_host refusing) machine_opts machine_running ew_table crowded_manager"
proof -
  have native: "pl_rules (crowded_plan (cs_Rules crowded_old)) ModeNative = []" by code_simp
  have pid: "Atoi (TrimSpace ''42'') = Some 42" by code_simp
  show ?thesis
    by (auto simp: manager_ok_def engines_hold_def crowded_manager_def NewManager_def new_ok pid_ok_def machine_running_def machine_pid_of pid
        crowded_plans native native_holds_def groupRulesByListener_def NewSupervisor_def sv_ok_def no_overlap_def option.map_comp comp_def
        option.map_ident)
qed

lemma crowded_locks:
  "\<exists>B. acquireLocks (machine_host refusing) machine_opts (crowded_plan (cs_Rules crowded_new)) crowded_manager = (None, B)"
proof -
  let ?p = "crowded_plan (cs_Rules crowded_new)" and ?h = "machine_host refusing"
  let ?e = "\<lparr>he_pid = 7, he_alive = (\<lambda>_. True),
      he_stat = (\<lambda>pid. case map_of [(machine_pidFile, ''42'')] (filepath_Join [''/proc'', Itoa pid, ''stat'']) of None \<Rightarrow> None | Some data \<Rightarrow> Some data),
      he_nft = (\<lambda>_. (False, [])), he_sha256hex = (\<lambda>s. ''0123456789abcdef'')\<rparr>"
  have sup: "list_all haproxySupportsRule (cs_Rules (snapshotFor (crowded_plan (cs_Rules crowded_old)) ModeHAProxy crowded_old))"
    "list_all (\<lambda>r. sniError r = None) (concat (map (haproxyGroup (cs_Rules (snapshotFor (crowded_plan (cs_Rules crowded_old)) ModeHAProxy crowded_old)))
       (haproxyKeys (cs_Rules (snapshotFor (crowded_plan (cs_Rules crowded_old)) ModeHAProxy crowded_old)))))"
    "list_all (\<lambda>r. nftRuleError r = None) (nftSorted (cs_Rules (snapshotFor (crowded_plan (cs_Rules crowded_old)) ModeNFTables crowded_old)))"
    "cs_Rules (snapshotFor (crowded_plan (cs_Rules crowded_old)) ModeHAProxy crowded_old) \<noteq> []"
    "cs_Rules (snapshotFor (crowded_plan (cs_Rules crowded_old)) ModeNFTables crowded_old) \<noteq> []"
    by code_simp+
  have conf: "ew_conf (mg_world crowded_manager) \<noteq> None" and table: "ew_table (mg_world crowded_manager) \<noteq> None"
    using machine_renders [OF sup(1,2), of "hp_socketFile (haproxy_paths machine_opts)" machine_pidFile] sup(3-5)
    by (auto simp: crowded_manager_def NewManager_def haproxy_text_def nft_text_def renderNFTablesConfig_def firstError_none list_all_iff)
  have files: "ew_files (mg_world crowded_manager) = [(machine_pidFile, ''42'')]" by (simp add: crowded_manager_def NewManager_def)
  have nft: "TrimSpace ''nft'' \<noteq> ''/bin/haproxy''" by code_simp
  have env: "manager_env ?h machine_opts crowded_manager = ?e"
    using conf table nft files by (simp add: manager_env_def host_env_def machine_list) (simp add: machine_host_def fun_eq_iff split: option.split)
  have "fst (ensureExternalListenerLocks machine_opts ?e machine_lockIO (groupedKeys (crowded_planned (cs_Rules crowded_new))) ?p
      \<lparr>ld_exists = False, ld_files = []\<rparr>) = None" by code_simp
  then have "fst (ensureLocks ?h machine_opts ?p crowded_manager) = None"
    unfolding ensureLocks_def env by (simp add: crowded_plan_def crowded_manager_def NewManager_def split_beta)
  moreover have "hasManaged ?p" by code_simp
  ultimately show ?thesis by (auto simp: acquireLocks_def) (metis prod.collapse)
qed

theorem stage_failure_not_undone_witness:
  "\<exists>e M'. manager_Apply (machine_host refusing) machine_opts crowded_new crowded_manager = (Some e, M') \<and> mg_last M' = Some crowded_old \<and>
     map_option snd (machine_running (mg_world M')) = haproxy_text machine_opts (machine_snapshot 2 [machine_rule ''r1'' ProtocolTCP 1])"
proof -
  let ?h = "machine_host refusing" and ?q = "crowded_plan (cs_Rules crowded_old)" and ?p = "crowded_plan (cs_Rules crowded_new)"
  let ?s = "crowded_new\<lparr>cs_Rules := retainedExternalRules ?q ?p ModeHAProxy\<rparr>" and ?n = "crowded_new\<lparr>cs_Rules := retainedExternalRules ?q ?p ModeNFTables\<rparr>"
  obtain B where b: "acquireLocks ?h machine_opts ?p crowded_manager = (None, B)" using crowded_locks by blast
  have out: "hasOutgoingListener ?q ?p ModeHAProxy" "hasOutgoingListener ?q ?p ModeNFTables" by code_simp+
  have s: "?s = machine_snapshot 2 [machine_rule ''r1'' ProtocolTCP 1]" by code_simp
  have sup: "list_all haproxySupportsRule (cs_Rules ?s)" "haproxyTmpConfig machine_opts ?s \<noteq> machine_pidFile"
    "list_all (\<lambda>r. sniError r = None) (concat (map (haproxyGroup (cs_Rules ?s)) (haproxyKeys (cs_Rules ?s))))" by code_simp+
  obtain C where c: "on_haproxy ?h machine_opts ?s B = (None, C)"
    using machine_haproxy [of ?s refusing B] machine_renders [OF sup(1,3)] sup(2) by (metis prod.collapse)
  have n: "cs_Rules ?n \<noteq> []" "nftConfigPath machine_opts ?n = ''/var/p/nftables/2.nft''" by code_simp+
  obtain e D where d: "on_nft ?h machine_opts ?n C = (Some e, D)"
    using machine_nft_refused [of ?n refusing C] n by (metis not_Some_eq prod.collapse)
  have last: "mg_last crowded_manager = Some crowded_old" by (simp add: crowded_manager_def)
  from stage_failure_not_undone [OF machine_laws crowded_ok last crowded_plans out b c d] show ?thesis unfolding s by blast
qed

end
