(* ===== verification/Control_Types.thy ===== *)
theory Control_Types
  imports Agent_Config
begin

text \<open>
  The data of the control service: the rows of the store (\<open>pkg/core/repo/repository.go\<close>), the inputs and
  errors of the service (\<open>control_types.go\<close>, \<open>control.go\<close>, \<open>control_errors.go\<close>) and the authorizer interface
  (\<open>control_authorizer.go\<close>) with its open-source implementation (\<open>control_authorizer_oss.go\<close>).

  Every query of the store is restricted to one organization, so the state \<open>control_db\<close> holds the rows of one
  organization that are not deleted; the organization id is left out of the rows, and so are creation and update
  times that no operation reads. A transaction (\<open>store.WithinTx\<close>) that fails is rolled back: an operation
  returns either an error, and the state stays what it was, or the new state.
\<close>

subsection \<open>Errors\<close>

text \<open>
  \<open>SValidation\<close> is \<open>validationError\<close> and \<open>validationFieldError\<close> (the field is empty for the first), \<open>SControl\<close> a
  \<open>controlServiceError\<close> with a code of its own and cause \<open>ErrConflict\<close>, \<open>SDomain\<close> an error of \<open>pkg/core/domain\<close>,
  \<open>SDatabase\<close> an error of the database that \<open>mapWriteError\<close> passes on; the
  detail maps, which only feed the error message, are left out.
\<close>

datatype service_error = SErrForbidden | SErrNotFound | SErrConflict | SErrInvalidInput | SErrQuotaExceeded
  | SValidation string string | SControl string | SDomain ErrorCode | SDatabase

type_synonym 'a result = "service_error + 'a"

text \<open>The Go idiom \<open>x, err := f(); if err != nil { return err }; \<dots>\<close> and a guard \<open>if c { return err }\<close>.\<close>

fun bind_result :: "'a result \<Rightarrow> ('a \<Rightarrow> 'b result) \<Rightarrow> 'b result" where
  "bind_result (Inl e) f = Inl e"
| "bind_result (Inr x) f = f x"

definition fail_if :: "bool \<Rightarrow> service_error \<Rightarrow> unit result" where
  "fail_if c e = (if c then Inl e else Inr ())"

definition fail_some :: "service_error option \<Rightarrow> unit result" where
  "fail_some e = (case e of None \<Rightarrow> Inr () | Some e \<Rightarrow> Inl e)"

text \<open>A loop that stops at the first element that fails.\<close>

fun each :: "('a \<Rightarrow> unit result) \<Rightarrow> 'a list \<Rightarrow> unit result" where
  "each f [] = Inr ()"
| "each f (x # xs) = (case f x of Inl e \<Rightarrow> Inl e | Inr _ \<Rightarrow> each f xs)"

fun fold_result :: "('a \<Rightarrow> 's \<Rightarrow> 's result) \<Rightarrow> 'a list \<Rightarrow> 's \<Rightarrow> 's result" where
  "fold_result f [] s = Inr s"
| "fold_result f (x # xs) s = (case f x s of Inl e \<Rightarrow> Inl e | Inr s' \<Rightarrow> fold_result f xs s')"

lemma bind_result_Inr [simp]: "bind_result m f = Inr y \<longleftrightarrow> (\<exists>x. m = Inr x \<and> f x = Inr y)"
  by (cases m) auto

lemma fail_if_Inr [simp]: "fail_if c e = Inr u \<longleftrightarrow> \<not> c"
  by (auto simp: fail_if_def)

lemma fail_some_Inr [simp]: "fail_some e = Inr u \<longleftrightarrow> e = None"
  by (auto simp: fail_some_def split: option.splits)

lemma each_Inr [simp]: "each f xs = Inr u \<longleftrightarrow> (\<forall>x \<in> set xs. f x = Inr ())"
  by (induction xs) (auto split: sum.splits)

lemma bind_fail_if: "bind_result (fail_if c e) f = (if c then Inl e else f ())"
  by (simp add: fail_if_def)

subsection \<open>Nodes\<close>

record NodeListenIPRecord =
  nli_ListenIP :: string
  nli_DisplayName :: string
  nli_Enabled :: bool

record NodeSendIPRecord =
  nsi_SendIP :: string
  nsi_DisplayName :: string
  nsi_Enabled :: bool

record NodePortRangeRecord =
  npr_Protocol :: string
  npr_StartPort :: int
  npr_EndPort :: int
  npr_Enabled :: bool

record NodeDNSPublishAddressRecord =
  pa_AddressType :: string
  pa_Address :: string
  pa_Source :: string
  pa_Enabled :: bool

text \<open>Times that are compared or distinguished from NULL are nanoseconds of UTC, \<open>None\<close> for a blank or unreadable text.
  The columns about the agent's build and its updates are grouped in \<open>NodeAgentInfo\<close>.\<close>

record NodeAgentInfo =
  ag_Version :: string
  ag_Commit :: string
  ag_BuildTime :: string
  ag_AutoUpdateEnabled :: bool
  ag_DesiredVersion :: string
  ag_UpdateStatus :: string
  ag_UpdateError :: string
  ag_UpdateStartedAt :: "int option"
  ag_UpdateFinishedAt :: "int option"
  ag_RegisteredAt :: "int option"

record NodeRecord =
  nd_ID :: string
  nd_Name :: string
  nd_Status :: string
  nd_PublicDescription :: string
  nd_DesiredConfigVersion :: int
  nd_AppliedConfigVersion :: int
  nd_ConfigStatus :: string
  nd_ConfigErrorMessage :: string
  nd_ConfigStatusConfigVersion :: int
  nd_ConfigRetryCount :: int
  nd_ConfigNextRetryAt :: "int option"
  nd_DataplaneMode :: string
  nd_DataplaneConflictPolicy :: string
  nd_DataplaneInstanceID :: string
  nd_DataplaneStatus :: string
  nd_DataplaneError :: string
  nd_DataplaneLastHash :: string
  nd_GroupIDs :: "string list"
  nd_ListenIPs :: "NodeListenIPRecord list"
  nd_SendIPs :: "NodeSendIPRecord list"
  nd_PortRanges :: "NodePortRangeRecord list"
  nd_DNSPublishAddresses :: "NodeDNSPublishAddressRecord list"
  nd_MaxRulePorts :: int
  nd_EnrollmentProfileID :: string
  nd_Agent :: NodeAgentInfo

record NodeGroupRecord =
  ng_ID :: string
  ng_Name :: string
  ng_Description :: string

subsection \<open>Targets\<close>

record TargetRecord =
  tgt_ID :: string
  tgt_Name :: string
  tgt_Host :: string
  tgt_Port :: int
  tgt_Enabled :: bool

record TargetGroupMemberRecord =
  mem_TargetID :: string
  mem_Priority :: int
  mem_Weight :: int
  mem_Enabled :: bool

record TargetGroupRecord =
  grp_ID :: string
  grp_Name :: string
  grp_Description :: string
  grp_Scheduler :: string
  grp_Members :: "TargetGroupMemberRecord list"

subsection \<open>Rules and their deployments\<close>

record InboundBindingPortSegmentRecord =
  bs_StartPort :: int
  bs_EndPort :: int

record InboundBindingRecord =
  bi_ID :: string
  bi_NodeGroupID :: string
  bi_ListenIP :: string
  bi_Protocol :: string
  bi_Port :: int
  bi_PortSegments :: "InboundBindingPortSegmentRecord list"
  bi_MatchType :: string

record RuleRecord =
  rule_ID :: string
  rule_OwnerUserID :: string
  rule_Name :: string
  rule_Enabled :: bool
  rule_Status :: string
  rule_ForwardingType :: string
  rule_Protocol :: string
  rule_MatchType :: string
  rule_InboundBindingID :: string
  rule_SNIHostname :: string
  rule_TargetType :: string
  rule_TargetID :: string
  rule_TargetGroupID :: string
  rule_ProxyProtocolIn :: string
  rule_ProxyProtocolOut :: string
  rule_FailurePolicy :: string
  rule_DataplanePreference :: string
  rule_SendIP :: string
  rule_ConfigVersion :: int
  rule_Binding :: InboundBindingRecord
  rule_Tags :: "string list"

record RuleDeploymentRecord =
  dep_RuleID :: string
  dep_NodeID :: string
  dep_ConfigVersion :: int
  dep_RuleConfigVersion :: int
  dep_Status :: string
  dep_ErrorCode :: string
  dep_ErrorMessage :: string
  dep_Protocol :: string
  dep_ListenIP :: string
  dep_Port :: int
  dep_ExpectedDataplane :: string
  dep_ActualDataplane :: string
  dep_Owner :: string
  dep_DriftStatus :: string
  dep_ExternalResource :: string

record QuotaRecord =
  qu_Scope :: string
  qu_SubjectUserID :: string
  qu_RuleLimit :: int
  qu_TrafficLimitBytes :: int

record RuleTrafficCounter =
  ctr_RuleID :: string
  ctr_UploadBytes :: int
  ctr_DownloadBytes :: int
  ctr_TCPConnections :: int
  ctr_UDPPackets :: int

subsection \<open>Agents, enrollment, monitors and health checks\<close>

record NodeListenIPInput =
  nlii_ListenIP :: string
  nlii_DisplayName :: string

record NodeSendIPInput =
  nsii_SendIP :: string
  nsii_DisplayName :: string

record NodePortRangeInput =
  npri_Protocol :: string
  npri_StartPort :: int
  npri_EndPort :: int

record NodeDNSPublishAddressInput =
  npai_AddressType :: string
  npai_Address :: string
  npai_Enabled :: bool

record AgentRegistrationTokenRecord =
  rt_ID :: string
  rt_AgentType :: string
  rt_AgentID :: string
  rt_TokenHash :: string
  rt_ExpiresAt :: int
  rt_UsedAt :: "int option"
  rt_RevokedAt :: "int option"

record AgentCredentialRecord =
  cr_ID :: string
  cr_AgentType :: string
  cr_AgentID :: string
  cr_CredentialHash :: string
  cr_RegistrationTokenID :: string
  cr_EnrollmentProfileID :: string
  cr_EnrollmentTokenHash :: string
  cr_ActivatedAt :: "int option"
  cr_RevokedAt :: "int option"
  cr_CreatedAt :: int

text \<open>The JSON columns of a profile hold the lists they are written from.\<close>

record NodeEnrollmentProfileRecord =
  ep_ID :: string
  ep_Name :: string
  ep_Description :: string
  ep_TokenHash :: string
  ep_Enabled :: bool
  ep_ExpiresAt :: "int option"
  ep_MaxUses :: int
  ep_UsedCount :: int
  ep_NodeNameTemplate :: string
  ep_GroupIDsJSON :: "string list"
  ep_ListenIPsJSON :: "NodeListenIPInput list"
  ep_SendIPsJSON :: "NodeSendIPInput list"
  ep_PortRangesJSON :: "NodePortRangeInput list"
  ep_MaxRulePorts :: int
  ep_DNSPublishAddressesJSON :: "NodeDNSPublishAddressInput list"
  ep_DataplaneMode :: string
  ep_DataplaneConflictPolicy :: string
  ep_AutoUpdateEnabled :: bool
  ep_AllowedCIDRsJSON :: "string list"
  ep_RevokedAt :: "int option"

record NodeEnrollmentEventRecord =
  ev_EnrollmentProfileID :: string
  ev_NodeID :: string
  ev_Status :: string
  ev_ReasonCode :: string

record MonitorGroupRecord =
  mg_ID :: string
  mg_Name :: string
  mg_Description :: string

record MonitorRecord =
  mon_ID :: string
  mon_Name :: string
  mon_Status :: string
  mon_DesiredConfigVersion :: int
  mon_AppliedConfigVersion :: int
  mon_GroupIDs :: "string list"

record HealthCheckTargetRecord =
  hct_ScopeType :: string
  hct_TargetID :: string
  hct_TargetGroupID :: string

record HealthCheckMonitorScopeRecord =
  hcs_ScopeType :: string
  hcs_MonitorID :: string
  hcs_MonitorGroupID :: string

record HealthCheckRecord =
  hcr_ID :: string
  hcr_Enabled :: bool
  hcr_Targets :: "HealthCheckTargetRecord list"
  hcr_MonitorScopes :: "HealthCheckMonitorScopeRecord list"

subsection \<open>The tables\<close>

text \<open>An entry of the audit log: user, action, resource type and resource id.\<close>

type_synonym audit_entry = "string \<times> string \<times> string \<times> string"

record control_db =
  db_Nodes :: "NodeRecord list"
  db_NodeGroups :: "NodeGroupRecord list"
  db_Targets :: "TargetRecord list"
  db_TargetGroups :: "TargetGroupRecord list"
  db_Rules :: "RuleRecord list"
  db_Deployments :: "RuleDeploymentRecord list"
  db_Quotas :: "QuotaRecord list"
  db_DefaultRuleLimit :: int
  db_TrafficAssignments :: "(string \<times> string) list"
  db_TrafficReports :: "(string \<times> string) list"
  db_TrafficCounters :: "RuleTrafficCounter list"
  db_RegistrationTokens :: "AgentRegistrationTokenRecord list"
  db_Credentials :: "AgentCredentialRecord list"
  db_EnrollmentProfiles :: "NodeEnrollmentProfileRecord list"
  db_EnrollmentEvents :: "NodeEnrollmentEventRecord list"
  db_MonitorGroups :: "MonitorGroupRecord list"
  db_Monitors :: "MonitorRecord list"
  db_HealthChecks :: "HealthCheckRecord list"
  db_Audit :: "audit_entry list"

subsection \<open>Inputs\<close>

record InternalIdentity =
  id_UserID :: string
  id_Permissions :: "string list"

record RulePortSegmentInput =
  psi_StartPort :: int
  psi_EndPort :: int

record RuleMatchInput =
  mi_Type :: string
  mi_SNIHostname :: string

record RuleProxyProtocolInput =
  ppi_In :: string
  ppi_Out :: string

record RuleUpstreamInput =
  ui_Type :: string
  ui_TargetID :: string
  ui_TargetGroupID :: string

record RuleMutationInput =
  in_Name :: string
  in_Tags :: "string list"
  in_NodeGroupID :: string
  in_ListenIP :: string
  in_SendIP :: string
  in_FailurePolicy :: string
  in_DataplanePreference :: string
  in_ForwardingType :: string
  in_Protocol :: string
  in_Port :: int
  in_PortSegments :: "RulePortSegmentInput list"
  in_Match :: RuleMatchInput
  in_ProxyProtocol :: RuleProxyProtocolInput
  in_Upstream :: RuleUpstreamInput
  in_Enabled :: bool
  in_EnabledSet :: bool

record RuleCopyInput =
  cpi_Name :: string
  cpi_Tags :: "string list"
  cpi_TagsSet :: bool

subsection \<open>Authorization\<close>

text \<open>The interface \<open>Authorizer\<close>, less the delegation of role scopes, which no modelled operation calls.\<close>

record Authorizer =
  HasPermission :: "InternalIdentity \<Rightarrow> string \<Rightarrow> bool"
  AllowedNodeGroupIDs :: "InternalIdentity \<Rightarrow> string \<Rightarrow> string list"

definition singleUserPermissions :: "string list" where
  "singleUserPermissions =
     [''audit_logs.read'', ''dns.manage'', ''dns.read'', ''health_checks.manage'', ''health_checks.read'',
      ''monitors.manage'', ''monitors.read'', ''nodes.manage'', ''nodes.read'', ''organization.read'',
      ''organization.update'', ''quotas.manage'', ''rules.manage_all'', ''rules.manage_own'', ''rules.read_all'',
      ''rules.read_own'', ''targets.manage'', ''targets.read'', ''traffic.read_all'', ''traffic.read_own'']"

definition singleUserAuthorizer :: Authorizer where
  "singleUserAuthorizer =
     \<lparr>HasPermission = (\<lambda>identity permission. List.member singleUserPermissions permission),
      AllowedNodeGroupIDs = (\<lambda>identity requestedAccess.
        if requestedAccess = ''USE'' \<or> requestedAccess = ''MANAGE'' then [''*''] else [])\<rparr>"

definition canUseAnyNodeGroup :: "Authorizer \<Rightarrow> InternalIdentity \<Rightarrow> string list \<Rightarrow> bool" where
  "canUseAnyNodeGroup auth identity groupIDs =
     (let allowed = AllowedNodeGroupIDs auth identity ''USE'' in
      if List.member allowed ''*'' then True
      else if groupIDs = [] then False
      else list_ex (List.member allowed) groupIDs)"

definition canUseNodeGroup :: "Authorizer \<Rightarrow> InternalIdentity \<Rightarrow> string \<Rightarrow> bool" where
  "canUseNodeGroup auth identity nodeGroupID = canUseAnyNodeGroup auth identity [nodeGroupID]"

definition canManageAllNodeGroups :: "Authorizer \<Rightarrow> InternalIdentity \<Rightarrow> bool" where
  "canManageAllNodeGroups auth identity =
     (if \<not> HasPermission auth identity ''nodes.manage'' then False
      else List.member (AllowedNodeGroupIDs auth identity ''MANAGE'') ''*'')"

definition canManageNodeGroup :: "Authorizer \<Rightarrow> InternalIdentity \<Rightarrow> string \<Rightarrow> bool" where
  "canManageNodeGroup auth identity nodeGroupID =
     (if \<not> HasPermission auth identity ''nodes.manage'' then False
      else (let allowed = AllowedNodeGroupIDs auth identity ''MANAGE'' in List.member allowed ''*'' \<or> List.member allowed nodeGroupID))"

definition ensureNodeGroupsAllowed :: "string list \<Rightarrow> string list \<Rightarrow> unit result" where
  "ensureNodeGroupsAllowed allowed groupIDs =
     (if List.member allowed ''*'' then Inr ()
      else if groupIDs = [] then Inl SErrForbidden
      else each (\<lambda>groupID. fail_if (\<not> List.member allowed groupID) SErrForbidden) groupIDs)"

definition ensureCanManageNodeGroups :: "Authorizer \<Rightarrow> InternalIdentity \<Rightarrow> string list \<Rightarrow> unit result" where
  "ensureCanManageNodeGroups auth identity groupIDs =
     ensureNodeGroupsAllowed (AllowedNodeGroupIDs auth identity ''MANAGE'') groupIDs"

definition ensureCanUseNodeGroups :: "Authorizer \<Rightarrow> InternalIdentity \<Rightarrow> string list \<Rightarrow> unit result" where
  "ensureCanUseNodeGroups auth identity groupIDs =
     ensureNodeGroupsAllowed (AllowedNodeGroupIDs auth identity ''USE'') groupIDs"

end
