(* ===== verification/Rule_Admission.thy ===== *)
theory Rule_Admission
  imports Control_Types Config_Compiler Validator_Rules
begin

text \<open>
  When a rule may enter the configuration of an organization: \<open>control_rule_helpers.go\<close>,
  \<open>control_rules.go\<close> (\<open>prepareRuleMutation\<close> and what it calls), \<open>control_targets.go\<close>
  (\<open>ensureUpstreamAvailable\<close>) and the normalisation of the service's own input.
\<close>

subsection \<open>Defaults and checks of single fields\<close>

definition defaultProxyProtocol :: "string \<Rightarrow> string" where
  "defaultProxyProtocol value = (if value = [] then ''NONE'' else value)"

definition defaultForwardingType :: "string \<Rightarrow> string" where
  "defaultForwardingType value =
     (let value = ToUpper (TrimSpace value) in if value = [] then ForwardingTypeDirect else value)"

definition defaultFailurePolicy :: "string \<Rightarrow> string" where
  "defaultFailurePolicy value =
     (let value = ToUpper (TrimSpace value) in if value = [] then ''KEEP_ENABLED'' else value)"

definition defaultMaxRulePorts :: "int \<Rightarrow> int" where
  "defaultMaxRulePorts value = (if value \<le> 0 then 256 else value)"

definition validateRuleForwardingType :: "string \<Rightarrow> unit result" where
  "validateRuleForwardingType value =
     fail_if (defaultForwardingType value \<noteq> ForwardingTypeDirect)
       (SValidation ''forwarding_type'' ''Only DIRECT forwarding is supported by the current runtime.'')"

definition validateRuleMatchType :: "string \<Rightarrow> unit result" where
  "validateRuleMatchType value =
     (if value = MatchTypeAnyInbound \<or> value = MatchTypeTLSSNI then Inr ()
      else Inl (SValidation ''match.type'' ''Unsupported rule match type.''))"

definition validateFailurePolicy :: "string \<Rightarrow> unit result" where
  "validateFailurePolicy value =
     (if defaultFailurePolicy value = ''KEEP_ENABLED'' \<or> defaultFailurePolicy value = ''DISABLE_WHEN_ALL_NODES_FAILED''
      then Inr () else Inl (SValidation ''failure_policy'' ''Unsupported rule failure policy.''))"

definition validateDataplanePreference :: "string \<Rightarrow> unit result" where
  "validateDataplanePreference value =
     (if List.member [[], ''AUTO'', ''NATIVE'', ''HAPROXY'', ''NFTABLES''] (ToUpper (TrimSpace value)) then Inr ()
      else Inl (SValidation ''dataplane_preference'' ''Unsupported rule dataplane preference.''))"

definition normalizeDataplanePreferenceForMutation :: "string \<Rightarrow> string result" where
  "normalizeDataplanePreferenceForMutation value =
     (let value = ToUpper (TrimSpace value) in
      case validateDataplanePreference value of
        Inl e \<Rightarrow> Inl e
      | Inr _ \<Rightarrow> Inr (if value = [] then ''AUTO'' else value))"

definition validRuleProxyProtocol :: "string \<Rightarrow> bool" where
  "validRuleProxyProtocol value \<longleftrightarrow> value = [] \<or> value = ''NONE'' \<or> value = ''V1'' \<or> value = ''V2''"

definition normalizedRuleProxyProtocol :: "string \<Rightarrow> string" where
  "normalizedRuleProxyProtocol value = (if value = [] \<or> value = ''NONE'' then [] else value)"

fun ruleTagsLoop :: "string list \<Rightarrow> string list \<Rightarrow> string list" where
  "ruleTagsLoop seen [] = []"
| "ruleTagsLoop seen (value # values) =
     (let value = ToLower (TrimSpace value) in
      if value = [] \<or> length value > 64 \<or> List.member seen value then ruleTagsLoop seen values
      else value # ruleTagsLoop (value # seen) values)"

definition normalizeRuleTags :: "string list \<Rightarrow> string list" where
  "normalizeRuleTags values = sort (ruleTagsLoop [] values)"

subsection \<open>Port segments\<close>

fun rulePortSegmentsLoop :: "RulePortSegmentInput list \<Rightarrow> RulePortSegmentInput list option" where
  "rulePortSegmentsLoop [] = Some []"
| "rulePortSegmentsLoop (value # values) =
     (let value = (if psi_EndPort value = 0 then value\<lparr>psi_EndPort := psi_StartPort value\<rparr> else value) in
      if psi_StartPort value < 1 \<or> psi_StartPort value > 65535 \<or> psi_EndPort value < 1 \<or> psi_EndPort value > 65535 \<or>
         psi_StartPort value > psi_EndPort value then None
      else map_option (\<lambda>segments. value # segments) (rulePortSegmentsLoop values))"

text \<open>\<open>result\<close> is kept in reverse, its last element first.\<close>

fun mergeRulePortSegments :: "RulePortSegmentInput list \<Rightarrow> RulePortSegmentInput list \<Rightarrow> RulePortSegmentInput list" where
  "mergeRulePortSegments result [] = rev result"
| "mergeRulePortSegments [] (segment # segments) = mergeRulePortSegments [segment] segments"
| "mergeRulePortSegments (m # ms) (segment # segments) =
     (if psi_StartPort segment > psi_EndPort m + 1 then mergeRulePortSegments (segment # m # ms) segments
      else if psi_EndPort segment > psi_EndPort m
        then mergeRulePortSegments (m\<lparr>psi_EndPort := psi_EndPort segment\<rparr> # ms) segments
      else mergeRulePortSegments (m # ms) segments)"

definition normalizeRulePortSegments :: "int \<Rightarrow> RulePortSegmentInput list \<Rightarrow> RulePortSegmentInput list" where
  "normalizeRulePortSegments port values =
     (if values = [] then
        (if port < 1 \<or> port > 65535 then [] else [\<lparr>psi_StartPort = port, psi_EndPort = port\<rparr>])
      else case rulePortSegmentsLoop values of
        None \<Rightarrow> []
      | Some segments \<Rightarrow> mergeRulePortSegments [] (sort_key (\<lambda>s. (psi_StartPort s, psi_EndPort s)) segments))"

definition toInboundBindingPortSegments :: "RulePortSegmentInput list \<Rightarrow> InboundBindingPortSegmentRecord list" where
  "toInboundBindingPortSegments inputs = map (\<lambda>s. \<lparr>bs_StartPort = psi_StartPort s, bs_EndPort = psi_EndPort s\<rparr>) inputs"

definition toRulePortSegmentInputs :: "InboundBindingPortSegmentRecord list \<Rightarrow> RulePortSegmentInput list" where
  "toRulePortSegmentInputs segments = map (\<lambda>s. \<lparr>psi_StartPort = bs_StartPort s, psi_EndPort = bs_EndPort s\<rparr>) segments"

definition rulePortSegments :: "InboundBindingRecord \<Rightarrow> InboundBindingPortSegmentRecord list" where
  "rulePortSegments binding =
     (if bi_PortSegments binding = [] then [\<lparr>bs_StartPort = bi_Port binding, bs_EndPort = bi_Port binding\<rparr>]
      else bi_PortSegments binding)"

definition expandedPortCount :: "InboundBindingPortSegmentRecord list \<Rightarrow> int" where
  "expandedPortCount segments = sum_list (map (\<lambda>s. bs_EndPort s - bs_StartPort s + 1) segments)"

fun join_with :: "string \<Rightarrow> string list \<Rightarrow> string" where
  "join_with sep [] = []"
| "join_with sep [x] = x"
| "join_with sep (x # y # xs) = x @ sep @ join_with sep (y # xs)"

definition portSegmentsKey :: "InboundBindingPortSegmentRecord list \<Rightarrow> string" where
  "portSegmentsKey segments = join_with '','' (map (\<lambda>s. Itoa (bs_StartPort s) @ ''-'' @ Itoa (bs_EndPort s)) segments)"

text \<open>\<open>newHash\<close> stands for \<open>uuid.NewHash(sha256.New(), uuid.Nil, \<dots>, 5).String()\<close> of the package
  \<open>github.com/google/uuid\<close>; \<open>organizationID\<close> is the organization of the state.\<close>

definition inboundBindingForRule :: "(string \<Rightarrow> string) \<Rightarrow> string \<Rightarrow> RuleMutationInput \<Rightarrow> InboundBindingRecord" where
  "inboundBindingForRule newHash organizationID input =
     (let segments = toInboundBindingPortSegments (in_PortSegments input);
          idSource = organizationID @ ''|'' @ in_NodeGroupID input @ ''|'' @ in_ListenIP input @ ''|'' @ in_Protocol input @
                     ''|'' @ portSegmentsKey segments @ ''|'' @ mi_Type (in_Match input)
      in \<lparr>bi_ID = newHash idSource, bi_NodeGroupID = in_NodeGroupID input, bi_ListenIP = in_ListenIP input,
          bi_Protocol = in_Protocol input, bi_Port = in_Port input, bi_PortSegments = segments, bi_MatchType = mi_Type (in_Match input)\<rparr>)"

definition inputFromRule :: "RuleRecord \<Rightarrow> RuleMutationInput" where
  "inputFromRule rule =
     \<lparr>in_Name = rule_Name rule, in_Tags = rule_Tags rule, in_NodeGroupID = bi_NodeGroupID (rule_Binding rule),
      in_ListenIP = bi_ListenIP (rule_Binding rule), in_SendIP = rule_SendIP rule,
      in_FailurePolicy = defaultFailurePolicy (rule_FailurePolicy rule),
      in_DataplanePreference = defaultDataplanePreference (rule_DataplanePreference rule),
      in_ForwardingType = defaultForwardingType (rule_ForwardingType rule), in_Protocol = rule_Protocol rule,
      in_Port = bi_Port (rule_Binding rule),
      in_PortSegments = toRulePortSegmentInputs (rulePortSegments (rule_Binding rule)),
      in_Match = \<lparr>mi_Type = rule_MatchType rule, mi_SNIHostname = rule_SNIHostname rule\<rparr>,
      in_ProxyProtocol = \<lparr>ppi_In = rule_ProxyProtocolIn rule, ppi_Out = rule_ProxyProtocolOut rule\<rparr>,
      in_Upstream = \<lparr>ui_Type = rule_TargetType rule, ui_TargetID = rule_TargetID rule, ui_TargetGroupID = rule_TargetGroupID rule\<rparr>,
      in_Enabled = rule_Enabled rule, in_EnabledSet = False\<rparr>"

subsection \<open>validateRuleMutationInput\<close>

definition trimRuleInput :: "RuleMutationInput \<Rightarrow> RuleMutationInput" where
  "trimRuleInput input =
     input\<lparr>in_Name := TrimSpace (in_Name input), in_NodeGroupID := TrimSpace (in_NodeGroupID input),
       in_ListenIP := TrimSpace (in_ListenIP input), in_SendIP := TrimSpace (in_SendIP input),
       in_FailurePolicy := defaultFailurePolicy (in_FailurePolicy input),
       in_DataplanePreference := (let p = ToUpper (TrimSpace (in_DataplanePreference input)) in if p = [] then ''AUTO'' else p),
       in_ForwardingType := defaultForwardingType (in_ForwardingType input),
       in_Protocol := ToUpper (TrimSpace (in_Protocol input)),
       in_Match := \<lparr>mi_Type = ToUpper (TrimSpace (mi_Type (in_Match input))),
                    mi_SNIHostname = ToLower (TrimSpace (mi_SNIHostname (in_Match input)))\<rparr>,
       in_ProxyProtocol := \<lparr>ppi_In = ToUpper (TrimSpace (ppi_In (in_ProxyProtocol input))),
                            ppi_Out = ToUpper (TrimSpace (ppi_Out (in_ProxyProtocol input)))\<rparr>,
       in_Upstream := \<lparr>ui_Type = ToUpper (TrimSpace (ui_Type (in_Upstream input))),
                       ui_TargetID = TrimSpace (ui_TargetID (in_Upstream input)),
                       ui_TargetGroupID = TrimSpace (ui_TargetGroupID (in_Upstream input))\<rparr>,
       in_Tags := normalizeRuleTags (in_Tags input)\<rparr>"

text \<open>The checks from \<open>send_ip\<close> on; the host name of an \<open>ANY_INBOUND\<close> rule is cleared after the last check that reads it.\<close>

definition ruleInputErrors :: "RuleMutationInput \<Rightarrow> unit result" where
  "ruleInputErrors input =
     bind_result (fail_if (in_SendIP input \<noteq> [] \<and> (Contains (in_SendIP input) ''/'' \<or> ParseIP (in_SendIP input) = []))
       (SValidation ''send_ip'' ''Rule send_ip must be a literal IP address.'')) (\<lambda>_.
     bind_result (validateRuleForwardingType (in_ForwardingType input)) (\<lambda>_.
     bind_result (validateFailurePolicy (in_FailurePolicy input)) (\<lambda>_.
     bind_result (validateDataplanePreference (in_DataplanePreference input)) (\<lambda>_.
     bind_result (fail_if (in_Protocol input \<noteq> ''TCP'' \<and> in_Protocol input \<noteq> ''UDP'' \<and> in_Protocol input \<noteq> ''TCP_UDP'')
       (SValidation ''protocol'' ''Rule protocol must be TCP, UDP, or TCP_UDP.'')) (\<lambda>_.
     bind_result (fail_if (mi_Type (in_Match input) \<noteq> ''ANY_INBOUND'' \<and> mi_Type (in_Match input) \<noteq> ''TLS_SNI'')
       (SValidation ''match.type'' ''Rule match type must be ANY_INBOUND or TLS_SNI.'')) (\<lambda>_.
     bind_result (fail_if (in_Protocol input \<noteq> ''TCP'' \<and> mi_Type (in_Match input) \<noteq> ''ANY_INBOUND'')
       (SValidation ''match.type'' ''Only TCP rules can use TLS_SNI matching.'')) (\<lambda>_.
     bind_result (fail_if (mi_Type (in_Match input) = ''TLS_SNI'' \<and> mi_SNIHostname (in_Match input) = [])
       (SValidation ''match.sni_hostname'' ''TLS_SNI rules require an SNI hostname.'')) (\<lambda>_.
     bind_result (fail_if (\<not> validRuleProxyProtocol (ppi_In (in_ProxyProtocol input)) \<or>
                           \<not> validRuleProxyProtocol (ppi_Out (in_ProxyProtocol input)))
       (SValidation [] ''Rule proxy protocol must be NONE, V1, or V2.'')) (\<lambda>_.
     bind_result (fail_if (in_Protocol input = ''UDP'' \<and>
         (normalizedRuleProxyProtocol (ppi_In (in_ProxyProtocol input)) \<noteq> [] \<or>
          normalizedRuleProxyProtocol (ppi_Out (in_ProxyProtocol input)) \<noteq> []))
       (SValidation [] ''UDP rules cannot use Proxy Protocol.'')) (\<lambda>_.
     if ui_Type (in_Upstream input) = ''TARGET'' then
       fail_if (ui_TargetID (in_Upstream input) = [] \<or> ui_TargetGroupID (in_Upstream input) \<noteq> [])
         (SValidation [] ''TARGET upstream requires target_id and no target_group_id.'')
     else if ui_Type (in_Upstream input) = ''TARGET_GROUP'' then
       fail_if (ui_TargetGroupID (in_Upstream input) = [] \<or> ui_TargetID (in_Upstream input) \<noteq> [])
         (SValidation [] ''TARGET_GROUP upstream requires target_group_id and no target_id.'')
     else Inl (SValidation ''upstream.type'' ''Rule upstream type must be TARGET or TARGET_GROUP.'')))))))))))"

definition validateRuleMutationInput :: "RuleMutationInput \<Rightarrow> RuleMutationInput result" where
  "validateRuleMutationInput input =
     (let input = trimRuleInput input in
      bind_result (fail_if (in_Name input = []) (SValidation ''name'' ''Rule name is required.'')) (\<lambda>_.
      bind_result (fail_if (length (in_Name input) > 120) (SValidation ''name'' ''Rule name must be at most 120 characters.'')) (\<lambda>_.
      bind_result (fail_if (in_NodeGroupID input = []) (SValidation ''node_group_id'' ''Rule node_group_id is required.'')) (\<lambda>_.
      bind_result (fail_if (in_ListenIP input = []) (SValidation ''listen_ip'' ''Rule listen_ip is required.'')) (\<lambda>_.
      let segments = normalizeRulePortSegments (in_Port input) (in_PortSegments input) in
      bind_result (fail_if (segments = []) (SValidation ''port'' ''Rule port must be between 1 and 65535.'')) (\<lambda>_.
      let input = input\<lparr>in_PortSegments := segments, in_Port := psi_StartPort (segments ! 0)\<rparr> in
      bind_result (ruleInputErrors input) (\<lambda>_.
      Inr (if mi_Type (in_Match input) = ''ANY_INBOUND''
           then input\<lparr>in_Match := (in_Match input)\<lparr>mi_SNIHostname := []\<rparr>\<rparr> else input))))))))"

subsection \<open>What the nodes of a group offer\<close>

definition nodesInGroupFromSet :: "NodeRecord list \<Rightarrow> string \<Rightarrow> NodeRecord list" where
  "nodesInGroupFromSet nodes nodeGroupID = filter (\<lambda>node. List.member (nd_GroupIDs node) nodeGroupID) nodes"

text \<open>\<open>ListNodesByOrganization\<close> orders by name and id.\<close>

definition ListNodesByOrganization :: "'z control_db_scheme \<Rightarrow> NodeRecord list" where
  "ListNodesByOrganization db = sort_key (\<lambda>node. (nd_Name node, nd_ID node)) (db_Nodes db)"

definition nodesInGroup :: "'z control_db_scheme \<Rightarrow> string \<Rightarrow> NodeRecord list" where
  "nodesInGroup db nodeGroupID = filter (\<lambda>node. List.member (nd_GroupIDs node) nodeGroupID) (ListNodesByOrganization db)"

definition replaceNodeInSet :: "NodeRecord list \<Rightarrow> NodeRecord \<Rightarrow> NodeRecord list" where
  "replaceNodeInSet nodes replacement =
     map (\<lambda>node. if nd_ID node = nd_ID replacement then replacement else node) nodes @
     (if list_ex (\<lambda>node. nd_ID node = nd_ID replacement) nodes then [] else [replacement])"

definition removeNodeFromSet :: "NodeRecord list \<Rightarrow> string \<Rightarrow> NodeRecord list" where
  "removeNodeFromSet nodes nodeID = filter (\<lambda>node. nd_ID node \<noteq> nodeID) nodes"

definition hasListenIP :: "NodeRecord \<Rightarrow> string \<Rightarrow> bool" where
  "hasListenIP node listenIP = list_ex (\<lambda>c. nli_Enabled c \<and> nli_ListenIP c = listenIP) (nd_ListenIPs node)"

definition portRangeCovers :: "NodeRecord \<Rightarrow> string \<Rightarrow> int \<Rightarrow> bool" where
  "portRangeCovers node protocol port =
     list_ex (\<lambda>r. npr_Enabled r \<and> npr_Protocol r = protocol \<and> port \<ge> npr_StartPort r \<and> port \<le> npr_EndPort r) (nd_PortRanges node)"

definition nodeCoversPort :: "NodeRecord \<Rightarrow> string \<Rightarrow> int \<Rightarrow> bool" where
  "nodeCoversPort node protocol port =
     (if protocol = ProtocolTCPUDP then portRangeCovers node ProtocolTCP port \<and> portRangeCovers node ProtocolUDP port
      else portRangeCovers node protocol port)"

definition nodeCoversPortSegments :: "NodeRecord \<Rightarrow> string \<Rightarrow> InboundBindingPortSegmentRecord list \<Rightarrow> bool" where
  "nodeCoversPortSegments node protocol segments =
     list_all (\<lambda>segment. list_all (nodeCoversPort node protocol) [bs_StartPort segment..bs_EndPort segment]) segments"

definition nodesCoverListenIPAndPortSegments ::
    "NodeRecord list \<Rightarrow> string \<Rightarrow> string \<Rightarrow> InboundBindingPortSegmentRecord list \<Rightarrow> bool" where
  "nodesCoverListenIPAndPortSegments nodes listenIP protocol segments =
     (if nodes = [] then False
      else list_all (\<lambda>node. hasListenIP node listenIP \<and> nodeCoversPortSegments node protocol segments \<and>
             expandedPortCount segments \<le> defaultMaxRulePorts (nd_MaxRulePorts node)) nodes)"

definition nodesShareListenIP :: "NodeRecord list \<Rightarrow> string \<Rightarrow> bool" where
  "nodesShareListenIP nodes listenIP =
     (if nodes = [] then False else list_all (\<lambda>node. hasListenIP node listenIP) nodes)"

definition nodesShareSendIP :: "NodeRecord list \<Rightarrow> string \<Rightarrow> bool" where
  "nodesShareSendIP nodes sendIP =
     (if TrimSpace sendIP = [] then True
      else if nodes = [] then False
      else list_all (\<lambda>node. list_ex (\<lambda>c. nsi_Enabled c \<and> nsi_SendIP c = sendIP) (nd_SendIPs node)) nodes)"

subsection \<open>Conflicts between rules\<close>

definition bindingsForNodes ::
    "NodeRecord list \<Rightarrow> string \<Rightarrow> string \<Rightarrow> InboundBindingPortSegmentRecord list \<Rightarrow> string \<Rightarrow> string \<Rightarrow> string \<Rightarrow> string \<Rightarrow>
     InboundBinding list" where
  "bindingsForNodes nodes listenIP protocol segments matchType sni proxyProtocolIn ruleID =
     concat (map (\<lambda>node. map (\<lambda>segment.
       \<lparr>ib_NodeID = nd_ID node, ib_ListenIP = listenIP, ib_Protocol = protocol, ib_Port = bs_StartPort segment,
        ib_StartPort = bs_StartPort segment, ib_EndPort = bs_EndPort segment, ib_MatchType = matchType, ib_SNI = sni,
        ib_ProxyProtocolIn = proxyProtocolIn, ib_ForwardRule = ruleID\<rparr>) segments) nodes)"

definition ruleBindings :: "NodeRecord list \<Rightarrow> RuleRecord \<Rightarrow> InboundBinding list" where
  "ruleBindings nodes rule =
     bindingsForNodes nodes (bi_ListenIP (rule_Binding rule)) (rule_Protocol rule) (rulePortSegments (rule_Binding rule))
       (rule_MatchType rule) (rule_SNIHostname rule) (rule_ProxyProtocolIn rule) (rule_ID rule)"

definition inputBindings :: "NodeRecord list \<Rightarrow> RuleMutationInput \<Rightarrow> string \<Rightarrow> InboundBinding list" where
  "inputBindings nodes input ruleID =
     bindingsForNodes nodes (in_ListenIP input) (in_Protocol input) (toInboundBindingPortSegments (in_PortSegments input))
       (mi_Type (in_Match input)) (mi_SNIHostname (in_Match input)) (defaultProxyProtocol (ppi_In (in_ProxyProtocol input))) ruleID"

definition checkBindings :: "InboundBinding list \<Rightarrow> InboundBinding list \<Rightarrow> unit result" where
  "checkBindings existing candidates =
     each (\<lambda>candidate. fail_some (map_option SDomain (ValidateInboundBindingConflict existing candidate))) candidates"

text \<open>The check against no other binding, for a node that stands for any node; its id is \<open>shape-check\<close>.\<close>

definition zeroAgentInfo :: NodeAgentInfo where
  "zeroAgentInfo =
     \<lparr>ag_Version = [], ag_Commit = [], ag_BuildTime = [], ag_AutoUpdateEnabled = False, ag_DesiredVersion = [], ag_UpdateStatus = [],
      ag_UpdateError = [], ag_UpdateStartedAt = None, ag_UpdateFinishedAt = None, ag_RegisteredAt = None\<rparr>"

definition shapeCheckNode :: NodeRecord where
  "shapeCheckNode =
     \<lparr>nd_ID = ''shape-check'', nd_Name = [], nd_Status = [], nd_PublicDescription = [], nd_DesiredConfigVersion = 0,
      nd_AppliedConfigVersion = 0, nd_ConfigStatus = [], nd_ConfigErrorMessage = [], nd_ConfigStatusConfigVersion = 0,
      nd_ConfigRetryCount = 0, nd_ConfigNextRetryAt = None, nd_DataplaneMode = [], nd_DataplaneConflictPolicy = [],
      nd_DataplaneInstanceID = [], nd_DataplaneStatus = [], nd_DataplaneError = [], nd_DataplaneLastHash = [],
      nd_GroupIDs = [], nd_ListenIPs = [], nd_SendIPs = [], nd_PortRanges = [], nd_DNSPublishAddresses = [], nd_MaxRulePorts = 0,
      nd_EnrollmentProfileID = [], nd_Agent = zeroAgentInfo\<rparr>"

definition validateRuleBindingShape :: "RuleMutationInput \<Rightarrow> string \<Rightarrow> unit result" where
  "validateRuleBindingShape input ruleID =
     (let bindings = inputBindings [shapeCheckNode] input ruleID in
      if bindings = [] then Inl SErrInvalidInput else checkBindings [] bindings)"

definition ListRulesByOrganization :: "'z control_db_scheme \<Rightarrow> RuleRecord list" where
  "ListRulesByOrganization db = sort_key (\<lambda>rule. (rule_Name rule, rule_ID rule)) (db_Rules db)"

definition ListEnabledInboundBindings :: "'z control_db_scheme \<Rightarrow> RuleRecord list" where
  "ListEnabledInboundBindings db = filter (\<lambda>rule. rule_Enabled rule \<and> rule_Status rule = ''ENABLED'') (ListRulesByOrganization db)"

definition ensureNoRuleConflicts ::
    "'z control_db_scheme \<Rightarrow> RuleRecord list \<Rightarrow> string \<Rightarrow> RuleMutationInput \<Rightarrow> NodeRecord list \<Rightarrow> unit result" where
  "ensureNoRuleConflicts db existing ruleID input candidateNodes =
     (let candidates = inputBindings candidateNodes input ruleID in
      each (\<lambda>existingRule.
        if rule_ID existingRule = ruleID then Inr ()
        else checkBindings (ruleBindings (nodesInGroup db (bi_NodeGroupID (rule_Binding existingRule))) existingRule) candidates)
        existing)"

fun validateRulesLoop :: "NodeRecord list \<Rightarrow> InboundBinding list \<Rightarrow> RuleRecord list \<Rightarrow> unit result" where
  "validateRulesLoop nodes seenBindings [] = Inr ()"
| "validateRulesLoop nodes seenBindings (rule # rules) =
     (let groupNodes = nodesInGroupFromSet nodes (bi_NodeGroupID (rule_Binding rule)) in
      if \<not> nodesCoverListenIPAndPortSegments groupNodes (bi_ListenIP (rule_Binding rule)) (rule_Protocol rule)
             (rulePortSegments (rule_Binding rule))
        then Inl (SControl ''NODE_RULE_COVERAGE_CONFLICT'')
      else if \<not> nodesShareSendIP groupNodes (rule_SendIP rule) then Inl (SControl ''NODE_RULE_SEND_IP_CONFLICT'')
      else bind_result (checkBindings seenBindings (ruleBindings groupNodes rule)) (\<lambda>_.
        validateRulesLoop nodes (seenBindings @ ruleBindings groupNodes rule) rules))"

definition validateEnabledRulesForNodeSet :: "'z control_db_scheme \<Rightarrow> NodeRecord list \<Rightarrow> unit result" where
  "validateEnabledRulesForNodeSet db nodes = validateRulesLoop nodes [] (ListEnabledInboundBindings db)"

definition ensureNoRulesForNodeGroup :: "'z control_db_scheme \<Rightarrow> string \<Rightarrow> unit result" where
  "ensureNoRulesForNodeGroup db nodeGroupID =
     each (\<lambda>rule. fail_if (bi_NodeGroupID (rule_Binding rule) = nodeGroupID) SErrConflict) (ListRulesByOrganization db)"

subsection \<open>Upstreams\<close>

definition FindTargetByID :: "'z control_db_scheme \<Rightarrow> string \<Rightarrow> TargetRecord result" where
  "FindTargetByID db targetID =
     (case List.find (\<lambda>t. tgt_ID t = targetID) (db_Targets db) of None \<Rightarrow> Inl SErrNotFound | Some t \<Rightarrow> Inr t)"

definition FindTargetGroupByID :: "'z control_db_scheme \<Rightarrow> string \<Rightarrow> TargetGroupRecord result" where
  "FindTargetGroupByID db targetGroupID =
     (case List.find (\<lambda>g. grp_ID g = targetGroupID) (db_TargetGroups db) of
        None \<Rightarrow> Inl SErrNotFound
      | Some g \<Rightarrow> Inr (g\<lparr>grp_Members := sort_key (\<lambda>m. (mem_Priority m, mem_TargetID m)) (grp_Members g)\<rparr>))"

definition targetGroupSchedulerSupportedByOSS :: "string \<Rightarrow> bool" where
  "targetGroupSchedulerSupportedByOSS scheduler \<longleftrightarrow>
     normalizeTargetGroupScheduler scheduler = targetGroupSchedulerPriorityIPHash \<or>
     normalizeTargetGroupScheduler scheduler = targetGroupSchedulerLeastLoad"

definition targetGroupSchedulerSupportedByCore :: "TargetGroupRecord \<Rightarrow> bool" where
  "targetGroupSchedulerSupportedByCore grp = targetGroupSchedulerSupportedByOSS (normalizeTargetGroupScheduler (grp_Scheduler grp))"

definition ensureUpstreamAvailable ::
    "'z control_db_scheme \<Rightarrow> RuleUpstreamInput \<Rightarrow> unit result" where
  "ensureUpstreamAvailable db upstream =
     (if ui_Type upstream = ''TARGET'' then
        bind_result (FindTargetByID db (ui_TargetID upstream)) (\<lambda>target. fail_if (\<not> tgt_Enabled target) SErrInvalidInput)
      else if ui_Type upstream = ''TARGET_GROUP'' then
        bind_result (FindTargetGroupByID db (ui_TargetGroupID upstream)) (\<lambda>grp.
        bind_result (fail_if (\<not> targetGroupSchedulerSupportedByCore grp) SErrInvalidInput) (\<lambda>_.
        bind_result (each (\<lambda>member.
          bind_result (fail_if (\<not> mem_Enabled member) SErrInvalidInput) (\<lambda>_.
          bind_result (FindTargetByID db (mem_TargetID member)) (\<lambda>target.
          fail_if (\<not> tgt_Enabled target) SErrInvalidInput))) (grp_Members grp)) (\<lambda>_.
        fail_if (grp_Members grp = [] \<or>
                 (normalizeTargetGroupScheduler (grp_Scheduler grp) = targetGroupSchedulerLeastLoad \<and>
                  \<not> list_ex (\<lambda>m. mem_Weight m > 0) (grp_Members grp))) SErrInvalidInput)))
      else Inl SErrInvalidInput)"

definition ensureUpstreamExists ::
    "'z control_db_scheme \<Rightarrow> RuleUpstreamInput \<Rightarrow> unit result" where
  "ensureUpstreamExists db upstream =
     (if ui_Type upstream = ''TARGET'' then
        bind_result (FindTargetByID db (ui_TargetID upstream)) (\<lambda>target. Inr ())
      else if ui_Type upstream = ''TARGET_GROUP'' then
        bind_result (FindTargetGroupByID db (ui_TargetGroupID upstream)) (\<lambda>grp. fail_if (\<not> targetGroupSchedulerSupportedByCore grp) SErrInvalidInput)
      else Inl SErrInvalidInput)"

subsection \<open>prepareRuleMutation and the rule limits\<close>

definition FindNodeGroupByID :: "'z control_db_scheme \<Rightarrow> string \<Rightarrow> NodeGroupRecord result" where
  "FindNodeGroupByID db nodeGroupID =
     (case List.find (\<lambda>g. ng_ID g = nodeGroupID) (db_NodeGroups db) of None \<Rightarrow> Inl SErrNotFound | Some g \<Rightarrow> Inr g)"

definition prepareRuleMutation ::
    "Authorizer \<Rightarrow> 'z control_db_scheme \<Rightarrow> InternalIdentity \<Rightarrow> string \<Rightarrow> RuleMutationInput \<Rightarrow> bool \<Rightarrow>
     unit result" where
  "prepareRuleMutation auth db identity ruleID input occupiesPort =
     bind_result (fail_if (\<not> canUseNodeGroup auth identity (in_NodeGroupID input)) SErrForbidden) (\<lambda>_.
     bind_result (validateRuleForwardingType (in_ForwardingType input)) (\<lambda>_.
     bind_result (validateFailurePolicy (in_FailurePolicy input)) (\<lambda>_.
     bind_result (validateRuleMatchType (mi_Type (in_Match input))) (\<lambda>_.
     bind_result (validateRuleBindingShape input ruleID) (\<lambda>_.
     bind_result (FindNodeGroupByID db (in_NodeGroupID input)) (\<lambda>_.
     bind_result (ensureUpstreamAvailable db (in_Upstream input)) (\<lambda>_.
     let nodes = nodesInGroup db (in_NodeGroupID input);
         segments = toInboundBindingPortSegments (in_PortSegments input) in
     bind_result (fail_if (\<not> nodesCoverListenIPAndPortSegments nodes (in_ListenIP input) (in_Protocol input) segments)
       (SValidation [] ''Selected entry does not cover the rule listen_ip, protocol, and port segments.'')) (\<lambda>_.
     bind_result (fail_if (\<not> nodesShareSendIP nodes (in_SendIP input))
       (SValidation [] ''Selected send_ip is not allowed by every node in the node group.'')) (\<lambda>_.
     if occupiesPort then ensureNoRuleConflicts db (ListEnabledInboundBindings db) ruleID input nodes else Inr ())))))))))"

text \<open>The smallest positive limit among the quotas of the user; \<open>(limit, limit set, unlimited)\<close>.\<close>

fun userQuotaLoop :: "string \<Rightarrow> int \<times> bool \<times> bool \<Rightarrow> QuotaRecord list \<Rightarrow> int \<times> bool \<times> bool" where
  "userQuotaLoop owner acc [] = acc"
| "userQuotaLoop owner (limit, limitSet, unlimited) (quota # quotas) =
     (if qu_Scope quota \<noteq> ''USER'' \<or> qu_SubjectUserID quota \<noteq> owner then userQuotaLoop owner (limit, limitSet, unlimited) quotas
      else if qu_RuleLimit quota = 0 \<and> qu_TrafficLimitBytes quota = 0 then userQuotaLoop owner (limit, limitSet, True) quotas
      else if qu_RuleLimit quota > 0 \<and> (limit = 0 \<or> qu_RuleLimit quota < limit)
        then userQuotaLoop owner (qu_RuleLimit quota, True, unlimited) quotas
      else userQuotaLoop owner (limit, limitSet, unlimited) quotas)"

definition CountRulesByOwner :: "'z control_db_scheme \<Rightarrow> string \<Rightarrow> int" where
  "CountRulesByOwner db owner = int (length (filter (\<lambda>rule. rule_OwnerUserID rule = owner) (db_Rules db)))"

definition CountRulesByOrganization :: "'z control_db_scheme \<Rightarrow> int" where
  "CountRulesByOrganization db = int (length (db_Rules db))"

definition ensureRuleLimitAvailable :: "'z control_db_scheme \<Rightarrow> string \<Rightarrow> int \<Rightarrow> unit result" where
  "ensureRuleLimitAvailable db owner additionalRules =
     (if additionalRules \<le> 0 then Inr ()
      else
        (let (userRuleLimit, userRuleLimitSet, userRuleUnlimited) = userQuotaLoop owner (0, False, False) (db_Quotas db);
             userRuleLimitSet = (userRuleLimitSet \<or> userRuleUnlimited) in
         bind_result
           (if userRuleLimit > 0 then
              fail_if (CountRulesByOwner db owner + additionalRules > userRuleLimit) SErrQuotaExceeded
            else if \<not> userRuleLimitSet \<and> db_DefaultRuleLimit db > 0 then
              fail_if (CountRulesByOwner db owner + additionalRules > db_DefaultRuleLimit db) SErrQuotaExceeded
            else Inr ())
           (\<lambda>_. each (\<lambda>quota.
              if qu_RuleLimit quota \<le> 0 then Inr ()
              else if qu_Scope quota = ''ORGANIZATION'' then
                fail_if (CountRulesByOrganization db + additionalRules > qu_RuleLimit quota) SErrQuotaExceeded
              else Inr ()) (db_Quotas db))))"

end
