(* ===== verification/Rule_Store.thy ===== *)
theory Rule_Store
  imports Rule_Admission
begin

text \<open>
  What the service does to the rows of rules, nodes and deployments: the statements of
  \<open>pkg/core/repo/targets_rules.go\<close> and \<open>nodes.go\<close>, and the deployment bookkeeping of
  \<open>control_rule_deployment.go\<close> over them. The rows of an inbound binding are read back through the rule that
  owns them, with their port segments in order; ids of rows that nothing refers to are left out.
\<close>

subsection \<open>Rules\<close>

definition FindRuleByID :: "'z control_db_scheme \<Rightarrow> string \<Rightarrow> RuleRecord result" where
  "FindRuleByID db ruleID =
     (case List.find (\<lambda>rule. rule_ID rule = ruleID) (db_Rules db) of None \<Rightarrow> Inl SErrNotFound | Some rule \<Rightarrow> Inr rule)"

definition normalizeRuleDataplanePreference :: "string \<Rightarrow> string" where
  "normalizeRuleDataplanePreference value =
     (if List.member [''NATIVE'', ''HAPROXY'', ''NFTABLES''] (ToUpper (TrimSpace value)) then ToUpper (TrimSpace value) else ''AUTO'')"

text \<open>A binding as it is read back: \<open>replaceInboundBindingPortSegments\<close> writes the segments,
  \<open>loadInboundBindingPortSegments\<close> reads them in order.\<close>

definition storedBinding :: "InboundBindingRecord \<Rightarrow> InboundBindingRecord" where
  "storedBinding binding =
     binding\<lparr>bi_PortSegments := sort_key (\<lambda>s. (bs_StartPort s, bs_EndPort s)) (rulePortSegments binding)\<rparr>"

definition storedRule :: "RuleRecord \<Rightarrow> InboundBindingRecord \<Rightarrow> string list \<Rightarrow> RuleRecord" where
  "storedRule rule binding tags =
     rule\<lparr>rule_InboundBindingID := bi_ID binding, rule_Binding := storedBinding binding, rule_Tags := sort tags,
       rule_DataplanePreference := normalizeRuleDataplanePreference (rule_DataplanePreference rule)\<rparr>"

definition store_CreateRule :: "RuleRecord \<Rightarrow> InboundBindingRecord \<Rightarrow> string list \<Rightarrow> 'z control_db_scheme \<Rightarrow> 'z control_db_scheme result" where
  "store_CreateRule rule binding tags db =
     (if list_ex (\<lambda>r. rule_ID r = rule_ID rule) (db_Rules db) then Inl SErrConflict
      else Inr (db\<lparr>db_Rules := db_Rules db @ [storedRule rule binding tags]\<rparr>))"

text \<open>\<open>UPDATE forwarding_rules\<close> writes every column but the owner.\<close>

definition store_UpdateRule :: "RuleRecord \<Rightarrow> InboundBindingRecord \<Rightarrow> string list \<Rightarrow> 'z control_db_scheme \<Rightarrow> 'z control_db_scheme result" where
  "store_UpdateRule rule binding tags db =
     (if \<not> list_ex (\<lambda>r. rule_ID r = rule_ID rule) (db_Rules db) then Inl SErrNotFound
      else Inr (db\<lparr>db_Rules := map (\<lambda>r. if rule_ID r = rule_ID rule
             then (storedRule rule binding tags)\<lparr>rule_OwnerUserID := rule_OwnerUserID r\<rparr> else r) (db_Rules db)\<rparr>))"

definition store_DeleteRule :: "string \<Rightarrow> 'z control_db_scheme \<Rightarrow> 'z control_db_scheme result" where
  "store_DeleteRule ruleID db =
     (if \<not> list_ex (\<lambda>r. rule_ID r = ruleID) (db_Rules db) then Inl SErrNotFound
      else Inr (db\<lparr>db_Rules := filter (\<lambda>r. rule_ID r \<noteq> ruleID) (db_Rules db)\<rparr>))"

subsection \<open>The desired configuration version of a node\<close>

definition incrementDesiredConfig :: "NodeRecord \<Rightarrow> NodeRecord" where
  "incrementDesiredConfig node =
     (let v = (if nd_DesiredConfigVersion node \<ge> nd_AppliedConfigVersion node then nd_DesiredConfigVersion node + 1
               else nd_AppliedConfigVersion node + 1)
      in node\<lparr>nd_DesiredConfigVersion := v, nd_ConfigStatus := ''PENDING'', nd_ConfigErrorMessage := [],
           nd_ConfigStatusConfigVersion := v, nd_ConfigRetryCount := 0, nd_ConfigNextRetryAt := None\<rparr>)"

definition IncrementDesiredConfigForNode :: "string \<Rightarrow> 'z control_db_scheme \<Rightarrow> 'z control_db_scheme result" where
  "IncrementDesiredConfigForNode nodeID db =
     (if \<not> list_ex (\<lambda>n. nd_ID n = nodeID) (db_Nodes db) then Inl SErrNotFound
      else Inr (db\<lparr>db_Nodes := map (\<lambda>n. if nd_ID n = nodeID then incrementDesiredConfig n else n) (db_Nodes db)\<rparr>))"

definition IncrementDesiredConfigForNodeGroup :: "string \<Rightarrow> 'z control_db_scheme \<Rightarrow> 'z control_db_scheme" where
  "IncrementDesiredConfigForNodeGroup nodeGroupID db =
     db\<lparr>db_Nodes := map (\<lambda>n. if List.member (nd_GroupIDs n) nodeGroupID then incrementDesiredConfig n else n) (db_Nodes db)\<rparr>"

definition bumpDesiredConfigForNodeGroup :: "string \<Rightarrow> 'z control_db_scheme \<Rightarrow> 'z control_db_scheme" where
  "bumpDesiredConfigForNodeGroup nodeGroupID db =
     (if nodeGroupID = [] then db else IncrementDesiredConfigForNodeGroup nodeGroupID db)"

text \<open>The loop over a Go map visits the groups in some order, which \<open>nodeGroups\<close> lists.\<close>

definition bumpDesiredConfigForNodeGroups :: "string list \<Rightarrow> 'z control_db_scheme \<Rightarrow> 'z control_db_scheme" where
  "bumpDesiredConfigForNodeGroups nodeGroups db = fold bumpDesiredConfigForNodeGroup nodeGroups db"

subsection \<open>Deployments\<close>

record RuleDeploymentPendingRecord =
  pd_NodeID :: string
  pd_ConfigVersion :: int

definition pendingDeployment :: "RuleRecord \<Rightarrow> string \<Rightarrow> int \<Rightarrow> RuleDeploymentRecord" where
  "pendingDeployment rule nodeID configVersion =
     \<lparr>dep_RuleID = rule_ID rule, dep_NodeID = nodeID, dep_ConfigVersion = configVersion,
      dep_RuleConfigVersion = rule_ConfigVersion rule, dep_Status = ''PENDING'', dep_ErrorCode = [], dep_ErrorMessage = [],
      dep_Protocol = [], dep_ListenIP = [], dep_Port = 0,
      dep_ExpectedDataplane = normalizeRuleDataplanePreference (rule_DataplanePreference rule), dep_ActualDataplane = [],
      dep_Owner = [], dep_DriftStatus = [], dep_ExternalResource = []\<rparr>"

definition DeleteRuleDeployments :: "string \<Rightarrow> 'z control_db_scheme \<Rightarrow> 'z control_db_scheme" where
  "DeleteRuleDeployments ruleID db = db\<lparr>db_Deployments := filter (\<lambda>d. dep_RuleID d \<noteq> ruleID) (db_Deployments db)\<rparr>"

definition DeleteRuleDeploymentForNode :: "string \<Rightarrow> string \<Rightarrow> 'z control_db_scheme \<Rightarrow> 'z control_db_scheme" where
  "DeleteRuleDeploymentForNode ruleID nodeID db =
     db\<lparr>db_Deployments := filter (\<lambda>d. \<not> (dep_RuleID d = ruleID \<and> dep_NodeID d = nodeID)) (db_Deployments db)\<rparr>"

text \<open>The insert loop of \<open>ReplaceRuleDeploymentPending\<close>: blank and repeated node ids are passed over.\<close>

fun pendingLoop :: "RuleRecord \<Rightarrow> string list \<Rightarrow> RuleDeploymentPendingRecord list \<Rightarrow> RuleDeploymentRecord list" where
  "pendingLoop rule seen [] = []"
| "pendingLoop rule seen (d # ds) =
     (let nodeID = TrimSpace (pd_NodeID d) in
      if nodeID = [] \<or> List.member seen nodeID then pendingLoop rule seen ds
      else pendingDeployment rule nodeID (pd_ConfigVersion d) # pendingLoop rule (nodeID # seen) ds)"

definition ReplaceRuleDeploymentPending :: "RuleRecord \<Rightarrow> RuleDeploymentPendingRecord list \<Rightarrow> 'z control_db_scheme \<Rightarrow> 'z control_db_scheme" where
  "ReplaceRuleDeploymentPending rule deployments db =
     (let db = DeleteRuleDeployments (rule_ID rule) db in
      db\<lparr>db_Deployments := db_Deployments db @ pendingLoop rule [] deployments\<rparr>)"

definition upsertDeployment ::
    "(RuleDeploymentRecord \<Rightarrow> bool) \<Rightarrow> RuleDeploymentRecord \<Rightarrow> RuleDeploymentRecord list \<Rightarrow> RuleDeploymentRecord list" where
  "upsertDeployment overwrite new rows =
     (if list_ex (\<lambda>d. dep_RuleID d = dep_RuleID new \<and> dep_NodeID d = dep_NodeID new) rows
      then map (\<lambda>d. if dep_RuleID d = dep_RuleID new \<and> dep_NodeID d = dep_NodeID new \<and> overwrite d then new else d) rows
      else rows @ [new])"

definition UpsertRuleDeploymentPending :: "RuleRecord \<Rightarrow> RuleDeploymentPendingRecord \<Rightarrow> 'z control_db_scheme \<Rightarrow> 'z control_db_scheme" where
  "UpsertRuleDeploymentPending rule deployment db =
     (let nodeID = TrimSpace (pd_NodeID deployment) in
      if nodeID = [] then db
      else db\<lparr>db_Deployments := upsertDeployment (\<lambda>_. True) (pendingDeployment rule nodeID (pd_ConfigVersion deployment))
             (db_Deployments db)\<rparr>)"

definition pendingDeploymentsForNodes :: "NodeRecord list \<Rightarrow> RuleDeploymentPendingRecord list" where
  "pendingDeploymentsForNodes nodes =
     sort_key pd_NodeID (map (\<lambda>n. \<lparr>pd_NodeID = nd_ID n, pd_ConfigVersion = nd_DesiredConfigVersion n\<rparr>)
       (filter (\<lambda>n. TrimSpace (nd_ID n) \<noteq> []) nodes))"

definition syncRuleDeploymentPending :: "RuleRecord \<Rightarrow> 'z control_db_scheme \<Rightarrow> 'z control_db_scheme" where
  "syncRuleDeploymentPending rule db =
     (if \<not> rule_Enabled rule then DeleteRuleDeployments (rule_ID rule) db
      else ReplaceRuleDeploymentPending rule
             (pendingDeploymentsForNodes (nodesInGroup db (bi_NodeGroupID (rule_Binding rule)))) db)"

definition stringSet :: "string list \<Rightarrow> string list" where
  "stringSet values = filter (\<lambda>v. v \<noteq> []) (map TrimSpace values)"

definition syncRuleDeploymentsForNodeMembershipChange ::
    "NodeRecord \<Rightarrow> string list \<Rightarrow> string list \<Rightarrow> 'z control_db_scheme \<Rightarrow> 'z control_db_scheme" where
  "syncRuleDeploymentsForNodeMembershipChange node previousGroupIDs nextGroupIDs db =
     (if TrimSpace (nd_ID node) = [] then db
      else
        (let previous = stringSet previousGroupIDs; next' = stringSet nextGroupIDs in
         fold (\<lambda>rule db.
           if \<not> rule_Enabled rule then db
           else
             (let wasInGroup = List.member previous (bi_NodeGroupID (rule_Binding rule));
                  isInGroup = List.member next' (bi_NodeGroupID (rule_Binding rule)) in
              if wasInGroup \<and> \<not> isInGroup then DeleteRuleDeploymentForNode (rule_ID rule) (nd_ID node) db
              else if \<not> wasInGroup \<and> isInGroup then
                UpsertRuleDeploymentPending rule \<lparr>pd_NodeID = nd_ID node, pd_ConfigVersion = nd_DesiredConfigVersion node\<rparr> db
              else db)) (ListRulesByOrganization db) db))"

definition syncRuleDeploymentsForNodeConfigChange :: "NodeRecord \<Rightarrow> 'z control_db_scheme \<Rightarrow> 'z control_db_scheme" where
  "syncRuleDeploymentsForNodeConfigChange node db =
     (if TrimSpace (nd_ID node) = [] then db
      else
        (let nodeGroups = stringSet (nd_GroupIDs node) in
         fold (\<lambda>rule db.
           if \<not> rule_Enabled rule \<or> \<not> List.member nodeGroups (bi_NodeGroupID (rule_Binding rule)) then db
           else UpsertRuleDeploymentPending rule \<lparr>pd_NodeID = nd_ID node, pd_ConfigVersion = nd_DesiredConfigVersion node\<rparr> db)
         (ListRulesByOrganization db) db))"

subsection \<open>Audit log\<close>

definition writeAudit :: "InternalIdentity \<Rightarrow> string \<Rightarrow> string \<Rightarrow> string \<Rightarrow> 'z control_db_scheme \<Rightarrow> 'z control_db_scheme" where
  "writeAudit identity action resourceType resourceID db =
     db\<lparr>db_Audit := db_Audit db @ [(id_UserID identity, action, resourceType, resourceID)]\<rparr>"

subsection \<open>Deployment status of a rule\<close>

record RuleDeploymentNodePayload =
  dn_NodeID :: string
  dn_NodeName :: string
  dn_Status :: string
  dn_Deployment :: "RuleDeploymentRecord option"

record RuleDeploymentPayload =
  dpl_Status :: string
  dpl_Total :: int
  dpl_Applied :: int
  dpl_Failed :: int
  dpl_Pending :: int
  dpl_Nodes :: "RuleDeploymentNodePayload list"

definition deploymentStatusRank :: "string \<Rightarrow> int" where
  "deploymentStatusRank status =
     (if status = ''FAILED'' then 0 else if status = ''PENDING'' then 1 else if status = ''APPLIED'' then 2 else 3)"

text \<open>The last deployment of the rule for the node: the code fills a map, so a later row replaces an earlier one.\<close>

definition deploymentFor :: "RuleRecord \<Rightarrow> RuleDeploymentRecord list \<Rightarrow> string \<Rightarrow> RuleDeploymentRecord option" where
  "deploymentFor rule deployments nodeID =
     List.find (\<lambda>d. dep_RuleID d = rule_ID rule \<and> dep_NodeID d = nodeID) (rev deployments)"

definition nodeDeploymentStatus :: "RuleRecord \<Rightarrow> RuleDeploymentRecord list \<Rightarrow> NodeRecord \<Rightarrow> string" where
  "nodeDeploymentStatus rule deployments node =
     (case deploymentFor rule deployments (nd_ID node) of None \<Rightarrow> ''PENDING'' | Some d \<Rightarrow> dep_Status d)"

definition ruleDeploymentPayload ::
    "RuleRecord \<Rightarrow> NodeRecord list \<Rightarrow> RuleDeploymentRecord list \<Rightarrow> bool \<Rightarrow> RuleDeploymentPayload" where
  "ruleDeploymentPayload rule nodes deployments includeNodeDetails =
     (if \<not> rule_Enabled rule
      then \<lparr>dpl_Status = ''DISABLED'', dpl_Total = 0, dpl_Applied = 0, dpl_Failed = 0, dpl_Pending = 0, dpl_Nodes = []\<rparr>
      else
        (let statuses = map (nodeDeploymentStatus rule deployments) nodes;
             applied = length (filter (\<lambda>s. s = ''APPLIED'') statuses);
             failed = length (filter (\<lambda>s. s = ''FAILED'') statuses);
             pending = length (filter (\<lambda>s. s \<noteq> ''APPLIED'' \<and> s \<noteq> ''FAILED'') statuses);
             details = map (\<lambda>node. \<lparr>dn_NodeID = nd_ID node, dn_NodeName = nd_Name node,
               dn_Status = nodeDeploymentStatus rule deployments node,
               dn_Deployment = deploymentFor rule deployments (nd_ID node)\<rparr>) nodes
         in \<lparr>dpl_Status = (if nodes = [] then ''NO_NODES'' else if failed > 0 then ''DEPLOY_FAILED''
               else if pending > 0 then ''PENDING'' else ''APPLIED''),
             dpl_Total = int (length nodes), dpl_Applied = int applied, dpl_Failed = int failed, dpl_Pending = int pending,
             dpl_Nodes = (if includeNodeDetails
               then sort_key (\<lambda>p. (deploymentStatusRank (dn_Status p), dn_NodeName p)) details else [])\<rparr>))"

end
