(* ===== verification/Go_Utf8.thy ===== *)
theory Go_Utf8
  imports Go_Strings
begin

text \<open>
  Strings are sequences of bytes; \<open>range\<close> over a string and \<open>unicode/utf8\<close> decode them rune by rune, a byte that
  starts no well-formed sequence counting as the replacement rune U+FFFD, one byte wide.
\<close>

definition byte_at :: "string \<Rightarrow> nat \<Rightarrow> nat" where
  "byte_at s i = (if i < length s then of_char (s ! i) else 0)"

definition cont_bytes :: "string \<Rightarrow> nat \<Rightarrow> bool" where
  "cont_bytes s n \<longleftrightarrow> length s > n \<and> list_all (\<lambda>i. 0x80 \<le> byte_at s i \<and> byte_at s i < 0xC0) [1..<Suc n]"

text \<open>The width of the first rune; 0 if no well-formed sequence starts the text.\<close>

definition rune_width :: "string \<Rightarrow> nat" where
  "rune_width s =
     (let b = byte_at s 0; c = byte_at s 1 in
      if s = [] then 0
      else if b < 0x80 then 1
      else if 0xC2 \<le> b \<and> b \<le> 0xDF \<and> cont_bytes s 1 then 2
      else if 0xE0 \<le> b \<and> b \<le> 0xEF \<and> cont_bytes s 2 \<and> (b = 0xE0 \<longrightarrow> 0xA0 \<le> c) \<and> (b = 0xED \<longrightarrow> c \<le> 0x9F) then 3
      else if 0xF0 \<le> b \<and> b \<le> 0xF4 \<and> cont_bytes s 3 \<and> (b = 0xF0 \<longrightarrow> 0x90 \<le> c) \<and> (b = 0xF4 \<longrightarrow> c \<le> 0x8F) then 4
      else 0)"

lemma rune_width_le: "rune_width s \<le> length s"
  by (auto simp: rune_width_def cont_bytes_def Let_def Suc_le_eq)

lemma rune_width_ascii: "of_char c < (0x80 :: nat) \<Longrightarrow> rune_width (c # s) = 1"
  by (simp add: rune_width_def byte_at_def)

end
