(* ===== verification/Rule_Service.thy ===== *)
theory Rule_Service
  imports Rule_Store Go_Utf8
begin

text \<open>
  The operations on rules of the control service (\<open>control_rules.go\<close>, the helpers of
  \<open>control_rule_helpers.go\<close> they use, and \<open>applyRuleFailurePolicies\<close> of \<open>control_rule_deployment.go\<close>), each
  over the state of one organization. An operation takes the new ids it draws from \<open>service.newID\<close> as
  arguments.
\<close>

subsection \<open>The service\<close>

record ControlService =
  svc_authorizer :: Authorizer
  svc_targetGroupSchedulers :: "string \<Rightarrow> bool"
  svc_newHash :: "string \<Rightarrow> string"
  svc_organizationID :: string

definition hasPermission :: "ControlService \<Rightarrow> InternalIdentity \<Rightarrow> string \<Rightarrow> bool" where
  "hasPermission service identity permission = HasPermission (svc_authorizer service) identity permission"

definition canReadRule :: "ControlService \<Rightarrow> InternalIdentity \<Rightarrow> RuleRecord \<Rightarrow> bool" where
  "canReadRule service identity rule =
     (if \<not> canUseNodeGroup (svc_authorizer service) identity (bi_NodeGroupID (rule_Binding rule)) then False
      else hasPermission service identity ''rules.read_all'' \<or> hasPermission service identity ''rules.manage_all'' \<or>
           ((hasPermission service identity ''rules.read_own'' \<or> hasPermission service identity ''rules.manage_own'') \<and>
            rule_OwnerUserID rule = id_UserID identity))"

definition canManageRule :: "ControlService \<Rightarrow> InternalIdentity \<Rightarrow> RuleRecord \<Rightarrow> bool" where
  "canManageRule service identity rule =
     (if \<not> canUseNodeGroup (svc_authorizer service) identity (bi_NodeGroupID (rule_Binding rule)) then False
      else hasPermission service identity ''rules.manage_all'' \<or>
           (hasPermission service identity ''rules.manage_own'' \<and> rule_OwnerUserID rule = id_UserID identity))"

definition canReadRuleDeploymentNodes :: "ControlService \<Rightarrow> InternalIdentity \<Rightarrow> string \<Rightarrow> bool" where
  "canReadRuleDeploymentNodes service identity nodeGroupID =
     (if \<not> canUseNodeGroup (svc_authorizer service) identity nodeGroupID then False
      else hasPermission service identity ''nodes.read'' \<or> hasPermission service identity ''nodes.manage'')"

subsection \<open>Answers\<close>

text \<open>The answer carries the rule's own fields with their defaults, the port segments, the public descriptions of the
  nodes and the deployment status.\<close>

record RulePayload =
  rp_Rule :: RuleRecord
  rp_PortSegments :: "InboundBindingPortSegmentRecord list"
  rp_NodeDescriptions :: "string list"
  rp_Deployment :: RuleDeploymentPayload

definition toRulePayloadWithDeploymentDetails ::
    "RuleRecord \<Rightarrow> NodeRecord list \<Rightarrow> RuleDeploymentRecord list \<Rightarrow> bool \<Rightarrow> RulePayload" where
  "toRulePayloadWithDeploymentDetails rule nodes deployments includeDeploymentNodeDetails =
     \<lparr>rp_Rule = rule\<lparr>rule_FailurePolicy := defaultFailurePolicy (rule_FailurePolicy rule),
        rule_DataplanePreference := defaultDataplanePreference (rule_DataplanePreference rule),
        rule_ForwardingType := defaultForwardingType (rule_ForwardingType rule)\<rparr>,
      rp_PortSegments = rulePortSegments (rule_Binding rule),
      rp_NodeDescriptions = sort (filter (\<lambda>d. TrimSpace d \<noteq> []) (map nd_PublicDescription nodes)),
      rp_Deployment = ruleDeploymentPayload rule nodes deployments includeDeploymentNodeDetails\<rparr>"

definition toRulePayloadForIdentity ::
    "ControlService \<Rightarrow> InternalIdentity \<Rightarrow> RuleRecord \<Rightarrow> 'z control_db_scheme \<Rightarrow> RulePayload" where
  "toRulePayloadForIdentity service identity rule db =
     toRulePayloadWithDeploymentDetails rule (nodesInGroup db (bi_NodeGroupID (rule_Binding rule))) (db_Deployments db)
       (canReadRuleDeploymentNodes service identity (bi_NodeGroupID (rule_Binding rule)))"

text \<open>The end of every operation that returns a rule: it is read again and the answer is built.\<close>

definition answerRule ::
    "ControlService \<Rightarrow> InternalIdentity \<Rightarrow> string \<Rightarrow> string \<Rightarrow> 'z control_db_scheme \<Rightarrow> (RulePayload \<times> 'z control_db_scheme) result" where
  "answerRule service identity ruleID action db =
     bind_result (FindRuleByID db ruleID) (\<lambda>rule.
     Inr (toRulePayloadForIdentity service identity rule db,
          writeAudit identity action ''FORWARDING_RULE'' (rule_ID rule) db))"

subsection \<open>CreateRule\<close>

definition newRule :: "ControlService \<Rightarrow> InternalIdentity \<Rightarrow> string \<Rightarrow> RuleMutationInput \<Rightarrow> bool \<Rightarrow> RuleRecord" where
  "newRule service identity ruleID input enabled =
     (let binding = inboundBindingForRule (svc_newHash service) (svc_organizationID service) input in
      \<lparr>rule_ID = ruleID, rule_OwnerUserID = id_UserID identity, rule_Name = in_Name input, rule_Enabled = enabled,
       rule_Status = (if enabled then ''ENABLED'' else ''DISABLED''), rule_ForwardingType = in_ForwardingType input,
       rule_Protocol = in_Protocol input, rule_MatchType = mi_Type (in_Match input), rule_InboundBindingID = bi_ID binding,
       rule_SNIHostname = mi_SNIHostname (in_Match input), rule_TargetType = ui_Type (in_Upstream input),
       rule_TargetID = ui_TargetID (in_Upstream input), rule_TargetGroupID = ui_TargetGroupID (in_Upstream input),
       rule_ProxyProtocolIn = defaultProxyProtocol (ppi_In (in_ProxyProtocol input)),
       rule_ProxyProtocolOut = defaultProxyProtocol (ppi_Out (in_ProxyProtocol input)),
       rule_FailurePolicy = defaultFailurePolicy (in_FailurePolicy input),
       rule_DataplanePreference = defaultDataplanePreference (in_DataplanePreference input),
       rule_SendIP = in_SendIP input, rule_ConfigVersion = 0, rule_Binding = binding, rule_Tags = []\<rparr>)"

definition normalizedMutation :: "RuleMutationInput \<Rightarrow> RuleMutationInput result" where
  "normalizedMutation input =
     bind_result (validateRuleMutationInput input) (\<lambda>input.
     bind_result (normalizeDataplanePreferenceForMutation (in_DataplanePreference input)) (\<lambda>dataplanePreference.
     Inr (input\<lparr>in_DataplanePreference := dataplanePreference\<rparr>)))"

definition CreateRule ::
    "ControlService \<Rightarrow> InternalIdentity \<Rightarrow> string \<Rightarrow> RuleMutationInput \<Rightarrow> 'z control_db_scheme \<Rightarrow> (RulePayload \<times> 'z control_db_scheme) result" where
  "CreateRule service identity newID input db =
     bind_result (fail_if (\<not> hasPermission service identity ''rules.manage_own'' \<and>
                           \<not> hasPermission service identity ''rules.manage_all'') SErrForbidden) (\<lambda>_.
     bind_result (normalizedMutation input) (\<lambda>input.
     bind_result (prepareRuleMutation (svc_authorizer service) db identity [] input (in_Enabled input)) (\<lambda>_.
     bind_result (ensureRuleLimitAvailable db (id_UserID identity) 1) (\<lambda>_.
     let rule = newRule service identity newID input (in_Enabled input);
         binding = rule_Binding rule in
     bind_result (store_CreateRule rule binding (in_Tags input) db) (\<lambda>db.
     let db = (if in_Enabled input
               then syncRuleDeploymentPending rule (bumpDesiredConfigForNodeGroup (bi_NodeGroupID binding) db) else db) in
     answerRule service identity newID ''rules.create'' db)))))"

subsection \<open>UpdateRule\<close>

definition updatedRule :: "ControlService \<Rightarrow> RuleRecord \<Rightarrow> RuleMutationInput \<Rightarrow> RuleRecord" where
  "updatedRule service rule input =
     rule\<lparr>rule_Name := in_Name input, rule_Tags := in_Tags input, rule_Enabled := in_Enabled input,
       rule_Status := (if in_Enabled input then ''ENABLED'' else ''DISABLED''), rule_ForwardingType := in_ForwardingType input,
       rule_Protocol := in_Protocol input, rule_MatchType := mi_Type (in_Match input),
       rule_SNIHostname := mi_SNIHostname (in_Match input), rule_TargetType := ui_Type (in_Upstream input),
       rule_TargetID := ui_TargetID (in_Upstream input), rule_TargetGroupID := ui_TargetGroupID (in_Upstream input),
       rule_ProxyProtocolIn := defaultProxyProtocol (ppi_In (in_ProxyProtocol input)),
       rule_ProxyProtocolOut := defaultProxyProtocol (ppi_Out (in_ProxyProtocol input)),
       rule_FailurePolicy := defaultFailurePolicy (in_FailurePolicy input),
       rule_DataplanePreference := defaultDataplanePreference (in_DataplanePreference input),
       rule_SendIP := in_SendIP input, rule_ConfigVersion := rule_ConfigVersion rule + 1,
       rule_Binding := inboundBindingForRule (svc_newHash service) (svc_organizationID service) input\<rparr>"

text \<open>A request that does not set \<open>enabled\<close> keeps the rule as it is.\<close>

definition keepEnabled :: "RuleRecord \<Rightarrow> RuleMutationInput \<Rightarrow> RuleMutationInput" where
  "keepEnabled rule input = (if \<not> in_EnabledSet input then input\<lparr>in_Enabled := rule_Enabled rule\<rparr> else input)"

definition UpdateRule ::
    "ControlService \<Rightarrow> InternalIdentity \<Rightarrow> string \<Rightarrow> RuleMutationInput \<Rightarrow> 'z control_db_scheme \<Rightarrow> (RulePayload \<times> 'z control_db_scheme) result" where
  "UpdateRule service identity ruleID input db =
     bind_result (normalizedMutation input) (\<lambda>input.
     bind_result (FindRuleByID db ruleID) (\<lambda>rule.
     bind_result (fail_if (\<not> canManageRule service identity rule) SErrForbidden) (\<lambda>_.
     let input = keepEnabled rule input;
         oldNodeGroupID = bi_NodeGroupID (rule_Binding rule) in
     bind_result (prepareRuleMutation (svc_authorizer service) db identity (rule_ID rule) input (in_Enabled input)) (\<lambda>_.
     let rule = updatedRule service rule input;
         binding = rule_Binding rule in
     bind_result (store_UpdateRule rule binding (in_Tags input) db) (\<lambda>db.
     let db = bumpDesiredConfigForNodeGroup oldNodeGroupID db;
         db = (if bi_NodeGroupID binding \<noteq> oldNodeGroupID then bumpDesiredConfigForNodeGroup (bi_NodeGroupID binding) db else db);
         db = syncRuleDeploymentPending rule db in
     answerRule service identity (rule_ID rule) ''rules.update'' db)))))"

subsection \<open>DeleteRule, EnableRule, DisableRule\<close>

definition DeleteRule :: "ControlService \<Rightarrow> InternalIdentity \<Rightarrow> string \<Rightarrow> 'z control_db_scheme \<Rightarrow> 'z control_db_scheme result" where
  "DeleteRule service identity ruleID db =
     bind_result (FindRuleByID db ruleID) (\<lambda>rule.
     bind_result (fail_if (\<not> canManageRule service identity rule) SErrForbidden) (\<lambda>_.
     bind_result (store_DeleteRule ruleID db) (\<lambda>db.
     Inr (writeAudit identity ''rules.delete'' ''FORWARDING_RULE'' ruleID
       (bumpDesiredConfigForNodeGroup (bi_NodeGroupID (rule_Binding rule)) (DeleteRuleDeployments ruleID db))))))"

definition setRuleEnabled ::
    "ControlService \<Rightarrow> InternalIdentity \<Rightarrow> string \<Rightarrow> bool \<Rightarrow> 'z control_db_scheme \<Rightarrow> (RulePayload \<times> 'z control_db_scheme) result" where
  "setRuleEnabled service identity ruleID enabled db =
     bind_result (FindRuleByID db ruleID) (\<lambda>rule.
     bind_result (fail_if (\<not> canManageRule service identity rule) SErrForbidden) (\<lambda>_.
     bind_result (if enabled
       then prepareRuleMutation (svc_authorizer service) db identity (rule_ID rule) (inputFromRule rule) True
       else Inr ()) (\<lambda>_.
     let rule = rule\<lparr>rule_Enabled := enabled, rule_Status := (if enabled then ''ENABLED'' else ''DISABLED''),
                     rule_ConfigVersion := rule_ConfigVersion rule + 1\<rparr> in
     bind_result (store_UpdateRule rule (rule_Binding rule) (rule_Tags rule) db) (\<lambda>db.
     let db = syncRuleDeploymentPending rule (bumpDesiredConfigForNodeGroup (bi_NodeGroupID (rule_Binding rule)) db) in
     answerRule service identity (rule_ID rule) ''rules.status'' db))))"

definition EnableRule where "EnableRule service identity ruleID db = setRuleEnabled service identity ruleID True db"

definition DisableRule where "DisableRule service identity ruleID db = setRuleEnabled service identity ruleID False db"

subsection \<open>CopyRule\<close>

text \<open>
  The prefix that fits is cut before the first rune that does not; \<open>string(currentRune)\<close> of a byte that is no rune is
  U+FFFD, three bytes. \<open>None\<close> when the whole text fits.
\<close>

function copyNameLoop :: "nat \<Rightarrow> nat \<Rightarrow> string \<Rightarrow> string option" where
  "copyNameLoop limit prefixBytes s =
     (if s = [] then None
      else
        (let runeBytes = (if rune_width s = 0 then 3 else rune_width s); w = max 1 (rune_width s) in
         if prefixBytes + runeBytes > limit then Some []
         else map_option (\<lambda>p. take w s @ p) (copyNameLoop limit (prefixBytes + runeBytes) (drop w s))))"
  by pat_completeness auto
termination
  by (relation "measure (\<lambda>(limit, p, s). length s)") auto

definition defaultRuleCopyName :: "string \<Rightarrow> string" where
  "defaultRuleCopyName sourceName =
     (if length sourceName + length '' copy'' \<le> 120 then sourceName @ '' copy''
      else case copyNameLoop (120 - length '' copy'') 0 sourceName of
             None \<Rightarrow> sourceName @ '' copy''
           | Some prefix \<Rightarrow> prefix @ '' copy'')"

definition CopyRule ::
    "ControlService \<Rightarrow> InternalIdentity \<Rightarrow> string \<Rightarrow> string \<Rightarrow> RuleCopyInput \<Rightarrow> 'z control_db_scheme \<Rightarrow> (RulePayload \<times> 'z control_db_scheme) result" where
  "CopyRule service identity newID ruleID input db =
     bind_result (FindRuleByID db ruleID) (\<lambda>source.
     bind_result (fail_if (\<not> canManageRule service identity source) SErrForbidden) (\<lambda>_.
     bind_result (prepareRuleMutation (svc_authorizer service) db identity (rule_ID source) (inputFromRule source) False) (\<lambda>_.
     bind_result (ensureRuleLimitAvailable db (rule_OwnerUserID source) 1) (\<lambda>_.
     let name = TrimSpace (cpi_Name input);
         name = (if name = [] then defaultRuleCopyName (rule_Name source) else name);
         tags = (if \<not> cpi_TagsSet input then rule_Tags source else cpi_Tags input);
         copied = source\<lparr>rule_ID := newID, rule_Name := name, rule_Enabled := False, rule_Status := ''DISABLED'',
           rule_ForwardingType := defaultForwardingType (rule_ForwardingType source),
           rule_FailurePolicy := defaultFailurePolicy (rule_FailurePolicy source),
           rule_DataplanePreference := defaultDataplanePreference (rule_DataplanePreference source),
           rule_ConfigVersion := 0\<rparr> in
     bind_result (store_CreateRule copied (rule_Binding source) tags db) (\<lambda>db.
     answerRule service identity newID ''rules.copy'' db)))))"

subsection \<open>BatchRules\<close>

record RuleBatchItemResult =
  bir_RuleID :: string
  bir_Error :: "service_error option"

fun batchIDs :: "string list \<Rightarrow> string list \<Rightarrow> string list" where
  "batchIDs seen [] = []"
| "batchIDs seen (ruleID # ruleIDs) =
     (let ruleID = TrimSpace ruleID in
      if ruleID = [] \<or> List.member seen ruleID then batchIDs seen ruleIDs else ruleID # batchIDs (ruleID # seen) ruleIDs)"

definition batchStep :: "ControlService \<Rightarrow> InternalIdentity \<Rightarrow> string \<Rightarrow> string \<Rightarrow> 'z control_db_scheme \<Rightarrow> 'z control_db_scheme result" where
  "batchStep service identity action ruleID db =
     (if action = ''ENABLE'' then bind_result (EnableRule service identity ruleID db) (\<lambda>(_, db). Inr db)
      else if action = ''DISABLE'' then bind_result (DisableRule service identity ruleID db) (\<lambda>(_, db). Inr db)
      else DeleteRule service identity ruleID db)"

text \<open>Every rule is its own transaction: a failure is recorded and the loop goes on.\<close>

fun batchLoop ::
    "ControlService \<Rightarrow> InternalIdentity \<Rightarrow> string \<Rightarrow> string list \<Rightarrow> 'z control_db_scheme \<Rightarrow> RuleBatchItemResult list \<times> 'z control_db_scheme" where
  "batchLoop service identity action [] db = ([], db)"
| "batchLoop service identity action (ruleID # ruleIDs) db =
     (let (item, db) = (case batchStep service identity action ruleID db of
            Inl e \<Rightarrow> (\<lparr>bir_RuleID = ruleID, bir_Error = Some e\<rparr>, db)
          | Inr db' \<Rightarrow> (\<lparr>bir_RuleID = ruleID, bir_Error = None\<rparr>, db'));
          (items, db) = batchLoop service identity action ruleIDs db
      in (item # items, db))"

definition BatchRules ::
    "ControlService \<Rightarrow> InternalIdentity \<Rightarrow> string \<Rightarrow> string list \<Rightarrow> 'z control_db_scheme \<Rightarrow>
     (RuleBatchItemResult list \<times> 'z control_db_scheme) result" where
  "BatchRules service identity action ruleIDs db =
     bind_result (fail_if (\<not> hasPermission service identity ''rules.manage_own'' \<and>
                           \<not> hasPermission service identity ''rules.manage_all'') SErrForbidden) (\<lambda>_.
     let action = ToUpper (TrimSpace action) in
     bind_result (fail_if (action \<noteq> ''ENABLE'' \<and> action \<noteq> ''DISABLE'' \<and> action \<noteq> ''DELETE'') SErrInvalidInput) (\<lambda>_.
     let ruleIDs = batchIDs [] ruleIDs in
     bind_result (fail_if (ruleIDs = []) SErrInvalidInput) (\<lambda>_.
     Inr (batchLoop service identity action ruleIDs db))))"

subsection \<open>Failure policies\<close>

definition allCurrentRuleNodesFailed :: "RuleRecord \<Rightarrow> NodeRecord list \<Rightarrow> RuleDeploymentRecord list \<Rightarrow> bool" where
  "allCurrentRuleNodesFailed rule nodes deployments =
     list_all (\<lambda>node. case deploymentFor rule deployments (nd_ID node) of
         None \<Rightarrow> False
       | Some d \<Rightarrow> dep_ConfigVersion d = nd_DesiredConfigVersion node \<and> dep_RuleConfigVersion d = rule_ConfigVersion rule \<and>
                   dep_Status d = ''FAILED'') nodes"

text \<open>The user of the audit entry is empty; \<open>deployments\<close> is the list read before the loop.\<close>

fun failurePolicyLoop ::
    "RuleDeploymentRecord list \<Rightarrow> string list \<Rightarrow> string list \<Rightarrow> 'z control_db_scheme \<Rightarrow> 'z control_db_scheme result" where
  "failurePolicyLoop deployments seen [] db = Inr db"
| "failurePolicyLoop deployments seen (ruleID # ruleIDs) db =
     (let ruleID = TrimSpace ruleID in
      if ruleID = [] \<or> List.member seen ruleID then failurePolicyLoop deployments seen ruleIDs db
      else
        bind_result (FindRuleByID db ruleID) (\<lambda>rule.
        if \<not> rule_Enabled rule \<or> defaultFailurePolicy (rule_FailurePolicy rule) \<noteq> ''DISABLE_WHEN_ALL_NODES_FAILED''
        then failurePolicyLoop deployments (ruleID # seen) ruleIDs db
        else
          (let nodes = nodesInGroup db (bi_NodeGroupID (rule_Binding rule)) in
           if nodes = [] \<or> \<not> allCurrentRuleNodesFailed rule nodes deployments
           then failurePolicyLoop deployments (ruleID # seen) ruleIDs db
           else
             (let rule = rule\<lparr>rule_Enabled := False, rule_Status := ''DISABLED'',
                    rule_ConfigVersion := rule_ConfigVersion rule + 1\<rparr> in
              bind_result (store_UpdateRule rule (rule_Binding rule) (rule_Tags rule) db) (\<lambda>db.
              failurePolicyLoop deployments (ruleID # seen) ruleIDs
                (writeAudit \<lparr>id_UserID = [], id_Permissions = []\<rparr> ''rules.auto_disable_deploy_failure'' ''FORWARDING_RULE''
                  (rule_ID rule) (bumpDesiredConfigForNodeGroup (bi_NodeGroupID (rule_Binding rule)) db)))))))"

definition applyRuleFailurePolicies :: "string list \<Rightarrow> 'z control_db_scheme \<Rightarrow> 'z control_db_scheme result" where
  "applyRuleFailurePolicies failedRuleIDs db =
     (if failedRuleIDs = [] then Inr db else failurePolicyLoop (db_Deployments db) [] failedRuleIDs db)"

end
