(* ===== verification/Rule_Invariant.thy ===== *)
theory Rule_Invariant
  imports Rule_Service
begin

text \<open>
  The invariant of the rule tables: every enabled rule has a node and is served by every node of its group, and no two enabled
  rules claim the same connection on a node. It is stated node by node, and every operation on rules keeps it.
\<close>

subsection \<open>The invariant\<close>

definition runs_on :: "NodeRecord \<Rightarrow> RuleRecord \<Rightarrow> bool" where
  "runs_on n r \<longleftrightarrow> bi_NodeGroupID (rule_Binding r) \<in> set (nd_GroupIDs n)"

definition serves :: "NodeRecord \<Rightarrow> RuleRecord \<Rightarrow> bool" where
  "serves n r \<longleftrightarrow>
     hasListenIP n (bi_ListenIP (rule_Binding r)) \<and>
     nodeCoversPortSegments n (rule_Protocol r) (rulePortSegments (rule_Binding r)) \<and>
     expandedPortCount (rulePortSegments (rule_Binding r)) \<le> defaultMaxRulePorts (nd_MaxRulePorts n) \<and>
     (TrimSpace (rule_SendIP r) = [] \<or> (\<exists>c \<in> set (nd_SendIPs n). nsi_Enabled c \<and> nsi_SendIP c = rule_SendIP r))"

definition live :: "RuleRecord \<Rightarrow> bool" where
  "live r \<longleftrightarrow> rule_Enabled r \<and> rule_Status r = ''ENABLED''"

definition well_placed :: "NodeRecord set \<Rightarrow> RuleRecord \<Rightarrow> bool" where
  "well_placed nodes r \<longleftrightarrow>
     (\<exists>n \<in> nodes. runs_on n r) \<and> (\<forall>n \<in> nodes. runs_on n r \<longrightarrow> serves n r) \<and>
     (\<forall>n. \<forall>b \<in> set (ruleBindings [n] r). ValidateInboundBindingConflict [] b = None)"

definition apart :: "NodeRecord set \<Rightarrow> RuleRecord \<Rightarrow> RuleRecord \<Rightarrow> bool" where
  "apart nodes r s \<longleftrightarrow>
     (\<forall>n \<in> nodes. runs_on n r \<and> runs_on n s \<longrightarrow>
        (\<forall>b \<in> set (ruleBindings [n] r). \<forall>c \<in> set (ruleBindings [n] s). compatible b c))"

definition rules_ok :: "RuleRecord set \<Rightarrow> NodeRecord set \<Rightarrow> bool" where
  "rules_ok rules nodes \<longleftrightarrow>
     (\<forall>r \<in> rules. live r \<longrightarrow> well_placed nodes r) \<and>
     (\<forall>r \<in> rules. \<forall>s \<in> rules. live r \<longrightarrow> live s \<longrightarrow> rule_ID r \<noteq> rule_ID s \<longrightarrow> apart nodes r s)"

text \<open>What the operations keep of a single row.\<close>

definition record_ok :: "RuleRecord \<Rightarrow> bool" where
  "record_ok r \<longleftrightarrow>
     rule_ID r \<noteq> [] \<and> (rule_Enabled r \<longleftrightarrow> rule_Status r = ''ENABLED'') \<and> rule_ProxyProtocolIn r \<noteq> [] \<and>
     bi_PortSegments (rule_Binding r) \<noteq> [] \<and> storedBinding (rule_Binding r) = rule_Binding r"

definition db_ok :: "'z control_db_scheme \<Rightarrow> bool" where
  "db_ok db \<longleftrightarrow>
     distinct (map rule_ID (db_Rules db)) \<and> distinct (map nd_ID (db_Nodes db)) \<and>
     (\<forall>r \<in> set (db_Rules db). record_ok r) \<and> rules_ok (set (db_Rules db)) (set (db_Nodes db))"

subsection \<open>Bindings node by node\<close>

lemma set_nodesInGroup: "set (nodesInGroup db g) = {n \<in> set (db_Nodes db). g \<in> set (nd_GroupIDs n)}"
  by (auto simp: nodesInGroup_def ListNodesByOrganization_def)

lemma set_nodesInGroupFromSet: "set (nodesInGroupFromSet nodes g) = {n \<in> set nodes. g \<in> set (nd_GroupIDs n)}"
  by (auto simp: nodesInGroupFromSet_def)

lemma set_ListEnabled: "set (ListEnabledInboundBindings db) = {r \<in> set (db_Rules db). live r}"
  by (auto simp: ListEnabledInboundBindings_def ListRulesByOrganization_def live_def)

lemma bindings_by_node:
  "set (ruleBindings nodes r) = (\<Union>n \<in> set nodes. set (ruleBindings [n] r))"
  "set (inputBindings nodes i k) = (\<Union>n \<in> set nodes. set (inputBindings [n] i k))"
  by (auto simp: ruleBindings_def inputBindings_def bindingsForNodes_def)

text \<open>The check against no binding does not look at the node.\<close>

lemma Validate_node: "ValidateInboundBindingConflict [] (b\<lparr>ib_NodeID := x\<rparr>) = ValidateInboundBindingConflict [] b"
  by (simp add: ValidateInboundBindingConflict_def)

lemma Validate_shape: "ValidateInboundBindingConflict t b = None \<Longrightarrow> ValidateInboundBindingConflict [] b = None"
  by (simp add: ValidateInboundBindingConflict_def split: if_splits)

lemma ruleBindings_node:
  "set (ruleBindings [m] r) = (\<lambda>b. b\<lparr>ib_NodeID := nd_ID m\<rparr>) ` set (ruleBindings [n] r)"
  "set (inputBindings [m] i k) = (\<lambda>b. b\<lparr>ib_NodeID := nd_ID m\<rparr>) ` set (inputBindings [n] i k)"
  by (auto simp: ruleBindings_def inputBindings_def bindingsForNodes_def image_iff)

lemma shape_any_node:
  assumes "\<forall>b \<in> set (ruleBindings [n] r). ValidateInboundBindingConflict [] b = None"
  shows "\<forall>b \<in> set (ruleBindings [m] r). ValidateInboundBindingConflict [] b = None"
  using assms unfolding ruleBindings_node(1) [of m r n] by (auto simp: Validate_node)

lemma checkBindings_Inr:
  "checkBindings existing candidates = Inr () \<longleftrightarrow>
   (\<forall>c \<in> set candidates. ValidateInboundBindingConflict existing c = None)"
  by (simp add: checkBindings_def)

lemma apart_sym: "apart nodes r s = apart nodes s r"
  unfolding apart_def using compatible_sym by metis

lemma nodesCover_iff:
  "nodesCoverListenIPAndPortSegments nodes ip p segs \<longleftrightarrow>
   nodes \<noteq> [] \<and> (\<forall>n \<in> set nodes. hasListenIP n ip \<and> nodeCoversPortSegments n p segs \<and>
     expandedPortCount segs \<le> defaultMaxRulePorts (nd_MaxRulePorts n))"
  by (simp add: nodesCoverListenIPAndPortSegments_def list_all_iff)

lemma nodesShareSendIP_iff:
  "nodes \<noteq> [] \<Longrightarrow> nodesShareSendIP nodes ip \<longleftrightarrow>
   (TrimSpace ip = [] \<or> (\<forall>n \<in> set nodes. \<exists>c \<in> set (nd_SendIPs n). nsi_Enabled c \<and> nsi_SendIP c = ip))"
  by (simp add: nodesShareSendIP_def list_all_iff list_ex_iff)

subsection \<open>Changing the nodes\<close>

lemma validateRulesLoop_ok:
  assumes "validateRulesLoop nodes seen rules = Inr ()"
  shows "(\<forall>r \<in> set rules. well_placed (set nodes) r) \<and> sorted_wrt (apart (set nodes)) rules \<and>
    (\<forall>r \<in> set rules. \<forall>c \<in> set (ruleBindings (nodesInGroupFromSet nodes (bi_NodeGroupID (rule_Binding r))) r).
       \<forall>b \<in> set seen. compatible b c)"
  using assms
proof (induction rules arbitrary: seen)
  case (Cons r rules)
  let ?g = "\<lambda>r. nodesInGroupFromSet nodes (bi_NodeGroupID (rule_Binding r))"
  have cover: "nodesCoverListenIPAndPortSegments (?g r) (bi_ListenIP (rule_Binding r)) (rule_Protocol r) (rulePortSegments (rule_Binding r))"
    and send: "nodesShareSendIP (?g r) (rule_SendIP r)"
    and check: "\<forall>c \<in> set (ruleBindings (?g r) r). ValidateInboundBindingConflict seen c = None"
    and rest: "validateRulesLoop nodes (seen @ ruleBindings (?g r) r) rules = Inr ()"
    using Cons.prems by (auto simp: Let_def checkBindings_Inr split: if_splits)
  note IH = Cons.IH [OF rest]
  from cover have ne: "?g r \<noteq> []" by (simp add: nodesCover_iff)
  then obtain n where n: "n \<in> set (?g r)" by fastforce
  have "\<forall>b \<in> set (ruleBindings [n] r). ValidateInboundBindingConflict [] b = None"
    using check n by (force simp: bindings_by_node(1) [of "?g r"] intro: Validate_shape)
  moreover have "\<forall>m \<in> set nodes. runs_on m r \<longrightarrow> serves m r"
    using cover send by (auto simp: nodesCover_iff nodesShareSendIP_iff [OF ne] serves_def runs_on_def set_nodesInGroupFromSet)
  ultimately have placed: "well_placed (set nodes) r"
    using n shape_any_node by (fastforce simp: well_placed_def runs_on_def set_nodesInGroupFromSet)
  have "apart (set nodes) r s" if "s \<in> set rules" for s
    unfolding apart_def
  proof (intro ballI impI, elim conjE)
    fix m b c assume m: "m \<in> set nodes" "runs_on m r" "runs_on m s" and "b \<in> set (ruleBindings [m] r)" "c \<in> set (ruleBindings [m] s)"
    then have "b \<in> set (ruleBindings (?g r) r)" "c \<in> set (ruleBindings (?g s) s)"
      by (auto simp: bindings_by_node(1) [of "?g r"] bindings_by_node(1) [of "?g s"] runs_on_def set_nodesInGroupFromSet)
    then show "compatible b c" using IH that by auto
  qed
  then show ?case using placed IH check by (auto intro: Validate_compatible)
qed simp

lemma sorted_wrt_sym_pairs:
  "sorted_wrt P xs \<Longrightarrow> (\<And>x y. P x y = P y x) \<Longrightarrow> x \<in> set xs \<Longrightarrow> y \<in> set xs \<Longrightarrow> x \<noteq> y \<Longrightarrow> P x y"
  by (induction xs) auto

lemma validateEnabledRules_ok:
  assumes "validateEnabledRulesForNodeSet db nodes = Inr ()"
  shows "rules_ok (set (db_Rules db)) (set nodes)"
proof -
  note ok = validateRulesLoop_ok [OF assms [unfolded validateEnabledRulesForNodeSet_def]]
  have "apart (set nodes) r s" if "r \<in> set (ListEnabledInboundBindings db)" "s \<in> set (ListEnabledInboundBindings db)" "rule_ID r \<noteq> rule_ID s" for r s
    using sorted_wrt_sym_pairs [of "apart (set nodes)"] ok apart_sym that by blast
  with ok show ?thesis by (auto simp: rules_ok_def set_ListEnabled)
qed

subsection \<open>Entering a rule\<close>

text \<open>A stored rule realises an input when its listeners are the ones the input asks for.\<close>

definition realizes :: "RuleRecord \<Rightarrow> RuleMutationInput \<Rightarrow> bool" where
  "realizes r i \<longleftrightarrow>
     bi_NodeGroupID (rule_Binding r) = in_NodeGroupID i \<and> bi_ListenIP (rule_Binding r) = in_ListenIP i \<and>
     rule_Protocol r = in_Protocol i \<and> rule_MatchType r = mi_Type (in_Match i) \<and> rule_SNIHostname r = mi_SNIHostname (in_Match i) \<and>
     rule_ProxyProtocolIn r = defaultProxyProtocol (ppi_In (in_ProxyProtocol i)) \<and> rule_SendIP r = in_SendIP i \<and>
     mset (rulePortSegments (rule_Binding r)) = mset (toInboundBindingPortSegments (in_PortSegments i))"

lemma realizes_bindings:
  assumes "realizes r i"
  shows "set (ruleBindings [n] r) = (\<lambda>b. b\<lparr>ib_ForwardRule := rule_ID r\<rparr>) ` set (inputBindings [n] i k)"
proof -
  have "set (rulePortSegments (rule_Binding r)) = set (toInboundBindingPortSegments (in_PortSegments i))"
    using assms by (auto simp: realizes_def dest: mset_eq_setD)
  then show ?thesis
    using assms by (simp add: realizes_def ruleBindings_def inputBindings_def bindingsForNodes_def image_image)
qed

lemma normalizedBindingPorts_ForwardRule [simp]: "normalizedBindingPorts (b\<lparr>ib_ForwardRule := x\<rparr>) = normalizedBindingPorts b"
  by (simp add: normalizedBindingPorts_def Let_def)

lemma compatible_ForwardRule [simp]:
  "compatible (b\<lparr>ib_ForwardRule := x\<rparr>) c = compatible b c" "compatible b (c\<lparr>ib_ForwardRule := x\<rparr>) = compatible b c"
  by (simp_all add: compatible_def sameEndpoint_def portRangesOverlap_def)

lemma Validate_ForwardRule [simp]:
  "ValidateInboundBindingConflict [] (b\<lparr>ib_ForwardRule := x\<rparr>) = ValidateInboundBindingConflict [] b"
  by (simp add: ValidateInboundBindingConflict_def)

lemma expandedPortCount_mset: "mset xs = mset ys \<Longrightarrow> expandedPortCount xs = expandedPortCount ys"
  by (simp add: expandedPortCount_def sum_mset_sum_list [symmetric] mset_map del: sum_mset_sum_list)

lemma nodeCoversPortSegments_set: "set xs = set ys \<Longrightarrow> nodeCoversPortSegments n p xs = nodeCoversPortSegments n p ys"
  by (simp add: nodeCoversPortSegments_def list_all_iff)

lemma prepare_facts:
  assumes "prepareRuleMutation auth db ident k i occ = Inr ()"
  shows "\<forall>b \<in> set (inputBindings [shapeCheckNode] i k). ValidateInboundBindingConflict [] b = None"
    and "in_PortSegments i \<noteq> []"
    and "nodesCoverListenIPAndPortSegments (nodesInGroup db (in_NodeGroupID i)) (in_ListenIP i) (in_Protocol i)
           (toInboundBindingPortSegments (in_PortSegments i))"
    and "nodesShareSendIP (nodesInGroup db (in_NodeGroupID i)) (in_SendIP i)"
    and "occ \<Longrightarrow> ensureNoRuleConflicts db (ListEnabledInboundBindings db) k i (nodesInGroup db (in_NodeGroupID i)) = Inr ()"
proof -
  have shape: "validateRuleBindingShape i k = Inr ()"
    and cover: "nodesCoverListenIPAndPortSegments (nodesInGroup db (in_NodeGroupID i)) (in_ListenIP i) (in_Protocol i)
           (toInboundBindingPortSegments (in_PortSegments i))"
    and send: "nodesShareSendIP (nodesInGroup db (in_NodeGroupID i)) (in_SendIP i)"
    and conf: "(if occ then ensureNoRuleConflicts db (ListEnabledInboundBindings db) k i (nodesInGroup db (in_NodeGroupID i)) else Inr ()) = Inr ()"
    using assms by (auto simp: prepareRuleMutation_def Let_def)
  show "\<forall>b \<in> set (inputBindings [shapeCheckNode] i k). ValidateInboundBindingConflict [] b = None" "in_PortSegments i \<noteq> []"
    using shape by (auto simp: validateRuleBindingShape_def Let_def checkBindings_Inr inputBindings_def bindingsForNodes_def
        toInboundBindingPortSegments_def split: if_splits)
  show "nodesCoverListenIPAndPortSegments (nodesInGroup db (in_NodeGroupID i)) (in_ListenIP i) (in_Protocol i)
           (toInboundBindingPortSegments (in_PortSegments i))"
    "nodesShareSendIP (nodesInGroup db (in_NodeGroupID i)) (in_SendIP i)"
    "occ \<Longrightarrow> ensureNoRuleConflicts db (ListEnabledInboundBindings db) k i (nodesInGroup db (in_NodeGroupID i)) = Inr ()"
    using cover send conf by auto
qed

lemma prepare_placed:
  assumes prep: "prepareRuleMutation auth db ident k i occ = Inr ()" and real: "realizes r i"
  shows "well_placed (set (db_Nodes db)) r"
proof -
  note f = prepare_facts [OF prep]
  have ne: "nodesInGroup db (in_NodeGroupID i) \<noteq> []" using f(3) by (simp add: nodesCover_iff)
  then have "set (nodesInGroup db (in_NodeGroupID i)) \<noteq> {}" by simp
  then obtain n where n: "n \<in> set (db_Nodes db)" "in_NodeGroupID i \<in> set (nd_GroupIDs n)"
    unfolding set_nodesInGroup by blast
  have segs: "mset (rulePortSegments (rule_Binding r)) = mset (toInboundBindingPortSegments (in_PortSegments i))"
    using real by (simp add: realizes_def)
  have "serves m r" if "m \<in> set (db_Nodes db)" "runs_on m r" for m
  proof -
    have "m \<in> set (nodesInGroup db (in_NodeGroupID i))"
      using that real by (simp add: runs_on_def realizes_def set_nodesInGroup)
    then have "hasListenIP m (in_ListenIP i)" "nodeCoversPortSegments m (in_Protocol i) (toInboundBindingPortSegments (in_PortSegments i))"
      "expandedPortCount (toInboundBindingPortSegments (in_PortSegments i)) \<le> defaultMaxRulePorts (nd_MaxRulePorts m)"
      "TrimSpace (in_SendIP i) = [] \<or> (\<exists>c \<in> set (nd_SendIPs m). nsi_Enabled c \<and> nsi_SendIP c = in_SendIP i)"
      using f(3,4) by (auto simp: nodesCover_iff nodesShareSendIP_iff [OF ne])
    then show ?thesis
      using real nodeCoversPortSegments_set [OF mset_eq_setD [OF segs]] expandedPortCount_mset [OF segs]
      by (simp add: serves_def realizes_def)
  qed
  moreover have "\<forall>b \<in> set (ruleBindings [shapeCheckNode] r). ValidateInboundBindingConflict [] b = None"
    using f(1) realizes_bindings [OF real, of shapeCheckNode k] by auto
  ultimately show ?thesis
    using n real shape_any_node by (fastforce simp: well_placed_def runs_on_def realizes_def)
qed

lemma prepare_apart:
  assumes prep: "prepareRuleMutation auth db ident k i True = Inr ()" and real: "realizes r i"
    and s: "s \<in> set (db_Rules db)" "live s" "rule_ID s \<noteq> k"
  shows "apart (set (db_Nodes db)) r s"
  unfolding apart_def
proof (intro ballI impI, elim conjE)
  fix n b c
  assume n: "n \<in> set (db_Nodes db)" "runs_on n r" "runs_on n s" and b: "b \<in> set (ruleBindings [n] r)" and c: "c \<in> set (ruleBindings [n] s)"
  let ?ns = "nodesInGroup db (bi_NodeGroupID (rule_Binding s))" and ?ni = "nodesInGroup db (in_NodeGroupID i)"
  obtain b' where b': "b' \<in> set (inputBindings [n] i k)" "b = b'\<lparr>ib_ForwardRule := rule_ID r\<rparr>"
    using b realizes_bindings [OF real, of n k] by auto
  have "b' \<in> set (inputBindings ?ni i k)" "c \<in> set (ruleBindings ?ns s)"
    using n b' c real by (auto simp: bindings_by_node(1) [of ?ns] bindings_by_node(2) [of ?ni] set_nodesInGroup runs_on_def realizes_def)
  moreover have "\<forall>b \<in> set (inputBindings ?ni i k). ValidateInboundBindingConflict (ruleBindings ?ns s) b = None"
    using prepare_facts(5) [OF prep TrueI] s by (auto simp: ensureNoRuleConflicts_def set_ListEnabled checkBindings_Inr split: if_splits)
  ultimately have "compatible c b'" by (blast intro: Validate_compatible)
  then show "compatible b c" using b'(2) by (simp add: compatible_sym)
qed

lemma rules_ok_enter:
  assumes ok: "rules_ok R nodes" and sub: "R' \<subseteq> R"
    and placed: "live r \<Longrightarrow> well_placed nodes r"
    and apart: "\<And>s. live r \<Longrightarrow> s \<in> R' \<Longrightarrow> live s \<Longrightarrow> rule_ID s \<noteq> rule_ID r \<Longrightarrow> apart nodes r s"
  shows "rules_ok (insert r R') nodes"
  unfolding rules_ok_def
proof (intro conjI ballI impI)
  fix x assume "x \<in> insert r R'" "live x"
  then show "well_placed nodes x" using ok sub placed by (auto simp: rules_ok_def)
next
  fix x y assume "x \<in> insert r R'" "y \<in> insert r R'" "live x" "live y" "rule_ID x \<noteq> rule_ID y"
  then consider "x = r" "y \<in> R'" | "y = r" "x \<in> R'" | "x \<in> R'" "y \<in> R'" by auto
  then show "apart nodes x y"
    using apart [of x] apart [of y] apart_sym [of nodes x y] ok sub \<open>live x\<close> \<open>live y\<close> \<open>rule_ID x \<noteq> rule_ID y\<close>
    by cases (auto simp: rules_ok_def)
qed

lemma rules_ok_subset: "rules_ok R nodes \<Longrightarrow> R' \<subseteq> R \<Longrightarrow> rules_ok R' nodes"
  by (auto simp: rules_ok_def)

subsection \<open>What the bookkeeping leaves alone\<close>

text \<open>What admission looks at of a node, up to the order of its rows.\<close>

definition layout :: "NodeRecord \<Rightarrow> string \<times> string set \<times> NodeListenIPRecord set \<times> NodeSendIPRecord set \<times> NodePortRangeRecord set \<times> int" where
  "layout n = (nd_ID n, set (nd_GroupIDs n), set (nd_ListenIPs n), set (nd_SendIPs n), set (nd_PortRanges n), defaultMaxRulePorts (nd_MaxRulePorts n))"

lemma layout_facts:
  assumes "layout n = layout m"
  shows "runs_on n r = runs_on m r" "serves n r = serves m r" "ruleBindings [n] r = ruleBindings [m] r"
proof -
  have "nodeCoversPort n = nodeCoversPort m"
    using assms by (intro ext) (simp add: layout_def nodeCoversPort_def portRangeCovers_def list_ex_iff)
  then show "runs_on n r = runs_on m r" "serves n r = serves m r" "ruleBindings [n] r = ruleBindings [m] r"
    using assms by (simp_all add: layout_def runs_on_def serves_def hasListenIP_def list_ex_iff nodeCoversPortSegments_def
        ruleBindings_def bindingsForNodes_def)
qed

lemma rules_ok_layout:
  assumes "layout ` N' = layout ` N" and ok: "rules_ok R N"
  shows "rules_ok R N'"
proof -
  have bwd: "\<exists>n \<in> N. layout n = layout m" if "m \<in> N'" for m using assms(1) that by (metis image_iff)
  have forth: "\<exists>m \<in> N'. layout m = layout n" if "n \<in> N" for n using assms(1) that by (metis image_iff)
  have "well_placed N' r" if "well_placed N r" for r
    using that bwd forth layout_facts unfolding well_placed_def by metis
  moreover have "apart N' r s" if "apart N r s" for r s
    using that bwd layout_facts unfolding apart_def by metis
  ultimately show ?thesis using ok by (simp add: rules_ok_def)
qed

lemma db_ok_frame:
  assumes "db_Rules db' = db_Rules db" "map layout (db_Nodes db') = map layout (db_Nodes db)" "db_ok db"
  shows "db_ok db'"
proof -
  have "layout ` set (db_Nodes db') = layout ` set (db_Nodes db)" using arg_cong [OF assms(2), of set] by simp
  moreover have "map nd_ID (db_Nodes db') = map nd_ID (db_Nodes db)"
    using arg_cong [OF assms(2), of "map fst"] by (simp add: comp_def layout_def)
  ultimately show ?thesis using assms rules_ok_layout by (metis db_ok_def)
qed

lemma layout_increment [simp]: "layout (incrementDesiredConfig n) = layout n"
  by (simp add: incrementDesiredConfig_def layout_def Let_def)

lemma rules_frame [frame, simp]:
  "db_Rules (bumpDesiredConfigForNodeGroup g db) = db_Rules db"
  "db_Rules (syncRuleDeploymentPending rule db) = db_Rules db"
  "db_Rules (DeleteRuleDeployments k db) = db_Rules db"
  "db_Rules (writeAudit ident a t k db) = db_Rules db"
  by (simp_all add: bumpDesiredConfigForNodeGroup_def IncrementDesiredConfigForNodeGroup_def syncRuleDeploymentPending_def
      ReplaceRuleDeploymentPending_def DeleteRuleDeployments_def writeAudit_def Let_def)

lemma nodes_frame [frame, simp]:
  "map layout (db_Nodes (bumpDesiredConfigForNodeGroup g db)) = map layout (db_Nodes db)"
  "db_Nodes (syncRuleDeploymentPending rule db) = db_Nodes db"
  "db_Nodes (DeleteRuleDeployments k db) = db_Nodes db"
  "db_Nodes (writeAudit ident a t k db) = db_Nodes db"
  by (simp_all add: bumpDesiredConfigForNodeGroup_def IncrementDesiredConfigForNodeGroup_def syncRuleDeploymentPending_def
      ReplaceRuleDeploymentPending_def DeleteRuleDeployments_def writeAudit_def Let_def)

lemma answerRule_frame:
  "answerRule service ident k a db = Inr (p, db') \<Longrightarrow> db_Rules db' = db_Rules db \<and> map layout (db_Nodes db') = map layout (db_Nodes db)"
  by (auto simp: answerRule_def)

subsection \<open>Rows written by the operations\<close>

lemma sort_key_Nil_iff [simp]: "sort_key f xs = [] \<longleftrightarrow> xs = []"
  by (metis length_0_conv length_sort)

lemma storedBinding_idem [simp]: "storedBinding (storedBinding b) = storedBinding b"
  by (auto simp: storedBinding_def rulePortSegments_def)

lemma storedBinding_segments:
  "bi_PortSegments (storedBinding b) \<noteq> []" "mset (rulePortSegments (storedBinding b)) = mset (rulePortSegments b)"
  by (auto simp: storedBinding_def rulePortSegments_def)

lemma storedBinding_fields [simp]:
  "bi_NodeGroupID (storedBinding b) = bi_NodeGroupID b" "bi_ListenIP (storedBinding b) = bi_ListenIP b"
  by (simp_all add: storedBinding_def)

lemma storedRule_fields [simp]:
  "rule_ID (storedRule r b t) = rule_ID r" "rule_Enabled (storedRule r b t) = rule_Enabled r"
  "rule_Status (storedRule r b t) = rule_Status r" "rule_Binding (storedRule r b t) = storedBinding b"
  "rule_ProxyProtocolIn (storedRule r b t) = rule_ProxyProtocolIn r" "rule_Protocol (storedRule r b t) = rule_Protocol r"
  "rule_MatchType (storedRule r b t) = rule_MatchType r" "rule_SNIHostname (storedRule r b t) = rule_SNIHostname r"
  "rule_SendIP (storedRule r b t) = rule_SendIP r"
  by (simp_all add: storedRule_def)

lemma inboundBinding_fields:
  "bi_NodeGroupID (inboundBindingForRule h org i) = in_NodeGroupID i" "bi_ListenIP (inboundBindingForRule h org i) = in_ListenIP i"
  "in_PortSegments i \<noteq> [] \<Longrightarrow> rulePortSegments (inboundBindingForRule h org i) = toInboundBindingPortSegments (in_PortSegments i)"
  by (simp_all add: inboundBindingForRule_def Let_def rulePortSegments_def toInboundBindingPortSegments_def)

lemma segments_roundtrip: "toInboundBindingPortSegments (toRulePortSegmentInputs segs) = segs"
  by (induction segs) (simp_all add: toInboundBindingPortSegments_def toRulePortSegmentInputs_def)

lemma realizes_input:
  assumes "in_PortSegments i \<noteq> []" "rule_Binding r = inboundBindingForRule h org i" "rule_Protocol r = in_Protocol i"
    "rule_MatchType r = mi_Type (in_Match i)" "rule_SNIHostname r = mi_SNIHostname (in_Match i)"
    "rule_ProxyProtocolIn r = defaultProxyProtocol (ppi_In (in_ProxyProtocol i))" "rule_SendIP r = in_SendIP i"
  shows "realizes (storedRule r (rule_Binding r) t) i"
  using assms by (simp add: realizes_def storedBinding_segments inboundBinding_fields)

lemma realizes_inputFromRule:
  assumes "rule_ProxyProtocolIn r \<noteq> []"
  shows "realizes (storedRule r (rule_Binding r) t) (inputFromRule r)"
  using assms
  by (simp add: realizes_def storedBinding_segments inputFromRule_def defaultProxyProtocol_def segments_roundtrip)

lemma record_ok_stored:
  assumes "rule_ID r \<noteq> []" "rule_Enabled r \<longleftrightarrow> rule_Status r = ''ENABLED''" "rule_ProxyProtocolIn r \<noteq> []"
  shows "record_ok (storedRule r b t)"
  using assms by (simp add: record_ok_def storedBinding_segments)

lemma db_ok_create:
  assumes ok: "db_ok db" and new: "store_CreateRule r b t db = Inr db'" and rec: "record_ok (storedRule r b t)"
    and placed: "live (storedRule r b t) \<Longrightarrow> well_placed (set (db_Nodes db)) (storedRule r b t)"
    and apart: "\<And>s. live (storedRule r b t) \<Longrightarrow> s \<in> set (db_Rules db) \<Longrightarrow> live s \<Longrightarrow> apart (set (db_Nodes db)) (storedRule r b t) s"
  shows "db_ok db'"
proof -
  have fresh: "rule_ID r \<notin> rule_ID ` set (db_Rules db)" and db': "db' = db\<lparr>db_Rules := db_Rules db @ [storedRule r b t]\<rparr>"
    using new by (auto simp: store_CreateRule_def list_ex_iff split: if_splits)
  have "rules_ok (insert (storedRule r b t) (set (db_Rules db))) (set (db_Nodes db))"
    using ok by (intro rules_ok_enter [OF _ order_refl] placed apart) (auto simp: db_ok_def)
  then show ?thesis using ok fresh rec by (auto simp: db_ok_def db')
qed

lemma db_ok_update:
  assumes ok: "db_ok db" and upd: "store_UpdateRule r b t db = Inr db'" and rec: "record_ok (storedRule r b t)"
    and placed: "live (storedRule r b t) \<Longrightarrow> well_placed (set (db_Nodes db)) (storedRule r b t)"
    and apart: "\<And>s. live (storedRule r b t) \<Longrightarrow> s \<in> set (db_Rules db) \<Longrightarrow> live s \<Longrightarrow> rule_ID s \<noteq> rule_ID r \<Longrightarrow>
      apart (set (db_Nodes db)) (storedRule r b t) s"
  shows "db_ok db'"
proof -
  obtain q where q: "q \<in> set (db_Rules db)" "rule_ID q = rule_ID r"
    using upd by (auto simp: store_UpdateRule_def list_ex_iff split: if_splits)
  define r' where "r' = (storedRule r b t)\<lparr>rule_OwnerUserID := rule_OwnerUserID q\<rparr>"
  have db': "db' = db\<lparr>db_Rules := map (\<lambda>s. if rule_ID s = rule_ID r then (storedRule r b t)\<lparr>rule_OwnerUserID := rule_OwnerUserID s\<rparr> else s) (db_Rules db)\<rparr>"
    using upd by (auto simp: store_UpdateRule_def split: if_splits)
  have uniq: "s = q" if "s \<in> set (db_Rules db)" "rule_ID s = rule_ID r" for s
    using ok q that by (metis db_ok_def distinct_map inj_onD)
  have rules: "set (db_Rules db') = insert r' {s \<in> set (db_Rules db). rule_ID s \<noteq> rule_ID r}"
  proof -
    have "set (db_Rules db') = (\<lambda>s. if rule_ID s = rule_ID r then r' else s) ` set (db_Rules db)"
      using uniq by (auto simp: db' r'_def intro!: image_cong)
    then show ?thesis using q by auto
  qed
  have same: "live r' = live (storedRule r b t)" "well_placed N r' = well_placed N (storedRule r b t)"
    "apart N r' s = apart N (storedRule r b t) s" "record_ok r' = record_ok (storedRule r b t)" for N s
    by (simp_all add: r'_def live_def well_placed_def apart_def runs_on_def serves_def ruleBindings_def record_ok_def)
  have "rules_ok (insert r' {s \<in> set (db_Rules db). rule_ID s \<noteq> rule_ID r}) (set (db_Nodes db))"
    using ok placed apart unfolding same(1,2,3) [symmetric]
    by (intro rules_ok_enter [of "set (db_Rules db)"]) (auto simp: db_ok_def r'_def)
  moreover have "map rule_ID (db_Rules db') = map rule_ID (db_Rules db)" by (simp add: db')
  moreover have "db_Nodes db' = db_Nodes db" by (simp add: db')
  ultimately show ?thesis using ok rec unfolding db_ok_def rules same(4) [symmetric] by auto
qed

subsection \<open>Every operation on rules keeps the invariant\<close>

lemma defaultProxyProtocol_ne [simp]: "defaultProxyProtocol v \<noteq> []"
  by (simp add: defaultProxyProtocol_def)

lemma CreateRule_ok:
  assumes "db_ok db" "newID \<noteq> []" and run: "CreateRule service ident newID input db = Inr (p, db')"
  shows "db_ok db'"
proof -
  obtain i db1 where prep: "prepareRuleMutation (svc_authorizer service) db ident [] i (in_Enabled i) = Inr ()"
    and store: "store_CreateRule (newRule service ident newID i (in_Enabled i)) (rule_Binding (newRule service ident newID i (in_Enabled i))) (in_Tags i) db = Inr db1"
    and ans: "answerRule service ident newID ''rules.create'' (if in_Enabled i
        then syncRuleDeploymentPending (newRule service ident newID i (in_Enabled i))
          (bumpDesiredConfigForNodeGroup (bi_NodeGroupID (rule_Binding (newRule service ident newID i (in_Enabled i)))) db1) else db1) = Inr (p, db')"
    using run by (auto simp: CreateRule_def Let_def)
  let ?r = "newRule service ident newID i (in_Enabled i)"
  let ?s = "storedRule ?r (rule_Binding ?r) (in_Tags i)"
  have real: "realizes ?s i"
    by (rule realizes_input) (simp_all add: newRule_def Let_def prepare_facts(2) [OF prep])
  have "db_ok db1"
  proof (rule db_ok_create [OF assms(1) store])
    show "record_ok ?s" using assms(2) by (intro record_ok_stored) (simp_all add: newRule_def Let_def)
    show "well_placed (set (db_Nodes db)) ?s" by (rule prepare_placed [OF prep real])
    fix t assume "live ?s" "t \<in> set (db_Rules db)" "live t"
    moreover from this have "rule_ID t \<noteq> []" using assms(1) by (auto simp: db_ok_def record_ok_def)
    moreover have "in_Enabled i" using \<open>live ?s\<close> by (simp add: live_def newRule_def Let_def)
    ultimately show "apart (set (db_Nodes db)) ?s t" using prepare_apart [OF _ real] prep by simp
  qed
  then show ?thesis using answerRule_frame [OF ans] by (auto intro: db_ok_frame split: if_splits)
qed

lemma UpdateRule_ok:
  assumes "db_ok db" and run: "UpdateRule service ident ruleID input db = Inr (p, db')"
  shows "db_ok db'"
proof -
  obtain old i db1 where old: "FindRuleByID db ruleID = Inr old"
    and prep: "prepareRuleMutation (svc_authorizer service) db ident (rule_ID old) i (in_Enabled i) = Inr ()"
    and store: "store_UpdateRule (updatedRule service old i) (rule_Binding (updatedRule service old i)) (in_Tags i) db = Inr db1"
    and frame: "db_Rules db' = db_Rules db1" "map layout (db_Nodes db') = map layout (db_Nodes db1)"
    using run by (auto simp: UpdateRule_def Let_def dest!: answerRule_frame)
  let ?r = "updatedRule service old i"
  let ?s = "storedRule ?r (rule_Binding ?r) (in_Tags i)"
  have real: "realizes ?s i"
    by (rule realizes_input) (simp_all add: updatedRule_def prepare_facts(2) [OF prep])
  have id: "rule_ID ?r = rule_ID old" by (simp add: updatedRule_def)
  have "old \<in> set (db_Rules db)" using old by (auto simp: FindRuleByID_def find_Some_iff split: option.splits)
  then have "record_ok old" using assms(1) by (simp add: db_ok_def)
  have "db_ok db1"
  proof (rule db_ok_update [OF assms(1) store])
    show "record_ok ?s" using \<open>record_ok old\<close> by (intro record_ok_stored) (simp_all add: updatedRule_def record_ok_def)
    show "well_placed (set (db_Nodes db)) ?s" by (rule prepare_placed [OF prep real])
    fix t assume "live ?s" "t \<in> set (db_Rules db)" "live t" "rule_ID t \<noteq> rule_ID ?r"
    moreover have "in_Enabled i" using \<open>live ?s\<close> by (simp add: live_def updatedRule_def)
    ultimately show "apart (set (db_Nodes db)) ?s t" using prepare_apart [OF _ real] prep id by simp
  qed
  then show ?thesis by (rule db_ok_frame [OF frame])
qed

lemma FindRuleByID_Inr: "FindRuleByID db k = Inr r \<Longrightarrow> r \<in> set (db_Rules db) \<and> rule_ID r = k"
  by (auto simp: FindRuleByID_def find_Some_iff split: option.splits)

text \<open>Rows rewritten with another status: \<open>setRuleEnabled\<close> and the failure policies.\<close>

lemma status_ok:
  assumes ok: "db_ok db" and r: "r \<in> set (db_Rules db)"
    and store: "store_UpdateRule (r\<lparr>rule_Enabled := e, rule_Status := (if e then ''ENABLED'' else ''DISABLED''), rule_ConfigVersion := v\<rparr>)
      (rule_Binding r) (rule_Tags r) db = Inr db'"
    and prep: "e \<Longrightarrow> prepareRuleMutation auth db ident (rule_ID r) (inputFromRule r) True = Inr ()"
  shows "db_ok db'"
proof -
  let ?q = "r\<lparr>rule_Enabled := e, rule_Status := (if e then ''ENABLED'' else ''DISABLED''), rule_ConfigVersion := v\<rparr>"
  let ?s = "storedRule ?q (rule_Binding r) (rule_Tags r)"
  have rec: "record_ok r" using ok r by (simp add: db_ok_def)
  have real: "realizes ?s (inputFromRule r)"
    using realizes_inputFromRule [of r "rule_Tags r"] rec by (simp add: record_ok_def realizes_def)
  show ?thesis
  proof (rule db_ok_update [OF ok store])
    show "record_ok ?s" using rec by (intro record_ok_stored) (simp_all add: record_ok_def)
    assume "live ?s"
    then have e: e by (simp add: live_def)
    show "well_placed (set (db_Nodes db)) ?s" by (rule prepare_placed [OF prep [OF e] real])
    fix t assume "t \<in> set (db_Rules db)" "live t" "rule_ID t \<noteq> rule_ID ?q"
    then show "apart (set (db_Nodes db)) ?s t" using prepare_apart [OF prep [OF e] real] by simp
  qed
qed

lemma setRuleEnabled_ok:
  assumes "db_ok db" and run: "setRuleEnabled service ident ruleID e db = Inr (p, db')"
  shows "db_ok db'"
proof -
  obtain r db1 where r: "FindRuleByID db ruleID = Inr r"
    and prep: "(if e then prepareRuleMutation (svc_authorizer service) db ident (rule_ID r) (inputFromRule r) True
        else Inr ()) = Inr ()"
    and store: "store_UpdateRule (r\<lparr>rule_Enabled := e, rule_Status := (if e then ''ENABLED'' else ''DISABLED''),
        rule_ConfigVersion := rule_ConfigVersion r + 1\<rparr>) (rule_Binding r) (rule_Tags r) db = Inr db1"
    and frame: "db_Rules db' = db_Rules db1" "map layout (db_Nodes db') = map layout (db_Nodes db1)"
    using run by (auto simp: setRuleEnabled_def Let_def dest!: answerRule_frame)
  have "db_ok db1"
  proof (rule status_ok [OF assms(1) _ store])
    show "r \<in> set (db_Rules db)" using FindRuleByID_Inr [OF r] by simp
  qed (use prep in simp)
  then show ?thesis by (rule db_ok_frame [OF frame])
qed

lemma DeleteRule_ok:
  assumes "db_ok db" and run: "DeleteRule service ident ruleID db = Inr db'"
  shows "db_ok db'"
proof -
  obtain db1 where "store_DeleteRule ruleID db = Inr db1" and frame: "db_Rules db' = db_Rules db1" "map layout (db_Nodes db') = map layout (db_Nodes db1)"
    using run by (auto simp: DeleteRule_def)
  then have "db_ok db1"
    using assms(1) by (auto simp: store_DeleteRule_def db_ok_def distinct_map_filter intro: rules_ok_subset split: if_splits)
  then show ?thesis by (rule db_ok_frame [OF frame])
qed

lemma CopyRule_ok:
  assumes "db_ok db" "newID \<noteq> []" and run: "CopyRule service ident newID ruleID input db = Inr (p, db')"
  shows "db_ok db'"
proof -
  obtain r c t db1 where r: "FindRuleByID db ruleID = Inr r" and store: "store_CreateRule c (rule_Binding r) t db = Inr db1"
    and c: "rule_ID c = newID" "\<not> rule_Enabled c" "rule_Status c = ''DISABLED''" "rule_ProxyProtocolIn c = rule_ProxyProtocolIn r"
    and frame: "db_Rules db' = db_Rules db1" "map layout (db_Nodes db') = map layout (db_Nodes db1)"
    using run by (auto simp: CopyRule_def Let_def dest!: answerRule_frame)
  have "record_ok r" using assms(1) FindRuleByID_Inr [OF r] by (simp add: db_ok_def)
  then have "record_ok (storedRule c (rule_Binding r) t)"
    using assms(2) c by (intro record_ok_stored) (simp_all add: record_ok_def)
  then have "db_ok db1"
    using c by (intro db_ok_create [OF assms(1) store]) (simp_all add: live_def)
  then show ?thesis by (rule db_ok_frame [OF frame])
qed

lemma batchLoop_ok: "db_ok db \<Longrightarrow> batchLoop service ident a ks db = (items, db') \<Longrightarrow> db_ok db'"
proof (induction ks arbitrary: db items)
  case (Cons k ks)
  have "db_ok db1" if "batchStep service ident a k db = Inr db1" for db1
    using that Cons.prems(1) setRuleEnabled_ok DeleteRule_ok
    by (auto simp: batchStep_def EnableRule_def DisableRule_def split: if_splits)
  then show ?case using Cons by (auto split: sum.splits prod.splits)
qed simp

lemma failurePolicyLoop_ok: "db_ok db \<Longrightarrow> failurePolicyLoop ds seen ks db = Inr db' \<Longrightarrow> db_ok db'"
proof (induction ds seen ks db rule: failurePolicyLoop.induct)
  case (2 ds seen k ks db)
  show ?case
  proof (cases "TrimSpace k = [] \<or> List.member seen (TrimSpace k)")
    case True
    then show ?thesis using 2 by (auto simp: Let_def)
  next
    case False
    then obtain r where r: "FindRuleByID db (TrimSpace k) = Inr r"
      using 2(6) by (auto simp: Let_def)
    show ?thesis
    proof (cases "\<not> rule_Enabled r \<or> defaultFailurePolicy (rule_FailurePolicy r) \<noteq> ''DISABLE_WHEN_ALL_NODES_FAILED'' \<or>
        nodesInGroup db (bi_NodeGroupID (rule_Binding r)) = [] \<or> \<not> allCurrentRuleNodesFailed r (nodesInGroup db (bi_NodeGroupID (rule_Binding r))) ds")
      case True
      then show ?thesis using 2 False r by (auto simp: Let_def split: if_splits)
    next
      case step: False
      then obtain db1 where store: "store_UpdateRule (r\<lparr>rule_Enabled := False, rule_Status := ''DISABLED'', rule_ConfigVersion := rule_ConfigVersion r + 1\<rparr>)
          (rule_Binding r) (rule_Tags r) db = Inr db1"
        and rest: "failurePolicyLoop ds (TrimSpace k # seen) ks (writeAudit \<lparr>id_UserID = [], id_Permissions = []\<rparr> ''rules.auto_disable_deploy_failure''
          ''FORWARDING_RULE'' (rule_ID r) (bumpDesiredConfigForNodeGroup (bi_NodeGroupID (rule_Binding r)) db1)) = Inr db'"
        using 2(6) False r by (auto simp: Let_def)
      have "db_ok db1"
        using status_ok [where e = False and r = r and db = db and db' = db1 and v = "rule_ConfigVersion r + 1"] 2(5) store FindRuleByID_Inr [OF r] by simp
      then have "db_ok (writeAudit \<lparr>id_UserID = [], id_Permissions = []\<rparr> ''rules.auto_disable_deploy_failure''
          ''FORWARDING_RULE'' (rule_ID r) (bumpDesiredConfigForNodeGroup (bi_NodeGroupID (rule_Binding r)) db1))"
        by (rule db_ok_frame [rotated 2]) simp_all
      then show ?thesis using 2(4) False r step store rest by (auto simp: Let_def)
    qed
  qed
qed simp

end
