(* ===== verification/Node_Service.thy ===== *)
theory Node_Service
  imports Rule_Invariant
begin

text \<open>
  The operations on nodes and node groups (\<open>control_nodes.go\<close>) and the statements of \<open>repo/nodes.go\<close> they run;
  \<open>DeleteNode\<close>, which also releases a pending enrollment, is in \<open>Node_Enrollment\<close>. One call belongs to another
  component and is an argument: \<open>markDNS\<close> (\<open>markDNSRecordsDependingOnNodeGroupsPending\<close>, which marks DNS records
  for evaluation and returns their ids). What the operations rely on of it is the locale \<open>dns_marking\<close>.
\<close>

subsection \<open>Inputs and rows\<close>

text \<open>A field with a \<open>Provided\<close> flag is an \<open>option\<close>; \<open>CreateNode\<close> reads the value whether or not it was provided, so it
  takes the zero value for \<open>None\<close>.\<close>

record NodeMutationInput =
  nmi_Name :: "string option"
  nmi_GroupIDs :: "string list option"
  nmi_ListenIPs :: "NodeListenIPInput list option"
  nmi_SendIPs :: "NodeSendIPInput list option"
  nmi_PortRanges :: "NodePortRangeInput list option"
  nmi_MaxRulePorts :: "int option"
  nmi_DNSPublishAddresses :: "NodeDNSPublishAddressInput list option"
  nmi_PublicDescription :: "string option"
  nmi_DataplaneMode :: "string option"
  nmi_DataplaneConflictPolicy :: "string option"

definition list_or_nil :: "'a list option \<Rightarrow> 'a list" where
  "list_or_nil v = (case v of None \<Rightarrow> [] | Some xs \<Rightarrow> xs)"

definition toNodeListenIPRecords :: "NodeListenIPInput list \<Rightarrow> NodeListenIPRecord list" where
  "toNodeListenIPRecords inputs =
     map (\<lambda>i. \<lparr>nli_ListenIP = nlii_ListenIP i, nli_DisplayName = nlii_DisplayName i, nli_Enabled = True\<rparr>) inputs"

definition toNodeSendIPRecords :: "NodeSendIPInput list \<Rightarrow> NodeSendIPRecord list" where
  "toNodeSendIPRecords inputs =
     map (\<lambda>i. \<lparr>nsi_SendIP = nsii_SendIP i, nsi_DisplayName = nsii_DisplayName i, nsi_Enabled = True\<rparr>) inputs"

definition toNodePortRangeRecords :: "NodePortRangeInput list \<Rightarrow> NodePortRangeRecord list" where
  "toNodePortRangeRecords inputs =
     (let inputs = (if inputs = [] then
            [\<lparr>npri_Protocol = ProtocolTCP, npri_StartPort = 1, npri_EndPort = 65535\<rparr>,
             \<lparr>npri_Protocol = ProtocolUDP, npri_StartPort = 1, npri_EndPort = 65535\<rparr>] else inputs)
      in map (\<lambda>i. \<lparr>npr_Protocol = npri_Protocol i, npr_StartPort = npri_StartPort i, npr_EndPort = npri_EndPort i, npr_Enabled = True\<rparr>) inputs)"

definition toNodeDNSPublishAddressRecords :: "NodeDNSPublishAddressInput list \<Rightarrow> NodeDNSPublishAddressRecord list" where
  "toNodeDNSPublishAddressRecords inputs =
     map (\<lambda>i. \<lparr>pa_AddressType = npai_AddressType i, pa_Address = npai_Address i, pa_Source = ''MANUAL'', pa_Enabled = npai_Enabled i\<rparr>) inputs"

definition sameStringSet :: "string list \<Rightarrow> string list \<Rightarrow> bool" where
  "sameStringSet left right \<longleftrightarrow> sort left = sort right"

definition mergeStringSets :: "string list \<Rightarrow> string list \<Rightarrow> string list" where
  "mergeStringSets left right = uniq [] (left @ right)"

definition normalizeNodeDataplaneModeForMutation :: "string \<Rightarrow> string result" where
  "normalizeNodeDataplaneModeForMutation value =
     (let value = ToUpper (TrimSpace value) in
      if \<not> List.member [[], ''AUTO'', ''NATIVE'', ''HAPROXY'', ''NFTABLES''] value
      then Inl (SValidation ''dataplane_mode'' ''Unsupported node dataplane mode.'')
      else Inr (if value = [] then ''AUTO'' else value))"

definition validateNodeDataplaneConflictPolicy :: "string \<Rightarrow> unit result" where
  "validateNodeDataplaneConflictPolicy value =
     fail_if (\<not> List.member [[], ''FAIL_FAST''] (ToUpper (TrimSpace value)))
       (SValidation ''dataplane_conflict_policy'' ''Unsupported node dataplane conflict policy.'')"

subsection \<open>The store\<close>

definition FindNodeByID :: "'z control_db_scheme \<Rightarrow> string \<Rightarrow> NodeRecord result" where
  "FindNodeByID db nodeID =
     (case List.find (\<lambda>n. nd_ID n = nodeID) (db_Nodes db) of None \<Rightarrow> Inl SErrNotFound | Some n \<Rightarrow> Inr n)"

text \<open>A node as it is read back: the lists of its rows come in the order of the queries.\<close>

definition storedNode :: "NodeRecord \<Rightarrow> NodeRecord" where
  "storedNode node =
     node\<lparr>nd_GroupIDs := sort (nd_GroupIDs node),
       nd_ListenIPs := sort_key nli_ListenIP (nd_ListenIPs node), nd_SendIPs := sort_key nsi_SendIP (nd_SendIPs node),
       nd_PortRanges := sort_key (\<lambda>r. (npr_Protocol r, npr_StartPort r, npr_EndPort r)) (nd_PortRanges node),
       nd_MaxRulePorts := defaultMaxRulePorts (nd_MaxRulePorts node),
       nd_DataplaneMode := defaultNodeDataplaneMode (nd_DataplaneMode node),
       nd_DataplaneConflictPolicy := defaultNodeDataplaneConflictPolicy (nd_DataplaneConflictPolicy node)\<rparr>"

text \<open>The UNIQUE and CHECK constraints of the tables that hold a node's rows; a violation is reported as a conflict.\<close>

definition nodeRowsValid :: "NodeRecord \<Rightarrow> bool" where
  "nodeRowsValid node \<longleftrightarrow>
     distinct (nd_GroupIDs node) \<and> distinct (map nli_ListenIP (nd_ListenIPs node)) \<and>
     distinct (map nsi_SendIP (nd_SendIPs node)) \<and>
     list_all (\<lambda>s. TrimSpace (nsi_SendIP s) \<noteq> [] \<and> TrimSpace (nsi_DisplayName s) \<noteq> []) (nd_SendIPs node) \<and>
     list_all (\<lambda>r. (npr_Protocol r = ProtocolTCP \<or> npr_Protocol r = ProtocolUDP) \<and>
       1 \<le> npr_StartPort r \<and> npr_StartPort r \<le> npr_EndPort r \<and> npr_EndPort r \<le> 65535) (nd_PortRanges node)"

definition addressesValid :: "NodeDNSPublishAddressRecord list \<Rightarrow> bool" where
  "addressesValid addresses \<longleftrightarrow>
     distinct (map (\<lambda>a. (pa_AddressType a, pa_Address a)) addresses) \<and>
     list_all (\<lambda>a. (pa_AddressType a = ''A'' \<or> pa_AddressType a = ''AAAA'') \<and> TrimSpace (pa_Address a) \<noteq> []) addresses"

definition store_CreateNode :: "NodeRecord \<Rightarrow> 'z control_db_scheme \<Rightarrow> 'z control_db_scheme result" where
  "store_CreateNode node db =
     (if list_ex (\<lambda>n. nd_ID n = nd_ID node) (db_Nodes db) \<or> \<not> nodeRowsValid node then Inl SErrConflict
      else Inr (db\<lparr>db_Nodes := db_Nodes db @ [storedNode (node\<lparr>nd_DNSPublishAddresses := []\<rparr>)]\<rparr>))"

text \<open>\<open>UPDATE nodes\<close> writes the name, description, dataplane settings and the port limit; groups, listen addresses and port
  ranges are replaced when the request has them, send addresses always.\<close>

definition store_UpdateNode :: "NodeRecord \<Rightarrow> bool \<Rightarrow> bool \<Rightarrow> bool \<Rightarrow> 'z control_db_scheme \<Rightarrow> 'z control_db_scheme result" where
  "store_UpdateNode node replaceGroups replaceListenIPs replacePortRanges db =
     (if \<not> list_ex (\<lambda>n. nd_ID n = nd_ID node) (db_Nodes db) then Inl SErrNotFound
      else if \<not> nodeRowsValid node then Inl SErrConflict
      else Inr (db\<lparr>db_Nodes := map (\<lambda>n. if nd_ID n = nd_ID node then
             storedNode (n\<lparr>nd_Name := nd_Name node, nd_PublicDescription := nd_PublicDescription node,
               nd_DataplaneMode := nd_DataplaneMode node, nd_DataplaneConflictPolicy := nd_DataplaneConflictPolicy node,
               nd_MaxRulePorts := nd_MaxRulePorts node, nd_SendIPs := nd_SendIPs node,
               nd_GroupIDs := (if replaceGroups then nd_GroupIDs node else nd_GroupIDs n),
               nd_ListenIPs := (if replaceListenIPs then nd_ListenIPs node else nd_ListenIPs n),
               nd_PortRanges := (if replacePortRanges then nd_PortRanges node else nd_PortRanges n)\<rparr>)
             else n) (db_Nodes db)\<rparr>))"

text \<open>The soft delete of a node fires the trigger \<open>revoke_node_agent_auth\<close>, which revokes the node's tokens and credentials.\<close>

definition revokeNodeAgentAuth :: "int \<Rightarrow> string \<Rightarrow> 'z control_db_scheme \<Rightarrow> 'z control_db_scheme" where
  "revokeNodeAgentAuth now nodeID db =
     db\<lparr>db_RegistrationTokens := map (\<lambda>t. if rt_AgentType t = ''NODE'' \<and> rt_AgentID t = nodeID \<and> rt_RevokedAt t = None
          then t\<lparr>rt_RevokedAt := Some now\<rparr> else t) (db_RegistrationTokens db),
        db_Credentials := map (\<lambda>c. if cr_AgentType c = ''NODE'' \<and> cr_AgentID c = nodeID \<and> cr_RevokedAt c = None
          then c\<lparr>cr_RevokedAt := Some now\<rparr> else c) (db_Credentials db)\<rparr>"

definition store_DeleteNode :: "int \<Rightarrow> string \<Rightarrow> 'z control_db_scheme \<Rightarrow> 'z control_db_scheme result" where
  "store_DeleteNode now nodeID db =
     (if \<not> list_ex (\<lambda>n. nd_ID n = nodeID) (db_Nodes db) then Inl SErrNotFound
      else Inr (revokeNodeAgentAuth now nodeID (db\<lparr>db_Nodes := filter (\<lambda>n. nd_ID n \<noteq> nodeID) (db_Nodes db)\<rparr>)))"

definition replaceManualNodeDNSPublishAddresses ::
    "string \<Rightarrow> NodeDNSPublishAddressRecord list \<Rightarrow> 'z control_db_scheme \<Rightarrow> 'z control_db_scheme result" where
  "replaceManualNodeDNSPublishAddresses nodeID addresses db =
     (if \<not> addressesValid addresses then Inl SErrConflict
      else Inr (db\<lparr>db_Nodes := map (\<lambda>n. if nd_ID n = nodeID then
        n\<lparr>nd_DNSPublishAddresses := filter (\<lambda>a. pa_Source a \<noteq> ''MANUAL'') (nd_DNSPublishAddresses n) @
            map (\<lambda>a. a\<lparr>pa_Source := ''MANUAL''\<rparr>) addresses\<rparr> else n) (db_Nodes db)\<rparr>))"

definition ensureNodeGroupsExist :: "'z control_db_scheme \<Rightarrow> string list \<Rightarrow> unit result" where
  "ensureNodeGroupsExist db groupIDs = each (\<lambda>groupID. bind_result (FindNodeGroupByID db groupID) (\<lambda>_. Inr ())) groupIDs"

type_synonym 'z markDNS = "string list \<Rightarrow> 'z control_db_scheme \<Rightarrow> (string list \<times> 'z control_db_scheme) result"

subsection \<open>CreateNode\<close>

definition newNode :: "string \<Rightarrow> NodeMutationInput \<Rightarrow> string \<Rightarrow> string \<Rightarrow> NodeRecord" where
  "newNode nodeID input dataplaneMode conflictPolicy =
     shapeCheckNode\<lparr>nd_ID := nodeID, nd_Name := list_or_nil (nmi_Name input), nd_Status := ''PENDING'',
       nd_PublicDescription := list_or_nil (nmi_PublicDescription input), nd_ConfigStatus := ''PENDING'',
       nd_DataplaneMode := dataplaneMode, nd_DataplaneConflictPolicy := conflictPolicy,
       nd_GroupIDs := list_or_nil (nmi_GroupIDs input),
       nd_ListenIPs := toNodeListenIPRecords (list_or_nil (nmi_ListenIPs input)),
       nd_SendIPs := toNodeSendIPRecords (list_or_nil (nmi_SendIPs input)),
       nd_PortRanges := toNodePortRangeRecords (list_or_nil (nmi_PortRanges input)),
       nd_MaxRulePorts := defaultMaxRulePorts (case nmi_MaxRulePorts input of None \<Rightarrow> 0 | Some v \<Rightarrow> v),
       nd_DNSPublishAddresses := toNodeDNSPublishAddressRecords (list_or_nil (nmi_DNSPublishAddresses input)),
       nd_Agent := zeroAgentInfo\<lparr>ag_AutoUpdateEnabled := True\<rparr>\<rparr>"

definition CreateNode ::
    "'z markDNS \<Rightarrow> ControlService \<Rightarrow> InternalIdentity \<Rightarrow> string \<Rightarrow> NodeMutationInput \<Rightarrow> 'z control_db_scheme \<Rightarrow>
     (NodeRecord \<times> string list \<times> 'z control_db_scheme) result" where
  "CreateNode markDNS service identity newID input db =
     bind_result (fail_if (\<not> hasPermission service identity ''nodes.manage'') SErrForbidden) (\<lambda>_.
     bind_result (normalizeNodeDataplaneModeForMutation (list_or_nil (nmi_DataplaneMode input))) (\<lambda>dataplaneMode.
     let groupIDs = list_or_nil (nmi_GroupIDs input);
         node = newNode newID input dataplaneMode (defaultNodeDataplaneConflictPolicy (list_or_nil (nmi_DataplaneConflictPolicy input))) in
     bind_result (fail_if (groupIDs = [] \<and> \<not> canManageAllNodeGroups (svc_authorizer service) identity) SErrForbidden) (\<lambda>_.
     bind_result (ensureCanManageNodeGroups (svc_authorizer service) identity groupIDs) (\<lambda>_.
     bind_result (ensureNodeGroupsExist db groupIDs) (\<lambda>_.
     bind_result (validateEnabledRulesForNodeSet db (replaceNodeInSet (ListNodesByOrganization db) node)) (\<lambda>_.
     bind_result (store_CreateNode node db) (\<lambda>db.
     bind_result (replaceManualNodeDNSPublishAddresses newID (nd_DNSPublishAddresses node) db) (\<lambda>db.
     bind_result (markDNS groupIDs db) (\<lambda>(affected, db).
     bind_result (FindNodeByID db newID) (\<lambda>node.
     Inr (node, affected, writeAudit identity ''nodes.create'' ''NODE'' (nd_ID node) db)))))))))))"

subsection \<open>UpdateNode\<close>

definition changedNode :: "NodeMutationInput \<Rightarrow> string option \<Rightarrow> string option \<Rightarrow> string list \<Rightarrow> NodeRecord \<Rightarrow> NodeRecord" where
  "changedNode input mode policy targetGroupIDs node =
     node\<lparr>nd_Name := (case nmi_Name input of None \<Rightarrow> nd_Name node | Some v \<Rightarrow> v),
       nd_PublicDescription := (case nmi_PublicDescription input of None \<Rightarrow> nd_PublicDescription node | Some v \<Rightarrow> v),
       nd_DataplaneMode := (case mode of None \<Rightarrow> nd_DataplaneMode node | Some v \<Rightarrow> v),
       nd_DataplaneConflictPolicy := (case policy of None \<Rightarrow> nd_DataplaneConflictPolicy node | Some v \<Rightarrow> v),
       nd_ListenIPs := (case nmi_ListenIPs input of None \<Rightarrow> nd_ListenIPs node | Some v \<Rightarrow> toNodeListenIPRecords v),
       nd_SendIPs := (case nmi_SendIPs input of None \<Rightarrow> nd_SendIPs node | Some v \<Rightarrow> toNodeSendIPRecords v),
       nd_PortRanges := (case nmi_PortRanges input of None \<Rightarrow> nd_PortRanges node | Some v \<Rightarrow> toNodePortRangeRecords v),
       nd_MaxRulePorts := (case nmi_MaxRulePorts input of None \<Rightarrow> nd_MaxRulePorts node | Some v \<Rightarrow> defaultMaxRulePorts v),
       nd_DNSPublishAddresses := (case nmi_DNSPublishAddresses input of None \<Rightarrow> nd_DNSPublishAddresses node
         | Some v \<Rightarrow> toNodeDNSPublishAddressRecords v),
       nd_GroupIDs := targetGroupIDs\<rparr>"

text \<open>The two blocks of \<open>UpdateNode\<close> after the row is written: publish addresses, then configuration and deployments.\<close>

definition publishNodeChange ::
    "'z markDNS \<Rightarrow> string \<Rightarrow> NodeDNSPublishAddressRecord list option \<Rightarrow> bool \<Rightarrow> string list \<Rightarrow> 'z control_db_scheme \<Rightarrow>
     (string list \<times> 'z control_db_scheme) result" where
  "publishNodeChange markDNS nodeID addresses groupMembershipChanged groups db =
     bind_result (case addresses of None \<Rightarrow> Inr db | Some as \<Rightarrow> replaceManualNodeDNSPublishAddresses nodeID as db) (\<lambda>db.
      if addresses \<noteq> None \<or> groupMembershipChanged then markDNS groups db else Inr ([], db))"

definition refreshNodeConfig ::
    "string \<Rightarrow> bool \<Rightarrow> bool \<Rightarrow> string list \<Rightarrow> string list \<Rightarrow> 'z control_db_scheme \<Rightarrow> 'z control_db_scheme result" where
  "refreshNodeConfig nodeID dataplaneConfigChanged groupMembershipChanged previousGroupIDs targetGroupIDs db =
     (if dataplaneConfigChanged \<or> groupMembershipChanged then
        bind_result (IncrementDesiredConfigForNode nodeID db) (\<lambda>db.
        bind_result (FindNodeByID db nodeID) (\<lambda>node.
        let db = (if groupMembershipChanged
                  then syncRuleDeploymentsForNodeMembershipChange node previousGroupIDs targetGroupIDs db else db) in
        Inr (syncRuleDeploymentsForNodeConfigChange node db)))
      else Inr db)"

definition UpdateNode ::
    "'z markDNS \<Rightarrow> ControlService \<Rightarrow> InternalIdentity \<Rightarrow> string \<Rightarrow> NodeMutationInput \<Rightarrow> 'z control_db_scheme \<Rightarrow>
     (NodeRecord \<times> string list \<times> 'z control_db_scheme) result" where
  "UpdateNode markDNS service identity nodeID input db =
     bind_result (fail_if (\<not> hasPermission service identity ''nodes.manage'') SErrForbidden) (\<lambda>_.
     bind_result (case nmi_DataplaneMode input of None \<Rightarrow> Inr None
       | Some m \<Rightarrow> bind_result (normalizeNodeDataplaneModeForMutation m) (\<lambda>m. Inr (Some m))) (\<lambda>mode.
     let policy = map_option defaultNodeDataplaneConflictPolicy (nmi_DataplaneConflictPolicy input) in
     bind_result (FindNodeByID db nodeID) (\<lambda>node.
     bind_result (ensureCanManageNodeGroups (svc_authorizer service) identity (nd_GroupIDs node)) (\<lambda>_.
     let previousGroupIDs = nd_GroupIDs node;
         groupIDsProvided = (nmi_GroupIDs input \<noteq> None);
         targetGroupIDs = (case nmi_GroupIDs input of None \<Rightarrow> nd_GroupIDs node | Some v \<Rightarrow> v) in
     bind_result (if groupIDsProvided then
         bind_result (fail_if (targetGroupIDs = [] \<and> \<not> canManageAllNodeGroups (svc_authorizer service) identity) SErrForbidden) (\<lambda>_.
         bind_result (ensureCanManageNodeGroups (svc_authorizer service) identity targetGroupIDs) (\<lambda>_.
         ensureNodeGroupsExist db targetGroupIDs)) else Inr ()) (\<lambda>_.
     let changed = changedNode input mode policy targetGroupIDs node;
         dataplaneConfigChanged = (nd_DataplaneMode changed \<noteq> nd_DataplaneMode node \<or>
           nd_DataplaneConflictPolicy changed \<noteq> nd_DataplaneConflictPolicy node);
         groupMembershipChanged = (groupIDsProvided \<and> \<not> sameStringSet previousGroupIDs targetGroupIDs) in
     bind_result (validateEnabledRulesForNodeSet db (replaceNodeInSet (ListNodesByOrganization db) changed)) (\<lambda>_.
     bind_result (store_UpdateNode changed groupIDsProvided (nmi_ListenIPs input \<noteq> None) (nmi_PortRanges input \<noteq> None) db) (\<lambda>db.
     bind_result (publishNodeChange markDNS nodeID (map_option toNodeDNSPublishAddressRecords (nmi_DNSPublishAddresses input))
       groupMembershipChanged (mergeStringSets previousGroupIDs targetGroupIDs) db) (\<lambda>(affected, db).
     bind_result (refreshNodeConfig nodeID dataplaneConfigChanged groupMembershipChanged previousGroupIDs targetGroupIDs db) (\<lambda>db.
     bind_result (FindNodeByID db nodeID) (\<lambda>node.
     Inr (node, affected, writeAudit identity ''nodes.update'' ''NODE'' (nd_ID node) db)))))))))))"

subsection \<open>Node groups\<close>

record GroupMutationInput =
  gmi_Name :: string
  gmi_Description :: string

definition CreateNodeGroup ::
    "ControlService \<Rightarrow> InternalIdentity \<Rightarrow> string \<Rightarrow> GroupMutationInput \<Rightarrow> 'z control_db_scheme \<Rightarrow> 'z control_db_scheme result" where
  "CreateNodeGroup service identity newID input db =
     bind_result (fail_if (\<not> canManageAllNodeGroups (svc_authorizer service) identity) SErrForbidden) (\<lambda>_.
     if list_ex (\<lambda>g. ng_ID g = newID) (db_NodeGroups db) then Inl SErrConflict
     else Inr (writeAudit identity ''node_groups.create'' ''NODE_GROUP'' newID
       (db\<lparr>db_NodeGroups := db_NodeGroups db @ [\<lparr>ng_ID = newID, ng_Name = gmi_Name input, ng_Description = gmi_Description input\<rparr>]\<rparr>)))"

definition UpdateNodeGroup ::
    "ControlService \<Rightarrow> InternalIdentity \<Rightarrow> string \<Rightarrow> GroupMutationInput \<Rightarrow> 'z control_db_scheme \<Rightarrow> 'z control_db_scheme result" where
  "UpdateNodeGroup service identity nodeGroupID input db =
     bind_result (fail_if (\<not> canManageNodeGroup (svc_authorizer service) identity nodeGroupID) SErrForbidden) (\<lambda>_.
     bind_result (FindNodeGroupByID db nodeGroupID) (\<lambda>_.
     Inr (writeAudit identity ''node_groups.update'' ''NODE_GROUP'' nodeGroupID
       (db\<lparr>db_NodeGroups := map (\<lambda>g. if ng_ID g = nodeGroupID then g\<lparr>ng_Name := gmi_Name input, ng_Description := gmi_Description input\<rparr>
          else g) (db_NodeGroups db)\<rparr>))))"

definition ensureNoNodesForNodeGroup :: "'z control_db_scheme \<Rightarrow> string \<Rightarrow> unit result" where
  "ensureNoNodesForNodeGroup db nodeGroupID =
     each (\<lambda>node. fail_if (List.member (nd_GroupIDs node) nodeGroupID) (SControl ''NODE_GROUP_IN_USE'')) (ListNodesByOrganization db)"

text \<open>A JSON list of strings as it is read back: trimmed, less the blank ones.\<close>

definition decodeJSONStringList :: "string list \<Rightarrow> string list" where
  "decodeJSONStringList values = filter (\<lambda>v. v \<noteq> []) (map TrimSpace values)"

definition ensureNoNodeEnrollmentProfilesForNodeGroup :: "'z control_db_scheme \<Rightarrow> string \<Rightarrow> unit result" where
  "ensureNoNodeEnrollmentProfilesForNodeGroup db nodeGroupID =
     each (\<lambda>profile. fail_if (List.member (decodeJSONStringList (ep_GroupIDsJSON profile)) nodeGroupID) (SControl ''NODE_GROUP_IN_USE''))
       (db_EnrollmentProfiles db)"

text \<open>The DNS instances that name the group are another component's: \<open>dnsUses\<close> stands for the check of
  \<open>ensureNoDNSInstancesForNodeGroup\<close>.\<close>

definition DeleteNodeGroup ::
    "('z control_db_scheme \<Rightarrow> string \<Rightarrow> bool) \<Rightarrow> ControlService \<Rightarrow> InternalIdentity \<Rightarrow> string \<Rightarrow> 'z control_db_scheme \<Rightarrow>
     'z control_db_scheme result" where
  "DeleteNodeGroup dnsUses service identity nodeGroupID db =
     bind_result (fail_if (\<not> canManageNodeGroup (svc_authorizer service) identity nodeGroupID) SErrForbidden) (\<lambda>_.
     bind_result (FindNodeGroupByID db nodeGroupID) (\<lambda>_.
     bind_result (ensureNoRulesForNodeGroup db nodeGroupID) (\<lambda>_.
     bind_result (ensureNoNodesForNodeGroup db nodeGroupID) (\<lambda>_.
     bind_result (fail_if (dnsUses db nodeGroupID) (SControl ''NODE_GROUP_IN_USE'')) (\<lambda>_.
     bind_result (ensureNoNodeEnrollmentProfilesForNodeGroup db nodeGroupID) (\<lambda>_.
     Inr (writeAudit identity ''node_groups.delete'' ''NODE_GROUP'' nodeGroupID
       (db\<lparr>db_NodeGroups := filter (\<lambda>g. ng_ID g \<noteq> nodeGroupID) (db_NodeGroups db)\<rparr>))))))))"

end
