(* ===== verification/Node_Invariant.thy ===== *)
theory Node_Invariant
  imports Node_Service
begin

text \<open>
  The operations on nodes keep the invariant of the rule tables: \<open>CreateNode\<close>, \<open>UpdateNode\<close> and every deletion
  check the nodes they are about to write, and what is written differs from what is checked only in the order of rows.
\<close>

subsection \<open>Stored nodes\<close>

lemma defaultMaxRulePorts_idem [simp]: "defaultMaxRulePorts (defaultMaxRulePorts v) = defaultMaxRulePorts v"
  by (simp add: defaultMaxRulePorts_def)

lemma layout_storedNode [simp]: "layout (storedNode n) = layout n"
  by (simp add: layout_def storedNode_def)

lemma nd_ID_storedNode [simp]: "nd_ID (storedNode n) = nd_ID n"
  by (simp add: storedNode_def)

lemma layout_nd_ID: "layout n = layout m \<Longrightarrow> nd_ID n = nd_ID m"
  by (simp add: layout_def)

lemma publish_frame:
  "replaceManualNodeDNSPublishAddresses k as db = Inr db' \<Longrightarrow>
   db_Rules db' = db_Rules db \<and> map layout (db_Nodes db') = map layout (db_Nodes db)"
  by (auto simp: replaceManualNodeDNSPublishAddresses_def layout_def split: if_splits)

lemma rules_fold_deployments:
  "(\<And>r db. db_Rules (f r db) = db_Rules db) \<Longrightarrow> db_Rules (fold f rs db) = db_Rules db"
  by (induction rs arbitrary: db) simp_all

lemma nodes_fold_deployments:
  "(\<And>r db. db_Nodes (f r db) = db_Nodes db) \<Longrightarrow> db_Nodes (fold f rs db) = db_Nodes db"
  by (induction rs arbitrary: db) simp_all

lemma sync_frame [frame, simp]:
  "db_Rules (syncRuleDeploymentsForNodeMembershipChange n p q db) = db_Rules db"
  "db_Nodes (syncRuleDeploymentsForNodeMembershipChange n p q db) = db_Nodes db"
  "db_Rules (syncRuleDeploymentsForNodeConfigChange n db) = db_Rules db"
  "db_Nodes (syncRuleDeploymentsForNodeConfigChange n db) = db_Nodes db"
  by (auto simp: syncRuleDeploymentsForNodeMembershipChange_def syncRuleDeploymentsForNodeConfigChange_def Let_def
      UpsertRuleDeploymentPending_def DeleteRuleDeploymentForNode_def
      intro!: rules_fold_deployments nodes_fold_deployments)

lemma increment_frame:
  "IncrementDesiredConfigForNode k db = Inr db' \<Longrightarrow> db_Rules db' = db_Rules db \<and> map layout (db_Nodes db') = map layout (db_Nodes db)"
  by (auto simp: IncrementDesiredConfigForNode_def split: if_splits)

lemma refreshNodeConfig_frame:
  "refreshNodeConfig k c d p q db = Inr db' \<Longrightarrow> db_Rules db' = db_Rules db \<and> map layout (db_Nodes db') = map layout (db_Nodes db)"
  by (auto simp: refreshNodeConfig_def Let_def dest!: increment_frame split: if_splits)

lemma FindNodeByID_Inr: "FindNodeByID db k = Inr n \<Longrightarrow> n \<in> set (db_Nodes db) \<and> nd_ID n = k"
  by (auto simp: FindNodeByID_def find_Some_iff split: option.splits)

subsection \<open>Writing a checked set of nodes\<close>

lemma db_ok_nodes:
  assumes ok: "db_ok db" and rules: "db_Rules db' = db_Rules db"
    and check: "validateEnabledRulesForNodeSet db nodes = Inr ()"
    and nodes: "layout ` set (db_Nodes db') = layout ` set nodes" and ids: "distinct (map nd_ID (db_Nodes db'))"
  shows "db_ok db'"
  using ok rules ids rules_ok_layout [OF nodes validateEnabledRules_ok [OF check]] by (simp add: db_ok_def)

lemma replaceNodeInSet_fresh:
  "nd_ID n \<notin> nd_ID ` set nodes \<Longrightarrow> replaceNodeInSet nodes n = nodes @ [n]"
  by (auto simp: replaceNodeInSet_def list_ex_iff image_iff intro!: map_idI)

lemma replaceNodeInSet_known:
  "nd_ID n \<in> nd_ID ` set nodes \<Longrightarrow> replaceNodeInSet nodes n = map (\<lambda>m. if nd_ID m = nd_ID n then n else m) nodes"
  by (auto simp: replaceNodeInSet_def list_ex_iff image_iff)

lemma store_CreateNode_ok:
  assumes ok: "db_ok db" and check: "validateEnabledRulesForNodeSet db (replaceNodeInSet (ListNodesByOrganization db) node) = Inr ()"
    and store: "store_CreateNode node db = Inr db'"
  shows "db_ok db'"
proof -
  have fresh: "nd_ID node \<notin> nd_ID ` set (db_Nodes db)"
    and db': "db' = db\<lparr>db_Nodes := db_Nodes db @ [storedNode (node\<lparr>nd_DNSPublishAddresses := []\<rparr>)]\<rparr>"
    using store by (auto simp: store_CreateNode_def list_ex_iff split: if_splits)
  have eq: "layout (node\<lparr>nd_DNSPublishAddresses := []\<rparr>) = layout node" by (simp add: layout_def)
  show ?thesis
    by (rule db_ok_nodes [OF ok _ check])
      (use ok fresh in \<open>auto simp: db' eq ListNodesByOrganization_def replaceNodeInSet_fresh db_ok_def\<close>)
qed

lemma store_UpdateNode_ok:
  assumes ok: "db_ok db" and old: "n \<in> set (db_Nodes db)" "nd_ID node = nd_ID n"
    and check: "validateEnabledRulesForNodeSet db (replaceNodeInSet (ListNodesByOrganization db) node) = Inr ()"
    and store: "store_UpdateNode node g l p db = Inr db'"
    and kept: "\<not> g \<Longrightarrow> nd_GroupIDs node = nd_GroupIDs n" "\<not> l \<Longrightarrow> nd_ListenIPs node = nd_ListenIPs n"
      "\<not> p \<Longrightarrow> nd_PortRanges node = nd_PortRanges n"
  shows "db_ok db'"
proof -
  have uniq: "m = n" if "m \<in> set (db_Nodes db)" "nd_ID m = nd_ID node" for m
    using ok old that by (metis db_ok_def distinct_map inj_onD)
  define f where "f m = (if nd_ID m = nd_ID node then
             storedNode (m\<lparr>nd_Name := nd_Name node, nd_PublicDescription := nd_PublicDescription node,
               nd_DataplaneMode := nd_DataplaneMode node, nd_DataplaneConflictPolicy := nd_DataplaneConflictPolicy node,
               nd_MaxRulePorts := nd_MaxRulePorts node, nd_SendIPs := nd_SendIPs node,
               nd_GroupIDs := (if g then nd_GroupIDs node else nd_GroupIDs m),
               nd_ListenIPs := (if l then nd_ListenIPs node else nd_ListenIPs m),
               nd_PortRanges := (if p then nd_PortRanges node else nd_PortRanges m)\<rparr>) else m)" for m
  have db': "db' = db\<lparr>db_Nodes := map f (db_Nodes db)\<rparr>"
    using store by (auto simp: store_UpdateNode_def f_def split: if_splits)
  have lay: "layout (f m) = layout (if nd_ID m = nd_ID node then node else m)" if "m \<in> set (db_Nodes db)" for m
    using uniq [OF that] kept old by (auto simp: f_def layout_def storedNode_def)
  have "nd_ID (f m) = nd_ID m" for m by (simp add: f_def)
  then have "map nd_ID (db_Nodes db') = map nd_ID (db_Nodes db)" by (simp add: db')
  moreover have "layout ` set (db_Nodes db') = layout ` set (replaceNodeInSet (ListNodesByOrganization db) node)"
  proof -
    have "set (replaceNodeInSet (ListNodesByOrganization db) node) = (\<lambda>m. if nd_ID m = nd_ID node then node else m) ` set (db_Nodes db)"
      using old by (subst replaceNodeInSet_known) (auto simp: ListNodesByOrganization_def)
    then show ?thesis using lay by (simp add: db' image_image del: if_image_distrib cong: image_cong)
  qed
  ultimately show ?thesis
    using ok by (intro db_ok_nodes [OF ok _ check]) (simp_all add: db_ok_def, simp add: db')
qed

lemma revokeNodeAgentAuth_frame [frame, simp]:
  "db_Rules (revokeNodeAgentAuth t k db) = db_Rules db" "db_Nodes (revokeNodeAgentAuth t k db) = db_Nodes db"
  by (simp_all add: revokeNodeAgentAuth_def)

lemma store_DeleteNode_ok:
  assumes "db_ok db" "validateEnabledRulesForNodeSet db (removeNodeFromSet (ListNodesByOrganization db) k) = Inr ()"
    "store_DeleteNode t k db = Inr db'"
  shows "db_ok db'"
proof (rule db_ok_nodes [OF assms(1) _ assms(2)])
  have db': "db' = revokeNodeAgentAuth t k (db\<lparr>db_Nodes := filter (\<lambda>n. nd_ID n \<noteq> k) (db_Nodes db)\<rparr>)"
    using assms(3) by (auto simp: store_DeleteNode_def split: if_splits)
  show "db_Rules db' = db_Rules db"
    "layout ` set (db_Nodes db') = layout ` set (removeNodeFromSet (ListNodesByOrganization db) k)"
    "distinct (map nd_ID (db_Nodes db'))"
    using assms(1) by (simp_all add: db' removeNodeFromSet_def ListNodesByOrganization_def db_ok_def distinct_map_filter)
qed

subsection \<open>The handlers\<close>

text \<open>What the operations rely on of the DNS component: marking records leaves the rules and what admission looks at
  of the nodes.\<close>

locale dns_marking =
  fixes markDNS :: "'z markDNS"
  assumes markDNS_frame: "markDNS groups db = Inr (ids, db') \<Longrightarrow> db_Rules db' = db_Rules db \<and> map layout (db_Nodes db') = map layout (db_Nodes db)"
begin

lemma markDNS_ok: "db_ok db \<Longrightarrow> markDNS groups db = Inr (ids, db') \<Longrightarrow> db_ok db'"
  using markDNS_frame by (blast intro: db_ok_frame)

lemma CreateNode_ok:
  assumes "db_ok db" and run: "CreateNode markDNS service ident newID input db = Inr (n, ids, db')"
  shows "db_ok db'"
proof -
  obtain node db1 db2 db3 where check: "validateEnabledRulesForNodeSet db (replaceNodeInSet (ListNodesByOrganization db) node) = Inr ()"
    and store: "store_CreateNode node db = Inr db1"
    and pub: "replaceManualNodeDNSPublishAddresses newID (nd_DNSPublishAddresses node) db1 = Inr db2"
    and mark: "markDNS (list_or_nil (nmi_GroupIDs input)) db2 = Inr (ids, db3)"
    and db': "db' = writeAudit ident ''nodes.create'' ''NODE'' (nd_ID n) db3"
    using run by (auto simp: CreateNode_def Let_def)
  have "db_ok db1" by (rule store_CreateNode_ok [OF assms(1) check store])
  then have "db_ok db2" using publish_frame [OF pub] by (blast intro: db_ok_frame)
  then have "db_ok db3" using mark by (rule markDNS_ok)
  then show ?thesis unfolding db' by (rule db_ok_frame [rotated 2]) simp_all
qed

lemma publishNodeChange_ok:
  "db_ok db \<Longrightarrow> publishNodeChange markDNS k as c groups db = Inr (ids, db') \<Longrightarrow> db_ok db'"
  by (auto simp: publishNodeChange_def split: if_splits option.splits dest!: publish_frame intro: markDNS_ok db_ok_frame [rotated 2])

lemma UpdateNode_ok:
  assumes "db_ok db" and run: "UpdateNode markDNS service ident k input db = Inr (n, ids, db')"
  shows "db_ok db'"
proof -
  obtain old mode policy groups db1 db2 db3 c d where old: "FindNodeByID db k = Inr old"
    and check: "validateEnabledRulesForNodeSet db (replaceNodeInSet (ListNodesByOrganization db) (changedNode input mode policy groups old)) = Inr ()"
    and groups: "groups = (case nmi_GroupIDs input of None \<Rightarrow> nd_GroupIDs old | Some v \<Rightarrow> v)"
    and store: "store_UpdateNode (changedNode input mode policy groups old) (nmi_GroupIDs input \<noteq> None) (nmi_ListenIPs input \<noteq> None)
      (nmi_PortRanges input \<noteq> None) db = Inr db1"
    and pub: "publishNodeChange markDNS k (map_option toNodeDNSPublishAddressRecords (nmi_DNSPublishAddresses input)) c
      (mergeStringSets (nd_GroupIDs old) groups) db1 = Inr (ids, db2)"
    and fresh: "refreshNodeConfig k d c (nd_GroupIDs old) groups db2 = Inr db3"
    and db': "db' = writeAudit ident ''nodes.update'' ''NODE'' (nd_ID n) db3"
    using run by (auto simp: UpdateNode_def Let_def)
  have "db_ok db1"
    by (rule store_UpdateNode_ok [OF assms(1) _ _ check store])
      (use FindNodeByID_Inr [OF old] groups in \<open>auto simp: changedNode_def\<close>)
  then have "db_ok db2" using pub by (rule publishNodeChange_ok)
  then have "db_ok db3" using refreshNodeConfig_frame [OF fresh] by (blast intro: db_ok_frame)
  then show ?thesis unfolding db' by (rule db_ok_frame [rotated 2]) simp_all
qed

end

end
