(* ===== verification/Go_Cidr.thy ===== *)
theory Go_Cidr
  imports Go_Net
begin

text \<open>
  \<open>net.ParseCIDR\<close>, \<open>net.CIDRMask\<close> and \<open>(*net.IPNet).Contains\<close>, and \<open>strings.ReplaceAll\<close>, as the control
  service uses them.
\<close>

unbundle bit_operations_syntax

record IPNet =
  net_IP :: ip
  net_Mask :: "byte list"

definition CIDRMask :: "nat \<Rightarrow> nat \<Rightarrow> byte list" where
  "CIDRMask ones bits =
     map (\<lambda>i. if 8 * Suc i \<le> ones then 255
              else if ones \<le> 8 * i then 0
              else push_bit (8 - (ones - 8 * i)) 255) [0..<bits div 8]"

definition mask_ip :: "ip \<Rightarrow> byte list \<Rightarrow> ip" where
  "mask_ip addr m =
     (let addr = (if length m = 4 \<and> length addr = 16 \<and> take 12 addr = v4_prefix then drop 12 addr else addr) in
      if length m \<noteq> length addr then [] else map2 (AND) addr m)"

text \<open>The text after the slash is a run of decimal digits, leading zeros included.\<close>

definition ParseCIDR :: "string \<Rightarrow> IPNet option" where
  "ParseCIDR s =
     (case index_byte (CHR ''/'') s of
        None \<Rightarrow> None
      | Some i \<Rightarrow>
          let addr = take i s; msk = drop (Suc i) s; parsed = ParseIP addr;
              bits = (if List.member addr (CHR '':'') then 128 else 32) in
          if parsed = [] \<or> msk = [] then None
          else case read_digits 0 msk of
                 None \<Rightarrow> None
               | Some n \<Rightarrow> if bits < n then None
                           else let m = CIDRMask n bits in Some \<lparr>net_IP = mask_ip parsed m, net_Mask = m\<rparr>)"

definition networkNumberAndMask :: "IPNet \<Rightarrow> (ip \<times> byte list) option" where
  "networkNumberAndMask n =
     (let addr = (if To4 (net_IP n) \<noteq> [] then To4 (net_IP n) else net_IP n); m = net_Mask n in
      if length addr \<noteq> 4 \<and> length addr \<noteq> 16 then None
      else if length m = 4 then (if length addr = 4 then Some (addr, m) else None)
      else if length m = 16 then Some (addr, if length addr = 4 then drop 12 m else m)
      else None)"

definition net_Contains :: "IPNet \<Rightarrow> ip \<Rightarrow> bool" where
  "net_Contains n addr \<longleftrightarrow>
     (case networkNumberAndMask n of
        None \<Rightarrow> False
      | Some (nn, m) \<Rightarrow>
          let addr = (if To4 addr \<noteq> [] then To4 addr else addr) in
          length addr = length nn \<and> map2 (AND) nn m = map2 (AND) addr m)"

text \<open>\<open>strings.ReplaceAll\<close> for a non-empty text to replace.\<close>

function ReplaceAll :: "string \<Rightarrow> string \<Rightarrow> string \<Rightarrow> string" where
  "ReplaceAll s old new =
     (case s of
        [] \<Rightarrow> []
      | c # cs \<Rightarrow> if old \<noteq> [] \<and> HasPrefix s old then new @ ReplaceAll (drop (length old) s) old new
                  else c # ReplaceAll cs old new)"
  by pat_completeness auto
termination
  by (relation "measure (\<lambda>(s, old, new). length s)") (auto simp: HasPrefix_def)

declare ReplaceAll.simps [simp del]

lemma ReplaceAll_Nil [simp]: "ReplaceAll [] old new = []"
  by (simp add: ReplaceAll.simps)

lemma length_ReplaceAll_Nil: "length (ReplaceAll s old []) \<le> length s"
proof (induction s old "[] :: string" rule: ReplaceAll.induct)
  case (1 s old)
  show ?case
  proof (cases s)
    case (Cons c cs)
    then show ?thesis
      using 1 by (subst ReplaceAll.simps) (fastforce simp: HasPrefix_def)
  qed simp
qed

subsection \<open>An address is in a network exactly when its leading bits are the network's\<close>

lemma length_CIDRMask [simp]: "length (CIDRMask ones bits) = bits div 8"
  by (simp add: CIDRMask_def)

lemma bit_255: "bit (255 :: byte) j \<longleftrightarrow> j < 8"
proof -
  have "(255 :: byte) = - 1" by simp
  then show ?thesis by (simp only: bit_minus_1_iff possible_bit_word) simp
qed

text \<open>Bit \<open>j\<close> of a text of bytes, counted from the left.\<close>

definition ip_bit :: "ip \<Rightarrow> nat \<Rightarrow> bool" where
  "ip_bit addr j = bit (addr ! (j div 8)) (7 - j mod 8)"

lemma mask_bit:
  assumes "i < bits div 8" "k < 8"
  shows "bit (CIDRMask ones bits ! i) k \<longleftrightarrow> 8 * i + (7 - k) < ones"
proof -
  have "bit (CIDRMask ones bits ! i) k \<longleftrightarrow>
      (if 8 * Suc i \<le> ones then bit (255 :: byte) k else if ones \<le> 8 * i then False
       else 8 - (ones - 8 * i) \<le> k \<and> bit (255 :: byte) (k - (8 - (ones - 8 * i))))"
    using assms by (auto simp: CIDRMask_def bit_push_bit_iff)
  then show ?thesis unfolding bit_255 using assms by auto
qed

lemma and_eq_bits:
  fixes a b m :: byte
  shows "a AND m = b AND m \<longleftrightarrow> (\<forall>k < 8. bit m k \<longrightarrow> (bit a k \<longleftrightarrow> bit b k))"
  by (auto simp: bit_eq_iff bit_and_iff)

lemma masked_equal:
  assumes "length a = bits div 8" "length b = bits div 8" "8 dvd bits" "ones \<le> bits"
  shows "map2 (AND) a (CIDRMask ones bits) = map2 (AND) b (CIDRMask ones bits) \<longleftrightarrow> (\<forall>j < ones. ip_bit a j \<longleftrightarrow> ip_bit b j)"
proof -
  have "map2 (AND) a (CIDRMask ones bits) = map2 (AND) b (CIDRMask ones bits) \<longleftrightarrow>
      (\<forall>i < bits div 8. \<forall>k < 8. 8 * i + (7 - k) < ones \<longrightarrow> (bit (a ! i) k \<longleftrightarrow> bit (b ! i) k))"
    using assms(1,2) by (simp add: list_eq_iff_nth_eq and_eq_bits mask_bit)
  also have "\<dots> \<longleftrightarrow> (\<forall>j < ones. ip_bit a j \<longleftrightarrow> ip_bit b j)"
  proof (rule iffI; intro allI impI)
    fix j assume all: "\<forall>i < bits div 8. \<forall>k < 8. 8 * i + (7 - k) < ones \<longrightarrow> (bit (a ! i) k \<longleftrightarrow> bit (b ! i) k)" and j: "j < ones"
    have "j div 8 < bits div 8" using j assms(3,4) by (elim dvdE) (simp add: div_less_iff_less_mult mult.commute)
    moreover have "8 * (j div 8) + (7 - (7 - j mod 8)) = j" using mod_less_divisor [of 8 j] mult_div_mod_eq [of 8 j] by linarith
    ultimately show "ip_bit a j \<longleftrightarrow> ip_bit b j" using all j by (simp add: ip_bit_def)
  next
    fix i k :: nat assume all: "\<forall>j < ones. ip_bit a j \<longleftrightarrow> ip_bit b j" and "k < 8" and lt: "8 * i + (7 - k) < ones"
    have "(8 * i + (7 - k)) div 8 = i" "(8 * i + (7 - k)) mod 8 = 7 - k"
      using \<open>k < 8\<close> div_mult_self4 [of 8 i "7 - k"] mod_mult_self4 [of 8 i "7 - k"] by simp_all
    moreover have "7 - (7 - k) = k" using \<open>k < 8\<close> by simp
    ultimately show "bit (a ! i) k \<longleftrightarrow> bit (b ! i) k" using all lt by (metis ip_bit_def)
  qed
  finally show ?thesis .
qed

end
