(* ===== verification/Node_Enrollment.thy ===== *)
theory Node_Enrollment
  imports Node_Invariant Go_Cidr Go_Utf8
begin

text \<open>
  Registration tokens, agent credentials and enrollment profiles (\<open>control_agent_auth.go\<close>,
  \<open>control_node_enrollments.go\<close>, \<open>repo/agents_audit.go\<close>, \<open>repo/node_enrollment_profiles.go\<close>), and the deletion of a
  node, which releases its pending enrollment. Unlike the other operations, an enrollment that is refused still
  commits what it wrote, so the functions of one transaction return its tables beside an error, and
  \<open>withinTx\<close> says what is kept.
\<close>

subsection \<open>Transactions\<close>

type_synonym ('a, 'z) tx = "'z control_db_scheme \<Rightarrow> 'a result \<times> 'z control_db_scheme"

definition tx_return :: "'a \<Rightarrow> ('a, 'z) tx" where
  "tx_return x db = (Inr x, db)"

definition tx_fail :: "service_error \<Rightarrow> ('a, 'z) tx" where
  "tx_fail e db = (Inl e, db)"

definition tx_bind :: "('a, 'z) tx \<Rightarrow> ('a \<Rightarrow> ('b, 'z) tx) \<Rightarrow> ('b, 'z) tx" where
  "tx_bind m f db = (case m db of (Inl e, db') \<Rightarrow> (Inl e, db') | (Inr x, db') \<Rightarrow> f x db')"

definition tx_run :: "('z control_db_scheme \<Rightarrow> 'z control_db_scheme result) \<Rightarrow> (unit, 'z) tx" where
  "tx_run f db = (case f db of Inl e \<Rightarrow> (Inl e, db) | Inr db' \<Rightarrow> (Inr (), db'))"

definition tx_check :: "('z control_db_scheme \<Rightarrow> 'a result) \<Rightarrow> ('a, 'z) tx" where
  "tx_check f db = (f db, db)"

text \<open>\<open>WithinTx\<close>: an error rolls the transaction back.\<close>

definition withinTx :: "('a, 'z) tx \<Rightarrow> ('a, 'z) tx" where
  "withinTx m db = (case m db of (Inl e, db') \<Rightarrow> (Inl e, db) | (Inr x, db') \<Rightarrow> (Inr x, db'))"

text \<open>What an authentication takes from outside the tables: the clock, the keyed hash of a token, whether the signing
  secret and the address of the control plane are configured, and whether the edition has monitors.\<close>

record AgentEnv =
  env_now :: int
  env_tokenHash :: "string \<Rightarrow> string"
  env_secretSet :: bool
  env_installable :: bool
  env_hasMonitors :: bool
  env_timestamp14 :: string

text \<open>Identifiers and the token an exchange draws.\<close>

record FreshIDs =
  fr_nodeID :: string
  fr_credentialID :: string
  fr_plaintext :: string

record AgentEnrollmentMetadata =
  md_Hostname :: string
  md_RemoteIP :: string

record AgentAuthResult =
  ar_AgentType :: string
  ar_AgentID :: string
  ar_RegisteredWithToken :: bool
  ar_RegistrationTokenID :: string
  ar_EnrollmentProfileID :: string
  ar_EnrollmentTokenHash :: string
  ar_EnrollmentMetadata :: AgentEnrollmentMetadata
  ar_AgentCredentialID :: string
  ar_AgentCredential :: string
  ar_AffectedDNSRecordIDs :: "string list"

definition noMetadata :: AgentEnrollmentMetadata where
  "noMetadata = \<lparr>md_Hostname = [], md_RemoteIP = []\<rparr>"

definition emptyAuthResult :: AgentAuthResult where
  "emptyAuthResult =
     \<lparr>ar_AgentType = [], ar_AgentID = [], ar_RegisteredWithToken = False, ar_RegistrationTokenID = [], ar_EnrollmentProfileID = [],
      ar_EnrollmentTokenHash = [], ar_EnrollmentMetadata = noMetadata, ar_AgentCredentialID = [], ar_AgentCredential = [],
      ar_AffectedDNSRecordIDs = []\<rparr>"

subsection \<open>Registration tokens\<close>

definition FindRegistrationTokenByHash :: "'z control_db_scheme \<Rightarrow> string \<Rightarrow> AgentRegistrationTokenRecord option" where
  "FindRegistrationTokenByHash db tokenHash = List.find (\<lambda>t. rt_TokenHash t = tokenHash) (db_RegistrationTokens db)"

definition claimable :: "int \<Rightarrow> string \<Rightarrow> AgentRegistrationTokenRecord \<Rightarrow> bool" where
  "claimable now tokenID t \<longleftrightarrow> rt_ID t = tokenID \<and> rt_UsedAt t = None \<and> rt_RevokedAt t = None \<and> now < rt_ExpiresAt t"

definition ClaimRegistrationToken :: "int \<Rightarrow> string \<Rightarrow> 'z control_db_scheme \<Rightarrow> 'z control_db_scheme result" where
  "ClaimRegistrationToken now tokenID db =
     (if \<not> list_ex (claimable now tokenID) (db_RegistrationTokens db) then Inl SErrNotFound
      else Inr (db\<lparr>db_RegistrationTokens := map (\<lambda>t. if claimable now tokenID t then t\<lparr>rt_UsedAt := Some now\<rparr> else t)
                   (db_RegistrationTokens db)\<rparr>))"

definition RevokeActiveUnusedRegistrationTokens :: "int \<Rightarrow> string \<Rightarrow> string \<Rightarrow> 'z control_db_scheme \<Rightarrow> 'z control_db_scheme" where
  "RevokeActiveUnusedRegistrationTokens now agentType agentID db =
     db\<lparr>db_RegistrationTokens := map (\<lambda>t. if rt_AgentType t = agentType \<and> rt_AgentID t = agentID \<and> rt_UsedAt t = None \<and>
          rt_RevokedAt t = None then t\<lparr>rt_RevokedAt := Some now\<rparr> else t) (db_RegistrationTokens db)\<rparr>"

definition store_CreateRegistrationToken :: "AgentRegistrationTokenRecord \<Rightarrow> 'z control_db_scheme \<Rightarrow> 'z control_db_scheme result" where
  "store_CreateRegistrationToken token db =
     (if list_ex (\<lambda>t. rt_ID t = rt_ID token \<or> rt_TokenHash t = rt_TokenHash token) (db_RegistrationTokens db) then Inl SErrConflict
      else Inr (db\<lparr>db_RegistrationTokens := db_RegistrationTokens db @ [token]\<rparr>))"

definition revocable :: "string \<Rightarrow> string \<Rightarrow> string \<Rightarrow> AgentRegistrationTokenRecord \<Rightarrow> bool" where
  "revocable agentType agentID tokenID t \<longleftrightarrow>
     rt_AgentType t = agentType \<and> rt_AgentID t = agentID \<and> rt_ID t = tokenID \<and> rt_RevokedAt t = None"

definition store_RevokeRegistrationToken :: "int \<Rightarrow> string \<Rightarrow> string \<Rightarrow> string \<Rightarrow> 'z control_db_scheme \<Rightarrow> 'z control_db_scheme result" where
  "store_RevokeRegistrationToken now agentType agentID tokenID db =
     (if \<not> list_ex (revocable agentType agentID tokenID) (db_RegistrationTokens db) then Inl SErrNotFound
      else Inr (db\<lparr>db_RegistrationTokens := map (\<lambda>t. if revocable agentType agentID tokenID t then t\<lparr>rt_RevokedAt := Some now\<rparr> else t)
                   (db_RegistrationTokens db)\<rparr>))"

subsection \<open>Credentials\<close>

definition pending :: "AgentCredentialRecord \<Rightarrow> bool" where
  "pending c \<longleftrightarrow> cr_ActivatedAt c = None \<and> cr_RevokedAt c = None"

definition FindCredentialByHash :: "'z control_db_scheme \<Rightarrow> string \<Rightarrow> AgentCredentialRecord option" where
  "FindCredentialByHash db hash = List.find (\<lambda>c. cr_CredentialHash c = hash) (db_Credentials db)"

text \<open>\<open>ORDER BY created_at DESC, id DESC LIMIT 1\<close>: the last of the ascending order.\<close>

definition FindPendingCredentialByRegistrationToken :: "'z control_db_scheme \<Rightarrow> string \<Rightarrow> AgentCredentialRecord option" where
  "FindPendingCredentialByRegistrationToken db tokenID =
     (let rows = sort_key (\<lambda>c. (cr_CreatedAt c, cr_ID c)) (filter (\<lambda>c. cr_RegistrationTokenID c = tokenID \<and> pending c) (db_Credentials db)) in
      if rows = [] then None else Some (last rows))"

definition ListPendingCredentialsByEnrollmentProfile :: "'z control_db_scheme \<Rightarrow> string \<Rightarrow> AgentCredentialRecord list" where
  "ListPendingCredentialsByEnrollmentProfile db profileID =
     sort_key (\<lambda>c. (cr_CreatedAt c, cr_ID c)) (filter (\<lambda>c. cr_EnrollmentProfileID c = profileID \<and> pending c) (db_Credentials db))"

text \<open>The insert is refused by a unique index (the hash, the pending credential of a token) or by the trigger that
  requires a live node.\<close>

definition CreateCredential :: "AgentCredentialRecord \<Rightarrow> 'z control_db_scheme \<Rightarrow> 'z control_db_scheme result" where
  "CreateCredential credential db =
     (if list_ex (\<lambda>c. cr_ID c = cr_ID credential \<or> cr_CredentialHash c = cr_CredentialHash credential \<or>
          cr_RegistrationTokenID credential \<noteq> [] \<and> cr_RegistrationTokenID c = cr_RegistrationTokenID credential \<and> pending c)
          (db_Credentials db) then Inl SErrConflict
      else if cr_AgentType credential = ''NODE'' \<and> \<not> list_ex (\<lambda>n. nd_ID n = cr_AgentID credential) (db_Nodes db)
      then Inl (SControl ''INTERNAL'')
      else Inr (db\<lparr>db_Credentials := db_Credentials db @ [credential]\<rparr>))"

definition ActivateCredential :: "int \<Rightarrow> string \<Rightarrow> 'z control_db_scheme \<Rightarrow> 'z control_db_scheme result" where
  "ActivateCredential now credentialID db =
     (if \<not> list_ex (\<lambda>c. cr_ID c = credentialID \<and> pending c) (db_Credentials db) then Inl SErrNotFound
      else Inr (db\<lparr>db_Credentials := map (\<lambda>c. if cr_ID c = credentialID \<and> pending c then c\<lparr>cr_ActivatedAt := Some now\<rparr> else c)
                   (db_Credentials db)\<rparr>))"

definition RevokeActiveCredentialsExcept :: "int \<Rightarrow> string \<Rightarrow> string \<Rightarrow> string \<Rightarrow> 'z control_db_scheme \<Rightarrow> 'z control_db_scheme" where
  "RevokeActiveCredentialsExcept now agentType agentID keep db =
     db\<lparr>db_Credentials := map (\<lambda>c. if cr_AgentType c = agentType \<and> cr_AgentID c = agentID \<and> cr_ID c \<noteq> keep \<and> cr_RevokedAt c = None
          then c\<lparr>cr_RevokedAt := Some now\<rparr> else c) (db_Credentials db)\<rparr>"

definition RevokeCredential :: "int \<Rightarrow> string \<Rightarrow> 'z control_db_scheme \<Rightarrow> 'z control_db_scheme result" where
  "RevokeCredential now credentialID db =
     (if \<not> list_ex (\<lambda>c. cr_ID c = credentialID \<and> pending c) (db_Credentials db) then Inl SErrNotFound
      else Inr (db\<lparr>db_Credentials := map (\<lambda>c. if cr_ID c = credentialID \<and> pending c then c\<lparr>cr_RevokedAt := Some now\<rparr> else c)
                   (db_Credentials db)\<rparr>))"

subsection \<open>Profiles\<close>

definition FindNodeEnrollmentProfileByID :: "'z control_db_scheme \<Rightarrow> string \<Rightarrow> NodeEnrollmentProfileRecord option" where
  "FindNodeEnrollmentProfileByID db profileID = List.find (\<lambda>p. ep_ID p = profileID) (db_EnrollmentProfiles db)"

definition FindNodeEnrollmentProfileByTokenHash :: "'z control_db_scheme \<Rightarrow> string \<Rightarrow> NodeEnrollmentProfileRecord option" where
  "FindNodeEnrollmentProfileByTokenHash db tokenHash = List.find (\<lambda>p. ep_TokenHash p = tokenHash) (db_EnrollmentProfiles db)"

text \<open>The CHECK constraints of the table.\<close>

definition profileRowValid :: "NodeEnrollmentProfileRecord \<Rightarrow> bool" where
  "profileRowValid p \<longleftrightarrow>
     0 \<le> ep_MaxUses p \<and> List.member [''AUTO'', ''NATIVE'', ''HAPROXY'', ''NFTABLES''] (ep_DataplaneMode p) \<and>
     ep_DataplaneConflictPolicy p = ''FAIL_FAST''"

definition store_CreateNodeEnrollmentProfile :: "NodeEnrollmentProfileRecord \<Rightarrow> 'z control_db_scheme \<Rightarrow> 'z control_db_scheme result" where
  "store_CreateNodeEnrollmentProfile profile db =
     (if list_ex (\<lambda>p. ep_ID p = ep_ID profile \<or> ep_TokenHash p = ep_TokenHash profile) (db_EnrollmentProfiles db) \<or> \<not> profileRowValid profile then Inl SErrConflict
      else Inr (db\<lparr>db_EnrollmentProfiles := db_EnrollmentProfiles db @ [profile\<lparr>ep_MaxRulePorts := defaultMaxRulePorts (ep_MaxRulePorts profile)\<rparr>]\<rparr>))"

text \<open>The token hash and the count are written only when the token is replaced, and then the count starts at zero.\<close>

definition store_UpdateNodeEnrollmentProfile :: "NodeEnrollmentProfileRecord \<Rightarrow> bool \<Rightarrow> 'z control_db_scheme \<Rightarrow> 'z control_db_scheme result" where
  "store_UpdateNodeEnrollmentProfile profile replaceToken db =
     (if \<not> list_ex (\<lambda>p. ep_ID p = ep_ID profile) (db_EnrollmentProfiles db) then Inl SErrNotFound
      else if replaceToken \<and> list_ex (\<lambda>p. ep_ID p \<noteq> ep_ID profile \<and> ep_TokenHash p = ep_TokenHash profile) (db_EnrollmentProfiles db) \<or>
        \<not> profileRowValid profile
      then Inl SErrConflict
      else Inr (db\<lparr>db_EnrollmentProfiles := map (\<lambda>p. if ep_ID p = ep_ID profile then
             profile\<lparr>ep_MaxRulePorts := defaultMaxRulePorts (ep_MaxRulePorts profile),
               ep_TokenHash := (if replaceToken then ep_TokenHash profile else ep_TokenHash p),
               ep_UsedCount := (if replaceToken then 0 else ep_UsedCount p)\<rparr> else p) (db_EnrollmentProfiles db)\<rparr>))"

definition IncrementNodeEnrollmentProfileUsedCount :: "string \<Rightarrow> 'z control_db_scheme \<Rightarrow> 'z control_db_scheme result" where
  "IncrementNodeEnrollmentProfileUsedCount profileID db =
     (if \<not> list_ex (\<lambda>p. ep_ID p = profileID) (db_EnrollmentProfiles db) then Inl SErrNotFound
      else Inr (db\<lparr>db_EnrollmentProfiles := map (\<lambda>p. if ep_ID p = profileID then p\<lparr>ep_UsedCount := ep_UsedCount p + 1\<rparr> else p)
                   (db_EnrollmentProfiles db)\<rparr>))"

definition DecrementNodeEnrollmentProfileUsedCount :: "string \<Rightarrow> 'z control_db_scheme \<Rightarrow> 'z control_db_scheme" where
  "DecrementNodeEnrollmentProfileUsedCount profileID db =
     db\<lparr>db_EnrollmentProfiles := map (\<lambda>p. if ep_ID p = profileID then p\<lparr>ep_UsedCount := max (ep_UsedCount p - 1) 0\<rparr> else p)
        (db_EnrollmentProfiles db)\<rparr>"

definition store_DeleteNodeEnrollmentProfile :: "string \<Rightarrow> 'z control_db_scheme \<Rightarrow> 'z control_db_scheme result" where
  "store_DeleteNodeEnrollmentProfile profileID db =
     (if \<not> list_ex (\<lambda>p. ep_ID p = profileID) (db_EnrollmentProfiles db) then Inl SErrNotFound
      else Inr (db\<lparr>db_EnrollmentProfiles := filter (\<lambda>p. ep_ID p \<noteq> profileID) (db_EnrollmentProfiles db)\<rparr>))"

definition recordNodeEnrollmentEvent :: "NodeEnrollmentProfileRecord \<Rightarrow> string \<Rightarrow> string \<Rightarrow> string \<Rightarrow> 'z control_db_scheme \<Rightarrow> 'z control_db_scheme" where
  "recordNodeEnrollmentEvent profile nodeID status reasonCode db =
     db\<lparr>db_EnrollmentEvents := db_EnrollmentEvents db @
        [\<lparr>ev_EnrollmentProfileID = ep_ID profile, ev_NodeID = nodeID, ev_Status = status, ev_ReasonCode = reasonCode\<rparr>]\<rparr>"

subsection \<open>Names of enrolled nodes\<close>

definition shortID :: "string \<Rightarrow> string" where
  "shortID i = take 8 (ReplaceAll i ''-'' [])"

text \<open>The runes of the text while they fit; a byte that starts no rune is written as U+FFFD, three bytes.\<close>

function keepRunes :: "nat \<Rightarrow> string \<Rightarrow> string \<Rightarrow> string" where
  "keepRunes maxBytes acc s =
     (if s = [] then acc
      else let w = rune_width s; rune = (if w = 0 then [CHR 0xEF, CHR 0xBF, CHR 0xBD] else take w s) in
        if length acc + length rune > maxBytes then acc
        else keepRunes maxBytes (acc @ rune) (drop (max w 1) s))"
  by pat_completeness auto
termination
  by (relation "measure (\<lambda>(m, acc, s). length s)") auto

declare keepRunes.simps [simp del]

definition trimStringBytes :: "string \<Rightarrow> int \<Rightarrow> string" where
  "trimStringBytes value maxBytes =
     (if maxBytes \<le> 0 then [] else if int (length value) \<le> maxBytes then value
      else TrimSpace (keepRunes (nat maxBytes) [] value))"

text \<open>The replacements are read from a Go map, so their order is any; \<open>order\<close> is the one of a run.\<close>

definition enrollmentReplacements :: "AgentEnv \<Rightarrow> string \<Rightarrow> AgentEnrollmentMetadata \<Rightarrow> (string \<times> string) list" where
  "enrollmentReplacements env nodeID metadata =
     (let hostname = TrimSpace (md_Hostname metadata);
          hostname = (if hostname = [] then ''node-'' @ shortID nodeID else hostname) in
      [(''{{hostname}}'', hostname), (''{{instance_id}}'', []), (''{{private_ip}}'', []),
       (''{{public_ip}}'', TrimSpace (md_RemoteIP metadata)), (''{{timestamp}}'', env_timestamp14 env)])"

definition renderEnrollmentNodeName ::
    "((string \<times> string) list \<Rightarrow> (string \<times> string) list) \<Rightarrow> AgentEnv \<Rightarrow> string \<Rightarrow> string \<Rightarrow> AgentEnrollmentMetadata \<Rightarrow> string" where
  "renderEnrollmentNodeName order env template nodeID metadata =
     (let replacements = enrollmentReplacements env nodeID metadata;
          res = TrimSpace (fold (\<lambda>(key, value) text. ReplaceAll text key value) (order replacements) (TrimSpace template)) in
      if res = [] then snd (hd replacements) else res)"

definition enrollmentNodeNameTemplateCanFit :: "string \<Rightarrow> bool" where
  "enrollmentNodeNameTemplateCanFit template \<longleftrightarrow>
     length (TrimSpace (fold (\<lambda>key text. ReplaceAll text key [])
       [''{{hostname}}'', ''{{instance_id}}'', ''{{private_ip}}'', ''{{public_ip}}'', ''{{timestamp}}''] (TrimSpace template))) \<le> 120"

definition uniqueEnrollmentNodeName :: "string \<Rightarrow> NodeRecord list \<Rightarrow> string \<Rightarrow> string" where
  "uniqueEnrollmentNodeName name nodes nodeID =
     (if list_ex (\<lambda>n. nd_Name n = name) nodes
      then (let suffix = CHR ''-'' # shortID nodeID in trimStringBytes name (120 - int (length suffix)) @ suffix)
      else name)"

subsection \<open>Checks of an enrollment\<close>

definition remoteIPAllowed :: "string \<Rightarrow> string list \<Rightarrow> bool" where
  "remoteIPAllowed rawRemoteIP allowedCIDRs =
     (if allowedCIDRs = [] then True
      else (let remoteIP = ParseIP (TrimSpace rawRemoteIP) in
        if remoteIP = [] then False
        else list_ex (\<lambda>raw. case ParseCIDR (TrimSpace raw) of None \<Rightarrow> False | Some cidr \<Rightarrow> net_Contains cidr remoteIP) allowedCIDRs))"

definition agentPendingCredentialTTL :: int where
  "agentPendingCredentialTTL = 300000000000"

definition pendingCredentialIsStale :: "AgentEnv \<Rightarrow> AgentCredentialRecord \<Rightarrow> bool" where
  "pendingCredentialIsStale env c \<longleftrightarrow> cr_CreatedAt c + agentPendingCredentialTTL \<le> env_now env"

definition appendUniqueStrings :: "string list \<Rightarrow> string list \<Rightarrow> string list" where
  "appendUniqueStrings values next' = values @ uniq (filter (\<lambda>v. v \<noteq> []) values) (filter (\<lambda>v. v \<noteq> []) next')"

text \<open>The text of an error that the reason code is read from; the other errors have none of the phrases.\<close>

definition errorMessage :: "service_error \<Rightarrow> string" where
  "errorMessage e = (case e of SValidation field message \<Rightarrow> message | _ \<Rightarrow> [])"

definition enrollmentFailureCode :: "service_error \<Rightarrow> string" where
  "enrollmentFailureCode e =
     (if Contains (errorMessage e) ''expired'' then ''ENROLLMENT_EXPIRED''
      else if Contains (errorMessage e) ''use limit'' then ''ENROLLMENT_MAX_USES_EXCEEDED''
      else if Contains (errorMessage e) ''source IP'' then ''ENROLLMENT_CIDR_DENIED''
      else if Contains (errorMessage e) ''revoked or disabled'' then ''ENROLLMENT_REVOKED''
      else ''ENROLLMENT_FAILED'')"

definition authResultOf :: "AgentCredentialRecord \<Rightarrow> AgentAuthResult" where
  "authResultOf c =
     emptyAuthResult\<lparr>ar_AgentType := cr_AgentType c, ar_AgentID := cr_AgentID c, ar_RegisteredWithToken := True,
       ar_EnrollmentProfileID := cr_EnrollmentProfileID c, ar_EnrollmentTokenHash := cr_EnrollmentTokenHash c, ar_AgentCredentialID := cr_ID c\<rparr>"

subsection \<open>Releasing a credential\<close>

text \<open>The node of a revoked enrollment credential goes with it, unless enabled rules need it.\<close>

definition releaseNode :: "'z markDNS \<Rightarrow> int \<Rightarrow> string \<Rightarrow> (string list, 'z) tx" where
  "releaseNode markDNS now nodeID =
     (\<lambda>db. case FindNodeByID db nodeID of
        Inl e \<Rightarrow> (Inr [], db)
      | Inr node \<Rightarrow>
          (case validateEnabledRulesForNodeSet db (removeNodeFromSet (ListNodesByOrganization db) nodeID) of
             Inl e \<Rightarrow> (Inl e, db)
           | Inr _ \<Rightarrow>
               let db = (case store_DeleteNode now nodeID db of Inl e \<Rightarrow> db | Inr db' \<Rightarrow> db') in
               (case markDNS (nd_GroupIDs node) db of Inl e \<Rightarrow> (Inl e, db) | Inr (ids, db') \<Rightarrow> (Inr ids, db'))))"

definition returnUse :: "bool \<Rightarrow> AgentAuthResult \<Rightarrow> 'z control_db_scheme \<Rightarrow> 'z control_db_scheme" where
  "returnUse credentialRevoked authResult db =
     (case FindNodeEnrollmentProfileByID db (ar_EnrollmentProfileID authResult) of
        None \<Rightarrow> db
      | Some profile \<Rightarrow> if credentialRevoked \<and> ep_TokenHash profile = ar_EnrollmentTokenHash authResult
                        then DecrementNodeEnrollmentProfileUsedCount (ar_EnrollmentProfileID authResult) db else db)"

definition releaseAgentRegistrationCredentialInTx :: "'z markDNS \<Rightarrow> int \<Rightarrow> AgentAuthResult \<Rightarrow> (string list \<times> bool, 'z) tx" where
  "releaseAgentRegistrationCredentialInTx markDNS now authResult =
     (\<lambda>db. let (credentialRevoked, db) = (case RevokeCredential now (ar_AgentCredentialID authResult) db of Inl e \<Rightarrow> (False, db) | Inr db' \<Rightarrow> (True, db')) in
      if ar_EnrollmentProfileID authResult = [] then (Inr ([], credentialRevoked), db)
      else
        case (if credentialRevoked \<and> ar_AgentID authResult \<noteq> [] then releaseNode markDNS now (ar_AgentID authResult) db else (Inr [], db)) of
          (Inl e, db) \<Rightarrow> (Inl e, db)
        | (Inr ids, db) \<Rightarrow> (Inr (ids, credentialRevoked), returnUse credentialRevoked authResult db))"

fun releaseStaleLoop :: "'z markDNS \<Rightarrow> AgentEnv \<Rightarrow> string \<Rightarrow> int \<Rightarrow> string list \<Rightarrow> AgentCredentialRecord list \<Rightarrow> (int \<times> string list, 'z) tx" where
  "releaseStaleLoop markDNS env tokenHash releasedUses affected [] db = (Inr (releasedUses, affected), db)"
| "releaseStaleLoop markDNS env tokenHash releasedUses affected (c # cs) db =
     (if \<not> pendingCredentialIsStale env c then releaseStaleLoop markDNS env tokenHash releasedUses affected cs db
      else case releaseAgentRegistrationCredentialInTx markDNS (env_now env) (authResultOf c) db of
             (Inl e, db) \<Rightarrow> (Inl e, db)
           | (Inr (ids, released), db) \<Rightarrow>
               releaseStaleLoop markDNS env tokenHash
                 (if released \<and> cr_EnrollmentTokenHash c = tokenHash then releasedUses + 1 else releasedUses)
                 (appendUniqueStrings affected ids) cs db)"

definition releaseStaleNodeEnrollmentReservations :: "'z markDNS \<Rightarrow> AgentEnv \<Rightarrow> NodeEnrollmentProfileRecord \<Rightarrow> (int \<times> string list, 'z) tx" where
  "releaseStaleNodeEnrollmentReservations markDNS env profile =
     (\<lambda>db. releaseStaleLoop markDNS env (ep_TokenHash profile) 0 [] (ListPendingCredentialsByEnrollmentProfile db (ep_ID profile)) db)"

fun releaseAllLoop :: "'z markDNS \<Rightarrow> int \<Rightarrow> string list \<Rightarrow> AgentCredentialRecord list \<Rightarrow> (string list, 'z) tx" where
  "releaseAllLoop markDNS now affected [] db = (Inr affected, db)"
| "releaseAllLoop markDNS now affected (c # cs) db =
     (case releaseAgentRegistrationCredentialInTx markDNS now (authResultOf c) db of
        (Inl e, db) \<Rightarrow> (Inl e, db)
      | (Inr (ids, released), db) \<Rightarrow> releaseAllLoop markDNS now (appendUniqueStrings affected ids) cs db)"

definition releasePendingNodeEnrollmentsForProfile :: "'z markDNS \<Rightarrow> int \<Rightarrow> NodeEnrollmentProfileRecord \<Rightarrow> (string list, 'z) tx" where
  "releasePendingNodeEnrollmentsForProfile markDNS now profile =
     (\<lambda>db. releaseAllLoop markDNS now [] (ListPendingCredentialsByEnrollmentProfile db (ep_ID profile)) db)"

definition releasePendingNodeEnrollmentForNode :: "'z markDNS \<Rightarrow> int \<Rightarrow> NodeRecord \<Rightarrow> (string list \<times> bool, 'z) tx" where
  "releasePendingNodeEnrollmentForNode markDNS now node =
     (\<lambda>db. if TrimSpace (nd_EnrollmentProfileID node) = [] then (Inr ([], False), db)
      else case List.find (\<lambda>c. cr_AgentID c = nd_ID node) (ListPendingCredentialsByEnrollmentProfile db (nd_EnrollmentProfileID node)) of
             None \<Rightarrow> (Inr ([], False), db)
           | Some c \<Rightarrow> releaseAgentRegistrationCredentialInTx markDNS now (authResultOf c) db)"

end
