(* ===== verification/Agent_Auth.thy ===== *)
theory Agent_Auth
  imports Node_Enrollment
begin

text \<open>
  Authentication of agents (\<open>control_agent_auth.go\<close>): a credential, a one-time registration token, or the token of an
  enrollment profile, which creates the node (\<open>control_node_enrollments.go\<close>); the administration of tokens and
  profiles; and \<open>DeleteNode\<close>.
\<close>

subsection \<open>Exchanging an enrollment token\<close>

text \<open>The checks of a profile after the stale reservations were released, on the count they gave back.\<close>

definition checkEnrollmentProfile ::
    "AgentEnv \<Rightarrow> NodeEnrollmentProfileRecord \<Rightarrow> int \<Rightarrow> AgentEnrollmentMetadata \<Rightarrow> bool \<Rightarrow> 'z control_db_scheme \<Rightarrow> unit result" where
  "checkEnrollmentProfile env profile usedCount metadata enforceCIDR db =
     bind_result (fail_if (\<not> ep_Enabled profile \<or> ep_RevokedAt profile \<noteq> None) (SValidation [] ''Enrollment profile is revoked or disabled.'')) (\<lambda>_.
     bind_result (fail_if (case ep_ExpiresAt profile of None \<Rightarrow> False | Some t \<Rightarrow> t \<le> env_now env) (SValidation [] ''Enrollment profile has expired.'')) (\<lambda>_.
     bind_result (fail_if (ep_MaxUses profile > 0 \<and> usedCount \<ge> ep_MaxUses profile) (SValidation [] ''Enrollment profile has reached its use limit.'')) (\<lambda>_.
     bind_result (ensureNodeGroupsExist db (decodeJSONStringList (ep_GroupIDsJSON profile))) (\<lambda>_.
     fail_if (enforceCIDR \<and> \<not> remoteIPAllowed (md_RemoteIP metadata) (decodeJSONStringList (ep_AllowedCIDRsJSON profile)))
       (SValidation [] ''Enrollment source IP is not allowed.'')))))"

text \<open>An error of the releases drops the records they affected; an error of the checks keeps them.\<close>

definition validateNodeEnrollmentProfile ::
    "'z markDNS \<Rightarrow> AgentEnv \<Rightarrow> NodeEnrollmentProfileRecord \<Rightarrow> AgentEnrollmentMetadata \<Rightarrow> bool \<Rightarrow> 'z control_db_scheme \<Rightarrow>
     (string list \<times> service_error option) \<times> 'z control_db_scheme" where
  "validateNodeEnrollmentProfile markDNS env profile metadata enforceCIDR db =
     (case releaseStaleNodeEnrollmentReservations markDNS env profile db of
        (Inl e, db) \<Rightarrow> (([], Some e), db)
      | (Inr (released, affected), db) \<Rightarrow>
          ((affected, case checkEnrollmentProfile env profile (max (ep_UsedCount profile - released) 0) metadata enforceCIDR db of
              Inl e \<Rightarrow> Some e | Inr _ \<Rightarrow> None), db))"

definition enrolledNode ::
    "((string \<times> string) list \<Rightarrow> (string \<times> string) list) \<Rightarrow> AgentEnv \<Rightarrow> NodeEnrollmentProfileRecord \<Rightarrow> string \<Rightarrow> AgentEnrollmentMetadata \<Rightarrow>
     'z control_db_scheme \<Rightarrow> NodeRecord result" where
  "enrolledNode order env profile nodeID metadata db =
     (let renderedName = TrimSpace (renderEnrollmentNodeName order env (ep_NodeNameTemplate profile) nodeID metadata) in
      bind_result (fail_if (renderedName = [] \<or> length renderedName > 120) SErrInvalidInput) (\<lambda>_.
      Inr (shapeCheckNode\<lparr>nd_ID := nodeID, nd_Name := uniqueEnrollmentNodeName renderedName (ListNodesByOrganization db) nodeID,
        nd_Status := ''PENDING'', nd_ConfigStatus := ''PENDING'', nd_Agent := zeroAgentInfo\<lparr>ag_AutoUpdateEnabled := ep_AutoUpdateEnabled profile\<rparr>,
        nd_DataplaneMode := ep_DataplaneMode profile, nd_DataplaneConflictPolicy := ep_DataplaneConflictPolicy profile,
        nd_EnrollmentProfileID := ep_ID profile, nd_GroupIDs := decodeJSONStringList (ep_GroupIDsJSON profile),
        nd_ListenIPs := toNodeListenIPRecords (ep_ListenIPsJSON profile), nd_SendIPs := toNodeSendIPRecords (ep_SendIPsJSON profile),
        nd_PortRanges := toNodePortRangeRecords (ep_PortRangesJSON profile), nd_MaxRulePorts := defaultMaxRulePorts (ep_MaxRulePorts profile),
        nd_DNSPublishAddresses := toNodeDNSPublishAddressRecords (ep_DNSPublishAddressesJSON profile)\<rparr>)))"

definition enrollmentCredential :: "AgentEnv \<Rightarrow> NodeEnrollmentProfileRecord \<Rightarrow> FreshIDs \<Rightarrow> AgentCredentialRecord" where
  "enrollmentCredential env profile fresh =
     \<lparr>cr_ID = fr_credentialID fresh, cr_AgentType = ''NODE'', cr_AgentID = fr_nodeID fresh, cr_CredentialHash = env_tokenHash env (fr_plaintext fresh),
      cr_RegistrationTokenID = [], cr_EnrollmentProfileID = ep_ID profile, cr_EnrollmentTokenHash = ep_TokenHash profile,
      cr_ActivatedAt = None, cr_RevokedAt = None, cr_CreatedAt = env_now env\<rparr>"

definition createNodeFromEnrollmentProfile ::
    "'z markDNS \<Rightarrow> ((string \<times> string) list \<Rightarrow> (string \<times> string) list) \<Rightarrow> AgentEnv \<Rightarrow> FreshIDs \<Rightarrow> NodeEnrollmentProfileRecord \<Rightarrow>
     AgentEnrollmentMetadata \<Rightarrow> 'z control_db_scheme \<Rightarrow> (AgentAuthResult \<times> 'z control_db_scheme) result" where
  "createNodeFromEnrollmentProfile markDNS order env fresh profile metadata db =
     bind_result (enrolledNode order env profile (fr_nodeID fresh) metadata db) (\<lambda>node.
     bind_result (validateEnabledRulesForNodeSet db (replaceNodeInSet (ListNodesByOrganization db) node)) (\<lambda>_.
     bind_result (store_CreateNode node db) (\<lambda>db.
     bind_result (replaceManualNodeDNSPublishAddresses (nd_ID node) (nd_DNSPublishAddresses node) db) (\<lambda>db.
     bind_result (CreateCredential (enrollmentCredential env profile fresh) db) (\<lambda>db.
     bind_result (IncrementNodeEnrollmentProfileUsedCount (ep_ID profile) db) (\<lambda>db.
     bind_result (markDNS (nd_GroupIDs node) db) (\<lambda>(affected, db).
     Inr (\<lparr>ar_AgentType = ''NODE'', ar_AgentID = nd_ID node, ar_RegisteredWithToken = True, ar_RegistrationTokenID = [],
            ar_EnrollmentProfileID = ep_ID profile, ar_EnrollmentTokenHash = ep_TokenHash profile, ar_EnrollmentMetadata = metadata,
            ar_AgentCredentialID = fr_credentialID fresh, ar_AgentCredential = fr_plaintext fresh, ar_AffectedDNSRecordIDs = affected\<rparr>, db))))))))"

text \<open>The outcomes of the enrollment branch: no such profile, a refusal whose writes are committed, a failure that is
  rolled back, or success.\<close>

datatype 'z enrollment =
  EnrollNone
| EnrollRejected NodeEnrollmentProfileRecord service_error "string list" "'z control_db_scheme"
| EnrollFailed NodeEnrollmentProfileRecord service_error
| EnrollOk AgentAuthResult "'z control_db_scheme"

definition authenticateNodeEnrollmentTokenInTx ::
    "'z markDNS \<Rightarrow> ((string \<times> string) list \<Rightarrow> (string \<times> string) list) \<Rightarrow> AgentEnv \<Rightarrow> FreshIDs \<Rightarrow> string \<Rightarrow> bool \<Rightarrow> AgentEnrollmentMetadata \<Rightarrow>
     'z control_db_scheme \<Rightarrow> 'z enrollment" where
  "authenticateNodeEnrollmentTokenInTx markDNS order env fresh tokenHash exchangeRegistration metadata db =
     (case FindNodeEnrollmentProfileByTokenHash db tokenHash of
        None \<Rightarrow> EnrollNone
      | Some profile \<Rightarrow>
          (case validateNodeEnrollmentProfile markDNS env profile metadata exchangeRegistration db of
             ((affected, Some e), db) \<Rightarrow>
               EnrollRejected profile e affected (recordNodeEnrollmentEvent profile [] ''FAILED'' (enrollmentFailureCode e) db)
           | ((affected, None), db) \<Rightarrow>
               if \<not> exchangeRegistration then
                 EnrollOk (emptyAuthResult\<lparr>ar_AgentType := ''NODE'', ar_RegisteredWithToken := True, ar_EnrollmentProfileID := ep_ID profile,
                   ar_EnrollmentTokenHash := ep_TokenHash profile, ar_AffectedDNSRecordIDs := affected\<rparr>) db
               else (case createNodeFromEnrollmentProfile markDNS order env fresh profile metadata db of
                       Inl e \<Rightarrow> EnrollFailed profile e
                     | Inr (r, db) \<Rightarrow> EnrollOk (r\<lparr>ar_AffectedDNSRecordIDs := appendUniqueStrings affected (ar_AffectedDNSRecordIDs r)\<rparr>) db)))"

subsection \<open>Activating a credential\<close>

definition validatePendingEnrollmentCredentialForActivation ::
    "AgentEnv \<Rightarrow> string \<Rightarrow> string \<Rightarrow> AgentEnrollmentMetadata \<Rightarrow> 'z control_db_scheme \<Rightarrow> NodeEnrollmentProfileRecord result" where
  "validatePendingEnrollmentCredentialForActivation env profileID tokenHash metadata db =
     (case FindNodeEnrollmentProfileByTokenHash db tokenHash of
        None \<Rightarrow> Inl SErrForbidden
      | Some profile \<Rightarrow>
          if ep_ID profile \<noteq> profileID \<or> \<not> ep_Enabled profile \<or> ep_RevokedAt profile \<noteq> None \<or>
             (case ep_ExpiresAt profile of None \<Rightarrow> False | Some t \<Rightarrow> t \<le> env_now env) \<or>
             \<not> remoteIPAllowed (md_RemoteIP metadata) (decodeJSONStringList (ep_AllowedCIDRsJSON profile))
          then Inl SErrForbidden else Inr profile)"

text \<open>Claim the registration token of the credential, activate it, revoke the agent's other credentials, and record the
  enrollment.\<close>

definition activate ::
    "AgentEnv \<Rightarrow> string \<Rightarrow> string \<Rightarrow> string \<Rightarrow> string \<Rightarrow> NodeEnrollmentProfileRecord option \<Rightarrow> 'z control_db_scheme \<Rightarrow> 'z control_db_scheme result" where
  "activate env tokenID credentialID agentType agentID profile db =
     bind_result (if tokenID = [] then Inr db
       else case ClaimRegistrationToken (env_now env) tokenID db of Inl e \<Rightarrow> Inl SErrForbidden | Inr db \<Rightarrow> Inr db) (\<lambda>db.
     bind_result (ActivateCredential (env_now env) credentialID db) (\<lambda>db.
     let db = RevokeActiveCredentialsExcept (env_now env) agentType agentID credentialID db in
     Inr (case profile of None \<Rightarrow> db | Some p \<Rightarrow> recordNodeEnrollmentEvent p agentID ''SUCCEEDED'' [] db)))"

definition authenticateCredential ::
    "AgentEnv \<Rightarrow> string \<Rightarrow> bool \<Rightarrow> AgentEnrollmentMetadata \<Rightarrow> AgentCredentialRecord \<Rightarrow> 'z control_db_scheme \<Rightarrow>
     (AgentAuthResult \<times> 'z control_db_scheme) result" where
  "authenticateCredential env agentType exchangeRegistration metadata c db =
     (let answer = emptyAuthResult\<lparr>ar_AgentType := cr_AgentType c, ar_AgentID := cr_AgentID c\<rparr> in
      bind_result (fail_if (cr_AgentType c \<noteq> agentType \<or> cr_RevokedAt c \<noteq> None) SErrForbidden) (\<lambda>_.
      if cr_ActivatedAt c \<noteq> None then Inr (answer, db)
      else
        bind_result (fail_if (cr_RegistrationTokenID c = [] \<and> cr_EnrollmentProfileID c = []) SErrForbidden) (\<lambda>_.
        bind_result (if cr_EnrollmentProfileID c = [] then Inr None
          else bind_result (validatePendingEnrollmentCredentialForActivation env (cr_EnrollmentProfileID c) (cr_EnrollmentTokenHash c) metadata db)
                 (\<lambda>p. Inr (Some p))) (\<lambda>profile.
        if \<not> exchangeRegistration then Inr (answer, db)
        else bind_result (activate env (cr_RegistrationTokenID c) (cr_ID c) (cr_AgentType c) (cr_AgentID c)
               (case profile of Some p \<Rightarrow> if ep_ID p = [] then None else Some p | None \<Rightarrow> None) db) (\<lambda>db. Inr (answer, db))))))"

definition registrationCredential :: "AgentEnv \<Rightarrow> AgentRegistrationTokenRecord \<Rightarrow> FreshIDs \<Rightarrow> AgentCredentialRecord" where
  "registrationCredential env t fresh =
     \<lparr>cr_ID = fr_credentialID fresh, cr_AgentType = rt_AgentType t, cr_AgentID = rt_AgentID t, cr_CredentialHash = env_tokenHash env (fr_plaintext fresh),
      cr_RegistrationTokenID = rt_ID t, cr_EnrollmentProfileID = [], cr_EnrollmentTokenHash = [], cr_ActivatedAt = None, cr_RevokedAt = None,
      cr_CreatedAt = env_now env\<rparr>"

definition authenticateRegistration ::
    "AgentEnv \<Rightarrow> FreshIDs \<Rightarrow> string \<Rightarrow> bool \<Rightarrow> AgentRegistrationTokenRecord \<Rightarrow> 'z control_db_scheme \<Rightarrow> (AgentAuthResult \<times> 'z control_db_scheme) result" where
  "authenticateRegistration env fresh agentType exchangeRegistration t db =
     (let stale = FindPendingCredentialByRegistrationToken db (rt_ID t);
          answer = emptyAuthResult\<lparr>ar_AgentType := rt_AgentType t, ar_AgentID := rt_AgentID t, ar_RegisteredWithToken := True\<rparr> in
      bind_result (fail_if (rt_AgentType t \<noteq> agentType \<or> rt_UsedAt t \<noteq> None \<or> rt_RevokedAt t \<noteq> None) SErrForbidden) (\<lambda>_.
      bind_result (fail_if (rt_ExpiresAt t \<le> env_now env) SErrForbidden) (\<lambda>_.
      bind_result (fail_if (case stale of None \<Rightarrow> False | Some c \<Rightarrow> \<not> pendingCredentialIsStale env c) SErrForbidden) (\<lambda>_.
      if \<not> exchangeRegistration then Inr (answer, db)
      else
        bind_result (case stale of None \<Rightarrow> Inr db | Some c \<Rightarrow> RevokeCredential (env_now env) (cr_ID c) db) (\<lambda>db.
        bind_result (CreateCredential (registrationCredential env t fresh) db) (\<lambda>db.
        Inr (answer\<lparr>ar_RegistrationTokenID := rt_ID t, ar_AgentCredentialID := fr_credentialID fresh,
               ar_AgentCredential := fr_plaintext fresh\<rparr>, db)))))))"

definition authenticateAgentToken ::
    "'z markDNS \<Rightarrow> ((string \<times> string) list \<Rightarrow> (string \<times> string) list) \<Rightarrow> AgentEnv \<Rightarrow> FreshIDs \<Rightarrow> string \<Rightarrow> string \<Rightarrow> bool \<Rightarrow>
     AgentEnrollmentMetadata \<Rightarrow> (AgentAuthResult, 'z) tx" where
  "authenticateAgentToken markDNS order env fresh agentType token exchangeRegistration metadata =
     (\<lambda>db. let agentType = ToUpper (TrimSpace agentType); token = TrimSpace token; tokenHash = env_tokenHash env token;
          commit = (\<lambda>r. case r of Inl e \<Rightarrow> (Inl e, db) | Inr (a, db') \<Rightarrow> (Inr a, db')) in
      if agentType \<noteq> ''NODE'' \<and> agentType \<noteq> ''MONITOR'' then (Inl SErrInvalidInput, db)
      else if agentType = ''MONITOR'' \<and> \<not> env_hasMonitors env then (Inl SErrForbidden, db)
      else if token = [] \<or> \<not> env_secretSet env then (Inl SErrForbidden, db)
      else case FindCredentialByHash db tokenHash of
             Some c \<Rightarrow> commit (authenticateCredential env agentType exchangeRegistration metadata c db)
           | None \<Rightarrow>
               (case FindRegistrationTokenByHash db tokenHash of
                  Some t \<Rightarrow> commit (authenticateRegistration env fresh agentType exchangeRegistration t db)
                | None \<Rightarrow>
                    if agentType \<noteq> ''NODE'' then (Inl SErrNotFound, db)
                    else case authenticateNodeEnrollmentTokenInTx markDNS order env fresh tokenHash exchangeRegistration metadata db of
                           EnrollNone \<Rightarrow> (Inl SErrNotFound, db)
                         | EnrollRejected profile e affected db' \<Rightarrow> (Inl e, db')
                         | EnrollFailed profile e \<Rightarrow> (Inl e, recordNodeEnrollmentEvent profile [] ''FAILED'' (enrollmentFailureCode e) db)
                         | EnrollOk r db' \<Rightarrow> (Inr r, db')))"

definition FinalizeAgentRegistrationDelivery :: "AgentEnv \<Rightarrow> AgentAuthResult \<Rightarrow> (unit, 'z) tx" where
  "FinalizeAgentRegistrationDelivery env authResult =
     (\<lambda>db. if \<not> ar_RegisteredWithToken authResult \<or> ar_AgentCredentialID authResult = [] then (Inr (), db)
      else tx_run (\<lambda>db.
        bind_result (if ar_RegistrationTokenID authResult = [] then Inr db
          else case ClaimRegistrationToken (env_now env) (ar_RegistrationTokenID authResult) db of Inl e \<Rightarrow> Inl SErrForbidden | Inr db \<Rightarrow> Inr db) (\<lambda>db.
        bind_result (if ar_EnrollmentProfileID authResult \<noteq> [] \<and> ar_RegistrationTokenID authResult = []
          then bind_result (validatePendingEnrollmentCredentialForActivation env (ar_EnrollmentProfileID authResult)
                 (ar_EnrollmentTokenHash authResult) (ar_EnrollmentMetadata authResult) db) (\<lambda>p. Inr (Some p)) else Inr None) (\<lambda>profile.
        activate env [] (ar_AgentCredentialID authResult) (ar_AgentType authResult) (ar_AgentID authResult)
          (case profile of Some p \<Rightarrow> if ep_ID p = [] then None else Some p | None \<Rightarrow> None) db))) db)"

definition ReleaseAgentRegistrationCredential :: "'z markDNS \<Rightarrow> AgentEnv \<Rightarrow> AgentAuthResult \<Rightarrow> (string list, 'z) tx" where
  "ReleaseAgentRegistrationCredential markDNS env authResult =
     (if \<not> ar_RegisteredWithToken authResult \<or> ar_AgentCredentialID authResult = [] then tx_return []
      else withinTx (tx_bind (releaseAgentRegistrationCredentialInTx markDNS (env_now env) authResult) (\<lambda>(ids, _). tx_return ids)))"

subsection \<open>Administration of tokens\<close>

definition FindMonitorByID :: "'z control_db_scheme \<Rightarrow> string \<Rightarrow> MonitorRecord result" where
  "FindMonitorByID db monitorID =
     (case List.find (\<lambda>m. mon_ID m = monitorID) (db_Monitors db) of None \<Rightarrow> Inl SErrNotFound | Some m \<Rightarrow> Inr m)"

definition ensureCanManageAgent :: "ControlService \<Rightarrow> InternalIdentity \<Rightarrow> string \<Rightarrow> string \<Rightarrow> 'z control_db_scheme \<Rightarrow> unit result" where
  "ensureCanManageAgent service identity agentType agentID db =
     (if agentType = ''NODE'' then
        bind_result (fail_if (\<not> hasPermission service identity ''nodes.manage'') SErrForbidden) (\<lambda>_.
        bind_result (FindNodeByID db agentID) (\<lambda>node.
        ensureCanManageNodeGroups (svc_authorizer service) identity (nd_GroupIDs node)))
      else if agentType = ''MONITOR'' then
        bind_result (fail_if (\<not> hasPermission service identity ''monitors.manage'') SErrForbidden) (\<lambda>_.
        bind_result (FindMonitorByID db agentID) (\<lambda>_. Inr ()))
      else Inl SErrInvalidInput)"

definition newRegistrationToken :: "AgentEnv \<Rightarrow> string \<Rightarrow> string \<Rightarrow> string \<Rightarrow> string \<Rightarrow> int \<Rightarrow> AgentRegistrationTokenRecord" where
  "newRegistrationToken env newID plaintext agentType agentID ttlHours =
     \<lparr>rt_ID = newID, rt_AgentType = agentType, rt_AgentID = agentID, rt_TokenHash = env_tokenHash env plaintext,
      rt_ExpiresAt = env_now env + ttlHours * 3600000000000, rt_UsedAt = None, rt_RevokedAt = None\<rparr>"

definition CreateRegistrationToken ::
    "AgentEnv \<Rightarrow> ControlService \<Rightarrow> InternalIdentity \<Rightarrow> string \<Rightarrow> string \<Rightarrow> string \<Rightarrow> string \<Rightarrow> int \<Rightarrow> 'z control_db_scheme \<Rightarrow>
     'z control_db_scheme result" where
  "CreateRegistrationToken env service identity newID plaintext agentType agentID ttlHours db =
     (let ttlHours = (if ttlHours = 0 then 24 else ttlHours) in
      bind_result (fail_if (\<not> env_secretSet env \<or> \<not> env_installable env) SErrInvalidInput) (\<lambda>_.
      bind_result (fail_if (ttlHours < 1 \<or> ttlHours > 168) SErrInvalidInput) (\<lambda>_.
      bind_result (ensureCanManageAgent service identity agentType agentID db) (\<lambda>_.
      bind_result (store_CreateRegistrationToken (newRegistrationToken env newID plaintext agentType agentID ttlHours)
        (RevokeActiveUnusedRegistrationTokens (env_now env) agentType agentID db)) (\<lambda>db.
      Inr (writeAudit identity (ToLower agentType @ ''_registration_tokens.create'') ''AGENT_REGISTRATION_TOKEN'' newID db))))))"

definition RevokeRegistrationToken ::
    "AgentEnv \<Rightarrow> ControlService \<Rightarrow> InternalIdentity \<Rightarrow> string \<Rightarrow> string \<Rightarrow> string \<Rightarrow> 'z control_db_scheme \<Rightarrow> 'z control_db_scheme result" where
  "RevokeRegistrationToken env service identity agentType agentID tokenID db =
     bind_result (ensureCanManageAgent service identity agentType agentID db) (\<lambda>_.
     bind_result (store_RevokeRegistrationToken (env_now env) agentType agentID tokenID db) (\<lambda>db.
     Inr (writeAudit identity (ToLower agentType @ ''_registration_tokens.revoke'') ''AGENT_REGISTRATION_TOKEN'' tokenID db)))"

subsection \<open>Administration of profiles\<close>

text \<open>A time in a request is what \<open>time.Parse\<close> makes of it.\<close>

datatype time_text = NoTime | BadTime | At int

record NodeEnrollmentProfileMutationInput =
  epi_Name :: "string option"
  epi_Description :: "string option"
  epi_Enabled :: "bool option"
  epi_ExpiresAt :: "time_text option"
  epi_MaxUses :: "int option"
  epi_NodeNameTemplate :: "string option"
  epi_GroupIDs :: "string list option"
  epi_ListenIPs :: "NodeListenIPInput list option"
  epi_SendIPs :: "NodeSendIPInput list option"
  epi_PortRanges :: "NodePortRangeInput list option"
  epi_MaxRulePorts :: "int option"
  epi_DNSPublishAddresses :: "NodeDNSPublishAddressInput list option"
  epi_DataplaneMode :: "string option"
  epi_DataplaneConflictPolicy :: "string option"
  epi_AutoUpdateEnabled :: "bool option"
  epi_AllowedCIDRs :: "string list option"

definition value_or :: "'a option \<Rightarrow> 'a \<Rightarrow> 'a" where
  "value_or v d = (case v of None \<Rightarrow> d | Some x \<Rightarrow> x)"

definition mergeNodeEnrollmentProfilePatchInput ::
    "NodeEnrollmentProfileMutationInput \<Rightarrow> NodeEnrollmentProfileRecord \<Rightarrow> NodeEnrollmentProfileMutationInput" where
  "mergeNodeEnrollmentProfilePatchInput i p =
     \<lparr>epi_Name = Some (value_or (epi_Name i) (ep_Name p)), epi_Description = Some (value_or (epi_Description i) (ep_Description p)),
      epi_Enabled = Some (value_or (epi_Enabled i) (ep_Enabled p)),
      epi_ExpiresAt = Some (value_or (epi_ExpiresAt i) (case ep_ExpiresAt p of None \<Rightarrow> NoTime | Some t \<Rightarrow> At t)),
      epi_MaxUses = Some (value_or (epi_MaxUses i) (ep_MaxUses p)),
      epi_NodeNameTemplate = Some (value_or (epi_NodeNameTemplate i) (ep_NodeNameTemplate p)),
      epi_GroupIDs = Some (value_or (epi_GroupIDs i) (decodeJSONStringList (ep_GroupIDsJSON p))),
      epi_ListenIPs = Some (value_or (epi_ListenIPs i) (ep_ListenIPsJSON p)), epi_SendIPs = Some (value_or (epi_SendIPs i) (ep_SendIPsJSON p)),
      epi_PortRanges = Some (value_or (epi_PortRanges i) (ep_PortRangesJSON p)),
      epi_MaxRulePorts = Some (value_or (epi_MaxRulePorts i) (defaultMaxRulePorts (ep_MaxRulePorts p))),
      epi_DNSPublishAddresses = Some (value_or (epi_DNSPublishAddresses i) (ep_DNSPublishAddressesJSON p)),
      epi_DataplaneMode = Some (value_or (epi_DataplaneMode i) (ep_DataplaneMode p)),
      epi_DataplaneConflictPolicy = Some (value_or (epi_DataplaneConflictPolicy i) (ep_DataplaneConflictPolicy p)),
      epi_AutoUpdateEnabled = Some (value_or (epi_AutoUpdateEnabled i) (ep_AutoUpdateEnabled p)),
      epi_AllowedCIDRs = Some (value_or (epi_AllowedCIDRs i) (decodeJSONStringList (ep_AllowedCIDRsJSON p)))\<rparr>"

text \<open>\<open>normalizeNodeEnrollmentProfileInput\<close> and \<open>nodeEnrollmentProfileRecordFromInput\<close>: the checks in the order of the code,
  then the row written over the given one. A field that was not given has its zero value.\<close>

definition normalizeNodeEnrollmentProfileInput ::
    "NodeEnrollmentProfileMutationInput \<Rightarrow> NodeEnrollmentProfileMutationInput result" where
  "normalizeNodeEnrollmentProfileInput i =
     (let name = TrimSpace (list_or_nil (epi_Name i)); template = TrimSpace (list_or_nil (epi_NodeNameTemplate i));
          template = (if template = [] then ''{{hostname}}'' else template);
          mode = (if TrimSpace (list_or_nil (epi_DataplaneMode i)) = [] then ''AUTO'' else list_or_nil (epi_DataplaneMode i));
          policy = (if TrimSpace (list_or_nil (epi_DataplaneConflictPolicy i)) = [] then ''FAIL_FAST'' else list_or_nil (epi_DataplaneConflictPolicy i)) in
      bind_result (fail_if (name = []) (SValidation ''name'' ''Node enrollment profile name is required.'')) (\<lambda>_.
      bind_result (fail_if (value_or (epi_MaxUses i) 0 < 0) (SValidation ''max_uses'' ''Maximum uses cannot be negative.'')) (\<lambda>_.
      bind_result (fail_if (epi_ExpiresAt i = Some BadTime) (SValidation ''expires_at'' ''Expiration must be a valid RFC3339 timestamp.'')) (\<lambda>_.
      bind_result (fail_if (\<not> enrollmentNodeNameTemplateCanFit template) (SValidation ''node_name_template'' ''Node name template is too long.'')) (\<lambda>_.
      bind_result (fail_if (list_or_nil (epi_GroupIDs i) = []) (SValidation ''group_ids'' ''At least one node group is required.'')) (\<lambda>_.
      bind_result (normalizeNodeDataplaneModeForMutation mode) (\<lambda>mode.
      bind_result (validateNodeDataplaneConflictPolicy policy) (\<lambda>_.
      bind_result (each (\<lambda>cidr. fail_if (TrimSpace cidr \<noteq> [] \<and> ParseCIDR (TrimSpace cidr) = None)
        (SValidation ''allowed_cidrs'' ''Allowed source CIDR is invalid.'')) (list_or_nil (epi_AllowedCIDRs i))) (\<lambda>_.
      Inr (i\<lparr>epi_Name := Some name, epi_Description := Some (TrimSpace (list_or_nil (epi_Description i))), epi_NodeNameTemplate := Some template,
        epi_DataplaneMode := Some mode, epi_DataplaneConflictPolicy := Some policy,
        epi_ListenIPs := Some (if list_or_nil (epi_ListenIPs i) = [] then [\<lparr>nlii_ListenIP = ''0.0.0.0'', nlii_DisplayName = ''default''\<rparr>]
          else list_or_nil (epi_ListenIPs i)),
        epi_PortRanges := Some (if list_or_nil (epi_PortRanges i) = [] then [\<lparr>npri_Protocol = ProtocolTCP, npri_StartPort = 10000, npri_EndPort = 20000\<rparr>]
          else list_or_nil (epi_PortRanges i)),
        epi_MaxRulePorts := Some (defaultMaxRulePorts (value_or (epi_MaxRulePorts i) 0))\<rparr>))))))))))"

definition nodeEnrollmentProfileRecordFromInput ::
    "NodeEnrollmentProfileMutationInput \<Rightarrow> NodeEnrollmentProfileRecord \<Rightarrow> NodeEnrollmentProfileRecord" where
  "nodeEnrollmentProfileRecordFromInput i p =
     p\<lparr>ep_Name := list_or_nil (epi_Name i), ep_Description := list_or_nil (epi_Description i), ep_Enabled := value_or (epi_Enabled i) False,
       ep_ExpiresAt := (case epi_ExpiresAt i of Some (At t) \<Rightarrow> Some t | _ \<Rightarrow> None), ep_MaxUses := value_or (epi_MaxUses i) 0,
       ep_NodeNameTemplate := list_or_nil (epi_NodeNameTemplate i), ep_GroupIDsJSON := list_or_nil (epi_GroupIDs i),
       ep_ListenIPsJSON := list_or_nil (epi_ListenIPs i), ep_SendIPsJSON := list_or_nil (epi_SendIPs i),
       ep_PortRangesJSON := list_or_nil (epi_PortRanges i), ep_MaxRulePorts := defaultMaxRulePorts (value_or (epi_MaxRulePorts i) 0),
       ep_DNSPublishAddressesJSON := list_or_nil (epi_DNSPublishAddresses i), ep_DataplaneMode := list_or_nil (epi_DataplaneMode i),
       ep_DataplaneConflictPolicy := list_or_nil (epi_DataplaneConflictPolicy i), ep_AutoUpdateEnabled := value_or (epi_AutoUpdateEnabled i) False,
       ep_AllowedCIDRsJSON := list_or_nil (epi_AllowedCIDRs i)\<rparr>"

definition newProfile :: "string \<Rightarrow> string \<Rightarrow> NodeEnrollmentProfileRecord" where
  "newProfile newID tokenHash =
     \<lparr>ep_ID = newID, ep_Name = [], ep_Description = [], ep_TokenHash = tokenHash, ep_Enabled = False, ep_ExpiresAt = None, ep_MaxUses = 0,
      ep_UsedCount = 0, ep_NodeNameTemplate = [], ep_GroupIDsJSON = [], ep_ListenIPsJSON = [], ep_SendIPsJSON = [], ep_PortRangesJSON = [],
      ep_MaxRulePorts = 0, ep_DNSPublishAddressesJSON = [], ep_DataplaneMode = [], ep_DataplaneConflictPolicy = [], ep_AutoUpdateEnabled = False,
      ep_AllowedCIDRsJSON = [], ep_RevokedAt = None\<rparr>"

definition ensureCanIssueNodeEnrollmentToken :: "AgentEnv \<Rightarrow> unit result" where
  "ensureCanIssueNodeEnrollmentToken env = fail_if (\<not> env_secretSet env \<or> \<not> env_installable env) SErrInvalidInput"

definition CreateNodeEnrollmentProfile ::
    "AgentEnv \<Rightarrow> ControlService \<Rightarrow> InternalIdentity \<Rightarrow> string \<Rightarrow> string \<Rightarrow> NodeEnrollmentProfileMutationInput \<Rightarrow> 'z control_db_scheme \<Rightarrow>
     'z control_db_scheme result" where
  "CreateNodeEnrollmentProfile env service identity newID plaintext input db =
     bind_result (fail_if (\<not> hasPermission service identity ''nodes.manage'') SErrForbidden) (\<lambda>_.
     bind_result (ensureCanIssueNodeEnrollmentToken env) (\<lambda>_.
     bind_result (normalizeNodeEnrollmentProfileInput input) (\<lambda>input.
     bind_result (ensureCanManageNodeGroups (svc_authorizer service) identity (list_or_nil (epi_GroupIDs input))) (\<lambda>_.
     bind_result (ensureNodeGroupsExist db (list_or_nil (epi_GroupIDs input))) (\<lambda>_.
     bind_result (store_CreateNodeEnrollmentProfile
       (nodeEnrollmentProfileRecordFromInput input (newProfile newID (env_tokenHash env plaintext))) db) (\<lambda>db.
     Inr (writeAudit identity ''node_enrollment_profiles.create'' ''NODE_ENROLLMENT_PROFILE'' newID db)))))))"

definition findProfile :: "'z control_db_scheme \<Rightarrow> string \<Rightarrow> NodeEnrollmentProfileRecord result" where
  "findProfile db profileID = (case FindNodeEnrollmentProfileByID db profileID of None \<Rightarrow> Inl SErrNotFound | Some p \<Rightarrow> Inr p)"

definition UpdateNodeEnrollmentProfile ::
    "ControlService \<Rightarrow> InternalIdentity \<Rightarrow> string \<Rightarrow> NodeEnrollmentProfileMutationInput \<Rightarrow> 'z control_db_scheme \<Rightarrow> 'z control_db_scheme result" where
  "UpdateNodeEnrollmentProfile service identity profileID input db =
     bind_result (fail_if (\<not> hasPermission service identity ''nodes.manage'') SErrForbidden) (\<lambda>_.
     bind_result (findProfile db profileID) (\<lambda>existing.
     bind_result (ensureCanManageNodeGroups (svc_authorizer service) identity (decodeJSONStringList (ep_GroupIDsJSON existing))) (\<lambda>_.
     bind_result (normalizeNodeEnrollmentProfileInput (mergeNodeEnrollmentProfilePatchInput input existing)) (\<lambda>input.
     bind_result (ensureCanManageNodeGroups (svc_authorizer service) identity (list_or_nil (epi_GroupIDs input))) (\<lambda>_.
     bind_result (ensureNodeGroupsExist db (list_or_nil (epi_GroupIDs input))) (\<lambda>_.
     bind_result (store_UpdateNodeEnrollmentProfile (nodeEnrollmentProfileRecordFromInput input existing) False db) (\<lambda>db.
     Inr (writeAudit identity ''node_enrollment_profiles.update'' ''NODE_ENROLLMENT_PROFILE'' profileID db))))))))"

definition RotateNodeEnrollmentProfileToken ::
    "AgentEnv \<Rightarrow> ControlService \<Rightarrow> InternalIdentity \<Rightarrow> string \<Rightarrow> string \<Rightarrow> 'z control_db_scheme \<Rightarrow> 'z control_db_scheme result" where
  "RotateNodeEnrollmentProfileToken env service identity plaintext profileID db =
     bind_result (fail_if (\<not> hasPermission service identity ''nodes.manage'') SErrForbidden) (\<lambda>_.
     bind_result (ensureCanIssueNodeEnrollmentToken env) (\<lambda>_.
     bind_result (findProfile db profileID) (\<lambda>profile.
     bind_result (ensureCanManageNodeGroups (svc_authorizer service) identity (decodeJSONStringList (ep_GroupIDsJSON profile))) (\<lambda>_.
     bind_result (store_UpdateNodeEnrollmentProfile
       (profile\<lparr>ep_TokenHash := env_tokenHash env plaintext, ep_UsedCount := 0, ep_RevokedAt := None\<rparr>) True db) (\<lambda>db.
     Inr (writeAudit identity ''node_enrollment_profiles.rotate_token'' ''NODE_ENROLLMENT_PROFILE'' profileID db))))))"

definition DeleteNodeEnrollmentProfile ::
    "'z markDNS \<Rightarrow> AgentEnv \<Rightarrow> ControlService \<Rightarrow> InternalIdentity \<Rightarrow> string \<Rightarrow> (string list, 'z) tx" where
  "DeleteNodeEnrollmentProfile markDNS env service identity profileID = withinTx (
     tx_bind (tx_check (\<lambda>db. fail_if (\<not> hasPermission service identity ''nodes.manage'') SErrForbidden)) (\<lambda>_.
     tx_bind (tx_check (\<lambda>db. findProfile db profileID)) (\<lambda>profile.
     tx_bind (tx_check (\<lambda>db. ensureCanManageNodeGroups (svc_authorizer service) identity (decodeJSONStringList (ep_GroupIDsJSON profile)))) (\<lambda>_.
     tx_bind (releasePendingNodeEnrollmentsForProfile markDNS (env_now env) profile) (\<lambda>affected.
     tx_bind (tx_run (store_DeleteNodeEnrollmentProfile profileID)) (\<lambda>_.
     tx_bind (tx_run (\<lambda>db. Inr (writeAudit identity ''node_enrollment_profiles.delete'' ''NODE_ENROLLMENT_PROFILE'' profileID db))) (\<lambda>_.
     tx_return affected)))))))"

subsection \<open>DeleteNode\<close>

definition DeleteNode :: "'z markDNS \<Rightarrow> AgentEnv \<Rightarrow> ControlService \<Rightarrow> InternalIdentity \<Rightarrow> string \<Rightarrow> (string list, 'z) tx" where
  "DeleteNode markDNS env service identity nodeID = withinTx (
     tx_bind (tx_check (\<lambda>db. fail_if (\<not> hasPermission service identity ''nodes.manage'') SErrForbidden)) (\<lambda>_.
     tx_bind (tx_check (\<lambda>db. FindNodeByID db nodeID)) (\<lambda>node.
     tx_bind (tx_check (\<lambda>db. ensureCanManageNodeGroups (svc_authorizer service) identity (nd_GroupIDs node))) (\<lambda>_.
     tx_bind (tx_check (\<lambda>db. validateEnabledRulesForNodeSet db (removeNodeFromSet (ListNodesByOrganization db) nodeID))) (\<lambda>_.
     tx_bind (releasePendingNodeEnrollmentForNode markDNS (env_now env) node) (\<lambda>(releasedDNSRecordIDs, released).
     if released then
       tx_bind (tx_run (\<lambda>db. Inr (writeAudit identity ''nodes.delete'' ''NODE'' nodeID db))) (\<lambda>_. tx_return releasedDNSRecordIDs)
     else
       tx_bind (tx_run (store_DeleteNode (env_now env) nodeID)) (\<lambda>_ db.
         case markDNS (nd_GroupIDs node) db of
           Inl e \<Rightarrow> (Inl e, db)
         | Inr (affected, db) \<Rightarrow> (Inr affected, writeAudit identity ''nodes.delete'' ''NODE'' nodeID db))))))))"

end
