(* ===== verification/Target_Service.thy ===== *)
theory Target_Service
  imports Rule_Invariant
begin

text \<open>
  Targets and target groups (\<open>control_targets.go\<close>, their statements in \<open>repo/targets_rules.go\<close>, and the bumps of
  \<open>control_rule_helpers.go\<close>). A change of a target or of a group that a rule uses raises the desired configuration
  version of the nodes that run the rule; no operation may leave a rule without a usable upstream.
\<close>

subsection \<open>Inputs\<close>

record TargetMutationInput =
  ti_Name :: string
  ti_Host :: string
  ti_Port :: int
  ti_Enabled :: bool
  ti_TargetGroupIDs :: "string list option"

record TargetGroupMemberInput =
  tgm_TargetID :: string
  tgm_Priority :: int
  tgm_Weight :: int
  tgm_WeightProvided :: bool
  tgm_Enabled :: bool

record TargetGroupMutationInput =
  tgi_Name :: string
  tgi_Description :: string
  tgi_Scheduler :: string
  tgi_Members :: "TargetGroupMemberInput list"

definition maxTargetGroupMemberWeight :: int where
  "maxTargetGroupMemberWeight = 256"

definition defaultTargetGroupMemberPriority :: int where
  "defaultTargetGroupMemberPriority = 10"

subsection \<open>The store\<close>

definition ListTargetGroupsByOrganization :: "'z control_db_scheme \<Rightarrow> TargetGroupRecord list" where
  "ListTargetGroupsByOrganization db =
     map (\<lambda>g. g\<lparr>grp_Members := sort_key (\<lambda>m. (mem_Priority m, mem_TargetID m)) (grp_Members g)\<rparr>)
       (sort_key (\<lambda>g. (grp_Name g, grp_ID g)) (db_TargetGroups db))"

definition store_CreateTarget :: "TargetRecord \<Rightarrow> 'z control_db_scheme \<Rightarrow> 'z control_db_scheme result" where
  "store_CreateTarget target db =
     (if list_ex (\<lambda>t. tgt_ID t = tgt_ID target) (db_Targets db) then Inl SErrConflict
      else Inr (db\<lparr>db_Targets := db_Targets db @ [target]\<rparr>))"

definition store_UpdateTarget :: "TargetRecord \<Rightarrow> 'z control_db_scheme \<Rightarrow> 'z control_db_scheme result" where
  "store_UpdateTarget target db =
     (if \<not> list_ex (\<lambda>t. tgt_ID t = tgt_ID target) (db_Targets db) then Inl SErrNotFound
      else Inr (db\<lparr>db_Targets := map (\<lambda>t. if tgt_ID t = tgt_ID target then target else t) (db_Targets db)\<rparr>))"

definition store_DeleteTarget :: "string \<Rightarrow> 'z control_db_scheme \<Rightarrow> 'z control_db_scheme result" where
  "store_DeleteTarget targetID db =
     (if \<not> list_ex (\<lambda>t. tgt_ID t = targetID) (db_Targets db) then Inl SErrNotFound
      else Inr (db\<lparr>db_Targets := filter (\<lambda>t. tgt_ID t \<noteq> targetID) (db_Targets db)\<rparr>))"

text \<open>The UNIQUE and CHECK constraints of \<open>target_group_members\<close>.\<close>

definition membersValid :: "TargetGroupMemberRecord list \<Rightarrow> bool" where
  "membersValid members \<longleftrightarrow> distinct (map mem_TargetID members) \<and> list_all (\<lambda>m. 0 \<le> mem_Weight m) members"

definition store_CreateTargetGroup :: "TargetGroupRecord \<Rightarrow> TargetGroupMemberRecord list \<Rightarrow> 'z control_db_scheme \<Rightarrow> 'z control_db_scheme result" where
  "store_CreateTargetGroup grp members db =
     (if list_ex (\<lambda>g. grp_ID g = grp_ID grp) (db_TargetGroups db) \<or> \<not> membersValid members then Inl SErrConflict
      else Inr (db\<lparr>db_TargetGroups := db_TargetGroups db @ [grp\<lparr>grp_Members := members\<rparr>]\<rparr>))"

definition store_UpdateTargetGroup :: "TargetGroupRecord \<Rightarrow> TargetGroupMemberRecord list \<Rightarrow> 'z control_db_scheme \<Rightarrow> 'z control_db_scheme result" where
  "store_UpdateTargetGroup grp members db =
     (if \<not> list_ex (\<lambda>g. grp_ID g = grp_ID grp) (db_TargetGroups db) then Inl SErrNotFound
      else if \<not> membersValid members then Inl SErrConflict
      else Inr (db\<lparr>db_TargetGroups := map (\<lambda>g. if grp_ID g = grp_ID grp then grp\<lparr>grp_Members := members\<rparr> else g) (db_TargetGroups db)\<rparr>))"

definition store_DeleteTargetGroup :: "string \<Rightarrow> 'z control_db_scheme \<Rightarrow> 'z control_db_scheme result" where
  "store_DeleteTargetGroup groupID db =
     (if \<not> list_ex (\<lambda>g. grp_ID g = groupID) (db_TargetGroups db) then Inl SErrNotFound
      else Inr (db\<lparr>db_TargetGroups := filter (\<lambda>g. grp_ID g \<noteq> groupID) (db_TargetGroups db)\<rparr>))"

subsection \<open>Checks\<close>

definition groupUsesTarget :: "string \<Rightarrow> TargetGroupRecord \<Rightarrow> bool" where
  "groupUsesTarget targetID grp = list_ex (\<lambda>m. mem_TargetID m = targetID) (grp_Members grp)"

definition ensureTargetNotUsedByRules :: "'z control_db_scheme \<Rightarrow> string \<Rightarrow> unit result" where
  "ensureTargetNotUsedByRules db targetID =
     (let rules = ListRulesByOrganization db;
          groupIDs = map grp_ID (filter (groupUsesTarget targetID) (ListTargetGroupsByOrganization db)) in
      bind_result (each (\<lambda>r. fail_if (rule_TargetType r = ''TARGET'' \<and> rule_TargetID r = targetID) SErrConflict) rules) (\<lambda>_.
      each (\<lambda>r. fail_if (rule_TargetType r = ''TARGET_GROUP'' \<and> List.member groupIDs (rule_TargetGroupID r)) SErrConflict) rules))"

definition ensureTargetGroupNotUsedByRules :: "'z control_db_scheme \<Rightarrow> string \<Rightarrow> unit result" where
  "ensureTargetGroupNotUsedByRules db groupID =
     each (\<lambda>r. fail_if (rule_TargetType r = ''TARGET_GROUP'' \<and> rule_TargetGroupID r = groupID) SErrConflict) (ListRulesByOrganization db)"

definition ensureTargetGroupNotUsedByHealthChecks :: "'z control_db_scheme \<Rightarrow> string \<Rightarrow> unit result" where
  "ensureTargetGroupNotUsedByHealthChecks db groupID =
     each (\<lambda>check. each (\<lambda>t. fail_if (hct_ScopeType t = ''TARGET_GROUP'' \<and> hct_TargetGroupID t = groupID) (SControl ''TARGET_GROUP_IN_USE''))
       (hcr_Targets check)) (db_HealthChecks db)"

definition healthCheckedTargetGroups :: "'z control_db_scheme \<Rightarrow> string list" where
  "healthCheckedTargetGroups db =
     map hct_TargetGroupID (filter (\<lambda>t. hct_ScopeType t = ''TARGET_GROUP'' \<and> hct_TargetGroupID t \<noteq> []) (concat (map hcr_Targets (db_HealthChecks db))))"

definition ensureTargetNotUsedByHealthChecks :: "'z control_db_scheme \<Rightarrow> string \<Rightarrow> unit result" where
  "ensureTargetNotUsedByHealthChecks db targetID =
     bind_result (each (\<lambda>check. each (\<lambda>t. fail_if (hct_ScopeType t = ''TARGET'' \<and> hct_TargetID t = targetID) (SControl ''TARGET_IN_USE''))
       (hcr_Targets check)) (db_HealthChecks db)) (\<lambda>_.
     each (\<lambda>grp. fail_if (List.member (healthCheckedTargetGroups db) (grp_ID grp) \<and> groupUsesTarget targetID grp) (SControl ''TARGET_IN_USE''))
       (ListTargetGroupsByOrganization db))"

fun membersValidLoop :: "'z control_db_scheme \<Rightarrow> string list \<Rightarrow> TargetGroupMemberInput list \<Rightarrow> unit result" where
  "membersValidLoop db seen [] = Inr ()"
| "membersValidLoop db seen (m # ms) =
     (if tgm_Weight m < 0 \<or> tgm_Weight m > maxTargetGroupMemberWeight then Inl SErrInvalidInput
      else if List.member seen (tgm_TargetID m) then Inl SErrInvalidInput
      else bind_result (FindTargetByID db (tgm_TargetID m)) (\<lambda>_. membersValidLoop db (tgm_TargetID m # seen) ms))"

definition ensureTargetGroupMembersValid :: "'z control_db_scheme \<Rightarrow> TargetGroupMemberInput list \<Rightarrow> unit result" where
  "ensureTargetGroupMembersValid db members = membersValidLoop db [] members"

definition ensureTargetGroupMembersUsable :: "'z control_db_scheme \<Rightarrow> string \<Rightarrow> TargetGroupMemberInput list \<Rightarrow> unit result" where
  "ensureTargetGroupMembersUsable db scheduler members =
     bind_result (fail_if (members = []) SErrInvalidInput) (\<lambda>_.
     bind_result (each (\<lambda>m. bind_result (fail_if (\<not> tgm_Enabled m) SErrInvalidInput) (\<lambda>_.
       bind_result (FindTargetByID db (tgm_TargetID m)) (\<lambda>t. fail_if (\<not> tgt_Enabled t) SErrInvalidInput))) members) (\<lambda>_.
     fail_if (normalizeTargetGroupScheduler scheduler = targetGroupSchedulerLeastLoad \<and> \<not> list_ex (\<lambda>m. tgm_Weight m > 0) members) SErrInvalidInput))"

definition targetGroupUsedByRules :: "'z control_db_scheme \<Rightarrow> string \<Rightarrow> bool" where
  "targetGroupUsedByRules db groupID =
     list_ex (\<lambda>r. rule_TargetType r = ''TARGET_GROUP'' \<and> rule_TargetGroupID r = groupID) (ListRulesByOrganization db)"

definition targetGroupSchedulerSupported :: "ControlService \<Rightarrow> string \<Rightarrow> bool" where
  "targetGroupSchedulerSupported service scheduler =
     (targetGroupSchedulerSupportedByOSS (normalizeTargetGroupScheduler scheduler) \<or>
      svc_targetGroupSchedulers service (normalizeTargetGroupScheduler scheduler))"

subsection \<open>Members\<close>

definition toTargetGroupMemberRecords :: "TargetGroupMemberInput list \<Rightarrow> TargetGroupMemberRecord list" where
  "toTargetGroupMemberRecords inputs =
     map (\<lambda>i. \<lparr>mem_TargetID = tgm_TargetID i, mem_Priority = tgm_Priority i, mem_Weight = tgm_Weight i, mem_Enabled = tgm_Enabled i\<rparr>) inputs"

definition targetGroupMembersWithPreservedWeights ::
    "TargetGroupMemberRecord list \<Rightarrow> TargetGroupMemberInput list \<Rightarrow> TargetGroupMemberInput list" where
  "targetGroupMembersWithPreservedWeights existing next' =
     map (\<lambda>i. if tgm_WeightProvided i then i
              else i\<lparr>tgm_Weight := (case map_of (rev (map (\<lambda>m. (mem_TargetID m, mem_Weight m)) existing)) (tgm_TargetID i) of
                                     None \<Rightarrow> 1 | Some w \<Rightarrow> w)\<rparr>) next'"

definition memberInput :: "TargetGroupMemberRecord \<Rightarrow> TargetGroupMemberInput" where
  "memberInput m =
     \<lparr>tgm_TargetID = mem_TargetID m, tgm_Priority = mem_Priority m, tgm_Weight = mem_Weight m, tgm_WeightProvided = True,
      tgm_Enabled = mem_Enabled m\<rparr>"

definition targetGroupMembersWithTarget ::
    "TargetGroupMemberRecord list \<Rightarrow> string \<Rightarrow> bool \<Rightarrow> TargetGroupMemberInput list \<times> bool" where
  "targetGroupMembersWithTarget members targetID shouldContainTarget =
     (let found = list_ex (\<lambda>m. mem_TargetID m = targetID) members;
          kept = map memberInput (filter (\<lambda>m. \<not> (mem_TargetID m = targetID \<and> \<not> shouldContainTarget)) members) in
      if shouldContainTarget \<and> \<not> found
      then (kept @ [\<lparr>tgm_TargetID = targetID, tgm_Priority = defaultTargetGroupMemberPriority, tgm_Weight = 1,
                     tgm_WeightProvided = True, tgm_Enabled = True\<rparr>], True)
      else (kept, found \<and> \<not> shouldContainTarget))"

text \<open>The members that the runtime sees, sorted by all their fields, \<open>false\<close> before \<open>true\<close>.\<close>

definition memberKey :: "TargetGroupMemberRecord \<Rightarrow> string \<times> int \<times> int \<times> bool" where
  "memberKey m = (mem_TargetID m, mem_Priority m, mem_Weight m, mem_Enabled m)"

definition targetGroupRuntimeChanged :: "TargetGroupRecord \<Rightarrow> string \<Rightarrow> TargetGroupMemberInput list \<Rightarrow> bool" where
  "targetGroupRuntimeChanged grp scheduler members \<longleftrightarrow>
     normalizeTargetGroupScheduler scheduler \<noteq> grp_Scheduler grp \<or> length (grp_Members grp) \<noteq> length members \<or>
     sort (map memberKey (grp_Members grp)) \<noteq> sort (map memberKey (toTargetGroupMemberRecords members))"

subsection \<open>Raising the desired versions\<close>

definition usesTarget :: "string list \<Rightarrow> string \<Rightarrow> RuleRecord \<Rightarrow> bool" where
  "usesTarget groupIDs targetID r \<longleftrightarrow>
     rule_TargetType r = ''TARGET'' \<and> rule_TargetID r = targetID \<or>
     rule_TargetType r = ''TARGET_GROUP'' \<and> List.member groupIDs (rule_TargetGroupID r)"

text \<open>The groups of nodes are collected in a map and bumped once each.\<close>

definition bumpForRules :: "RuleRecord list \<Rightarrow> 'z control_db_scheme \<Rightarrow> 'z control_db_scheme" where
  "bumpForRules rules db =
     fold syncRuleDeploymentPending rules
       (bumpDesiredConfigForNodeGroups (uniq [] (map (\<lambda>r. bi_NodeGroupID (rule_Binding r)) rules)) db)"

definition bumpDesiredConfigForRulesUsingTarget :: "string \<Rightarrow> 'z control_db_scheme \<Rightarrow> 'z control_db_scheme" where
  "bumpDesiredConfigForRulesUsingTarget targetID db =
     (let groupIDs = map grp_ID (filter (groupUsesTarget targetID) (ListTargetGroupsByOrganization db)) in
      bumpForRules (filter (\<lambda>r. rule_Enabled r \<and> usesTarget groupIDs targetID r) (ListRulesByOrganization db)) db)"

definition bumpDesiredConfigForRulesUsingTargetGroup :: "string \<Rightarrow> 'z control_db_scheme \<Rightarrow> 'z control_db_scheme" where
  "bumpDesiredConfigForRulesUsingTargetGroup groupID db =
     bumpForRules (filter (\<lambda>r. rule_Enabled r \<and> rule_TargetType r = ''TARGET_GROUP'' \<and> rule_TargetGroupID r = groupID)
       (ListRulesByOrganization db)) db"

subsection \<open>Memberships\<close>

definition syncMembershipStep ::
    "ControlService \<Rightarrow> string \<Rightarrow> string list \<Rightarrow> TargetGroupRecord \<Rightarrow> 'z control_db_scheme \<Rightarrow> 'z control_db_scheme result" where
  "syncMembershipStep service targetID selected grp db =
     (let (members, changed) = targetGroupMembersWithTarget (grp_Members grp) targetID (List.member selected (grp_ID grp)) in
      if \<not> changed then Inr db
      else
        bind_result (fail_if (\<not> targetGroupSchedulerSupported service (grp_Scheduler grp)) SErrInvalidInput) (\<lambda>_.
        bind_result (ensureTargetGroupMembersValid db members) (\<lambda>_.
        let usedByRules = targetGroupUsedByRules db (grp_ID grp) in
        bind_result (if usedByRules then ensureTargetGroupMembersUsable db (grp_Scheduler grp) members else Inr ()) (\<lambda>_.
        bind_result (store_UpdateTargetGroup grp (toTargetGroupMemberRecords members) db) (\<lambda>db.
        Inr (if usedByRules \<and> targetGroupRuntimeChanged grp (grp_Scheduler grp) members
             then bumpDesiredConfigForRulesUsingTargetGroup (grp_ID grp) db else db))))))"

definition syncTargetGroupMemberships ::
    "ControlService \<Rightarrow> string \<Rightarrow> string list \<Rightarrow> 'z control_db_scheme \<Rightarrow> 'z control_db_scheme result" where
  "syncTargetGroupMemberships service targetID targetGroupIDs db =
     (let groups = ListTargetGroupsByOrganization db in
      bind_result (each (\<lambda>k. fail_if (\<not> List.member (map grp_ID groups) k) SErrNotFound) targetGroupIDs) (\<lambda>_.
      fold_result (syncMembershipStep service targetID targetGroupIDs) groups db))"

subsection \<open>The operations\<close>

definition targetOf :: "string \<Rightarrow> TargetMutationInput \<Rightarrow> TargetRecord" where
  "targetOf targetID input =
     \<lparr>tgt_ID = targetID, tgt_Name = ti_Name input, tgt_Host = ti_Host input, tgt_Port = ti_Port input, tgt_Enabled = ti_Enabled input\<rparr>"

definition CreateTarget ::
    "ControlService \<Rightarrow> InternalIdentity \<Rightarrow> string \<Rightarrow> TargetMutationInput \<Rightarrow> 'z control_db_scheme \<Rightarrow> 'z control_db_scheme result" where
  "CreateTarget service identity newID input db =
     bind_result (fail_if (\<not> hasPermission service identity ''targets.manage'') SErrForbidden) (\<lambda>_.
     bind_result (store_CreateTarget (targetOf newID input) db) (\<lambda>db.
     bind_result (case ti_TargetGroupIDs input of None \<Rightarrow> Inr db | Some groupIDs \<Rightarrow> syncTargetGroupMemberships service newID groupIDs db) (\<lambda>db.
     Inr (writeAudit identity ''targets.create'' ''TARGET'' newID db))))"

definition UpdateTarget ::
    "ControlService \<Rightarrow> InternalIdentity \<Rightarrow> string \<Rightarrow> TargetMutationInput \<Rightarrow> 'z control_db_scheme \<Rightarrow> 'z control_db_scheme result" where
  "UpdateTarget service identity targetID input db =
     bind_result (fail_if (\<not> hasPermission service identity ''targets.manage'') SErrForbidden) (\<lambda>_.
     bind_result (FindTargetByID db targetID) (\<lambda>target.
     bind_result (if \<not> ti_Enabled input \<and> tgt_Enabled target
       then bind_result (ensureTargetNotUsedByRules db (tgt_ID target)) (\<lambda>_. ensureTargetNotUsedByHealthChecks db (tgt_ID target))
       else Inr ()) (\<lambda>_.
     let runtimeChanged = (tgt_Host target \<noteq> ti_Host input \<or> tgt_Port target \<noteq> ti_Port input \<or> tgt_Enabled target \<noteq> ti_Enabled input) in
     bind_result (store_UpdateTarget (targetOf (tgt_ID target) input) db) (\<lambda>db.
     let db = (if runtimeChanged then bumpDesiredConfigForRulesUsingTarget (tgt_ID target) db else db) in
     bind_result (case ti_TargetGroupIDs input of None \<Rightarrow> Inr db | Some groupIDs \<Rightarrow> syncTargetGroupMemberships service (tgt_ID target) groupIDs db) (\<lambda>db.
     Inr (writeAudit identity ''targets.update'' ''TARGET'' (tgt_ID target) db))))))"

definition DeleteTarget :: "ControlService \<Rightarrow> InternalIdentity \<Rightarrow> string \<Rightarrow> 'z control_db_scheme \<Rightarrow> 'z control_db_scheme result" where
  "DeleteTarget service identity targetID db =
     bind_result (fail_if (\<not> hasPermission service identity ''targets.manage'') SErrForbidden) (\<lambda>_.
     bind_result (FindTargetByID db targetID) (\<lambda>_.
     bind_result (ensureTargetNotUsedByRules db targetID) (\<lambda>_.
     bind_result (ensureTargetNotUsedByHealthChecks db targetID) (\<lambda>_.
     bind_result (store_DeleteTarget targetID db) (\<lambda>db.
     Inr (writeAudit identity ''targets.delete'' ''TARGET'' targetID db))))))"

definition CreateTargetGroup ::
    "ControlService \<Rightarrow> InternalIdentity \<Rightarrow> string \<Rightarrow> TargetGroupMutationInput \<Rightarrow> 'z control_db_scheme \<Rightarrow> 'z control_db_scheme result" where
  "CreateTargetGroup service identity newID input db =
     (let scheduler = normalizeTargetGroupScheduler (tgi_Scheduler input);
          members = targetGroupMembersWithPreservedWeights [] (tgi_Members input) in
      bind_result (fail_if (\<not> hasPermission service identity ''targets.manage'') SErrForbidden) (\<lambda>_.
      bind_result (fail_if (\<not> targetGroupSchedulerSupported service scheduler) SErrInvalidInput) (\<lambda>_.
      bind_result (ensureTargetGroupMembersValid db members) (\<lambda>_.
      bind_result (store_CreateTargetGroup \<lparr>grp_ID = newID, grp_Name = tgi_Name input, grp_Description = tgi_Description input,
        grp_Scheduler = scheduler, grp_Members = []\<rparr> (toTargetGroupMemberRecords members) db) (\<lambda>db.
      Inr (writeAudit identity ''target_groups.create'' ''TARGET_GROUP'' newID db))))))"

definition UpdateTargetGroup ::
    "ControlService \<Rightarrow> InternalIdentity \<Rightarrow> string \<Rightarrow> TargetGroupMutationInput \<Rightarrow> 'z control_db_scheme \<Rightarrow> 'z control_db_scheme result" where
  "UpdateTargetGroup service identity targetGroupID input db =
     bind_result (fail_if (\<not> hasPermission service identity ''targets.manage'') SErrForbidden) (\<lambda>_.
     bind_result (FindTargetGroupByID db targetGroupID) (\<lambda>grp.
     bind_result (fail_if (\<not> targetGroupSchedulerSupported service (grp_Scheduler grp)) SErrInvalidInput) (\<lambda>_.
     let scheduler = normalizeTargetGroupScheduler (tgi_Scheduler input) in
     bind_result (fail_if (\<not> targetGroupSchedulerSupported service scheduler) SErrInvalidInput) (\<lambda>_.
     let usedByRules = targetGroupUsedByRules db (grp_ID grp);
         members = targetGroupMembersWithPreservedWeights (grp_Members grp) (tgi_Members input) in
     bind_result (ensureTargetGroupMembersValid db members) (\<lambda>_.
     bind_result (if usedByRules then ensureTargetGroupMembersUsable db scheduler members else Inr ()) (\<lambda>_.
     let runtimeChanged = targetGroupRuntimeChanged grp (tgi_Scheduler input) members in
     bind_result (store_UpdateTargetGroup (grp\<lparr>grp_Name := tgi_Name input, grp_Description := tgi_Description input, grp_Scheduler := scheduler\<rparr>)
       (toTargetGroupMemberRecords members) db) (\<lambda>db.
     let db = (if usedByRules \<and> runtimeChanged then bumpDesiredConfigForRulesUsingTargetGroup (grp_ID grp) db else db) in
     Inr (writeAudit identity ''target_groups.update'' ''TARGET_GROUP'' (grp_ID grp) db))))))))"

definition DeleteTargetGroup :: "ControlService \<Rightarrow> InternalIdentity \<Rightarrow> string \<Rightarrow> 'z control_db_scheme \<Rightarrow> 'z control_db_scheme result" where
  "DeleteTargetGroup service identity targetGroupID db =
     bind_result (fail_if (\<not> hasPermission service identity ''targets.manage'') SErrForbidden) (\<lambda>_.
     bind_result (FindTargetGroupByID db targetGroupID) (\<lambda>_.
     bind_result (ensureTargetGroupNotUsedByRules db targetGroupID) (\<lambda>_.
     bind_result (ensureTargetGroupNotUsedByHealthChecks db targetGroupID) (\<lambda>_.
     bind_result (store_DeleteTargetGroup targetGroupID db) (\<lambda>db.
     Inr (writeAudit identity ''target_groups.delete'' ''TARGET_GROUP'' targetGroupID db))))))"

end
