(* ===== verification/Agent_Sync.thy ===== *)
theory Agent_Sync
  imports Target_Service Node_Service
begin

text \<open>
  What the control plane exchanges with a connected node agent (\<open>control_agent_config.go\<close>, the acknowledgement side of
  \<open>control_rule_deployment.go\<close>, and their statements in \<open>repo/nodes.go\<close> and \<open>repo/targets_rules.go\<close>): the
  configuration compiled from the tables, its acknowledgement, and the agent's own state.
\<close>

subsection \<open>From rows to the compiler's input\<close>

definition executableRulesForNode :: "NodeRecord \<Rightarrow> RuleRecord list \<Rightarrow> RuleRecord list" where
  "executableRulesForNode node rules =
     filter (\<lambda>r. rule_Enabled r \<and> List.member (nd_GroupIDs node) (bi_NodeGroupID (rule_Binding r))) rules"

definition maxRuleRecordConfigVersion :: "RuleRecord list \<Rightarrow> int" where
  "maxRuleRecordConfigVersion rules = fold (\<lambda>r m. if rule_ConfigVersion r > m then rule_ConfigVersion r else m) rules 0"

definition openCoreRuleRecordSupported :: "RuleRecord \<Rightarrow> bool" where
  "openCoreRuleRecordSupported r \<longleftrightarrow>
     defaultForwardingType (rule_ForwardingType r) = ForwardingTypeDirect \<and>
     (rule_MatchType r = MatchTypeAnyInbound \<or> rule_MatchType r = MatchTypeTLSSNI)"

definition toTargetEndpoint :: "TargetRecord \<Rightarrow> TargetEndpoint" where
  "toTargetEndpoint t = \<lparr>te_ID = tgt_ID t, te_Host = tgt_Host t, te_Port = tgt_Port t, te_Weight = 1, te_Enabled = tgt_Enabled t\<rparr>"

definition findTarget :: "TargetRecord list \<Rightarrow> string \<Rightarrow> TargetRecord option" where
  "findTarget targets k = List.find (\<lambda>t. tgt_ID t = k) targets"

definition memberEndpoint :: "TargetRecord list \<Rightarrow> TargetGroupMemberRecord \<Rightarrow> TargetEndpoint list" where
  "memberEndpoint targets m =
     (case findTarget targets (mem_TargetID m) of
        None \<Rightarrow> []
      | Some t \<Rightarrow> [(toTargetEndpoint t)\<lparr>te_Enabled := tgt_Enabled t \<and> mem_Enabled m, te_Weight := mem_Weight m\<rparr>])"

definition toTargetPriorityBuckets :: "TargetGroupRecord \<Rightarrow> TargetRecord list \<Rightarrow> TargetPriorityBucket list" where
  "toTargetPriorityBuckets grp targets =
     (let known = filter (\<lambda>m. findTarget targets (mem_TargetID m) \<noteq> None) (grp_Members grp) in
      map (\<lambda>p. \<lparr>pb_Priority = p, pb_Targets = concat (map (memberEndpoint targets) (filter (\<lambda>m. mem_Priority m = p) known))\<rparr>)
        (sort (uniq [] (map mem_Priority known))))"

definition toAgentPortSegments :: "InboundBindingPortSegmentRecord list \<Rightarrow> PortSegmentConfig list" where
  "toAgentPortSegments segments = map (\<lambda>s. \<lparr>ps_StartPort = bs_StartPort s, ps_EndPort = bs_EndPort s\<rparr>) segments"

definition zeroUpstream :: RuleUpstreamConfig where
  "zeroUpstream = \<lparr>up_Type = [], up_Target = None, up_Scheduler = [], up_TargetGroup = []\<rparr>"

text \<open>\<open>None\<close> when the rule is passed over: its group's scheduler is not the open core's.\<close>

definition ruleUpstream :: "TargetRecord list \<Rightarrow> TargetGroupRecord list \<Rightarrow> RuleRecord \<Rightarrow> RuleUpstreamConfig option" where
  "ruleUpstream targets groups r =
     (if rule_TargetType r = ''TARGET'' then
        Some (case findTarget targets (rule_TargetID r) of
                None \<Rightarrow> zeroUpstream
              | Some t \<Rightarrow> zeroUpstream\<lparr>up_Type := ''TARGET'', up_Target := Some (toTargetEndpoint t)\<rparr>)
      else if rule_TargetType r = ''TARGET_GROUP'' then
        (case List.find (\<lambda>g. grp_ID g = rule_TargetGroupID r) groups of
           None \<Rightarrow> Some zeroUpstream
         | Some g \<Rightarrow>
             if \<not> targetGroupSchedulerSupportedByOSS (grp_Scheduler g) then None
             else Some (zeroUpstream\<lparr>up_Type := ''TARGET_GROUP'', up_Scheduler := normalizeTargetGroupScheduler (grp_Scheduler g),
                    up_TargetGroup := toTargetPriorityBuckets g targets\<rparr>))
      else Some zeroUpstream)"

definition ruleConfig :: "RuleRecord \<Rightarrow> RuleUpstreamConfig \<Rightarrow> RuleConfig" where
  "ruleConfig r upstream =
     \<lparr>rc_ID = rule_ID r, rc_RuntimeID = [], rc_ConfigVersion = rule_ConfigVersion r, rc_Enabled = rule_Enabled r,
      rc_Dataplane = defaultDataplanePreference (rule_DataplanePreference r),
      rc_ForwardingType = defaultForwardingType (rule_ForwardingType r), rc_Protocol = rule_Protocol r, rc_NodeIDs = [],
      rc_NodeGroupIDs = [bi_NodeGroupID (rule_Binding r)], rc_ListenIP = bi_ListenIP (rule_Binding r), rc_Port = bi_Port (rule_Binding r),
      rc_PortSegments = toAgentPortSegments (rulePortSegments (rule_Binding r)), rc_SendIP = rule_SendIP r, rc_MatchType = rule_MatchType r,
      rc_SNIHostname = rule_SNIHostname r, rc_ProxyProtocolIn = rule_ProxyProtocolIn r, rc_ProxyProtocolOut = rule_ProxyProtocolOut r,
      rc_Upstream = upstream\<rparr>"

definition toRuleConfigs :: "RuleRecord list \<Rightarrow> TargetRecord list \<Rightarrow> TargetGroupRecord list \<Rightarrow> RuleConfig list" where
  "toRuleConfigs rules targets groups =
     concat (map (\<lambda>r. if \<not> openCoreRuleRecordSupported r then []
       else case ruleUpstream targets groups r of None \<Rightarrow> [] | Some u \<Rightarrow> [ruleConfig r u]) rules)"

definition nodeRuleConfigs :: "'z control_db_scheme \<Rightarrow> NodeRecord \<Rightarrow> RuleConfig list" where
  "nodeRuleConfigs db node =
     toRuleConfigs (executableRulesForNode node (ListRulesByOrganization db)) (db_Targets db) (ListTargetGroupsByOrganization db)"

definition compileNode ::
    "digestFn \<Rightarrow> ProtocolVersion \<Rightarrow> bool \<Rightarrow> 'z control_db_scheme \<Rightarrow> NodeRecord \<Rightarrow> ConfigSnapshot result" where
  "compileNode digest protocolVersion protocolKnown db node =
     (case Compile digest \<lparr>ci_NodeID = nd_ID node, ci_NodeGroups = nd_GroupIDs node, ci_AgentProtocolVersion = protocolVersion,
         ci_AgentProtocolKnown = protocolKnown, ci_DataplaneMode = nd_DataplaneMode node, ci_DataplaneInstanceID = nd_DataplaneInstanceID node,
         ci_DataplaneConflictPolicy = nd_DataplaneConflictPolicy node, ci_Rules = nodeRuleConfigs db node\<rparr> of
        Inl e \<Rightarrow> Inl SErrInvalidInput | Inr c \<Rightarrow> Inr c)"

subsection \<open>Sending a configuration\<close>

definition ensureVersion :: "int \<Rightarrow> NodeRecord \<Rightarrow> NodeRecord" where
  "ensureVersion v n =
     (if nd_DesiredConfigVersion n < v
      then n\<lparr>nd_DesiredConfigVersion := v, nd_ConfigStatus := ''PENDING'', nd_ConfigErrorMessage := [], nd_ConfigStatusConfigVersion := v,
             nd_ConfigRetryCount := 0, nd_ConfigNextRetryAt := None\<rparr> else n)"

definition EnsureDesiredConfigVersionAtLeast :: "string \<Rightarrow> int \<Rightarrow> 'z control_db_scheme \<Rightarrow> 'z control_db_scheme" where
  "EnsureDesiredConfigVersionAtLeast nodeID v db =
     db\<lparr>db_Nodes := map (\<lambda>n. if nd_ID n = nodeID then ensureVersion v n else n) (db_Nodes db)\<rparr>"

definition RecordNodeRuleTrafficAssignments :: "string \<Rightarrow> string list \<Rightarrow> 'z control_db_scheme \<Rightarrow> 'z control_db_scheme" where
  "RecordNodeRuleTrafficAssignments nodeID ruleIDs db =
     db\<lparr>db_TrafficAssignments := db_TrafficAssignments db @
        uniq (db_TrafficAssignments db) (map (Pair nodeID) (filter (\<lambda>k. k \<noteq> []) (map TrimSpace ruleIDs)))\<rparr>"

text \<open>The version a snapshot is sent with: the desired version of the node, raised to the newest rule.\<close>

definition sentVersion :: "'z control_db_scheme \<Rightarrow> NodeRecord \<Rightarrow> ConfigSnapshot \<Rightarrow> int" where
  "sentVersion db node compiled =
     (let v = nd_DesiredConfigVersion node;
          v = (if cs_ConfigVersion compiled > v then cs_ConfigVersion compiled else v);
          candidate = maxRuleRecordConfigVersion (executableRulesForNode node (ListRulesByOrganization db)) in
      if candidate > v then candidate else v)"

definition CompileNodeAgentConfigForAgentProtocol ::
    "digestFn \<Rightarrow> string \<Rightarrow> ProtocolVersion \<Rightarrow> bool \<Rightarrow> 'z control_db_scheme \<Rightarrow> (ConfigSnapshot \<times> 'z control_db_scheme) result" where
  "CompileNodeAgentConfigForAgentProtocol digest nodeID protocolVersion protocolKnown db =
     bind_result (FindNodeByID db nodeID) (\<lambda>node.
     bind_result (compileNode digest protocolVersion protocolKnown db node) (\<lambda>compiled.
     let target = sentVersion db node compiled;
         db = (if target > nd_DesiredConfigVersion node then EnsureDesiredConfigVersionAtLeast nodeID target db else db);
         compiled = (if target > cs_ConfigVersion compiled
           then let c = compiled\<lparr>cs_ConfigVersion := target\<rparr> in c\<lparr>cs_ConfigHash := configHash digest c\<rparr> else compiled) in
     Inr (compiled, RecordNodeRuleTrafficAssignments nodeID (map rc_ID (cs_Rules compiled)) db)))"

definition nodeConfigBackoffActive :: "NodeRecord \<Rightarrow> int \<Rightarrow> bool" where
  "nodeConfigBackoffActive node now \<longleftrightarrow>
     nd_ConfigStatus node = ''FAILED'' \<and> nd_ConfigStatusConfigVersion node = nd_DesiredConfigVersion node \<and>
     (case nd_ConfigNextRetryAt node of None \<Rightarrow> False | Some t \<Rightarrow> now < t)"

definition NodeAgentConfigBehind :: "int \<Rightarrow> string \<Rightarrow> int \<Rightarrow> 'z control_db_scheme \<Rightarrow> bool result" where
  "NodeAgentConfigBehind now nodeID appliedConfigVersion db =
     bind_result (FindNodeByID db nodeID) (\<lambda>node.
     Inr (if nodeConfigBackoffActive node now then False
          else nd_DesiredConfigVersion node > appliedConfigVersion \<or> nd_ConfigStatus node = ''FAILED''))"

subsection \<open>Acknowledging a configuration\<close>

record NodeConfigAckRecord =
  ack_ConfigVersion :: int
  ack_Status :: string
  ack_ErrorMessage :: string
  ack_RetryCount :: int
  ack_NextRetryAt :: "int option"
  ack_DataplaneStatus :: string
  ack_DataplaneError :: string
  ack_DataplaneLastHash :: string

definition configRetryBackoff :: "int \<Rightarrow> int" where
  "configRetryBackoff retryCount =
     1000000000 * (if retryCount \<le> 1 then 15 else if retryCount = 2 then 30 else if retryCount = 3 then 60
       else if retryCount = 4 then 120 else 300)"

definition nodeConfigFailedAck :: "NodeRecord \<Rightarrow> int \<Rightarrow> string \<Rightarrow> int \<Rightarrow> NodeConfigAckRecord" where
  "nodeConfigFailedAck node configVersion errorMessage now =
     (let retryCount = (if nd_ConfigStatus node = ''FAILED'' \<and> nd_ConfigStatusConfigVersion node = configVersion
                        then nd_ConfigRetryCount node + 1 else 1) in
      \<lparr>ack_ConfigVersion = configVersion, ack_Status = ''FAILED'', ack_ErrorMessage = errorMessage, ack_RetryCount = retryCount,
       ack_NextRetryAt = Some (now + configRetryBackoff retryCount), ack_DataplaneStatus = ''FAILED'', ack_DataplaneError = errorMessage,
       ack_DataplaneLastHash = []\<rparr>)"

text \<open>The row after \<open>RecordNodeConfigAck\<close>: nothing if the version is older than the applied one or newer than the desired one.\<close>

definition ackNode :: "NodeConfigAckRecord \<Rightarrow> NodeRecord \<Rightarrow> NodeRecord" where
  "ackNode ack n =
     (let v = ack_ConfigVersion ack; current = (nd_DesiredConfigVersion n \<le> v) in
      if \<not> (nd_AppliedConfigVersion n \<le> v \<and> v \<le> nd_DesiredConfigVersion n) then n
      else if ack_Status ack = ''APPLIED'' then
        n\<lparr>nd_AppliedConfigVersion := v, nd_ConfigStatus := (if current then ''APPLIED'' else ''PENDING''), nd_ConfigErrorMessage := [],
          nd_ConfigStatusConfigVersion := v, nd_ConfigRetryCount := 0, nd_ConfigNextRetryAt := None,
          nd_DataplaneStatus := (if current then ack_DataplaneStatus ack else nd_DataplaneStatus n),
          nd_DataplaneError := (if current then [] else nd_DataplaneError n),
          nd_DataplaneLastHash := (if current then ack_DataplaneLastHash ack else nd_DataplaneLastHash n)\<rparr>
      else
        n\<lparr>nd_ConfigStatus := (if current then ''FAILED'' else ''PENDING''),
          nd_ConfigErrorMessage := (if current then ack_ErrorMessage ack else []),
          nd_ConfigStatusConfigVersion := v, nd_ConfigRetryCount := ack_RetryCount ack, nd_ConfigNextRetryAt := ack_NextRetryAt ack,
          nd_DataplaneStatus := (if current then ack_DataplaneStatus ack else nd_DataplaneStatus n),
          nd_DataplaneError := (if current then ack_DataplaneError ack else nd_DataplaneError n)\<rparr>)"

definition RecordNodeConfigAck :: "string \<Rightarrow> NodeConfigAckRecord \<Rightarrow> 'z control_db_scheme \<Rightarrow> 'z control_db_scheme" where
  "RecordNodeConfigAck nodeID ack db = db\<lparr>db_Nodes := map (\<lambda>n. if nd_ID n = nodeID then ackNode ack n else n) (db_Nodes db)\<rparr>"

record RuleDeploymentAppliedRecord =
  apl_RuleID :: string
  apl_RuleConfigVersion :: int
  apl_ExpectedDataplane :: string
  apl_ActualDataplane :: string

definition appliedRecord :: "(string \<times> string) list \<Rightarrow> RuleConfig \<Rightarrow> RuleDeploymentAppliedRecord" where
  "appliedRecord resolvedDataplanes r =
     (let resolved = TrimSpace (case map_of resolvedDataplanes (rc_ID r) of None \<Rightarrow> [] | Some d \<Rightarrow> d) in
      \<lparr>apl_RuleID = rc_ID r, apl_RuleConfigVersion = rc_ConfigVersion r, apl_ExpectedDataplane = defaultDataplanePreference (rc_Dataplane r),
       apl_ActualDataplane = defaultDataplanePreference (if resolved \<noteq> [] then resolved else rc_Dataplane r)\<rparr>)"

text \<open>The first rule of each id.\<close>

fun firstByID :: "string list \<Rightarrow> RuleConfig list \<Rightarrow> RuleConfig list" where
  "firstByID seen [] = []"
| "firstByID seen (r # rs) =
     (if List.member seen (rc_ID r) then firstByID seen rs else r # firstByID (rc_ID r # seen) rs)"

definition logicalRuleIDCount :: "RuleConfig list \<Rightarrow> nat" where
  "logicalRuleIDCount rules = length (uniq [] (filter (\<lambda>k. TrimSpace k \<noteq> []) (map rc_ID rules)))"

definition ruleDeploymentAppliedRecordsForNode ::
    "digestFn \<Rightarrow> ProtocolVersion \<Rightarrow> bool \<Rightarrow> (string \<times> string) list \<Rightarrow> 'z control_db_scheme \<Rightarrow> NodeRecord \<Rightarrow>
     (RuleDeploymentAppliedRecord list \<times> bool) result" where
  "ruleDeploymentAppliedRecordsForNode digest protocolVersion protocolKnown resolvedDataplanes db node =
     bind_result (compileNode digest protocolVersion protocolKnown db node) (\<lambda>compiled.
     Inr (map (appliedRecord resolvedDataplanes) (firstByID [] (cs_Rules compiled)),
          logicalRuleIDCount (cs_Rules compiled) = logicalRuleIDCount (nodeRuleConfigs db node)))"

definition appliedDeployment :: "string \<Rightarrow> int \<Rightarrow> RuleDeploymentAppliedRecord \<Rightarrow> RuleDeploymentRecord" where
  "appliedDeployment nodeID configVersion a =
     \<lparr>dep_RuleID = TrimSpace (apl_RuleID a), dep_NodeID = nodeID, dep_ConfigVersion = configVersion,
      dep_RuleConfigVersion = apl_RuleConfigVersion a, dep_Status = ''APPLIED'', dep_ErrorCode = [], dep_ErrorMessage = [], dep_Protocol = [],
      dep_ListenIP = [], dep_Port = 0, dep_ExpectedDataplane = normalizeRuleDataplanePreference (apl_ExpectedDataplane a),
      dep_ActualDataplane = normalizeRuleDataplanePreference (apl_ActualDataplane a), dep_Owner = [], dep_DriftStatus = [],
      dep_ExternalResource = []\<rparr>"

fun recordAppliedLoop ::
    "string \<Rightarrow> int \<Rightarrow> string list \<Rightarrow> RuleDeploymentAppliedRecord list \<Rightarrow> RuleDeploymentRecord list \<Rightarrow> RuleDeploymentRecord list" where
  "recordAppliedLoop nodeID configVersion seen [] rows = rows"
| "recordAppliedLoop nodeID configVersion seen (a # as) rows =
     (let ruleID = TrimSpace (apl_RuleID a) in
      if ruleID = [] \<or> List.member seen ruleID then recordAppliedLoop nodeID configVersion seen as rows
      else recordAppliedLoop nodeID configVersion (ruleID # seen) as
             (upsertDeployment (\<lambda>d. dep_ConfigVersion d \<le> configVersion) (appliedDeployment nodeID configVersion a) rows))"

definition RecordRuleDeploymentApplied :: "string \<Rightarrow> int \<Rightarrow> RuleDeploymentAppliedRecord list \<Rightarrow> 'z control_db_scheme \<Rightarrow> 'z control_db_scheme" where
  "RecordRuleDeploymentApplied nodeID configVersion applied db =
     db\<lparr>db_Deployments := recordAppliedLoop nodeID configVersion [] applied (db_Deployments db)\<rparr>"

record ConfigApplyErrorInput =
  ce_Code :: string
  ce_RuleIDs :: "string list"
  ce_Protocol :: string
  ce_ListenIP :: string
  ce_Port :: int
  ce_Dataplane :: string
  ce_Owner :: string
  ce_DriftStatus :: string
  ce_ExternalResource :: string
  ce_Message :: string

definition failedDeployment :: "string \<Rightarrow> int \<Rightarrow> RuleRecord \<Rightarrow> ConfigApplyErrorInput \<Rightarrow> RuleDeploymentRecord" where
  "failedDeployment nodeID configVersion rule e =
     \<lparr>dep_RuleID = rule_ID rule, dep_NodeID = nodeID, dep_ConfigVersion = configVersion, dep_RuleConfigVersion = rule_ConfigVersion rule,
      dep_Status = ''FAILED'', dep_ErrorCode = take 120 (TrimSpace (ce_Code e)), dep_ErrorMessage = take 1000 (TrimSpace (ce_Message e)),
      dep_Protocol = ce_Protocol e, dep_ListenIP = take 255 (TrimSpace (ce_ListenIP e)), dep_Port = ce_Port e,
      dep_ExpectedDataplane = normalizeRuleDataplanePreference (take 40 (defaultDataplanePreference (rule_DataplanePreference rule))),
      dep_ActualDataplane = normalizeRuleDataplanePreference (take 40 (defaultDataplanePreference (ce_Dataplane e))),
      dep_Owner = take 255 (TrimSpace (ce_Owner e)), dep_DriftStatus = take 120 (TrimSpace (ce_DriftStatus e)),
      dep_ExternalResource = take 255 (TrimSpace (ce_ExternalResource e))\<rparr>"

text \<open>The errors rule by rule, in the order a rule is first named; a later error of a rule replaces an earlier one.\<close>

definition namedRules :: "RuleRecord list \<Rightarrow> ConfigApplyErrorInput list \<Rightarrow> (RuleRecord \<times> ConfigApplyErrorInput) list" where
  "namedRules rules errors =
     concat (map (\<lambda>e. concat (map (\<lambda>k. case List.find (\<lambda>r. rule_ID r = TrimSpace k) rules of None \<Rightarrow> [] | Some r \<Rightarrow> [(r, e)]) (ce_RuleIDs e))) errors)"

definition ruleDeploymentFailuresFromApplyErrors ::
    "string \<Rightarrow> int \<Rightarrow> RuleRecord list \<Rightarrow> ConfigApplyErrorInput list \<Rightarrow> RuleDeploymentRecord list" where
  "ruleDeploymentFailuresFromApplyErrors nodeID configVersion rules errors =
     (let named = map (\<lambda>(r, e). (rule_ID r, failedDeployment nodeID configVersion r e)) (namedRules rules errors) in
      map (\<lambda>k. the (map_of (rev named) k)) (uniq [] (map fst named)))"

definition RecordRuleDeploymentFailures :: "RuleDeploymentRecord list \<Rightarrow> 'z control_db_scheme \<Rightarrow> 'z control_db_scheme" where
  "RecordRuleDeploymentFailures failures db =
     db\<lparr>db_Deployments := fold (\<lambda>f. upsertDeployment (\<lambda>d. dep_ConfigVersion d = dep_ConfigVersion f \<and>
          dep_RuleConfigVersion d = dep_RuleConfigVersion f) f) (filter (\<lambda>f. dep_RuleID f \<noteq> []) failures) (db_Deployments db)\<rparr>"

definition ackFor :: "NodeRecord \<Rightarrow> int \<Rightarrow> string \<Rightarrow> string \<Rightarrow> string \<Rightarrow> int \<Rightarrow> bool \<Rightarrow> NodeConfigAckRecord" where
  "ackFor node configVersion hash status errorMessage now complete =
     (if status = ''FAILED'' then nodeConfigFailedAck node configVersion errorMessage now
      else if \<not> complete then nodeConfigFailedAck node configVersion ''agent protocol does not support all desired dataplane rules'' now
      else \<lparr>ack_ConfigVersion = configVersion, ack_Status = status, ack_ErrorMessage = errorMessage, ack_RetryCount = 0, ack_NextRetryAt = None,
             ack_DataplaneStatus = ''HEALTHY'', ack_DataplaneError = [], ack_DataplaneLastHash = TrimSpace hash\<rparr>)"

definition AcknowledgeNodeAgentConfigForAgentProtocol ::
    "digestFn \<Rightarrow> int \<Rightarrow> string \<Rightarrow> int \<Rightarrow> string \<Rightarrow> ProtocolVersion \<Rightarrow> bool \<Rightarrow> string \<Rightarrow> string \<Rightarrow> ConfigApplyErrorInput list \<Rightarrow>
     (string \<times> string) list \<Rightarrow> 'z control_db_scheme \<Rightarrow> 'z control_db_scheme result" where
  "AcknowledgeNodeAgentConfigForAgentProtocol digest now nodeID configVersion hash protocolVersion protocolKnown status errorMessage
     applyErrors resolvedDataplanes db =
     (let status = ToUpper (TrimSpace status); errorMessage = take 1000 (TrimSpace errorMessage) in
      bind_result (fail_if (status \<noteq> ''APPLIED'' \<and> status \<noteq> ''FAILED'') SErrInvalidInput) (\<lambda>_.
      bind_result (FindNodeByID db nodeID) (\<lambda>node.
      bind_result (if status = ''APPLIED'' then ruleDeploymentAppliedRecordsForNode digest protocolVersion protocolKnown resolvedDataplanes db node
        else Inr ([], True)) (\<lambda>(applied, complete).
      let rules = ListRulesByOrganization db;
          db = RecordNodeConfigAck nodeID (ackFor node configVersion hash status errorMessage now complete) db in
      if configVersion \<noteq> nd_DesiredConfigVersion node then Inr db
      else if status = ''APPLIED'' then
        (if applied = [] \<and> \<not> complete then Inr db else Inr (RecordRuleDeploymentApplied nodeID configVersion applied db))
      else
        let failures = ruleDeploymentFailuresFromApplyErrors nodeID configVersion rules applyErrors;
            db = (if failures \<noteq> [] then RecordRuleDeploymentFailures failures db else db) in
        applyRuleFailurePolicies (map dep_RuleID failures) db))))"

end
