(* ===== verification/Agent_Status.thy ===== *)
theory Agent_Status
  imports Agent_Sync
begin

text \<open>
  The agent's side of a node row: connection state, the address it connects from, its version and its updates
  (\<open>control_agent_config.go\<close>), and the monitors (\<open>control_nodes.go\<close>), with their statements in \<open>repo/nodes.go\<close>.
\<close>

subsection \<open>Connections\<close>

definition updateNodeRow :: "string \<Rightarrow> (NodeRecord \<Rightarrow> NodeRecord) \<Rightarrow> 'z control_db_scheme \<Rightarrow> 'z control_db_scheme result" where
  "updateNodeRow nodeID f db =
     (if \<not> list_ex (\<lambda>n. nd_ID n = nodeID) (db_Nodes db) then Inl SErrNotFound
      else Inr (db\<lparr>db_Nodes := map (\<lambda>n. if nd_ID n = nodeID then f n else n) (db_Nodes db)\<rparr>))"

definition coalesce :: "int option \<Rightarrow> int \<Rightarrow> int option" where
  "coalesce t now = (case t of None \<Rightarrow> Some now | Some x \<Rightarrow> Some x)"

definition store_MarkNodeAgentConnected :: "int \<Rightarrow> string \<Rightarrow> 'z control_db_scheme \<Rightarrow> 'z control_db_scheme result" where
  "store_MarkNodeAgentConnected now nodeID =
     updateNodeRow nodeID (\<lambda>n. n\<lparr>nd_Status := ''ONLINE'',
       nd_Agent := (nd_Agent n)\<lparr>ag_RegisteredAt := coalesce (ag_RegisteredAt (nd_Agent n)) now\<rparr>\<rparr>)"

definition store_MarkNodeAgentDisconnected :: "string \<Rightarrow> 'z control_db_scheme \<Rightarrow> 'z control_db_scheme result" where
  "store_MarkNodeAgentDisconnected nodeID = updateNodeRow nodeID (\<lambda>n. n\<lparr>nd_Status := ''OFFLINE''\<rparr>)"

definition nodeHasEnabledDNSPublishAddress :: "NodeRecord \<Rightarrow> string \<Rightarrow> string \<Rightarrow> string \<Rightarrow> bool" where
  "nodeHasEnabledDNSPublishAddress node addressType address source =
     list_ex (\<lambda>a. pa_Enabled a \<and> pa_AddressType a = addressType \<and> pa_Address a = address \<and> (source = [] \<or> pa_Source a = source))
       (nd_DNSPublishAddresses node)"

definition nodeHasEnabledAutoDNSPublishAddress :: "NodeRecord \<Rightarrow> bool" where
  "nodeHasEnabledAutoDNSPublishAddress node = list_ex (\<lambda>a. pa_Enabled a \<and> pa_Source a = ''AUTO'') (nd_DNSPublishAddresses node)"

definition nodeHasOtherEnabledAutoDNSPublishAddress :: "NodeRecord \<Rightarrow> string \<Rightarrow> string \<Rightarrow> bool" where
  "nodeHasOtherEnabledAutoDNSPublishAddress node addressType address =
     list_ex (\<lambda>a. pa_Enabled a \<and> pa_Source a = ''AUTO'' \<and> pa_AddressType a = addressType \<and> pa_Address a \<noteq> address) (nd_DNSPublishAddresses node)"

definition isCarrierGradeNATIP :: "ip \<Rightarrow> bool" where
  "isCarrierGradeNATIP addr \<longleftrightarrow> To4 addr \<noteq> [] \<and> To4 addr ! 0 = 100 \<and> 64 \<le> To4 addr ! 1 \<and> To4 addr ! 1 < 128"

definition publicRemoteIP :: "string \<Rightarrow> ip" where
  "publicRemoteIP remoteAddr =
     (let host = (case SplitHostPort (TrimSpace remoteAddr) of None \<Rightarrow> TrimSpace remoteAddr | Some (h, p) \<Rightarrow> h);
          addr = ParseIP host in
      if addr = [] \<or> \<not> IsGlobalUnicast addr \<or> IsPrivate addr \<or> IsLoopback addr \<or> IsLinkLocalUnicast addr \<or> IsLinkLocalMulticast addr \<or>
         IsMulticast addr \<or> IsUnspecified addr \<or> isCarrierGradeNATIP addr then [] else addr)"

text \<open>\<open>UpsertAutoNodeDNSPublishAddress\<close>: the other automatic addresses of the type are disabled, this one is enabled or inserted.\<close>

definition upsertAutoAddress :: "string \<Rightarrow> string \<Rightarrow> NodeDNSPublishAddressRecord list \<Rightarrow> NodeDNSPublishAddressRecord list" where
  "upsertAutoAddress addressType address rows =
     (let isAuto = (\<lambda>a. pa_Source a = ''AUTO'' \<and> pa_AddressType a = addressType);
          rows = map (\<lambda>a. if isAuto a then a\<lparr>pa_Enabled := (pa_Address a = address)\<rparr> else a) rows in
      if list_ex (\<lambda>a. isAuto a \<and> pa_Address a = address) rows then rows
      else rows @ [\<lparr>pa_AddressType = addressType, pa_Address = address, pa_Source = ''AUTO'', pa_Enabled = True\<rparr>])"

definition UpsertAutoNodeDNSPublishAddress :: "string \<Rightarrow> string \<Rightarrow> string \<Rightarrow> 'z control_db_scheme \<Rightarrow> 'z control_db_scheme" where
  "UpsertAutoNodeDNSPublishAddress nodeID addressType address db =
     db\<lparr>db_Nodes := map (\<lambda>n. if nd_ID n = nodeID
        then n\<lparr>nd_DNSPublishAddresses := upsertAutoAddress addressType address (nd_DNSPublishAddresses n)\<rparr> else n) (db_Nodes db)\<rparr>"

definition DisableAutoNodeDNSPublishAddresses :: "string \<Rightarrow> 'z control_db_scheme \<Rightarrow> 'z control_db_scheme" where
  "DisableAutoNodeDNSPublishAddresses nodeID db =
     db\<lparr>db_Nodes := map (\<lambda>n. if nd_ID n = nodeID then n\<lparr>nd_DNSPublishAddresses :=
        map (\<lambda>a. if pa_Source a = ''AUTO'' then a\<lparr>pa_Enabled := False\<rparr> else a) (nd_DNSPublishAddresses n)\<rparr> else n) (db_Nodes db)\<rparr>"

text \<open>The block shared by \<open>MarkNodeAgentConnectedFromRemote\<close> and \<open>RecordNodeAgentHello\<close>: mark the node online, take over
  the address it connects from, and mark its DNS records when an input of theirs changed.\<close>

definition publishRemoteAddress :: "NodeRecord \<Rightarrow> string \<Rightarrow> 'z control_db_scheme \<Rightarrow> bool \<times> 'z control_db_scheme" where
  "publishRemoteAddress node remoteAddr db =
     (let addr = publicRemoteIP remoteAddr; text = ip_string addr; addressType = (if To4 addr = [] then ''AAAA'' else ''A'') in
      if addr \<noteq> [] then
        (\<not> nodeHasEnabledDNSPublishAddress node addressType text ''AUTO'' \<or> nodeHasOtherEnabledAutoDNSPublishAddress node addressType text,
         UpsertAutoNodeDNSPublishAddress (nd_ID node) addressType text db)
      else if nodeHasEnabledAutoDNSPublishAddress node then (True, DisableAutoNodeDNSPublishAddresses (nd_ID node) db)
      else (False, db))"

definition MarkNodeAgentConnectedFromRemote ::
    "'z markDNS \<Rightarrow> int \<Rightarrow> string \<Rightarrow> string \<Rightarrow> 'z control_db_scheme \<Rightarrow> (string list \<times> 'z control_db_scheme) result" where
  "MarkNodeAgentConnectedFromRemote markDNS now nodeID remoteAddr db =
     bind_result (FindNodeByID db nodeID) (\<lambda>node.
     bind_result (store_MarkNodeAgentConnected now nodeID db) (\<lambda>db.
     let (addressChanged, db) = publishRemoteAddress node remoteAddr db in
     if ToUpper (TrimSpace (nd_Status node)) \<noteq> ''ONLINE'' \<or> addressChanged then markDNS (nd_GroupIDs node) db else Inr ([], db)))"

definition MarkNodeAgentConnected ::
    "'z markDNS \<Rightarrow> int \<Rightarrow> string \<Rightarrow> 'z control_db_scheme \<Rightarrow> (string list \<times> 'z control_db_scheme) result" where
  "MarkNodeAgentConnected markDNS now nodeID db =
     bind_result (FindNodeByID db nodeID) (\<lambda>node.
     bind_result (store_MarkNodeAgentConnected now nodeID db) (\<lambda>db.
     if ToUpper (TrimSpace (nd_Status node)) \<noteq> ''ONLINE'' then markDNS (nd_GroupIDs node) db else Inr ([], db)))"

definition MarkNodeAgentDisconnected ::
    "'z markDNS \<Rightarrow> string \<Rightarrow> 'z control_db_scheme \<Rightarrow> (string list \<times> 'z control_db_scheme) result" where
  "MarkNodeAgentDisconnected markDNS nodeID db =
     bind_result (FindNodeByID db nodeID) (\<lambda>node.
     bind_result (store_MarkNodeAgentDisconnected nodeID db) (\<lambda>db.
     if ToUpper (TrimSpace (nd_Status node)) \<noteq> ''OFFLINE'' then markDNS (nd_GroupIDs node) db else Inr ([], db)))"

subsection \<open>Updates of the agent\<close>

definition agentUpdateTargetIsConcrete :: "string \<Rightarrow> bool" where
  "agentUpdateTargetIsConcrete version \<longleftrightarrow> \<not> List.member [[], ''latest'', ''dev'', ''unknown''] (ToLower (TrimSpace version))"

text \<open>The configured release and the version of the build.\<close>

definition targetAgentVersion :: "string \<Rightarrow> string \<Rightarrow> string" where
  "targetAgentVersion agentReleaseVersion buildVersion =
     (let configured = TrimSpace agentReleaseVersion in
      if configured = [] then TrimSpace buildVersion
      else if EqualFold configured ''latest'' \<and> agentUpdateTargetIsConcrete buildVersion then TrimSpace buildVersion
      else configured)"

definition shouldRequestAgentAutoUpdate :: "string \<Rightarrow> string \<Rightarrow> bool" where
  "shouldRequestAgentAutoUpdate currentVersion targetVersion \<longleftrightarrow>
     TrimSpace currentVersion \<noteq> [] \<and> agentUpdateTargetIsConcrete (TrimSpace targetVersion) \<and> TrimSpace currentVersion \<noteq> TrimSpace targetVersion"

definition requireConcreteAgentUpdateTarget :: "string \<Rightarrow> unit result" where
  "requireConcreteAgentUpdateTarget targetVersion = fail_if (\<not> agentUpdateTargetIsConcrete targetVersion) SErrInvalidInput"

definition agentUpdateCompletedByHello :: "NodeRecord \<Rightarrow> string \<Rightarrow> bool" where
  "agentUpdateCompletedByHello node reportedVersion \<longleftrightarrow>
     TrimSpace reportedVersion \<noteq> [] \<and> TrimSpace reportedVersion = TrimSpace (ag_DesiredVersion (nd_Agent node)) \<and>
     ag_UpdateStatus (nd_Agent node) \<noteq> ''SUCCEEDED''"

definition updateAgent :: "string \<Rightarrow> (NodeAgentInfo \<Rightarrow> NodeAgentInfo) \<Rightarrow> 'z control_db_scheme \<Rightarrow> 'z control_db_scheme result" where
  "updateAgent nodeID f = updateNodeRow nodeID (\<lambda>n. n\<lparr>nd_Agent := f (nd_Agent n)\<rparr>)"

definition MarkNodeAgentUpdateRequested :: "int \<Rightarrow> string \<Rightarrow> string \<Rightarrow> 'z control_db_scheme \<Rightarrow> 'z control_db_scheme result" where
  "MarkNodeAgentUpdateRequested now nodeID targetVersion =
     updateAgent nodeID (\<lambda>a. a\<lparr>ag_DesiredVersion := targetVersion, ag_UpdateStatus := ''PENDING'', ag_UpdateError := [],
       ag_UpdateStartedAt := Some now, ag_UpdateFinishedAt := None\<rparr>)"

definition MarkNodeAgentUpdateSatisfied :: "int \<Rightarrow> string \<Rightarrow> string \<Rightarrow> 'z control_db_scheme \<Rightarrow> 'z control_db_scheme result" where
  "MarkNodeAgentUpdateSatisfied now nodeID targetVersion =
     updateAgent nodeID (\<lambda>a. a\<lparr>ag_DesiredVersion := targetVersion, ag_UpdateStatus := ''SUCCEEDED'', ag_UpdateError := [],
       ag_UpdateStartedAt := coalesce (ag_UpdateStartedAt a) now, ag_UpdateFinishedAt := Some now\<rparr>)"

definition store_RecordNodeAgentUpdateResult :: "int \<Rightarrow> string \<Rightarrow> string \<Rightarrow> string \<Rightarrow> 'z control_db_scheme \<Rightarrow> 'z control_db_scheme result" where
  "store_RecordNodeAgentUpdateResult now nodeID status errorMessage =
     updateAgent nodeID (\<lambda>a. a\<lparr>ag_UpdateStatus := status, ag_UpdateError := errorMessage,
       ag_UpdateFinishedAt := (if status = ''RUNNING'' then None else Some now)\<rparr>)"

definition requestNodeAgentUpgrade :: "int \<Rightarrow> NodeRecord \<Rightarrow> string \<Rightarrow> 'z control_db_scheme \<Rightarrow> 'z control_db_scheme result" where
  "requestNodeAgentUpgrade now node targetVersion db =
     (let targetVersion = TrimSpace targetVersion in
      if targetVersion \<noteq> [] \<and> TrimSpace (ag_Version (nd_Agent node)) = targetVersion
      then MarkNodeAgentUpdateSatisfied now (nd_ID node) targetVersion db
      else MarkNodeAgentUpdateRequested now (nd_ID node) targetVersion db)"

record AgentHelloInput =
  hi_Version :: string
  hi_Commit :: string
  hi_BuildTime :: string
  hi_RemoteAddr :: string

text \<open>The greeting of an agent: connection, version, completed update, and a new update when the node follows the release.
  The result also says whether the agent is told to update.\<close>

definition recordHelloVersion :: "int \<Rightarrow> string \<Rightarrow> string \<Rightarrow> AgentHelloInput \<Rightarrow> 'z control_db_scheme \<Rightarrow> (bool \<times> 'z control_db_scheme) result" where
  "recordHelloVersion now target nodeID input db =
     bind_result (updateAgent nodeID (\<lambda>a. a\<lparr>ag_Version := hi_Version input, ag_Commit := hi_Commit input, ag_BuildTime := hi_BuildTime input\<rparr>) db) (\<lambda>db.
     bind_result (FindNodeByID db nodeID) (\<lambda>node.
     bind_result (if agentUpdateCompletedByHello node (hi_Version input)
       then MarkNodeAgentUpdateSatisfied now nodeID (ag_DesiredVersion (nd_Agent node)) db else Inr db) (\<lambda>db.
     if ag_AutoUpdateEnabled (nd_Agent node) \<and> shouldRequestAgentAutoUpdate (hi_Version input) target
     then bind_result (MarkNodeAgentUpdateRequested now nodeID target db) (\<lambda>db. Inr (True, db))
     else Inr (False, db))))"

definition RecordNodeAgentHello ::
    "'z markDNS \<Rightarrow> int \<Rightarrow> string \<Rightarrow> string \<Rightarrow> AgentHelloInput \<Rightarrow> 'z control_db_scheme \<Rightarrow> (bool \<times> string list \<times> 'z control_db_scheme) result" where
  "RecordNodeAgentHello markDNS now target nodeID input db =
     bind_result (MarkNodeAgentConnectedFromRemote markDNS now nodeID (hi_RemoteAddr input) db) (\<lambda>(affected, db).
     bind_result (recordHelloVersion now target nodeID input db) (\<lambda>(shouldUpdate, db).
     Inr (shouldUpdate, affected, db)))"

definition UpdateNodeAgentUpdatePolicy ::
    "ControlService \<Rightarrow> InternalIdentity \<Rightarrow> int \<Rightarrow> string \<Rightarrow> string \<Rightarrow> bool \<Rightarrow> 'z control_db_scheme \<Rightarrow> 'z control_db_scheme result" where
  "UpdateNodeAgentUpdatePolicy service identity now target nodeID enabled db =
     bind_result (fail_if (\<not> hasPermission service identity ''nodes.manage'') SErrForbidden) (\<lambda>_.
     bind_result (FindNodeByID db nodeID) (\<lambda>node.
     bind_result (ensureCanManageNodeGroups (svc_authorizer service) identity (nd_GroupIDs node)) (\<lambda>_.
     bind_result (updateAgent nodeID (\<lambda>a. a\<lparr>ag_AutoUpdateEnabled := enabled\<rparr>) db) (\<lambda>db.
     bind_result (if enabled \<and> shouldRequestAgentAutoUpdate (ag_Version (nd_Agent node)) target
       then requestNodeAgentUpgrade now node target db else Inr db) (\<lambda>db.
     Inr (writeAudit identity ''nodes.agent_update_policy'' ''NODE'' (nd_ID node) db))))))"

definition RequestNodeAgentUpgrade ::
    "ControlService \<Rightarrow> InternalIdentity \<Rightarrow> int \<Rightarrow> string \<Rightarrow> string \<Rightarrow> 'z control_db_scheme \<Rightarrow> 'z control_db_scheme result" where
  "RequestNodeAgentUpgrade service identity now target nodeID db =
     bind_result (fail_if (\<not> hasPermission service identity ''nodes.manage'') SErrForbidden) (\<lambda>_.
     bind_result (FindNodeByID db nodeID) (\<lambda>node.
     bind_result (ensureCanManageNodeGroups (svc_authorizer service) identity (nd_GroupIDs node)) (\<lambda>_.
     bind_result (requireConcreteAgentUpdateTarget target) (\<lambda>_.
     bind_result (requestNodeAgentUpgrade now node target db) (\<lambda>db.
     Inr (writeAudit identity ''nodes.agent_upgrade'' ''NODE'' (nd_ID node) db))))))"

definition RequestNodeAgentUpgrades ::
    "ControlService \<Rightarrow> InternalIdentity \<Rightarrow> int \<Rightarrow> string \<Rightarrow> string list \<Rightarrow> 'z control_db_scheme \<Rightarrow> 'z control_db_scheme result" where
  "RequestNodeAgentUpgrades service identity now target nodeIDs db =
     (let selected = filter (\<lambda>k. k \<noteq> []) (map TrimSpace nodeIDs);
          nodes = filter (\<lambda>n. selected = [] \<or> List.member selected (nd_ID n)) (ListNodesByOrganization db) in
      bind_result (fail_if (\<not> hasPermission service identity ''nodes.manage'') SErrForbidden) (\<lambda>_.
      bind_result (requireConcreteAgentUpdateTarget target) (\<lambda>_.
      bind_result (fold_result (\<lambda>node db.
        bind_result (ensureCanManageNodeGroups (svc_authorizer service) identity (nd_GroupIDs node)) (\<lambda>_.
        bind_result (requestNodeAgentUpgrade now node target db) (\<lambda>db.
        Inr (writeAudit identity ''nodes.agent_upgrade'' ''NODE'' (nd_ID node) db)))) nodes db) (\<lambda>db.
      if selected \<noteq> [] \<and> length (uniq [] (map nd_ID nodes)) \<noteq> length (uniq [] selected) then Inl SErrNotFound else Inr db))))"

definition RecordNodeAgentUpdateResult :: "int \<Rightarrow> string \<Rightarrow> string \<Rightarrow> string \<Rightarrow> 'z control_db_scheme \<Rightarrow> 'z control_db_scheme result" where
  "RecordNodeAgentUpdateResult now nodeID status errorMessage db =
     (let status = ToUpper (TrimSpace status) in
      if \<not> List.member [''SUCCEEDED'', ''FAILED'', ''RUNNING''] status then Inl SErrInvalidInput
      else store_RecordNodeAgentUpdateResult now nodeID status errorMessage db)"

definition PendingNodeAgentUpdate :: "string \<Rightarrow> 'z control_db_scheme \<Rightarrow> string option result" where
  "PendingNodeAgentUpdate nodeID db =
     bind_result (FindNodeByID db nodeID) (\<lambda>node.
     let a = nd_Agent node in
     Inr (if ag_DesiredVersion a \<noteq> [] \<and> ag_DesiredVersion a \<noteq> ag_Version a \<and> ag_UpdateStatus a = ''PENDING''
          then Some (ag_DesiredVersion a) else None))"

end
