(* ===== verification/Go_Json.thy ===== *)
theory Go_Json
  imports Complex_Main "HOL-Library.Log_Nat" Go_Strings
begin

text \<open>
  JSON values as \<open>encoding/json\<close> decodes them, and the arithmetic of \<open>float64\<close> that the DNS conditions use. The members
  of an object keep their order and their names are distinct (a \<open>jsonb\<close> column drops duplicates); a number is
  the \<open>float64\<close> it is decoded to, held as a rational.
\<close>

datatype json = JNull | JBool bool | JNum rat | JStr string | JArr "json list" | JObj "(string \<times> json) list"

text \<open>A lookup in a \<open>map[string]any\<close>; a missing key gives \<open>nil\<close>.\<close>

definition member_of :: "(string \<times> json) list \<Rightarrow> string \<Rightarrow> json" where
  "member_of members key = (case map_of members key of None \<Rightarrow> JNull | Some v \<Rightarrow> v)"

text \<open>The assertions \<open>value.(string)\<close>, \<open>value.(float64)\<close> and \<open>value.([]any)\<close> with their zero values.\<close>

fun stringValue :: "json \<Rightarrow> string" where
  "stringValue (JStr s) = s"
| "stringValue _ = []"

fun numericValue :: "json \<Rightarrow> rat option" where
  "numericValue (JNum q) = Some q"
| "numericValue _ = None"

fun arrayValue :: "json \<Rightarrow> json list" where
  "arrayValue (JArr xs) = xs"
| "arrayValue _ = []"

lemma size_member_of: "size (member_of ms k) < Suc (size_list (size_prod (\<lambda>_. 0) size) ms)"
proof (cases "map_of ms k")
  case (Some v)
  then have "(k, v) \<in> set ms" by (rule map_of_SomeD)
  then have "size_prod (\<lambda>_. 0) size (k, v) \<le> size_list (size_prod (\<lambda>_. 0) size) ms"
    by (rule size_list_estimation') simp
  then show ?thesis using Some by (simp add: member_of_def)
qed (simp add: member_of_def)

lemma size_arrayValue: "x \<in> set (arrayValue v) \<Longrightarrow> size x < size v"
  by (cases v) (auto simp: less_Suc_eq_le intro: size_list_estimation')

subsection \<open>Rounding to \<open>float64\<close>\<close>

definition round_even :: "rat \<Rightarrow> int" where
  "round_even x =
     (let f = \<lfloor>x\<rfloor>; d = x - of_int f in if d < 1 / 2 then f else if d > 1 / 2 then f + 1 else if even f then f else f + 1)"

text \<open>\<open>pow2 k\<close> is the power of two with the integer exponent \<open>k\<close>; \<open>binade q\<close> is the greatest \<open>k\<close> with \<open>pow2 k \<le> q\<close>.\<close>

definition pow2 :: "int \<Rightarrow> rat" where
  "pow2 k = (if 0 \<le> k then 2 ^ nat k else 1 / 2 ^ nat (- k))"

definition binade :: "rat \<Rightarrow> int" where
  "binade q =
     (let (a, b) = quotient_of q; k = int (floorlog 2 (nat a)) - int (floorlog 2 (nat b)) in if pow2 k \<le> q then k else k - 1)"

text \<open>Round to nearest, ties to even, with 53 bits; for numbers of normal range, which the percentages are.\<close>

definition fl64 :: "rat \<Rightarrow> rat" where
  "fl64 q =
     (if q = 0 then 0
      else let u = pow2 (binade \<bar>q\<bar> - 52); m = of_int (round_even (\<bar>q\<bar> / u)) * u in if q < 0 then - m else m)"

end
