(* ===== verification/Dns_Records.thy ===== *)
theory Dns_Records
  imports Node_Enrollment Go_Json
begin

text \<open>
  Managed DNS records and their instances: rows and statements of \<open>repo/dns_policy.go\<close>, the helpers of
  \<open>control_dns_policy_helpers.go\<close>, and the marking of records whose evaluation has to be repeated
  (\<open>control_dns_policy_runtime.go\<close>). The tables extend those of the control service. A JSON column holds the
  value it was written from, a list of diagnostics the codes, an error column the error whose text it has.
\<close>

subsection \<open>Rows\<close>

record DNSCredentialRecord =
  dnc_ID :: string
  dnc_Provider :: string
  dnc_Name :: string
  dnc_EncryptedSecret :: string

record DNSCredentialZoneRecord =
  dz_ID :: string
  dz_DNSCredentialID :: string
  dz_ZoneID :: string
  dz_ZoneName :: string
  dz_Status :: string

record DNSInstanceRecord =
  inst_ID :: string
  inst_ManagedRecordID :: string
  inst_Name :: string
  inst_Priority :: int
  inst_Enabled :: bool
  inst_NodeGroupIDs :: "string list"
  inst_AnswerCount :: int
  inst_Condition :: json
  inst_Action :: json
  inst_NotificationChannelIDs :: "string list"
  inst_LastOutputValues :: "string list"
  inst_LastStatus :: string
  inst_LastDiagnostics :: "string list"

record dnsProviderRetirement =
  ret_Provider :: string
  ret_EncryptedSecret :: string
  ret_Zone :: string
  ret_RecordName :: string
  ret_RecordType :: string
  ret_TTL :: int
  ret_Proxied :: bool

record DNSManagedRecordRecord =
  dr_ID :: string
  dr_DNSCredentialID :: string
  dr_CredentialZoneID :: string
  dr_ZoneID :: string
  dr_ZoneName :: string
  dr_RecordHost :: string
  dr_RecordName :: string
  dr_RecordType :: string
  dr_TTL :: int
  dr_Proxied :: bool
  dr_ActiveInstanceID :: string
  dr_LastAppliedValues :: "string list"
  dr_ProviderRetirements :: "dnsProviderRetirement list"
  dr_LastEvaluationStatus :: string
  dr_LastEvaluationError :: "service_error option"
  dr_LastDiagnostics :: "string list"
  dr_LastEvaluatedAt :: "int option"
  dr_LastAppliedAt :: "int option"
  dr_UpdatedAt :: int
  dr_Instances :: "DNSInstanceRecord list"

record NotificationChannelRecord =
  chan_ID :: string
  chan_Name :: string
  chan_ChannelType :: string
  chan_Config :: json
  chan_EncryptedSecret :: string
  chan_Enabled :: bool

record NotificationDeliveryRecord =
  nv_ChannelID :: string
  nv_DNSManagedRecordID :: string
  nv_DNSInstanceID :: string
  nv_EventType :: string
  nv_Status :: string

record dns_db = control_db +
  db_DNSCredentials :: "DNSCredentialRecord list"
  db_DNSZones :: "DNSCredentialZoneRecord list"
  db_DNSRecords :: "DNSManagedRecordRecord list"
  db_DNSInstances :: "DNSInstanceRecord list"
  db_NotificationChannels :: "NotificationChannelRecord list"
  db_NotificationDeliveries :: "NotificationDeliveryRecord list"

subsection \<open>Reading\<close>

text \<open>Instances are joined with the record that owns them: those of a deleted record are not read.\<close>

definition instancesOfRecords :: "'y dns_db_scheme \<Rightarrow> DNSInstanceRecord list" where
  "instancesOfRecords db =
     filter (\<lambda>i. list_ex (\<lambda>r. dr_ID r = inst_ManagedRecordID i) (db_DNSRecords db)) (db_DNSInstances db)"

definition ListDNSInstancesByOrganization :: "'y dns_db_scheme \<Rightarrow> DNSInstanceRecord list" where
  "ListDNSInstancesByOrganization db = sort_key (\<lambda>i. (inst_Priority i, inst_Name i, inst_ID i)) (instancesOfRecords db)"

definition ListDNSInstancesByManagedRecord :: "'y dns_db_scheme \<Rightarrow> string \<Rightarrow> DNSInstanceRecord list" where
  "ListDNSInstancesByManagedRecord db recordID =
     sort_key (\<lambda>i. (inst_Priority i, inst_Name i, inst_ID i)) (filter (\<lambda>i. inst_ManagedRecordID i = recordID) (instancesOfRecords db))"

definition withInstances :: "'y dns_db_scheme \<Rightarrow> DNSManagedRecordRecord \<Rightarrow> DNSManagedRecordRecord" where
  "withInstances db record = record\<lparr>dr_Instances := ListDNSInstancesByManagedRecord db (dr_ID record)\<rparr>"

definition ListDNSManagedRecordsByOrganization :: "'y dns_db_scheme \<Rightarrow> DNSManagedRecordRecord list" where
  "ListDNSManagedRecordsByOrganization db =
     map (withInstances db) (sort_key (\<lambda>r. (dr_ZoneName r, dr_RecordName r, dr_RecordType r)) (db_DNSRecords db))"

definition FindDNSManagedRecordByID :: "'y dns_db_scheme \<Rightarrow> string \<Rightarrow> DNSManagedRecordRecord result" where
  "FindDNSManagedRecordByID db recordID =
     (case List.find (\<lambda>r. dr_ID r = recordID) (db_DNSRecords db) of None \<Rightarrow> Inl SErrNotFound | Some r \<Rightarrow> Inr (withInstances db r))"

definition FindDNSInstanceByID :: "'y dns_db_scheme \<Rightarrow> string \<Rightarrow> DNSInstanceRecord result" where
  "FindDNSInstanceByID db instanceID =
     (case List.find (\<lambda>i. inst_ID i = instanceID) (instancesOfRecords db) of None \<Rightarrow> Inl SErrNotFound | Some i \<Rightarrow> Inr i)"

text \<open>What \<open>ensureNoDNSInstancesForNodeGroup\<close> looks for before a node group is deleted.\<close>

definition nodeGroupUsedByDNS :: "'y dns_db_scheme \<Rightarrow> string \<Rightarrow> bool" where
  "nodeGroupUsedByDNS db nodeGroupID \<longleftrightarrow> list_ex (\<lambda>i. List.member (inst_NodeGroupIDs i) nodeGroupID) (ListDNSInstancesByOrganization db)"

definition FindDNSCredentialByID :: "'y dns_db_scheme \<Rightarrow> string \<Rightarrow> DNSCredentialRecord result" where
  "FindDNSCredentialByID db k = (case List.find (\<lambda>c. dnc_ID c = k) (db_DNSCredentials db) of None \<Rightarrow> Inl SErrNotFound | Some c \<Rightarrow> Inr c)"

definition FindDNSCredentialZoneByID :: "'y dns_db_scheme \<Rightarrow> string \<Rightarrow> DNSCredentialZoneRecord result" where
  "FindDNSCredentialZoneByID db k = (case List.find (\<lambda>z. dz_ID z = k) (db_DNSZones db) of None \<Rightarrow> Inl SErrNotFound | Some z \<Rightarrow> Inr z)"

definition FindNotificationChannelByID :: "'y dns_db_scheme \<Rightarrow> string \<Rightarrow> NotificationChannelRecord result" where
  "FindNotificationChannelByID db k =
     (case List.find (\<lambda>c. chan_ID c = k) (db_NotificationChannels db) of None \<Rightarrow> Inl SErrNotFound | Some c \<Rightarrow> Inr c)"

subsection \<open>Actions\<close>

record dnsPolicyAction =
  act_Type :: string
  act_Values :: "string list"
  act_Value :: string
  act_InstanceID :: string

definition zeroAction :: dnsPolicyAction where
  "zeroAction = \<lparr>act_Type = [], act_Values = [], act_Value = [], act_InstanceID = []\<rparr>"

text \<open>\<open>json.Unmarshal\<close> into the struct: a member sets the field whose name it has, up to case; \<open>null\<close> leaves a string as it is
  and empties a list; another type is an error. A \<open>null\<close> in a list is the empty string.\<close>

definition decodeString :: "json \<Rightarrow> string \<Rightarrow> string option" where
  "decodeString v old = (case v of JNull \<Rightarrow> Some old | JStr s \<Rightarrow> Some s | _ \<Rightarrow> None)"

fun decodeStrings :: "json list \<Rightarrow> string list option" where
  "decodeStrings [] = Some []"
| "decodeStrings (v # vs) =
     (case decodeString v [] of None \<Rightarrow> None | Some s \<Rightarrow> map_option (\<lambda>ss. s # ss) (decodeStrings vs))"

definition decodeMember :: "string \<times> json \<Rightarrow> dnsPolicyAction \<Rightarrow> dnsPolicyAction option" where
  "decodeMember m a =
     (case m of (key, v) \<Rightarrow>
        if EqualFold key ''type'' then map_option (\<lambda>s. a\<lparr>act_Type := s\<rparr>) (decodeString v (act_Type a))
        else if EqualFold key ''values'' then
          (case v of JNull \<Rightarrow> Some (a\<lparr>act_Values := []\<rparr>) | JArr vs \<Rightarrow> map_option (\<lambda>ss. a\<lparr>act_Values := ss\<rparr>) (decodeStrings vs) | _ \<Rightarrow> None)
        else if EqualFold key ''value'' then map_option (\<lambda>s. a\<lparr>act_Value := s\<rparr>) (decodeString v (act_Value a))
        else if EqualFold key ''instance_id'' then map_option (\<lambda>s. a\<lparr>act_InstanceID := s\<rparr>) (decodeString v (act_InstanceID a))
        else Some a)"

fun decodeMembers :: "(string \<times> json) list \<Rightarrow> dnsPolicyAction \<Rightarrow> dnsPolicyAction option" where
  "decodeMembers [] a = Some a"
| "decodeMembers (m # ms) a = (case decodeMember m a of None \<Rightarrow> None | Some a' \<Rightarrow> decodeMembers ms a')"

definition decodeAction :: "json \<Rightarrow> dnsPolicyAction option" where
  "decodeAction v = (case v of JNull \<Rightarrow> Some zeroAction | JObj ms \<Rightarrow> decodeMembers ms zeroAction | _ \<Rightarrow> None)"

definition normalizeDNSActionType :: "string \<Rightarrow> string" where
  "normalizeDNSActionType actionType = ToUpper (TrimSpace actionType)"

subsection \<open>Values\<close>

definition normalizeDNSValues :: "string list \<Rightarrow> string list" where
  "normalizeDNSValues values = sort (uniq [] (filter (\<lambda>v. v \<noteq> []) (map (\<lambda>v. TrimCut ''.'' (TrimSpace v)) values)))"

text \<open>The lists behind \<open>stringListJSON\<close> and \<open>jsonStringList\<close>.\<close>

definition stringList :: "string list \<Rightarrow> string list" where
  "stringList values = sort (filter (\<lambda>v. v \<noteq> []) (map TrimSpace values))"

definition limitDNSAnswers :: "string list \<Rightarrow> int \<Rightarrow> string list" where
  "limitDNSAnswers values answerCount =
     (if answerCount = -1 \<or> answerCount \<ge> int (length values) then values
      else if answerCount \<le> 0 then [] else take (nat answerCount) values)"

text \<open>\<open>netip.ParseAddr\<close> followed by \<open>Is4\<close> and \<open>Is6\<close>; an IPv6 address may have a zone after a percent sign.\<close>

definition netip_Is4 :: "string \<Rightarrow> bool" where
  "netip_Is4 s \<longleftrightarrow> List.find (\<lambda>c. c = CHR ''.'' \<or> c = CHR '':'' \<or> c = CHR 0x25) s = Some (CHR ''.'') \<and> parse_ipv4 s \<noteq> None"

definition netip_Is6 :: "string \<Rightarrow> bool" where
  "netip_Is6 s \<longleftrightarrow>
     List.find (\<lambda>c. c = CHR ''.'' \<or> c = CHR '':'' \<or> c = CHR 0x25) s = Some (CHR '':'') \<and>
     (let addr = takeWhile (\<lambda>c. c \<noteq> CHR 0x25) s; zone = dropWhile (\<lambda>c. c \<noteq> CHR 0x25) s in
      length zone \<noteq> 1 \<and> parse_ipv6 addr \<noteq> None)"

definition dnsValuesMatchRecordType :: "string list \<Rightarrow> string \<Rightarrow> bool" where
  "dnsValuesMatchRecordType values recordType =
     list_all (\<lambda>v. if recordType = ''A'' then netip_Is4 v else if recordType = ''AAAA'' then netip_Is6 v else False) values"

definition nodeMatchesGroupSet :: "NodeRecord \<Rightarrow> string list \<Rightarrow> bool" where
  "nodeMatchesGroupSet node groupSet \<longleftrightarrow> groupSet = [] \<or> list_ex (List.member groupSet) (nd_GroupIDs node)"

subsection \<open>Marking records for evaluation\<close>

text \<open>The records whose instances use the output of an instance, directly or through others. \<open>levels\<close> is what is left of the
  nine levels of the recursion (\<open>depth > 8\<close> stops it); \<open>seen\<close> is the map that the calls share.\<close>

definition referencesInstance :: "string \<Rightarrow> DNSInstanceRecord \<Rightarrow> bool" where
  "referencesInstance instanceID candidate =
     (case decodeAction (inst_Action candidate) of
        None \<Rightarrow> False
      | Some a \<Rightarrow> normalizeDNSActionType (act_Type a) = ''USE_INSTANCE_OUTPUT'' \<and> TrimSpace (act_InstanceID a) = instanceID)"

primrec collectDNSRecordsReferencingInstance ::
    "nat \<Rightarrow> 'y dns_db_scheme \<Rightarrow> string \<Rightarrow> string list \<Rightarrow> string list \<times> string list" where
  "collectDNSRecordsReferencingInstance 0 db instanceID seen = ([], seen)"
| "collectDNSRecordsReferencingInstance (Suc levels) db instanceID seen =
     (if List.member seen instanceID then ([], seen)
      else fold (\<lambda>candidate (affected, seen).
             if referencesInstance instanceID candidate
             then (let (childAffected, seen) = collectDNSRecordsReferencingInstance levels db (inst_ID candidate) seen
                   in (affected @ inst_ManagedRecordID candidate # childAffected, seen))
             else (affected, seen)) (ListDNSInstancesByOrganization db) ([], instanceID # seen))"

definition sortedStringSetKeys :: "string list \<Rightarrow> string list" where
  "sortedStringSetKeys values = sort (uniq [] (filter (\<lambda>v. TrimSpace v \<noteq> []) values))"

definition updateDNSRecord :: "string \<Rightarrow> (DNSManagedRecordRecord \<Rightarrow> DNSManagedRecordRecord) \<Rightarrow> 'y dns_db_scheme \<Rightarrow> 'y dns_db_scheme result" where
  "updateDNSRecord recordID f db =
     (if \<not> list_ex (\<lambda>r. dr_ID r = recordID) (db_DNSRecords db) then Inl SErrNotFound
      else Inr (db\<lparr>db_DNSRecords := map (\<lambda>r. if dr_ID r = recordID then f r else r) (db_DNSRecords db)\<rparr>))"

text \<open>\<open>UPDATE dns_managed_records\<close> with the columns of an evaluation.\<close>

definition UpdateDNSManagedRecordEvaluation :: "DNSManagedRecordRecord \<Rightarrow> 'y dns_db_scheme \<Rightarrow> 'y dns_db_scheme result" where
  "UpdateDNSManagedRecordEvaluation record =
     updateDNSRecord (dr_ID record) (\<lambda>r. r\<lparr>dr_ActiveInstanceID := dr_ActiveInstanceID record,
       dr_LastAppliedValues := dr_LastAppliedValues record, dr_ProviderRetirements := dr_ProviderRetirements record,
       dr_LastEvaluationStatus := dr_LastEvaluationStatus record, dr_LastEvaluationError := dr_LastEvaluationError record,
       dr_LastDiagnostics := dr_LastDiagnostics record, dr_LastEvaluatedAt := dr_LastEvaluatedAt record,
       dr_LastAppliedAt := dr_LastAppliedAt record, dr_UpdatedAt := dr_UpdatedAt record\<rparr>)"

definition deletePending :: "DNSManagedRecordRecord \<Rightarrow> bool" where
  "deletePending record \<longleftrightarrow> ToUpper (TrimSpace (dr_LastEvaluationStatus record)) = ''DELETE_PENDING''"

definition pendingRecord :: "int \<Rightarrow> string \<Rightarrow> DNSManagedRecordRecord \<Rightarrow> DNSManagedRecordRecord" where
  "pendingRecord updatedAt diagnostic record =
     record\<lparr>dr_LastEvaluationStatus := ''PENDING'', dr_LastEvaluationError := None,
       dr_LastDiagnostics := [if diagnostic = [] then ''DNS_POLICY_INPUT_CHANGED'' else diagnostic], dr_UpdatedAt := updatedAt\<rparr>"

definition markRow :: "int \<Rightarrow> string \<Rightarrow> string \<Rightarrow> 'y dns_db_scheme \<Rightarrow> 'y dns_db_scheme result" where
  "markRow updatedAt diagnostic recordID db =
     bind_result (FindDNSManagedRecordByID db recordID) (\<lambda>record.
     if deletePending record then Inr db else UpdateDNSManagedRecordEvaluation (pendingRecord updatedAt diagnostic record) db)"

definition markDNSManagedRecordPending :: "string \<Rightarrow> int \<Rightarrow> string \<Rightarrow> 'y dns_db_scheme \<Rightarrow> (bool \<times> 'y dns_db_scheme) result" where
  "markDNSManagedRecordPending recordID updatedAt diagnostic db =
     (if TrimSpace recordID = [] then Inr (False, db)
      else bind_result (markRow updatedAt diagnostic recordID db) (\<lambda>db. Inr (True, db)))"

definition markDNSManagedRecordsPending ::
    "string list \<Rightarrow> int \<Rightarrow> string \<Rightarrow> 'y dns_db_scheme \<Rightarrow> (string list \<times> 'y dns_db_scheme) result" where
  "markDNSManagedRecordsPending recordIDs updatedAt diagnostic db =
     (let ordered = sortedStringSetKeys (map TrimSpace recordIDs) in
      bind_result (fold_result (markRow updatedAt diagnostic) ordered db) (\<lambda>db. Inr (ordered, db)))"

definition markDNSRecordsReferencingInstancePending ::
    "string \<Rightarrow> int \<Rightarrow> 'y dns_db_scheme \<Rightarrow> (string list \<times> 'y dns_db_scheme) result" where
  "markDNSRecordsReferencingInstancePending instanceID updatedAt db =
     markDNSManagedRecordsPending (sortedStringSetKeys (fst (collectDNSRecordsReferencingInstance 9 db instanceID [])))
       updatedAt ''REFERENCED_DNS_INSTANCE_CHANGED'' db"

definition dnsInstanceDependsOnNodeGroups :: "DNSInstanceRecord \<Rightarrow> string list \<Rightarrow> bool" where
  "dnsInstanceDependsOnNodeGroups inst groupIDs =
     (if inst_NodeGroupIDs inst = [] then True else if groupIDs = [] then False
      else list_ex (List.member groupIDs) (inst_NodeGroupIDs inst))"

text \<open>The loop over the instances of a record, with the records affected so far and the shared map.\<close>

fun affectedLoop ::
    "'y dns_db_scheme \<Rightarrow> string list \<Rightarrow> string \<Rightarrow> DNSInstanceRecord list \<Rightarrow> string list \<times> string list \<Rightarrow> string list \<times> string list" where
  "affectedLoop db changed recordID [] state = state"
| "affectedLoop db changed recordID (i # is) (affected, seen) =
     (if \<not> inst_Enabled i \<or> \<not> dnsInstanceDependsOnNodeGroups i changed then affectedLoop db changed recordID is (affected, seen)
      else (let (referenced, seen) = collectDNSRecordsReferencingInstance 9 db (inst_ID i) seen in
            affectedLoop db changed recordID is (affected @ recordID # referenced, seen)))"

definition recordsDependingOnNodeGroups :: "'y dns_db_scheme \<Rightarrow> string list \<Rightarrow> string list" where
  "recordsDependingOnNodeGroups db groupIDs =
     fst (fold (\<lambda>record state. affectedLoop db groupIDs (dr_ID record) (dr_Instances record) state)
       (ListDNSManagedRecordsByOrganization db) ([], []))"

definition markDNSRecordsDependingOnNodeGroupsPending ::
    "int \<Rightarrow> string list \<Rightarrow> 'y dns_db_scheme \<Rightarrow> (string list \<times> 'y dns_db_scheme) result" where
  "markDNSRecordsDependingOnNodeGroupsPending updatedAt groupIDs db =
     markDNSManagedRecordsPending (sortedStringSetKeys (recordsDependingOnNodeGroups db groupIDs)) updatedAt ''NODE_DNS_INPUT_CHANGED'' db"

subsection \<open>The contract of the node operations\<close>

lemma updateDNSRecord_frame:
  "updateDNSRecord k f db = Inr db' \<Longrightarrow> db_Rules db' = db_Rules db \<and> db_Nodes db' = db_Nodes db \<and> db_DNSInstances db' = db_DNSInstances db"
  by (auto simp: updateDNSRecord_def split: if_splits)

lemma markRow_frame:
  "markRow t c k db = Inr db' \<Longrightarrow> db_Rules db' = db_Rules db \<and> db_Nodes db' = db_Nodes db \<and> db_DNSInstances db' = db_DNSInstances db"
  by (auto simp: markRow_def UpdateDNSManagedRecordEvaluation_def dest!: updateDNSRecord_frame split: if_splits)

lemma fold_markRow_frame:
  "fold_result (markRow t c) ks db = Inr db' \<Longrightarrow>
   db_Rules db' = db_Rules db \<and> db_Nodes db' = db_Nodes db \<and> db_DNSInstances db' = db_DNSInstances db"
  by (induction ks arbitrary: db) (auto split: sum.splits dest: markRow_frame)

lemma markDNS_frame_nodes:
  "markDNSRecordsDependingOnNodeGroupsPending t groups db = Inr (ids, db') \<Longrightarrow>
   db_Rules db' = db_Rules db \<and> db_Nodes db' = db_Nodes db \<and> db_DNSInstances db' = db_DNSInstances db"
  by (auto simp: markDNSRecordsDependingOnNodeGroupsPending_def markDNSManagedRecordsPending_def Let_def dest: fold_markRow_frame)

interpretation marking: dns_marking "markDNSRecordsDependingOnNodeGroupsPending t" for t
  by unfold_locales (auto dest: markDNS_frame_nodes)

end
