(* ===== verification/Control_Invariant.thy ===== *)
theory Control_Invariant
  imports Agent_Auth Agent_Status Agent_Sync Target_Service Dns_Records
begin

text \<open>
  The invariant of the control plane over all its operations. Most of them leave the rules and what admission looks at of
  the nodes (\<open>kept\<close>); the others are covered by \<open>Rule_Invariant\<close> and \<open>Node_Invariant\<close> and, for the releases of enrollments,
  here. The step relation has one rule per operation, refusals that commit their writes included.
\<close>

subsection \<open>Operations that leave rules and layouts\<close>

definition kept :: "'z control_db_scheme \<Rightarrow> 'z control_db_scheme \<Rightarrow> bool" where
  "kept db db' \<longleftrightarrow> db_Rules db' = db_Rules db \<and> map layout (db_Nodes db') = map layout (db_Nodes db)"

lemma kept_refl [simp]: "kept db db"
  by (simp add: kept_def)

lemma kept_trans [trans]: "kept a b \<Longrightarrow> kept b c \<Longrightarrow> kept a c"
  by (simp add: kept_def)

lemma kept_ok: "kept db db' \<Longrightarrow> db_ok db \<Longrightarrow> db_ok db'"
  unfolding kept_def by (blast intro: db_ok_frame)

lemma kept_fold: "(\<And>x db. kept db (f x db)) \<Longrightarrow> kept db (fold f xs db)"
  by (induction xs arbitrary: db) (auto intro: kept_trans)

lemma kept_fold_result: "(\<And>x db db'. f x db = Inr db' \<Longrightarrow> kept db db') \<Longrightarrow> fold_result f xs db = Inr db' \<Longrightarrow> kept db db'"
proof (induction xs arbitrary: db)
  case (Cons x xs)
  then show ?case by (auto split: sum.splits) (metis kept_trans)
qed simp

named_theorems keeps \<open>operations that leave the rules and the layouts of the nodes\<close>

lemma writeAudit_kept [simp]: "kept db (writeAudit i a t k db') = kept db db'"
  by (simp add: kept_def)

lemma updateNodeRow_kept: "(\<And>n. layout (f n) = layout n) \<Longrightarrow> updateNodeRow k f db = Inr db' \<Longrightarrow> kept db db'"
  by (auto simp: updateNodeRow_def kept_def split: if_splits)

lemma connection_kept [keeps]:
  "store_MarkNodeAgentConnected t k db = Inr db' \<Longrightarrow> kept db db'"
  "store_MarkNodeAgentDisconnected k db = Inr db' \<Longrightarrow> kept db db'"
  "updateAgent k g db = Inr db' \<Longrightarrow> kept db db'"
  unfolding store_MarkNodeAgentConnected_def store_MarkNodeAgentDisconnected_def updateAgent_def
  by (erule updateNodeRow_kept [rotated], simp add: layout_def)+

lemma upgrade_kept [keeps]:
  "MarkNodeAgentUpdateRequested t k v db = Inr db' \<Longrightarrow> kept db db'"
  "MarkNodeAgentUpdateSatisfied t k v db = Inr db' \<Longrightarrow> kept db db'"
  "requestNodeAgentUpgrade t n v db = Inr db' \<Longrightarrow> kept db db'"
  unfolding requestNodeAgentUpgrade_def MarkNodeAgentUpdateRequested_def MarkNodeAgentUpdateSatisfied_def Let_def
  by (auto dest: keeps split: if_splits)

lemma publishRemote_kept: "kept db (snd (publishRemoteAddress n a db))"
  by (auto simp: publishRemoteAddress_def UpsertAutoNodeDNSPublishAddress_def DisableAutoNodeDNSPublishAddresses_def kept_def layout_def Let_def)

lemma policy_kept:
  "UpdateNodeAgentUpdatePolicy service i t v k e db = Inr db' \<Longrightarrow> kept db db'"
  "RequestNodeAgentUpgrade service i t v k db = Inr db' \<Longrightarrow> kept db db'"
  "RecordNodeAgentUpdateResult t k st m db = Inr db' \<Longrightarrow> kept db db'"
  by (auto simp: UpdateNodeAgentUpdatePolicy_def RequestNodeAgentUpgrade_def RecordNodeAgentUpdateResult_def store_RecordNodeAgentUpdateResult_def
      Let_def dest!: keeps split: if_splits intro: kept_trans)

lemma upgrades_kept:
  assumes "RequestNodeAgentUpgrades service i t v ks db = Inr db'"
  shows "kept db db'"
proof -
  obtain nodes where "fold_result (\<lambda>node db.
      bind_result (ensureCanManageNodeGroups (svc_authorizer service) i (nd_GroupIDs node)) (\<lambda>_.
      bind_result (requestNodeAgentUpgrade t node v db) (\<lambda>db.
      Inr (writeAudit i ''nodes.agent_upgrade'' ''NODE'' (nd_ID node) db)))) nodes db = Inr db'"
    using assms by (auto simp: RequestNodeAgentUpgrades_def Let_def split: if_splits)
  then show ?thesis by (rule kept_fold_result [rotated]) (auto dest!: upgrade_kept(3))
qed

lemma compile_kept: "CompileNodeAgentConfigForAgentProtocol d k v b db = Inr (c, db') \<Longrightarrow> kept db db'"
  by (auto simp: CompileNodeAgentConfigForAgentProtocol_def Let_def RecordNodeRuleTrafficAssignments_def EnsureDesiredConfigVersionAtLeast_def
      ensureVersion_def kept_def layout_def split: if_splits)

subsection \<open>Targets\<close>

lemma bump_kept: "kept db (bumpForRules rs db)"
proof -
  have "kept db (bumpDesiredConfigForNodeGroups gs db)" for gs and db :: "'a control_db_scheme"
    unfolding bumpDesiredConfigForNodeGroups_def by (rule kept_fold) (simp add: kept_def)
  then show ?thesis unfolding bumpForRules_def by (rule kept_trans) (rule kept_fold, simp add: kept_def)
qed

lemma bumps_kept:
  "kept db (bumpDesiredConfigForRulesUsingTarget k db)" "kept db (bumpDesiredConfigForRulesUsingTargetGroup k db)"
  by (simp_all add: bumpDesiredConfigForRulesUsingTarget_def bumpDesiredConfigForRulesUsingTargetGroup_def Let_def bump_kept)

lemma target_rows_kept [keeps]:
  "store_CreateTarget x db = Inr db' \<Longrightarrow> kept db db'" "store_UpdateTarget x db = Inr db' \<Longrightarrow> kept db db'"
  "store_DeleteTarget k db = Inr db' \<Longrightarrow> kept db db'" "store_CreateTargetGroup g ms db = Inr db' \<Longrightarrow> kept db db'"
  "store_UpdateTargetGroup g ms db = Inr db' \<Longrightarrow> kept db db'" "store_DeleteTargetGroup k db = Inr db' \<Longrightarrow> kept db db'"
  by (auto simp: store_CreateTarget_def store_UpdateTarget_def store_DeleteTarget_def store_CreateTargetGroup_def
      store_UpdateTargetGroup_def store_DeleteTargetGroup_def kept_def split: if_splits)

lemma syncMembership_kept: "syncMembershipStep service t sel g db = Inr db' \<Longrightarrow> kept db db'"
  by (auto simp: syncMembershipStep_def Let_def split: prod.splits if_splits dest!: target_rows_kept(5) intro: kept_trans bumps_kept)

lemma syncMemberships_kept [keeps]: "syncTargetGroupMemberships service t gs db = Inr db' \<Longrightarrow> kept db db'"
  unfolding syncTargetGroupMemberships_def Let_def bind_result_Inr
  by (elim exE conjE) (rule kept_fold_result [rotated], auto dest: syncMembership_kept)

lemma UpdateTarget_kept:
  assumes "UpdateTarget service i k ti db = Inr db'"
  shows "kept db db'"
proof -
  obtain c and old :: TargetRecord and db1 db2 where store: "store_UpdateTarget (targetOf (tgt_ID old) ti) db = Inr db1"
    and sync: "(case ti_TargetGroupIDs ti of None \<Rightarrow> Inr (if c then bumpDesiredConfigForRulesUsingTarget (tgt_ID old) db1 else db1)
      | Some gs \<Rightarrow> syncTargetGroupMemberships service (tgt_ID old) gs (if c then bumpDesiredConfigForRulesUsingTarget (tgt_ID old) db1 else db1)) = Inr db2"
    and db': "db' = writeAudit i ''targets.update'' ''TARGET'' (tgt_ID old) db2"
    using assms unfolding UpdateTarget_def Let_def bind_result_Inr sum.inject
    by (elim exE conjE) (rule that, assumption, assumption, rule sym, assumption)
  have "kept db1 (if c then bumpDesiredConfigForRulesUsingTarget (tgt_ID old) db1 else db1)" by (simp add: bumps_kept)
  moreover have "kept (if c then bumpDesiredConfigForRulesUsingTarget (tgt_ID old) db1 else db1) db2"
    using sync by (cases "ti_TargetGroupIDs ti") (auto dest: syncMemberships_kept)
  ultimately show ?thesis unfolding db' using target_rows_kept(2) [OF store] by (auto intro: kept_trans)
qed

lemma UpdateTargetGroup_kept:
  assumes "UpdateTargetGroup service i k gi db = Inr db'"
  shows "kept db db'"
proof -
  obtain c and grp :: TargetGroupRecord and g ms db1 where store: "store_UpdateTargetGroup g ms db = Inr db1"
    and db': "db' = writeAudit i ''target_groups.update'' ''TARGET_GROUP'' (grp_ID grp)
      (if c then bumpDesiredConfigForRulesUsingTargetGroup (grp_ID grp) db1 else db1)"
    using assms unfolding UpdateTargetGroup_def Let_def bind_result_Inr sum.inject
    by (elim exE conjE) (rule that, assumption, rule sym, assumption)
  show ?thesis unfolding db' using target_rows_kept(5) [OF store] by (auto intro: kept_trans bumps_kept)
qed

lemma targets_kept:
  "CreateTarget service i k ti db = Inr db' \<Longrightarrow> kept db db'" "DeleteTarget service i k db = Inr db' \<Longrightarrow> kept db db'"
  "CreateTargetGroup service i k gi db = Inr db' \<Longrightarrow> kept db db'" "DeleteTargetGroup service i k db = Inr db' \<Longrightarrow> kept db db'"
  by (auto simp: CreateTarget_def DeleteTarget_def CreateTargetGroup_def DeleteTargetGroup_def Let_def split: option.splits
      dest!: target_rows_kept syncMemberships_kept) (blast intro: kept_trans)+

subsection \<open>Credentials and profiles\<close>

lemma credential_rows_kept:
  "ClaimRegistrationToken t k db = Inr db' \<Longrightarrow> kept db db'" "CreateCredential c db = Inr db' \<Longrightarrow> kept db db'"
  "ActivateCredential t k db = Inr db' \<Longrightarrow> kept db db'" "RevokeCredential t k db = Inr db' \<Longrightarrow> kept db db'"
  "store_CreateRegistrationToken rt db = Inr db' \<Longrightarrow> kept db db'"
  "store_RevokeRegistrationToken t a b k db = Inr db' \<Longrightarrow> kept db db'"
  "store_CreateNodeEnrollmentProfile p db = Inr db' \<Longrightarrow> kept db db'"
  "store_UpdateNodeEnrollmentProfile p reset db = Inr db' \<Longrightarrow> kept db db'"
  "store_DeleteNodeEnrollmentProfile k db = Inr db' \<Longrightarrow> kept db db'"
  "IncrementNodeEnrollmentProfileUsedCount k db = Inr db' \<Longrightarrow> kept db db'"
  by (auto simp: ClaimRegistrationToken_def CreateCredential_def ActivateCredential_def RevokeCredential_def store_CreateRegistrationToken_def
      store_RevokeRegistrationToken_def store_CreateNodeEnrollmentProfile_def store_UpdateNodeEnrollmentProfile_def
      store_DeleteNodeEnrollmentProfile_def IncrementNodeEnrollmentProfileUsedCount_def kept_def Let_def split: if_splits)

lemma credential_updates_kept [simp]:
  "kept db (RevokeActiveCredentialsExcept t a b c db)" "kept db (recordNodeEnrollmentEvent p n st r db)"
  "kept db (DecrementNodeEnrollmentProfileUsedCount k db)" "kept db (RevokeActiveUnusedRegistrationTokens t a b db)"
  "kept db (returnUse u ar db)"
  by (auto simp: RevokeActiveCredentialsExcept_def recordNodeEnrollmentEvent_def DecrementNodeEnrollmentProfileUsedCount_def
      RevokeActiveUnusedRegistrationTokens_def returnUse_def kept_def Let_def split: option.splits)

lemma activate_kept:
  assumes "activate env tok c ty k p db = Inr db'"
  shows "kept db db'"
proof -
  obtain db1 db2 where claim: "(if tok = [] then Inr db else case ClaimRegistrationToken (env_now env) tok db of Inl e \<Rightarrow> Inl SErrForbidden | Inr d \<Rightarrow> Inr d) = Inr db1"
    and act: "ActivateCredential (env_now env) c db1 = Inr db2"
    and db': "(let d = RevokeActiveCredentialsExcept (env_now env) ty k c db2 in
      case p of None \<Rightarrow> d | Some p \<Rightarrow> recordNodeEnrollmentEvent p k ''SUCCEEDED'' [] d) = db'"
    using assms unfolding activate_def Let_def bind_result_Inr sum.inject by blast
  have "kept db db1" using claim by (auto split: if_splits sum.splits dest: credential_rows_kept(1))
  moreover have "kept db1 db2" using act by (rule credential_rows_kept)
  moreover have "kept db2 db'" unfolding db' [symmetric] by (cases p) (simp_all add: Let_def kept_trans [OF credential_updates_kept(1,2)])
  ultimately show ?thesis by (blast intro: kept_trans)
qed

lemma authenticate_kept:
  "authenticateCredential env ty x md c db = Inr (a, db') \<Longrightarrow> kept db db'"
  "authenticateRegistration env fresh ty x t db = Inr (a, db') \<Longrightarrow> kept db db'"
  by (auto simp: authenticateCredential_def authenticateRegistration_def Let_def split: if_splits option.splits
      dest!: activate_kept credential_rows_kept intro: kept_trans)

lemma administration_kept:
  "CreateRegistrationToken env service i k txt ty a h db = Inr db' \<Longrightarrow> kept db db'"
  "RevokeRegistrationToken env service i ty a k db = Inr db' \<Longrightarrow> kept db db'"
  "CreateNodeEnrollmentProfile env service i k txt inp db = Inr db' \<Longrightarrow> kept db db'"
  "UpdateNodeEnrollmentProfile service i k inp db = Inr db' \<Longrightarrow> kept db db'"
  "RotateNodeEnrollmentProfileToken env service i txt k db = Inr db' \<Longrightarrow> kept db db'"
  by (auto simp: CreateRegistrationToken_def RevokeRegistrationToken_def CreateNodeEnrollmentProfile_def UpdateNodeEnrollmentProfile_def
      RotateNodeEnrollmentProfileToken_def Let_def dest!: credential_rows_kept intro: kept_trans credential_updates_kept)

lemma FinalizeAgentRegistrationDelivery_kept: "FinalizeAgentRegistrationDelivery env ar db = (r, db') \<Longrightarrow> kept db db'"
  by (auto simp: FinalizeAgentRegistrationDelivery_def tx_run_def split: if_splits sum.splits dest!: activate_kept credential_rows_kept
      intro: kept_trans)

lemma groups_kept:
  "CreateNodeGroup service i k gi db = Inr db' \<Longrightarrow> kept db db'" "UpdateNodeGroup service i k gi db = Inr db' \<Longrightarrow> kept db db'"
  "DeleteNodeGroup d service i k db = Inr db' \<Longrightarrow> kept db db'"
  by (auto simp: CreateNodeGroup_def UpdateNodeGroup_def DeleteNodeGroup_def kept_def split: if_splits)

subsection \<open>Acknowledgements\<close>

lemma layout_ackNode [simp]: "layout (ackNode a n) = layout n"
  by (simp add: ackNode_def layout_def Let_def)

lemma ack_rows_kept [simp]:
  "kept db (RecordNodeConfigAck k a db)" "kept db (RecordRuleDeploymentApplied k v as db)" "kept db (RecordRuleDeploymentFailures fs db)"
  by (simp_all add: RecordNodeConfigAck_def RecordRuleDeploymentApplied_def RecordRuleDeploymentFailures_def kept_def)

lemma applyRuleFailurePolicies_ok: "db_ok db \<Longrightarrow> applyRuleFailurePolicies ks db = Inr db' \<Longrightarrow> db_ok db'"
  by (auto simp: applyRuleFailurePolicies_def split: if_splits dest: failurePolicyLoop_ok)

lemma Acknowledge_ok:
  assumes "db_ok db" "AcknowledgeNodeAgentConfigForAgentProtocol d t k v h pv pk st m es rd db = Inr db'"
  shows "db_ok db'"
proof -
  obtain a as fs and other applied none :: bool where res: "(if other then Inr (RecordNodeConfigAck k a db)
      else if applied then (if none then Inr (RecordNodeConfigAck k a db) else Inr (RecordRuleDeploymentApplied k v as (RecordNodeConfigAck k a db)))
      else applyRuleFailurePolicies (map dep_RuleID fs)
        (if fs \<noteq> [] then RecordRuleDeploymentFailures fs (RecordNodeConfigAck k a db) else RecordNodeConfigAck k a db)) = Inr db'"
    using assms(2) unfolding AcknowledgeNodeAgentConfigForAgentProtocol_def Let_def bind_result_Inr case_prod_beta
    by (elim exE conjE) (rule that, assumption)
  have ack: "db_ok (RecordNodeConfigAck k a db)" using kept_ok [OF ack_rows_kept(1)] assms(1) .
  have "db_ok (RecordRuleDeploymentApplied k v as (RecordNodeConfigAck k a db))" using kept_ok [OF ack_rows_kept(2)] ack .
  moreover have "db_ok (if fs \<noteq> [] then RecordRuleDeploymentFailures fs (RecordNodeConfigAck k a db) else RecordNodeConfigAck k a db)"
    by (simp add: ack kept_ok [OF ack_rows_kept(3)])
  ultimately show ?thesis
    using res ack by (cases other; cases applied; cases none) (auto dest: applyRuleFailurePolicies_ok [rotated])
qed

subsection \<open>Operations that mark DNS records\<close>

lemma tx_success [simp]:
  "tx_bind m f db = (Inr y, d) \<longleftrightarrow> (\<exists>x d1. m db = (Inr x, d1) \<and> f x d1 = (Inr y, d))"
  "tx_check g db = (Inr z, d) \<longleftrightarrow> g db = Inr z \<and> d = db"
  "tx_run h db = (Inr u, d) \<longleftrightarrow> h db = Inr d"
  "tx_return w db = (Inr w', d) \<longleftrightarrow> w = w' \<and> db = d"
  by (auto simp: tx_bind_def tx_check_def tx_run_def tx_return_def split: prod.splits sum.splits)

lemma marked_Inr:
  "(case m of Inl e \<Rightarrow> (Inl e, db) | Inr (a, d) \<Rightarrow> (Inr a, g d)) = (Inr x, db') \<longleftrightarrow> (\<exists>d. m = Inr (x, d) \<and> db' = g d)"
  by (cases m) auto

lemma withinTx_ok: "(\<And>x d. m db = (Inr x, d) \<Longrightarrow> db_ok d) \<Longrightarrow> db_ok db \<Longrightarrow> withinTx m db = (r, db') \<Longrightarrow> db_ok db'"
  by (auto simp: withinTx_def split: prod.splits sum.splits)

context dns_marking
begin

lemma markDNS_kept: "markDNS groups db = Inr (ids, db') \<Longrightarrow> kept db db'"
  unfolding kept_def by (rule markDNS_frame)

lemma connected_kept:
  "MarkNodeAgentConnectedFromRemote markDNS t k a db = Inr (ids, db') \<Longrightarrow> kept db db'"
  "MarkNodeAgentConnected markDNS t k db = Inr (ids, db') \<Longrightarrow> kept db db'"
  "MarkNodeAgentDisconnected markDNS k db = Inr (ids, db') \<Longrightarrow> kept db db'"
proof -
  assume "MarkNodeAgentConnectedFromRemote markDNS t k a db = Inr (ids, db')"
  then obtain n db1 where "store_MarkNodeAgentConnected t k db = Inr db1"
    and "kept (snd (publishRemoteAddress n a db1)) db'"
    unfolding MarkNodeAgentConnectedFromRemote_def bind_result_Inr
    by (elim exE conjE) (rule that, assumption, auto simp: case_prod_beta split: if_splits dest: markDNS_kept)
  then show "kept db db'" using connection_kept(1) publishRemote_kept kept_trans by blast
qed (auto simp: MarkNodeAgentConnected_def MarkNodeAgentDisconnected_def split: if_splits dest!: connection_kept markDNS_kept intro: kept_trans)

lemma hello_kept:
  assumes "RecordNodeAgentHello markDNS t v k hi db = Inr (u, ids, db')"
  shows "kept db db'"
proof -
  have "kept db1 db2" if "recordHelloVersion t v k hi db1 = Inr (u, db2)" for db1 db2
    using that by (auto simp: recordHelloVersion_def split: if_splits dest!: connection_kept(3) upgrade_kept intro: kept_trans)
  then show ?thesis using assms connected_kept(1) by (auto simp: RecordNodeAgentHello_def split: prod.splits dest!: connected_kept(1) intro: kept_trans)
qed

lemma releaseNode_ok:
  assumes "db_ok db" "releaseNode markDNS t k db = (r, db')"
  shows "db_ok db'"
proof (cases "FindNodeByID db k")
  case (Inr n)
  show ?thesis
  proof (cases "validateEnabledRulesForNodeSet db (removeNodeFromSet (ListNodesByOrganization db) k)")
    case check: (Inr u)
    have "db_ok (case store_DeleteNode t k db of Inl e \<Rightarrow> db | Inr d \<Rightarrow> d)"
      using store_DeleteNode_ok [OF assms(1)] assms(1) check by (cases "store_DeleteNode t k db") auto
    then show ?thesis
      using assms(2) Inr check markDNS_ok by (auto simp: releaseNode_def Let_def split: sum.splits prod.splits)
  qed (use assms Inr in \<open>auto simp: releaseNode_def\<close>)
qed (use assms in \<open>auto simp: releaseNode_def\<close>)

lemma releaseCredential_ok:
  assumes "db_ok db" "releaseAgentRegistrationCredentialInTx markDNS t ar db = (r, db')"
  shows "db_ok db'"
proof -
  obtain c db1 where revoke: "(case RevokeCredential t (ar_AgentCredentialID ar) db of Inl e \<Rightarrow> (False, db) | Inr d \<Rightarrow> (True, d)) = (c, db1)"
    by fastforce
  then have "kept db db1" by (auto split: sum.splits dest: credential_rows_kept)
  then have ok1: "db_ok db1" using assms(1) kept_ok by blast
  obtain r2 db2 where rel: "(if c \<and> ar_AgentID ar \<noteq> [] then releaseNode markDNS t (ar_AgentID ar) db1 else (Inr [], db1)) = (r2, db2)"
    by fastforce
  then have "db_ok db2" using ok1 releaseNode_ok by (auto split: if_splits)
  moreover have "db_ok (returnUse u ar db2)" if "db_ok db2" for u using that kept_ok credential_updates_kept(5) by blast
  ultimately show ?thesis
    using assms(2) ok1 unfolding releaseAgentRegistrationCredentialInTx_def revoke prod.case Let_def rel
    by (auto split: if_splits sum.splits)
qed

lemma releaseStaleLoop_ok: "db_ok db \<Longrightarrow> releaseStaleLoop markDNS env h u ids cs db = (r, db') \<Longrightarrow> db_ok db'"
  by (induction cs arbitrary: db u ids) (auto split: if_splits prod.splits sum.splits dest: releaseCredential_ok)

lemma releaseAllLoop_ok: "db_ok db \<Longrightarrow> releaseAllLoop markDNS t ids cs db = (r, db') \<Longrightarrow> db_ok db'"
  by (induction cs arbitrary: db ids) (auto split: prod.splits sum.splits dest: releaseCredential_ok)

lemma createFromProfile_ok:
  assumes "db_ok db" "createNodeFromEnrollmentProfile markDNS order env fresh p md db = Inr (ar, db')"
  shows "db_ok db'"
proof -
  obtain n ids db1 db2 db3 db4 where check: "validateEnabledRulesForNodeSet db (replaceNodeInSet (ListNodesByOrganization db) n) = Inr ()"
    and steps: "store_CreateNode n db = Inr db1" "replaceManualNodeDNSPublishAddresses (nd_ID n) (nd_DNSPublishAddresses n) db1 = Inr db2"
      "CreateCredential (enrollmentCredential env p fresh) db2 = Inr db3" "IncrementNodeEnrollmentProfileUsedCount (ep_ID p) db3 = Inr db4"
      "markDNS (nd_GroupIDs n) db4 = Inr (ids, db')"
    using assms(2) by (auto simp: createNodeFromEnrollmentProfile_def)
  have "db_ok db1" by (rule store_CreateNode_ok [OF assms(1) check steps(1)])
  moreover have "kept db1 db2" using publish_frame [OF steps(2)] by (simp add: kept_def)
  ultimately show ?thesis
    using steps(3-5) by (blast intro: kept_ok dest: credential_rows_kept markDNS_kept)
qed

lemma validateProfile_ok:
  "db_ok db \<Longrightarrow> validateNodeEnrollmentProfile markDNS env p md x db = (r, db') \<Longrightarrow> db_ok db'"
  by (auto simp: validateNodeEnrollmentProfile_def releaseStaleNodeEnrollmentReservations_def split: prod.splits sum.splits
      dest: releaseStaleLoop_ok)

lemma enrollment_ok:
  assumes "db_ok db"
  shows "authenticateNodeEnrollmentTokenInTx markDNS order env fresh h x md db = EnrollOk ar db' \<Longrightarrow> db_ok db'"
    "authenticateNodeEnrollmentTokenInTx markDNS order env fresh h x md db = EnrollRejected p e ids db' \<Longrightarrow> db_ok db'"
proof -
  have event: "db_ok (recordNodeEnrollmentEvent p n st r d)" if "db_ok d" for p n st r d
    using that kept_ok credential_updates_kept(2) by blast
  show "authenticateNodeEnrollmentTokenInTx markDNS order env fresh h x md db = EnrollOk ar db' \<Longrightarrow> db_ok db'"
    by (auto simp: authenticateNodeEnrollmentTokenInTx_def split: option.splits prod.splits sum.splits if_splits
        dest: validateProfile_ok [OF assms] createFromProfile_ok [rotated])
  show "authenticateNodeEnrollmentTokenInTx markDNS order env fresh h x md db = EnrollRejected p e ids db' \<Longrightarrow> db_ok db'"
    by (auto simp: authenticateNodeEnrollmentTokenInTx_def split: option.splits prod.splits sum.splits if_splits
        dest: validateProfile_ok [OF assms] intro: event)
qed

lemma authenticateAgentToken_ok:
  assumes "db_ok db" "authenticateAgentToken markDNS order env fresh ty tok x md db = (r, db')"
  shows "db_ok db'"
proof -
  have event: "db_ok (recordNodeEnrollmentEvent p n st c db)" for p n st c
    using assms(1) kept_ok credential_updates_kept(2) by blast
  show ?thesis
    using assms authenticate_kept [THEN kept_ok] enrollment_ok [OF assms(1)] event
    by (auto simp: authenticateAgentToken_def Let_def split: if_splits option.splits sum.splits prod.splits enrollment.splits)
qed

lemma ReleaseAgentRegistrationCredential_ok:
  "db_ok db \<Longrightarrow> ReleaseAgentRegistrationCredential markDNS env ar db = (r, db') \<Longrightarrow> db_ok db'"
  by (auto simp: ReleaseAgentRegistrationCredential_def tx_return_def tx_bind_def withinTx_def split: if_splits prod.splits sum.splits
      dest: releaseCredential_ok)

lemma DeleteNodeEnrollmentProfile_ok:
  assumes "db_ok db" "DeleteNodeEnrollmentProfile markDNS env service i k db = (r, db')"
  shows "db_ok db'"
proof (rule withinTx_ok [OF _ assms(1) assms(2) [unfolded DeleteNodeEnrollmentProfile_def]], goal_cases)
  case (1 x d)
  then obtain ids k' d1 d2 where "releaseAllLoop markDNS (env_now env) [] (ListPendingCredentialsByEnrollmentProfile db k') db = (Inr ids, d1)"
      "store_DeleteNodeEnrollmentProfile k d1 = Inr d2" "kept d2 d"
    by (auto simp: releasePendingNodeEnrollmentsForProfile_def)
  then show ?case by (blast intro: kept_ok releaseAllLoop_ok [OF assms(1)] dest: credential_rows_kept)
qed

lemma not_released: "releaseAgentRegistrationCredentialInTx markDNS t ar db = (Inr (ids, False), d) \<Longrightarrow> d = db"
  by (auto simp: releaseAgentRegistrationCredentialInTx_def returnUse_def Let_def split: sum.splits if_splits option.splits prod.splits)

lemma releaseForNode_ok:
  assumes "db_ok db" "releasePendingNodeEnrollmentForNode markDNS t n db = (Inr (ids, released), d)"
  shows "db_ok d" "\<not> released \<Longrightarrow> d = db"
  using assms by (auto simp: releasePendingNodeEnrollmentForNode_def split: if_splits option.splits dest: releaseCredential_ok not_released)

lemma DeleteNode_ok:
  assumes "db_ok db" "DeleteNode markDNS env service i k db = (r, db')"
  shows "db_ok db'"
proof (rule withinTx_ok [OF _ assms(1) assms(2) [unfolded DeleteNode_def]], goal_cases)
  case (1 x d)
  then obtain n ids released d1 where check: "validateEnabledRulesForNodeSet db (removeNodeFromSet (ListNodesByOrganization db) k) = Inr ()"
    and rel: "releasePendingNodeEnrollmentForNode markDNS (env_now env) n db = (Inr (ids, released), d1)"
    and rest: "(if released then kept d1 d else \<exists>d2 affected d3. store_DeleteNode (env_now env) k d1 = Inr d2 \<and>
       markDNS (nd_GroupIDs n) d2 = Inr (affected, d3) \<and> kept d3 d)"
  proof (auto, goal_cases)
    case (1 n ids released d1)
    then show ?case by (cases released) (auto simp: marked_Inr)
  qed
  show ?case
  proof (cases released)
    case True
    then show ?thesis using rest releaseForNode_ok(1) [OF assms(1) rel] kept_ok by auto
  next
    case False
    then have "d1 = db" using releaseForNode_ok(2) [OF assms(1) rel] by simp
    then show ?thesis using False rest store_DeleteNode_ok [OF assms(1) check] markDNS_ok kept_ok by (metis (full_types))
  qed
qed

end

end
