(* ===== verification/Dns_Evaluation.thy ===== *)
theory Dns_Evaluation
  imports Dns_Records
begin

text \<open>
  The evaluation of a managed DNS record (\<open>control_dns_policy_evaluation.go\<close>): the conditions of its instances on the
  state of the nodes, the selection of an instance, and the values its action gives.
\<close>

subsection \<open>Conditions\<close>

record dnsConditionContext =
  cx_TotalNodes :: nat
  cx_OnlineNodes :: nat
  cx_OfflineNodes :: nat

definition nodeStatus :: "NodeRecord \<Rightarrow> string" where
  "nodeStatus node = ToUpper (TrimSpace (nd_Status node))"

definition conditionContext :: "'y dns_db_scheme \<Rightarrow> DNSInstanceRecord \<Rightarrow> dnsConditionContext" where
  "conditionContext db inst =
     (let nodes = filter (\<lambda>n. nodeMatchesGroupSet n (inst_NodeGroupIDs inst)) (ListNodesByOrganization db) in
      \<lparr>cx_TotalNodes = length nodes, cx_OnlineNodes = length (filter (\<lambda>n. nodeStatus n = ''ONLINE'') nodes),
       cx_OfflineNodes = length (filter (\<lambda>n. nodeStatus n = ''OFFLINE'') nodes)\<rparr>)"

text \<open>\<open>float64\<close> arithmetic: the counts and their product with 100 are exact, the quotient is rounded.\<close>

definition dnsConditionMetric :: "string \<Rightarrow> dnsConditionContext \<Rightarrow> rat option" where
  "dnsConditionMetric metric context =
     (if metric = ''offline_node_count'' then Some (of_nat (cx_OfflineNodes context))
      else if metric = ''online_node_count'' then Some (of_nat (cx_OnlineNodes context))
      else if metric = ''offline_node_percent'' then Some (fl64 (of_nat (cx_OfflineNodes context) * 100 / of_nat (cx_TotalNodes context)))
      else if metric = ''online_node_percent'' then Some (fl64 (of_nat (cx_OnlineNodes context) * 100 / of_nat (cx_TotalNodes context)))
      else None)"

definition compareMetric :: "string \<Rightarrow> rat \<Rightarrow> rat \<Rightarrow> bool option" where
  "compareMetric comparator actual expected =
     (if comparator = ''>'' then Some (actual > expected) else if comparator = ''<'' then Some (actual < expected)
      else if comparator = ''>='' then Some (actual \<ge> expected) else if comparator = ''<='' then Some (actual \<le> expected)
      else if comparator = ''='' then Some (actual = expected) else None)"

definition evalLeaf :: "(string \<times> json) list \<Rightarrow> dnsConditionContext \<Rightarrow> bool \<times> string list" where
  "evalLeaf node context =
     (case dnsConditionMetric (ToLower (TrimSpace (stringValue (member_of node ''metric'')))) context of
        None \<Rightarrow> (False, [''UNSUPPORTED_CONDITION_METRIC''])
      | Some actual \<Rightarrow>
          (case numericValue (member_of node ''value'') of
             None \<Rightarrow> (False, [''INVALID_CONDITION_VALUE''])
           | Some expected \<Rightarrow>
               (case compareMetric (TrimSpace (stringValue (member_of node ''comparator''))) actual expected of
                  None \<Rightarrow> (False, [''UNSUPPORTED_CONDITION_COMPARATOR''])
                | Some b \<Rightarrow> (b, []))))"

definition conditionOp :: "(string \<times> json) list \<Rightarrow> string" where
  "conditionOp node = ToUpper (TrimSpace (stringValue (member_of node ''op'')))"

text \<open>The two loops over the children: they stop at the first child that decides, with the diagnostics so far.\<close>

fun andLoop :: "(json \<Rightarrow> bool \<times> string list) \<Rightarrow> string list \<Rightarrow> json list \<Rightarrow> bool \<times> string list" where
  "andLoop f diagnostics [] = (True, diagnostics)"
| "andLoop f diagnostics (c # cs) =
     (case c of
        JObj _ \<Rightarrow> (let (matched, childDiagnostics) = f c in
                  if \<not> matched then (False, diagnostics @ childDiagnostics) else andLoop f (diagnostics @ childDiagnostics) cs)
      | _ \<Rightarrow> (False, diagnostics @ [''INVALID_CONDITION'']))"

fun orLoop :: "(json \<Rightarrow> bool \<times> string list) \<Rightarrow> string list \<Rightarrow> json list \<Rightarrow> bool \<times> string list" where
  "orLoop f diagnostics [] = (False, diagnostics)"
| "orLoop f diagnostics (c # cs) =
     (case c of
        JObj _ \<Rightarrow> (let (matched, childDiagnostics) = f c in
                  if matched then (True, diagnostics @ childDiagnostics) else orLoop f (diagnostics @ childDiagnostics) cs)
      | _ \<Rightarrow> (False, diagnostics @ [''INVALID_CONDITION'']))"

lemma andLoop_cong [fundef_cong]:
  "d = d' \<Longrightarrow> cs = cs' \<Longrightarrow> (\<And>c. c \<in> set cs' \<Longrightarrow> f c = g c) \<Longrightarrow> andLoop f d cs = andLoop g d' cs'"
  by (induction cs arbitrary: d d' cs') (auto split: json.splits prod.splits)

lemma orLoop_cong [fundef_cong]:
  "d = d' \<Longrightarrow> cs = cs' \<Longrightarrow> (\<And>c. c \<in> set cs' \<Longrightarrow> f c = g c) \<Longrightarrow> orLoop f d cs = orLoop g d' cs'"
  by (induction cs arbitrary: d d' cs') (auto split: json.splits prod.splits)

text \<open>A node of the condition is an object; the callers check that.\<close>

function evalDNSConditionNode :: "dnsConditionContext \<Rightarrow> json \<Rightarrow> bool \<times> string list" where
  "evalDNSConditionNode context v =
     (case v of
        JObj node \<Rightarrow>
          (let children = arrayValue (member_of node ''children'') in
           if conditionOp node = ''AND'' \<or> conditionOp node = ''OR'' then
             (if children = [] then (False, [''EMPTY_CONDITION_GROUP''])
              else if conditionOp node = ''AND'' then andLoop (evalDNSConditionNode context) [] children
              else orLoop (evalDNSConditionNode context) [] children)
           else evalLeaf node context)
      | _ \<Rightarrow> (False, []))"
  by pat_completeness auto
termination
proof (relation "measure (\<lambda>(context, v). size v)", goal_cases)
  case (2 cx v node children child)
  then show ?case
    using size_arrayValue [of child "member_of node ''children''"] size_member_of [of node "''children''"] by simp
next
  case (3 cx v node children child)
  then show ?case
    using size_arrayValue [of child "member_of node ''children''"] size_member_of [of node "''children''"] by simp
qed simp

declare evalDNSConditionNode.simps [simp del]

definition evaluateDNSCondition :: "json \<Rightarrow> dnsConditionContext \<Rightarrow> bool \<times> string list" where
  "evaluateDNSCondition raw context =
     (case raw of
        JObj [] \<Rightarrow> (True, [])
      | JObj (m # ms) \<Rightarrow> if cx_TotalNodes context = 0 then (False, [''NO_NODE_GROUP_MEMBERS'']) else evalDNSConditionNode context raw
      | JNull \<Rightarrow> if cx_TotalNodes context = 0 then (False, [''NO_NODE_GROUP_MEMBERS'']) else evalDNSConditionNode context (JObj [])
      | _ \<Rightarrow> (False, [''INVALID_CONDITION'']))"

subsection \<open>Actions\<close>

definition onlineAddresses :: "'y dns_db_scheme \<Rightarrow> string \<Rightarrow> DNSInstanceRecord \<Rightarrow> string list" where
  "onlineAddresses db recordType inst =
     concat (map (\<lambda>n. map pa_Address (filter (\<lambda>a. pa_Enabled a \<and> pa_AddressType a = recordType) (nd_DNSPublishAddresses n)))
       (filter (\<lambda>n. nodeStatus n = ''ONLINE'' \<and> nodeMatchesGroupSet n (inst_NodeGroupIDs inst)) (ListNodesByOrganization db)))"

definition dnsOnlineNodeValues :: "'y dns_db_scheme \<Rightarrow> string \<Rightarrow> DNSInstanceRecord \<Rightarrow> string list result \<times> string list" where
  "dnsOnlineNodeValues db recordType inst =
     (let values = normalizeDNSValues (onlineAddresses db recordType inst) in
      if values = [] then (Inl SErrInvalidInput, [''NO_ONLINE_NODE_ADDRESSES'']) else (Inr values, []))"

text \<open>An action that refers to no other instance.\<close>

definition terminalAction :: "'y dns_db_scheme \<Rightarrow> DNSManagedRecordRecord \<Rightarrow> DNSInstanceRecord \<Rightarrow> dnsPolicyAction \<Rightarrow> string list result \<times> string list" where
  "terminalAction db record inst action =
     (let kind = normalizeDNSActionType (act_Type action) in
      if kind = ''ROTATE_ONLINE_NODES'' then
        (case dnsOnlineNodeValues db (dr_RecordType record) inst of
           (Inl e, diagnostics) \<Rightarrow> (Inl e, diagnostics)
         | (Inr values, diagnostics) \<Rightarrow> (Inr (limitDNSAnswers values (inst_AnswerCount inst)), diagnostics))
      else if List.member [''SET_STATIC_A'', ''SET_STATIC_AAAA'', ''SET_STATIC_ADDRESSES''] kind then
        (let values = normalizeDNSValues (act_Values action) in
         if values = [] \<or> \<not> dnsValuesMatchRecordType values (dr_RecordType record)
         then (Inl SErrInvalidInput, [''INVALID_STATIC_DNS_VALUES'']) else (Inr values, []))
      else if kind = ''SET_STATIC_CNAME'' then
        (let v = TrimCut ''.'' (TrimSpace (act_Value action)) in if v = [] then (Inl SErrInvalidInput, []) else (Inr [v], []))
      else (Inl SErrInvalidInput, [''UNSUPPORTED_ACTION'']))"

text \<open>The instance that \<open>USE_INSTANCE_OUTPUT\<close> refers to, with the checks on it.\<close>

definition referencedInstance :: "'y dns_db_scheme \<Rightarrow> DNSManagedRecordRecord \<Rightarrow> dnsPolicyAction \<Rightarrow> DNSInstanceRecord result \<times> string list" where
  "referencedInstance db record action =
     (case FindDNSInstanceByID db (act_InstanceID action) of
        Inl e \<Rightarrow> (Inl e, [])
      | Inr target \<Rightarrow>
          if \<not> inst_Enabled target then (Inl SErrInvalidInput, [''REFERENCED_INSTANCE_DISABLED''])
          else (case FindDNSManagedRecordByID db (inst_ManagedRecordID target) of
                  Inl e \<Rightarrow> (Inl e, [])
                | Inr targetRecord \<Rightarrow>
                    if deletePending targetRecord then (Inl SErrInvalidInput, [''REFERENCED_INSTANCE_DELETE_PENDING''])
                    else if dr_RecordType targetRecord \<noteq> dr_RecordType record
                    then (Inl SErrInvalidInput, [''REFERENCED_INSTANCE_RECORD_TYPE_MISMATCH''])
                    else (Inr target, [])))"

text \<open>\<open>levels\<close> is what is left of the nine levels of the recursion; the error of \<open>json.Unmarshal\<close> is an internal one.\<close>

primrec evaluateDNSAction ::
    "nat \<Rightarrow> 'y dns_db_scheme \<Rightarrow> DNSManagedRecordRecord \<Rightarrow> DNSInstanceRecord \<Rightarrow> string list \<Rightarrow> string list result \<times> string list" where
  "evaluateDNSAction 0 db record inst seen = (Inl SErrInvalidInput, [''INSTANCE_REFERENCE_DEPTH_EXCEEDED''])"
| "evaluateDNSAction (Suc levels) db record inst seen =
     (if List.member seen (inst_ID inst) then (Inl SErrInvalidInput, [''INSTANCE_REFERENCE_CYCLE''])
      else case decodeAction (inst_Action inst) of
             None \<Rightarrow> (Inl (SControl ''INTERNAL''), [''INVALID_ACTION''])
           | Some action \<Rightarrow>
               if normalizeDNSActionType (act_Type action) \<noteq> ''USE_INSTANCE_OUTPUT'' then terminalAction db record inst action
               else (case referencedInstance db record action of
                       (Inl e, diagnostics) \<Rightarrow> (Inl e, diagnostics)
                     | (Inr target, _) \<Rightarrow> evaluateDNSAction levels db record target (inst_ID inst # seen)))"

subsection \<open>The evaluation of a record\<close>

record dnsPolicyEvaluation =
  pe_Status :: string
  pe_Error :: "service_error option"
  pe_Diagnostics :: "string list"
  pe_Values :: "string list"
  pe_ApplyProvider :: bool
  pe_ActiveInstance :: "DNSInstanceRecord option"

datatype selection = Ambiguous | Chosen "DNSInstanceRecord option"

text \<open>The loop over the enabled instances by priority.\<close>

fun selectInstance ::
    "'y dns_db_scheme \<Rightarrow> DNSInstanceRecord option \<Rightarrow> string list \<Rightarrow> DNSInstanceRecord list \<Rightarrow> selection \<times> string list" where
  "selectInstance db selected diagnostics [] = (Chosen selected, diagnostics)"
| "selectInstance db selected diagnostics (i # is) =
     (let (matched, conditionDiagnostics) = evaluateDNSCondition (inst_Condition i) (conditionContext db i);
          diagnostics = diagnostics @ conditionDiagnostics in
      if \<not> matched then selectInstance db selected diagnostics is
      else case selected of
             None \<Rightarrow> selectInstance db (Some i) diagnostics is
           | Some s \<Rightarrow>
               if inst_Priority s = inst_Priority i then (Ambiguous, diagnostics @ [''AMBIGUOUS_PRIORITY''])
               else if inst_Priority s < inst_Priority i then (Chosen selected, diagnostics)
               else selectInstance db (Some i) diagnostics is)"

definition candidates :: "DNSManagedRecordRecord \<Rightarrow> DNSInstanceRecord list" where
  "candidates record = sort_key (\<lambda>i. (inst_Priority i, inst_ID i)) (filter inst_Enabled (dr_Instances record))"

definition evaluateDNSManagedRecord :: "'y dns_db_scheme \<Rightarrow> DNSManagedRecordRecord \<Rightarrow> dnsPolicyEvaluation" where
  "evaluateDNSManagedRecord db record =
     (case selectInstance db None [] (candidates record) of
        (Ambiguous, diagnostics) \<Rightarrow>
          \<lparr>pe_Status = ''CONFLICT'', pe_Error = None, pe_Diagnostics = diagnostics, pe_Values = [], pe_ApplyProvider = False, pe_ActiveInstance = None\<rparr>
      | (Chosen None, diagnostics) \<Rightarrow>
          \<lparr>pe_Status = ''NO_MATCH'', pe_Error = None, pe_Diagnostics = diagnostics @ [''NO_MATCHED_INSTANCE''],
           pe_Values = dr_LastAppliedValues record, pe_ApplyProvider = False, pe_ActiveInstance = None\<rparr>
      | (Chosen (Some i), diagnostics) \<Rightarrow>
          (case evaluateDNSAction 9 db record i [] of
             (Inl e, actionDiagnostics) \<Rightarrow>
               \<lparr>pe_Status = ''FAILED'', pe_Error = Some e, pe_Diagnostics = diagnostics @ actionDiagnostics, pe_Values = [],
                pe_ApplyProvider = False, pe_ActiveInstance = Some i\<rparr>
           | (Inr values, actionDiagnostics) \<Rightarrow>
               \<lparr>pe_Status = ''APPLIED'', pe_Error = None, pe_Diagnostics = diagnostics @ actionDiagnostics, pe_Values = values,
                pe_ApplyProvider = (stringList (dr_LastAppliedValues record) \<noteq> stringList values \<or>
                  ToUpper (dr_LastEvaluationStatus record) \<noteq> ''APPLIED''),
                pe_ActiveInstance = Some i\<rparr>))"

end
