(* ===== verification/Dns_Invalidation.thy ===== *)
theory Dns_Invalidation
  imports Dns_Evaluation
begin

text \<open>
  The marking of DNS records misses none: when nodes change, every record whose evaluation gives another result is
  among those that \<open>markDNSRecordsDependingOnNodeGroupsPending\<close> marks, also through chains of instances that use the
  output of other instances, in spite of the bound on the depth and of the map that the traversals share.
\<close>

subsection \<open>What an evaluation reads of the nodes\<close>

definition dns_view :: "NodeRecord \<Rightarrow> string \<times> (string \<times> string) set" where
  "dns_view n = (nodeStatus n, (\<lambda>a. (pa_AddressType a, pa_Address a)) ` {a \<in> set (nd_DNSPublishAddresses n). pa_Enabled a})"

text \<open>Two sets of nodes look the same to an instance that is bound to the groups \<open>S\<close>; to every instance that is bound to
  groups other than the given ones.\<close>

definition same_at :: "string list \<Rightarrow> NodeRecord list \<Rightarrow> NodeRecord list \<Rightarrow> bool" where
  "same_at S nodes nodes' \<longleftrightarrow>
     image_mset dns_view (mset (filter (\<lambda>n. nodeMatchesGroupSet n S) nodes)) =
     image_mset dns_view (mset (filter (\<lambda>n. nodeMatchesGroupSet n S) nodes'))"

definition same_outside :: "string list \<Rightarrow> NodeRecord list \<Rightarrow> NodeRecord list \<Rightarrow> bool" where
  "same_outside groups nodes nodes' \<longleftrightarrow>
     (\<forall>S. S \<noteq> [] \<and> set S \<inter> set groups = {} \<longrightarrow> same_at S nodes nodes')"

definition same_dns_tables :: "'y dns_db_scheme \<Rightarrow> 'y dns_db_scheme \<Rightarrow> bool" where
  "same_dns_tables db db' \<longleftrightarrow> db_DNSRecords db' = db_DNSRecords db \<and> db_DNSInstances db' = db_DNSInstances db"

lemma same_dns_reads:
  assumes "same_dns_tables db db'"
  shows "instancesOfRecords db' = instancesOfRecords db" "FindDNSInstanceByID db' k = FindDNSInstanceByID db k"
    "FindDNSManagedRecordByID db' k = FindDNSManagedRecordByID db k" "referencedInstance db' r a = referencedInstance db r a"
    "ListDNSInstancesByOrganization db' = ListDNSInstancesByOrganization db"
    "ListDNSManagedRecordsByOrganization db' = ListDNSManagedRecordsByOrganization db"
proof -
  show inst: "instancesOfRecords db' = instancesOfRecords db"
    using assms by (simp add: same_dns_tables_def instancesOfRecords_def)
  have wi: "withInstances db' = withInstances db"
    by (rule ext) (simp add: withInstances_def ListDNSInstancesByManagedRecord_def inst)
  show fi: "FindDNSInstanceByID db' k = FindDNSInstanceByID db k" for k by (simp add: FindDNSInstanceByID_def inst)
  show fr: "FindDNSManagedRecordByID db' k = FindDNSManagedRecordByID db k" for k
    using assms by (cases "List.find (\<lambda>r. dr_ID r = k) (db_DNSRecords db)") (simp_all add: FindDNSManagedRecordByID_def same_dns_tables_def wi)
  show "referencedInstance db' r a = referencedInstance db r a" unfolding referencedInstance_def fi fr ..
  show "ListDNSInstancesByOrganization db' = ListDNSInstancesByOrganization db"
    by (simp add: ListDNSInstancesByOrganization_def inst)
  show "ListDNSManagedRecordsByOrganization db' = ListDNSManagedRecordsByOrganization db"
    using assms by (simp add: ListDNSManagedRecordsByOrganization_def wi same_dns_tables_def)
qed

lemma mset_view_filter:
  assumes "image_mset dns_view (mset xs) = image_mset dns_view (mset ys)" and "\<And>n. P n = Q (dns_view n)"
  shows "length (filter P xs) = length (filter P ys)"
proof -
  have eq: "image_mset dns_view (mset (filter P zs)) = filter_mset Q (image_mset dns_view (mset zs))" for zs
    by (simp add: filter_mset_image_mset assms(2))
  have "size (image_mset dns_view (mset (filter P xs))) = size (image_mset dns_view (mset (filter P ys)))"
    unfolding eq using assms(1) by simp
  then show ?thesis by (simp only: size_image_mset size_mset)
qed

lemma normalizeDNSValues_cong: "set xs = set ys \<Longrightarrow> normalizeDNSValues xs = normalizeDNSValues ys"
  unfolding normalizeDNSValues_def
  by (rule sorted_distinct_set_unique) (simp_all add: distinct_uniq set_uniq)

lemma same_outside_at:
  assumes "same_outside G nodes nodes'" "\<not> dnsInstanceDependsOnNodeGroups i G"
  shows "same_at (inst_NodeGroupIDs i) nodes nodes'"
  using assms by (auto simp: same_outside_def dnsInstanceDependsOnNodeGroups_def list_ex_iff split: if_splits)

lemma same_filter:
  "same_at S (db_Nodes db) (db_Nodes db') \<Longrightarrow>
     image_mset dns_view (mset (filter (\<lambda>n. nodeMatchesGroupSet n S) (ListNodesByOrganization db))) =
     image_mset dns_view (mset (filter (\<lambda>n. nodeMatchesGroupSet n S) (ListNodesByOrganization db')))"
  by (simp add: same_at_def ListNodesByOrganization_def)

lemma conditionContext_same:
  assumes "same_at (inst_NodeGroupIDs i) (db_Nodes db) (db_Nodes db')"
  shows "conditionContext db' i = conditionContext db i"
proof -
  note eq = same_filter [OF assms]
  from eq have "size (image_mset dns_view (mset (filter (\<lambda>n. nodeMatchesGroupSet n (inst_NodeGroupIDs i)) (ListNodesByOrganization db)))) =
         size (image_mset dns_view (mset (filter (\<lambda>n. nodeMatchesGroupSet n (inst_NodeGroupIDs i)) (ListNodesByOrganization db'))))"
    by simp
  then have total: "length (filter (\<lambda>n. nodeMatchesGroupSet n (inst_NodeGroupIDs i)) (ListNodesByOrganization db)) =
    length (filter (\<lambda>n. nodeMatchesGroupSet n (inst_NodeGroupIDs i)) (ListNodesByOrganization db'))" by (simp only: size_image_mset size_mset)
  have "length (filter (\<lambda>n. nodeStatus n = s) (filter (\<lambda>n. nodeMatchesGroupSet n (inst_NodeGroupIDs i)) (ListNodesByOrganization db))) =
    length (filter (\<lambda>n. nodeStatus n = s) (filter (\<lambda>n. nodeMatchesGroupSet n (inst_NodeGroupIDs i)) (ListNodesByOrganization db')))" for s
    by (rule mset_view_filter [OF eq, where Q = "\<lambda>v. fst v = s"]) (simp add: dns_view_def)
  then show ?thesis using total by (simp add: conditionContext_def Let_def)
qed

lemma onlineAddresses_same:
  fixes db db' :: "'y dns_db_scheme"
  assumes "same_at (inst_NodeGroupIDs i) (db_Nodes db) (db_Nodes db')"
  shows "set (onlineAddresses db' ty i) = set (onlineAddresses db ty i)"
proof -
  have form: "set (onlineAddresses d ty i) = {a. \<exists>v \<in> dns_view ` set (filter (\<lambda>n. nodeMatchesGroupSet n (inst_NodeGroupIDs i)) (ListNodesByOrganization d)).
      fst v = ''ONLINE'' \<and> (ty, a) \<in> snd v}" for d :: "'y dns_db_scheme"
    by (auto simp: onlineAddresses_def dns_view_def)
  have "dns_view ` set (filter (\<lambda>n. nodeMatchesGroupSet n (inst_NodeGroupIDs i)) (ListNodesByOrganization db')) =
    dns_view ` set (filter (\<lambda>n. nodeMatchesGroupSet n (inst_NodeGroupIDs i)) (ListNodesByOrganization db))"
    using arg_cong [OF same_filter [OF assms], of set_mset] by simp
  then show ?thesis unfolding form by (simp only:)
qed

lemma terminalAction_same:
  fixes db db' :: "'y dns_db_scheme"
  assumes "same_at (inst_NodeGroupIDs i) (db_Nodes db) (db_Nodes db')"
  shows "terminalAction db' r i a = terminalAction db r i a"
proof -
  have "dnsOnlineNodeValues db' (dr_RecordType r) i = dnsOnlineNodeValues db (dr_RecordType r) i"
    using normalizeDNSValues_cong [OF onlineAddresses_same [OF assms, of "dr_RecordType r"]] by (simp add: dnsOnlineNodeValues_def)
  then show ?thesis unfolding terminalAction_def by (simp only:)
qed

subsection \<open>Chains of references\<close>

definition dns_ids_ok :: "'y dns_db_scheme \<Rightarrow> bool" where
  "dns_ids_ok db \<longleftrightarrow>
     distinct (map dr_ID (db_DNSRecords db)) \<and> distinct (map inst_ID (db_DNSInstances db)) \<and>
     (\<forall>r \<in> set (db_DNSRecords db). TrimSpace (dr_ID r) = dr_ID r \<and> dr_ID r \<noteq> []) \<and>
     (\<forall>i \<in> set (db_DNSInstances db). TrimSpace (inst_ID i) = inst_ID i)"

text \<open>\<open>uses db k i t\<close>: the instance \<open>i\<close> takes the output of \<open>t\<close> through \<open>k\<close> references.\<close>

primrec uses :: "'y dns_db_scheme \<Rightarrow> nat \<Rightarrow> DNSInstanceRecord \<Rightarrow> DNSInstanceRecord \<Rightarrow> bool" where
  "uses db 0 i t \<longleftrightarrow> i = t"
| "uses db (Suc k) i t \<longleftrightarrow> (\<exists>j \<in> set (instancesOfRecords db). referencesInstance (inst_ID j) i \<and> uses db k j t)"

definition is_terminal :: "DNSInstanceRecord \<Rightarrow> bool" where
  "is_terminal t \<longleftrightarrow> (\<forall>k. \<not> referencesInstance k t)"

lemma set_ListInstances [simp]: "set (ListDNSInstancesByOrganization db) = set (instancesOfRecords db)"
  by (simp add: ListDNSInstancesByOrganization_def)

lemma FindInstance_Inr: "FindDNSInstanceByID db k = Inr i \<Longrightarrow> i \<in> set (instancesOfRecords db) \<and> inst_ID i = k"
  by (auto simp: FindDNSInstanceByID_def find_Some_iff split: option.splits)

lemma instance_ids:
  assumes "dns_ids_ok db" "i \<in> set (instancesOfRecords db)" "j \<in> set (instancesOfRecords db)" "inst_ID i = inst_ID j"
  shows "i = j"
  using assms by (auto simp: dns_ids_ok_def instancesOfRecords_def distinct_map dest: inj_onD)

lemma references_unique: "referencesInstance k i \<Longrightarrow> referencesInstance l i \<Longrightarrow> k = l"
  by (auto simp: referencesInstance_def split: option.splits)

lemma referencedInstance_step:
  assumes "dns_ids_ok db" "decodeAction (inst_Action i) = Some a" "normalizeDNSActionType (act_Type a) = ''USE_INSTANCE_OUTPUT''"
    "referencedInstance db r a = (Inr target, ds)"
  shows "target \<in> set (instancesOfRecords db)" "inst_Enabled target" "referencesInstance (inst_ID target) i"
proof -
  have find: "FindDNSInstanceByID db (act_InstanceID a) = Inr target" and "inst_Enabled target"
    using assms(4) by (auto simp: referencedInstance_def split: sum.splits if_splits)
  then show "target \<in> set (instancesOfRecords db)" "inst_Enabled target" using FindInstance_Inr by auto
  moreover have "TrimSpace (act_InstanceID a) = act_InstanceID a"
    using FindInstance_Inr [OF find] assms(1) by (auto simp: dns_ids_ok_def instancesOfRecords_def)
  ultimately show "referencesInstance (inst_ID target) i"
    using assms(2,3) FindInstance_Inr [OF find] by (simp add: referencesInstance_def)
qed

text \<open>An action whose value changed has its source in an instance that depends on the changed groups.\<close>

lemma evaluateDNSAction_source:
  assumes ids: "dns_ids_ok db" and tables: "same_dns_tables db db'" and nodes: "same_outside G (db_Nodes db) (db_Nodes db')"
  shows "i \<in> set (instancesOfRecords db) \<Longrightarrow> evaluateDNSAction levels db' r i seen \<noteq> evaluateDNSAction levels db r i seen \<Longrightarrow>
    \<exists>k t. k < levels \<and> uses db k i t \<and> t \<in> set (instancesOfRecords db) \<and> is_terminal t \<and> dnsInstanceDependsOnNodeGroups t G \<and> (k > 0 \<longrightarrow> inst_Enabled t)"
proof (induction levels arbitrary: i seen)
  case (Suc levels)
  obtain a where a: "decodeAction (inst_Action i) = Some a" and "\<not> List.member seen (inst_ID i)"
    using Suc.prems(2) by (auto split: option.splits if_splits)
  show ?case
  proof (cases "normalizeDNSActionType (act_Type a) = ''USE_INSTANCE_OUTPUT''")
    case False
    then have "is_terminal i" by (simp add: is_terminal_def referencesInstance_def a)
    moreover have "dnsInstanceDependsOnNodeGroups i G"
    proof (rule ccontr)
      assume "\<not> dnsInstanceDependsOnNodeGroups i G"
      from terminalAction_same [OF same_outside_at [OF nodes this], of r a] show False using Suc.prems(2) a False by (auto split: if_splits)
    qed
    ultimately show ?thesis using Suc.prems(1) by (intro exI [of _ 0] exI [of _ i]) simp
  next
    case True
    obtain target where ref: "referencedInstance db r a = (Inr target, snd (referencedInstance db r a))"
      and diff: "evaluateDNSAction levels db' r target (inst_ID i # seen) \<noteq> evaluateDNSAction levels db r target (inst_ID i # seen)"
      using Suc.prems(2) a True
      by (cases "referencedInstance db r a"; cases "fst (referencedInstance db r a)")
        (auto simp: same_dns_reads [OF tables] split: if_splits)
    note step = referencedInstance_step [OF ids a True ref]
    obtain k t where kt: "k < levels" "uses db k target t" "t \<in> set (instancesOfRecords db)" "is_terminal t"
      "dnsInstanceDependsOnNodeGroups t G" "k > 0 \<longrightarrow> inst_Enabled t"
      using Suc.IH [OF step(1) diff] by blast
    have "inst_Enabled t" using kt(2,6) step(2) by (cases k) auto
    then show ?thesis using kt step by (intro exI [of _ "Suc k"] exI [of _ t]) auto
  qed
qed simp

subsection \<open>The traversal\<close>

text \<open>What the traversals have recorded about the instance \<open>s\<close>, which is \<open>d\<close> references away from \<open>t\<close>: the records of
  the instances that refer to \<open>s\<close>, and unless the bound is reached they were visited themselves.\<close>

definition recorded :: "'y dns_db_scheme \<Rightarrow> DNSInstanceRecord \<Rightarrow> string set \<Rightarrow> string set \<Rightarrow> string \<Rightarrow> bool" where
  "recorded db t A S s \<longleftrightarrow>
     (\<forall>d i. d \<le> 8 \<and> i \<in> set (instancesOfRecords db) \<and> inst_ID i = s \<and> uses db d i t \<longrightarrow>
        (\<forall>y \<in> set (instancesOfRecords db). referencesInstance s y \<longrightarrow> inst_ManagedRecordID y \<in> A \<and> (d < 8 \<longrightarrow> inst_ID y \<in> S)))"

lemma recorded_mono: "recorded db t A S s \<Longrightarrow> A \<subseteq> A' \<Longrightarrow> S \<subseteq> S' \<Longrightarrow> recorded db t A' S' s"
  unfolding recorded_def by blast

definition deep_enough :: "'y dns_db_scheme \<Rightarrow> DNSInstanceRecord \<Rightarrow> nat \<Rightarrow> string \<Rightarrow> bool" where
  "deep_enough db t levels s \<longleftrightarrow> (\<forall>d i. d \<le> 8 \<and> i \<in> set (instancesOfRecords db) \<and> inst_ID i = s \<and> uses db d i t \<longrightarrow> 9 \<le> levels + d)"

lemma deep_enough_step:
  assumes "dns_ids_ok db" "is_terminal t" "deep_enough db t (Suc levels) s" "y \<in> set (instancesOfRecords db)" "referencesInstance s y"
  shows "deep_enough db t levels (inst_ID y)"
  unfolding deep_enough_def
proof (intro allI impI, elim conjE)
  fix d i assume d: "d \<le> 8" and i: "i \<in> set (instancesOfRecords db)" "inst_ID i = inst_ID y" "uses db d i t"
  then have "i = y" using instance_ids assms(1,4) by blast
  show "9 \<le> levels + d"
  proof (cases d)
    case 0
    then show ?thesis using i \<open>i = y\<close> assms(2,5) by (auto simp: is_terminal_def)
  next
    case (Suc d')
    then obtain j where j: "j \<in> set (instancesOfRecords db)" "referencesInstance (inst_ID j) y" "uses db d' j t"
      using i \<open>i = y\<close> by auto
    then have "inst_ID j = s" using references_unique assms(5) by blast
    then have "9 \<le> Suc levels + d'" using assms(3) [unfolded deep_enough_def, rule_format, of d' j] j d Suc by simp
    then show ?thesis using Suc by simp
  qed
qed

lemma collect_correct:
  assumes ids: "dns_ids_ok db" and t: "is_terminal t"
  shows "deep_enough db t levels s \<Longrightarrow> collectDNSRecordsReferencingInstance levels db s seen = (aff, seen') \<Longrightarrow>
    set seen \<subseteq> set seen' \<and> (levels > 0 \<longrightarrow> s \<in> set seen') \<and> (\<forall>x \<in> set seen' - set seen. recorded db t (set aff) (set seen') x)"
proof (induction levels arbitrary: s seen aff seen')
  case (Suc levels)
  show ?case
  proof (cases "s \<in> set seen")
    case False
    define f where "f = (\<lambda>candidate (affected, seen). if referencesInstance s candidate
        then (let (childAffected, seen) = collectDNSRecordsReferencingInstance levels db (inst_ID candidate) seen
              in (affected @ inst_ManagedRecordID candidate # childAffected, seen)) else (affected, seen))"
    have run: "fold f (ListDNSInstancesByOrganization db) ([], s # seen) = (aff, seen')"
      using Suc.prems(2) False by (simp add: f_def)
    have loop: "set S \<subseteq> set S' \<and> set A \<subseteq> set A' \<and>
        (\<forall>x \<in> set S' - set S. recorded db t (set A') (set S') x) \<and>
        (\<forall>y \<in> set ys. referencesInstance s y \<longrightarrow> inst_ManagedRecordID y \<in> set A' \<and> (levels > 0 \<longrightarrow> inst_ID y \<in> set S'))"
      if "set ys \<subseteq> set (instancesOfRecords db)" "fold f ys (A, S) = (A', S')" for ys A S A' S'
      using that
    proof (induction ys arbitrary: A S)
      case (Cons y ys)
      show ?case
      proof (cases "referencesInstance s y")
        case True
        obtain ca S1 where col: "collectDNSRecordsReferencingInstance levels db (inst_ID y) S = (ca, S1)" by fastforce
        have deep: "deep_enough db t levels (inst_ID y)"
          by (rule deep_enough_step [OF ids t Suc.prems(1) _ True]) (use Cons.prems(1) in simp)
        note child = Suc.IH [OF deep col]
        have "fold f ys (A @ inst_ManagedRecordID y # ca, S1) = (A', S')"
          using Cons.prems(2) True col by (simp add: f_def)
        note rest = Cons.IH [OF _ this]
        have sub: "set ys \<subseteq> set (instancesOfRecords db)" using Cons.prems(1) by simp
        have "recorded db t (set A') (set S') x" if "x \<in> set S' - set S" for x
        proof (cases "x \<in> set S1")
          case True
          then have "recorded db t (set ca) (set S1) x" using child that by blast
          then show ?thesis by (rule recorded_mono) (use rest [OF sub] in auto)
        qed (use rest [OF sub] that in blast)
        then show ?thesis using rest [OF sub] child by auto
      next
        case False
        then have "fold f ys (A, S) = (A', S')" using Cons.prems(2) by (simp add: f_def)
        from Cons.IH [OF _ this] show ?thesis using Cons.prems(1) False by auto
      qed
    qed simp
    from loop [OF _ run] have res: "set (s # seen) \<subseteq> set seen'" "\<forall>x \<in> set seen' - set (s # seen). recorded db t (set aff) (set seen') x"
      "\<forall>y \<in> set (instancesOfRecords db). referencesInstance s y \<longrightarrow> inst_ManagedRecordID y \<in> set aff \<and> (levels > 0 \<longrightarrow> inst_ID y \<in> set seen')"
      by auto
    have "recorded db t (set aff) (set seen') s"
      unfolding recorded_def
    proof (intro allI impI, elim conjE)
      fix d i assume "d \<le> 8" "i \<in> set (instancesOfRecords db)" "inst_ID i = s" "uses db d i t"
      then have "9 \<le> Suc levels + d" using Suc.prems(1) unfolding deep_enough_def by blast
      then have "d < 8 \<Longrightarrow> levels > 0" by simp
      then show "\<forall>y \<in> set (instancesOfRecords db). referencesInstance s y \<longrightarrow> inst_ManagedRecordID y \<in> set aff \<and> (d < 8 \<longrightarrow> inst_ID y \<in> set seen')"
        using res(3) by blast
    qed
    then show ?thesis using res(1,2) by auto
  qed (use Suc.prems(2) in auto)
qed auto

subsection \<open>The records that are marked\<close>

definition all_recorded :: "'y dns_db_scheme \<Rightarrow> DNSInstanceRecord \<Rightarrow> string list \<times> string list \<Rightarrow> bool" where
  "all_recorded db t state \<longleftrightarrow> (\<forall>x \<in> set (snd state). recorded db t (set (fst state)) (set (snd state)) x)"

lemma affectedLoop_correct:
  assumes ids: "dns_ids_ok db" and t: "is_terminal t"
  shows "all_recorded db t state \<Longrightarrow> affectedLoop db G k is state = state' \<Longrightarrow>
    all_recorded db t state' \<and> set (fst state) \<subseteq> set (fst state') \<and> set (snd state) \<subseteq> set (snd state') \<and>
    (\<forall>i \<in> set is. inst_Enabled i \<and> dnsInstanceDependsOnNodeGroups i G \<longrightarrow> k \<in> set (fst state') \<and> inst_ID i \<in> set (snd state'))"
proof (induction "is" arbitrary: state)
  case (Cons i "is")
  obtain A S where state: "state = (A, S)" by fastforce
  show ?case
  proof (cases "inst_Enabled i \<and> dnsInstanceDependsOnNodeGroups i G")
    case True
    obtain ca S1 where col: "collectDNSRecordsReferencingInstance 9 db (inst_ID i) S = (ca, S1)" by fastforce
    have "deep_enough db t 9 (inst_ID i)" by (simp add: deep_enough_def)
    note child = collect_correct [OF ids t this col]
    have "all_recorded db t (A @ k # ca, S1)"
      unfolding all_recorded_def fst_conv snd_conv
    proof
      fix x assume "x \<in> set S1"
      then consider "x \<in> set S" | "x \<in> set S1 - set S" by blast
      then show "recorded db t (set (A @ k # ca)) (set S1) x"
      proof cases
        case 1
        then have "recorded db t (set A) (set S) x" using Cons.prems(1) by (simp add: all_recorded_def state)
        then show ?thesis by (rule recorded_mono) (use child in auto)
      next
        case 2
        then have "recorded db t (set ca) (set S1) x" using child by blast
        then show ?thesis by (rule recorded_mono) auto
      qed
    qed
    note rest = Cons.IH [OF this]
    have "affectedLoop db G k is (A @ k # ca, S1) = state'" using Cons.prems(2) True col by (simp add: state)
    from rest [OF this] show ?thesis using child True by (auto simp: state)
  next
    case False
    then have "affectedLoop db G k is state = state'" using Cons.prems(2) by (auto simp: state)
    from Cons.IH [OF Cons.prems(1) this] show ?thesis using False by auto
  qed
qed auto

lemma records_fold_correct:
  assumes ids: "dns_ids_ok db" and t: "is_terminal t"
  shows "all_recorded db t state \<Longrightarrow>
    fold (\<lambda>record state. affectedLoop db G (dr_ID record) (dr_Instances record) state) rs state = state' \<Longrightarrow>
    all_recorded db t state' \<and> set (fst state) \<subseteq> set (fst state') \<and> set (snd state) \<subseteq> set (snd state') \<and>
    (\<forall>r \<in> set rs. \<forall>i \<in> set (dr_Instances r). inst_Enabled i \<and> dnsInstanceDependsOnNodeGroups i G \<longrightarrow>
       dr_ID r \<in> set (fst state') \<and> inst_ID i \<in> set (snd state'))"
proof (induction rs arbitrary: state)
  case (Cons r rs)
  note first = affectedLoop_correct [OF ids t Cons.prems(1) refl, of G "dr_ID r" "dr_Instances r"]
  have "fold (\<lambda>record state. affectedLoop db G (dr_ID record) (dr_Instances record) state) rs
    (affectedLoop db G (dr_ID r) (dr_Instances r) state) = state'" using Cons.prems(2) by simp
  note rest = Cons.IH [OF conjunct1 [OF first] this]
  show ?case using first rest by auto
qed simp

lemma set_records: "set (ListDNSManagedRecordsByOrganization db) = withInstances db ` set (db_DNSRecords db)"
  by (simp add: ListDNSManagedRecordsByOrganization_def)

lemma dr_ID_withInstances [simp]: "dr_ID (withInstances db r) = dr_ID r"
  by (simp add: withInstances_def)

lemma set_instances_of: "set (dr_Instances (withInstances db r)) = {i \<in> set (instancesOfRecords db). inst_ManagedRecordID i = dr_ID r}"
  by (auto simp: withInstances_def ListDNSInstancesByManagedRecord_def)

text \<open>Both ways in which a record depends on the groups.\<close>

lemma direct_marked:
  assumes "dns_ids_ok db" "r \<in> set (db_DNSRecords db)" "i \<in> set (instancesOfRecords db)" "inst_ManagedRecordID i = dr_ID r"
    "inst_Enabled i" "dnsInstanceDependsOnNodeGroups i G"
  shows "dr_ID r \<in> set (recordsDependingOnNodeGroups db G)"
proof -
  define t where "t = i\<lparr>inst_Action := JArr []\<rparr>"
  have "is_terminal t" by (simp add: t_def is_terminal_def referencesInstance_def decodeAction_def)
  from records_fold_correct [OF assms(1) this, of "([], [])", OF _ refl, of G "ListDNSManagedRecordsByOrganization db"]
  show ?thesis using assms by (auto simp: recordsDependingOnNodeGroups_def all_recorded_def set_records set_instances_of)
qed

lemma chain_marked:
  assumes ids: "dns_ids_ok db" and t: "is_terminal t" "t \<in> set (instancesOfRecords db)" "inst_Enabled t" "dnsInstanceDependsOnNodeGroups t G"
    and y: "y \<in> set (instancesOfRecords db)" and "uses db k y t" "k \<le> 8"
  shows "inst_ManagedRecordID y \<in> set (recordsDependingOnNodeGroups db G)"
proof -
  define state where "state = fold (\<lambda>record state. affectedLoop db G (dr_ID record) (dr_Instances record) state)
    (ListDNSManagedRecordsByOrganization db) ([], [])"
  have A: "recordsDependingOnNodeGroups db G = fst state" by (simp add: recordsDependingOnNodeGroups_def state_def)
  note run = records_fold_correct [OF ids t(1), of "([], [])", OF _ state_def [symmetric]]
  obtain rt where rt: "rt \<in> set (db_DNSRecords db)" "inst_ManagedRecordID t = dr_ID rt"
    using t(2) by (auto simp: instancesOfRecords_def list_ex_iff)
  then have root: "inst_ID t \<in> set (snd state)" "inst_ManagedRecordID t \<in> set (fst state)"
    using run t by (auto simp: all_recorded_def set_records set_instances_of)
  have "inst_ID y \<in> set (snd state) \<and> inst_ManagedRecordID y \<in> set (fst state)"
    using y \<open>uses db k y t\<close> \<open>k \<le> 8\<close>
  proof (induction k arbitrary: y)
    case 0
    then show ?case using root by simp
  next
    case (Suc k)
    then obtain j where j: "j \<in> set (instancesOfRecords db)" "referencesInstance (inst_ID j) y" "uses db k j t" by auto
    then have "inst_ID j \<in> set (snd state)" using Suc by simp
    then have "recorded db t (set (fst state)) (set (snd state)) (inst_ID j)" using run by (simp add: all_recorded_def)
    then show ?case using j Suc.prems unfolding recorded_def by (metis Suc_le_eq less_imp_le)
  qed
  then show ?thesis by (simp add: A)
qed

subsection \<open>No evaluation that changed is missed\<close>

lemma selectInstance_same:
  assumes "\<And>i. i \<in> set is \<Longrightarrow> conditionContext db' i = conditionContext db i"
  shows "selectInstance db' s ds is = selectInstance db s ds is"
  using assms by (induction "is" arbitrary: s ds) (auto simp: Let_def split: prod.splits option.splits)

lemma selectInstance_chosen: "selectInstance db s ds is = (Chosen (Some i), ds') \<Longrightarrow> s = Some i \<or> i \<in> set is"
  by (induction "is" arbitrary: s ds) (auto simp: Let_def split: prod.splits option.splits if_splits)

lemma FindRecord_Inr:
  "FindDNSManagedRecordByID db k = Inr q \<Longrightarrow> \<exists>r \<in> set (db_DNSRecords db). dr_ID r = k \<and> q = withInstances db r"
  by (auto simp: FindDNSManagedRecordByID_def find_Some_iff split: option.splits)

lemma recordsDepending_same:
  assumes "same_dns_tables db db'"
  shows "recordsDependingOnNodeGroups db' G = recordsDependingOnNodeGroups db G"
proof -
  have col: "collectDNSRecordsReferencingInstance l db' s = collectDNSRecordsReferencingInstance l db s" for l s
  proof (induction l arbitrary: s)
    case (Suc l)
    show ?case by (rule ext) (unfold collectDNSRecordsReferencingInstance.simps same_dns_reads [OF assms] Suc.IH, rule refl)
  qed (simp add: fun_eq_iff)
  have "affectedLoop db' G k is state = affectedLoop db G k is state" for k "is" state
  proof (induction "is" arbitrary: state)
    case (Cons i "is")
    obtain A S where "state = (A, S)" by fastforce
    then show ?case using Cons by (simp add: col split: prod.splits)
  qed simp
  then have "affectedLoop db' G = affectedLoop db G" by (intro ext)
  then show ?thesis by (simp add: recordsDependingOnNodeGroups_def same_dns_reads [OF assms])
qed

lemma evaluation_marked:
  assumes ids: "dns_ids_ok db" and tables: "same_dns_tables db db'" and nodes: "same_outside G (db_Nodes db) (db_Nodes db')"
    and r: "FindDNSManagedRecordByID db k = Inr r" and diff: "evaluateDNSManagedRecord db' r \<noteq> evaluateDNSManagedRecord db r"
  shows "k \<in> set (recordsDependingOnNodeGroups db' G)"
proof -
  note same = recordsDepending_same [OF tables]
  obtain r0 where r0: "r0 \<in> set (db_DNSRecords db)" "r = withInstances db r0" "dr_ID r0 = k"
    using FindRecord_Inr [OF r] by blast
  have mine: "i \<in> set (instancesOfRecords db) \<and> inst_ManagedRecordID i = k \<and> inst_Enabled i" if "i \<in> set (candidates r)" for i
    using that r0 by (auto simp: candidates_def set_instances_of)
  show ?thesis
  proof (cases "\<exists>i \<in> set (candidates r). dnsInstanceDependsOnNodeGroups i G")
    case True
    then show ?thesis using direct_marked [OF ids r0(1)] mine r0(3) by (auto simp: same)
  next
    case False
    then have "selectInstance db' None [] (candidates r) = selectInstance db None [] (candidates r)"
      using conditionContext_same [OF same_outside_at [OF nodes]] by (intro selectInstance_same) auto
    then obtain i ds where sel: "selectInstance db None [] (candidates r) = (Chosen (Some i), ds)"
      and act: "evaluateDNSAction 9 db' r i [] \<noteq> evaluateDNSAction 9 db r i []"
      using diff by (auto simp: evaluateDNSManagedRecord_def split: prod.splits selection.splits option.splits)
    from selectInstance_chosen [OF sel] have i: "i \<in> set (candidates r)" by simp
    obtain d t where t: "d < 9" "uses db d i t" "t \<in> set (instancesOfRecords db)" "is_terminal t"
      "dnsInstanceDependsOnNodeGroups t G" "d > 0 \<longrightarrow> inst_Enabled t"
      using evaluateDNSAction_source [OF ids tables nodes conjunct1 [OF mine [OF i]] act] by blast
    have "inst_Enabled t" using t(2,6) mine [OF i] by (cases d) auto
    then show ?thesis using chain_marked [OF ids t(4,3) _ t(5) _ t(2)] t(1) mine [OF i] by (simp add: same)
  qed
qed

definition awaits_evaluation :: "'y dns_db_scheme \<Rightarrow> string \<Rightarrow> bool" where
  "awaits_evaluation db k \<longleftrightarrow>
     (\<exists>r \<in> set (db_DNSRecords db). dr_ID r = k \<and> (dr_LastEvaluationStatus r = ''PENDING'' \<or> deletePending r))"

lemma markRow_rows:
  assumes "markRow u c x db = Inr db'"
  shows "\<exists>r \<in> set (db_DNSRecords db). dr_ID r = x \<and> (deletePending r \<and> db' = db \<or>
    (\<exists>g. db_DNSRecords db' = map (\<lambda>r. if dr_ID r = x then g r else r) (db_DNSRecords db) \<and>
       (\<forall>r. dr_ID (g r) = dr_ID r \<and> dr_LastEvaluationStatus (g r) = ''PENDING'')))"
proof -
  obtain q where q: "FindDNSManagedRecordByID db x = Inr q"
    and upd: "(if deletePending q then Inr db else UpdateDNSManagedRecordEvaluation (pendingRecord u c q) db) = Inr db'"
    using assms by (auto simp: markRow_def)
  obtain r where r: "r \<in> set (db_DNSRecords db)" "dr_ID r = x" "q = withInstances db r" using FindRecord_Inr [OF q] by blast
  then have dp: "deletePending q = deletePending r" by (simp add: deletePending_def withInstances_def)
  show ?thesis
  proof (cases "deletePending r")
    case False
    then have "db_DNSRecords db' = map (\<lambda>r. if dr_ID r = x then r\<lparr>dr_ActiveInstanceID := dr_ActiveInstanceID q,
       dr_LastAppliedValues := dr_LastAppliedValues q, dr_ProviderRetirements := dr_ProviderRetirements q,
       dr_LastEvaluationStatus := ''PENDING'', dr_LastEvaluationError := None,
       dr_LastDiagnostics := dr_LastDiagnostics (pendingRecord u c q), dr_LastEvaluatedAt := dr_LastEvaluatedAt q,
       dr_LastAppliedAt := dr_LastAppliedAt q, dr_UpdatedAt := u\<rparr> else r) (db_DNSRecords db)"
      using upd r dp by (auto simp: UpdateDNSManagedRecordEvaluation_def updateDNSRecord_def pendingRecord_def split: if_splits)
    then show ?thesis using r by (intro bexI [of _ r]) auto
  qed (use upd r dp in auto)
qed

lemma markRow_ids: "markRow u c x db = Inr db' \<Longrightarrow> map dr_ID (db_DNSRecords db') = map dr_ID (db_DNSRecords db)"
  by (drule markRow_rows) auto

lemma markRow_awaits:
  assumes "markRow u c x db = Inr db'"
  shows "awaits_evaluation db' x" "awaits_evaluation db k \<Longrightarrow> awaits_evaluation db' k"
  using markRow_rows [OF assms] by (auto simp: awaits_evaluation_def) blast+

lemma fold_markRow_awaits:
  "fold_result (markRow u c) ks db = Inr db' \<Longrightarrow>
   (\<forall>k \<in> set ks. awaits_evaluation db' k) \<and> (\<forall>k. awaits_evaluation db k \<longrightarrow> awaits_evaluation db' k)"
  by (induction ks arbitrary: db) (auto split: sum.splits dest: markRow_awaits)

lemma markDNS_marks:
  assumes "dns_ids_ok db" "k \<in> set (recordsDependingOnNodeGroups db G)" "k \<in> dr_ID ` set (db_DNSRecords db)"
    and "markDNSRecordsDependingOnNodeGroupsPending u G db = Inr (marked, db')"
  shows "k \<in> set marked" "awaits_evaluation db' k"
proof -
  have k: "TrimSpace k = k" "k \<noteq> []" using assms(1,3) by (auto simp: dns_ids_ok_def)
  have "k \<in> set (sortedStringSetKeys (map TrimSpace (sortedStringSetKeys (recordsDependingOnNodeGroups db G))))"
    using assms(2) k by (auto simp: sortedStringSetKeys_def set_uniq image_iff intro!: bexI [of _ k])
  then show "k \<in> set marked" "awaits_evaluation db' k"
    using assms(4)
    by (auto simp: markDNSRecordsDependingOnNodeGroupsPending_def markDNSManagedRecordsPending_def Let_def dest: fold_markRow_awaits)
qed

end
