(* ===== verification/Control_Plane.thy ===== *)
theory Control_Plane
  imports Control_Invariant Dns_Invalidation
begin

text \<open>
  The control plane as a state machine: every operation of the service, started with any service settings, identity and
  input, is one step on the tables. The rules of the node groups stay served and free of conflicts in every reachable state.
\<close>

subsection \<open>Steps\<close>

text \<open>The last rule stands for the operations on the tables that are not modelled (health checks, DNS credentials, channels):
  they write neither rules nor nodes.\<close>

inductive control_step :: "dns_db \<Rightarrow> dns_db \<Rightarrow> bool" where
  create_rule: "newID \<noteq> [] \<Longrightarrow> CreateRule service ident newID input db = Inr (p, db') \<Longrightarrow> control_step db db'"
| update_rule: "UpdateRule service ident k input db = Inr (p, db') \<Longrightarrow> control_step db db'"
| enable_rule: "EnableRule service ident k db = Inr (p, db') \<Longrightarrow> control_step db db'"
| disable_rule: "DisableRule service ident k db = Inr (p, db') \<Longrightarrow> control_step db db'"
| delete_rule: "DeleteRule service ident k db = Inr db' \<Longrightarrow> control_step db db'"
| copy_rule: "newID \<noteq> [] \<Longrightarrow> CopyRule service ident newID k copy db = Inr (p, db') \<Longrightarrow> control_step db db'"
| batch_rules: "BatchRules service ident action ks db = Inr (items, db') \<Longrightarrow> control_step db db'"
| create_node: "CreateNode (markDNSRecordsDependingOnNodeGroupsPending now) service ident newID ni db = Inr (n, ids, db') \<Longrightarrow> control_step db db'"
| update_node: "UpdateNode (markDNSRecordsDependingOnNodeGroupsPending now) service ident k ni db = Inr (n, ids, db') \<Longrightarrow> control_step db db'"
| delete_node: "DeleteNode (markDNSRecordsDependingOnNodeGroupsPending now) env service ident k db = (r, db') \<Longrightarrow> control_step db db'"
| create_group: "CreateNodeGroup service ident newID gi db = Inr db' \<Longrightarrow> control_step db db'"
| update_group: "UpdateNodeGroup service ident k gi db = Inr db' \<Longrightarrow> control_step db db'"
| delete_group: "DeleteNodeGroup nodeGroupUsedByDNS service ident k db = Inr db' \<Longrightarrow> control_step db db'"
| create_target: "CreateTarget service ident newID ti db = Inr db' \<Longrightarrow> control_step db db'"
| update_target: "UpdateTarget service ident k ti db = Inr db' \<Longrightarrow> control_step db db'"
| delete_target: "DeleteTarget service ident k db = Inr db' \<Longrightarrow> control_step db db'"
| create_target_group: "CreateTargetGroup service ident newID tgi db = Inr db' \<Longrightarrow> control_step db db'"
| update_target_group: "UpdateTargetGroup service ident k tgi db = Inr db' \<Longrightarrow> control_step db db'"
| delete_target_group: "DeleteTargetGroup service ident k db = Inr db' \<Longrightarrow> control_step db db'"
| create_token: "CreateRegistrationToken env service ident newID plain ty k hours db = Inr db' \<Longrightarrow> control_step db db'"
| revoke_token: "RevokeRegistrationToken env service ident ty a k db = Inr db' \<Longrightarrow> control_step db db'"
| create_profile: "CreateNodeEnrollmentProfile env service ident newID plain pin db = Inr db' \<Longrightarrow> control_step db db'"
| update_profile: "UpdateNodeEnrollmentProfile service ident k pin db = Inr db' \<Longrightarrow> control_step db db'"
| rotate_profile: "RotateNodeEnrollmentProfileToken env service ident plain k db = Inr db' \<Longrightarrow> control_step db db'"
| delete_profile: "DeleteNodeEnrollmentProfile (markDNSRecordsDependingOnNodeGroupsPending now) env service ident k db = (r', db') \<Longrightarrow> control_step db db'"
| authenticate: "authenticateAgentToken (markDNSRecordsDependingOnNodeGroupsPending now) order env fresh ty token x md db = (a, db') \<Longrightarrow> control_step db db'"
| finalize: "FinalizeAgentRegistrationDelivery env auth db = (u, db') \<Longrightarrow> control_step db db'"
| release: "ReleaseAgentRegistrationCredential (markDNSRecordsDependingOnNodeGroupsPending now) env auth db = (r', db') \<Longrightarrow> control_step db db'"
| compile: "CompileNodeAgentConfigForAgentProtocol digest k pv pk db = Inr (snapshot, db') \<Longrightarrow> control_step db db'"
| acknowledge: "AcknowledgeNodeAgentConfigForAgentProtocol digest t k v h pv pk st m errs res db = Inr db' \<Longrightarrow> control_step db db'"
| connected: "MarkNodeAgentConnected (markDNSRecordsDependingOnNodeGroupsPending now) t k db = Inr (ids, db') \<Longrightarrow> control_step db db'"
| connected_from: "MarkNodeAgentConnectedFromRemote (markDNSRecordsDependingOnNodeGroupsPending now) t k addr db = Inr (ids, db') \<Longrightarrow> control_step db db'"
| disconnected: "MarkNodeAgentDisconnected (markDNSRecordsDependingOnNodeGroupsPending now) k db = Inr (ids, db') \<Longrightarrow> control_step db db'"
| hello: "RecordNodeAgentHello (markDNSRecordsDependingOnNodeGroupsPending now) t target k hi db = Inr (b, ids, db') \<Longrightarrow> control_step db db'"
| update_policy: "UpdateNodeAgentUpdatePolicy service ident t target k e db = Inr db' \<Longrightarrow> control_step db db'"
| upgrade: "RequestNodeAgentUpgrade service ident t target k db = Inr db' \<Longrightarrow> control_step db db'"
| upgrades: "RequestNodeAgentUpgrades service ident t target ks db = Inr db' \<Longrightarrow> control_step db db'"
| update_result: "RecordNodeAgentUpdateResult t k st m db = Inr db' \<Longrightarrow> control_step db db'"
| elsewhere: "db_Rules db' = db_Rules db \<Longrightarrow> db_Nodes db' = db_Nodes db \<Longrightarrow> control_step db db'"

lemma EnableRule_ok: "db_ok db \<Longrightarrow> EnableRule service ident k db = Inr (p, db') \<Longrightarrow> db_ok db'"
  by (simp add: EnableRule_def setRuleEnabled_ok)

lemma DisableRule_ok: "db_ok db \<Longrightarrow> DisableRule service ident k db = Inr (p, db') \<Longrightarrow> db_ok db'"
  by (simp add: DisableRule_def setRuleEnabled_ok)

lemma BatchRules_ok: "db_ok db \<Longrightarrow> BatchRules service ident a ks db = Inr (items, db') \<Longrightarrow> db_ok db'"
  by (auto simp: BatchRules_def Let_def dest: batchLoop_ok [rotated])

lemmas rule_steps_ok = CreateRule_ok UpdateRule_ok EnableRule_ok DisableRule_ok DeleteRule_ok CopyRule_ok BatchRules_ok Acknowledge_ok

lemmas node_steps_ok = marking.CreateNode_ok marking.UpdateNode_ok marking.DeleteNode_ok marking.DeleteNodeEnrollmentProfile_ok
  marking.authenticateAgentToken_ok marking.ReleaseAgentRegistrationCredential_ok

lemmas steps_kept = groups_kept targets_kept UpdateTarget_kept UpdateTargetGroup_kept administration_kept
  FinalizeAgentRegistrationDelivery_kept compile_kept marking.connected_kept marking.hello_kept policy_kept upgrades_kept

lemma control_step_ok: "control_step db db' \<Longrightarrow> db_ok db \<Longrightarrow> db_ok db'"
proof (induction rule: control_step.induct)
  case (elsewhere db' db)
  then show ?case by (auto simp: kept_def intro: kept_ok)
qed (blast intro: rule_steps_ok node_steps_ok steps_kept [THEN kept_ok])+

inductive control_reach :: "dns_db \<Rightarrow> bool" where
  start: "db_Rules db = [] \<Longrightarrow> db_Nodes db = [] \<Longrightarrow> control_reach db"
| step: "control_reach db \<Longrightarrow> control_step db db' \<Longrightarrow> control_reach db'"

lemma control_reach_ok: "control_reach db \<Longrightarrow> db_ok db"
  by (induction rule: control_reach.induct) (auto simp: db_ok_def rules_ok_def dest: control_step_ok)

subsection \<open>A run\<close>

definition example_service :: ControlService where
  "example_service = \<lparr>svc_authorizer = singleUserAuthorizer, svc_targetGroupSchedulers = (\<lambda>_. False), svc_newHash = (\<lambda>s. ''b'' @ s), svc_organizationID = ''o''\<rparr>"

definition example_user :: InternalIdentity where
  "example_user = \<lparr>id_UserID = ''u'', id_Permissions = []\<rparr>"

definition example_tables :: dns_db where
  "example_tables = \<lparr>db_Nodes = [], db_NodeGroups = [\<lparr>ng_ID = ''g'', ng_Name = ''g'', ng_Description = []\<rparr>], db_Targets = [\<lparr>tgt_ID = ''t'', tgt_Name = ''t'', tgt_Host = ''h'', tgt_Port = 80, tgt_Enabled = True\<rparr>], db_TargetGroups = [], db_Rules = [], db_Deployments = [],
     db_Quotas = [], db_DefaultRuleLimit = 10, db_TrafficAssignments = [], db_TrafficReports = [], db_TrafficCounters = [],
     db_RegistrationTokens = [], db_Credentials = [], db_EnrollmentProfiles = [], db_EnrollmentEvents = [], db_MonitorGroups = [],
     db_Monitors = [], db_HealthChecks = [], db_Audit = [], db_DNSCredentials = [], db_DNSZones = [], db_DNSRecords = [],
     db_DNSInstances = [], db_NotificationChannels = [], db_NotificationDeliveries = []\<rparr>"

definition example_node_input :: NodeMutationInput where
  "example_node_input = \<lparr>nmi_Name = Some ''n'', nmi_GroupIDs = Some [''g''],
     nmi_ListenIPs = Some [\<lparr>nlii_ListenIP = ''0.0.0.0'', nlii_DisplayName = ''d''\<rparr>], nmi_SendIPs = None, nmi_PortRanges = None,
     nmi_MaxRulePorts = None, nmi_DNSPublishAddresses = None, nmi_PublicDescription = None, nmi_DataplaneMode = None,
     nmi_DataplaneConflictPolicy = None\<rparr>"

definition example_rule_input :: "string \<Rightarrow> RuleMutationInput" where
  "example_rule_input host = \<lparr>in_Name = host, in_Tags = [], in_NodeGroupID = ''g'', in_ListenIP = ''0.0.0.0'', in_SendIP = [],
     in_FailurePolicy = [], in_DataplanePreference = [], in_ForwardingType = ''DIRECT'', in_Protocol = ''TCP'', in_Port = 443,
     in_PortSegments = [], in_Match = \<lparr>mi_Type = ''TLS_SNI'', mi_SNIHostname = host\<rparr>,
     in_ProxyProtocol = \<lparr>ppi_In = [], ppi_Out = []\<rparr>,
     in_Upstream = \<lparr>ui_Type = ''TARGET'', ui_TargetID = ''t'', ui_TargetGroupID = []\<rparr>, in_Enabled = True, in_EnabledSet = True\<rparr>"


definition example_node :: NodeRecord where
  "example_node = shapeCheckNode\<lparr>nd_ID := ''n'', nd_Name := ''n'', nd_Status := ''PENDING'', nd_ConfigStatus := ''PENDING'', nd_DataplaneMode := ''AUTO'',
     nd_DataplaneConflictPolicy := ''FAIL_FAST'', nd_GroupIDs := [''g''],
     nd_ListenIPs := [\<lparr>nli_ListenIP = ''0.0.0.0'', nli_DisplayName = ''d'', nli_Enabled = True\<rparr>],
     nd_PortRanges := toNodePortRangeRecords [], nd_MaxRulePorts := defaultMaxRulePorts 0, nd_Agent := zeroAgentInfo\<lparr>ag_AutoUpdateEnabled := True\<rparr>\<rparr>"
definition example_db1 :: dns_db where
  "example_db1 = example_tables\<lparr>db_Nodes := [example_node], db_Audit := [(''u'', ''nodes.create'', ''NODE'', ''n'')]\<rparr>"

lemma example_node_created:
  "CreateNode (markDNSRecordsDependingOnNodeGroupsPending 0) example_service example_user ''n'' example_node_input example_tables =
   Inr (example_node, [], example_db1)"
  by code_simp

definition example_input :: "string \<Rightarrow> RuleMutationInput" where
  "example_input host = (example_rule_input host)\<lparr>in_FailurePolicy := ''KEEP_ENABLED'', in_DataplanePreference := ''AUTO'',
     in_PortSegments := [\<lparr>psi_StartPort = 443, psi_EndPort = 443\<rparr>]\<rparr>"

definition example_rule :: "string \<Rightarrow> string \<Rightarrow> RuleRecord" where
  "example_rule k host = newRule example_service example_user k (example_input host) True"

definition with_rule :: "string \<Rightarrow> string \<Rightarrow> dns_db \<Rightarrow> dns_db" where
  "with_rule k host db = writeAudit example_user ''rules.create'' ''FORWARDING_RULE'' k (syncRuleDeploymentPending (example_rule k host)
     (bumpDesiredConfigForNodeGroup ''g'' (projr (store_CreateRule (example_rule k host) (rule_Binding (example_rule k host)) [] db))))"

lemma CreateRule_run:
  assumes "hasPermission service ident ''rules.manage_all''" "normalizedMutation inp = Inr i" "in_Enabled i" "in_Tags i = []"
    "prepareRuleMutation (svc_authorizer service) db ident [] i True = Inr ()" "ensureRuleLimitAvailable db (id_UserID ident) 1 = Inr ()"
    "r = newRule service ident k i True" "store_CreateRule r (rule_Binding r) [] db = Inr db1"
    "FindRuleByID (syncRuleDeploymentPending r (bumpDesiredConfigForNodeGroup (bi_NodeGroupID (rule_Binding r)) db1)) k = Inr q" "rule_ID q = k"
  shows "\<exists>p. CreateRule service ident k inp db = Inr (p, writeAudit ident ''rules.create'' ''FORWARDING_RULE'' k
      (syncRuleDeploymentPending r (bumpDesiredConfigForNodeGroup (bi_NodeGroupID (rule_Binding r)) db1)))"
  using assms by (simp add: CreateRule_def answerRule_def Let_def)

lemma with_rule_run:
  assumes "normalizedMutation (example_rule_input host) = Inr (example_input host)"
    "prepareRuleMutation singleUserAuthorizer db example_user [] (example_input host) True = Inr ()" "ensureRuleLimitAvailable db ''u'' 1 = Inr ()"
    "\<not> isl (store_CreateRule (example_rule k host) (rule_Binding (example_rule k host)) [] db)"
    "map_sum id rule_ID (FindRuleByID (with_rule k host db) k) = Inr k" "k \<noteq> []"
  shows "control_step db (with_rule k host db)"
proof -
  obtain db1 where db1: "store_CreateRule (example_rule k host) (rule_Binding (example_rule k host)) [] db = Inr db1"
    using assms(4) by (cases "store_CreateRule (example_rule k host) (rule_Binding (example_rule k host)) [] db") simp_all
  obtain q where q: "FindRuleByID (with_rule k host db) k = Inr q" "rule_ID q = k"
    using assms(5) by (cases "FindRuleByID (with_rule k host db) k") simp_all
  have g: "bi_NodeGroupID (rule_Binding (example_rule k host)) = ''g''"
    by (simp add: example_rule_def newRule_def inboundBindingForRule_def example_input_def example_rule_input_def Let_def)
  have perm: "hasPermission example_service example_user ''rules.manage_all''" by code_simp
  have "\<exists>p. CreateRule example_service example_user k (example_rule_input host) db = Inr (p, with_rule k host db)"
    using CreateRule_run [OF perm assms(1) _ _ _ _ example_rule_def db1, of q] assms(2,3) q
    by (simp add: g with_rule_def db1 FindRuleByID_def writeAudit_def example_service_def example_user_def example_input_def example_rule_input_def)
  then show ?thesis using control_step.create_rule [OF assms(6)] by blast
qed

definition example_control :: dns_db where
  "example_control = with_rule ''r2'' ''b'' (with_rule ''r1'' ''a'' example_db1)"

lemma example_control_reach: "control_reach example_control"
proof -
  have "control_reach example_tables" by (rule control_reach.start) (simp_all add: example_tables_def)
  then have "control_reach example_db1" using control_step.create_node [OF example_node_created] by (rule control_reach.step)
  moreover have "control_step example_db1 (with_rule ''r1'' ''a'' example_db1)" by (rule with_rule_run; code_simp)
  moreover have "control_step (with_rule ''r1'' ''a'' example_db1) example_control"
    unfolding example_control_def by (rule with_rule_run; code_simp)
  ultimately show ?thesis by (blast intro: control_reach.step)
qed

definition example_client :: Connection where
  "example_client = \<lparr>cn_NodeID = ''n'', cn_LocalIP = ''192.0.2.1'', cn_Protocol = ''TCP'', cn_Port = 443, cn_SNI = ''a''\<rparr>"

lemma example_control_rows:
  "map rule_ID (db_Rules example_control) = [''r1'', ''r2'']" "map rule_Enabled (db_Rules example_control) = [True, True]"
  "map nd_ID (db_Nodes example_control) = [''n'']"
  "map nd_GroupIDs (db_Nodes example_control) = [[''g'']]"
  "map (\<lambda>r. bi_NodeGroupID (rule_Binding r)) (db_Rules example_control) = [''g'', ''g'']"
  "list_all (\<lambda>b. claims b example_client) (ruleBindings (db_Nodes example_control) (db_Rules example_control ! 0))"
  by code_simp+

subsection \<open>Enabled rules are served and do not conflict\<close>



end
