(* ===== verification/Dns_Changes.thy ===== *)
theory Dns_Changes
  imports Dns_Invalidation Control_Invariant
begin

text \<open>
  The operations on nodes and the marking of DNS records together: whatever changes the nodes, every record whose
  evaluation gives another result afterwards is marked in the same transaction and among the ids that the operation
  returns for the next evaluation.
\<close>

subsection \<open>Evaluations over nodes that look the same\<close>

definition dns_nodes :: "NodeRecord list \<Rightarrow> ((string \<times> (string \<times> string) set) \<times> string set) list" where
  "dns_nodes = map (\<lambda>n. (dns_view n, set (nd_GroupIDs n)))"

lemma dns_nodes_same_at:
  assumes "dns_nodes ns = dns_nodes ns'"
  shows "same_at S ns ns'"
proof -
  have "map dns_view (filter (\<lambda>n. nodeMatchesGroupSet n S) xs) = map fst (filter (\<lambda>(v, gs). S = [] \<or> gs \<inter> set S \<noteq> {}) (dns_nodes xs))" for xs
    by (induction xs) (auto simp: dns_nodes_def nodeMatchesGroupSet_def list_ex_iff)
  then have "map dns_view (filter (\<lambda>n. nodeMatchesGroupSet n S) ns) = map dns_view (filter (\<lambda>n. nodeMatchesGroupSet n S) ns')"
    using assms by simp
  then show ?thesis unfolding same_at_def by (metis mset_map)
qed

lemma evaluate_same:
  fixes db db' :: "'y dns_db_scheme"
  assumes tables: "same_dns_tables db db'" and nodes: "\<And>S. same_at S (db_Nodes db) (db_Nodes db')"
  shows "evaluateDNSManagedRecord db' r = evaluateDNSManagedRecord db r"
proof -
  have act: "evaluateDNSAction levels db' r i seen = evaluateDNSAction levels db r i seen" for levels i seen
  proof (induction levels arbitrary: i seen)
    case (Suc levels)
    show ?case
      unfolding evaluateDNSAction.simps Suc.IH same_dns_reads [OF tables] terminalAction_same [OF nodes] ..
  qed simp
  have "selectInstance db' None [] (candidates r) = selectInstance db None [] (candidates r)"
    by (rule selectInstance_same) (rule conditionContext_same [OF nodes])
  then show ?thesis unfolding evaluateDNSManagedRecord_def act by (simp only:)
qed

text \<open>What every operation is to guarantee.\<close>

definition change_marked :: "string list \<Rightarrow> 'y dns_db_scheme \<Rightarrow> 'y dns_db_scheme \<Rightarrow> bool" where
  "change_marked ids db db' \<longleftrightarrow>
     (\<forall>k r. FindDNSManagedRecordByID db k = Inr r \<longrightarrow>
        evaluateDNSManagedRecord (db\<lparr>db_Nodes := db_Nodes db'\<rparr>) r \<noteq> evaluateDNSManagedRecord db r \<longrightarrow>
        k \<in> set ids \<and> awaits_evaluation db' k)"

lemma same_dns_tables_nodes [simp]: "same_dns_tables db (db\<lparr>db_Nodes := ns\<rparr>)"
  by (simp add: same_dns_tables_def)

lemma unchanged_marked: "dns_nodes (db_Nodes db') = dns_nodes (db_Nodes db) \<Longrightarrow> change_marked ids db db'"
  unfolding change_marked_def
  by (auto intro!: evaluate_same dns_nodes_same_at)

lemma changed_marked:
  assumes ids: "dns_ids_ok db" and tables: "same_dns_tables db db1" and nodes: "same_outside G (db_Nodes db) (db_Nodes db1)"
    and mark: "markDNSRecordsDependingOnNodeGroupsPending u G db1 = Inr (marked, db2)"
    and after: "db_DNSRecords db' = db_DNSRecords db2" "dns_nodes (db_Nodes db') = dns_nodes (db_Nodes db2)"
  shows "change_marked marked db db'"
  unfolding change_marked_def
proof (intro allI impI)
  fix k r assume r: "FindDNSManagedRecordByID db k = Inr r"
    and diff: "evaluateDNSManagedRecord (db\<lparr>db_Nodes := db_Nodes db'\<rparr>) r \<noteq> evaluateDNSManagedRecord db r"
  have n2: "db_Nodes db2 = db_Nodes db1" using markDNS_frame_nodes [OF mark] by simp
  have "evaluateDNSManagedRecord (db\<lparr>db_Nodes := db_Nodes db'\<rparr>) r = evaluateDNSManagedRecord (db\<lparr>db_Nodes := db_Nodes db1\<rparr>) r"
    by (rule evaluate_same) (auto simp: same_dns_tables_def after(2) n2 intro: dns_nodes_same_at)
  with diff have diff: "evaluateDNSManagedRecord (db\<lparr>db_Nodes := db_Nodes db1\<rparr>) r \<noteq> evaluateDNSManagedRecord db r" by simp
  have "k \<in> set (recordsDependingOnNodeGroups (db\<lparr>db_Nodes := db_Nodes db1\<rparr>) G)"
    by (rule evaluation_marked [OF ids _ _ r diff]) (use nodes in simp_all)
  then have k: "k \<in> set (recordsDependingOnNodeGroups db1 G)"
    by (simp add: recordsDepending_same [OF tables] recordsDepending_same [OF same_dns_tables_nodes])
  have "dns_ids_ok db1" "k \<in> dr_ID ` set (db_DNSRecords db1)"
    using ids tables FindRecord_Inr [OF r] by (auto simp: dns_ids_ok_def same_dns_tables_def)
  from markDNS_marks [OF this(1) k this(2) mark] show "k \<in> set marked \<and> awaits_evaluation db' k"
    by (simp add: awaits_evaluation_def after(1))
qed

subsection \<open>Changes of one node\<close>

definition outside :: "string list \<Rightarrow> NodeRecord \<Rightarrow> bool" where
  "outside G n \<longleftrightarrow> set (nd_GroupIDs n) \<subseteq> set G"

lemma outside_filter:
  assumes "S \<noteq> []" "set S \<inter> set G = {}" "outside G n"
  shows "\<not> nodeMatchesGroupSet n S"
  using assms by (auto simp: outside_def nodeMatchesGroupSet_def list_ex_iff)

lemma same_outside_map:
  assumes "\<And>n. n \<in> set ns \<Longrightarrow> f n \<noteq> n \<Longrightarrow> outside G n \<and> outside G (f n)"
  shows "same_outside G ns (map f ns)"
proof -
  have "filter (\<lambda>n. nodeMatchesGroupSet n S) (map f ns) = filter (\<lambda>n. nodeMatchesGroupSet n S) ns" if "S \<noteq> []" "set S \<inter> set G = {}" for S
    using assms outside_filter [OF that] by (induction ns) (auto, metis+)
  then show ?thesis by (simp add: same_outside_def same_at_def)
qed

lemma same_outside_append: "outside G n \<Longrightarrow> same_outside G ns (ns @ [n])"
  by (auto simp: same_outside_def same_at_def outside_filter)

lemma same_outside_filter:
  assumes "\<And>n. n \<in> set ns \<Longrightarrow> \<not> P n \<Longrightarrow> outside G n"
  shows "same_outside G ns (filter P ns)"
proof -
  have "filter (\<lambda>n. nodeMatchesGroupSet n S) (filter P ns) = filter (\<lambda>n. nodeMatchesGroupSet n S) ns" if "S \<noteq> []" "set S \<inter> set G = {}" for S
    using assms outside_filter [OF that] by (induction ns) auto
  then show ?thesis by (simp add: same_outside_def same_at_def)
qed

lemma same_outside_trans: "same_outside G a b \<Longrightarrow> same_outside G b c \<Longrightarrow> same_outside G a c"
  by (auto simp: same_outside_def same_at_def)

subsection \<open>Frames\<close>

text \<open>Statements that write neither nodes nor DNS tables, and statements on nodes that write no DNS table.\<close>

definition aside :: "'y dns_db_scheme \<Rightarrow> 'y dns_db_scheme \<Rightarrow> bool" where
  "aside db db' \<longleftrightarrow> same_dns_tables db db' \<and> db_Nodes db' = db_Nodes db"

lemma aside_refl [simp]: "aside db db"
  by (simp add: aside_def same_dns_tables_def)

lemma aside_trans: "aside a b \<Longrightarrow> aside b c \<Longrightarrow> aside a c"
  by (auto simp: aside_def same_dns_tables_def)

lemma aside_rows:
  fixes db db' :: "'y dns_db_scheme"
  shows "CreateCredential c db = Inr db' \<Longrightarrow> aside db db'" "IncrementNodeEnrollmentProfileUsedCount k db = Inr db' \<Longrightarrow> aside db db'"
    "RevokeCredential t k db = Inr db' \<Longrightarrow> aside db db'"
  by (auto simp: CreateCredential_def IncrementNodeEnrollmentProfileUsedCount_def RevokeCredential_def aside_def same_dns_tables_def Let_def
      split: if_splits)

lemma aside_updates [simp]:
  fixes db db' :: "'y dns_db_scheme"
  shows "aside db (writeAudit i a t k db)" "aside db (returnUse u ar db)" "aside db (revokeNodeAgentAuth now k db)"
  by (auto simp: writeAudit_def returnUse_def revokeNodeAgentAuth_def DecrementNodeEnrollmentProfileUsedCount_def aside_def same_dns_tables_def
      split: option.splits)

lemma publish_rows:
  fixes db db' :: "'y dns_db_scheme"
  assumes "replaceManualNodeDNSPublishAddresses k as db = Inr db'"
  shows "same_dns_tables db db'" "\<exists>f. db_Nodes db' = map (\<lambda>n. if nd_ID n = k then f n else n) (db_Nodes db) \<and> (\<forall>n. nd_GroupIDs (f n) = nd_GroupIDs n)"
proof -
  have db': "db' = db\<lparr>db_Nodes := map (\<lambda>n. if nd_ID n = k then
        n\<lparr>nd_DNSPublishAddresses := filter (\<lambda>a. pa_Source a \<noteq> ''MANUAL'') (nd_DNSPublishAddresses n) @
            map (\<lambda>a. a\<lparr>pa_Source := ''MANUAL''\<rparr>) as\<rparr> else n) (db_Nodes db)\<rparr>"
    using assms by (auto simp: replaceManualNodeDNSPublishAddresses_def split: if_splits)
  show "same_dns_tables db db'" by (simp add: db' same_dns_tables_def)
  show "\<exists>f. db_Nodes db' = map (\<lambda>n. if nd_ID n = k then f n else n) (db_Nodes db) \<and> (\<forall>n. nd_GroupIDs (f n) = nd_GroupIDs n)"
    unfolding db' by (intro exI [of _ "\<lambda>n. n\<lparr>nd_DNSPublishAddresses := filter (\<lambda>a. pa_Source a \<noteq> ''MANUAL'') (nd_DNSPublishAddresses n) @
            map (\<lambda>a. a\<lparr>pa_Source := ''MANUAL''\<rparr>) as\<rparr>"]) simp
qed

lemma create_rows:
  fixes db db' :: "'y dns_db_scheme"
  assumes "store_CreateNode n db = Inr db1" "replaceManualNodeDNSPublishAddresses (nd_ID n) as db1 = Inr db2"
  shows "same_dns_tables db db2" "same_outside (nd_GroupIDs n) (db_Nodes db) (db_Nodes db2)"
proof -
  define m where "m = storedNode (n\<lparr>nd_DNSPublishAddresses := []\<rparr>)"
  have fresh: "nd_ID n \<notin> nd_ID ` set (db_Nodes db)" and db1: "db1 = db\<lparr>db_Nodes := db_Nodes db @ [m]\<rparr>"
    using assms(1) by (auto simp: store_CreateNode_def m_def list_ex_iff split: if_splits)
  show "same_dns_tables db db2" using publish_rows(1) [OF assms(2)] by (simp add: db1 same_dns_tables_def)
  obtain f where f: "db_Nodes db2 = map (\<lambda>x. if nd_ID x = nd_ID n then f x else x) (db_Nodes db1)" "\<forall>x. nd_GroupIDs (f x) = nd_GroupIDs x"
    using publish_rows(2) [OF assms(2)] by blast
  have "outside (nd_GroupIDs n) m" by (simp add: outside_def m_def storedNode_def)
  then have "same_outside (nd_GroupIDs n) (db_Nodes db) (db_Nodes db1)" by (simp add: db1 same_outside_append)
  moreover have "same_outside (nd_GroupIDs n) (db_Nodes db1) (db_Nodes db2)" unfolding f(1)
    by (rule same_outside_map) (use fresh f(2) \<open>outside (nd_GroupIDs n) m\<close> in \<open>auto simp: db1 outside_def image_iff split: if_splits\<close>)
  ultimately show "same_outside (nd_GroupIDs n) (db_Nodes db) (db_Nodes db2)" by (rule same_outside_trans)
qed

subsection \<open>The operations\<close>

lemma CreateNode_marked:
  assumes "dns_ids_ok db" "CreateNode (markDNSRecordsDependingOnNodeGroupsPending u) service ident newID ni db = Inr (n, ids, db')"
  shows "change_marked ids db db'"
proof -
  obtain mode policy db1 db2 db3 where
    store: "store_CreateNode (newNode newID ni mode policy) db = Inr db1"
    and pub: "replaceManualNodeDNSPublishAddresses newID (nd_DNSPublishAddresses (newNode newID ni mode policy)) db1 = Inr db2"
    and mark: "markDNSRecordsDependingOnNodeGroupsPending u (list_or_nil (nmi_GroupIDs ni)) db2 = Inr (ids, db3)"
    and db': "db' = writeAudit ident ''nodes.create'' ''NODE'' (nd_ID n) db3"
    using assms(2) by (auto simp: CreateNode_def Let_def)
  have "nd_ID (newNode newID ni mode policy) = newID" "nd_GroupIDs (newNode newID ni mode policy) = list_or_nil (nmi_GroupIDs ni)"
    by (simp_all add: newNode_def)
  with create_rows [OF store, of "nd_DNSPublishAddresses (newNode newID ni mode policy)" db2] pub show ?thesis
    by (intro changed_marked [OF assms(1) _ _ mark]) (simp_all add: db' writeAudit_def)
qed

lemma enrolled_marked:
  assumes "dns_ids_ok db" "createNodeFromEnrollmentProfile (markDNSRecordsDependingOnNodeGroupsPending u) order env fresh p md db = Inr (ar, db')"
  shows "change_marked (ar_AffectedDNSRecordIDs ar) db db'"
proof -
  obtain n ids db1 db2 db3 db4 where
    steps: "store_CreateNode n db = Inr db1" "replaceManualNodeDNSPublishAddresses (nd_ID n) (nd_DNSPublishAddresses n) db1 = Inr db2"
      "CreateCredential (enrollmentCredential env p fresh) db2 = Inr db3" "IncrementNodeEnrollmentProfileUsedCount (ep_ID p) db3 = Inr db4"
    and mark: "markDNSRecordsDependingOnNodeGroupsPending u (nd_GroupIDs n) db4 = Inr (ids, db')" and ids: "ar_AffectedDNSRecordIDs ar = ids"
    using assms(2) by (auto simp: createNodeFromEnrollmentProfile_def)
  have "aside db2 db4" using aside_rows(1) [OF steps(3)] aside_rows(2) [OF steps(4)] by (rule aside_trans)
  then show ?thesis
    unfolding ids using create_rows [OF steps(1,2)]
    by (intro changed_marked [OF assms(1) _ _ mark]) (auto simp: aside_def same_dns_tables_def)
qed

lemma deleted_rows:
  fixes db db' :: "'y dns_db_scheme"
  assumes "distinct (map nd_ID (db_Nodes db))" "FindNodeByID db k = Inr n" "store_DeleteNode t k db = Inr db'"
  shows "same_dns_tables db db'" "same_outside (nd_GroupIDs n) (db_Nodes db) (db_Nodes db')"
proof -
  have db': "db' = revokeNodeAgentAuth t k (db\<lparr>db_Nodes := filter (\<lambda>n. nd_ID n \<noteq> k) (db_Nodes db)\<rparr>)"
    using assms(3) by (auto simp: store_DeleteNode_def split: if_splits)
  then show "same_dns_tables db db'" by (simp add: revokeNodeAgentAuth_def same_dns_tables_def)
  have "m = n" if "m \<in> set (db_Nodes db)" "nd_ID m = k" for m
    using that FindNodeByID_Inr [OF assms(2)] assms(1) by (auto simp: distinct_map dest: inj_onD)
  then show "same_outside (nd_GroupIDs n) (db_Nodes db) (db_Nodes db')"
    by (auto simp: db' outside_def intro!: same_outside_filter)
qed

lemma same_node:
  "distinct (map nd_ID (db_Nodes db)) \<Longrightarrow> FindNodeByID db k = Inr n \<Longrightarrow> m \<in> set (db_Nodes db) \<Longrightarrow> nd_ID m = k \<Longrightarrow> m = n"
  using FindNodeByID_Inr [of db k n] by (auto simp: distinct_map dest: inj_onD)

lemma update_rows:
  fixes db db' :: "'y dns_db_scheme"
  assumes "store_UpdateNode node rg rl rp db = Inr db'"
  shows "same_dns_tables db db'" "\<exists>g. db_Nodes db' = map (\<lambda>m. if nd_ID m = nd_ID node then g m else m) (db_Nodes db) \<and>
    (\<forall>m. dns_view (g m) = dns_view m \<and> nd_ID (g m) = nd_ID m \<and> set (nd_GroupIDs (g m)) = set (if rg then nd_GroupIDs node else nd_GroupIDs m))"
proof -
  define g where "g m = storedNode (m\<lparr>nd_Name := nd_Name node, nd_PublicDescription := nd_PublicDescription node,
               nd_DataplaneMode := nd_DataplaneMode node, nd_DataplaneConflictPolicy := nd_DataplaneConflictPolicy node,
               nd_MaxRulePorts := nd_MaxRulePorts node, nd_SendIPs := nd_SendIPs node,
               nd_GroupIDs := (if rg then nd_GroupIDs node else nd_GroupIDs m),
               nd_ListenIPs := (if rl then nd_ListenIPs node else nd_ListenIPs m),
               nd_PortRanges := (if rp then nd_PortRanges node else nd_PortRanges m)\<rparr>)" for m
  have db': "db' = db\<lparr>db_Nodes := map (\<lambda>m. if nd_ID m = nd_ID node then g m else m) (db_Nodes db)\<rparr>"
    using assms by (auto simp: store_UpdateNode_def g_def split: if_splits)
  have "dns_view (g m) = dns_view m \<and> nd_ID (g m) = nd_ID m \<and> set (nd_GroupIDs (g m)) = set (if rg then nd_GroupIDs node else nd_GroupIDs m)" for m
    by (simp add: g_def storedNode_def dns_view_def nodeStatus_def)
  then show "same_dns_tables db db'" "\<exists>g. db_Nodes db' = map (\<lambda>m. if nd_ID m = nd_ID node then g m else m) (db_Nodes db) \<and>
    (\<forall>m. dns_view (g m) = dns_view m \<and> nd_ID (g m) = nd_ID m \<and> set (nd_GroupIDs (g m)) = set (if rg then nd_GroupIDs node else nd_GroupIDs m))"
    by (auto simp: db' same_dns_tables_def)
qed

lemma fold_deployments_aside:
  fixes db :: "'y dns_db_scheme"
  shows "(\<And>x d. aside (d :: 'y dns_db_scheme) (f x d)) \<Longrightarrow> aside db (fold f xs db)"
  by (induction xs arbitrary: db) (auto intro: aside_trans)

lemma deployment_aside [simp]:
  fixes db :: "'y dns_db_scheme"
  shows "aside db (UpsertRuleDeploymentPending r d db)" "aside db (DeleteRuleDeploymentForNode k n db)"
  by (simp_all add: UpsertRuleDeploymentPending_def DeleteRuleDeploymentForNode_def aside_def same_dns_tables_def Let_def)

lemma sync_aside:
  fixes db :: "'y dns_db_scheme"
  shows "aside db (syncRuleDeploymentsForNodeMembershipChange n p q db)" "aside db (syncRuleDeploymentsForNodeConfigChange n db)"
  by (auto simp: syncRuleDeploymentsForNodeMembershipChange_def syncRuleDeploymentsForNodeConfigChange_def Let_def intro!: fold_deployments_aside)

lemma refresh_rows:
  fixes db db' :: "'y dns_db_scheme"
  assumes "refreshNodeConfig k c d p q db = Inr db'"
  shows "db_DNSRecords db' = db_DNSRecords db" "dns_nodes (db_Nodes db') = dns_nodes (db_Nodes db)"
proof -
  have inc: "db_DNSRecords d1 = db_DNSRecords db \<and> dns_nodes (db_Nodes d1) = dns_nodes (db_Nodes db)"
    if "IncrementDesiredConfigForNode k db = Inr d1" for d1
    using that by (auto simp: IncrementDesiredConfigForNode_def incrementDesiredConfig_def dns_nodes_def dns_view_def nodeStatus_def Let_def split: if_splits)
  consider "db' = db" | d1 n where "IncrementDesiredConfigForNode k db = Inr d1" "aside d1 db'"
    using assms by (auto simp: refreshNodeConfig_def Let_def intro: aside_trans sync_aside split: if_splits)
  then show "db_DNSRecords db' = db_DNSRecords db" "dns_nodes (db_Nodes db') = dns_nodes (db_Nodes db)"
    by (cases; use inc in \<open>auto simp: aside_def same_dns_tables_def\<close>)+
qed

lemma publishNodeChange_marks:
  fixes db1 db2 :: "'y dns_db_scheme"
  assumes run: "publishNodeChange mark k as c G db1 = Inr (marked, db2)" and "as \<noteq> None \<or> c"
    and at_k: "\<And>m. m \<in> set (db_Nodes db1) \<Longrightarrow> nd_ID m = k \<Longrightarrow> outside G m"
  obtains dbp where "same_dns_tables db1 dbp" "same_outside G (db_Nodes db1) (db_Nodes dbp)" "mark G dbp = Inr (marked, db2)"
proof (cases as)
  case None
  then show ?thesis using assms that [of db1] by (auto simp: publishNodeChange_def same_dns_tables_def same_outside_def same_at_def)
next
  case (Some rows)
  then obtain dbp where p: "replaceManualNodeDNSPublishAddresses k rows db1 = Inr dbp" and mark: "mark G dbp = Inr (marked, db2)"
    using run by (auto simp: publishNodeChange_def)
  obtain f where f: "db_Nodes dbp = map (\<lambda>m. if nd_ID m = k then f m else m) (db_Nodes db1)" "\<forall>m. nd_GroupIDs (f m) = nd_GroupIDs m"
    using publish_rows(2) [OF p] by blast
  have "same_outside G (db_Nodes db1) (db_Nodes dbp)"
    unfolding f(1) by (rule same_outside_map) (use f(2) at_k in \<open>auto simp: outside_def split: if_splits\<close>)
  then show ?thesis using that publish_rows(1) [OF p] mark by blast
qed

lemma UpdateNode_marked:
  assumes ids: "dns_ids_ok db" and nodes: "distinct (map nd_ID (db_Nodes db))"
    and run: "UpdateNode (markDNSRecordsDependingOnNodeGroupsPending u) service ident k input db = Inr (n, marked, db')"
  shows "change_marked marked db db'"
proof -
  obtain old mode policy groups db1 db2 db3 d c where old: "FindNodeByID db k = Inr old"
    and groups: "groups = (case nmi_GroupIDs input of None \<Rightarrow> nd_GroupIDs old | Some v \<Rightarrow> v)"
    and c: "c = (nmi_GroupIDs input \<noteq> None \<and> \<not> sameStringSet (nd_GroupIDs old) groups)"
    and store: "store_UpdateNode (changedNode input mode policy groups old) (nmi_GroupIDs input \<noteq> None) (nmi_ListenIPs input \<noteq> None)
      (nmi_PortRanges input \<noteq> None) db = Inr db1"
    and pub: "publishNodeChange (markDNSRecordsDependingOnNodeGroupsPending u) k (map_option toNodeDNSPublishAddressRecords (nmi_DNSPublishAddresses input)) c
      (mergeStringSets (nd_GroupIDs old) groups) db1 = Inr (marked, db2)"
    and fresh: "refreshNodeConfig k d c (nd_GroupIDs old) groups db2 = Inr db3"
    and db': "db' = writeAudit ident ''nodes.update'' ''NODE'' (nd_ID n) db3"
    using run by (auto simp: UpdateNode_def Let_def)
  have after: "db_DNSRecords db' = db_DNSRecords db2" "dns_nodes (db_Nodes db') = dns_nodes (db_Nodes db2)"
    using refresh_rows [OF fresh] by (simp_all add: db' writeAudit_def)
  have changed: "nd_ID (changedNode input mode policy groups old) = k" "nd_GroupIDs (changedNode input mode policy groups old) = groups"
    using FindNodeByID_Inr [OF old] by (simp_all add: changedNode_def)
  obtain g where g: "db_Nodes db1 = map (\<lambda>m. if nd_ID m = k then g m else m) (db_Nodes db)"
    "\<And>m. dns_view (g m) = dns_view m" "\<And>m. nd_ID (g m) = nd_ID m"
    "\<And>m. set (nd_GroupIDs (g m)) = set (if nmi_GroupIDs input \<noteq> None then groups else nd_GroupIDs m)"
    using update_rows(2) [OF store] unfolding changed by metis
  have old_only: "m = old" if "m \<in> set (db_Nodes db)" "nd_ID m = k" for m using same_node [OF nodes old that] .
  have newgroups: "set (nd_GroupIDs (g old)) = set groups" using g(4) groups by (auto split: option.splits)
  let ?G = "mergeStringSets (nd_GroupIDs old) groups"
  have G: "set ?G = set (nd_GroupIDs old) \<union> set groups" by (simp add: mergeStringSets_def set_uniq)
  have out1: "same_outside ?G (db_Nodes db) (db_Nodes db1)"
    unfolding g(1) by (rule same_outside_map) (use old_only newgroups in \<open>auto simp: outside_def G split: if_splits\<close>)
  show ?thesis
  proof (cases "nmi_DNSPublishAddresses input = None \<and> \<not> c")
    case True
    then have "db2 = db1" using pub by (auto simp: publishNodeChange_def)
    moreover have "set (nd_GroupIDs old) = set groups"
      using True c groups by (auto simp: sameStringSet_def split: option.splits dest: arg_cong [of _ _ set])
    then have "dns_nodes (db_Nodes db1) = dns_nodes (db_Nodes db)"
      using old_only newgroups by (auto simp: dns_nodes_def g)
    ultimately show ?thesis by (intro unchanged_marked) (simp add: after)
  next
    case False
    obtain dbp where rows: "same_dns_tables db1 dbp" "same_outside ?G (db_Nodes db1) (db_Nodes dbp)"
      and mark: "markDNSRecordsDependingOnNodeGroupsPending u ?G dbp = Inr (marked, db2)"
    proof (rule publishNodeChange_marks [OF pub])
      show "map_option toNodeDNSPublishAddressRecords (nmi_DNSPublishAddresses input) \<noteq> None \<or> c" using False by auto
      show "outside ?G m" if "m \<in> set (db_Nodes db1)" "nd_ID m = k" for m
        using that old_only newgroups by (auto simp: outside_def G g(1,3) split: if_splits)
    qed
    have "same_dns_tables db dbp" using rows(1) update_rows(1) [OF store] by (simp add: same_dns_tables_def)
    moreover have "same_outside ?G (db_Nodes db) (db_Nodes dbp)" using out1 rows(2) by (rule same_outside_trans)
    ultimately show ?thesis using changed_marked [OF ids _ _ mark after] by blast
  qed
qed

text \<open>A connection: the node becomes online and may publish the address it connects from.\<close>

lemma row_rows:
  fixes db db' :: "'y dns_db_scheme"
  assumes "updateNodeRow k f db = Inr db'"
  shows "same_dns_tables db db'" "db_Nodes db' = map (\<lambda>n. if nd_ID n = k then f n else n) (db_Nodes db)"
  using assms by (auto simp: updateNodeRow_def same_dns_tables_def split: if_splits)

lemma image_marked:
  assumes "\<And>a. key (f a) = key a" "\<And>a. a \<in> A \<Longrightarrow> en a \<Longrightarrow> en (f a)" "\<And>a. a \<in> A \<Longrightarrow> en (f a) \<Longrightarrow> en a \<or> key a = key b"
    "b \<in> A" "en b"
  shows "key ` {a \<in> f ` A. en a} = key ` {a \<in> A. en a}"
proof (intro set_eqI iffI)
  fix y assume "y \<in> key ` {a \<in> f ` A. en a}"
  then obtain a where "a \<in> A" "en (f a)" "y = key a" using assms(1) by auto
  then show "y \<in> key ` {a \<in> A. en a}" using assms(3-5) by (cases "en a") auto
next
  fix y assume "y \<in> key ` {a \<in> A. en a}"
  then obtain a where "a \<in> A" "en a" "y = key (f a)" using assms(1) by auto
  then show "y \<in> key ` {a \<in> f ` A. en a}" using assms(2) by auto
qed

lemma enabled_upsert:
  assumes "list_ex (\<lambda>a. pa_Enabled a \<and> pa_AddressType a = ty \<and> pa_Address a = x \<and> pa_Source a = ''AUTO'') rows"
    "\<not> list_ex (\<lambda>a. pa_Enabled a \<and> pa_Source a = ''AUTO'' \<and> pa_AddressType a = ty \<and> pa_Address a \<noteq> x) rows"
  shows "(\<lambda>a. (pa_AddressType a, pa_Address a)) ` {a \<in> set (upsertAutoAddress ty x rows). pa_Enabled a} =
    (\<lambda>a. (pa_AddressType a, pa_Address a)) ` {a \<in> set rows. pa_Enabled a}"
proof -
  let ?f = "\<lambda>a. if pa_Source a = ''AUTO'' \<and> pa_AddressType a = ty then a\<lparr>pa_Enabled := (pa_Address a = x)\<rparr> else a"
  have up: "upsertAutoAddress ty x rows = map ?f rows"
  proof -
    have "list_ex (\<lambda>a. (pa_Source a = ''AUTO'' \<and> pa_AddressType a = ty) \<and> pa_Address a = x) (map ?f rows)"
      using assms(1) unfolding list_ex_iff set_map bex_simps by (auto intro: bexI)
    then show ?thesis by (simp add: upsertAutoAddress_def Let_def)
  qed
  obtain b where b: "b \<in> set rows" "pa_Enabled b" "pa_AddressType b = ty" "pa_Address b = x" using assms(1) by (auto simp: list_ex_iff)
  show ?thesis
    unfolding up set_map
    by (rule image_marked [of _ _ _ _ b]) (use b assms(2) in \<open>auto simp: list_ex_iff split: if_splits\<close>)
qed

lemma node_row_marked:
  assumes ids: "dns_ids_ok db" and nodes: "distinct (map nd_ID (db_Nodes db))" and n: "FindNodeByID db k = Inr n"
    and tables: "same_dns_tables db db1" and rows: "db_Nodes db1 = map (\<lambda>m. if nd_ID m = k then f m else m) (db_Nodes db)"
    and groups: "nd_GroupIDs (f n) = nd_GroupIDs n"
    and run: "(if c then markDNSRecordsDependingOnNodeGroupsPending u (nd_GroupIDs n) db1 else Inr ([], db1)) = Inr (marked, db2)"
    and unseen: "\<not> c \<Longrightarrow> dns_view (f n) = dns_view n"
    and after: "db_DNSRecords db' = db_DNSRecords db2" "dns_nodes (db_Nodes db') = dns_nodes (db_Nodes db2)"
  shows "change_marked marked db db'"
proof (cases c)
  case True
  have "same_outside (nd_GroupIDs n) (db_Nodes db) (db_Nodes db1)"
    unfolding rows by (rule same_outside_map) (use same_node [OF nodes n] groups in \<open>auto simp: outside_def split: if_splits\<close>)
  then show ?thesis using changed_marked [OF ids tables _ _ after] run True by simp
next
  case False
  then have "dns_nodes (db_Nodes db1) = dns_nodes (db_Nodes db)"
    using same_node [OF nodes n] groups unseen by (auto simp: dns_nodes_def rows)
  then show ?thesis using run False after by (intro unchanged_marked) simp
qed

lemma status_literals: "ToUpper (TrimSpace ''ONLINE'') = ''ONLINE''" "ToUpper (TrimSpace ''OFFLINE'') = ''OFFLINE''"
  by code_simp+

lemma connected_marked:
  assumes ids: "dns_ids_ok db" and nodes: "distinct (map nd_ID (db_Nodes db))"
  shows "MarkNodeAgentConnected (markDNSRecordsDependingOnNodeGroupsPending u) t k db = Inr (marked, db') \<Longrightarrow> change_marked marked db db'"
    "MarkNodeAgentDisconnected (markDNSRecordsDependingOnNodeGroupsPending u) k db = Inr (marked, db') \<Longrightarrow> change_marked marked db db'"
proof -
  assume "MarkNodeAgentConnected (markDNSRecordsDependingOnNodeGroupsPending u) t k db = Inr (marked, db')"
  then obtain n db1 where n: "FindNodeByID db k = Inr n" and store: "store_MarkNodeAgentConnected t k db = Inr db1"
    and run: "(if nodeStatus n \<noteq> ''ONLINE'' then markDNSRecordsDependingOnNodeGroupsPending u (nd_GroupIDs n) db1 else Inr ([], db1)) = Inr (marked, db')"
    by (auto simp: MarkNodeAgentConnected_def nodeStatus_def)
  show "change_marked marked db db'"
    by (rule node_row_marked [OF ids nodes n row_rows [OF store [unfolded store_MarkNodeAgentConnected_def]] _ run])
      (simp_all add: dns_view_def nodeStatus_def status_literals)
next
  assume "MarkNodeAgentDisconnected (markDNSRecordsDependingOnNodeGroupsPending u) k db = Inr (marked, db')"
  then obtain n db1 where n: "FindNodeByID db k = Inr n" and store: "store_MarkNodeAgentDisconnected k db = Inr db1"
    and run: "(if nodeStatus n \<noteq> ''OFFLINE'' then markDNSRecordsDependingOnNodeGroupsPending u (nd_GroupIDs n) db1 else Inr ([], db1)) = Inr (marked, db')"
    by (auto simp: MarkNodeAgentDisconnected_def nodeStatus_def)
  show "change_marked marked db db'"
    by (rule node_row_marked [OF ids nodes n row_rows [OF store [unfolded store_MarkNodeAgentDisconnected_def]] _ run])
      (simp_all add: dns_view_def nodeStatus_def status_literals)
qed

lemma publishRemote_rows:
  fixes db :: "'y dns_db_scheme"
  shows "same_dns_tables db (snd (publishRemoteAddress n a db))"
    "\<exists>h. db_Nodes (snd (publishRemoteAddress n a db)) = map (\<lambda>m. if nd_ID m = nd_ID n then h m else m) (db_Nodes db) \<and>
       (\<forall>m. nd_GroupIDs (h m) = nd_GroupIDs m \<and> nodeStatus (h m) = nodeStatus m) \<and>
       (\<forall>m. \<not> fst (publishRemoteAddress n a db) \<longrightarrow> nd_DNSPublishAddresses m = nd_DNSPublishAddresses n \<longrightarrow> dns_view (h m) = dns_view m)"
proof -
  let ?x = "ip_string (publicRemoteIP a)" and ?ty = "if To4 (publicRemoteIP a) = [] then ''AAAA'' else ''A''"
  show "same_dns_tables db (snd (publishRemoteAddress n a db))"
    by (simp add: publishRemoteAddress_def UpsertAutoNodeDNSPublishAddress_def DisableAutoNodeDNSPublishAddresses_def same_dns_tables_def Let_def)
  consider (none) "publicRemoteIP a = []" "\<not> nodeHasEnabledAutoDNSPublishAddress n" | (gone) "publicRemoteIP a = []" "nodeHasEnabledAutoDNSPublishAddress n"
    | (here) "publicRemoteIP a \<noteq> []" by blast
  then show "\<exists>h. db_Nodes (snd (publishRemoteAddress n a db)) = map (\<lambda>m. if nd_ID m = nd_ID n then h m else m) (db_Nodes db) \<and>
       (\<forall>m. nd_GroupIDs (h m) = nd_GroupIDs m \<and> nodeStatus (h m) = nodeStatus m) \<and>
       (\<forall>m. \<not> fst (publishRemoteAddress n a db) \<longrightarrow> nd_DNSPublishAddresses m = nd_DNSPublishAddresses n \<longrightarrow> dns_view (h m) = dns_view m)"
  proof cases
    case none
    then show ?thesis by (intro exI [of _ "\<lambda>m. m"]) (simp add: publishRemoteAddress_def map_idI)
  next
    case gone
    then show ?thesis
      by (intro exI [of _ "\<lambda>m. m\<lparr>nd_DNSPublishAddresses := map (\<lambda>a. if pa_Source a = ''AUTO'' then a\<lparr>pa_Enabled := False\<rparr> else a) (nd_DNSPublishAddresses m)\<rparr>"])
        (simp add: publishRemoteAddress_def DisableAutoNodeDNSPublishAddresses_def nodeStatus_def)
  next
    case here
    have "dns_view (m\<lparr>nd_DNSPublishAddresses := upsertAutoAddress ?ty ?x (nd_DNSPublishAddresses m)\<rparr>) = dns_view m"
      if "\<not> fst (publishRemoteAddress n a db)" "nd_DNSPublishAddresses m = nd_DNSPublishAddresses n" for m
    proof -
      have "(\<lambda>a. (pa_AddressType a, pa_Address a)) ` {a \<in> set (upsertAutoAddress ?ty ?x (nd_DNSPublishAddresses n)). pa_Enabled a} =
        (\<lambda>a. (pa_AddressType a, pa_Address a)) ` {a \<in> set (nd_DNSPublishAddresses n). pa_Enabled a}"
        by (rule enabled_upsert) (use that(1) here in \<open>simp_all add: publishRemoteAddress_def Let_def nodeHasEnabledDNSPublishAddress_def
            nodeHasOtherEnabledAutoDNSPublishAddress_def\<close>)
      then show ?thesis using that(2) by (simp add: dns_view_def nodeStatus_def)
    qed
    then show ?thesis using here
      by (intro exI [of _ "\<lambda>m. m\<lparr>nd_DNSPublishAddresses := upsertAutoAddress ?ty ?x (nd_DNSPublishAddresses m)\<rparr>"])
        (simp add: publishRemoteAddress_def UpsertAutoNodeDNSPublishAddress_def nodeStatus_def Let_def)
  qed
qed

lemma connected_from_marked:
  assumes ids: "dns_ids_ok db" and nodes: "distinct (map nd_ID (db_Nodes db))"
    and run: "MarkNodeAgentConnectedFromRemote (markDNSRecordsDependingOnNodeGroupsPending u) t k a db = Inr (marked, db2)"
    and after: "db_DNSRecords db' = db_DNSRecords db2" "dns_nodes (db_Nodes db') = dns_nodes (db_Nodes db2)"
  shows "change_marked marked db db'"
proof -
  obtain n db1 where n: "FindNodeByID db k = Inr n" and store: "store_MarkNodeAgentConnected t k db = Inr db1"
    and run: "(if nodeStatus n \<noteq> ''ONLINE'' \<or> fst (publishRemoteAddress n a db1)
      then markDNSRecordsDependingOnNodeGroupsPending u (nd_GroupIDs n) (snd (publishRemoteAddress n a db1))
      else Inr ([], snd (publishRemoteAddress n a db1))) = Inr (marked, db2)"
    using run by (auto simp: MarkNodeAgentConnectedFromRemote_def nodeStatus_def case_prod_beta)
  have k: "nd_ID n = k" using FindNodeByID_Inr [OF n] by simp
  let ?f = "\<lambda>m. m\<lparr>nd_Status := ''ONLINE'', nd_Agent := (nd_Agent m)\<lparr>ag_RegisteredAt := coalesce (ag_RegisteredAt (nd_Agent m)) t\<rparr>\<rparr>"
  note rows = row_rows [OF store [unfolded store_MarkNodeAgentConnected_def]]
  obtain h where h: "db_Nodes (snd (publishRemoteAddress n a db1)) = map (\<lambda>m. if nd_ID m = k then h m else m) (db_Nodes db1)"
    "\<forall>m. nd_GroupIDs (h m) = nd_GroupIDs m \<and> nodeStatus (h m) = nodeStatus m"
    "\<forall>m. \<not> fst (publishRemoteAddress n a db1) \<longrightarrow> nd_DNSPublishAddresses m = nd_DNSPublishAddresses n \<longrightarrow> dns_view (h m) = dns_view m"
    using publishRemote_rows(2) [of n a db1] unfolding k by blast
  show ?thesis
  proof (rule node_row_marked [OF ids nodes n _ _ _ run _ after, where f = "\<lambda>m. h (?f m)"])
    show "same_dns_tables db (snd (publishRemoteAddress n a db1))"
      using rows(1) publishRemote_rows(1) [of db1 n a] by (simp add: same_dns_tables_def)
    show "db_Nodes (snd (publishRemoteAddress n a db1)) = map (\<lambda>m. if nd_ID m = k then h (?f m) else m) (db_Nodes db)"
      unfolding h(1) rows(2) by simp
    show "nd_GroupIDs (h (?f n)) = nd_GroupIDs n" using h(2) by simp
    assume c: "\<not> (nodeStatus n \<noteq> ''ONLINE'' \<or> fst (publishRemoteAddress n a db1))"
    then have "dns_view (h (?f n)) = dns_view (?f n)" using h(3) by simp
    then show "dns_view (h (?f n)) = dns_view n" using c by (simp add: dns_view_def nodeStatus_def status_literals)
  qed
qed

lemma hello_marked:
  assumes ids: "dns_ids_ok db" and nodes: "distinct (map nd_ID (db_Nodes db))"
    and run: "RecordNodeAgentHello (markDNSRecordsDependingOnNodeGroupsPending u) t v k hi db = Inr (b, marked, db')"
  shows "change_marked marked db db'"
proof -
  have upd: "db_DNSRecords d' = db_DNSRecords d \<and> dns_nodes (db_Nodes d') = dns_nodes (db_Nodes d)"
    if "updateAgent k f d = Inr d'" for f and d d' :: "'a dns_db_scheme"
    using that by (auto simp: updateAgent_def updateNodeRow_def dns_nodes_def dns_view_def nodeStatus_def split: if_splits)
  have hello: "db_DNSRecords d' = db_DNSRecords d \<and> dns_nodes (db_Nodes d') = dns_nodes (db_Nodes d)"
    if "recordHelloVersion t v k hi d = Inr (b, d')" for d d' :: "'a dns_db_scheme"
    using that by (auto simp: recordHelloVersion_def MarkNodeAgentUpdateSatisfied_def MarkNodeAgentUpdateRequested_def split: if_splits dest!: upd)
  show ?thesis
    using run hello by (auto simp: RecordNodeAgentHello_def intro!: connected_from_marked [OF ids nodes])
qed

text \<open>Removing a node, by \<open>DeleteNode\<close> or with the release of its enrollment.\<close>

lemma released_marked:
  assumes ids: "dns_ids_ok db" and nodes: "distinct (map nd_ID (db_Nodes db))"
    and run: "releaseAgentRegistrationCredentialInTx (markDNSRecordsDependingOnNodeGroupsPending u) t ar db = (Inr (marked, rel), db')"
  shows "change_marked marked db db'"
proof -
  obtain c db1 where revoke: "(case RevokeCredential t (ar_AgentCredentialID ar) db of Inl e \<Rightarrow> (False, db) | Inr d \<Rightarrow> (True, d)) = (c, db1)"
    by fastforce
  then have 1: "aside db db1" by (auto split: sum.splits dest: aside_rows)
  let ?k = "ar_AgentID ar"
  show ?thesis
  proof (cases "\<exists>n. ar_EnrollmentProfileID ar \<noteq> [] \<and> c \<and> ?k \<noteq> [] \<and> FindNodeByID db1 ?k = Inr n")
    case False
    then have "db_Nodes db' = db_Nodes db1"
      using run aside_updates(2) unfolding releaseAgentRegistrationCredentialInTx_def revoke prod.case Let_def
      by (auto simp: releaseNode_def aside_def split: if_splits sum.splits)
    then show ?thesis using 1 by (intro unchanged_marked) (simp add: aside_def)
  next
    case True
    then obtain n where n: "FindNodeByID db1 ?k = Inr n" and act: "ar_EnrollmentProfileID ar \<noteq> []" c "?k \<noteq> []" by blast
    have "list_ex (\<lambda>m. nd_ID m = ?k) (db_Nodes db1)" using FindNodeByID_Inr [OF n] by (auto simp: list_ex_iff)
    then obtain d2 where del: "store_DeleteNode t ?k db1 = Inr d2" by (simp add: store_DeleteNode_def)
    obtain d3 where mark: "markDNSRecordsDependingOnNodeGroupsPending u (nd_GroupIDs n) d2 = Inr (marked, d3)" and db': "db' = returnUse True ar d3"
      using run act del n unfolding releaseAgentRegistrationCredentialInTx_def revoke prod.case Let_def
      by (auto simp: releaseNode_def split: if_splits sum.splits prod.splits)
    have "distinct (map nd_ID (db_Nodes db1))" using nodes 1 by (simp add: aside_def)
    note rows = deleted_rows [OF this n del]
    have "aside d3 db'" by (simp add: db')
    then show ?thesis
      using rows 1 by (intro changed_marked [OF ids _ _ mark]) (auto simp: aside_def same_dns_tables_def)
  qed
qed

lemma DeleteNode_marked:
  assumes ids: "dns_ids_ok db" and nodes: "distinct (map nd_ID (db_Nodes db))"
    and run: "DeleteNode (markDNSRecordsDependingOnNodeGroupsPending u) env service ident k db = (Inr marked, db')"
  shows "change_marked marked db db'"
proof -
  obtain n ids' released d1 where n: "FindNodeByID db k = Inr n"
    and rel: "releasePendingNodeEnrollmentForNode (markDNSRecordsDependingOnNodeGroupsPending u) (env_now env) n db = (Inr (ids', released), d1)"
    and rest: "(if released then marked = ids' \<and> aside d1 db' else \<exists>d2 d3. store_DeleteNode (env_now env) k d1 = Inr d2 \<and>
       markDNSRecordsDependingOnNodeGroupsPending u (nd_GroupIDs n) d2 = Inr (marked, d3) \<and> aside d3 db')"
    using run unfolding DeleteNode_def withinTx_def
    by (auto simp: tx_bind_def tx_check_def tx_run_def tx_return_def split: sum.splits prod.splits if_splits)
  show ?thesis
  proof (cases released)
    case True
    then obtain c where "releaseAgentRegistrationCredentialInTx (markDNSRecordsDependingOnNodeGroupsPending u) (env_now env) (authResultOf c) db = (Inr (marked, True), d1)"
      using rel rest by (auto simp: releasePendingNodeEnrollmentForNode_def split: if_splits option.splits)
    from released_marked [OF ids nodes this] True rest show ?thesis
      by (auto simp: change_marked_def aside_def same_dns_tables_def awaits_evaluation_def)
  next
    case False
    then have "d1 = db" using rel marking.not_released by (auto simp: releasePendingNodeEnrollmentForNode_def split: if_splits option.splits)
    then obtain d2 d3 where del: "store_DeleteNode (env_now env) k db = Inr d2"
      and mark: "markDNSRecordsDependingOnNodeGroupsPending u (nd_GroupIDs n) d2 = Inr (marked, d3)" and "aside d3 db'"
      using rest False by auto
    then show ?thesis
      using deleted_rows [OF nodes n del] by (intro changed_marked [OF ids _ _ mark]) (auto simp: aside_def same_dns_tables_def)
  qed
qed

subsection \<open>Every change of the nodes\<close>

text \<open>\<open>node_change ids db db'\<close>: an operation changes the tables from \<open>db\<close> to \<open>db'\<close> and returns the records \<open>ids\<close> as affected.\<close>

inductive node_change :: "string list \<Rightarrow> dns_db \<Rightarrow> dns_db \<Rightarrow> bool" where
  created: "CreateNode (markDNSRecordsDependingOnNodeGroupsPending u) service ident newID ni db = Inr (n, ids, db') \<Longrightarrow> node_change ids db db'"
| updated: "UpdateNode (markDNSRecordsDependingOnNodeGroupsPending u) service ident k ni db = Inr (n, ids, db') \<Longrightarrow> node_change ids db db'"
| deleted: "DeleteNode (markDNSRecordsDependingOnNodeGroupsPending u) env service ident k db = (Inr ids, db') \<Longrightarrow> node_change ids db db'"
| enrolled: "createNodeFromEnrollmentProfile (markDNSRecordsDependingOnNodeGroupsPending u) order env fresh p md db = Inr (ar, db') \<Longrightarrow>
    node_change (ar_AffectedDNSRecordIDs ar) db db'"
| released: "releaseAgentRegistrationCredentialInTx (markDNSRecordsDependingOnNodeGroupsPending u) t ar db = (Inr (ids, rel), db') \<Longrightarrow> node_change ids db db'"
| connected: "MarkNodeAgentConnected (markDNSRecordsDependingOnNodeGroupsPending u) t k db = Inr (ids, db') \<Longrightarrow> node_change ids db db'"
| connected_from: "MarkNodeAgentConnectedFromRemote (markDNSRecordsDependingOnNodeGroupsPending u) t k a db = Inr (ids, db') \<Longrightarrow> node_change ids db db'"
| disconnected: "MarkNodeAgentDisconnected (markDNSRecordsDependingOnNodeGroupsPending u) k db = Inr (ids, db') \<Longrightarrow> node_change ids db db'"
| hello: "RecordNodeAgentHello (markDNSRecordsDependingOnNodeGroupsPending u) t v k hi db = Inr (b, ids, db') \<Longrightarrow> node_change ids db db'"

lemma node_change_marked:
  assumes "node_change ids db db'" "dns_ids_ok db" "distinct (map nd_ID (db_Nodes db))"
  shows "change_marked ids db db'"
  using assms
proof (induction rule: node_change.induct)
  case (connected_from u t k a db ids db')
  show ?case by (rule connected_from_marked [OF connected_from(2,3,1)]) simp_all
qed (simp_all add: CreateNode_marked UpdateNode_marked DeleteNode_marked enrolled_marked released_marked connected_marked hello_marked)

text \<open>
  C2: whenever a node is created, changed, removed, enrolled or released, or its agent connects, disconnects or greets, every
  managed DNS record whose evaluation gives another result over the changed nodes is among the affected records of the operation
  and left pending (or pending deletion) by it, also when the record only uses the output of an instance of another record.
\<close>

theorem node_changes_mark_dns:
  assumes "node_change ids db db'" "dns_ids_ok db" "distinct (map nd_ID (db_Nodes db))"
    and "FindDNSManagedRecordByID db k = Inr r"
    and "evaluateDNSManagedRecord (db\<lparr>db_Nodes := db_Nodes db'\<rparr>) r \<noteq> evaluateDNSManagedRecord db r"
  shows "k \<in> set ids \<and> awaits_evaluation db' k"
  using node_change_marked [OF assms(1-3)] assms(4,5) unfolding change_marked_def by blast

definition example_instance :: "string \<Rightarrow> string \<Rightarrow> string \<Rightarrow> json \<Rightarrow> DNSInstanceRecord" where
  "example_instance k record g action = \<lparr>inst_ID = k, inst_ManagedRecordID = record, inst_Name = k, inst_Priority = 1, inst_Enabled = True,
     inst_NodeGroupIDs = [g], inst_AnswerCount = -1, inst_Condition = JObj [], inst_Action = action, inst_NotificationChannelIDs = [],
     inst_LastOutputValues = [], inst_LastStatus = [], inst_LastDiagnostics = []\<rparr>"

definition example_record :: "string \<Rightarrow> DNSManagedRecordRecord" where
  "example_record k = \<lparr>dr_ID = k, dr_DNSCredentialID = [], dr_CredentialZoneID = [], dr_ZoneID = [], dr_ZoneName = [], dr_RecordHost = k,
     dr_RecordName = k, dr_RecordType = ''A'', dr_TTL = 60, dr_Proxied = False, dr_ActiveInstanceID = [], dr_LastAppliedValues = [],
     dr_ProviderRetirements = [], dr_LastEvaluationStatus = ''APPLIED'', dr_LastEvaluationError = None, dr_LastDiagnostics = [],
     dr_LastEvaluatedAt = None, dr_LastAppliedAt = None, dr_UpdatedAt = 0, dr_Instances = []\<rparr>"

definition example_dns :: dns_db where
  "example_dns = \<lparr>db_Nodes = [shapeCheckNode\<lparr>nd_ID := ''n'', nd_Status := ''ONLINE'', nd_GroupIDs := [''g''],
       nd_DNSPublishAddresses := [\<lparr>pa_AddressType = ''A'', pa_Address = ''1.2.3.4'', pa_Source = ''MANUAL'', pa_Enabled = True\<rparr>]\<rparr>],
     db_NodeGroups = [], db_Targets = [], db_TargetGroups = [], db_Rules = [], db_Deployments = [],
     db_Quotas = [], db_DefaultRuleLimit = 0, db_TrafficAssignments = [], db_TrafficReports = [], db_TrafficCounters = [],
     db_RegistrationTokens = [], db_Credentials = [], db_EnrollmentProfiles = [], db_EnrollmentEvents = [], db_MonitorGroups = [],
     db_Monitors = [], db_HealthChecks = [], db_Audit = [], db_DNSCredentials = [], db_DNSZones = [],
     db_DNSRecords = [example_record ''a'', example_record ''b''],
     db_DNSInstances = [example_instance ''i'' ''a'' ''g'' (JObj [(''type'', JStr ''ROTATE_ONLINE_NODES'')]),
       example_instance ''j'' ''b'' ''h'' (JObj [(''type'', JStr ''USE_INSTANCE_OUTPUT''), (''instance_id'', JStr ''i'')])],
     db_NotificationChannels = [], db_NotificationDeliveries = []\<rparr>"

definition example_offline :: "(string list \<times> dns_db) result" where
  "example_offline = MarkNodeAgentDisconnected (markDNSRecordsDependingOnNodeGroupsPending 7) ''n'' example_dns"

lemma example_offline_runs: "\<not> isl example_offline"
  by code_simp

lemma example_dns_ids: "dns_ids_ok example_dns" "distinct (map nd_ID (db_Nodes example_dns))"
  by code_simp+

lemma example_found: "\<not> isl (FindDNSManagedRecordByID example_dns ''b'')"
  by code_simp

lemma example_changes:
  "pe_Status (evaluateDNSManagedRecord example_dns (projr (FindDNSManagedRecordByID example_dns ''b''))) = ''APPLIED''"
  "pe_Status (evaluateDNSManagedRecord (example_dns\<lparr>db_Nodes := db_Nodes (snd (projr example_offline))\<rparr>)
     (projr (FindDNSManagedRecordByID example_dns ''b''))) = ''FAILED''"
  by code_simp+

theorem node_changes_mark_dns_witness:
  "''b'' \<in> set (fst (projr example_offline)) \<and> awaits_evaluation (snd (projr example_offline)) ''b''"
proof (rule node_changes_mark_dns [OF _ example_dns_ids])
  show "node_change (fst (projr example_offline)) example_dns (snd (projr example_offline))"
    using example_offline_runs by (cases example_offline) (auto simp: example_offline_def intro: node_change.disconnected)
  show "FindDNSManagedRecordByID example_dns ''b'' = Inr (projr (FindDNSManagedRecordByID example_dns ''b''))"
    using example_found by (cases "FindDNSManagedRecordByID example_dns ''b''") auto
  show "evaluateDNSManagedRecord (example_dns\<lparr>db_Nodes := db_Nodes (snd (projr example_offline))\<rparr>)
      (projr (FindDNSManagedRecordByID example_dns ''b'')) \<noteq> evaluateDNSManagedRecord example_dns (projr (FindDNSManagedRecordByID example_dns ''b''))"
  proof
    assume "evaluateDNSManagedRecord (example_dns\<lparr>db_Nodes := db_Nodes (snd (projr example_offline))\<rparr>)
      (projr (FindDNSManagedRecordByID example_dns ''b'')) = evaluateDNSManagedRecord example_dns (projr (FindDNSManagedRecordByID example_dns ''b''))"
    with example_changes show False by simp
  qed
qed

end
