(* ===== verification/Dns_Resolution.thy ===== *)
theory Dns_Resolution
  imports Dns_Changes
begin

text \<open>
  What an evaluation computes: the instance it selects is the only matching one of lowest priority, and its values are
  those of the instance at the end of its references. The guards on depth and cycles only cut off references that
  have no end or are longer than the bound.
\<close>

subsection \<open>References\<close>

definition refers :: "'y dns_db_scheme \<Rightarrow> DNSManagedRecordRecord \<Rightarrow> DNSInstanceRecord \<Rightarrow> DNSInstanceRecord \<Rightarrow> bool" where
  "refers db r i j \<longleftrightarrow>
     (\<exists>a. decodeAction (inst_Action i) = Some a \<and> normalizeDNSActionType (act_Type a) = ''USE_INSTANCE_OUTPUT'' \<and>
        fst (referencedInstance db r a) = Inr j)"

primrec follows :: "'y dns_db_scheme \<Rightarrow> DNSManagedRecordRecord \<Rightarrow> nat \<Rightarrow> DNSInstanceRecord \<Rightarrow> DNSInstanceRecord \<Rightarrow> bool" where
  "follows db r 0 i t \<longleftrightarrow> i = t"
| "follows db r (Suc k) i t \<longleftrightarrow> (\<exists>j. refers db r i j \<and> follows db r k j t)"

text \<open>The values of an instance that refers to no other.\<close>

definition gives :: "'y dns_db_scheme \<Rightarrow> DNSManagedRecordRecord \<Rightarrow> DNSInstanceRecord \<Rightarrow> string list \<Rightarrow> bool" where
  "gives db r t values \<longleftrightarrow>
     (\<exists>a. decodeAction (inst_Action t) = Some a \<and> normalizeDNSActionType (act_Type a) \<noteq> ''USE_INSTANCE_OUTPUT'' \<and>
        fst (terminalAction db r t a) = Inr values)"

lemma refers_unique: "refers db r i j \<Longrightarrow> refers db r i j' \<Longrightarrow> j = j'"
  by (auto simp: refers_def)

lemma refers_not_gives: "refers db r i j \<Longrightarrow> \<not> gives db r i values"
  by (auto simp: refers_def gives_def)

lemma referenced_found: "referencedInstance db r a = (Inr j, ds) \<Longrightarrow> FindDNSInstanceByID db (act_InstanceID a) = Inr j"
  by (auto simp: referencedInstance_def split: sum.splits if_splits)

lemma refers_instance: "refers db r i j \<Longrightarrow> j \<in> set (instancesOfRecords db)"
  unfolding refers_def by (metis prod.collapse referenced_found FindInstance_Inr)

lemma follows_rest: "follows db r k i t \<Longrightarrow> follows db r m i j \<Longrightarrow> m \<le> k \<Longrightarrow> follows db r (k - m) j t"
proof (induction m arbitrary: k i)
  case (Suc m)
  then obtain k' where k: "k = Suc k'" by (cases k) auto
  then obtain x y where "refers db r i x" "follows db r k' x t" "refers db r i y" "follows db r m y j" using Suc.prems by auto
  then show ?case using Suc.IH [of k' x] Suc.prems(3) k refers_unique [of db r i x y] by simp
qed simp

lemma follows_end_unique: "follows db r k i t \<Longrightarrow> gives db r t v \<Longrightarrow> follows db r k' i t' \<Longrightarrow> gives db r t' v' \<Longrightarrow> k = k'"
proof (induction k arbitrary: i k')
  case 0
  then show ?case by (cases k') (auto dest: refers_not_gives)
next
  case (Suc k)
  obtain x where x: "refers db r i x" "follows db r k x t" using Suc.prems by auto
  then obtain k'' where k': "k' = Suc k''" using Suc.prems(3,4) by (cases k') (auto dest: refers_not_gives)
  then obtain y where "refers db r i y" "follows db r k'' y t'" using Suc.prems(3) by auto
  then show ?case using Suc.IH [OF x(2) Suc.prems(2), of k''] x(1) Suc.prems(4) k' refers_unique [of db r i x y] by simp
qed

lemma evaluated_follows: "fst (evaluateDNSAction l db r i seen) = Inr v \<Longrightarrow> \<exists>k t. k < l \<and> follows db r k i t \<and> gives db r t v"
proof (induction l arbitrary: i seen)
  case (Suc l)
  obtain a where a: "decodeAction (inst_Action i) = Some a" and fresh: "\<not> List.member seen (inst_ID i)"
    using Suc.prems by (auto split: option.splits if_splits)
  show ?case
  proof (cases "normalizeDNSActionType (act_Type a) = ''USE_INSTANCE_OUTPUT''")
    case False
    then have "gives db r i v" using Suc.prems a fresh by (simp add: gives_def)
    then show ?thesis by (intro exI [of _ 0] exI [of _ i]) simp
  next
    case True
    then obtain j where j: "fst (referencedInstance db r a) = Inr j" "fst (evaluateDNSAction l db r j (inst_ID i # seen)) = Inr v"
      using Suc.prems a fresh by (cases "referencedInstance db r a") (auto split: sum.splits)
    then have "refers db r i j" using a True by (auto simp: refers_def)
    then show ?thesis using Suc.IH [OF j(2)] by (metis Suc_less_eq follows.simps(2))
  qed
qed simp

lemma follows_evaluated:
  assumes ids: "dns_ids_ok db"
  shows "i \<in> set (instancesOfRecords db) \<Longrightarrow> follows db r k i t \<Longrightarrow> gives db r t v \<Longrightarrow> k < l \<Longrightarrow>
    (\<And>m j. m \<le> k \<Longrightarrow> follows db r m i j \<Longrightarrow> inst_ID j \<notin> set seen) \<Longrightarrow> fst (evaluateDNSAction l db r i seen) = Inr v"
proof (induction k arbitrary: i l seen)
  case 0
  then show ?case using "0.prems"(5) [of 0 i] by (cases l) (auto simp: gives_def)
next
  case (Suc k)
  obtain l' where l: "l = Suc l'" using Suc.prems(4) by (cases l) auto
  obtain j where j: "refers db r i j" "follows db r k j t" using Suc.prems(2) by auto
  have fresh: "inst_ID i \<notin> set seen" using Suc.prems(5) [of 0 i] by simp
  have "fst (evaluateDNSAction l' db r j (inst_ID i # seen)) = Inr v"
  proof (rule Suc.IH [OF refers_instance [OF j(1)] j(2) Suc.prems(3)])
    show "k < l'" using Suc.prems(4) l by simp
    fix m j' assume m: "m \<le> k" "follows db r m j j'"
    then have path: "follows db r (Suc m) i j'" using j(1) by auto
    have "inst_ID j' \<noteq> inst_ID i"
    proof
      assume "inst_ID j' = inst_ID i"
      moreover have "j' \<in> set (instancesOfRecords db)"
        using m(2) refers_instance [OF j(1)] by (induction m arbitrary: j) (auto dest: refers_instance)
      ultimately have "follows db r (Suc k - Suc m) i t"
        using follows_rest [OF Suc.prems(2) path] m(1) instance_ids [OF ids] Suc.prems(1) by (metis Suc_le_mono)
      from follows_end_unique [OF this Suc.prems(3) Suc.prems(2,3)] show False by simp
    qed
    then show "inst_ID j' \<notin> set (inst_ID i # seen)" using Suc.prems(5) [of "Suc m" j'] path m(1) by simp
  qed
  then show ?case using j(1) fresh l by (cases "referencedInstance db r (the (decodeAction (inst_Action i)))") (auto simp: refers_def)
qed

lemma evaluated_at:
  assumes "dns_ids_ok db" "i \<in> set (instancesOfRecords db)"
  shows "fst (evaluateDNSAction 9 db r i []) = Inr v \<longleftrightarrow> (\<exists>k t. k \<le> 8 \<and> follows db r k i t \<and> gives db r t v)"
proof
  assume "fst (evaluateDNSAction 9 db r i []) = Inr v"
  from evaluated_follows [OF this] obtain k t where "k < 9" "follows db r k i t" "gives db r t v" by blast
  then show "\<exists>k t. k \<le> 8 \<and> follows db r k i t \<and> gives db r t v" by (intro exI [of _ k] exI [of _ t]) simp
next
  assume "\<exists>k t. k \<le> 8 \<and> follows db r k i t \<and> gives db r t v"
  then show "fst (evaluateDNSAction 9 db r i []) = Inr v"
    using follows_evaluated [OF assms, of r _ _ v 9 "[]"] by auto
qed


definition example_user_instance :: DNSInstanceRecord where
  "example_user_instance = example_instance ''j'' ''b'' ''h'' (JObj [(''type'', JStr ''USE_INSTANCE_OUTPUT''), (''instance_id'', JStr ''i'')])"

lemma example_user_listed: "example_user_instance \<in> set (instancesOfRecords example_dns)"
  by code_simp

lemma example_resolves: "fst (evaluateDNSAction 9 example_dns (example_record ''b'') example_user_instance []) = Inr [''1.2.3.4'']"
  by code_simp


subsection \<open>Selection\<close>

definition matches :: "'y dns_db_scheme \<Rightarrow> DNSInstanceRecord \<Rightarrow> bool" where
  "matches db i \<longleftrightarrow> fst (evaluateDNSCondition (inst_Condition i) (conditionContext db i))"

text \<open>The loop over sorted instances, from a selected one on: only the next matching instance matters.\<close>

lemma select_from_some:
  assumes "sorted (map inst_Priority (s # is))"
  shows "fst (selectInstance db (Some s) ds is) =
    (if \<exists>j \<in> set is. matches db j \<and> inst_Priority j = inst_Priority s then Ambiguous else Chosen (Some s))"
  using assms
proof (induction "is" arbitrary: ds)
  case (Cons i "is")
  have later: "inst_Priority i \<le> inst_Priority j" if "j \<in> set is" for j using Cons.prems that by auto
  show ?case
  proof (cases "matches db i")
    case False
    then show ?thesis using Cons by (auto simp: matches_def Let_def split: prod.splits)
  next
    case True
    then show ?thesis using Cons.prems later
      by (cases "inst_Priority s = inst_Priority i") (fastforce simp: matches_def Let_def split: prod.splits)+
  qed
qed simp

lemma select_from_none:
  assumes "sorted (map inst_Priority is)"
  shows "fst (selectInstance db None ds is) =
    (case filter (matches db) is of [] \<Rightarrow> Chosen None
     | i # ms \<Rightarrow> if \<exists>j \<in> set ms. inst_Priority j = inst_Priority i then Ambiguous else Chosen (Some i))"
  using assms
proof (induction "is" arbitrary: ds)
  case (Cons i "is")
  show ?case
  proof (cases "matches db i")
    case False
    then show ?thesis using Cons by (auto simp: matches_def Let_def split: prod.splits)
  next
    case True
    obtain cds where "evaluateDNSCondition (inst_Condition i) (conditionContext db i) = (True, cds)"
      using True by (cases "evaluateDNSCondition (inst_Condition i) (conditionContext db i)") (simp add: matches_def)
    then show ?thesis using True select_from_some [OF Cons.prems, of db "ds @ cds"] by (auto simp: Let_def)
  qed
qed simp

lemma candidates_sorted: "sorted (map inst_Priority (candidates r))"
proof -
  have "sorted (map (\<lambda>i. (inst_Priority i, inst_ID i)) (candidates r))" by (simp add: candidates_def)
  then have "sorted (map fst (map (\<lambda>i. (inst_Priority i, inst_ID i)) (candidates r)))"
    by (rule sorted_map_mono) (auto simp: mono_on_def less_eq_prod_def)
  then show ?thesis by (simp add: comp_def)
qed

definition leads :: "'y dns_db_scheme \<Rightarrow> DNSManagedRecordRecord \<Rightarrow> DNSInstanceRecord \<Rightarrow> bool" where
  "leads db r i \<longleftrightarrow> i \<in> set (dr_Instances r) \<and> inst_Enabled i \<and> matches db i \<and>
     (\<forall>j \<in> set (dr_Instances r). inst_Enabled j \<and> matches db j \<and> j \<noteq> i \<longrightarrow> inst_Priority i < inst_Priority j)"

lemma found_instances:
  assumes "dns_ids_ok db" "FindDNSManagedRecordByID db k = Inr r"
  shows "distinct (candidates r)" "set (dr_Instances r) \<subseteq> set (instancesOfRecords db)"
proof -
  obtain r0 where r0: "r = withInstances db r0" using FindRecord_Inr [OF assms(2)] by blast
  have "distinct (instancesOfRecords db)" using assms(1) by (auto simp: dns_ids_ok_def instancesOfRecords_def distinct_map)
  then show "distinct (candidates r)"
    by (simp add: r0 candidates_def withInstances_def ListDNSInstancesByManagedRecord_def)
  show "set (dr_Instances r) \<subseteq> set (instancesOfRecords db)" by (auto simp: r0 set_instances_of)
qed

lemma selection_leads:
  assumes "distinct (candidates r)"
  shows "fst (selectInstance db None ds (candidates r)) = Chosen (Some i) \<longleftrightarrow> leads db r i"
    "fst (selectInstance db None ds (candidates r)) = Chosen None \<longleftrightarrow> (\<forall>j \<in> set (dr_Instances r). inst_Enabled j \<longrightarrow> \<not> matches db j)"
proof -
  let ?M = "filter (matches db) (candidates r)"
  have lead: "leads db r x \<longleftrightarrow> x \<in> set ?M \<and> (\<forall>j \<in> set ?M. j \<noteq> x \<longrightarrow> inst_Priority x < inst_Priority j)" for x
    by (auto simp: leads_def candidates_def)
  have sorted: "sorted (map inst_Priority ?M)" using candidates_sorted by (rule sorted_filter)
  have head: "leads db r x \<longleftrightarrow> x = i \<and> \<not> (\<exists>j \<in> set ms. inst_Priority j = inst_Priority i)" if M: "?M = i # ms" for i ms x
  proof -
    have le: "inst_Priority i \<le> inst_Priority j" if "j \<in> set ms" for j using sorted that unfolding M by simp
    have "i \<notin> set ms" using assms M by (metis distinct.simps(2) distinct_filter)
    then show ?thesis unfolding lead M using le by (auto simp: order.strict_iff_order) (metis order.antisym)+
  qed
  have none: "\<not> leads db r x" if "?M = []" for x unfolding lead that by simp
  show "fst (selectInstance db None ds (candidates r)) = Chosen (Some i) \<longleftrightarrow> leads db r i"
    unfolding select_from_none [OF candidates_sorted] using head none by (auto split: list.splits)
  have "?M = [] \<longleftrightarrow> (\<forall>j \<in> set (dr_Instances r). inst_Enabled j \<longrightarrow> \<not> matches db j)"
    by (auto simp: filter_empty_conv candidates_def)
  then show "fst (selectInstance db None ds (candidates r)) = Chosen None \<longleftrightarrow> (\<forall>j \<in> set (dr_Instances r). inst_Enabled j \<longrightarrow> \<not> matches db j)"
    unfolding select_from_none [OF candidates_sorted] by (auto split: list.splits)
qed

text \<open>
  C22: the active instance of an evaluation is the enabled matching instance of strictly lowest priority; without a matching
  instance the result is NO_MATCH, with a tie at the lowest priority CONFLICT, and in neither case is the provider touched.
  The values to apply are those at the end of the references of the active instance.
\<close>

theorem dns_evaluation_correct:
  assumes ids: "dns_ids_ok db" and r: "FindDNSManagedRecordByID db k = Inr r"
  shows "(pe_ActiveInstance (evaluateDNSManagedRecord db r) = Some i \<longleftrightarrow> leads db r i) \<and>
    (pe_Status (evaluateDNSManagedRecord db r) = ''NO_MATCH'' \<longleftrightarrow> (\<forall>j \<in> set (dr_Instances r). inst_Enabled j \<longrightarrow> \<not> matches db j)) \<and>
    (pe_Status (evaluateDNSManagedRecord db r) = ''CONFLICT'' \<longleftrightarrow>
      (\<exists>j \<in> set (dr_Instances r). inst_Enabled j \<and> matches db j) \<and> (\<forall>j. \<not> leads db r j)) \<and>
    (pe_Status (evaluateDNSManagedRecord db r) = ''APPLIED'' \<and> pe_Values (evaluateDNSManagedRecord db r) = v \<longleftrightarrow>
      (\<exists>j n t. leads db r j \<and> n \<le> 8 \<and> follows db r n j t \<and> gives db r t v)) \<and>
    (pe_ApplyProvider (evaluateDNSManagedRecord db r) \<longrightarrow> pe_Status (evaluateDNSManagedRecord db r) = ''APPLIED'')"
proof -
  note inst = found_instances [OF ids r]
  note sel = selection_leads [OF inst(1), of db "[]"]
  have resolved: "fst (evaluateDNSAction 9 db r j []) = Inr v \<longleftrightarrow> (\<exists>n t. n \<le> 8 \<and> follows db r n j t \<and> gives db r t v)" if "leads db r j" for j
    using evaluated_at [OF ids, of j r v] that inst(2) by (auto simp: leads_def)
  obtain s ds where S: "selectInstance db None [] (candidates r) = (s, ds)" by fastforce
  have lead: "leads db r j \<longleftrightarrow> s = Chosen (Some j)" for j using sel(1) S by simp
  have no_match: "(\<forall>j \<in> set (dr_Instances r). inst_Enabled j \<longrightarrow> \<not> matches db j) \<longleftrightarrow> s = Chosen None" using sel(2) S by simp
  then have some_match: "(\<exists>j \<in> set (dr_Instances r). inst_Enabled j \<and> matches db j) \<longleftrightarrow> s \<noteq> Chosen None" by auto
  have ends: "(\<exists>j n t. s = Chosen (Some j) \<and> n \<le> 8 \<and> follows db r n j t \<and> gives db r t v) \<longleftrightarrow>
      (\<exists>j. s = Chosen (Some j) \<and> fst (evaluateDNSAction 9 db r j []) = Inr v)"
    using resolved lead by blast
  show ?thesis
    unfolding no_match some_match lead ends
    by (cases s) (auto simp: evaluateDNSManagedRecord_def S split: option.splits prod.splits sum.splits)
qed

theorem dns_evaluation_correct_witness:
  "leads example_dns (projr (FindDNSManagedRecordByID example_dns ''b'')) example_user_instance"
proof -
  have found: "FindDNSManagedRecordByID example_dns ''b'' = Inr (projr (FindDNSManagedRecordByID example_dns ''b''))"
    using example_found by (cases "FindDNSManagedRecordByID example_dns ''b''") auto
  have "pe_ActiveInstance (evaluateDNSManagedRecord example_dns (projr (FindDNSManagedRecordByID example_dns ''b''))) = Some example_user_instance"
    by code_simp
  then show ?thesis using dns_evaluation_correct [OF example_dns_ids(1) found] by blast
qed

end
