(* ===== verification/Rule_Traffic.thy ===== *)
theory Rule_Traffic
  imports Agent_Sync Traffic_Spool
begin

text \<open>
  What the control plane does with the traffic reports of the node agents: the metrics message of the agent connection
  (\<open>handler/agent_ws.go\<close>), \<open>RecordNodeTrafficReport\<close> and \<open>RuleTraffic\<close> of the service and the statements of
  \<open>repo/targets_rules.go\<close> they run. Together with the spool of the agent, traffic is counted exactly once across losses,
  repetitions and reorderings of messages, refused reports and restarts of the agent.

  The columns for rules have the type uuid. \<open>asUUID\<close> is how the database reads a text of that type: the canonical text, or
  none when it refuses the text. The counters have the type bigint and a check that they are not negative.
\<close>

subsection \<open>The store\<close>

definition positiveRuleTrafficDelta :: "int \<Rightarrow> int" where
  "positiveRuleTrafficDelta v = (if v < 0 then 0 else v)"

definition positiveDelta :: "RuleTrafficDelta \<Rightarrow> RuleTrafficDelta" where
  "positiveDelta delta =
     \<lparr>rd_RuleID = TrimSpace (rd_RuleID delta),
      rd_UploadBytes = positiveRuleTrafficDelta (rd_UploadBytes delta),
      rd_DownloadBytes = positiveRuleTrafficDelta (rd_DownloadBytes delta),
      rd_TCPConnections = positiveRuleTrafficDelta (rd_TCPConnections delta),
      rd_UDPPackets = positiveRuleTrafficDelta (rd_UDPPackets delta)\<rparr>"

definition mergeRuleTrafficDeltas :: "RuleTrafficDelta list \<Rightarrow> RuleTrafficDelta list" where
  "mergeRuleTrafficDeltas deltas = mergeAll (map positiveDelta deltas)"

definition addCounter :: "RuleTrafficDelta \<Rightarrow> RuleTrafficCounter \<Rightarrow> RuleTrafficCounter" where
  "addCounter delta k =
     k\<lparr>ctr_UploadBytes := ctr_UploadBytes k + rd_UploadBytes delta, ctr_DownloadBytes := ctr_DownloadBytes k + rd_DownloadBytes delta,
       ctr_TCPConnections := ctr_TCPConnections k + rd_TCPConnections delta, ctr_UDPPackets := ctr_UDPPackets k + rd_UDPPackets delta\<rparr>"

definition newCounter :: "string \<Rightarrow> RuleTrafficCounter" where
  "newCounter ruleID =
     \<lparr>ctr_RuleID = ruleID, ctr_UploadBytes = 0, ctr_DownloadBytes = 0, ctr_TCPConnections = 0, ctr_UDPPackets = 0\<rparr>"

definition negativeDelta :: "RuleTrafficDelta \<Rightarrow> bool" where
  "negativeDelta delta \<longleftrightarrow>
     rd_UploadBytes delta < 0 \<or> rd_DownloadBytes delta < 0 \<or> rd_TCPConnections delta < 0 \<or> rd_UDPPackets delta < 0"

definition bigints :: "RuleTrafficCounter \<Rightarrow> bool" where
  "bigints k \<longleftrightarrow> ctr_UploadBytes k < 2 ^ 63 \<and> ctr_DownloadBytes k < 2 ^ 63 \<and> ctr_TCPConnections k < 2 ^ 63 \<and> ctr_UDPPackets k < 2 ^ 63"

text \<open>The statement that inserts or increases the counter of one rule, if the rule was assigned to the node.\<close>

definition insertRuleTraffic ::
    "(string \<Rightarrow> string option) \<Rightarrow> string \<Rightarrow> RuleTrafficDelta \<Rightarrow> 'z control_db_scheme \<Rightarrow> 'z control_db_scheme result" where
  "insertRuleTraffic asUUID nodeID delta db =
     (case asUUID (rd_RuleID delta) of
        None \<Rightarrow> Inl SDatabase
      | Some ruleID \<Rightarrow>
          if \<not> List.member (db_TrafficAssignments db) (nodeID, ruleID) then Inr db
          else if negativeDelta delta then Inl SErrConflict
          else case List.find (\<lambda>k. ctr_RuleID k = ruleID) (db_TrafficCounters db) of
            None \<Rightarrow> Inr (db\<lparr>db_TrafficCounters := db_TrafficCounters db @ [addCounter delta (newCounter ruleID)]\<rparr>)
          | Some k \<Rightarrow>
              if bigints (addCounter delta k)
              then Inr (db\<lparr>db_TrafficCounters :=
                     map (\<lambda>k. if ctr_RuleID k = ruleID then addCounter delta k else k) (db_TrafficCounters db)\<rparr>)
              else Inl SDatabase)"

definition RecordRuleTrafficReport ::
    "(string \<Rightarrow> string option) \<Rightarrow> string \<Rightarrow> string \<Rightarrow> RuleTrafficDelta list \<Rightarrow> 'z control_db_scheme \<Rightarrow> (bool \<times> 'z control_db_scheme) result" where
  "RecordRuleTrafficReport asUUID nodeID reportID deltas db =
     (let reportID = TrimSpace reportID in
      if reportID = [] \<or> deltas = [] then Inr (False, db)
      else if List.member (db_TrafficReports db) (nodeID, reportID) then Inr (False, db)
      else bind_result
        (fold_result (insertRuleTraffic asUUID nodeID) (mergeRuleTrafficDeltas deltas)
          (db\<lparr>db_TrafficReports := db_TrafficReports db @ [(nodeID, reportID)]\<rparr>)) (\<lambda>db.
        Inr (True, db)))"

text \<open>The sum of a column over the counters of a rule.\<close>

definition sumCounters :: "(RuleTrafficCounter \<Rightarrow> int) \<Rightarrow> string \<Rightarrow> 'z control_db_scheme \<Rightarrow> int" where
  "sumCounters f ruleID db = sum_list (map f (filter (\<lambda>k. ctr_RuleID k = ruleID) (db_TrafficCounters db)))"

definition SumRuleTraffic :: "string \<Rightarrow> 'z control_db_scheme \<Rightarrow> RuleTrafficCounter" where
  "SumRuleTraffic ruleID db =
     \<lparr>ctr_RuleID = ruleID, ctr_UploadBytes = sumCounters ctr_UploadBytes ruleID db,
      ctr_DownloadBytes = sumCounters ctr_DownloadBytes ruleID db, ctr_TCPConnections = sumCounters ctr_TCPConnections ruleID db,
      ctr_UDPPackets = sumCounters ctr_UDPPackets ruleID db\<rparr>"

subsection \<open>The service\<close>

text \<open>A refused transaction is rolled back.\<close>

definition RecordNodeTrafficReport ::
    "(string \<Rightarrow> string option) \<Rightarrow> string \<Rightarrow> string \<Rightarrow> RuleTrafficDelta list \<Rightarrow> 'z control_db_scheme \<Rightarrow> (bool \<times> 'z control_db_scheme) result" where
  "RecordNodeTrafficReport asUUID nodeID reportID deltas db =
     (if reportID = [] \<or> deltas = [] then Inr (False, db)
      else bind_result (FindNodeByID db nodeID) (\<lambda>_. RecordRuleTrafficReport asUUID nodeID reportID deltas db))"

definition RuleTraffic :: "ControlService \<Rightarrow> InternalIdentity \<Rightarrow> string \<Rightarrow> 'z control_db_scheme \<Rightarrow> RuleTrafficCounter result" where
  "RuleTraffic service identity ruleID db =
     bind_result (FindRuleByID db ruleID) (\<lambda>rule.
     bind_result (fail_if (\<not> hasPermission service identity ''traffic.read_all'' \<and>
        \<not> (hasPermission service identity ''traffic.read_own'' \<and> rule_OwnerUserID rule = id_UserID identity)) SErrForbidden) (\<lambda>_.
     bind_result (fail_if (\<not> canUseNodeGroup (svc_authorizer service) identity (bi_NodeGroupID (rule_Binding rule))) SErrForbidden) (\<lambda>_.
     Inr (SumRuleTraffic ruleID db))))"

subsection \<open>The metrics message\<close>

text \<open>\<open>current\<close> is the answer of \<open>UpdateMetricsForConnection\<close>: the connection is the last one of its agent.\<close>

datatype metricsReply = ConnectionSuperseded | AgentRecordNotFound | TrafficReportFailed | NoReply | MetricsAck string

definition handleMetrics ::
    "(string \<Rightarrow> string option) \<Rightarrow> bool \<Rightarrow> string \<Rightarrow> string \<Rightarrow> MetricsPayload \<Rightarrow> 'z control_db_scheme \<Rightarrow> metricsReply \<times> 'z control_db_scheme" where
  "handleMetrics asUUID current agentType agentID payload db =
     (if \<not> current then (ConnectionSuperseded, db)
      else if agentType = ''NODE'' \<and> mp_TrafficReportID payload \<noteq> [] \<and> mp_TrafficDeltas payload \<noteq> [] then
        (case RecordNodeTrafficReport asUUID agentID (mp_TrafficReportID payload) (mp_TrafficDeltas payload) db of
           Inl e \<Rightarrow> (if e = SErrNotFound then AgentRecordNotFound else TrafficReportFailed, db)
         | Inr (_, db') \<Rightarrow> (MetricsAck (mp_TrafficReportID payload), db'))
      else (NoReply, db))"

subsection \<open>Merging in the store\<close>

text \<open>The merge of the store is the merge of the agent, so that its law holds here too.\<close>

lemma positiveDelta_clean: "positiveDelta = cleanDelta"
  by (rule ext) (simp add: positiveDelta_def cleanDelta_def positiveRuleTrafficDelta_def maxInt64_def)

interpretation store_merge: delta_merge mergeRuleTrafficDeltas cleanDelta
proof -
  have "mergeRuleTrafficDeltas = mergeTrafficDeltas"
    by (rule ext) (simp add: mergeRuleTrafficDeltas_def mergeTrafficDeltas_def positiveDelta_clean)
  then show "delta_merge mergeRuleTrafficDeltas cleanDelta" by (simp add: spool_merge.delta_merge_axioms)
qed

lemma mergeRuleTrafficDeltas_tidy: "tidy ds \<Longrightarrow> mergeRuleTrafficDeltas ds = ds"
  using mergeTrafficDeltas_tidy by (simp add: mergeRuleTrafficDeltas_def mergeTrafficDeltas_def positiveDelta_clean)

subsection \<open>Recording a report\<close>

fun csel :: "component \<Rightarrow> RuleTrafficCounter \<Rightarrow> int" where
  "csel Upload k = ctr_UploadBytes k"
| "csel Download k = ctr_DownloadBytes k"
| "csel Connections k = ctr_TCPConnections k"
| "csel Packets k = ctr_UDPPackets k"

definition counted :: "component \<Rightarrow> string \<Rightarrow> 'z control_db_scheme \<Rightarrow> int" where
  "counted c ruleID db = csel c (SumRuleTraffic ruleID db)"

text \<open>At most one counter per rule, the unique constraint of the table.\<close>

definition one_counter :: "'z control_db_scheme \<Rightarrow> bool" where
  "one_counter db \<longleftrightarrow> distinct (map ctr_RuleID (db_TrafficCounters db))"

text \<open>A rule the node was given: its id is a canonical uuid and the assignment is recorded.\<close>

definition assigned :: "(string \<Rightarrow> string option) \<Rightarrow> string \<Rightarrow> 'z control_db_scheme \<Rightarrow> string \<Rightarrow> bool" where
  "assigned asUUID nodeID db r \<longleftrightarrow> asUUID r = Some r \<and> (nodeID, r) \<in> set (db_TrafficAssignments db)"

lemma counted_eq: "counted c r db = sumCounters (csel c) r db"
proof -
  have "csel Upload = ctr_UploadBytes" "csel Download = ctr_DownloadBytes" "csel Connections = ctr_TCPConnections"
    "csel Packets = ctr_UDPPackets" by (rule ext, simp)+
  then show ?thesis by (cases c) (simp_all add: counted_def SumRuleTraffic_def)
qed

lemma csel_add [simp]: "csel c (addCounter d k) = csel c k + dsel c d"
  by (cases c) (simp_all add: addCounter_def)

lemma addCounter_id [simp]: "ctr_RuleID (addCounter d k) = ctr_RuleID k"
  by (simp add: addCounter_def)

lemma newCounter_simps [simp]: "ctr_RuleID (newCounter r) = r" "csel c (newCounter r) = 0"
  by (cases c; simp add: newCounter_def)+

lemma bigints_iff: "bigints k \<longleftrightarrow> (\<forall>c. csel c k < 2 ^ 63)"
proof
  show "bigints k" if small: "\<forall>c. csel c k < 2 ^ 63"
    using small [rule_format, of Upload] small [rule_format, of Download] small [rule_format, of Connections]
      small [rule_format, of Packets] by (simp add: bigints_def)
  show "\<forall>c. csel c k < 2 ^ 63" if "bigints k"
  proof
    show "csel c k < 2 ^ 63" for c using that by (cases c) (simp_all add: bigints_def)
  qed
qed

lemma negativeDelta_fits: "delta_fits d \<Longrightarrow> \<not> negativeDelta d"
proof -
  assume fits: "delta_fits d"
  have "0 \<le> dsel c d" for c using fits by (simp add: delta_fits_def)
  from this [of Upload] this [of Download] this [of Connections] this [of Packets] show ?thesis
    by (simp add: negativeDelta_def)
qed

lemma sum_add_one:
  assumes "distinct (map ctr_RuleID ks)" "x \<in> ctr_RuleID ` set ks"
  shows "sum_list (map (csel c) (filter (\<lambda>k. ctr_RuleID k = r) (map (\<lambda>k. if ctr_RuleID k = x then addCounter d k else k) ks))) =
    sum_list (map (csel c) (filter (\<lambda>k. ctr_RuleID k = r) ks)) + (if x = r then dsel c d else 0)"
  using assms
proof (induction ks)
  case (Cons k ks)
  show ?case
  proof (cases "ctr_RuleID k = x")
    case True
    then have "map (\<lambda>k. if ctr_RuleID k = x then addCounter d k else k) ks = ks" using Cons.prems(1) by (intro map_idI) (auto simp: image_iff)
    then show ?thesis using True by auto
  next
    case False
    then show ?thesis using Cons by (auto split: if_splits)
  qed
qed simp

lemma find_counter:
  assumes "one_counter db"
  shows "List.find (\<lambda>k. ctr_RuleID k = r) (db_TrafficCounters db) = Some k \<Longrightarrow> csel c k = counted c r db"
    and "List.find (\<lambda>k. ctr_RuleID k = r) (db_TrafficCounters db) = None \<Longrightarrow> counted c r db = 0"
proof -
  have "distinct (map ctr_RuleID ks) \<Longrightarrow> sum_list (map (csel c) (filter (\<lambda>k. ctr_RuleID k = r) ks)) =
      (case List.find (\<lambda>k. ctr_RuleID k = r) ks of None \<Rightarrow> 0 | Some k \<Rightarrow> csel c k)" for ks
  proof (induction ks)
    case (Cons k ks)
    then have none: "filter (\<lambda>k. ctr_RuleID k = r) ks = []" if "ctr_RuleID k = r" using that by (auto simp: filter_empty_conv image_iff)
    show ?case using Cons none by (cases "ctr_RuleID k = r") simp_all
  qed simp
  with assms show "List.find (\<lambda>k. ctr_RuleID k = r) (db_TrafficCounters db) = Some k \<Longrightarrow> csel c k = counted c r db"
    and "List.find (\<lambda>k. ctr_RuleID k = r) (db_TrafficCounters db) = None \<Longrightarrow> counted c r db = 0"
    by (simp_all add: one_counter_def counted_eq sumCounters_def)
qed

lemma insertRuleTraffic_frame:
  "insertRuleTraffic asUUID k d db = Inr db' \<Longrightarrow> one_counter db \<Longrightarrow>
   one_counter db' \<and> db_TrafficAssignments db' = db_TrafficAssignments db \<and> db_TrafficReports db' = db_TrafficReports db"
proof -
  have ids: "map (ctr_RuleID \<circ> (\<lambda>k. if ctr_RuleID k = x then addCounter d k else k)) ks = map ctr_RuleID ks" for x ks
    by (rule map_cong) simp_all
  show "insertRuleTraffic asUUID k d db = Inr db' \<Longrightarrow> one_counter db \<Longrightarrow> ?thesis"
    by (auto simp: insertRuleTraffic_def one_counter_def find_None_iff ids simp del: map_eq_conv split: if_splits option.splits)
qed

lemma insertAll_frame:
  "fold_result (insertRuleTraffic asUUID k) ds db = Inr db' \<Longrightarrow> one_counter db \<Longrightarrow>
   one_counter db' \<and> db_TrafficAssignments db' = db_TrafficAssignments db \<and> db_TrafficReports db' = db_TrafficReports db"
proof (induction ds arbitrary: db)
  case (Cons d ds)
  then show ?case by (auto dest: insertRuleTraffic_frame split: sum.splits)
qed simp

lemma insertRuleTraffic_adds:
  assumes run: "insertRuleTraffic asUUID nodeID d db = Inr db'" and one: "one_counter db" and given: "assigned asUUID nodeID db (rd_RuleID d)"
  shows "counted c r db' = counted c r db + (if rd_RuleID d = r then dsel c d else 0)" "one_counter db'"
    "db_TrafficAssignments db' = db_TrafficAssignments db" "db_TrafficReports db' = db_TrafficReports db"
proof -
  have step: "(case List.find (\<lambda>k. ctr_RuleID k = rd_RuleID d) (db_TrafficCounters db) of
      None \<Rightarrow> db' = db\<lparr>db_TrafficCounters := db_TrafficCounters db @ [addCounter d (newCounter (rd_RuleID d))]\<rparr>
    | Some k \<Rightarrow> db' = db\<lparr>db_TrafficCounters :=
        map (\<lambda>k. if ctr_RuleID k = rd_RuleID d then addCounter d k else k) (db_TrafficCounters db)\<rparr>)"
    using run given by (auto simp: insertRuleTraffic_def assigned_def split: if_splits option.splits)
  show "one_counter db'" "db_TrafficAssignments db' = db_TrafficAssignments db" "db_TrafficReports db' = db_TrafficReports db"
    using insertRuleTraffic_frame [OF run one] by simp_all
  show "counted c r db' = counted c r db + (if rd_RuleID d = r then dsel c d else 0)"
  proof (cases "List.find (\<lambda>k. ctr_RuleID k = rd_RuleID d) (db_TrafficCounters db)")
    case None
    then show ?thesis using step by (auto simp: counted_eq sumCounters_def)
  next
    case (Some k)
    then have "rd_RuleID d \<in> ctr_RuleID ` set (db_TrafficCounters db)"
      using find_None_iff [of "\<lambda>k. ctr_RuleID k = rd_RuleID d" "db_TrafficCounters db"] by (force simp: image_iff)
    with step Some sum_add_one [of "db_TrafficCounters db" "rd_RuleID d" c r d] one show ?thesis
      by (simp add: counted_eq sumCounters_def one_counter_def)
  qed
qed

lemma insertAll_adds:
  assumes "fold_result (insertRuleTraffic asUUID nodeID) ds db = Inr db'" "one_counter db"
    and "\<forall>d \<in> set ds. assigned asUUID nodeID db (rd_RuleID d)"
  shows "counted c r db' = counted c r db + rule_sum c r ds \<and> one_counter db' \<and>
    db_TrafficAssignments db' = db_TrafficAssignments db \<and> db_TrafficReports db' = db_TrafficReports db"
  using assms
proof (induction ds arbitrary: db)
  case (Cons d ds)
  then obtain db1 where one: "insertRuleTraffic asUUID nodeID d db = Inr db1"
    and rest: "fold_result (insertRuleTraffic asUUID nodeID) ds db1 = Inr db'"
    by (auto split: sum.splits)
  note adds = insertRuleTraffic_adds [OF one Cons.prems(2)]
  have given: "assigned asUUID nodeID db (rd_RuleID d)" using Cons.prems(3) by simp
  have "\<forall>e \<in> set ds. assigned asUUID nodeID db1 (rd_RuleID e)"
    using Cons.prems(3) adds(3) [OF given] by (simp add: assigned_def)
  from Cons.IH [OF rest adds(2) [OF given] this] adds [OF given] show ?case by simp
qed simp

text \<open>Conversely no counter refuses its share while the totals fit a bigint.\<close>

lemma insertAll_succeeds:
  assumes "one_counter db" "\<forall>d \<in> set ds. assigned asUUID nodeID db (rd_RuleID d) \<and> delta_fits d"
    and "\<forall>c. \<forall>d \<in> set ds. counted c (rd_RuleID d) db + rule_sum c (rd_RuleID d) ds < 2 ^ 63"
  shows "\<exists>db'. fold_result (insertRuleTraffic asUUID nodeID) ds db = Inr db'"
  using assms
proof (induction ds arbitrary: db)
  case (Cons d ds)
  have given: "assigned asUUID nodeID db (rd_RuleID d)" and fits: "delta_fits d" using Cons.prems(2) by simp_all
  have nonneg: "0 \<le> rule_sum c r ds" for c r
    using Cons.prems(2) by (intro rule_sum_nonneg) (auto simp: delta_fits_def)
  have small: "counted c (rd_RuleID d) db + dsel c d < 2 ^ 63" for c
    using Cons.prems(3) [rule_format, of d c] nonneg [of c "rd_RuleID d"] by simp
  have "bigints (addCounter d k)" if "List.find (\<lambda>k. ctr_RuleID k = rd_RuleID d) (db_TrafficCounters db) = Some k" for k
    using small find_counter(1) [OF Cons.prems(1) that] by (simp add: bigints_iff)
  then obtain db1 where one: "insertRuleTraffic asUUID nodeID d db = Inr db1"
    using given negativeDelta_fits [OF fits]
    by (cases "List.find (\<lambda>k. ctr_RuleID k = rd_RuleID d) (db_TrafficCounters db)") (auto simp: insertRuleTraffic_def assigned_def)
  note adds = insertRuleTraffic_adds [OF one Cons.prems(1) given]
  have "\<forall>e \<in> set ds. assigned asUUID nodeID db1 (rd_RuleID e) \<and> delta_fits e"
    using Cons.prems(2) adds(3) by (simp add: assigned_def)
  moreover have "\<forall>c. \<forall>e \<in> set ds. counted c (rd_RuleID e) db1 + rule_sum c (rd_RuleID e) ds < 2 ^ 63"
  proof (intro allI ballI)
    fix c e assume "e \<in> set ds"
    then show "counted c (rd_RuleID e) db1 + rule_sum c (rd_RuleID e) ds < 2 ^ 63"
      using Cons.prems(3) [rule_format, of e c] adds(1) [of c "rd_RuleID e"] by (auto split: if_splits)
  qed
  ultimately show ?case using Cons.IH [OF adds(2)] one by simp
qed simp

subsection \<open>Agent, network and control plane\<close>

text \<open>The reports of a node that the control plane has recorded.\<close>

definition recorded_reports :: "string \<Rightarrow> 'z control_db_scheme \<Rightarrow> string set" where
  "recorded_reports nodeID db = {i. (nodeID, i) \<in> set (db_TrafficReports db)}"

text \<open>
  A node agent and the control plane. The agent queues deltas for rules of a configuration it was given, sends reports and
  is restarted; any report that was sent may arrive, more than once and in any order, or never; the answer may come back as
  often, or never; other transactions (also other agents reporting for the same rules) write the tables in between. \<open>queued\<close>
  adds up what the agent handed to the spool, \<open>sent\<close> lists the reports that went out, \<open>acks\<close> are the ids the control plane
  has acknowledged, and \<open>foreign\<close> is the share of the counters that others have written.
\<close>

inductive delivery :: "(string \<Rightarrow> string option) \<Rightarrow> string \<Rightarrow> spool \<Rightarrow> (component \<Rightarrow> string \<Rightarrow> int) \<Rightarrow>
    (string \<times> RuleTrafficDelta list) list \<Rightarrow> string set \<Rightarrow> (component \<Rightarrow> string \<Rightarrow> int) \<Rightarrow> 'z control_db_scheme \<Rightarrow> bool"
  for asUUID nodeID where
  start: "recorded_reports nodeID db = {} \<Longrightarrow> one_counter db \<Longrightarrow>
    delivery asUUID nodeID (newSpool cred) (\<lambda>c r. 0) [] {} (\<lambda>c r. counted c r db) db"
| queue: "delivery asUUID nodeID s queued sent acks foreign db \<Longrightarrow> \<forall>d \<in> set ds. \<forall>c. dsel c d < 2 ^ 63 \<Longrightarrow>
    (\<And>c r. queued c r + rule_sum c r (map cleanDelta ds) < 2 ^ 63) \<Longrightarrow>
    \<forall>d \<in> set ds. TrimSpace (rd_RuleID d) \<noteq> [] \<longrightarrow> assigned asUUID nodeID db (TrimSpace (rd_RuleID d)) \<Longrightarrow>
    delivery asUUID nodeID (queueTrafficDeltas io ds s) (\<lambda>c r. queued c r + rule_sum c r (map cleanDelta ds)) sent acks foreign db"
| attach: "delivery asUUID nodeID s queued sent acks foreign db \<Longrightarrow> newID \<noteq> [] \<Longrightarrow> trimmed newID \<Longrightarrow> newID \<notin> fst ` set sent \<Longrightarrow>
    attachTrafficReport io newID metrics s = (metrics', s') \<Longrightarrow>
    delivery asUUID nodeID s' queued
      (if sp_inFlight s' = [] then sent else sent @ [(mp_TrafficReportID metrics', mp_TrafficDeltas metrics')]) acks foreign db"
| receive: "delivery asUUID nodeID s queued sent acks foreign db \<Longrightarrow> (mp_TrafficReportID m, mp_TrafficDeltas m) \<in> set sent \<Longrightarrow>
    handleMetrics asUUID current ''NODE'' nodeID m db = (reply, db') \<Longrightarrow>
    delivery asUUID nodeID s queued sent (case reply of MetricsAck i \<Rightarrow> insert i acks | _ \<Rightarrow> acks) foreign db'"
| acknowledge: "delivery asUUID nodeID s queued sent acks foreign db \<Longrightarrow> i \<in> acks \<Longrightarrow>
    delivery asUUID nodeID (acknowledgeTrafficReport io i s) queued sent acks foreign db"
| crash: "delivery asUUID nodeID s queued sent acks foreign db \<Longrightarrow> written s \<Longrightarrow>
    delivery asUUID nodeID (restart s) queued sent acks foreign db"
| elsewhere: "delivery asUUID nodeID s queued sent acks foreign db \<Longrightarrow> recorded_reports nodeID db' = recorded_reports nodeID db \<Longrightarrow> one_counter db' \<Longrightarrow>
    set (db_TrafficAssignments db) \<subseteq> set (db_TrafficAssignments db') \<Longrightarrow>
    delivery asUUID nodeID s queued sent acks (\<lambda>c r. foreign c r + (counted c r db' - counted c r db)) db'"

text \<open>The report of another node is such a transaction.\<close>

lemma other_report_elsewhere:
  assumes "RecordNodeTrafficReport asUUID other i ds db = Inr (b, db')" "other \<noteq> nodeID" "one_counter db"
  shows "recorded_reports nodeID db' = recorded_reports nodeID db" "one_counter db'" "set (db_TrafficAssignments db) \<subseteq> set (db_TrafficAssignments db')"
proof -
  have "recorded_reports nodeID db' = recorded_reports nodeID db \<and> one_counter db' \<and> db_TrafficAssignments db' = db_TrafficAssignments db"
    using assms by (auto simp: RecordNodeTrafficReport_def RecordRuleTrafficReport_def recorded_reports_def one_counter_def Let_def
      split: if_splits dest!: insertAll_frame)
  then show "recorded_reports nodeID db' = recorded_reports nodeID db" "one_counter db'" "set (db_TrafficAssignments db) \<subseteq> set (db_TrafficAssignments db')"
    by simp_all
qed

text \<open>So is sending a configuration; it records the rules of the snapshot as assigned before the agent can count for them.\<close>

lemma compile_elsewhere:
  assumes "CompileNodeAgentConfigForAgentProtocol digest k pv pk db = Inr (snapshot, db')" "one_counter db"
  shows "recorded_reports nodeID db' = recorded_reports nodeID db" "one_counter db'" "set (db_TrafficAssignments db) \<subseteq> set (db_TrafficAssignments db')"
    and "ru \<in> set (cs_Rules snapshot) \<Longrightarrow> TrimSpace (rc_ID ru) \<noteq> [] \<Longrightarrow> (k, TrimSpace (rc_ID ru)) \<in> set (db_TrafficAssignments db')"
proof -
  obtain db1 where db': "db' = RecordNodeRuleTrafficAssignments k (map rc_ID (cs_Rules snapshot)) db1"
    and same: "db_TrafficReports db1 = db_TrafficReports db" "db_TrafficCounters db1 = db_TrafficCounters db"
      "db_TrafficAssignments db1 = db_TrafficAssignments db"
  proof -
    obtain n c where "db' = RecordNodeRuleTrafficAssignments k (map rc_ID (cs_Rules snapshot))
      (if sentVersion db n c > nd_DesiredConfigVersion n then EnsureDesiredConfigVersionAtLeast k (sentVersion db n c) db else db)"
      using assms(1) by (auto simp: CompileNodeAgentConfigForAgentProtocol_def Let_def)
    then show ?thesis by (rule that) (simp_all add: EnsureDesiredConfigVersionAtLeast_def)
  qed
  show "recorded_reports nodeID db' = recorded_reports nodeID db" "one_counter db'" "set (db_TrafficAssignments db) \<subseteq> set (db_TrafficAssignments db')"
    "ru \<in> set (cs_Rules snapshot) \<Longrightarrow> TrimSpace (rc_ID ru) \<noteq> [] \<Longrightarrow> (k, TrimSpace (rc_ID ru)) \<in> set (db_TrafficAssignments db')"
    using assms(2) same by (auto simp: db' RecordNodeRuleTrafficAssignments_def recorded_reports_def one_counter_def set_uniq)
qed

text \<open>The invariant: the counters hold the share of others, what was acknowledged, and the report in flight once it is
  recorded; every other report that went out is recorded.\<close>

definition delivery_inv :: "(string \<Rightarrow> string option) \<Rightarrow> string \<Rightarrow> spool \<Rightarrow> (component \<Rightarrow> string \<Rightarrow> int) \<Rightarrow>
    (string \<times> RuleTrafficDelta list) list \<Rightarrow> string set \<Rightarrow> (component \<Rightarrow> string \<Rightarrow> int) \<Rightarrow> 'z control_db_scheme \<Rightarrow>
    (component \<Rightarrow> string \<Rightarrow> int) \<Rightarrow> bool" where
  "delivery_inv asUUID nodeID s queued sent acks foreign db acked \<longleftrightarrow>
     (let t = loadTrafficSpoolLocked s in
      spool_run s queued acked sent \<and>
      (\<forall>c r. r \<noteq> [] \<longrightarrow> counted c r db =
         foreign c r + acked c r + (if sp_inFlightID t \<in> recorded_reports nodeID db then rule_sum c r (sp_inFlight t) else 0)) \<and>
      acks \<subseteq> recorded_reports nodeID db \<and> recorded_reports nodeID db \<subseteq> fst ` set sent \<and>
      (\<forall>i \<in> fst ` set sent. i \<noteq> [] \<and> trimmed i \<and> (i \<in> recorded_reports nodeID db \<or> i = sp_inFlightID t)) \<and>
      (\<forall>d \<in> set (sp_pending t @ sp_inFlight t). assigned asUUID nodeID db (rd_RuleID d)) \<and> one_counter db)"

lemma delivery_invI:
  assumes "spool_run s queued acked sent"
    and "\<And>c r. r \<noteq> [] \<Longrightarrow> counted c r db = foreign c r + acked c r +
      (if sp_inFlightID (loadTrafficSpoolLocked s) \<in> recorded_reports nodeID db then rule_sum c r (sp_inFlight (loadTrafficSpoolLocked s)) else 0)"
    and "acks \<subseteq> recorded_reports nodeID db" "recorded_reports nodeID db \<subseteq> fst ` set sent"
    and "\<And>i. i \<in> fst ` set sent \<Longrightarrow> i \<noteq> [] \<and> trimmed i \<and> (i \<in> recorded_reports nodeID db \<or> i = sp_inFlightID (loadTrafficSpoolLocked s))"
    and "\<And>d. d \<in> set (sp_pending (loadTrafficSpoolLocked s) @ sp_inFlight (loadTrafficSpoolLocked s)) \<Longrightarrow> assigned asUUID nodeID db (rd_RuleID d)"
    and "one_counter db"
  shows "delivery_inv asUUID nodeID s queued sent acks foreign db acked"
  using assms by (simp add: delivery_inv_def Let_def)

lemma delivery_invD:
  assumes "delivery_inv asUUID nodeID s queued sent acks foreign db acked"
  shows "spool_run s queued acked sent"
    and "r \<noteq> [] \<Longrightarrow> counted c r db = foreign c r + acked c r +
      (if sp_inFlightID (loadTrafficSpoolLocked s) \<in> recorded_reports nodeID db then rule_sum c r (sp_inFlight (loadTrafficSpoolLocked s)) else 0)"
    and "acks \<subseteq> recorded_reports nodeID db" "recorded_reports nodeID db \<subseteq> fst ` set sent"
    and "i \<in> fst ` set sent \<Longrightarrow> i \<noteq> [] \<and> trimmed i \<and> (i \<in> recorded_reports nodeID db \<or> i = sp_inFlightID (loadTrafficSpoolLocked s))"
    and "d \<in> set (sp_pending (loadTrafficSpoolLocked s) @ sp_inFlight (loadTrafficSpoolLocked s)) \<Longrightarrow> assigned asUUID nodeID db (rd_RuleID d)"
    and "one_counter db"
  using assms unfolding delivery_inv_def Let_def by blast+

lemma merge_ids: "rd_RuleID ` set (mergeTrafficDeltas ds) \<subseteq> {r \<in> rd_RuleID ` set (map cleanDelta ds). r \<noteq> []}"
proof -
  have "rd_RuleID ` set (fold mergeStep es acc) \<subseteq> rd_RuleID ` set acc \<union> rd_RuleID ` set es" for es acc
  proof (induction es arbitrary: acc)
    case (Cons e es)
    have "rd_RuleID ` set (mergeStep e acc) \<subseteq> insert (rd_RuleID e) (rd_RuleID ` set acc)"
      using addByRule_ids [of e acc] by (auto simp: mergeStep_def)
    with Cons.IH [of "mergeStep e acc"] have "rd_RuleID ` set (fold mergeStep es (mergeStep e acc)) \<subseteq>
        insert (rd_RuleID e) (rd_RuleID ` set acc) \<union> rd_RuleID ` set es" by blast
    then show ?case by auto
  qed simp
  from this [of "map cleanDelta ds" "[]"] show ?thesis
    using spool_merge.merge_form [of ds] by (auto simp: mergeTrafficDeltas_def mergeAll_def merged_form_def)
qed

lemma spool_run_ok: "spool_run s queued acked sent \<Longrightarrow> spool_ok s"
  by (drule spool_run_inv) (simp add: spool_inv_def)

lemma queue_memory:
  fixes s ds io
  defines "t \<equiv> loadTrafficSpoolLocked s" and "u \<equiv> loadTrafficSpoolLocked (queueTrafficDeltas io ds s)"
  shows "sp_inFlightID u = sp_inFlightID t" "sp_inFlight u = sp_inFlight t"
    "sp_pending u = sp_pending t \<or> sp_pending u = mergeTrafficDeltas (sp_pending t @ mergeTrafficDeltas ds)"
  by (simp_all add: assms queueTrafficDeltas_def Let_def)

lemma attach_memory:
  assumes "attachTrafficReport io newID m s = (m', s')" "newID \<noteq> []"
  defines "t \<equiv> loadTrafficSpoolLocked s"
  shows "loadTrafficSpoolLocked s' = s'"
    "sp_inFlightID t = [] \<and> sp_pending t \<noteq> [] \<and> sp_inFlightID s' = newID \<and> sp_inFlight s' = sp_pending t \<and> sp_pending s' = [] \<or>
     sp_inFlightID s' = sp_inFlightID t \<and> sp_inFlight s' = sp_inFlight t \<and> sp_pending s' = sp_pending t"
    "sp_inFlightID s' \<noteq> [] \<Longrightarrow> sp_inFlight s' \<noteq> [] \<Longrightarrow> mp_TrafficReportID m' = sp_inFlightID s'"
  using assms by (auto simp: attachTrafficReport_def Let_def split: if_splits)

lemma ack_memory:
  fixes s io i
  defines "t \<equiv> loadTrafficSpoolLocked s" and "u \<equiv> loadTrafficSpoolLocked (acknowledgeTrafficReport io i s)"
  assumes "trimmed i" "i \<noteq> []"
  shows "sp_pending u = sp_pending t" "sp_inFlightID u = (if i = sp_inFlightID t then [] else sp_inFlightID t)"
    "sp_inFlight u = (if i = sp_inFlightID t then [] else sp_inFlight t)"
  using assms by (simp_all add: acknowledgeTrafficReport_def Let_def trimmed_iff)

lemma handleMetrics_cases:
  assumes "handleMetrics asUUID current ty nodeID m db = (reply, db')" "trimmed (mp_TrafficReportID m)"
  obtains "db' = db" "\<And>i. reply \<noteq> MetricsAck i"
  | "reply = MetricsAck (mp_TrafficReportID m)" "mp_TrafficReportID m \<in> recorded_reports nodeID db" "db' = db"
  | "reply = MetricsAck (mp_TrafficReportID m)" "mp_TrafficReportID m \<notin> recorded_reports nodeID db"
    "fold_result (insertRuleTraffic asUUID nodeID) (mergeRuleTrafficDeltas (mp_TrafficDeltas m))
      (db\<lparr>db_TrafficReports := db_TrafficReports db @ [(nodeID, mp_TrafficReportID m)]\<rparr>) = Inr db'"
proof (cases "RecordNodeTrafficReport asUUID nodeID (mp_TrafficReportID m) (mp_TrafficDeltas m) db")
  case (Inl e)
  then show ?thesis using assms(1) by (intro that(1)) (auto simp: handleMetrics_def split: if_splits)
next
  case (Inr p)
  obtain b db1 where p: "p = (b, db1)" by (cases p)
  show ?thesis
  proof (cases "reply = MetricsAck (mp_TrafficReportID m)")
    case False
    then show ?thesis using assms(1) Inr p by (intro that(1)) (auto simp: handleMetrics_def split: if_splits)
  next
    case True
    then have ne: "mp_TrafficReportID m \<noteq> []" "mp_TrafficDeltas m \<noteq> []" "db1 = db'"
      using assms(1) Inr p by (auto simp: handleMetrics_def split: if_splits)
    show ?thesis
    proof (cases "mp_TrafficReportID m \<in> recorded_reports nodeID db")
      case rec: True
      then have "db' = db" using Inr p ne assms(2)
        by (auto simp: RecordNodeTrafficReport_def RecordRuleTrafficReport_def recorded_reports_def trimmed_iff split: if_splits)
      then show ?thesis using that(2) True rec by blast
    next
      case new: False
      then have "fold_result (insertRuleTraffic asUUID nodeID) (mergeRuleTrafficDeltas (mp_TrafficDeltas m))
          (db\<lparr>db_TrafficReports := db_TrafficReports db @ [(nodeID, mp_TrafficReportID m)]\<rparr>) = Inr db'" using Inr p ne assms(2)
        by (auto simp: RecordNodeTrafficReport_def RecordRuleTrafficReport_def recorded_reports_def trimmed_iff split: if_splits)
      then show ?thesis using that(3) True new by blast
    qed
  qed
qed

lemma inv_queue:
  assumes inv: "delivery_inv asUUID nodeID s queued sent acks foreign db acked"
    and ds: "\<forall>d \<in> set ds. \<forall>c. dsel c d < 2 ^ 63" "\<And>c r. queued c r + rule_sum c r (map cleanDelta ds) < 2 ^ 63"
    and given: "\<forall>d \<in> set ds. TrimSpace (rd_RuleID d) \<noteq> [] \<longrightarrow> assigned asUUID nodeID db (TrimSpace (rd_RuleID d))"
  shows "delivery_inv asUUID nodeID (queueTrafficDeltas io ds s) (\<lambda>c r. queued c r + rule_sum c r (map cleanDelta ds)) sent acks foreign db acked"
proof -
  let ?t = "loadTrafficSpoolLocked s" and ?u = "loadTrafficSpoolLocked (queueTrafficDeltas io ds s)"
  have run: "spool_run s queued acked sent" and mem: "\<forall>d \<in> set (sp_pending ?t @ sp_inFlight ?t). assigned asUUID nodeID db (rd_RuleID d)"
    using inv by (simp_all add: delivery_inv_def Let_def)
  have tidy: "tidy (sp_pending ?t)" using spool_run_ok [OF run] by (simp add: spool_ok_def Let_def)
  have new: "assigned asUUID nodeID db r" if "r \<in> rd_RuleID ` set (mergeTrafficDeltas ds)" for r
    using merge_ids [of ds] that given by (auto simp: cleanDelta_def)
  have "assigned asUUID nodeID db (rd_RuleID d)" if "d \<in> set (mergeTrafficDeltas (sp_pending ?t @ mergeTrafficDeltas ds))" for d
  proof -
    have "rd_RuleID d \<in> rd_RuleID ` set (sp_pending ?t @ map cleanDelta (mergeTrafficDeltas ds))"
      using merge_ids [of "sp_pending ?t @ mergeTrafficDeltas ds"] that unfolding map_append tidy_clean [OF tidy] by auto
    moreover have "rd_RuleID (cleanDelta e) = rd_RuleID e" if "e \<in> set (mergeTrafficDeltas ds)" for e
      using that merge_ids [of ds] by (force simp: cleanDelta_def)
    ultimately show ?thesis using mem new by auto
  qed
  then have "\<forall>d \<in> set (sp_pending ?u @ sp_inFlight ?u). assigned asUUID nodeID db (rd_RuleID d)"
    using queue_memory(2,3) [where s = s and ds = ds and io = io] mem by auto
  with inv spool_run.queue [OF run ds, of io] queue_memory(1,2) [where s = s and ds = ds and io = io] show ?thesis
    unfolding delivery_inv_def Let_def by simp
qed

lemma inv_attach:
  assumes inv: "delivery_inv asUUID nodeID s queued sent acks foreign db acked"
    and new: "newID \<noteq> []" "trimmed newID" "newID \<notin> fst ` set sent" and att: "attachTrafficReport io newID m s = (m', s')"
  shows "delivery_inv asUUID nodeID s' queued
      (if sp_inFlight s' = [] then sent else sent @ [(mp_TrafficReportID m', mp_TrafficDeltas m')]) acks foreign db acked"
proof -
  let ?t = "loadTrafficSpoolLocked s" and ?sent = "if sp_inFlight s' = [] then sent else sent @ [(mp_TrafficReportID m', mp_TrafficDeltas m')]"
  note mem = attach_memory [OF att new(1)]
  have run: "spool_run s queued acked sent" and rec: "recorded_reports nodeID db \<subseteq> fst ` set sent"
    and ids: "\<forall>i \<in> fst ` set sent. i \<noteq> [] \<and> trimmed i \<and> (i \<in> recorded_reports nodeID db \<or> i = sp_inFlightID ?t)"
    using inv by (simp_all add: delivery_inv_def Let_def)
  have run': "spool_run s' queued acked ?sent" by (rule spool_run.attach [OF run new att])
  have okt: "sp_inFlightID ?t = [] \<longleftrightarrow> sp_inFlight ?t = []" "trimmed (sp_inFlightID ?t)"
    using spool_run_ok [OF run] by (simp_all add: spool_ok_def Let_def)
  have oks: "sp_inFlightID s' = [] \<longleftrightarrow> sp_inFlight s' = []"
    using spool_run_ok [OF run'] unfolding spool_ok_def mem(1) Let_def by blast
  have fresh: "newID \<notin> recorded_reports nodeID db" "[] \<notin> recorded_reports nodeID db" using rec new(3) ids by blast+
  have id': "mp_TrafficReportID m' = sp_inFlightID s'" if "sp_inFlight s' \<noteq> []" using mem(3) oks that by blast
  have ids': "\<forall>i \<in> fst ` set ?sent. i \<noteq> [] \<and> trimmed i \<and> (i \<in> recorded_reports nodeID db \<or> i = sp_inFlightID s')"
    using mem(2) ids id' oks new okt by auto
  have same: "(if sp_inFlightID s' \<in> recorded_reports nodeID db then rule_sum c r (sp_inFlight s') else 0) =
      (if sp_inFlightID ?t \<in> recorded_reports nodeID db then rule_sum c r (sp_inFlight ?t) else 0)" for c r
    using mem(2) fresh by auto
  show ?thesis
  proof (rule delivery_invI)
    show "spool_run s' queued acked ?sent" by (rule run')
    show "counted c r db = foreign c r + acked c r + (if sp_inFlightID (loadTrafficSpoolLocked s') \<in> recorded_reports nodeID db
        then rule_sum c r (sp_inFlight (loadTrafficSpoolLocked s')) else 0)" if "r \<noteq> []" for c r
      unfolding mem(1) same by (rule delivery_invD(2) [OF inv that])
    show "acks \<subseteq> recorded_reports nodeID db" "one_counter db" by (rule delivery_invD [OF inv])+
    show "recorded_reports nodeID db \<subseteq> fst ` set ?sent" using rec by auto
    show "i \<noteq> [] \<and> trimmed i \<and> (i \<in> recorded_reports nodeID db \<or> i = sp_inFlightID (loadTrafficSpoolLocked s'))" if "i \<in> fst ` set ?sent" for i
      unfolding mem(1) using ids' that by blast
    have "set (sp_pending s' @ sp_inFlight s') = set (sp_pending ?t @ sp_inFlight ?t)" using mem(2) okt(1) by auto
    then show "assigned asUUID nodeID db (rd_RuleID d)"
      if "d \<in> set (sp_pending (loadTrafficSpoolLocked s') @ sp_inFlight (loadTrafficSpoolLocked s'))" for d
      using that unfolding mem(1) by (auto intro: delivery_invD(6) [OF inv])
  qed
qed

text \<open>The report that is not recorded yet is the one in flight, with the deltas in flight.\<close>

lemma unrecorded_in_flight:
  assumes inv: "delivery_inv asUUID nodeID s queued sent acks foreign db acked" and m: "(i, ds) \<in> set sent" "i \<notin> recorded_reports nodeID db"
  shows "i = sp_inFlightID (loadTrafficSpoolLocked s)" "ds = sp_inFlight (loadTrafficSpoolLocked s)" "tidy ds"
    "\<forall>d \<in> set ds. assigned asUUID nodeID db (rd_RuleID d)"
proof -
  note run = delivery_invD(1) [OF inv]
  show i: "i = sp_inFlightID (loadTrafficSpoolLocked s)" using delivery_invD(5) [OF inv, of i] m by force
  show ds: "ds = sp_inFlight (loadTrafficSpoolLocked s)" using spool_run_inv [OF run] m(1) i unfolding spool_inv_def by blast
  show "tidy ds" using spool_run_ok [OF run] unfolding ds spool_ok_def Let_def by blast
  show "\<forall>d \<in> set ds. assigned asUUID nodeID db (rd_RuleID d)" using delivery_invD(6) [OF inv] unfolding ds by simp
qed

lemma inv_receive:
  assumes inv: "delivery_inv asUUID nodeID s queued sent acks foreign db acked"
    and m: "(mp_TrafficReportID m, mp_TrafficDeltas m) \<in> set sent"
    and run: "handleMetrics asUUID current ty nodeID m db = (reply, db')"
  shows "delivery_inv asUUID nodeID s queued sent (case reply of MetricsAck i \<Rightarrow> insert i acks | _ \<Rightarrow> acks) foreign db' acked"
proof -
  let ?i = "mp_TrafficReportID m" and ?t = "loadTrafficSpoolLocked s"
  have "trimmed ?i" using delivery_invD(5) [OF inv, of ?i] m by force
  with run show ?thesis
  proof (cases rule: handleMetrics_cases)
    case 1
    then show ?thesis using inv by (cases reply) auto
  next
    case 2
    then show ?thesis using inv by (auto simp: delivery_inv_def Let_def)
  next
    case 3
    let ?db = "db\<lparr>db_TrafficReports := db_TrafficReports db @ [(nodeID, ?i)]\<rparr>"
    note fl = unrecorded_in_flight [OF inv m 3(2)]
    have one: "one_counter ?db" using inv by (simp add: delivery_inv_def one_counter_def Let_def)
    have given: "\<forall>d \<in> set (mp_TrafficDeltas m). assigned asUUID nodeID ?db (rd_RuleID d)" using fl(4) by (simp add: assigned_def)
    have adds: "counted c r db' = counted c r db + rule_sum c r (mp_TrafficDeltas m)" "one_counter db'"
      "db_TrafficAssignments db' = db_TrafficAssignments db" "recorded_reports nodeID db' = insert ?i (recorded_reports nodeID db)" for c r
      using insertAll_adds [OF 3(3) one, of c r] given mergeRuleTrafficDeltas_tidy [OF fl(3)]
      by (auto simp: counted_eq sumCounters_def recorded_reports_def)
    have sent: "?i \<in> fst ` set sent" using m by force
    show ?thesis
    proof (rule delivery_invI)
      show "spool_run s queued acked sent" by (rule delivery_invD(1) [OF inv])
      show "counted c r db' = foreign c r + acked c r + (if sp_inFlightID ?t \<in> recorded_reports nodeID db'
          then rule_sum c r (sp_inFlight ?t) else 0)" if "r \<noteq> []" for c r
        using delivery_invD(2) [OF inv that, of c] adds(1) [of c r] adds(4) 3(2) fl(1,2) by simp
      show "(case reply of MetricsAck i \<Rightarrow> insert i acks | _ \<Rightarrow> acks) \<subseteq> recorded_reports nodeID db'"
        using delivery_invD(3) [OF inv] 3(1) adds(4) by auto
      show "recorded_reports nodeID db' \<subseteq> fst ` set sent" using delivery_invD(4) [OF inv] sent adds(4) by auto
      show "i \<noteq> [] \<and> trimmed i \<and> (i \<in> recorded_reports nodeID db' \<or> i = sp_inFlightID ?t)" if "i \<in> fst ` set sent" for i
        using delivery_invD(5) [OF inv that] adds(4) by blast
      show "assigned asUUID nodeID db' (rd_RuleID d)" if "d \<in> set (sp_pending ?t @ sp_inFlight ?t)" for d
        using delivery_invD(6) [OF inv that] adds(3) by (simp add: assigned_def)
      show "one_counter db'" by (rule adds(2))
    qed
  qed
qed

lemma inv_acknowledge:
  assumes inv: "delivery_inv asUUID nodeID s queued sent acks foreign db acked" and i: "i \<in> acks"
  shows "\<exists>acked. delivery_inv asUUID nodeID (acknowledgeTrafficReport io i s) queued sent acks foreign db acked"
proof -
  let ?t = "loadTrafficSpoolLocked s"
  let ?acked = "\<lambda>c r. acked c r + (let t = ?t in
         if TrimSpace i \<noteq> [] \<and> TrimSpace i = sp_inFlightID t then rule_sum c r (sp_inFlight t) else 0)"
  have rec: "i \<in> recorded_reports nodeID db" "i \<noteq> []" "trimmed i" "[] \<notin> recorded_reports nodeID db"
    using delivery_invD(3,4) [OF inv] delivery_invD(5) [OF inv] i by blast+
  have run': "spool_run (acknowledgeTrafficReport io i s) queued ?acked sent" by (rule spool_run.ack [OF delivery_invD(1) [OF inv]])
  note mem = ack_memory [OF rec(3,2), of io s]
  have "delivery_inv asUUID nodeID (acknowledgeTrafficReport io i s) queued sent acks foreign db ?acked"
  proof (rule delivery_invI)
    show "counted c r db = foreign c r + ?acked c r + (if sp_inFlightID (loadTrafficSpoolLocked (acknowledgeTrafficReport io i s)) \<in> recorded_reports nodeID db
        then rule_sum c r (sp_inFlight (loadTrafficSpoolLocked (acknowledgeTrafficReport io i s))) else 0)" if "r \<noteq> []" for c r
      unfolding mem using delivery_invD(2) [OF inv that, of c] rec by (auto simp: trimmed_iff)
    show "j \<noteq> [] \<and> trimmed j \<and> (j \<in> recorded_reports nodeID db \<or> j = sp_inFlightID (loadTrafficSpoolLocked (acknowledgeTrafficReport io i s)))"
      if "j \<in> fst ` set sent" for j
      unfolding mem using delivery_invD(5) [OF inv that] rec(1) by auto
    show "assigned asUUID nodeID db (rd_RuleID d)" if "d \<in> set (sp_pending (loadTrafficSpoolLocked (acknowledgeTrafficReport io i s)) @
        sp_inFlight (loadTrafficSpoolLocked (acknowledgeTrafficReport io i s)))" for d
      using that delivery_invD(6) [OF inv, of d] unfolding mem by (auto split: if_splits)
  qed (rule run' delivery_invD [OF inv])+
  then show ?thesis by blast
qed

lemma inv_crash:
  assumes inv: "delivery_inv asUUID nodeID s queued sent acks foreign db acked" and w: "written s"
  shows "delivery_inv asUUID nodeID (restart s) queued sent acks foreign db acked"
proof -
  have run: "spool_run s queued acked sent" using inv by (simp add: delivery_inv_def Let_def)
  show ?thesis using inv spool_run.crash [OF run w] unfolding delivery_inv_def Let_def load_restart [OF spool_run_ok [OF run] w] by blast
qed

lemma inv_elsewhere:
  assumes "delivery_inv asUUID nodeID s queued sent acks foreign db acked" "recorded_reports nodeID db' = recorded_reports nodeID db" "one_counter db'"
    and "set (db_TrafficAssignments db) \<subseteq> set (db_TrafficAssignments db')"
  shows "delivery_inv asUUID nodeID s queued sent acks (\<lambda>c r. foreign c r + (counted c r db' - counted c r db)) db' acked"
  using assms unfolding delivery_inv_def Let_def by (auto simp: assigned_def)

lemma inv_start:
  "recorded_reports nodeID db = {} \<Longrightarrow> one_counter db \<Longrightarrow>
   delivery_inv asUUID nodeID (newSpool cred) (\<lambda>c r. 0) [] {} (\<lambda>c r. counted c r db) db (\<lambda>c r. 0)"
proof -
  have "loadTrafficSpoolLocked (newSpool cred) = newSpool cred\<lparr>sp_loaded := True\<rparr>"
    by (simp add: loadTrafficSpoolLocked_def newSpool_def Let_def)
  then show "recorded_reports nodeID db = {} \<Longrightarrow> one_counter db \<Longrightarrow> ?thesis"
    using spool_run.start by (simp add: delivery_inv_def newSpool_def Let_def)
qed

lemma delivery_has_inv:
  "delivery asUUID nodeID s queued sent acks foreign db \<Longrightarrow> \<exists>acked. delivery_inv asUUID nodeID s queued sent acks foreign db acked"
proof (induction rule: delivery.induct)
  case (acknowledge s queued sent acks foreign db i io)
  then show ?case using inv_acknowledge by blast
qed (blast intro: inv_start inv_queue inv_attach inv_receive inv_crash inv_elsewhere)+

lemma sent_nonempty: "delivery asUUID nodeID s queued sent acks foreign db \<Longrightarrow> (i, ds) \<in> set sent \<Longrightarrow> ds \<noteq> []"
proof (induction arbitrary: i ds rule: delivery.induct)
  case (attach s queued sent acks foreign db newID io metrics metrics' s')
  from delivery_has_inv [OF delivery.attach [OF attach(1-5)]] obtain acked sent' where run: "spool_run s' queued acked sent'"
    by (auto dest: delivery_invD(1))
  have "sp_inFlightID s' = [] \<longleftrightarrow> sp_inFlight s' = []"
    using spool_run_ok [OF run] unfolding spool_ok_def Let_def attach_memory(1) [OF attach(5,2)] by blast
  then have "sp_inFlight s' \<noteq> [] \<Longrightarrow> mp_TrafficDeltas metrics' = sp_inFlight s'"
    using attach(5) by (auto simp: attachTrafficReport_def Let_def split: if_splits)
  then show ?case using attach.prems attach.IH by (auto split: if_splits)
qed auto


text \<open>
  C24: no report is stuck. As long as the node exists and the totals fit the counters, the control plane accepts and
  acknowledges every report that was sent, the first time and every time it arrives again.
\<close>

theorem traffic_report_accepted:
  assumes del: "delivery asUUID nodeID s queued sent acks foreign db" and m: "(mp_TrafficReportID m, mp_TrafficDeltas m) \<in> set sent"
    and node: "FindNodeByID db nodeID = Inr n" and small: "\<forall>c r. foreign c r + queued c r < 2 ^ 63"
  shows "fst (handleMetrics asUUID True ''NODE'' nodeID m db) = MetricsAck (mp_TrafficReportID m)"
proof -
  let ?i = "mp_TrafficReportID m" and ?ds = "mp_TrafficDeltas m" and ?t = "loadTrafficSpoolLocked s"
  let ?db = "db\<lparr>db_TrafficReports := db_TrafficReports db @ [(nodeID, ?i)]\<rparr>"
  obtain acked where inv: "delivery_inv asUUID nodeID s queued sent acks foreign db acked"
    using delivery_has_inv [OF del] by blast
  have i: "?i \<noteq> []" "TrimSpace ?i = ?i" using delivery_invD(5) [OF inv, of ?i] m by (force simp: trimmed_iff)+
  have "\<exists>db'. fold_result (insertRuleTraffic asUUID nodeID) (mergeRuleTrafficDeltas ?ds) ?db = Inr db'" if new: "?i \<notin> recorded_reports nodeID db"
  proof -
    note fl = unrecorded_in_flight [OF inv m new]
    have "counted c (rd_RuleID d) ?db + rule_sum c (rd_RuleID d) ?ds < 2 ^ 63" if d: "d \<in> set ?ds" for c d
    proof -
      have r: "rd_RuleID d \<noteq> []" using fl(3) d by (auto simp: tidy_def merged_form_def)
      have "held c (rd_RuleID d) s + acked c (rd_RuleID d) = queued c (rd_RuleID d)"
        using spool_run_inv [OF delivery_invD(1) [OF inv]] r unfolding spool_inv_def by blast
      moreover have "0 \<le> rule_sum c (rd_RuleID d) (sp_pending ?t)"
        using spool_run_ok [OF delivery_invD(1) [OF inv]] by (intro tidy_sum_nonneg) (simp add: spool_ok_def Let_def)
      ultimately show ?thesis
        using delivery_invD(2) [OF inv r, of c] new fl(1,2) small [rule_format, of c "rd_RuleID d"]
        by (simp add: held_def Let_def counted_eq sumCounters_def)
    qed
    then have "\<exists>db'. fold_result (insertRuleTraffic asUUID nodeID) ?ds ?db = Inr db'"
      using delivery_invD(7) [OF inv] fl(3,4)
      by (intro insertAll_succeeds) (auto simp: one_counter_def assigned_def tidy_def)
    then show ?thesis by (simp add: mergeRuleTrafficDeltas_tidy [OF fl(3)])
  qed
  then show ?thesis using i node sent_nonempty [OF del m]
    by (cases "?i \<in> recorded_reports nodeID db")
      (auto simp: handleMetrics_def RecordNodeTrafficReport_def RecordRuleTrafficReport_def Let_def recorded_reports_def)
qed

subsection \<open>A run\<close>

definition example_store :: control_db where
  "example_store = \<lparr>db_Nodes = [shapeCheckNode\<lparr>nd_ID := ''n''\<rparr>], db_NodeGroups = [], db_Targets = [], db_TargetGroups = [], db_Rules = [],
     db_Deployments = [], db_Quotas = [], db_DefaultRuleLimit = 10, db_TrafficAssignments = [(''n'', ''r1'')], db_TrafficReports = [],
     db_TrafficCounters = [\<lparr>ctr_RuleID = ''r1'', ctr_UploadBytes = 100, ctr_DownloadBytes = 0, ctr_TCPConnections = 0, ctr_UDPPackets = 0\<rparr>],
     db_RegistrationTokens = [], db_Credentials = [], db_EnrollmentProfiles = [], db_EnrollmentEvents = [], db_MonitorGroups = [],
     db_Monitors = [], db_HealthChecks = [], db_Audit = []\<rparr>"

definition example_message :: MetricsPayload where
  "example_message = zero_metrics\<lparr>mp_TrafficReportID := ''i1'', mp_TrafficDeltas := [example_delta]\<rparr>"

definition example_received :: control_db where
  "example_received = example_store\<lparr>db_TrafficReports := [(''n'', ''i1'')],
     db_TrafficCounters := [\<lparr>ctr_RuleID = ''r1'', ctr_UploadBytes = 107, ctr_DownloadBytes = 3, ctr_TCPConnections = 1, ctr_UDPPackets = 0\<rparr>]\<rparr>"

lemma example_handled:
  "handleMetrics Some True ''NODE'' ''n'' example_message example_store = (MetricsAck ''i1'', example_received)"
  "handleMetrics Some True ''NODE'' ''n'' example_message example_received = (MetricsAck ''i1'', example_received)"
  by code_simp+

abbreviation example_queued :: "component \<Rightarrow> string \<Rightarrow> int" where
  "example_queued \<equiv> \<lambda>c r. 0 + rule_sum c r (map cleanDelta [example_delta])"

lemma example_sent:
  "delivery Some ''n'' example_spool example_queued [(''i1'', [example_delta])] {} (\<lambda>c r. counted c r example_store) example_store"
proof -
  let ?s1 = "queueTrafficDeltas True [example_delta] (newSpool ''/etc/agent.json'')"
  have "recorded_reports ''n'' example_store = {}" "one_counter example_store" by (simp_all add: recorded_reports_def one_counter_def example_store_def)
  note start = delivery.start [OF this, of Some "''/etc/agent.json''"]
  have run: "delivery Some ''n'' ?s1 example_queued [] {} (\<lambda>c r. counted c r example_store) example_store"
  proof (rule delivery.queue [OF start])
    show "\<forall>d \<in> set [example_delta]. \<forall>c. dsel c d < 2 ^ 63"
    proof (intro ballI allI)
      fix d c assume "d \<in> set [example_delta]"
      then show "dsel c d < 2 ^ 63" by (cases c) (simp_all add: example_delta_def)
    qed
    show "0 + rule_sum c r (map cleanDelta [example_delta]) < 2 ^ 63" for c r
      by (cases c; simp add: example_delta_def cleanDelta_def maxInt64_def)
    have "TrimSpace (rd_RuleID example_delta) = ''r1''" by code_simp
    then show "\<forall>d \<in> set [example_delta]. TrimSpace (rd_RuleID d) \<noteq> [] \<longrightarrow> assigned Some ''n'' example_store (TrimSpace (rd_RuleID d))"
      by (simp add: assigned_def example_store_def)
  qed
  have ids: "mp_TrafficReportID (fst (attachTrafficReport True ''i1'' zero_metrics ?s1)) = ''i1''"
    "mp_TrafficDeltas (fst (attachTrafficReport True ''i1'' zero_metrics ?s1)) = [example_delta]"
    "trimmed ''i1''" "sp_inFlight example_spool = [example_delta]" by code_simp+
  from delivery.attach [OF run _ ids(3) _ prod.collapse [symmetric], of True zero_metrics] ids show ?thesis
    by (simp add: example_spool_def)
qed

text \<open>The report arrives twice and is acknowledged; the counter has moved by its deltas once.\<close>

lemma example_delivered:
  "delivery Some ''n'' (acknowledgeTrafficReport True ''i1'' example_spool) example_queued [(''i1'', [example_delta])] {''i1''}
     (\<lambda>c r. counted c r example_store) example_received"
proof -
  have m: "(mp_TrafficReportID example_message, mp_TrafficDeltas example_message) \<in> set [(''i1'', [example_delta])]"
    by (simp add: example_message_def)
  from delivery.receive [OF delivery.receive [OF example_sent m example_handled(1)] m example_handled(2)] show ?thesis
    by (intro delivery.acknowledge) simp_all
qed


theorem traffic_report_accepted_witness:
  "fst (handleMetrics Some True ''NODE'' ''n'' example_message example_received) = MetricsAck ''i1''"
proof -
  have "FindNodeByID example_received ''n'' = Inr (shapeCheckNode\<lparr>nd_ID := ''n''\<rparr>)"
    by (simp add: FindNodeByID_def example_received_def example_store_def)
  moreover have "counted c r example_store + example_queued c r < 2 ^ 63" for c r
    by (cases c; simp add: counted_def SumRuleTraffic_def sumCounters_def example_store_def example_delta_def cleanDelta_def maxInt64_def)
  ultimately show ?thesis
    using traffic_report_accepted [OF example_delivered, of example_message "shapeCheckNode\<lparr>nd_ID := ''n''\<rparr>"]
    by (simp add: example_message_def)
qed

end
