(* ===== verification/Spec2Isabelle.thy ===== *)
theory Spec2Isabelle
  imports Validator_Rules Metrics_Ledger Traffic_Spool Udp_Accounting Tcp_Proxy Supervisor_Apply
    Config_Compiler Lock_Exclusion Nft_Counters Manager_Transaction
    Config_Convergence Dns_Resolution Rule_Traffic
begin

text \<open>
  Verification of the Prism forwarding platform.

  \<^bold>\<open>The program.\<close> A control plane manages TCP and UDP forwarding rules, and an agent on every node carries them out.
  The path of a rule through the program is the order of this development:

  \<^item> A request of the control API is checked and normalised by a \<open>Validate\<close> function (\<open>pkg/core/validator\<close>).
  \<^item> A rule is admitted when its bindings conflict with no other rule on the node (\<open>pkg/core/domain\<close>).
  \<^item> \<open>BasicAgentConfigCompiler\<close> (\<open>pkg/core/service/config_compiler.go\<close>) turns the rules of the organization into the
    snapshot of one node, in the shape of \<open>pkg/core/agent/config.go\<close>.
  \<^item> The agent plans which engine carries which rule (\<open>pkg/core/dataplane\<close>): its own forwarder, HAProxy or nftables,
    locks the listeners against other instances on the host, and renders the configurations of the managed engines.
  \<^item> The forwarder (\<open>pkg/core/forward\<close>) opens listeners, inspects TLS and PROXY headers, selects a target, proxies TCP
    connections and UDP datagrams, and counts the traffic of every target.
  \<^item> The counts of the three engines become traffic deltas, which the agent spools and delivers to the control plane
    (\<open>pkg/core/agent/traffic_spool.go\<close>), where quotas are evaluated (\<open>pkg/core/domain/quota.go\<close>).

  \<^bold>\<open>The theories.\<close>

  \<^item> \<open>Prelude\<close>, \<open>Go_Strings\<close>, \<open>Go_Net\<close>: what the program uses of Go. \<open>int\<close> and \<open>int64\<close> are integers with the
    wrap-around written out where a value can leave the range, \<open>uint32\<close> is a word; the functions of \<open>strings\<close>,
    \<open>strconv\<close>, \<open>hash/fnv\<close> and \<open>net\<close> (parsing and printing of addresses) are defined over byte strings.
  \<^item> \<open>Domain\<close>: \<open>ValidateInboundBindingConflict\<close>, quota evaluation, \<open>TargetGroup.Select\<close>. Tables built by admitting
    bindings never hand a connection to two rules; the check is symmetric; quota decisions are monotone; \<open>Select\<close>
    returns an available member of best priority for every listing order.
  \<^item> \<open>Agent_Config\<close>: the records of a configuration snapshot, protocol versions, apply errors.
  \<^item> \<open>Validator\<close>, \<open>Validator_Requests\<close>, \<open>Validator_Rules\<close>: one function per request. Normal forms: what is accepted is
    a fixed point of validation, identifier lists are sorted sets, port segments are disjoint and cover the same ports.
  \<^item> \<open>Config_Compiler\<close>: the compiled snapshot holds exactly the executable rules of the node at each port, does not
    depend on the order of the rows read from the store, and stays within the protocol version of the agent.
  \<^item> \<open>Dataplane_Plan\<close>: engine selection, \<open>detectListenerConflicts\<close> and \<open>Manager.plan\<close>, with exactness of both.
    \<open>Dataplane_Locks\<close>, \<open>Lock_Exclusion\<close>: the lock files of \<open>locks.go\<close>; a lock of a live process is never removed.
    \<open>Dataplane_Render\<close>, \<open>Render_Facts\<close>, \<open>Nft_Counters\<close>: the texts given to HAProxy and nftables, that planned rules
    can be rendered, that backends are complete and prefer the targets the forwarder would choose, and that the counter
    line of a rendered nftables rule is read back for that rule. \<open>Dataplane_Metrics\<close>: counter readings and their deltas;
    the locale \<open>counter_source\<close> states what both managed engines share and is interpreted for each.
  \<^item> \<open>Supervisor\<close>, \<open>Supervisor_Apply\<close>: the state of \<open>forward.Supervisor\<close> (listeners and open sockets) and \<open>Apply\<close> as a
    transaction: complete on success, rolled back on failure, successful when binds are granted, and sockets equal to
    listeners in every reachable state.
  \<^item> \<open>Tls_Hello\<close>, \<open>Tls_Hello_Facts\<close>, \<open>Proxy_Protocol\<close>: what is read from the head of a connection. No index leaves the
    buffer, well-formed input is read back, no byte is lost.
  \<^item> \<open>Target_Candidates\<close>, \<open>Target_Selection\<close>, \<open>Tcp_Proxy\<close>, \<open>Udp_Sessions\<close>: the choice of a target and the life of a
    connection or session. \<open>Gauges\<close> and \<open>Udp_Accounting\<close> follow the gauges that least-load scheduling compares, over
    all interleavings of the goroutines around a session table (an \<open>inductive\<close> step relation).
  \<^item> \<open>Traffic_Deltas\<close>, \<open>Forward_Metrics\<close>, \<open>Metrics_Ledger\<close>, \<open>Traffic_Spool\<close>: counters, deltas, the report and the spool. The locales
    \<open>delta_sum\<close> and \<open>delta_merge\<close> state what merging promises and are interpreted for the merges of the forwarder, the
    spool and the data plane. Over all histories traffic is conserved and delivered once.

  \<^bold>\<open>How state and effects are modelled.\<close> A struct is a record with prefixed fields, an operation is a function that returns
  the new state, and a Go error is a value of a sum or option type. Code that runs under a mutex is one step. A map whose
  iteration order matters is iterated in an order given as an argument, and the theorems hold for every order. What the
  outside answers is an argument too: the result of a bind or dial, the bytes a peer sends, the entries of the lock
  directory and whether a process is alive, the output of \<open>nft\<close> and of the HAProxy socket, the digest function. Loops are
  structural recursions; acquiring a lock is tried twice, as in the code, so that no fuel is needed anywhere.

  \<^bold>\<open>What is not modelled.\<close> The SQL of \<open>pkg/core/repo\<close>, HTTP routing, JSON and WebSockets (\<open>handler\<close>,
  \<open>agent/runtime_client.go\<close>), signatures and tokens (\<open>auth\<close>), mails and web hooks (\<open>notification\<close>), the DNS provider clients
  (\<open>dns\<close>), the commands under \<open>cmd\<close> and the web applications are input and output around the parts above. The store transactions of
  \<open>pkg/core/service\<close> beyond the compiler and the life cycle of the HAProxy process are not covered yet. Details maps of API errors and
  the text of log messages are left out.
\<close>

end
